(* ===== verification/Prelude.thy ===== *)
theory Prelude imports Complex_Main "HOL-Library.Multiset" "HOL-Library.AList" begin

text \<open>
  Shared vocabulary of the development: Python errors as values, Python's numeric
  conversions, pandas floats and the pandas series operations the strategies use, the
  list facts that several components need, and the collections of proof hints.

  Floats are idealised: a Python or numpy float is a real number, so rounding error is
  outside the model.  Where the code relies on the special values of numpy (a missing
  value of a rolling window, a division by zero in a vectorised expression) the model
  uses the type \<open>fl\<close>, which has them as constructors; a division of two plain Python
  floats raises on zero and is \<open>py_div\<close>.
\<close>

section \<open>Errors as values\<close>

datatype py_error =
    ZeroDivisionError | ValueError | KeyError | IndexError | TypeError
  | AttributeError | RuntimeError | OverflowError | ModuleNotFoundError | IntegrityError

type_synonym 'a res = "py_error + 'a"

definition rbind :: "'a res \<Rightarrow> ('a \<Rightarrow> 'b res) \<Rightarrow> 'b res" where
  "rbind m f = (case m of Inl e \<Rightarrow> Inl e | Inr x \<Rightarrow> f x)"

lemma rbind_Inr [simp]: "rbind (Inr x) f = f x"
  by (simp add: rbind_def)

lemma rbind_Inl [simp]: "rbind (Inl e) f = Inl e"
  by (simp add: rbind_def)

lemma rbind_eq_Inr_iff: "rbind m f = Inr y \<longleftrightarrow> (\<exists>x. m = Inr x \<and> f x = Inr y)"
  by (simp add: rbind_def split: sum.split)

definition is_ok :: "'a res \<Rightarrow> bool" where
  "is_ok r = (case r of Inl _ \<Rightarrow> False | Inr _ \<Rightarrow> True)"

lemma is_ok_simps [simp]: "is_ok (Inr x)" "\<not> is_ok (Inl e)"
  by (simp_all add: is_ok_def)

lemma is_ok_iff: "is_ok r \<longleftrightarrow> (\<exists>x. r = Inr x)"
  by (simp add: is_ok_def split: sum.split)

definition py_div :: "real \<Rightarrow> real \<Rightarrow> real res" where
  "py_div a b = (if b = 0 then Inl ZeroDivisionError else Inr (a / b))"

lemma py_div_ok [simp]: "b \<noteq> 0 \<Longrightarrow> py_div a b = Inr (a / b)"
  by (simp add: py_div_def)

lemma py_div_zero [simp]: "py_div a 0 = Inl ZeroDivisionError"
  by (simp add: py_div_def)

section \<open>Numeric conversions\<close>

text \<open>\<open>int(x)\<close> truncates towards zero; \<open>round(x, n)\<close> rounds half to even.\<close>

definition py_int :: "real \<Rightarrow> int" where
  "py_int x = (if x < 0 then \<lceil>x\<rceil> else \<lfloor>x\<rfloor>)"

definition round_even :: "real \<Rightarrow> int" where
  "round_even x =
     (let f = \<lfloor>x\<rfloor>; d = x - of_int f in
      if d < 1 / 2 then f else if 1 / 2 < d then f + 1
      else if even f then f else f + 1)"

definition py_round :: "real \<Rightarrow> nat \<Rightarrow> real" where
  "py_round x n = of_int (round_even (x * 10 ^ n)) / 10 ^ n"

lemma py_int_nonneg: "0 \<le> x \<Longrightarrow> 0 \<le> py_int x"
  by (simp add: py_int_def)

lemma py_int_le: "0 \<le> x \<Longrightarrow> of_int (py_int x) \<le> x"
  by (simp add: py_int_def)

lemma py_int_lower: "0 \<le> x \<Longrightarrow> x < of_int (py_int x) + 1"
  by (simp add: py_int_def)

lemma round_even_bounds:
  "x - 1 / 2 \<le> of_int (round_even x)" "of_int (round_even x) \<le> x + 1 / 2"
  using floor_correct [of x] unfolding round_even_def Let_def
  by (simp_all add: field_simps) linarith

lemma round_even_of_int [simp]: "round_even (of_int k) = k"
  by (simp add: round_even_def)

lemma round_even_mono:
  assumes "x \<le> y"
  shows "round_even x \<le> round_even y"
proof (cases "\<lfloor>x\<rfloor> = \<lfloor>y\<rfloor>")
  case True
  with assms show ?thesis by (auto simp: round_even_def Let_def)
next
  case False
  with assms have "\<lfloor>x\<rfloor> + 1 \<le> \<lfloor>y\<rfloor>"
    using floor_mono [OF assms] by simp
  then show ?thesis by (auto simp: round_even_def Let_def)
qed

lemma py_round_mono: "x \<le> y \<Longrightarrow> py_round x n \<le> py_round y n"
  by (simp add: py_round_def divide_right_mono round_even_mono)

lemma py_round_exact: "x * 10 ^ n = of_int k \<Longrightarrow> py_round x n = x"
  by (simp add: py_round_def field_simps)

lemma py_round_0 [simp]: "py_round 0 n = 0"
  using round_even_of_int [of 0] by (simp add: py_round_def)

lemma py_round_of_int: "py_round (of_int k) n = of_int k"
  using round_even_of_int [of "k * 10 ^ n"] by (simp add: py_round_def)

lemma py_round_ge_of_int: "of_int k \<le> x \<Longrightarrow> of_int k \<le> py_round x n"
  by (metis py_round_mono py_round_of_int)

lemma py_round_le_of_int: "x \<le> of_int k \<Longrightarrow> py_round x n \<le> of_int k"
  by (metis py_round_mono py_round_of_int)

lemma py_round_nonneg: "0 \<le> x \<Longrightarrow> 0 \<le> py_round x n"
  using py_round_ge_of_int [of 0 x n] by simp

lemma py_round_error:
  "\<bar>py_round x 2 - x\<bar> \<le> 1 / 200"
  using round_even_bounds [of "x * 10 ^ 2"] unfolding py_round_def abs_le_iff by (simp add: field_simps)

text \<open>Amounts of money in whole cents.\<close>

definition cents :: "real \<Rightarrow> bool" where
  "cents x \<longleftrightarrow> py_round x 2 = x"

lemma cents_py_round [simp]: "cents (py_round x 2)"
  using py_round_exact [of "py_round x 2" 2 "round_even (x * 10 ^ 2)"]
  by (simp add: cents_def) (simp add: py_round_def)

lemma cents_of_int: "cents (of_int k)"
  by (simp add: cents_def py_round_of_int)

lemma cents_close:
  assumes "cents x" "cents y" "\<bar>x - y\<bar> < 1 / 100"
  shows "x = y"
proof -
  obtain i j where ij: "x = of_int i / 100" "y = of_int j / 100"
    using assms(1,2) that [of "round_even (x * 100)" "round_even (y * 100)"] by (simp add: cents_def py_round_def)
  with assms(3) have "\<bar>real_of_int (i - j)\<bar> < 1" by (simp add: abs_less_iff field_simps)
  then have "i = j" by linarith
  then show ?thesis using ij by simp
qed

definition clamp :: "real \<Rightarrow> real \<Rightarrow> real \<Rightarrow> real" where
  "clamp lo hi x = max lo (min hi x)"

lemma clamp_bounds: "lo \<le> hi \<Longrightarrow> lo \<le> clamp lo hi x \<and> clamp lo hi x \<le> hi"
  by (simp add: clamp_def)

section \<open>Sorting as Python does it\<close>

text \<open>
  \<open>sorted(xs, key=f, reverse=True)\<close> is stable also in the descending direction: it
  reverses, sorts and reverses again.
\<close>

definition sort_desc :: "('a \<Rightarrow> 'k::linorder) \<Rightarrow> 'a list \<Rightarrow> 'a list" where
  "sort_desc f xs = rev (sort_key f (rev xs))"

lemma mset_sort_desc [simp]: "mset (sort_desc f xs) = mset xs"
  by (simp add: sort_desc_def)

lemma set_sort_desc [simp]: "set (sort_desc f xs) = set xs"
  by (simp add: sort_desc_def)

lemma length_sort_desc [simp]: "length (sort_desc f xs) = length xs"
  by (simp add: sort_desc_def)

lemma distinct_sort_desc [simp]: "distinct (sort_desc f xs) = distinct xs"
  by (simp add: sort_desc_def)

lemma sorted_sort_desc: "sorted_wrt (\<lambda>x y. f y \<le> f x) (sort_desc f xs)"
proof -
  have "sorted_wrt (\<lambda>x y. f x \<le> f y) (sort_key f (rev xs))"
    using sorted_sort_key [of f "rev xs"] by (simp add: sorted_map)
  then show ?thesis
    unfolding sort_desc_def by (simp add: sorted_wrt_rev)
qed

lemma insort_key_append_max:
  "f x \<le> f r \<Longrightarrow> insort_key f x (xs @ [r]) = insort_key f x xs @ [r]"
  by (induction xs) auto

lemma sort_key_append_max:
  "(\<And>x. x \<in> set xs \<Longrightarrow> f x \<le> f r) \<Longrightarrow> sort_key f (xs @ [r]) = sort_key f xs @ [r]"
  by (induction xs) (simp_all add: insort_key_append_max)

lemma sort_desc_Cons_max:
  "(\<And>x. x \<in> set xs \<Longrightarrow> f x \<le> f r) \<Longrightarrow> sort_desc f (r # xs) = r # sort_desc f xs"
  using sort_key_append_max [of "rev xs" f r] by (simp add: sort_desc_def)

lemma sort_desc_take_ge:
  assumes "x \<in> set (take n (sort_desc f xs))" "y \<in> set (drop n (sort_desc f xs))"
  shows "f y \<le> f x"
  using sorted_sort_desc [of f xs] assms
  by (metis append_take_drop_id sorted_wrt_append)

section \<open>Lists\<close>

lemma sort_Nil_iff [simp]: "sort_key f xs = [] \<longleftrightarrow> xs = []"
  by (metis length_0_conv length_sort)

lemma find_SomeD: "find P xs = Some y \<Longrightarrow> y \<in> set xs \<and> P y"
  by (induction xs) (auto split: if_splits)

lemma find_unique:
  assumes "r \<in> set xs" "P r" "\<forall>x\<in>set xs. P x \<longrightarrow> x = r"
  shows "find P xs = Some r"
proof (cases "find P xs")
  case None
  then show ?thesis using assms(1,2) unfolding find_None_iff by blast
next
  case (Some y)
  then show ?thesis using assms(3) find_SomeD [OF Some] by blast
qed

text \<open>\<open>list(dict.fromkeys(xs))\<close>: duplicates are removed, the first occurrence stays.\<close>

definition dedupe :: "'a list \<Rightarrow> 'a list" where
  "dedupe xs = rev (remdups (rev xs))"

lemma set_dedupe [simp]: "set (dedupe xs) = set xs"
  by (simp add: dedupe_def)

lemma distinct_dedupe [simp]: "distinct (dedupe xs)"
  by (simp add: dedupe_def)

lemma dedupe_Nil_iff [simp]: "dedupe xs = [] \<longleftrightarrow> xs = []"
  by (simp add: dedupe_def)

text \<open>\<open>for r in ys: if r not in acc: acc.append(r)\<close>\<close>

definition append_new :: "'a list \<Rightarrow> 'a list \<Rightarrow> 'a list" where
  "append_new ys acc = fold (\<lambda>r acc. if r \<in> set acc then acc else acc @ [r]) ys acc"

lemma set_append_new [simp]: "set (append_new ys acc) = set acc \<union> set ys"
  unfolding append_new_def by (induction ys arbitrary: acc) auto

lemma length_filter_split:
  "length (filter P xs) + length (filter (\<lambda>x. \<not> P x) xs) = length xs"
  by (induction xs) auto

lemma sum_list_nonneg_map: "(\<And>x. x \<in> set xs \<Longrightarrow> 0 \<le> f x) \<Longrightarrow> 0 \<le> sum_list (map f xs :: real list)"
  by (induction xs) auto

end
