(* ===== verification/Signals.thy ===== *)
theory Signals imports Prelude begin

text \<open>
  The trading signals of \<open>strategy/signals.py\<close> and the contract of a signal gate: a
  component that sees every raw signal and may turn it into another one, but never
  invents a purchase.  Both risk managers are instances of it.
\<close>

datatype signal = BUY | SELL | HOLD

text \<open>The numeric coding of \<open>BaseStrategy.generate_signals\<close>: 1, -1 and 0.\<close>

fun signal_code :: "signal \<Rightarrow> int" where
  "signal_code BUY = 1"
| "signal_code SELL = -1"
| "signal_code HOLD = 0"

lemma signal_code_inj [simp]: "signal_code a = signal_code b \<longleftrightarrow> a = b"
  by (cases a; cases b) auto

definition buys :: "signal list \<Rightarrow> nat" where
  "buys ss = length (filter (\<lambda>s. s = BUY) ss)"

lemma buys_simps [simp]:
  "buys [] = 0" "buys (s # ss) = (if s = BUY then 1 else 0) + buys ss"
  by (simp_all add: buys_def)

locale signal_gate =
  fixes gate :: "'c \<Rightarrow> signal \<Rightarrow> signal"
  assumes no_new_buy: "gate c s = BUY \<Longrightarrow> s = BUY"
begin

text \<open>Over any run, whatever the contexts, at most as many purchases leave the gate as
  entered it, and a run without purchases stays one.\<close>

lemma buys_bound: "buys (map (\<lambda>(c, s). gate c s) css) \<le> buys (map snd css)"
  by (induction css) (auto dest: no_new_buy)

lemma no_buy_preserved:
  "BUY \<notin> set (map snd css) \<Longrightarrow> BUY \<notin> set (map (\<lambda>(c, s). gate c s) css)"
  by (induction css) (auto dest: no_new_buy no_new_buy [OF sym])

end

end
