(* ===== verification/Risk_Manager.thy ===== *)
theory Risk_Manager imports Signals begin

text \<open>
  \<open>risk/risk_manager.py\<close>: the stateless risk manager.  A context is the dictionary the
  caller passes; a missing key reads as 0, as \<open>context.get(key, 0)\<close> does.
\<close>

record risk_config =
  rc_max_position_pct :: real
  rc_stop_loss_pct :: real
  rc_take_profit_pct :: real
  rc_max_drawdown_pct :: real

definition rm_default :: risk_config where
  "rm_default = \<lparr>rc_max_position_pct = 0.6, rc_stop_loss_pct = 0.08,
     rc_take_profit_pct = 0.20, rc_max_drawdown_pct = 0.15\<rparr>"

type_synonym risk_context = "string \<rightharpoonup> real"

definition ctx_get :: "risk_context \<Rightarrow> string \<Rightarrow> real" where
  "ctx_get c k = (case c k of None \<Rightarrow> 0 | Some v \<Rightarrow> v)"

text \<open>The exit rules: an open position beyond its stop loss or its take profit.\<close>

definition rm_exit_due :: "risk_config \<Rightarrow> risk_context \<Rightarrow> bool" where
  "rm_exit_due rm c =
     (let qty = ctx_get c ''position_qty''; cost = ctx_get c ''avg_cost'';
          price = ctx_get c ''current_price'' in
      qty > 0 \<and> price > 0 \<and> cost > 0 \<and>
      (let pnl_pct = (price - cost) / cost in
       pnl_pct \<le> - rc_stop_loss_pct rm \<or> pnl_pct \<ge> rc_take_profit_pct rm))"

definition rm_drawdown_hit :: "risk_config \<Rightarrow> risk_context \<Rightarrow> bool" where
  "rm_drawdown_hit rm c \<longleftrightarrow> ctx_get c ''max_drawdown_pct'' \<le> - rc_max_drawdown_pct rm"

definition rm_position_over :: "risk_config \<Rightarrow> risk_context \<Rightarrow> bool" where
  "rm_position_over rm c =
     (let price = ctx_get c ''current_price''; equity = ctx_get c ''total_equity'' in
      equity > 0 \<and> price > 0 \<and>
      (let available_cash = ctx_get c ''cash'';
           potential_position = available_cash * 0.95 / price;
           potential_value = potential_position * price in
       potential_value / equity > rc_max_position_pct rm))"

definition rm_evaluate :: "risk_config \<Rightarrow> signal \<Rightarrow> risk_context \<Rightarrow> signal" where
  "rm_evaluate rm s c =
     (if rm_exit_due rm c then SELL
      else if rm_drawdown_hit rm c \<and> s = BUY then HOLD
      else if s = BUY \<and> rm_position_over rm c then HOLD
      else if s = BUY \<and> ctx_get c ''position_qty'' > 0 then HOLD
      else s)"

section \<open>Which signals leave the manager\<close>

lemma rm_evaluate_BUY_iff:
  "rm_evaluate rm s c = BUY \<longleftrightarrow>
     s = BUY \<and> \<not> rm_exit_due rm c \<and> \<not> rm_drawdown_hit rm c
     \<and> \<not> rm_position_over rm c \<and> \<not> ctx_get c ''position_qty'' > 0"
  by (auto simp: rm_evaluate_def)

lemma rm_evaluate_SELL_iff:
  "rm_evaluate rm s c = SELL \<longleftrightarrow> rm_exit_due rm c \<or> s = SELL"
  by (auto simp: rm_evaluate_def)

lemma rm_position_over_value:
  "rm_position_over rm c \<longleftrightarrow>
     ctx_get c ''total_equity'' > 0 \<and> ctx_get c ''current_price'' > 0 \<and>
     ctx_get c ''cash'' * 0.95 > rc_max_position_pct rm * ctx_get c ''total_equity''"
  by (auto simp: rm_position_over_def Let_def field_simps)

interpretation rm_gate: signal_gate "\<lambda>c s. rm_evaluate rm s c" for rm
  by unfold_locales (simp add: rm_evaluate_BUY_iff)

text \<open>C27. The admission contract of \<open>RiskManager.evaluate\<close>.  A signal leaves the manager
  as BUY exactly when it entered as BUY, the account is flat, the drawdown is above its
  limit and a purchase with 95 percent of the cash stays within the position limit; it
  leaves as SELL exactly when it entered as SELL or an open position is beyond its stop
  loss or take profit.  Over any run of evaluations the manager lets through no more
  purchases than the strategy asked for.\<close>

theorem rm_evaluate_contract:
  "(rm_evaluate rm s c = BUY \<longleftrightarrow>
      s = BUY \<and> \<not> ctx_get c ''position_qty'' > 0
      \<and> ctx_get c ''max_drawdown_pct'' > - rc_max_drawdown_pct rm
      \<and> \<not> (ctx_get c ''total_equity'' > 0 \<and> ctx_get c ''current_price'' > 0
           \<and> ctx_get c ''cash'' * 0.95 > rc_max_position_pct rm * ctx_get c ''total_equity''))
   \<and> (rm_evaluate rm s c = SELL \<longleftrightarrow> rm_exit_due rm c \<or> s = SELL)
   \<and> buys (map (\<lambda>(c, s). rm_evaluate rm s c) css) \<le> buys (map snd css)"
proof -
  have "rm_exit_due rm c \<Longrightarrow> ctx_get c ''position_qty'' > 0"
    by (simp add: rm_exit_due_def Let_def)
  then have "rm_evaluate rm s c = BUY \<longleftrightarrow>
      s = BUY \<and> \<not> ctx_get c ''position_qty'' > 0 \<and> \<not> rm_drawdown_hit rm c
      \<and> \<not> rm_position_over rm c"
    by (auto simp: rm_evaluate_BUY_iff)
  then show ?thesis
    using rm_gate.buys_bound [of rm css]
    by (auto simp: rm_position_over_value rm_drawdown_hit_def rm_evaluate_SELL_iff)
qed

text \<open>With any position limit below 95 percent, the default 60 percent included, a flat
  account whose equity is all cash never gets a purchase through: the check sizes every
  purchase at 95 percent of the cash.\<close>

theorem rm_flat_account_never_buys:
  assumes "rc_max_position_pct rm < 0.95"
    and "ctx_get c ''cash'' = ctx_get c ''total_equity''" "ctx_get c ''total_equity'' > 0"
    and "ctx_get c ''current_price'' > 0"
  shows "rm_evaluate rm s c \<noteq> BUY"
proof -
  have "rc_max_position_pct rm * ctx_get c ''total_equity'' < 0.95 * ctx_get c ''total_equity''"
    using assms(1,3) by (rule mult_strict_right_mono)
  then have "rm_position_over rm c"
    using assms by (simp add: rm_position_over_value mult.commute)
  then show ?thesis by (simp add: rm_evaluate_BUY_iff)
qed

theorem rm_flat_account_never_buys_witness:
  "rm_evaluate rm_default BUY
     [''cash'' \<mapsto> 100000, ''total_equity'' \<mapsto> 100000, ''current_price'' \<mapsto> 25] \<noteq> BUY"
  by (rule rm_flat_account_never_buys) (simp_all add: rm_default_def ctx_get_def)

end
