(* ===== verification/Enhanced_Risk.thy ===== *)
theory Enhanced_Risk imports Signals begin

text \<open>
  \<open>risk/enhanced_risk_manager.py\<close>: the stateful risk manager.  The manager's object is
  the record \<open>erm\<close>; every method takes it and returns it updated.  \<open>today\<close> is the date
  string that \<open>datetime.now()\<close> gives.  \<open>evaluate\<close> returns the manager also when it raises,
  because the mutations made before the exception stay.
\<close>

section \<open>State\<close>

record position =
  pos_symbol :: string
  pos_qty :: real
  pos_avg_cost :: real
  pos_entry_date :: "string option"

definition market_value :: "position \<Rightarrow> real" where
  "market_value p = pos_qty p * pos_avg_cost p"

definition update_pnl :: "position \<Rightarrow> real \<Rightarrow> real \<times> real" where
  "update_pnl p price =
     (if pos_qty p = 0 then (0, 0)
      else ((price - pos_avg_cost p) * pos_qty p,
            if pos_avg_cost p > 0 then (price - pos_avg_cost p) / pos_avg_cost p else 0))"

text \<open>The dictionary of positions is an association list with distinct keys.\<close>

record risk_state =
  total_equity :: real
  rs_cash :: real
  positions :: "(string \<times> position) list"
  daily_pnl :: real
  total_pnl :: real

definition total_position_value :: "risk_state \<Rightarrow> real" where
  "total_position_value st = sum_list (map (\<lambda>(k, p). market_value p) (positions st))"

definition total_value :: "risk_state \<Rightarrow> real" where
  "total_value st = rs_cash st + total_position_value st"

record erm =
  max_position_pct :: real
  max_total_position_pct :: real
  min_cash_reserve_pct :: real
  stop_loss_pct :: real
  take_profit_pct :: real
  trailing_stop_pct :: real
  max_drawdown_pct :: real
  max_daily_loss_pct :: real
  max_trades_per_day :: int
  use_volatility_stop :: bool
  volatility_period :: int
  volatility_stop_multiplier :: real
  er_state :: risk_state
  trades_today :: int
  last_trade_date :: "string option"
  peak_equity :: real
  high_prices :: "string \<rightharpoonup> real"

definition init_risk_state :: risk_state where
  "init_risk_state = \<lparr>total_equity = 100000, rs_cash = 100000, positions = [],
     daily_pnl = 0, total_pnl = 0\<rparr>"

definition er_default :: erm where
  "er_default = \<lparr>max_position_pct = 0.6, max_total_position_pct = 0.9,
     min_cash_reserve_pct = 0.1, stop_loss_pct = 0.08, take_profit_pct = 0.20,
     trailing_stop_pct = 0.05, max_drawdown_pct = 0.15, max_daily_loss_pct = 0.05,
     max_trades_per_day = 3, use_volatility_stop = True, volatility_period = 20,
     volatility_stop_multiplier = 2.0, er_state = init_risk_state, trades_today = 0,
     last_trade_date = None, peak_equity = 100000, high_prices = Map.empty\<rparr>"

section \<open>Operations\<close>

definition er_new_day :: "string \<Rightarrow> erm \<Rightarrow> erm" where
  "er_new_day today m =
     (if last_trade_date m \<noteq> Some today
      then m\<lparr>trades_today := 0, last_trade_date := Some today\<rparr> else m)"

text \<open>\<open>update_state\<close>: every argument may be missing.  \<open>total_equity\<close> in the last branch is
  the argument, and a missing or zero one makes the profit 0.\<close>

definition er_update_state ::
  "string \<Rightarrow> real option \<Rightarrow> real option \<Rightarrow> (string \<times> position) list option
   \<Rightarrow> real option \<Rightarrow> erm \<Rightarrow> erm" where
  "er_update_state today equity cash ps dpnl m =
     (let m1 = (case equity of None \<Rightarrow> m
                | Some e \<Rightarrow> m\<lparr>er_state := (er_state m)\<lparr>total_equity := e\<rparr>,
                              peak_equity := (if e > peak_equity m then e else peak_equity m)\<rparr>);
          m2 = (case cash of None \<Rightarrow> m1
                | Some c \<Rightarrow> m1\<lparr>er_state := (er_state m1)\<lparr>rs_cash := c\<rparr>\<rparr>);
          m3 = (case ps of None \<Rightarrow> m2
                | Some p \<Rightarrow> m2\<lparr>er_state := (er_state m2)\<lparr>positions := p\<rparr>\<rparr>);
          m4 = (case dpnl of None \<Rightarrow> m3
                | Some d \<Rightarrow> m3\<lparr>er_state := (er_state m3)\<lparr>daily_pnl := d,
                    total_pnl := (case equity of None \<Rightarrow> 0
                                  | Some e \<Rightarrow> if e = 0 then 0 else e - 100000)\<rparr>\<rparr>)
      in er_new_day today m4)"

definition er_position :: "erm \<Rightarrow> string \<Rightarrow> position option" where
  "er_position m sy = map_of (positions (er_state m)) sy"

text \<open>Step 3 of \<open>evaluate\<close>: is a purchase blocked by the exposure or the cash reserve?\<close>

definition er_exposure_block :: "erm \<Rightarrow> string \<Rightarrow> real \<Rightarrow> bool res" where
  "er_exposure_block m sy price =
     (let st = er_state m;
          current_position_value =
            (case er_position m sy of None \<Rightarrow> 0 | Some p \<Rightarrow> market_value p);
          new_position_value = current_position_value + price * 100 in
      rbind (py_div (total_position_value st + new_position_value) (total_value st))
        (\<lambda>total_position_pct.
           if total_position_pct > max_total_position_pct m then Inr True
           else rbind (py_div (rs_cash st) (total_value st))
                  (\<lambda>reserve. Inr (reserve < min_cash_reserve_pct m))))"

text \<open>Step 4: the exit rules on an open position, with the high price they keep.\<close>

definition er_track_high :: "string \<Rightarrow> real \<Rightarrow> erm \<Rightarrow> erm" where
  "er_track_high sy price m =
     (case high_prices m sy of
        None \<Rightarrow> m\<lparr>high_prices := (high_prices m)(sy \<mapsto> price)\<rparr>
      | Some h \<Rightarrow> if price > h then m\<lparr>high_prices := (high_prices m)(sy \<mapsto> price)\<rparr> else m)"

definition er_exit_due :: "erm \<Rightarrow> position \<Rightarrow> string \<Rightarrow> real \<Rightarrow> bool" where
  "er_exit_due m p sy price =
     (let pnl_pct = snd (update_pnl p price);
          high = (case high_prices m sy of None \<Rightarrow> price | Some h \<Rightarrow> h) in
      (trailing_stop_pct m > 0 \<and> price < high * (1 - trailing_stop_pct m))
      \<or> pnl_pct \<le> - stop_loss_pct m \<or> pnl_pct \<ge> take_profit_pct m)"

definition er_count_trade :: "erm \<Rightarrow> erm" where
  "er_count_trade m = m\<lparr>trades_today := trades_today m + 1\<rparr>"

text \<open>Steps 5 to 8: drawdown, daily loss, one position per symbol, nothing to sell.\<close>

definition er_final_checks :: "erm \<Rightarrow> signal \<Rightarrow> position option \<Rightarrow> erm \<times> signal res" where
  "er_final_checks m s pos =
     (let st = er_state m in
      case py_div (peak_equity m - total_equity st) (peak_equity m) of
        Inl e \<Rightarrow> (m, Inl e)
      | Inr current_drawdown \<Rightarrow>
          if current_drawdown \<ge> max_drawdown_pct m \<and> s = BUY then (m, Inr HOLD)
          else (case py_div (- daily_pnl st) (total_equity st) of
            Inl e \<Rightarrow> (m, Inl e)
          | Inr daily_loss_pct \<Rightarrow>
              if daily_loss_pct \<ge> max_daily_loss_pct m \<and> s = BUY then (m, Inr HOLD)
              else if s = BUY \<and> (case pos of None \<Rightarrow> False | Some p \<Rightarrow> pos_qty p > 0)
                then (m, Inr HOLD)
              else if s = SELL \<and> (case pos of None \<Rightarrow> True | Some p \<Rightarrow> pos_qty p = 0)
                then (m, Inr HOLD)
              else ((if s = BUY \<or> s = SELL then er_count_trade m else m), Inr s)))"

definition er_after_entry :: "erm \<Rightarrow> signal \<Rightarrow> string \<Rightarrow> real \<Rightarrow> erm \<times> signal res" where
  "er_after_entry m s sy price =
     (case er_position m sy of
        Some p \<Rightarrow>
          if pos_qty p > 0 then
            (let m' = er_track_high sy price m in
             if er_exit_due m' p sy price then (er_count_trade m', Inr SELL)
             else er_final_checks m' s (Some p))
          else er_final_checks m s (Some p)
      | None \<Rightarrow> er_final_checks m s None)"

definition er_evaluate ::
  "string \<Rightarrow> erm \<Rightarrow> signal \<Rightarrow> string \<Rightarrow> real \<Rightarrow> erm \<times> signal res" where
  "er_evaluate today m0 s sy price =
     (let m = er_new_day today m0 in
      if trades_today m \<ge> max_trades_per_day m \<and> s = BUY then (m, Inr HOLD)
      else if s = BUY then
        (case er_exposure_block m sy price of
           Inl e \<Rightarrow> (m, Inl e)
         | Inr True \<Rightarrow> (m, Inr HOLD)
         | Inr False \<Rightarrow> er_after_entry m s sy price)
      else er_after_entry m s sy price)"

definition er_get_position_size :: "erm \<Rightarrow> real \<Rightarrow> signal \<Rightarrow> int res" where
  "er_get_position_size m price s =
     (if s \<noteq> BUY then Inr 0
      else
        (let max_value = total_value (er_state m) * max_position_pct m;
             available_cash = rs_cash (er_state m) * (1 - min_cash_reserve_pct m);
             max_buy_value = min max_value available_cash in
         rbind (py_div max_buy_value price)
           (\<lambda>q. Inr (max (py_int (q / 100) * 100) 0))))"


section \<open>What the operations keep\<close>

lemma er_new_day_simps [simp]:
  "er_state (er_new_day t m) = er_state m" "peak_equity (er_new_day t m) = peak_equity m"
  "max_trades_per_day (er_new_day t m) = max_trades_per_day m"
  "last_trade_date (er_new_day t m) = Some t"
  by (simp_all add: er_new_day_def)

lemma er_new_day_same [simp]: "last_trade_date m = Some t \<Longrightarrow> er_new_day t m = m"
  by (simp add: er_new_day_def)

lemma er_track_high_simps [simp]:
  "er_state (er_track_high sy p m) = er_state m"
  "peak_equity (er_track_high sy p m) = peak_equity m"
  "max_trades_per_day (er_track_high sy p m) = max_trades_per_day m"
  "max_drawdown_pct (er_track_high sy p m) = max_drawdown_pct m"
  "max_daily_loss_pct (er_track_high sy p m) = max_daily_loss_pct m"
  "last_trade_date (er_track_high sy p m) = last_trade_date m"
  "trades_today (er_track_high sy p m) = trades_today m"
  by (simp_all add: er_track_high_def split: option.split)

lemma er_count_trade_simps [simp]:
  "er_state (er_count_trade m) = er_state m" "peak_equity (er_count_trade m) = peak_equity m"
  "max_trades_per_day (er_count_trade m) = max_trades_per_day m"
  "last_trade_date (er_count_trade m) = last_trade_date m"
  "trades_today (er_count_trade m) = trades_today m + 1"
  by (simp_all add: er_count_trade_def)

text \<open>The frame of a whole evaluation: everything but the counter and the high prices.\<close>

definition er_same :: "erm \<Rightarrow> erm \<Rightarrow> bool" where
  "er_same m m' \<longleftrightarrow> er_state m' = er_state m \<and> peak_equity m' = peak_equity m
     \<and> max_trades_per_day m' = max_trades_per_day m \<and> last_trade_date m' = last_trade_date m
     \<and> trades_today m \<le> trades_today m'"

lemma er_same_refl [simp]: "er_same m m"
  by (simp add: er_same_def)

lemma er_final_checks_same: "er_same m (fst (er_final_checks m s pos))"
  by (auto simp: er_final_checks_def er_same_def Let_def split: sum.split)

lemma er_after_entry_same: "er_same m (fst (er_after_entry m s sy price))"
proof -
  have track: "er_same m (fst (er_final_checks (er_track_high sy price m) s pos))" for pos
    using er_final_checks_same [of "er_track_high sy price m" s pos] by (simp add: er_same_def)
  then show ?thesis
    by (auto simp: er_after_entry_def Let_def er_final_checks_same split: option.split)
      (simp add: er_same_def)
qed

lemma er_evaluate_same: "er_same (er_new_day today m) (fst (er_evaluate today m s sy price))"
  by (auto simp: er_evaluate_def Let_def er_after_entry_same split: sum.split bool.split)

section \<open>Purchases\<close>

lemma er_final_checks_BUY:
  assumes "er_final_checks m s pos = (m', Inr BUY)"
  shows "s = BUY" "m' = er_count_trade m"
    "(peak_equity m - total_equity (er_state m)) / peak_equity m < max_drawdown_pct m"
    "- daily_pnl (er_state m) / total_equity (er_state m) < max_daily_loss_pct m"
    "case pos of None \<Rightarrow> True | Some p \<Rightarrow> pos_qty p \<le> 0"
  using assms
  by (auto simp: er_final_checks_def py_div_def Let_def
           split: if_splits sum.splits option.splits)

definition er_flat :: "erm \<Rightarrow> string \<Rightarrow> bool" where
  "er_flat m sy = (case er_position m sy of None \<Rightarrow> True | Some p \<Rightarrow> pos_qty p \<le> 0)"

lemma er_after_entry_BUY:
  assumes "er_after_entry m s sy price = (m', Inr BUY)"
  shows "s = BUY" "m' = er_count_trade m" "er_flat m sy"
    "(peak_equity m - total_equity (er_state m)) / peak_equity m < max_drawdown_pct m"
    "- daily_pnl (er_state m) / total_equity (er_state m) < max_daily_loss_pct m"
proof -
  have "er_final_checks m s (er_position m sy) = (m', Inr BUY) \<and> er_flat m sy"
  proof (cases "er_position m sy")
    case (Some p)
    show ?thesis
    proof (cases "pos_qty p > 0")
      case True
      with assms Some have "er_final_checks (er_track_high sy price m) s (Some p) = (m', Inr BUY)"
        by (auto simp: er_after_entry_def Let_def split: if_splits)
      from er_final_checks_BUY(5) [OF this] True show ?thesis by simp
    qed (use assms Some in \<open>simp add: er_after_entry_def er_flat_def\<close>)
  qed (use assms in \<open>simp add: er_after_entry_def er_flat_def\<close>)
  then show "s = BUY" "m' = er_count_trade m" "er_flat m sy"
    "(peak_equity m - total_equity (er_state m)) / peak_equity m < max_drawdown_pct m"
    "- daily_pnl (er_state m) / total_equity (er_state m) < max_daily_loss_pct m"
    using er_final_checks_BUY by blast+
qed

lemma er_exposure_block_False:
  "er_exposure_block m sy price = Inr False \<Longrightarrow>
     rs_cash (er_state m) / total_value (er_state m) \<ge> min_cash_reserve_pct m
     \<and> (total_position_value (er_state m)
        + ((case er_position m sy of None \<Rightarrow> 0 | Some p \<Rightarrow> market_value p) + price * 100))
       / total_value (er_state m) \<le> max_total_position_pct m"
  by (auto simp: er_exposure_block_def Let_def rbind_def py_div_def split: if_splits)

lemma er_evaluate_BUY:
  assumes "er_evaluate today m s sy price = (m', Inr BUY)"
  defines "n \<equiv> er_new_day today m"
  shows "s = BUY" "trades_today n < max_trades_per_day n" "m' = er_count_trade n"
    "er_exposure_block n sy price = Inr False" "er_flat n sy"
    "(peak_equity n - total_equity (er_state n)) / peak_equity n < max_drawdown_pct n"
    "- daily_pnl (er_state n) / total_equity (er_state n) < max_daily_loss_pct n"
proof -
  have "er_after_entry n s sy price = (m', Inr BUY)"
    using assms by (auto simp: er_evaluate_def Let_def split: if_splits sum.splits bool.splits)
  note entry = er_after_entry_BUY [OF this]
  from entry show "s = BUY" "m' = er_count_trade n" "er_flat n sy"
    "(peak_equity n - total_equity (er_state n)) / peak_equity n < max_drawdown_pct n"
    "- daily_pnl (er_state n) / total_equity (er_state n) < max_daily_loss_pct n"
    by simp_all
  with assms show "trades_today n < max_trades_per_day n"
    "er_exposure_block n sy price = Inr False"
    by (auto simp: er_evaluate_def Let_def split: if_splits sum.splits bool.splits)
qed

definition er_gate :: "(string \<times> erm \<times> string \<times> real) \<Rightarrow> signal \<Rightarrow> signal" where
  "er_gate = (\<lambda>(today, m, sy, price) s.
     case snd (er_evaluate today m s sy price) of Inl _ \<Rightarrow> HOLD | Inr s' \<Rightarrow> s')"

interpretation er_signal_gate: signal_gate er_gate
proof unfold_locales
  fix c s assume "er_gate c s = BUY"
  then obtain today m sy price m' where "er_evaluate today m s sy price = (m', Inr BUY)"
    unfolding er_gate_def by (cases c) (auto split: sum.splits, metis prod.collapse)
  then show "s = BUY" by (rule er_evaluate_BUY)
qed


section \<open>Contracts\<close>

text \<open>C11. The purchase contract of \<open>EnhancedRiskManager.evaluate\<close>: a BUY leaves only for a
  BUY signal on a flat symbol, with today's trade counter below its limit (and then one
  higher), the cash reserve within its limit, the total exposure within its limit with the
  hundred shares counted in that the check assumes, and drawdown and daily loss strictly below
  theirs.\<close>

theorem er_purchase_contract:
  assumes "er_evaluate today m s sy price = (m', Inr BUY)"
  shows "s = BUY \<and> er_flat m sy
    \<and> trades_today m' = trades_today (er_new_day today m) + 1
    \<and> trades_today m' \<le> max_trades_per_day m
    \<and> rs_cash (er_state m) / total_value (er_state m)
        \<ge> min_cash_reserve_pct (er_new_day today m)
    \<and> (total_position_value (er_state m)
         + ((case er_position m sy of None \<Rightarrow> 0 | Some p \<Rightarrow> market_value p) + price * 100))
       / total_value (er_state m) \<le> max_total_position_pct (er_new_day today m)
    \<and> (peak_equity m - total_equity (er_state m)) / peak_equity m
        < max_drawdown_pct (er_new_day today m)
    \<and> - daily_pnl (er_state m) / total_equity (er_state m)
        < max_daily_loss_pct (er_new_day today m)"
proof -
  note buy = er_evaluate_BUY [OF assms]
  from er_exposure_block_False [OF buy(4)] buy show ?thesis
    by (simp add: er_flat_def er_position_def)
qed

theorem er_purchase_contract_witness:
  "trades_today (er_count_trade (er_new_day ''2026-01-05'' er_default)) \<le> 3"
proof -
  have "er_evaluate ''2026-01-05'' er_default BUY ''2800.HK'' 20
      = (er_count_trade (er_new_day ''2026-01-05'' er_default), Inr BUY)"
    by (simp add: er_evaluate_def er_new_day_def er_default_def init_risk_state_def
        er_exposure_block_def total_value_def total_position_value_def er_position_def
        er_after_entry_def er_final_checks_def py_div_def Let_def)
  from er_purchase_contract [OF this] show ?thesis by (simp add: er_default_def)
qed

text \<open>A day at the manager: evaluations and state updates in any order.\<close>

datatype er_op =
    EvalOp signal string real
  | UpdateOp "real option" "real option" "(string \<times> position) list option" "real option"

fun er_day :: "string \<Rightarrow> erm \<Rightarrow> er_op list \<Rightarrow> erm \<times> signal list" where
  "er_day today m [] = (m, [])"
| "er_day today m (EvalOp s sy price # ops) =
     (let (m', r) = er_evaluate today m s sy price; (m'', out) = er_day today m' ops
      in (m'', (case r of Inl _ \<Rightarrow> out | Inr s' \<Rightarrow> s' # out)))"
| "er_day today m (UpdateOp e c ps d # ops) = er_day today (er_update_state today e c ps d m) ops"

lemma er_update_state_simps [simp]:
  "max_trades_per_day (er_update_state t e c ps d m) = max_trades_per_day m"
  "last_trade_date (er_update_state t e c ps d m) = Some t"
  "last_trade_date m = Some t \<Longrightarrow> trades_today (er_update_state t e c ps d m) = trades_today m"
  by (auto simp: er_update_state_def er_new_day_def Let_def split: option.splits)

lemma er_evaluate_budget:
  assumes "last_trade_date m = Some t" "er_evaluate t m s sy price = (m', r)"
  shows "last_trade_date m' = Some t" "max_trades_per_day m' = max_trades_per_day m"
    "trades_today m \<le> trades_today m'"
    "r = Inr BUY \<Longrightarrow> trades_today m' = trades_today m + 1 \<and> trades_today m' \<le> max_trades_per_day m"
proof -
  from er_evaluate_same [of t m s sy price] assms
  show "last_trade_date m' = Some t" "max_trades_per_day m' = max_trades_per_day m"
    "trades_today m \<le> trades_today m'"
    by (simp_all add: er_same_def)
  show "trades_today m' = trades_today m + 1 \<and> trades_today m' \<le> max_trades_per_day m"
    if "r = Inr BUY"
    using er_evaluate_BUY(2,3) [of t m s sy price m'] assms that by simp
qed

lemma er_day_buys:
  assumes "last_trade_date m = Some today"
  shows "int (buys (snd (er_day today m ops))) \<le> max 0 (max_trades_per_day m - trades_today m)"
  using assms
proof (induction today m ops rule: er_day.induct)
  case (2 today m s sy price ops)
  obtain m' r where ev: "er_evaluate today m s sy price = (m', r)" by fastforce
  note budget = er_evaluate_budget [OF "2.prems" ev]
  have "int (buys (snd (er_day today m' ops))) \<le> max 0 (max_trades_per_day m' - trades_today m')"
    using "2.IH" ev budget(1) by simp
  with ev budget show ?case
    by (cases "r = Inr BUY") (auto split: prod.splits sum.splits)
qed auto

text \<open>The daily limit holds over a whole day: whatever the order of evaluations and
  state updates, prices, symbols and signals, a manager that starts the day lets through
  at most \<open>max_trades_per_day\<close> purchases.  Forced exits are outside the limit.\<close>

theorem er_daily_purchase_limit:
  assumes "last_trade_date m \<noteq> Some today" "0 \<le> max_trades_per_day m"
  shows "int (buys (snd (er_day today (er_new_day today m) ops))) \<le> max_trades_per_day m"
proof -
  have "trades_today (er_new_day today m) = 0" using assms(1) by (simp add: er_new_day_def)
  then show ?thesis
    using er_day_buys [of "er_new_day today m" today ops] assms(2) by simp
qed

theorem er_daily_purchase_limit_witness:
  "int (buys (snd (er_day ''2026-01-05'' (er_new_day ''2026-01-05'' er_default)
     (replicate 5 (EvalOp BUY ''2800.HK'' 20))))) \<le> 3"
  using er_daily_purchase_limit [of er_default "''2026-01-05''"
      "replicate 5 (EvalOp BUY ''2800.HK'' 20)"]
  by (simp add: er_default_def)

text \<open>The suggested size is a whole number of 100-share lots, never negative, and its
  cost stays within the position limit and within the cash above the reserve; it fails only
  for a price of zero.\<close>

theorem er_position_size_bounds:
  assumes "0 < price"
  shows "\<exists>q. er_get_position_size m price s = Inr q \<and> 0 \<le> q \<and> 100 dvd q
    \<and> (q > 0 \<longrightarrow> s = BUY
         \<and> of_int q * price \<le> total_value (er_state m) * max_position_pct m
         \<and> of_int q * price \<le> rs_cash (er_state m) * (1 - min_cash_reserve_pct m))"
proof (cases "s = BUY")
  case True
  define b where "b = min (total_value (er_state m) * max_position_pct m)
                          (rs_cash (er_state m) * (1 - min_cash_reserve_pct m))"
  define k where "k = py_int (b / price / 100)"
  have size: "er_get_position_size m price s = Inr (max (k * 100) 0)"
    using True assms by (simp add: er_get_position_size_def b_def k_def Let_def)
  have "of_int (k * 100) * price \<le> b" if "k > 0"
  proof -
    have "0 \<le> b / price / 100"
      using that unfolding k_def py_int_def by (auto split: if_splits)
    then have "of_int k \<le> b / price / 100"
      unfolding k_def by (rule py_int_le)
    then show ?thesis using assms by (simp add: field_simps)
  qed
  with size True show ?thesis by (auto simp: b_def max_def)
qed (simp add: er_get_position_size_def)

theorem er_position_size_bounds_witness:
  "\<exists>q. er_get_position_size er_default 25 BUY = Inr q \<and> 100 dvd q"
  using er_position_size_bounds [of 25 er_default BUY] by auto

text \<open>A BUY signal hides an exit: when the exposure check already rejects a purchase, the
  method returns HOLD before it looks at the stop losses, so an open position far beyond
  its stop loss is kept as long as the strategy says BUY.\<close>

theorem er_buy_signal_hides_stop_loss:
  assumes "er_position m sy = Some p" "er_exit_due (er_track_high sy price m) p sy price"
    and "er_exposure_block m sy price = Inr True" "last_trade_date m = Some today"
  shows "snd (er_evaluate today m BUY sy price) = Inr HOLD
    \<and> (pos_qty p > 0 \<longrightarrow> snd (er_evaluate today m HOLD sy price) = Inr SELL)"
  using assms by (auto simp: er_evaluate_def er_after_entry_def Let_def)

definition er_underwater :: erm where
  "er_underwater = er_default\<lparr>last_trade_date := Some ''2026-01-05'',
     er_state := \<lparr>total_equity = 90000, rs_cash = 10000,
       positions = [(''2800.HK'', \<lparr>pos_symbol = ''2800.HK'', pos_qty = 4000, pos_avg_cost = 20,
                      pos_entry_date = None\<rparr>)], daily_pnl = 0, total_pnl = 0\<rparr>\<rparr>"

theorem er_buy_signal_hides_stop_loss_witness:
  "snd (er_evaluate ''2026-01-05'' er_underwater BUY ''2800.HK'' 10) = Inr HOLD
   \<and> snd (er_evaluate ''2026-01-05'' er_underwater HOLD ''2800.HK'' 10) = Inr SELL"
proof -
  let ?p = "\<lparr>pos_symbol = ''2800.HK'', pos_qty = 4000, pos_avg_cost = 20, pos_entry_date = None\<rparr>"
  note defs = er_underwater_def er_default_def er_position_def er_exit_due_def update_pnl_def
    er_track_high_def er_exposure_block_def total_value_def total_position_value_def
    market_value_def py_div_def
  show ?thesis
    using er_buy_signal_hides_stop_loss [of er_underwater "''2800.HK''" ?p 10 "''2026-01-05''"]
    by (simp add: defs Let_def)
qed

definition er_peak_ok :: "erm \<Rightarrow> bool" where
  "er_peak_ok m \<longleftrightarrow> total_equity (er_state m) \<le> peak_equity m \<and> 0 < peak_equity m"

text \<open>The peak equity is a high-water mark: every operation keeps it at or above the
  equity and never lowers it, so with a positive peak the drawdown is never negative.\<close>

theorem er_peak_invariant:
  assumes "er_peak_ok m"
  shows "er_peak_ok (fst (er_day today m ops)) \<and> peak_equity m \<le> peak_equity (fst (er_day today m ops))"
  using assms
proof (induction today m ops rule: er_day.induct)
  case (2 today m s sy price ops)
  obtain m' r where ev: "er_evaluate today m s sy price = (m', r)" by fastforce
  then have "er_peak_ok m'" "peak_equity m' = peak_equity m"
    using er_evaluate_same [of today m s sy price] "2.prems" by (auto simp: er_same_def er_peak_ok_def)
  with "2.IH" ev show ?case by (auto split: prod.splits)
next
  case (3 today m e c ps d ops)
  have "er_peak_ok (er_update_state today e c ps d m)
      \<and> peak_equity m \<le> peak_equity (er_update_state today e c ps d m)"
    using "3.prems" by (auto simp: er_update_state_def er_peak_ok_def Let_def split: option.splits)
  with "3.IH" show ?case by auto
qed simp

theorem er_peak_invariant_witness:
  "er_peak_ok (fst (er_day ''2026-01-05'' er_default [UpdateOp (Some 120000) None None None]))"
proof -
  have "er_peak_ok er_default" by (simp add: er_peak_ok_def er_default_def init_risk_state_def)
  from er_peak_invariant [OF this] show ?thesis by blast
qed

end
