(* ===== verification/Settings.thy ===== *)
theory Settings imports Prelude begin

text \<open>
  The parts of \<open>config/settings.py\<close> that the modelled components read, with the
  repository's defaults.
\<close>

record hard_gates_settings =
  hg_max_drawdown :: real
  hg_min_data_years :: int
  hg_required_assumptions :: "string list"

definition hard_gates_default :: hard_gates_settings where
  "hard_gates_default = \<lparr>hg_max_drawdown = 0.15, hg_min_data_years = 3,
     hg_required_assumptions = [''slippage'', ''commission'', ''tax'', ''dividend_withholding'']\<rparr>"

record yellow_flags_settings =
  yf_warning_low :: real
  yf_warning_high :: real
  yf_suspicious_cagr :: real
  yf_sensitivity :: real
  yf_first_live :: bool

definition yellow_flags_default :: yellow_flags_settings where
  "yellow_flags_default = \<lparr>yf_warning_low = 0.12, yf_warning_high = 0.15,
     yf_suspicious_cagr = 0.40, yf_sensitivity = 0.50, yf_first_live = True\<rparr>"

record trading_costs_settings =
  tc_slippage_bps :: real
  tc_commission_rate :: real
  tc_tax_rate :: real
  tc_dividend_withholding :: real

definition trading_costs_default :: trading_costs_settings where
  "trading_costs_default = \<lparr>tc_slippage_bps = 5, tc_commission_rate = 0.0003,
     tc_tax_rate = 0.001, tc_dividend_withholding = 0\<rparr>"

record events_settings =
  es_macro_provider :: string
  es_fallback_mode :: string
  es_fallback_max_age_days :: int
  es_expected_sync_interval_minutes :: int

definition events_default :: events_settings where
  "events_default = \<lparr>es_macro_provider = ''demo_macro'', es_fallback_mode = ''reuse_last_good'',
     es_fallback_max_age_days = 14, es_expected_sync_interval_minutes = 60\<rparr>"

record governance_settings =
  promote_threshold :: real
  keep_threshold :: real
  challenger_min_delta :: real
  paper_slot_count :: int
  cooldown_days :: int
  require_backtest_before_paper :: bool
  candidate_retention_limit :: int
  candidate_max_age_days :: int
  rejected_retention_days :: int
  live_drawdown_pause :: real
  live_drawdown_rollback :: real
  acceptance_min_days :: int
  acceptance_min_fill_rate :: real
  acceptance_max_drawdown :: real
  block_promotion_on_macro_degrade :: bool

definition governance_default :: governance_settings where
  "governance_default = \<lparr>promote_threshold = 75, keep_threshold = 68, challenger_min_delta = 3,
     paper_slot_count = 3, cooldown_days = 5, require_backtest_before_paper = True,
     candidate_retention_limit = 24, candidate_max_age_days = 14, rejected_retention_days = 3,
     live_drawdown_pause = 0.12, live_drawdown_rollback = 0.15, acceptance_min_days = 7,
     acceptance_min_fill_rate = 0.6, acceptance_max_drawdown = 0.08,
     block_promotion_on_macro_degrade = True\<rparr>"

record universe_settings =
  un_mode :: string
  un_top_n :: int
  un_research_batch_size :: int
  un_min_list_days :: int
  un_exclude_st :: bool
  un_include_gem :: bool
  un_min_turnover_millions :: real
  un_max_lot_cost_ratio :: real

definition universe_default :: universe_settings where
  "universe_default = \<lparr>un_mode = ''dynamic_hk'', un_top_n = 20, un_research_batch_size = 5,
     un_min_list_days = 120, un_exclude_st = True, un_include_gem = True,
     un_min_turnover_millions = 200, un_max_lot_cost_ratio = 0.25\<rparr>"

record portfolio_settings =
  pf_symbols :: "string list"
  pf_default_capital :: int
  pf_base_currency :: string

definition portfolio_default :: portfolio_settings where
  "portfolio_default = \<lparr>pf_symbols = [''2800.HK''], pf_default_capital = 100000, pf_base_currency = ''HKD''\<rparr>"

end
