(* ===== verification/Review_Gate.thy ===== *)
theory Review_Gate imports Settings begin

text \<open>
  \<open>risk/reviewer.py\<close> and its data in \<open>models.py\<close>: the review of a backtest result.  The
  messages of the review are constructors that carry the values they print.
\<close>

datatype verdict = GO | NO_GO | REVISE

record backtest_result =
  cagr :: real
  max_drawdown :: real
  sharpe :: real
  annual_turnover :: real
  data_years :: real
  assumptions :: "string list"
  param_sensitivity :: "real option"
  is_first_live :: bool

text \<open>The field constraints of the pydantic model.\<close>

definition valid_result :: "backtest_result \<Rightarrow> bool" where
  "valid_result r \<longleftrightarrow> 0 \<le> max_drawdown r \<and> max_drawdown r \<le> 1 \<and> data_years r > 0"

datatype hard_fail =
    MaxDDAboveRedLine real real
  | AssumptionsMissing "string list"
  | DataWindowTooShort real int

datatype yellow_flag =
    MaxDDNearRedLine real
  | SuspiciousCagr real
  | ParamsTooSensitive real
  | FirstLiveDeployment

datatype reasoning = HardRedLine | UtilityScore real

record review_output =
  ro_verdict :: verdict
  ro_requires_human_approve :: bool
  ro_hard_gates_failed :: "hard_fail list"
  ro_yellow_flags :: "yellow_flag list"
  ro_utility_score :: "real option"
  ro_reasoning :: reasoning

definition hard_fails :: "hard_gates_settings \<Rightarrow> backtest_result \<Rightarrow> hard_fail list" where
  "hard_fails hg r =
     (let missing = filter (\<lambda>a. a \<notin> set (assumptions r)) (hg_required_assumptions hg) in
      (if max_drawdown r > hg_max_drawdown hg
         then [MaxDDAboveRedLine (max_drawdown r) (hg_max_drawdown hg)] else [])
      @ (if missing \<noteq> [] then [AssumptionsMissing missing] else [])
      @ (if data_years r < of_int (hg_min_data_years hg)
         then [DataWindowTooShort (data_years r) (hg_min_data_years hg)] else []))"

definition yellow_flags :: "yellow_flags_settings \<Rightarrow> backtest_result \<Rightarrow> yellow_flag list" where
  "yellow_flags yf r =
     (if yf_warning_low yf \<le> max_drawdown r \<and> max_drawdown r \<le> yf_warning_high yf
        then [MaxDDNearRedLine (max_drawdown r)] else [])
     @ (if cagr r > yf_suspicious_cagr yf then [SuspiciousCagr (cagr r)] else [])
     @ (case param_sensitivity r of None \<Rightarrow> []
        | Some p \<Rightarrow> if p \<noteq> 0 \<and> p > yf_sensitivity yf then [ParamsTooSensitive p] else [])
     @ (if is_first_live r \<and> yf_first_live yf then [FirstLiveDeployment] else [])"

definition utility_score :: "backtest_result \<Rightarrow> real" where
  "utility_score r =
     (let cagr_term = cagr r * 100;
          sharpe_term = sharpe r * 4;
          drawdown_penalty = max_drawdown r * 100 * 0.20;
          turnover_penalty = min (annual_turnover r) 30 * 0.05
      in py_round (cagr_term + sharpe_term - drawdown_penalty - turnover_penalty) 1)"

definition risk_gate_review ::
  "hard_gates_settings \<Rightarrow> yellow_flags_settings \<Rightarrow> backtest_result \<Rightarrow> review_output" where
  "risk_gate_review hg yf r =
     (if hard_fails hg r \<noteq> [] then
        \<lparr>ro_verdict = NO_GO, ro_requires_human_approve = False,
         ro_hard_gates_failed = hard_fails hg r, ro_yellow_flags = [],
         ro_utility_score = None, ro_reasoning = HardRedLine\<rparr>
      else
        (let score = utility_score r; flags = yellow_flags yf r in
         \<lparr>ro_verdict = (if score \<ge> 4 then GO else REVISE),
          ro_requires_human_approve = length flags > 0,
          ro_hard_gates_failed = [], ro_yellow_flags = flags,
          ro_utility_score = Some score, ro_reasoning = UtilityScore score\<rparr>))"

section \<open>Soundness of the gates\<close>

lemma hard_fails_Nil_iff:
  "hard_fails hg r = [] \<longleftrightarrow>
     max_drawdown r \<le> hg_max_drawdown hg
     \<and> set (hg_required_assumptions hg) \<subseteq> set (assumptions r)
     \<and> of_int (hg_min_data_years hg) \<le> data_years r"
  by (auto simp: hard_fails_def Let_def filter_empty_conv)

lemma review_GO_iff:
  "ro_verdict (risk_gate_review hg yf r) = GO \<longleftrightarrow> hard_fails hg r = [] \<and> utility_score r \<ge> 4"
  by (simp add: risk_gate_review_def Let_def)

text \<open>C28. The review of a backtest.  NO_GO is given exactly when the drawdown is above the red
  line, a required assumption is not modelled or the data window is too short; GO exactly
  when none of these holds and the utility score reaches 4; and a reviewed result needs a
  human exactly when a warning was raised, which never changes the verdict.\<close>

theorem risk_gate_review_contract:
  "(ro_verdict (risk_gate_review hg yf r) = NO_GO \<longleftrightarrow>
      max_drawdown r > hg_max_drawdown hg
      \<or> (\<exists>a \<in> set (hg_required_assumptions hg). a \<notin> set (assumptions r))
      \<or> data_years r < of_int (hg_min_data_years hg))
   \<and> (ro_verdict (risk_gate_review hg yf r) = GO \<longleftrightarrow>
      max_drawdown r \<le> hg_max_drawdown hg
      \<and> set (hg_required_assumptions hg) \<subseteq> set (assumptions r)
      \<and> of_int (hg_min_data_years hg) \<le> data_years r \<and> utility_score r \<ge> 4)
   \<and> (ro_requires_human_approve (risk_gate_review hg yf r) \<longleftrightarrow>
      hard_fails hg r = [] \<and> yellow_flags yf r \<noteq> [])
   \<and> ro_verdict (risk_gate_review hg yf r) = ro_verdict (risk_gate_review hg yf' r)"
proof -
  have "ro_verdict (risk_gate_review hg yf r) = NO_GO \<longleftrightarrow> hard_fails hg r \<noteq> []"
    by (simp add: risk_gate_review_def Let_def)
  then show ?thesis
    unfolding review_GO_iff hard_fails_Nil_iff
    by (auto simp: risk_gate_review_def Let_def hard_fails_Nil_iff not_le)
qed

text \<open>A result is at least as good as another: more return, more Sharpe, less drawdown, less
  turnover, on at least as long a window with at least as many modelled assumptions.\<close>

definition better :: "backtest_result \<Rightarrow> backtest_result \<Rightarrow> bool" where
  "better r r' \<longleftrightarrow> cagr r' \<le> cagr r \<and> sharpe r' \<le> sharpe r \<and> max_drawdown r \<le> max_drawdown r'
     \<and> annual_turnover r \<le> annual_turnover r' \<and> data_years r' \<le> data_years r
     \<and> set (assumptions r') \<subseteq> set (assumptions r)"

lemma utility_score_mono: "better r r' \<Longrightarrow> utility_score r' \<le> utility_score r"
  by (auto simp: utility_score_def better_def Let_def intro!: py_round_mono)

text \<open>The review is monotone: a result that is at least as good in every respect as one
  that passed also passes, and its utility score is at least as high.\<close>

theorem risk_gate_review_monotone:
  assumes "better r r'" "ro_verdict (risk_gate_review hg yf r') = GO"
  shows "ro_verdict (risk_gate_review hg yf r) = GO \<and> utility_score r' \<le> utility_score r"
  using assms utility_score_mono [OF assms(1)]
  by (auto simp: review_GO_iff hard_fails_Nil_iff better_def)

definition sample_result :: backtest_result where
  "sample_result = \<lparr>cagr = 0.1, max_drawdown = 0.1, sharpe = 1, annual_turnover = 10,
     data_years = 5, assumptions = hg_required_assumptions hard_gates_default,
     param_sensitivity = None, is_first_live = False\<rparr>"

theorem risk_gate_review_monotone_witness:
  "ro_verdict (risk_gate_review hard_gates_default yellow_flags_default
     (sample_result\<lparr>cagr := 0.2\<rparr>)) = GO"
proof -
  have "utility_score sample_result = 11.5"
    unfolding utility_score_def sample_result_def Let_def
    by (simp add: py_round_exact [of _ _ 115])
  then have "ro_verdict (risk_gate_review hard_gates_default yellow_flags_default sample_result) = GO"
    by (simp add: review_GO_iff hard_fails_Nil_iff) (simp add: sample_result_def hard_gates_default_def)
  moreover have "better (sample_result\<lparr>cagr := 0.2\<rparr>) sample_result"
    by (simp add: better_def sample_result_def)
  ultimately show ?thesis by (blast dest: risk_gate_review_monotone)
qed

end
