(* ===== verification/Pandas_Series.thy ===== *)
theory Pandas_Series imports Prelude begin

text \<open>
  The pandas operations the strategies and the backtests use, on lists (a series with
  its index left out; every operation below keeps the length, so the positions are the
  index).  A value of a series is an \<open>fl\<close>: a finite float, one of the two infinities or
  NaN.  Comparisons with NaN are false, as in numpy.  A zero is taken as positive zero.
\<close>

section \<open>Floats with special values\<close>

datatype fl = Fin real | PInf | NInf | NaN

text \<open>\<open>max(lo, min(hi, x))\<close> of plain Python, where a comparison with NaN is false and \<open>min\<close> and \<open>max\<close>
  then keep their first argument, for bounds in order.\<close>

definition py_clamp :: "real \<Rightarrow> real \<Rightarrow> fl \<Rightarrow> real" where
  "py_clamp lo hi x = (case x of Fin a \<Rightarrow> max lo (min hi a) | PInf \<Rightarrow> hi | NInf \<Rightarrow> lo | NaN \<Rightarrow> hi)"

lemma py_clamp_simps [simp]:
  "py_clamp lo hi (Fin a) = max lo (min hi a)" "py_clamp lo hi NaN = hi"
  "py_clamp lo hi PInf = hi" "py_clamp lo hi NInf = lo"
  by (simp_all add: py_clamp_def)

lemma py_clamp_bounds: "lo \<le> hi \<Longrightarrow> lo \<le> py_clamp lo hi x \<and> py_clamp lo hi x \<le> hi"
  by (simp add: py_clamp_def split: fl.split)

fun fl_neg :: "fl \<Rightarrow> fl" where
  "fl_neg (Fin a) = Fin (- a)"
| "fl_neg PInf = NInf"
| "fl_neg NInf = PInf"
| "fl_neg NaN = NaN"

fun fl_add :: "fl \<Rightarrow> fl \<Rightarrow> fl" where
  "fl_add NaN y = NaN"
| "fl_add x NaN = NaN"
| "fl_add (Fin a) (Fin b) = Fin (a + b)"
| "fl_add (Fin a) y = y"
| "fl_add x (Fin b) = x"
| "fl_add PInf PInf = PInf"
| "fl_add NInf NInf = NInf"
| "fl_add x y = NaN"

definition fl_sub :: "fl \<Rightarrow> fl \<Rightarrow> fl" where
  "fl_sub x y = fl_add x (fl_neg y)"

definition fl_sgn :: "real \<Rightarrow> fl" where
  "fl_sgn a = (if 0 < a then PInf else if a < 0 then NInf else NaN)"

fun fl_mul :: "fl \<Rightarrow> fl \<Rightarrow> fl" where
  "fl_mul NaN y = NaN"
| "fl_mul x NaN = NaN"
| "fl_mul (Fin a) (Fin b) = Fin (a * b)"
| "fl_mul (Fin a) PInf = fl_sgn a"
| "fl_mul (Fin a) NInf = fl_sgn (- a)"
| "fl_mul PInf (Fin b) = fl_sgn b"
| "fl_mul NInf (Fin b) = fl_sgn (- b)"
| "fl_mul PInf PInf = PInf"
| "fl_mul NInf NInf = PInf"
| "fl_mul x y = NInf"

fun fl_div :: "fl \<Rightarrow> fl \<Rightarrow> fl" where
  "fl_div NaN y = NaN"
| "fl_div x NaN = NaN"
| "fl_div (Fin a) (Fin b) = (if b = 0 then fl_sgn a else Fin (a / b))"
| "fl_div (Fin a) y = Fin 0"
| "fl_div PInf (Fin b) = (if b < 0 then NInf else PInf)"
| "fl_div NInf (Fin b) = (if b < 0 then PInf else NInf)"
| "fl_div x y = NaN"

fun fl_abs :: "fl \<Rightarrow> fl" where
  "fl_abs (Fin a) = Fin \<bar>a\<bar>"
| "fl_abs NaN = NaN"
| "fl_abs x = PInf"

fun fl_less :: "fl \<Rightarrow> fl \<Rightarrow> bool" where
  "fl_less NaN y = False"
| "fl_less x NaN = False"
| "fl_less (Fin a) (Fin b) = (a < b)"
| "fl_less NInf y = (y \<noteq> NInf)"
| "fl_less x NInf = False"
| "fl_less x PInf = (x \<noteq> PInf)"
| "fl_less PInf y = False"

fun fl_le :: "fl \<Rightarrow> fl \<Rightarrow> bool" where
  "fl_le NaN y = False"
| "fl_le x NaN = False"
| "fl_le x y = (fl_less x y \<or> x = y)"

text \<open>Python's \<open>max(x, y)\<close> and \<open>min(x, y)\<close> keep the first argument unless the second is
  strictly beyond it, so a NaN in the second place is ignored.\<close>

definition py_max :: "fl \<Rightarrow> fl \<Rightarrow> fl" where
  "py_max x y = (if fl_less x y then y else x)"

definition py_min :: "fl \<Rightarrow> fl \<Rightarrow> fl" where
  "py_min x y = (if fl_less y x then y else x)"

text \<open>\<open>x ** e\<close> for a positive exponent.\<close>

definition fl_powr :: "fl \<Rightarrow> real \<Rightarrow> fl" where
  "fl_powr x e =
     (let whole = (of_int \<lfloor>e\<rfloor> = e) in
      case x of
        Fin a \<Rightarrow> if 0 \<le> a then Fin (a powr e)
                 else if whole then Fin (a ^ nat \<lfloor>e\<rfloor>) else NaN
      | PInf \<Rightarrow> PInf
      | NInf \<Rightarrow> if whole \<and> odd \<lfloor>e\<rfloor> then NInf else PInf
      | NaN \<Rightarrow> NaN)"

definition isna :: "fl \<Rightarrow> bool" where
  "isna x = (x = NaN)"

fun is_fin :: "fl \<Rightarrow> bool" where
  "is_fin (Fin a) = True"
| "is_fin x = False"

fun fin_val :: "fl \<Rightarrow> real" where
  "fin_val (Fin a) = a"
| "fin_val x = 0"

lemma fl_less_irrefl [simp]: "\<not> fl_less x x"
  by (cases x) auto

lemma fl_less_not_le: "fl_less x y \<Longrightarrow> \<not> fl_le y x"
  by (cases x; cases y) auto

lemma fl_less_NaN_right [simp]: "\<not> fl_less x NaN"
  by (cases x) auto

lemma fl_NaN_right [simp]:
  "fl_add x NaN = NaN" "fl_sub x NaN = NaN" "fl_mul x NaN = NaN" "fl_div x NaN = NaN"
  by (cases x; simp add: fl_sub_def)+

lemma isna_NaN [simp]: "isna NaN" "\<not> isna (Fin a)"
  by (simp_all add: isna_def)

section \<open>Series\<close>

type_synonym series = "fl list"

definition fins :: "real list \<Rightarrow> series" where
  "fins xs = map Fin xs"

text \<open>\<open>rolling(window=w)\<close>: the last \<open>w\<close> values up to and including position \<open>i\<close>; a
  window that is not full or holds a missing or infinite value gives NaN.\<close>

definition window_at :: "nat \<Rightarrow> 'a list \<Rightarrow> nat \<Rightarrow> 'a list" where
  "window_at w xs i = take w (drop (Suc i - w) xs)"

definition rolling :: "nat \<Rightarrow> (real list \<Rightarrow> fl) \<Rightarrow> series \<Rightarrow> series" where
  "rolling w f xs = map (\<lambda>i.
     if Suc i < w then NaN
     else if list_all is_fin (window_at w xs i)
       then f (map fin_val (window_at w xs i)) else NaN) [0..<length xs]"

lemma length_rolling [simp]: "length (rolling w f xs) = length xs"
  by (simp add: rolling_def)

lemma rolling_nth:
  "i < length xs \<Longrightarrow> rolling w f xs ! i =
     (if Suc i < w then NaN
      else if list_all is_fin (window_at w xs i)
        then f (map fin_val (window_at w xs i)) else NaN)"
  by (simp add: rolling_def)

definition mean_fl :: "real list \<Rightarrow> fl" where
  "mean_fl xs = (if xs = [] then NaN else Fin (sum_list xs / real (length xs)))"

definition variance1 :: "real list \<Rightarrow> real" where
  "variance1 xs =
     (let m = sum_list xs / real (length xs)
      in sum_list (map (\<lambda>x. (x - m) ^ 2) xs) / (real (length xs) - 1))"

text \<open>\<open>std()\<close> with pandas' default of one degree of freedom.\<close>

definition std_fl :: "real list \<Rightarrow> fl" where
  "std_fl xs = (if length xs < 2 then NaN else Fin (sqrt (variance1 xs)))"

definition max_fl :: "real list \<Rightarrow> fl" where
  "max_fl xs = (if xs = [] then NaN else Fin (Max (set xs)))"

definition min_fl :: "real list \<Rightarrow> fl" where
  "min_fl xs = (if xs = [] then NaN else Fin (Min (set xs)))"

definition nonneg_fl :: "fl \<Rightarrow> bool" where
  "nonneg_fl x = (case x of Fin a \<Rightarrow> 0 \<le> a | NaN \<Rightarrow> True | _ \<Rightarrow> False)"

lemma rolling_mean_nonneg:
  assumes "\<forall>x\<in>set xs. nonneg_fl x" "y \<in> set (rolling w mean_fl xs)"
  shows "nonneg_fl y"
proof -
  have nonneg: "0 \<le> fin_val x" if "x \<in> set xs" for x
    using assms(1) that by (cases x) (auto simp: nonneg_fl_def)
  have win: "set (window_at w xs i) \<subseteq> set xs" for i
    by (auto simp: window_at_def dest: in_set_takeD in_set_dropD)
  have "0 \<le> sum_list (map fin_val (window_at w xs i))" for i
    using nonneg win by (intro sum_list_nonneg_map) blast
  then show ?thesis
    using assms(2) by (auto simp: rolling_def nonneg_fl_def mean_fl_def split: if_splits)
qed

text \<open>\<open>shift(1)\<close>, \<open>diff()\<close>, \<open>pct_change()\<close>, \<open>fillna(0)\<close>.\<close>

definition shift1 :: "series \<Rightarrow> series" where
  "shift1 xs = (if xs = [] then [] else NaN # butlast xs)"

definition diff :: "series \<Rightarrow> series" where
  "diff xs = map2 fl_sub xs (shift1 xs)"

definition pct_change :: "series \<Rightarrow> series" where
  "pct_change xs = map2 (\<lambda>x y. fl_sub (fl_div x y) (Fin 1)) xs (shift1 xs)"

definition fillna0 :: "series \<Rightarrow> series" where
  "fillna0 xs = map (\<lambda>x. if isna x then Fin 0 else x) xs"

lemma length_shift1 [simp]: "length (shift1 xs) = length xs"
  by (simp add: shift1_def)

lemma length_diff [simp]: "length (diff xs) = length xs"
  by (simp add: diff_def)

lemma length_pct_change [simp]: "length (pct_change xs) = length xs"
  by (simp add: pct_change_def)

lemma length_fillna0 [simp]: "length (fillna0 xs) = length xs"
  by (simp add: fillna0_def)

lemma shift1_0 [simp]: "xs \<noteq> [] \<Longrightarrow> shift1 xs ! 0 = NaN"
  by (simp add: shift1_def)

lemma shift1_Suc [simp]: "Suc i < length xs \<Longrightarrow> shift1 xs ! Suc i = xs ! i"
  by (auto simp: shift1_def nth_butlast)

text \<open>\<open>cumprod()\<close>, and the minimum that skips missing values.\<close>

fun cumprod_from :: "fl \<Rightarrow> series \<Rightarrow> series" where
  "cumprod_from p [] = []"
| "cumprod_from p (x # xs) = fl_mul p x # cumprod_from (fl_mul p x) xs"

definition cumprod :: "series \<Rightarrow> series" where
  "cumprod xs = cumprod_from (Fin 1) xs"

fun fl_cummax_from :: "fl \<Rightarrow> series \<Rightarrow> series" where
  "fl_cummax_from m [] = []"
| "fl_cummax_from m (x # xs) =
     (if isna x then NaN # fl_cummax_from m xs
      else (let m' = (if isna m \<or> fl_less m x then x else m) in m' # fl_cummax_from m' xs))"

definition fl_cummax :: "series \<Rightarrow> series" where
  "fl_cummax xs = fl_cummax_from NaN xs"

definition fl_min_skipna :: "series \<Rightarrow> fl" where
  "fl_min_skipna xs = fold (\<lambda>x m. if isna x then m else if isna m \<or> fl_less x m then x else m) xs NaN"

lemma length_cumprod_from [simp]: "length (cumprod_from p xs) = length xs"
  by (induction xs arbitrary: p) auto

lemma length_cumprod [simp]: "length (cumprod xs) = length xs"
  by (simp add: cumprod_def)

lemma cumprod_from_take: "cumprod_from p (take n xs) = take n (cumprod_from p xs)"
  by (induction xs arbitrary: p n) (auto simp: take_Cons' split: nat.split)

lemma cumprod_take: "cumprod (take n xs) = take n (cumprod xs)"
  by (simp add: cumprod_def cumprod_from_take)

text \<open>\<open>ewm(span=s, adjust=False).mean()\<close> of finite values: the smoothing factor is
  \<open>2 / (s + 1)\<close>, and the first value starts the average.\<close>

fun ema_from :: "real \<Rightarrow> real \<Rightarrow> real list \<Rightarrow> real list" where
  "ema_from a y [] = []"
| "ema_from a y (x # xs) = (let y' = (1 - a) * y + a * x in y' # ema_from a y' xs)"

fun ewm_mean :: "nat \<Rightarrow> real list \<Rightarrow> real list" where
  "ewm_mean s [] = []"
| "ewm_mean s (x # xs) = x # ema_from (2 / (real s + 1)) x xs"

lemma length_ema_from [simp]: "length (ema_from a y xs) = length xs"
  by (induction xs arbitrary: y) (auto simp: Let_def)

lemma length_ewm_mean [simp]: "length (ewm_mean s xs) = length xs"
  by (cases xs) auto

text \<open>An average with a factor between 0 and 1 stays inside the range of its inputs.\<close>

lemma ema_from_bounds:
  assumes "0 \<le> a" "a \<le> 1" "lo \<le> y" "y \<le> hi" "\<And>x. x \<in> set xs \<Longrightarrow> lo \<le> x \<and> x \<le> hi"
  shows "z \<in> set (ema_from a y xs) \<Longrightarrow> lo \<le> z \<and> z \<le> hi"
  using assms(3-)
proof (induction xs arbitrary: y)
  case (Cons x xs)
  let ?y = "(1 - a) * y + a * x"
  have x: "lo \<le> x" "x \<le> hi" using Cons.prems by auto
  have "(1 - a) * lo + a * lo \<le> ?y" "?y \<le> (1 - a) * hi + a * hi"
    using assms(1,2) Cons.prems(2,3) x by (auto intro!: add_mono mult_left_mono)
  then have "lo \<le> ?y" "?y \<le> hi" by (simp_all add: algebra_simps)
  with Cons show ?case by (auto simp: Let_def)
qed simp

section \<open>Running maximum and drawdown\<close>

fun cummax_from :: "real \<Rightarrow> real list \<Rightarrow> real list" where
  "cummax_from m [] = []"
| "cummax_from m (x # xs) = max m x # cummax_from (max m x) xs"

fun cummax :: "real list \<Rightarrow> real list" where
  "cummax [] = []"
| "cummax (x # xs) = x # cummax_from x xs"

definition drawdowns :: "real list \<Rightarrow> real list" where
  "drawdowns xs = map2 (\<lambda>e m. (e - m) / m) xs (cummax xs)"

lemma length_cummax_from [simp]: "length (cummax_from m xs) = length xs"
  by (induction xs arbitrary: m) auto

lemma length_cummax [simp]: "length (cummax xs) = length xs"
  by (cases xs) auto

lemma length_drawdowns [simp]: "length (drawdowns xs) = length xs"
  by (simp add: drawdowns_def)

lemma cummax_from_ge: "list_all2 (\<le>) xs (cummax_from m xs)"
  by (induction xs arbitrary: m) auto

lemma cummax_ge: "list_all2 (\<le>) xs (cummax xs)"
  by (cases xs) (auto simp: cummax_from_ge)

lemma cummax_from_pos: "0 < m \<Longrightarrow> x \<in> set (cummax_from m xs) \<Longrightarrow> 0 < x"
proof (induction xs arbitrary: m)
  case (Cons a xs)
  have "0 < max m a" using Cons.prems by simp
  then show ?case using Cons by auto
qed simp

lemma cummax_pos:
  assumes "\<forall>e\<in>set xs. 0 < e" "m \<in> set (cummax xs)" shows "0 < m"
  using assms by (cases xs) (auto dest: cummax_from_pos)

text \<open>On a positive equity curve every drawdown is in \<open>(-1, 0]\<close>.\<close>

lemma drawdowns_range:
  assumes "\<forall>e\<in>set xs. 0 < e" "d \<in> set (drawdowns xs)"
  shows "- 1 < d \<and> d \<le> 0"
proof -
  from assms(2) obtain i where i: "i < length xs"
    and d: "d = (xs ! i - cummax xs ! i) / cummax xs ! i"
    by (auto simp: drawdowns_def in_set_conv_nth)
  have e: "0 < xs ! i" using assms(1) i by simp
  have m: "0 < cummax xs ! i" using cummax_pos [OF assms(1)] i by simp
  have "xs ! i \<le> cummax xs ! i" using cummax_ge i by (auto simp: list_all2_conv_all_nth)
  then show ?thesis using e m
    unfolding d by (simp add: pos_less_divide_eq divide_le_0_iff)
qed

definition min_list_real :: "real list \<Rightarrow> real" where
  "min_list_real xs = Min (set xs)"

lemma drawdown_min_range:
  assumes "xs \<noteq> []" "\<forall>e\<in>set xs. 0 < e"
  shows "- 1 < min_list_real (drawdowns xs) \<and> min_list_real (drawdowns xs) \<le> 0"
proof -
  have "drawdowns xs \<noteq> []" using assms(1) length_drawdowns [of xs] by (metis length_0_conv)
  then have "min_list_real (drawdowns xs) \<in> set (drawdowns xs)"
    by (simp add: min_list_real_def)
  then show ?thesis using drawdowns_range assms(2) by blast
qed

end
