(* ===== verification/Strategy_Base.thy ===== *)
theory Strategy_Base imports Pandas_Series Signals begin

text \<open>
  \<open>strategy/base_strategy.py\<close>: price bars, the adapter that drives a streaming strategy
  over the prefixes of the data, and the two contracts a strategy has with the code that
  backtests it: it holds while it warms up, and its signal of a day is a function of the
  data up to that day.
\<close>

record bar =
  b_open :: real
  b_high :: real
  b_low :: real
  b_close :: real
  b_volume :: real

definition closes :: "bar list \<Rightarrow> series" where
  "closes bars = fins (map b_close bars)"

section \<open>Series operations read backwards only\<close>

lemma window_at_take:
  assumes "i < n" "w \<le> Suc i" shows "window_at w (take n xs) i = window_at w xs i"
proof -
  have "w \<le> n - (Suc i - w)" using assms by simp
  then show ?thesis by (simp add: window_at_def drop_take min_absorb1)
qed

lemma rolling_take: "rolling w f (take n xs) = take n (rolling w f xs)"
  by (rule nth_equalityI) (auto simp: rolling_nth window_at_take not_less)

lemma shift1_take: "shift1 (take n xs) = take n (shift1 xs)"
  by (rule nth_equalityI) (auto simp: shift1_def nth_Cons' nth_butlast)

lemma diff_take: "diff (take n xs) = take n (diff xs)"
  by (simp add: diff_def shift1_take take_map take_zip)

lemma pct_change_take: "pct_change (take n xs) = take n (pct_change xs)"
  by (simp add: pct_change_def shift1_take take_map take_zip)

lemma fillna0_take: "fillna0 (take n xs) = take n (fillna0 xs)"
  by (simp add: fillna0_def take_map)

lemma closes_take: "closes (take n bars) = take n (closes bars)"
  by (simp add: closes_def fins_def take_map)

lemma length_closes [simp]: "length (closes bars) = length bars"
  by (simp add: closes_def fins_def)

lemma ema_from_take: "ema_from a y (take n xs) = take n (ema_from a y xs)"
  by (induction xs arbitrary: y n) (auto simp: Let_def take_Cons' split: nat.split)

lemma ewm_mean_take: "ewm_mean s (take n xs) = take n (ewm_mean s xs)"
  by (cases xs; cases n) (auto simp: ema_from_take)

lemmas causal_simps = rolling_take shift1_take diff_take pct_change_take fillna0_take closes_take
  ewm_mean_take take_map take_zip

section \<open>The streaming adapter\<close>

text \<open>\<open>generate_signal\<close> of a strategy takes the strategy's state and the bars seen so far.
  \<open>generate_signals\<close> resets the strategy and calls it on every prefix.\<close>

type_synonym 'st streamer = "'st \<Rightarrow> bar list \<Rightarrow> 'st \<times> signal res"

fun stream_from :: "'st streamer \<Rightarrow> 'st \<Rightarrow> bar list \<Rightarrow> bar list \<Rightarrow> int list res" where
  "stream_from gen st seen [] = Inr []"
| "stream_from gen st seen (b # bs) =
     (case gen st (seen @ [b]) of
        (st', Inl e) \<Rightarrow> Inl e
      | (st', Inr s) \<Rightarrow>
          rbind (stream_from gen st' (seen @ [b]) bs) (\<lambda>out. Inr (signal_code s # out)))"

definition generate_signals :: "'st streamer \<Rightarrow> 'st \<Rightarrow> bar list \<Rightarrow> int list res" where
  "generate_signals gen reset_state bars = stream_from gen reset_state [] bars"

lemma stream_from_length: "stream_from gen st seen bs = Inr out \<Longrightarrow> length out = length bs"
  by (induction gen st seen bs arbitrary: out rule: stream_from.induct)
    (auto simp: rbind_eq_Inr_iff split: prod.splits sum.splits)

lemma stream_from_take:
  "stream_from gen st seen bs = Inr out \<Longrightarrow> stream_from gen st seen (take n bs) = Inr (take n out)"
proof (induction bs arbitrary: st seen out n)
  case (Cons b bs)
  from Cons.prems obtain st' s out' where gen: "gen st (seen @ [b]) = (st', Inr s)"
    and rest: "stream_from gen st' (seen @ [b]) bs = Inr out'" and out: "out = signal_code s # out'"
    by (auto simp: rbind_eq_Inr_iff split: prod.splits sum.splits)
  show ?case
  proof (cases n)
    case (Suc m)
    have "stream_from gen st' (seen @ [b]) (take m bs) = Inr (take m out')"
      using Cons.IH rest by blast
    with gen out Suc show ?thesis by simp
  qed simp
qed simp

lemma stream_from_range:
  "stream_from gen st seen bs = Inr out \<Longrightarrow> set out \<subseteq> {-1, 0, 1}"
proof (induction bs arbitrary: st seen out)
  case (Cons b bs)
  then obtain st' s out' where gen: "gen st (seen @ [b]) = (st', Inr s)"
    and rest: "stream_from gen st' (seen @ [b]) bs = Inr out'" and out: "out = signal_code s # out'"
    by (auto simp: rbind_eq_Inr_iff split: prod.splits sum.splits)
  have "set out' \<subseteq> {-1, 0, 1}"
    using Cons.IH rest by blast
  with out show ?case by (cases s) auto
qed simp

section \<open>The contracts\<close>

text \<open>A causal strategy: one signal per bar, each in \<open>{-1, 0, 1}\<close>, and the signals of a
  prefix of the data are the prefix of the signals.\<close>

locale causal_strategy =
  fixes signals :: "bar list \<Rightarrow> int list res"
  assumes signals_length: "signals d = Inr ss \<Longrightarrow> length ss = length d"
    and signals_range: "signals d = Inr ss \<Longrightarrow> set ss \<subseteq> {-1, 0, 1}"
    and signals_take: "signals d = Inr ss \<Longrightarrow> signals (take n d) = Inr (take n ss)"
begin

text \<open>No look-ahead: bars after day \<open>n\<close> never change a signal up to day \<open>n\<close>.\<close>

lemma no_look_ahead:
  assumes "signals (d @ f) = Inr ss" "signals (d @ f') = Inr ss'"
  shows "take (length d) ss = take (length d) ss'"
  using signals_take [OF assms(1), of "length d"] signals_take [OF assms(2), of "length d"] by simp

end

lemma causal_streamer: "causal_strategy (generate_signals gen st)"
  by unfold_locales (auto simp: generate_signals_def stream_from_length stream_from_take
      dest: stream_from_range)

text \<open>A streaming strategy that holds until it has seen \<open>warm\<close> bars.\<close>

locale warmup_strategy =
  fixes gen :: "'st streamer" and warm :: nat
  assumes warm_hold: "length bars < warm \<Longrightarrow> gen st bars = (st, Inr HOLD)"
begin

lemma stream_warm:
  "length seen + length bs < warm \<Longrightarrow> stream_from gen st seen bs = Inr (replicate (length bs) 0)"
  by (induction bs arbitrary: seen) (auto simp: warm_hold)

lemma signals_warm:
  assumes "length bars < warm"
  shows "generate_signals gen st bars = Inr (replicate (length bars) 0)"
  using stream_warm [of "[]"] assms by (simp add: generate_signals_def)

end

end
