(* ===== verification/Streaming_Strategies.thy ===== *)
theory Streaming_Strategies imports Strategy_Base begin

text \<open>
  The streaming strategies: \<open>ma_cross_strategy.py\<close>, \<open>rsi_strategy.py\<close> and
  \<open>macd_strategy.py\<close>.  The state of each is its last signal; window lengths are naturals.
  Reading \<open>iloc[-2]\<close> of a series with fewer than two values raises IndexError.
\<close>

section \<open>Moving average crossover\<close>

record ma_cross =
  short_window :: nat
  long_window :: nat

definition last_fl :: "series \<Rightarrow> fl" where
  "last_fl xs = xs ! (length xs - 1)"

definition prev_fl :: "series \<Rightarrow> fl" where
  "prev_fl xs = xs ! (length xs - 2)"

definition ma_generate_signal :: "ma_cross \<Rightarrow> signal streamer" where
  "ma_generate_signal cfg st bars =
     (if length bars < long_window cfg then (st, Inr HOLD)
      else
        (let short_ma = rolling (short_window cfg) mean_fl (closes bars);
             long_ma = rolling (long_window cfg) mean_fl (closes bars) in
         if length bars < 2 then (st, Inl IndexError)
         else if isna (last_fl short_ma) \<or> isna (last_fl long_ma) then (st, Inr HOLD)
         else if isna (prev_fl short_ma) \<or> isna (prev_fl long_ma) then (st, Inr HOLD)
         else if fl_le (prev_fl short_ma) (prev_fl long_ma)
                 \<and> fl_less (last_fl long_ma) (last_fl short_ma) then (BUY, Inr BUY)
         else if fl_le (prev_fl long_ma) (prev_fl short_ma)
                 \<and> fl_less (last_fl short_ma) (last_fl long_ma) then (SELL, Inr SELL)
         else (st, Inr HOLD)))"

text \<open>The reference: averages of the last \<open>k\<close> closes.\<close>

definition mean_last :: "nat \<Rightarrow> real list \<Rightarrow> real" where
  "mean_last k xs = sum_list (drop (length xs - k) xs) / real k"

lemma rolling_mean_fins:
  assumes "i < length xs" "0 < w"
  shows "rolling w mean_fl (fins xs) ! i =
    (if Suc i < w then NaN else Fin (mean_last w (take (Suc i) xs)))"
proof (cases "Suc i < w")
  case False
  have "window_at w (fins xs) i = fins (drop (Suc i - w) (take (Suc i) xs))"
    using False by (simp add: window_at_def fins_def take_map drop_map drop_take)
  moreover have len: "length (drop (Suc i - w) (take (Suc i) xs)) = w"
    using assms False by simp
  moreover have "mean_last w (take (Suc i) xs) = sum_list (drop (Suc i - w) (take (Suc i) xs)) / real w"
    using assms by (simp add: mean_last_def min_absorb2)
  moreover have "drop (Suc i - w) (take (Suc i) xs) \<noteq> []"
    using len assms(2) by (metis list.size(3) less_irrefl)
  ultimately show ?thesis
    using assms False
    by (simp add: rolling_nth mean_fl_def list_all_iff fins_def comp_def del: drop_eq_Nil)
qed (use assms in \<open>simp add: rolling_nth fins_def\<close>)

lemma rolling_mean_last:
  assumes "xs \<noteq> []" "0 < w"
  shows "last_fl (rolling w mean_fl (fins xs)) =
    (if length xs < w then NaN else Fin (mean_last w xs))"
  using assms rolling_mean_fins [of "length xs - 1" xs w]
  by (cases xs) (auto simp: last_fl_def fins_def)

lemma rolling_mean_prev:
  assumes "2 \<le> length xs" "0 < w"
  shows "prev_fl (rolling w mean_fl (fins xs)) =
    (if length xs \<le> w then NaN else Fin (mean_last w (butlast xs)))"
proof -
  have "Suc (length xs - 2) = length xs - 1" using assms by simp
  then show ?thesis
    using assms rolling_mean_fins [of "length xs - 2" xs w]
    by (auto simp: prev_fl_def fins_def butlast_conv_take)
qed

text \<open>The crossover rule, against its reference.  With windows \<open>1 \<le> short\<close> and
  \<open>2 \<le> long\<close> the strategy never fails; it holds while it has seen at most \<open>long\<close> bars; and
  from then on it buys exactly when the short average of the closes was at or below the
  long one a day ago and is above it now, and sells exactly on the mirrored crossing.\<close>

theorem ma_crossover_spec:
  fixes cfg :: ma_cross and bars :: "bar list"
  assumes "1 \<le> short_window cfg" "short_window cfg \<le> long_window cfg" "2 \<le> long_window cfg"
  defines "xs \<equiv> map b_close bars"
  defines "short \<equiv> mean_last (short_window cfg)" and "long \<equiv> mean_last (long_window cfg)"
  shows "snd (ma_generate_signal cfg st bars) = Inr
     (if length bars \<le> long_window cfg then HOLD
      else if short (butlast xs) \<le> long (butlast xs) \<and> long xs < short xs then BUY
      else if long (butlast xs) \<le> short (butlast xs) \<and> short xs < long xs then SELL
      else HOLD)"
proof (cases "length bars < long_window cfg")
  case False
  then have len: "2 \<le> length xs" "xs \<noteq> []" using assms(3) by (auto simp: xs_def)
  have last: "last_fl (rolling w mean_fl (closes bars)) = Fin (mean_last w xs)"
    if "1 \<le> w" "w \<le> long_window cfg" for w
    using rolling_mean_last [of xs w] that False len by (simp add: closes_def xs_def)
  have prev: "prev_fl (rolling w mean_fl (closes bars)) =
      (if length xs \<le> w then NaN else Fin (mean_last w (butlast xs)))" if "1 \<le> w" for w
    using rolling_mean_prev [of xs w] that len by (simp add: closes_def xs_def)
  show ?thesis
    using False assms len
    by (auto simp: ma_generate_signal_def Let_def last prev xs_def)
qed (simp add: ma_generate_signal_def)

theorem ma_crossover_spec_witness:
  "snd (ma_generate_signal \<lparr>short_window = 1, long_window = 2\<rparr> HOLD
     (map (\<lambda>p. \<lparr>b_open = p, b_high = p, b_low = p, b_close = p, b_volume = 0\<rparr>) [10, 8, 12]))
   = Inr BUY"
  by (subst ma_crossover_spec) (simp_all add: mean_last_def)

interpretation ma: warmup_strategy "ma_generate_signal cfg" "long_window cfg" for cfg
  by unfold_locales (simp add: ma_generate_signal_def)

section \<open>Relative strength index\<close>

record rsi =
  rsi_period :: nat
  oversold :: int
  overbought :: int
  use_mid_crossover :: bool

text \<open>\<open>delta.where(delta > 0, 0)\<close> and \<open>(-delta).where(delta < 0, 0)\<close>: the first delta is
  NaN, and becomes 0.\<close>

definition rsi_series :: "nat \<Rightarrow> bar list \<Rightarrow> series" where
  "rsi_series period bars =
     (let delta = diff (closes bars);
          gain = map (\<lambda>d. if fl_less (Fin 0) d then d else Fin 0) delta;
          loss = map (\<lambda>d. if fl_less d (Fin 0) then fl_neg d else Fin 0) delta;
          avg_gain = rolling period mean_fl gain;
          avg_loss = rolling period mean_fl loss;
          rs = map2 fl_div avg_gain avg_loss
      in map (\<lambda>r. fl_sub (Fin 100) (fl_div (Fin 100) (fl_add (Fin 1) r))) rs)"

definition rsi_generate_signal :: "rsi \<Rightarrow> signal streamer" where
  "rsi_generate_signal cfg st bars =
     (if length bars < rsi_period cfg + 1 then (st, Inr HOLD)
      else
        (let rsi = rsi_series (rsi_period cfg) bars;
             cur = last_fl rsi; prv = prev_fl rsi;
             lo = Fin (of_int (oversold cfg)); hi = Fin (of_int (overbought cfg)) in
         if length bars < 2 then (st, Inl IndexError)
         else if isna cur \<or> isna prv then (st, Inr HOLD)
         else if fl_less prv lo \<and> fl_less lo cur then (BUY, Inr BUY)
         else if fl_less hi prv \<and> fl_less cur hi then (SELL, Inr SELL)
         else if use_mid_crossover cfg \<and> fl_less prv (Fin 50) \<and> fl_less (Fin 50) cur
           then (BUY, Inr BUY)
         else if use_mid_crossover cfg \<and> fl_less (Fin 50) prv \<and> fl_less cur (Fin 50)
           then (SELL, Inr SELL)
         else (st, Inr HOLD)))"

interpretation rsi: warmup_strategy "rsi_generate_signal cfg" "rsi_period cfg + 1" for cfg
  by unfold_locales (simp add: rsi_generate_signal_def)

lemma length_rsi_series [simp]: "length (rsi_series n bars) = length bars"
  by (simp add: rsi_series_def Let_def)

lemma rsi_value_range:
  assumes "nonneg_fl g" "nonneg_fl l"
  shows "case fl_sub (Fin 100) (fl_div (Fin 100) (fl_add (Fin 1) (fl_div g l))) of
           Fin a \<Rightarrow> 0 \<le> a \<and> a \<le> 100 | NaN \<Rightarrow> True | _ \<Rightarrow> False"
proof (cases g; cases l)
  fix a b assume gl: "g = Fin a" "l = Fin b"
  then have ab: "0 \<le> a" "0 \<le> b" using assms by (simp_all add: nonneg_fl_def)
  show ?thesis
  proof (cases "b = 0")
    case False
    define q where "q = a / b"
    have "0 \<le> q" using ab by (simp add: q_def)
    then have "0 < 1 + q" "100 / (1 + q) \<le> 100" "0 \<le> 100 / (1 + q)"
      by (simp_all add: divide_le_eq)
    with gl False show ?thesis by (auto simp: fl_sub_def q_def [symmetric])
  qed (use gl ab in \<open>auto simp: fl_sub_def fl_sgn_def\<close>)
qed (use assms in \<open>auto simp: nonneg_fl_def fl_sub_def\<close>)

text \<open>The relative strength index is an index: whatever the prices and the period, every
  value of the series is missing or a finite number between 0 and 100, although the
  computation divides by an average loss that may be zero.\<close>

theorem rsi_series_range:
  "list_all (\<lambda>v. v = NaN \<or> (\<exists>a. v = Fin a \<and> 0 \<le> a \<and> a \<le> 100)) (rsi_series n bars)"
  unfolding list_all_iff
proof (intro ballI)
  fix v
  assume assms: "v \<in> set (rsi_series n bars)"
  define gain where "gain = map (\<lambda>d. if fl_less (Fin 0) d then d else Fin 0) (diff (closes bars))"
  define loss where "loss = map (\<lambda>d. if fl_less d (Fin 0) then fl_neg d else Fin 0) (diff (closes bars))"
  have fin: "d \<in> set (diff (closes bars)) \<Longrightarrow> d = NaN \<or> is_fin d" for d
    by (auto simp: diff_def shift1_def closes_def fins_def fl_sub_def nth_Cons'
        in_set_conv_nth nth_butlast split: if_splits)
  have "\<forall>x\<in>set gain. nonneg_fl x" "\<forall>x\<in>set loss. nonneg_fl x"
    using fin unfolding gain_def loss_def nonneg_fl_def
    by (fastforce split: fl.splits elim: is_fin.elims)+
  note nonneg = rolling_mean_nonneg [OF this(1)] rolling_mean_nonneg [OF this(2)]
  from assms obtain g l
    where "(g, l) \<in> set (zip (rolling n mean_fl gain) (rolling n mean_fl loss))"
      and v: "v = fl_sub (Fin 100) (fl_div (Fin 100) (fl_add (Fin 1) (fl_div g l)))"
    unfolding rsi_series_def Let_def gain_def [symmetric] loss_def [symmetric] by auto
  then have "nonneg_fl g" "nonneg_fl l"
    using nonneg by (blast dest: set_zip_leftD set_zip_rightD)+
  then show "v = NaN \<or> (\<exists>a. v = Fin a \<and> 0 \<le> a \<and> a \<le> 100)" using rsi_value_range [of g l, folded v] by (cases v) auto
qed


section \<open>Moving average convergence divergence\<close>

record macd =
  macd_fast_period :: nat
  macd_slow_period :: nat
  macd_signal_period :: nat
  use_zero_cross :: bool

definition macd_line :: "macd \<Rightarrow> bar list \<Rightarrow> real list" where
  "macd_line cfg bars =
     (let close = map b_close bars in
      map2 (-) (ewm_mean (macd_fast_period cfg) close) (ewm_mean (macd_slow_period cfg) close))"

text \<open>The series are finite, so the missing-value checks of the source never fire.\<close>

definition macd_generate_signal :: "macd \<Rightarrow> signal streamer" where
  "macd_generate_signal cfg st bars =
     (if length bars < macd_slow_period cfg + macd_signal_period cfg + 1 then (st, Inr HOLD)
      else
        (let macd = macd_line cfg bars;
             signal = ewm_mean (macd_signal_period cfg) macd;
             histogram = map2 (-) macd signal;
             n = length bars in
         if n < 2 then (st, Inl IndexError)
         else
         (let current_macd = macd ! (n - 1); current_signal = signal ! (n - 1);
              prev_macd = macd ! (n - 2); prev_signal = signal ! (n - 2);
              current_histogram = histogram ! (n - 1); prev_histogram = histogram ! (n - 2) in
          if prev_macd \<le> prev_signal \<and> current_macd > current_signal then (BUY, Inr BUY)
          else if prev_macd \<ge> prev_signal \<and> current_macd < current_signal then (SELL, Inr SELL)
          else if use_zero_cross cfg \<and> prev_histogram < 0 \<and> current_histogram > 0 \<and> st \<noteq> BUY
            then (BUY, Inr BUY)
          else if use_zero_cross cfg \<and> prev_histogram > 0 \<and> current_histogram < 0 \<and> st \<noteq> SELL
            then (SELL, Inr SELL)
          else (st, Inr HOLD))))"

interpretation macd: warmup_strategy "macd_generate_signal cfg"
    "macd_slow_period cfg + macd_signal_period cfg + 1" for cfg
  by unfold_locales (simp add: macd_generate_signal_def)

lemma length_macd_line [simp]: "length (macd_line cfg bars) = length bars"
  by (simp add: macd_line_def Let_def)

text \<open>The zero-axis rule of the MACD strategy is dead code: the histogram is the MACD line
  minus its signal line, so a sign change of the histogram is a crossing of the two lines,
  which the first two rules already answered.  Switching the option off changes nothing, on
  any data and in any state.\<close>

theorem macd_zero_cross_is_dead:
  "macd_generate_signal (cfg\<lparr>use_zero_cross := True\<rparr>) st bars =
   macd_generate_signal (cfg\<lparr>use_zero_cross := False\<rparr>) st bars"
proof -
  have line: "macd_line (cfg\<lparr>use_zero_cross := b\<rparr>) bars = macd_line cfg bars" for b
    by (simp add: macd_line_def)
  define m where "m = macd_line cfg bars"
  define s where "s = ewm_mean (macd_signal_period cfg) m"
  have len: "length m = length bars" "length s = length bars"
    by (simp_all add: m_def s_def)
  have hist: "map2 (-) m s ! i = m ! i - s ! i" if "i < length bars" for i
    using that len by simp
  have sgn: "map2 (-) m s ! i < 0 \<longleftrightarrow> m ! i < s ! i" "map2 (-) m s ! i > 0 \<longleftrightarrow> m ! i > s ! i"
    if "i < length bars" for i
    using hist [OF that] by simp_all
  show ?thesis
  proof (cases "length bars < 2")
    case False
    define i j where "i = length bars - 1" and "j = length bars - 2"
    have "i < length bars" "j < length bars" using False by (simp_all add: i_def j_def)
    note sgns = sgn [OF this(1)] sgn [OF this(2)]
    have dead: "\<not> (map2 (-) m s ! j < 0 \<and> map2 (-) m s ! i > 0 \<and> st \<noteq> BUY)"
      if "\<not> (m ! j \<le> s ! j \<and> m ! i > s ! i)"
      using that by (simp only: sgns) auto
    have dead': "\<not> (map2 (-) m s ! j > 0 \<and> map2 (-) m s ! i < 0 \<and> st \<noteq> SELL)"
      if "\<not> (m ! j \<ge> s ! j \<and> m ! i < s ! i)"
      using that by (simp only: sgns) auto
    show ?thesis
      unfolding macd_generate_signal_def Let_def line m_def [symmetric] i_def [symmetric] j_def [symmetric]
      using dead dead' by (simp add: s_def [symmetric] cong: if_cong del: One_nat_def) blast
  qed (simp add: macd_generate_signal_def Let_def line)
qed

text \<open>C34. The streaming strategies do not look ahead: with \<open>generate_signals\<close> driving any of
  them, bars after day \<open>n\<close> never change a signal up to day \<open>n\<close>; and while a strategy warms
  up every signal is 0 (HOLD).\<close>

theorem streaming_strategies_causal_and_warm:
  fixes cfg_ma :: ma_cross and cfg_rsi :: rsi and cfg_macd :: macd
  assumes gen: "gen \<in> {(ma_generate_signal cfg_ma, long_window cfg_ma),
                 (rsi_generate_signal cfg_rsi, rsi_period cfg_rsi + 1),
                 (macd_generate_signal cfg_macd,
                  macd_slow_period cfg_macd + macd_signal_period cfg_macd + 1)}"
  shows "(generate_signals (fst gen) st (d @ f) = Inr ss \<longrightarrow>
          generate_signals (fst gen) st (d @ f') = Inr ss' \<longrightarrow>
          take (length d) ss = take (length d) ss')
    \<and> (length d < snd gen \<longrightarrow> generate_signals (fst gen) st d = Inr (replicate (length d) 0))"
proof (intro conjI impI)
  assume "generate_signals (fst gen) st (d @ f) = Inr ss"
    and "generate_signals (fst gen) st (d @ f') = Inr ss'"
  then show "take (length d) ss = take (length d) ss'"
    by (rule causal_strategy.no_look_ahead [OF causal_streamer])
next
  assume "length d < snd gen"
  with gen show "generate_signals (fst gen) st d = Inr (replicate (length d) 0)"
    by (elim insertE) (simp_all add: ma.signals_warm rsi.signals_warm macd.signals_warm)
qed

theorem streaming_strategies_causal_and_warm_witness:
  "generate_signals (rsi_generate_signal
      \<lparr>rsi_period = 14, oversold = 30, overbought = 70, use_mid_crossover = True\<rparr>) HOLD
     [\<lparr>b_open = 1, b_high = 1, b_low = 1, b_close = 1, b_volume = 1\<rparr>] = Inr [0]"
  using streaming_strategies_causal_and_warm
    [of "(rsi_generate_signal \<lparr>rsi_period = 14, oversold = 30, overbought = 70,
            use_mid_crossover = True\<rparr>, 15)" _
        "\<lparr>rsi_period = 14, oversold = 30, overbought = 70, use_mid_crossover = True\<rparr>" _ HOLD
        "[\<lparr>b_open = 1, b_high = 1, b_low = 1, b_close = 1, b_volume = 1\<rparr>]"]
  by simp

end
