(* ===== verification/Vector_Strategies.thy ===== *)
theory Vector_Strategies imports Strategy_Base begin

text \<open>
  The vectorised strategies: \<open>mean_reversion.py\<close>, \<open>channel_breakout.py\<close> and the dual
  moving average of \<open>backtest_engine.py\<close>.  A signal series is a list of integers, one per
  bar: 1 long, 0 flat, -1 short.  Assignments through a boolean mask are elementwise and in
  the source's order.
\<close>

section \<open>Signal series\<close>

text \<open>\<open>signals.diff().fillna(0)\<close> of an integer series, and the two counts made from it.\<close>

fun int_diff :: "int list \<Rightarrow> int list" where
  "int_diff [] = []"
| "int_diff (x # xs) = 0 # map2 (-) xs (x # xs)"

definition count_switches :: "int list \<Rightarrow> nat" where
  "count_switches ss = length (filter (\<lambda>d. \<bar>d\<bar> > 0) (int_diff ss))"

lemma length_int_diff [simp]: "length (int_diff ss) = length ss"
  by (cases ss) auto

lemma count_switches_bound: "count_switches ss \<le> length ss - 1"
proof (cases ss)
  case (Cons x xs)
  have "length (filter (\<lambda>d. \<bar>d\<bar> > 0) (map2 (-) xs (x # xs))) \<le> length (map2 (-) xs (x # xs))"
    by (rule length_filter_le)
  then show ?thesis using Cons by (simp add: count_switches_def)
qed (simp add: count_switches_def)

section \<open>Mean reversion\<close>

record mean_reversion =
  z_window :: nat
  entry_threshold :: real
  exit_threshold :: real
  use_short :: bool

definition calculate_z_score :: "mean_reversion \<Rightarrow> bar list \<Rightarrow> series" where
  "calculate_z_score cfg bars =
     (let close = closes bars;
          rolling_mean = rolling (z_window cfg) mean_fl close;
          rolling_std = map (\<lambda>s. if s = Fin 0 then NaN else s) (rolling (z_window cfg) std_fl close)
      in map2 fl_div (map2 fl_sub close rolling_mean) rolling_std)"

definition mr_signal :: "mean_reversion \<Rightarrow> fl \<Rightarrow> int" where
  "mr_signal cfg z =
     (let s0 = 0;
          s1 = (if fl_less z (Fin (- entry_threshold cfg)) then 1 else s0);
          s2 = (if use_short cfg \<and> fl_less (Fin (entry_threshold cfg)) z then - 1 else s1)
      in if fl_less (Fin (- exit_threshold cfg)) z \<and> fl_less z (Fin (exit_threshold cfg)) then 0
         else s2)"

definition mr_generate_signals :: "mean_reversion \<Rightarrow> bar list \<Rightarrow> int list" where
  "mr_generate_signals cfg bars = map (mr_signal cfg) (calculate_z_score cfg bars)"

definition mr_count_crossovers :: "mean_reversion \<Rightarrow> bar list \<Rightarrow> nat" where
  "mr_count_crossovers cfg bars = count_switches (mr_generate_signals cfg bars)"

text \<open>The trial parameters of \<open>calculate_param_sensitivity\<close>, in the source's order.\<close>

definition mr_trials :: "mean_reversion \<Rightarrow> real \<Rightarrow> mean_reversion list" where
  "mr_trials cfg p =
     (let w = real (z_window cfg); en = entry_threshold cfg; ex = exit_threshold cfg in
      [\<lparr>z_window = max 5 (nat (round_even (w * (1 - p)))), entry_threshold = max 0.5 (en * (1 - p)),
        exit_threshold = max 0.05 (ex * (1 - p)), use_short = use_short cfg\<rparr>,
       \<lparr>z_window = max 5 (nat (round_even (w * (1 + p)))), entry_threshold = max 0.5 (en * (1 + p)),
        exit_threshold = max 0.05 (ex * (1 + p)), use_short = use_short cfg\<rparr>,
       \<lparr>z_window = z_window cfg, entry_threshold = max 0.5 (en * (1 + p)),
        exit_threshold = max 0.05 (ex * (1 - p)), use_short = use_short cfg\<rparr>])"

definition differ_fraction :: "int list \<Rightarrow> int list \<Rightarrow> real" where
  "differ_fraction a b = real (length (filter (\<lambda>(x, y). x \<noteq> y) (zip a b))) / real (length a)"

definition mr_param_sensitivity :: "mean_reversion \<Rightarrow> bar list \<Rightarrow> real \<Rightarrow> real" where
  "mr_param_sensitivity cfg bars p =
     (let base = mr_generate_signals cfg bars in
      if base = [] then 0
      else
        (let trials = filter (\<lambda>t. \<not> exit_threshold t \<ge> entry_threshold t) (mr_trials cfg p);
             diffs = map (\<lambda>t. differ_fraction base (mr_generate_signals t bars)) trials
         in if diffs = [] then 0 else clamp 0 1 (sum_list diffs / real (length diffs))))"

lemma length_z_score [simp]: "length (calculate_z_score cfg bars) = length bars"
  by (simp add: calculate_z_score_def Let_def)

lemma length_mr_generate_signals [simp]: "length (mr_generate_signals cfg bars) = length bars"
  by (simp add: mr_generate_signals_def)

lemma z_score_take: "calculate_z_score cfg (take n bars) = take n (calculate_z_score cfg bars)"
  by (simp add: calculate_z_score_def Let_def causal_simps)

lemma mr_signal_range: "mr_signal cfg z \<in> {-1, 0, 1}"
  by (simp add: mr_signal_def Let_def)

interpretation mr: causal_strategy "\<lambda>bars. Inr (mr_generate_signals cfg bars)" for cfg
proof unfold_locales
  fix d :: "bar list" and ss :: "int list"
  assume "(Inr (mr_generate_signals cfg d) :: int list res) = Inr ss"
  then show "set ss \<subseteq> {-1, 0, 1}"
    using mr_signal_range by (fastforce simp: mr_generate_signals_def)
qed (auto simp: mr_generate_signals_def z_score_take take_map)

text \<open>What the mean reversion strategy holds.  With an exit threshold at or below the entry
  threshold (the only combination the optimiser admits) a bar is long exactly when its
  z-score is below minus the entry threshold, short exactly when shorting is allowed and
  the z-score is above it, and flat otherwise.  So the exit threshold never acts: a
  position ends as soon as the price is back inside the entry band.\<close>

theorem mr_exit_threshold_is_dead:
  assumes "exit_threshold cfg \<le> entry_threshold cfg" "0 \<le> entry_threshold cfg"
    and "i < length bars"
  shows "mr_generate_signals cfg bars ! i =
    (let z = calculate_z_score cfg bars ! i in
     if fl_less z (Fin (- entry_threshold cfg)) then 1
     else if use_short cfg \<and> fl_less (Fin (entry_threshold cfg)) z then -1 else 0)"
proof -
  have "mr_signal cfg z =
    (if fl_less z (Fin (- entry_threshold cfg)) then 1
     else if use_short cfg \<and> fl_less (Fin (entry_threshold cfg)) z then -1 else 0)" for z
    using assms(1,2) by (cases z) (auto simp: mr_signal_def Let_def)
  then show ?thesis using assms(3) by (simp add: mr_generate_signals_def Let_def)
qed

definition flat_bar :: "real \<Rightarrow> bar" where
  "flat_bar p = \<lparr>b_open = p, b_high = p, b_low = p, b_close = p, b_volume = 0\<rparr>"

theorem mr_exit_threshold_is_dead_witness:
  "mr_generate_signals \<lparr>z_window = 2, entry_threshold = 2, exit_threshold = 0.5, use_short = True\<rparr>
     [flat_bar 10] ! 0 = 0"
  by (subst mr_exit_threshold_is_dead)
    (simp_all add: calculate_z_score_def Let_def closes_def fins_def rolling_def flat_bar_def)

lemma differ_fraction_bounds: "length a = length b \<Longrightarrow> 0 \<le> differ_fraction a b \<and> differ_fraction a b \<le> 1"
  using length_filter_le [of "\<lambda>(x, y). x \<noteq> y" "zip a b"]
  by (cases "a = []") (auto simp: differ_fraction_def divide_le_eq)

lemma mr_param_sensitivity_bounds:
  "0 \<le> mr_param_sensitivity cfg bars p \<and> mr_param_sensitivity cfg bars p \<le> 1"
  by (auto simp: mr_param_sensitivity_def Let_def clamp_def)

section \<open>Channel breakout\<close>

record channel_breakout =
  channel_window :: nat
  atr_window :: nat
  atr_k :: real
  use_stop_loss :: bool

text \<open>The true range: the row maximum of three series skips the missing values of the first
  bar, where there is no previous close.\<close>

fun true_range :: "bar list \<Rightarrow> real list" where
  "true_range [] = []"
| "true_range (b # bs) =
     (b_high b - b_low b) #
     map2 (\<lambda>x y. max (b_high x - b_low x)
                   (max \<bar>b_high x - b_close y\<bar> \<bar>b_low x - b_close y\<bar>)) bs (b # bs)"

definition cb_atr :: "channel_breakout \<Rightarrow> bar list \<Rightarrow> series" where
  "cb_atr cfg bars = rolling (atr_window cfg) mean_fl (fins (true_range bars))"

definition cb_breakouts :: "channel_breakout \<Rightarrow> bar list \<Rightarrow> int list" where
  "cb_breakouts cfg bars =
     (let close = closes bars;
          upper = rolling (channel_window cfg) max_fl (fins (map b_high bars));
          lower = rolling (channel_window cfg) min_fl (fins (map b_low bars));
          breakout = map2 (\<lambda>c u. fl_less u c) close (shift1 upper);
          breakdown = map2 (\<lambda>c l. fl_less c l) close (shift1 lower);
          s1 = map (\<lambda>b. if b then 1 else 0) breakout
      in map2 (\<lambda>s b. if b then 0 else s) s1 breakdown)"

text \<open>One iteration of the stop-loss loop, over the position flag, the entry prices (a copy of
  the closes) and the signals.\<close>

definition cb_stop_step ::
  "channel_breakout \<Rightarrow> real list \<Rightarrow> series \<Rightarrow> nat \<Rightarrow> bool \<times> real list \<times> int list
   \<Rightarrow> bool \<times> real list \<times> int list" where
  "cb_stop_step cfg close atr i = (\<lambda>(in_position, entry_price, signals).
     if signals ! i = 1 \<and> \<not> in_position then (True, entry_price[i := close ! i], signals)
     else if in_position \<and> signals ! i = 0 then (False, entry_price, signals)
     else if in_position then
       (let stop_price = fl_sub (Fin (entry_price ! i)) (fl_mul (Fin (atr_k cfg)) (atr ! i)) in
        if fl_less (Fin (close ! i)) stop_price then (False, entry_price, signals[i := 0])
        else (in_position, entry_price, signals))
     else (in_position, entry_price, signals))"

definition cb_stop_loop ::
  "channel_breakout \<Rightarrow> real list \<Rightarrow> series \<Rightarrow> nat list \<Rightarrow> bool \<times> real list \<times> int list
   \<Rightarrow> bool \<times> real list \<times> int list" where
  "cb_stop_loop cfg close atr is st = fold (cb_stop_step cfg close atr) is st"

definition cb_generate_signals :: "channel_breakout \<Rightarrow> bar list \<Rightarrow> int list" where
  "cb_generate_signals cfg bars =
     (let signals = cb_breakouts cfg bars; close = map b_close bars in
      if use_stop_loss cfg
      then snd (snd (cb_stop_loop cfg close (cb_atr cfg bars)
                       [channel_window cfg..<length signals] (False, close, signals)))
      else signals)"

definition cb_count_crossovers :: "channel_breakout \<Rightarrow> bar list \<Rightarrow> nat" where
  "cb_count_crossovers cfg bars = count_switches (cb_generate_signals cfg bars)"

lemma length_true_range [simp]: "length (true_range bars) = length bars"
  by (cases bars) auto

lemma length_cb_breakouts [simp]: "length (cb_breakouts cfg bars) = length bars"
  by (simp add: cb_breakouts_def Let_def fins_def)


lemma cb_breakouts_range: "set (cb_breakouts cfg bars) \<subseteq> {0, 1}"
  by (auto simp: cb_breakouts_def Let_def set_zip split: if_splits)

text \<open>The average true range of bars whose low is not above their high is never negative.\<close>

lemma true_range_nonneg:
  assumes "\<forall>b\<in>set bars. b_low b \<le> b_high b" "t \<in> set (true_range bars)"
  shows "0 \<le> t"
  using assms by (cases bars) (auto simp: set_zip)

lemma cb_atr_nonneg:
  assumes "\<forall>b\<in>set bars. b_low b \<le> b_high b" "i < length bars"
  shows "nonneg_fl (cb_atr cfg bars ! i)"
proof (rule rolling_mean_nonneg)
  show "\<forall>x\<in>set (fins (true_range bars)). nonneg_fl x"
    using true_range_nonneg [OF assms(1)] by (auto simp: fins_def nonneg_fl_def)
  show "cb_atr cfg bars ! i \<in> set (rolling (atr_window cfg) mean_fl (fins (true_range bars)))"
    unfolding cb_atr_def using assms(2) by (simp add: fins_def)
qed

text \<open>One iteration changes no signal as long as the entry prices are the closes.\<close>

lemma cb_stop_step_dead:
  assumes "0 \<le> atr_k cfg" "nonneg_fl (atr ! i)"
  shows "\<exists>b'. cb_stop_step cfg close atr i (b, close, ss) = (b', close, ss)"
proof -
  have "\<not> fl_less (Fin c) (fl_sub (Fin c) (fl_mul (Fin (atr_k cfg)) (atr ! i)))" for c
    using assms by (cases "atr ! i") (simp_all add: nonneg_fl_def fl_sub_def not_less)
  then show ?thesis by (auto simp: cb_stop_step_def Let_def)
qed

lemma cb_stop_loop_dead:
  assumes "0 \<le> atr_k cfg" "\<forall>i\<in>set is. nonneg_fl (atr ! i)"
  shows "\<exists>b'. cb_stop_loop cfg close atr is (b, close, ss) = (b', close, ss)"
  using assms(2) unfolding cb_stop_loop_def
proof (induction "is" arbitrary: b)
  case (Cons i "is")
  obtain b' where "cb_stop_step cfg close atr i (b, close, ss) = (b', close, ss)"
    using cb_stop_step_dead assms(1) Cons.prems by fastforce
  with Cons show ?case by simp
qed simp

text \<open>The ATR stop loss never fires.  The loop compares each close with a stop placed below
  that same close, because \<open>entry_price\<close> is a copy of the closes and is only ever set to
  the close of the bar it is read at; so for every data set with lows at or below highs and
  every non-negative multiple the signals with the stop loss are those without it.\<close>

theorem cb_stop_loss_never_fires:
  assumes "\<forall>b\<in>set bars. b_low b \<le> b_high b" "0 \<le> atr_k cfg"
  shows "cb_generate_signals cfg bars = cb_breakouts cfg bars"
proof -
  have "\<forall>i\<in>set [channel_window cfg..<length bars]. nonneg_fl (cb_atr cfg bars ! i)"
    using cb_atr_nonneg [OF assms(1)] by simp
  from cb_stop_loop_dead [OF assms(2) this, of "map b_close bars" False "cb_breakouts cfg bars"]
  show ?thesis by (auto simp: cb_generate_signals_def Let_def)
qed

theorem cb_stop_loss_never_fires_witness:
  "cb_generate_signals \<lparr>channel_window = 1, atr_window = 1, atr_k = 2, use_stop_loss = True\<rparr>
     (map flat_bar [10, 12, 3]) = [0, 1, 0]"
  by (subst cb_stop_loss_never_fires)
    (simp_all add: flat_bar_def cb_breakouts_def closes_def fins_def rolling_def window_at_def
      shift1_def max_fl_def min_fl_def Let_def)

text \<open>Causality of the stop loop: an iteration at \<open>i\<close> reads and writes position \<open>i\<close> only.\<close>

definition cb_cut :: "nat \<Rightarrow> bool \<times> real list \<times> int list \<Rightarrow> bool \<times> real list \<times> int list" where
  "cb_cut n = (\<lambda>(b, es, ss). (b, take n es, take n ss))"

lemma cb_stop_step_cut:
  assumes "i < n"
  shows "cb_stop_step cfg (take n close) (take n atr) i (cb_cut n st)
    = cb_cut n (cb_stop_step cfg close atr i st)"
  using assms by (cases st) (simp add: cb_stop_step_def cb_cut_def Let_def take_update_swap)

lemma cb_stop_step_beyond:
  assumes "n \<le> i"
  shows "take n (snd (snd (cb_stop_step cfg close atr i st))) = take n (snd (snd st))"
  using assms by (cases st) (simp add: cb_stop_step_def Let_def)

lemma cb_stop_loop_cut:
  "\<forall>i\<in>set is. i < n \<Longrightarrow>
   cb_stop_loop cfg (take n close) (take n atr) is (cb_cut n st)
     = cb_cut n (cb_stop_loop cfg close atr is st)"
  unfolding cb_stop_loop_def
  by (induction "is" arbitrary: st) (simp_all add: cb_stop_step_cut)

lemma cb_stop_loop_beyond:
  "\<forall>i\<in>set is. n \<le> i \<Longrightarrow>
   take n (snd (snd (cb_stop_loop cfg close atr is st))) = take n (snd (snd st))"
  unfolding cb_stop_loop_def
  by (induction "is" arbitrary: st) (simp_all add: cb_stop_step_beyond)

lemma cb_stop_loop_take:
  fixes cfg :: channel_breakout and close :: "real list" and ss :: "int list"
  defines "run \<equiv> \<lambda>cs as is ss. snd (snd (cb_stop_loop cfg cs as is (False, cs, ss)))"
  shows "run (take n close) (take n atr) [w..<min n (length ss)] (take n ss)
    = take n (run close atr [w..<length ss] ss)"
proof -
  let ?l = "[w..<min n (length ss)]" and ?r = "[max w (min n (length ss))..<length ss]"
  have split: "[w..<length ss] = ?l @ ?r"
  proof (cases "w \<le> min n (length ss)")
    case True
    obtain k where "length ss = min n (length ss) + k"
      using le_Suc_ex [OF min.cobounded2 [of n "length ss"]] by blast
    then show ?thesis using upt_add_eq_append [OF True, of k] True by (simp add: max_def)
  next
    case False
    then show ?thesis by (auto simp: max_def)
  qed
  have "take n (run close atr [w..<length ss] ss)
      = take n (snd (snd (cb_stop_loop cfg close atr ?r (cb_stop_loop cfg close atr ?l (False, close, ss)))))"
    unfolding run_def split by (simp add: cb_stop_loop_def)
  also have "\<dots> = take n (snd (snd (cb_stop_loop cfg close atr ?l (False, close, ss))))"
    by (cases "n \<le> length ss") (auto intro!: cb_stop_loop_beyond)
  also have "\<dots> = snd (snd (cb_cut n (cb_stop_loop cfg close atr ?l (False, close, ss))))"
    by (simp add: cb_cut_def split: prod.split)
  also have "\<dots> = run (take n close) (take n atr) ?l (take n ss)"
    unfolding run_def by (subst cb_stop_loop_cut [symmetric]) (auto simp: cb_cut_def)
  finally show ?thesis by simp
qed

lemma zip_shift_take: "zip (take n xs) (a # take n xs) = zip (take n xs) (take n (a # xs))"
  by (induction xs arbitrary: a n) (auto simp: take_Cons' Let_def)

lemma true_range_take: "true_range (take n bars) = take n (true_range bars)"
  by (cases bars; cases n) (simp_all add: take_map take_zip zip_shift_take)

lemma fins_take: "fins (take n xs) = take n (fins xs)"
  by (simp add: fins_def take_map)

lemma cb_breakouts_take: "cb_breakouts cfg (take n bars) = take n (cb_breakouts cfg bars)"
  by (simp add: cb_breakouts_def Let_def causal_simps fins_take flip: take_map)
    (simp add: fins_def take_map take_zip rolling_take shift1_take)

lemma length_cb_stop_loop:
  "length (snd (snd (cb_stop_loop cfg close atr is st))) = length (snd (snd st))"
  unfolding cb_stop_loop_def
  by (induction "is" arbitrary: st) (auto simp: cb_stop_step_def Let_def)

lemma cb_stop_step_range:
  "set (snd (snd st)) \<subseteq> {0, 1} \<Longrightarrow> set (snd (snd (cb_stop_step cfg close atr i st))) \<subseteq> {0, 1}"
  using set_update_subset_insert [of "snd (snd st)" i 0]
  by (cases st) (auto simp: cb_stop_step_def Let_def)

lemma cb_stop_loop_range:
  "set (snd (snd st)) \<subseteq> {0, 1} \<Longrightarrow> set (snd (snd (cb_stop_loop cfg close atr is st))) \<subseteq> {0, 1}"
  unfolding cb_stop_loop_def
  by (induction "is" arbitrary: st) (simp_all add: cb_stop_step_range)

interpretation cb: causal_strategy "\<lambda>bars. Inr (cb_generate_signals cfg bars)" for cfg
proof unfold_locales
  fix d :: "bar list" and ss :: "int list" and n
  assume eq: "(Inr (cb_generate_signals cfg d) :: int list res) = Inr ss"
  show "length ss = length d"
    using eq by (auto simp: cb_generate_signals_def Let_def length_cb_stop_loop)
  have "set (cb_generate_signals cfg d) \<subseteq> {0, 1}"
    using cb_breakouts_range [of cfg d]
    by (simp add: cb_generate_signals_def Let_def cb_stop_loop_range)
  then show "set ss \<subseteq> {-1, 0, 1}" using eq by auto
  show "(Inr (cb_generate_signals cfg (take n d)) :: int list res) = Inr (take n ss)"
    using eq cb_stop_loop_take [of cfg n "map b_close d" "cb_atr cfg d" "channel_window cfg"
        "cb_breakouts cfg d"]
    by (auto simp: cb_generate_signals_def Let_def cb_breakouts_take take_map cb_atr_def
        true_range_take fins_take rolling_take min.commute)
qed


section \<open>Dual moving average\<close>

record dual_ma =
  fast_period :: nat
  short_period :: nat
  use_long_only :: bool
  use_regime_filter :: bool

definition dual_signal :: "dual_ma \<Rightarrow> fl \<Rightarrow> fl \<Rightarrow> int" where
  "dual_signal cfg fast slow =
     (let s1 = (if fl_less slow fast then 1 else 0)
      in if fl_less fast slow then (if use_long_only cfg then 0 else - 1) else s1)"

text \<open>The regime filter imports \<open>.regime\<close> from the package \<open>backtest\<close>, which has no such
  module: with the filter on, \<open>generate_signals\<close> raises ModuleNotFoundError.\<close>

definition dual_generate_signals :: "dual_ma \<Rightarrow> bar list \<Rightarrow> int list res" where
  "dual_generate_signals cfg bars =
     (let close = closes bars;
          fast_ma = rolling (fast_period cfg) mean_fl close;
          slow_ma = rolling (short_period cfg) mean_fl close in
      if use_regime_filter cfg then Inl ModuleNotFoundError
      else Inr (map2 (dual_signal cfg) fast_ma slow_ma))"

definition dual_count_crossovers :: "dual_ma \<Rightarrow> bar list \<Rightarrow> nat res" where
  "dual_count_crossovers cfg bars =
     rbind (dual_generate_signals cfg bars) (\<lambda>signals.
       let signal_diff = int_diff signals;
           golden_cross = length (filter (\<lambda>d. d = 1 \<or> d = 2) signal_diff);
           death_cross = length (filter (\<lambda>d. d = -1 \<or> d = -2) signal_diff)
       in Inr (golden_cross + death_cross))"

definition dual_calc_returns :: "bar list \<Rightarrow> int list \<Rightarrow> series" where
  "dual_calc_returns bars signals =
     map2 fl_mul (fillna0 (shift1 (fins (map of_int signals)))) (pct_change (closes bars))"

text \<open>A year has 252 bars.\<close>

definition calc_cagr :: "series \<Rightarrow> fl" where
  "calc_cagr equity =
     (if length equity < 2 then Fin 0
      else fl_sub (fl_powr (fl_div (last equity) (hd equity)) (252 / real (length equity))) (Fin 1))"

definition dual_calc_cagr_from_returns :: "series \<Rightarrow> fl" where
  "dual_calc_cagr_from_returns returns =
     (if length returns < 2 then Fin 0
      else calc_cagr (map (fl_mul (Fin 100000)) (cumprod (map (fl_add (Fin 1)) (fillna0 returns)))))"

definition dual_perturbations :: "dual_ma \<Rightarrow> real \<Rightarrow> (nat \<times> nat) list" where
  "dual_perturbations cfg p =
     (let f = real (fast_period cfg); s = real (short_period cfg) in
      map (\<lambda>(fp, sp). let fast_p = max 1 (nat (py_int fp))
                      in (fast_p, max (fast_p + 1) (nat (py_int sp))))
        [(f * (1 + p), s), (f * (1 - p), s), (f, s * (1 + p)), (f, s * (1 - p))])"

definition dual_param_sensitivity :: "dual_ma \<Rightarrow> bar list \<Rightarrow> real \<Rightarrow> fl res" where
  "dual_param_sensitivity cfg bars p =
     rbind (dual_generate_signals cfg bars) (\<lambda>base_signals.
       let base_cagr = dual_calc_cagr_from_returns (dual_calc_returns bars base_signals) in
       if base_cagr = Fin 0 then Inr (Fin 0)
       else
         (let change = (\<lambda>(fast_p, short_p) max_change.
                case dual_generate_signals \<lparr>fast_period = fast_p, short_period = short_p,
                       use_long_only = use_long_only cfg, use_regime_filter = False\<rparr> bars of
                  Inl _ \<Rightarrow> max_change
                | Inr signals \<Rightarrow>
                    py_max max_change
                      (fl_div (fl_abs (fl_sub (dual_calc_cagr_from_returns
                                 (dual_calc_returns bars signals)) base_cagr))
                              (fl_abs base_cagr)))
          in Inr (py_min (fold change (dual_perturbations cfg p) (Fin 0)) (Fin 1))))"

lemma dual_signal_range: "dual_signal cfg f s \<in> {-1, 0, 1}"
  by (simp add: dual_signal_def Let_def)

interpretation dual: causal_strategy "dual_generate_signals cfg" for cfg
proof unfold_locales
  fix d :: "bar list" and ss :: "int list" and n
  assume eq: "dual_generate_signals cfg d = Inr ss"
  then show "length ss = length d" and "dual_generate_signals cfg (take n d) = Inr (take n ss)"
    by (auto simp: dual_generate_signals_def Let_def causal_simps split: if_splits)
  show "set ss \<subseteq> {-1, 0, 1}"
    using eq dual_signal_range
    by (fastforce simp: dual_generate_signals_def Let_def split: if_splits)
qed

text \<open>The crossings counted by the two masks are exactly the changes of the signal.\<close>

lemma dual_count_is_switches:
  assumes "dual_generate_signals cfg bars = Inr ss"
  shows "dual_count_crossovers cfg bars = Inr (count_switches ss)"
proof -
  have "d \<in> {-2, -1, 0, 1, 2}" if "d \<in> set (int_diff ss)" for d
  proof (cases ss)
    case (Cons x xs)
    have "(a, b) \<in> set (zip xs (x # xs)) \<Longrightarrow> a \<in> set ss \<and> b \<in> set ss" for a b
      using Cons by (metis list.set_intros(2) set_zip_leftD set_zip_rightD)
    with that Cons have "d = 0 \<or> (\<exists>a\<in>set ss. \<exists>b\<in>set ss. d = a - b)"
      by fastforce
    then consider "d = 0" | a b where "a \<in> set ss" "b \<in> set ss" "d = a - b"
      by blast
    then show ?thesis
    proof cases
      case (2 a b)
      have "x = -1 \<or> x = 0 \<or> x = 1" if "x \<in> set ss" for x
        using dual.signals_range [OF assms] that by auto
      from this [OF 2(1)] this [OF 2(2)] 2(3) show ?thesis by auto
    qed simp
  qed (use that in simp)
  then have "filter (\<lambda>d. \<bar>d\<bar> > 0) (int_diff ss) = filter (\<lambda>d. (d = 1 \<or> d = 2) \<or> (d = -1 \<or> d = -2)) (int_diff ss)"
    by (intro filter_cong) auto
  moreover have "length (filter (\<lambda>d. P d \<or> Q d) ds) = length (filter P ds) + length (filter Q ds)"
    if "\<And>d. \<not> (P d \<and> Q d)" for P Q and ds :: "int list"
    using that by (induction ds) auto
  ultimately show ?thesis
    using assms by (simp add: dual_count_crossovers_def count_switches_def Let_def)
qed

end
