(* ===== verification/Symbols.thy ===== *)
theory Symbols imports Py_String begin

text \<open>
  \<open>data/symbols.py\<close>: market detection and the canonical forms of ticker symbols.  The
  regular expressions are spelled out as predicates on the stripped, upper-cased text;
  digits are ASCII digits.
\<close>

datatype market = CN | HK | US

definition symbol_of :: "string \<Rightarrow> string" where
  "symbol_of ticker = py_upper (py_strip ticker)"

definition cn_digit_re :: "string \<Rightarrow> bool" where
  "cn_digit_re s \<longleftrightarrow> length s = 6 \<and> list_all is_digit s"

definition cn_ts_code_re :: "string \<Rightarrow> bool" where
  "cn_ts_code_re s \<longleftrightarrow> length s = 9 \<and> list_all is_digit (take 6 s)
     \<and> py_upper (drop 6 s) \<in> {''.SH'', ''.SZ''}"

definition hk_ticker_re :: "string \<Rightarrow> bool" where
  "hk_ticker_re s \<longleftrightarrow>
     (let raw = (if ends_with ''.HK'' (py_upper s) then take (length s - 3) s else s)
      in 1 \<le> length raw \<and> length raw \<le> 5 \<and> list_all is_digit raw)"

definition detect_market :: "string \<Rightarrow> market" where
  "detect_market ticker =
     (let symbol = symbol_of ticker in
      if cn_ts_code_re symbol \<or> cn_digit_re symbol then CN
      else if hk_ticker_re symbol then HK else US)"

definition cn_suffix :: "string \<Rightarrow> string" where
  "cn_suffix symbol =
     (if hd symbol \<in> {CHR ''5'', CHR ''6'', CHR ''9''} then ''.SH'' else ''.SZ'')"

definition normalize_cn_symbol :: "string \<Rightarrow> string res" where
  "normalize_cn_symbol ticker =
     (let symbol = symbol_of ticker in
      if cn_ts_code_re symbol then Inr symbol
      else if cn_digit_re symbol then Inr (symbol @ cn_suffix symbol)
      else Inl ValueError)"

definition hk_raw :: "string \<Rightarrow> string" where
  "hk_raw symbol = (if ends_with ''.HK'' symbol then take (length symbol - 3) symbol else symbol)"

definition normalize_hk_symbol :: "string \<Rightarrow> string" where
  "normalize_hk_symbol ticker =
     (let symbol = symbol_of ticker; raw = hk_raw symbol in
      if \<not> py_isdigit raw then symbol else zfill 4 raw @ ''.HK'')"

definition normalize_tushare_symbol :: "string \<Rightarrow> string res" where
  "normalize_tushare_symbol ticker =
     (case detect_market ticker of
        CN \<Rightarrow> normalize_cn_symbol ticker
      | HK \<Rightarrow>
          (let raw = hk_raw (symbol_of ticker) in
           if \<not> py_isdigit raw then Inl ValueError else Inr (zfill 5 raw @ ''.HK''))
      | US \<Rightarrow> Inl ValueError)"

definition normalize_symbol :: "string \<Rightarrow> market option \<Rightarrow> string res" where
  "normalize_symbol ticker mkt =
     (case (case mkt of Some m \<Rightarrow> m | None \<Rightarrow> detect_market ticker) of
        CN \<Rightarrow> normalize_cn_symbol ticker
      | HK \<Rightarrow> Inr (normalize_hk_symbol ticker)
      | US \<Rightarrow> Inr (symbol_of ticker))"

section \<open>Canonical forms\<close>

lemma char_upper_digit [simp]: "is_digit c \<Longrightarrow> char_upper c = c"
  by (auto simp: is_digit_def char_upper_def Let_def)

lemma py_upper_digits [simp]: "list_all is_digit s \<Longrightarrow> py_upper s = s"
  by (induction s) (auto simp: py_upper_def)

lemma digit_not_space [simp]: "is_digit c \<Longrightarrow> \<not> is_space c"
  by (auto simp: is_digit_def is_space_def Let_def)

lemma is_space_char_upper [simp]: "is_space (char_upper c) = is_space c"
proof (cases "97 \<le> (of_char c :: nat) \<and> (of_char c :: nat) \<le> 122")
  case True
  then have "(of_char c - 32) mod 256 = (of_char c - 32 :: nat)"
    by (intro mod_less) linarith
  with True show ?thesis by (auto simp: char_upper_def is_space_def Let_def)
qed (auto simp: char_upper_def is_space_def Let_def)

lemma dropWhile_map_upper: "dropWhile is_space (map char_upper s) = map char_upper (dropWhile is_space s)"
  by (induction s) auto

lemma symbol_of_idem [simp]: "symbol_of (symbol_of s) = symbol_of s"
proof -
  have "py_strip (py_upper t) = py_upper (py_strip t)" for t
    by (simp add: py_strip_def py_upper_def dropWhile_map_upper rev_map)
  then show ?thesis by (simp add: symbol_of_def)
qed

text \<open>A text that starts and ends without blanks and is upper case is its own symbol.\<close>

lemma symbol_of_fix:
  assumes "s \<noteq> []" "\<not> is_space (hd s)" "\<not> is_space (last s)" "py_upper s = s"
  shows "symbol_of s = s"
proof -
  have keep: "dropWhile is_space xs = xs" if "xs \<noteq> []" "\<not> is_space (hd xs)" for xs
    using that by (cases xs) auto
  show ?thesis
    using assms keep [of s] keep [of "rev s"] by (simp add: symbol_of_def py_strip_def hd_rev)
qed

lemma digits_suffix_symbol:
  assumes "list_all is_digit d" "d \<noteq> []" "suf \<in> {''.HK'', ''.SH'', ''.SZ''}"
  shows "symbol_of (d @ suf) = d @ suf"
proof (rule symbol_of_fix)
  show "\<not> is_space (hd (d @ suf))" using assms by (cases d) auto
  show "\<not> is_space (last (d @ suf))" using assms(3) by (auto simp: is_space_def)
  show "py_upper (d @ suf) = d @ suf" using assms by (auto simp: py_upper_def [of suf] char_upper_def)
qed (use assms in simp)

lemma zfill_digits: "list_all is_digit d \<Longrightarrow> list_all is_digit (zfill n d)"
  by (auto simp: zfill_def list_all_iff is_digit_def)

lemma hk_raw_suffix [simp]: "hk_raw (d @ ''.HK'') = d"
  by (simp add: hk_raw_def)


lemma hk_ticker_digits:
  assumes "list_all is_digit d" "1 \<le> length d" "length d \<le> 5"
  shows "hk_ticker_re (d @ ''.HK'')"
  using assms by (simp add: hk_ticker_re_def py_upper_def char_upper_def [of "CHR ''.''"]
      char_upper_def [of "CHR ''H''"] char_upper_def [of "CHR ''K''"] ends_with_def)


lemma cn_suffix_cases: "cn_suffix s \<in> {''.SH'', ''.SZ''}"
  by (simp add: cn_suffix_def)

lemma normalize_cn_fix:
  assumes "normalize_cn_symbol t = Inr s"
  shows "normalize_cn_symbol s = Inr s" "detect_market s = CN" "normalize_symbol s None = Inr s"
proof -
  have "cn_ts_code_re s \<and> symbol_of s = s"
  proof -
    let ?u = "symbol_of t"
    consider "cn_ts_code_re ?u" "s = ?u"
      | suf where "cn_digit_re ?u" "s = ?u @ suf" "suf \<in> {''.SH'', ''.SZ''}"
      using assms cn_suffix_cases
      unfolding normalize_cn_symbol_def Let_def by (metis Inl_Inr_False Inr_inject)
    then show ?thesis
    proof cases
      case (2 suf)
      then have u: "list_all is_digit ?u" "length ?u = 6" by (simp_all add: cn_digit_re_def)
      have suf: "py_upper suf = suf" "length suf = 3"
        using 2(3) by (auto simp: py_upper_def char_upper_def)
      have "cn_ts_code_re (?u @ suf)"
        using u suf 2(3) by (simp add: cn_ts_code_re_def)
      moreover have "symbol_of (?u @ suf) = ?u @ suf"
        using u 2(3) by (intro digits_suffix_symbol) auto
      ultimately show ?thesis using 2(2) by simp
    qed simp
  qed
  then show "normalize_cn_symbol s = Inr s" "detect_market s = CN" "normalize_symbol s None = Inr s"
    by (simp_all add: normalize_cn_symbol_def detect_market_def normalize_symbol_def Let_def)
qed

lemma hk_raw_digits:
  assumes "detect_market t = HK"
  shows "py_isdigit (hk_raw (symbol_of t)) \<and> length (hk_raw (symbol_of t)) \<le> 5"
proof -
  have "py_upper (symbol_of t) = symbol_of t" by (simp add: symbol_of_def)
  then show ?thesis
    using assms by (auto simp: detect_market_def hk_ticker_re_def hk_raw_def py_isdigit_def Let_def split: if_splits)
qed

lemma normalize_hk_fix:
  assumes hk: "detect_market t = HK"
  shows "normalize_hk_symbol (normalize_hk_symbol t) = normalize_hk_symbol t"
    "detect_market (normalize_hk_symbol t) = HK"
proof -
  let ?d = "hk_raw (symbol_of t)" let ?z = "zfill 4 ?d"
  have dig: "py_isdigit ?d" "length ?d \<le> 5" using hk_raw_digits [OF hk] by simp_all
  then have d: "list_all is_digit ?d" "1 \<le> length ?d"
    by (cases ?d; simp add: py_isdigit_def)+
  have z: "list_all is_digit ?z" "?z \<noteq> []" "length ?z \<le> 5" "length ?z \<ge> 4"
    using d dig(2) zfill_digits [of ?d 4] by (auto simp: zfill_def)
  have norm: "normalize_hk_symbol t = ?z @ ''.HK''"
    using dig(1) by (simp add: normalize_hk_symbol_def Let_def)
  have sym: "symbol_of (?z @ ''.HK'') = ?z @ ''.HK''"
    using digits_suffix_symbol z by simp
  have "zfill 4 ?z = ?z" using z(4) by (simp add: zfill_def [of 4 ?z])
  then show "normalize_hk_symbol (normalize_hk_symbol t) = normalize_hk_symbol t"
    using sym z norm by (simp add: normalize_hk_symbol_def [of "?z @ ''.HK''"] py_isdigit_def Let_def)
  have "\<not> cn_ts_code_re (?z @ ''.HK'')" "\<not> cn_digit_re (?z @ ''.HK'')"
    using z by (simp_all add: cn_ts_code_re_def cn_digit_re_def is_digit_def)
  then show "detect_market (normalize_hk_symbol t) = HK"
    using sym z norm hk_ticker_digits [of ?z] by (simp add: detect_market_def Let_def)
qed

text \<open>Normalisation for the detected market never fails, keeps the market and is idempotent.\<close>

lemma normalize_symbol_fix:
  "\<exists>s. normalize_symbol t (Some (detect_market t)) = Inr s \<and> detect_market s = detect_market t
     \<and> normalize_symbol s None = Inr s"
proof (cases "detect_market t")
  case CN
  then have "\<exists>s. normalize_cn_symbol t = Inr s"
    by (auto simp: detect_market_def normalize_cn_symbol_def Let_def split: if_splits)
  with CN show ?thesis using normalize_cn_fix by (force simp: normalize_symbol_def)
next
  case HK
  then show ?thesis using normalize_hk_fix [OF HK] by (simp add: normalize_symbol_def)
next
  case US
  moreover have "detect_market (symbol_of t) = detect_market t" by (simp add: detect_market_def)
  ultimately show ?thesis by (simp add: normalize_symbol_def)
qed

lemma same_normal_form_same_market:
  "normalize_symbol a (Some (detect_market a)) = normalize_symbol b (Some (detect_market b))
     \<Longrightarrow> detect_market a = detect_market b"
  using normalize_symbol_fix [of a] normalize_symbol_fix [of b] by (metis Inr_inject)




text \<open>The Hong Kong form is not one per security: padding stops at four digits and nothing is cut,
  so the five-digit spelling that Tushare uses stays apart from the four-digit one.\<close>

lemma five_digit_spelling_stays_apart:
  "normalize_symbol ''700'' None = Inr ''0700.HK'' \<and> normalize_symbol ''0700.HK'' None = Inr ''0700.HK''
   \<and> normalize_symbol ''00700.HK'' None = Inr ''00700.HK''
   \<and> normalize_tushare_symbol ''0700.HK'' = normalize_tushare_symbol ''00700.HK''"
  by code_simp


end
