(* ===== verification/Vector_Backtest.thy ===== *)
theory Vector_Backtest imports Vector_Strategies Settings Symbols begin

text \<open>
  \<open>backtest/backtest_engine.py\<close>: the vectorised engine.  Data providers are parameters (what
  each call returns or raises); a frame is its column names and its dated rows, and a date
  is a day number.
\<close>

section \<open>Loading data\<close>

record frame =
  f_columns :: "string list"
  f_rows :: "(int \<times> bar) list"

definition required_columns :: "string list" where
  "required_columns = [''open'', ''high'', ''low'', ''close'', ''volume'']"

definition normalize_columns :: "frame \<Rightarrow> (int \<times> bar) list res" where
  "normalize_columns f =
     (if \<exists>c \<in> set required_columns. c \<notin> py_lower ` set (f_columns f) then Inl ValueError
      else if f_rows f = [] then Inl ValueError
      else Inr (sort_key fst (f_rows f)))"

text \<open>A routed load that raises, returns nothing or an empty frame, or does not normalise falls
  through to the next source; the error that surfaces is the one of the primary provider.  The last
  fallback also makes Yahoo the provider of the engine object for its later loads, which is left out:
  \<open>provider_is_yfinance\<close> is what the provider is at this load.\<close>

definition routed_ok :: "frame option res \<Rightarrow> (int \<times> bar) list option" where
  "routed_ok r =
     (case r of
        Inr (Some f) \<Rightarrow>
          if f_rows f = [] then None
          else (case normalize_columns f of Inr d \<Rightarrow> Some d | Inl _ \<Rightarrow> None)
      | _ \<Rightarrow> None)"

definition load_data ::
  "frame option res \<Rightarrow> frame res \<Rightarrow> frame option res \<Rightarrow> frame res \<Rightarrow> string \<Rightarrow> bool
   \<Rightarrow> (int \<times> bar) list res" where
  "load_data routed1 primary routed2 yfinance ticker provider_is_yfinance =
     (case routed_ok routed1 of
        Some d \<Rightarrow> Inr d
      | None \<Rightarrow>
          (case rbind primary normalize_columns of
             Inr d \<Rightarrow> Inr d
           | Inl e \<Rightarrow>
               (case routed_ok routed2 of
                  Some d \<Rightarrow> Inr d
                | None \<Rightarrow>
                    if detect_market ticker \<noteq> CN \<and> \<not> provider_is_yfinance then
                      (case rbind yfinance normalize_columns of Inr d \<Rightarrow> Inr d | Inl _ \<Rightarrow> Inl e)
                    else Inl e)))"

lemma normalize_columns_Inr:
  "normalize_columns f = Inr d \<Longrightarrow>
     d \<noteq> [] \<and> sorted (map fst d) \<and> mset d = mset (f_rows f)
     \<and> set required_columns \<subseteq> py_lower ` set (f_columns f)"
proof (goal_cases)
  case 1
  then have "d = sort_key fst (f_rows f)" "f_rows f \<noteq> []"
    "set required_columns \<subseteq> py_lower ` set (f_columns f)"
    by (auto simp: normalize_columns_def split: if_splits)
  moreover from this have "mset d = mset (f_rows f)" by simp
  ultimately show ?case by (auto simp: sorted_sort_key simp flip: mset_zero_iff)
qed

text \<open>C33. Loading prices for a backtest.  What \<open>load_data\<close> returns is never empty and is sorted
  by date; and it raises only when the routed load gave nothing usable twice, the primary
  provider failed and, outside the mainland market, Yahoo failed too: then with the primary
  provider's error.\<close>

theorem load_data_contract:
  "(load_data r1 p r2 y t is_yf = Inr d \<longrightarrow> d \<noteq> [] \<and> sorted (map fst d))
   \<and> (load_data r1 p r2 y t is_yf = Inl e \<longrightarrow>
        routed_ok r1 = None \<and> routed_ok r2 = None \<and> rbind p normalize_columns = Inl e
        \<and> (detect_market t \<noteq> CN \<and> \<not> is_yf \<longrightarrow> \<not> is_ok (rbind y normalize_columns)))"
proof -
  define good where "good = (\<lambda>d :: (int \<times> bar) list. d \<noteq> [] \<and> sorted (map fst d))"
  have routed: "routed_ok r = Some d \<Longrightarrow> good d" for r d
    by (auto simp: routed_ok_def good_def dest!: normalize_columns_Inr
        split: sum.splits option.splits if_splits)
  have plain: "rbind q normalize_columns = Inr d \<Longrightarrow> good d" for q d
    by (auto simp: rbind_eq_Inr_iff good_def dest!: normalize_columns_Inr)
  have "load_data r1 p r2 y t is_yf = Inr d \<Longrightarrow> good d"
    by (auto simp: load_data_def dest: routed plain split: option.splits sum.splits if_splits)
  then have "load_data r1 p r2 y t is_yf = Inr d \<longrightarrow> d \<noteq> [] \<and> sorted (map fst d)"
    by (simp add: good_def)
  moreover have "load_data r1 p r2 y t is_yf = Inl e \<longrightarrow>
      routed_ok r1 = None \<and> routed_ok r2 = None \<and> rbind p normalize_columns = Inl e
      \<and> (detect_market t \<noteq> CN \<and> \<not> is_yf \<longrightarrow> \<not> is_ok (rbind y normalize_columns))"
    by (auto simp: load_data_def is_ok_iff split: option.splits sum.splits if_splits)
  ultimately show ?thesis by blast
qed

theorem load_data_contract_witness:
  "routed_ok (Inl RuntimeError) = None
   \<and> load_data (Inl RuntimeError) (Inl ValueError) (Inr None) (Inl KeyError) ''600519'' False = Inl ValueError"
proof -
  have "load_data (Inl RuntimeError) (Inl ValueError) (Inr None) (Inl KeyError) ''600519'' False = Inl ValueError"
    by (simp add: load_data_def routed_ok_def)
  with load_data_contract [of "Inl RuntimeError" "Inl ValueError" "Inr None" "Inl KeyError"
      "''600519''" False "[]" ValueError]
  show ?thesis by blast
qed

section \<open>Returns and equity\<close>

definition cost_rate :: "trading_costs_settings \<Rightarrow> real" where
  "cost_rate tc = tc_slippage_bps tc / 10000 + tc_commission_rate tc + tc_tax_rate tc"

definition calculate_returns :: "trading_costs_settings \<Rightarrow> bar list \<Rightarrow> int list \<Rightarrow> series" where
  "calculate_returns tc bars signals =
     (let daily_returns = pct_change (closes bars);
          position = fillna0 (shift1 (fins (map of_int signals)));
          strategy_returns = map2 fl_mul position daily_returns;
          trade_cost = map (\<lambda>d. of_int \<bar>d\<bar> * cost_rate tc) (int_diff signals);
          net_returns = map2 (\<lambda>r c. fl_sub r (Fin c)) strategy_returns trade_cost
      in fillna0 net_returns)"

definition equity_curve :: "real \<Rightarrow> series \<Rightarrow> series" where
  "equity_curve capital returns = map (fl_mul (Fin capital)) (cumprod (map (fl_add (Fin 1)) returns))"

definition calc_max_drawdown :: "series \<Rightarrow> fl" where
  "calc_max_drawdown equity =
     fl_abs (fl_min_skipna (map2 (\<lambda>e m. fl_div (fl_sub e m) m) equity (fl_cummax equity)))"

definition calc_sharpe :: "series \<Rightarrow> real \<Rightarrow> fl" where
  "calc_sharpe returns risk_free_rate =
     (if length returns < 2 then Fin 0
      else if list_all is_fin returns then
        (let excess = map (\<lambda>r. fin_val r - risk_free_rate / 252) returns
         in fl_div (fl_mul (Fin (sqrt 252)) (mean_fl excess)) (std_fl excess))
      else NaN)"

record trade =
  entry_date :: int
  exit_date :: int
  entry_price :: real
  exit_price :: real
  t_position :: int
  pnl :: real
  return_pct :: real

fun extract_trades_from ::
  "int \<Rightarrow> real \<Rightarrow> int \<Rightarrow> (int \<times> real \<times> int) list \<Rightarrow> trade list" where
  "extract_trades_from position price date [] = []"
| "extract_trades_from position price date ((d, close, signal) # rest) =
     (if signal \<noteq> position then
        (if position \<noteq> 0 then
           [\<lparr>entry_date = date, exit_date = d, entry_price = price, exit_price = close,
             t_position = position, pnl = (close - price) * of_int position,
             return_pct = (if price > 0 then (close - price) * of_int position / price else 0)\<rparr>]
         else [])
        @ (if signal \<noteq> 0 then extract_trades_from signal close d rest
           else extract_trades_from 0 price date rest)
      else extract_trades_from position price date rest)"

definition extract_trades :: "(int \<times> bar) list \<Rightarrow> int list \<Rightarrow> trade list" where
  "extract_trades data signals =
     extract_trades_from 0 0 0 (map2 (\<lambda>(d, b) s. (d, b_close b, s)) data signals)"

definition calc_annual_turnover :: "trade list \<Rightarrow> nat \<Rightarrow> real \<Rightarrow> real" where
  "calc_annual_turnover trades n capital =
     (if trades = [] \<or> n = 0 then 0
      else sum_list (map (\<lambda>t. (entry_price t + exit_price t) * 100) trades) / capital
             / (real n / 252))"

section \<open>The run\<close>

record vstrategy =
  vs_signals :: "bar list \<Rightarrow> int list res"
  vs_crossovers :: "bar list \<Rightarrow> nat res"
  vs_sensitivity :: "bar list \<Rightarrow> fl res"

record engine_result =
  eng_cagr :: fl
  eng_max_drawdown :: fl
  eng_sharpe :: fl
  eng_turnover :: real
  eng_data_years :: real
  eng_assumptions :: "string list"
  eng_param_sensitivity :: fl
  eng_is_first_live :: bool

text \<open>The pydantic model raises a ValueError unless the drawdown is in \<open>[0, 1]\<close> and the data
  window is positive.\<close>

definition validate_result :: "engine_result \<Rightarrow> engine_result res" where
  "validate_result r =
     (if fl_le (Fin 0) (eng_max_drawdown r) \<and> fl_le (eng_max_drawdown r) (Fin 1)
         \<and> eng_data_years r > 0
      then Inr r else Inl ValueError)"

definition engine_run ::
  "trading_costs_settings \<Rightarrow> vstrategy \<Rightarrow> (int \<times> bar) list \<Rightarrow> real \<Rightarrow> fl option \<Rightarrow> bool
   \<Rightarrow> engine_result res" where
  "engine_run tc strategy data capital sensitivity first_live =
     (let bars = map snd data in
      rbind (vs_signals strategy bars) (\<lambda>signals.
        let returns = calculate_returns tc bars signals;
            equity = equity_curve capital returns;
            data_years = of_int (fst (last data) - fst (hd data)) / 365.25 in
        rbind (vs_crossovers strategy bars) (\<lambda>crossover_count.
          let turnover = (if data_years > 0 then real crossover_count / data_years else 0);
              sens = (case sensitivity of
                        Some s \<Rightarrow> s
                      | None \<Rightarrow> if data_years \<ge> 1
                                then (case vs_sensitivity strategy bars of Inr s \<Rightarrow> s | Inl _ \<Rightarrow> Fin 0)
                                else Fin 0)
          in validate_result
               \<lparr>eng_cagr = calc_cagr equity, eng_max_drawdown = calc_max_drawdown equity,
                eng_sharpe = calc_sharpe returns 0.02, eng_turnover = turnover,
                eng_data_years = data_years,
                eng_assumptions = [''slippage'', ''commission'', ''tax'', ''dividend_withholding''],
                eng_param_sensitivity = sens, eng_is_first_live = first_live\<rparr>)))"


section \<open>No look-ahead\<close>

lemma int_diff_take: "int_diff (take n ss) = take n (int_diff ss)"
  by (cases ss; cases n) (simp_all add: take_map take_zip zip_shift_take)

lemma calculate_returns_take:
  "calculate_returns tc (take n bars) (take n ss) = take n (calculate_returns tc bars ss)"
  by (simp add: calculate_returns_def Let_def fins_take shift1_take fillna0_take
      pct_change_take closes_take int_diff_take flip: take_map take_zip)

lemma equity_curve_take: "equity_curve c (take n rs) = take n (equity_curve c rs)"
  by (simp add: equity_curve_def cumprod_take flip: take_map)

lemma length_calculate_returns:
  "length ss = length bars \<Longrightarrow> length (calculate_returns tc bars ss) = length bars"
  by (simp add: calculate_returns_def Let_def fins_def)

lemma length_equity_curve [simp]: "length (equity_curve c rs) = length rs"
  by (simp add: equity_curve_def)

context causal_strategy begin

text \<open>The equity up to day \<open>n\<close> is the equity of a backtest that ends on day \<open>n\<close>.\<close>

lemma equity_take:
  assumes "signals d = Inr ss"
  shows "\<exists>ss'. signals (take n d) = Inr ss'
    \<and> equity_curve c (calculate_returns tc (take n d) ss')
      = take n (equity_curve c (calculate_returns tc d ss))"
  using signals_take [OF assms, of n] by (simp add: calculate_returns_take equity_curve_take)

end

text \<open>C18. The backtest does not look ahead.  For the mean reversion, channel breakout and dual
  moving average strategies the signals and the equity of the first \<open>n\<close> days are those of a
  backtest that only has the first \<open>n\<close> days: no bar after day \<open>n\<close> reaches them, through
  indicators, the stop loop, the shift of the position or the costs.\<close>

theorem backtest_no_look_ahead:
  assumes "strategy \<in> {\<lambda>d. Inr (mr_generate_signals mr d), \<lambda>d. Inr (cb_generate_signals cb d),
      dual_generate_signals du}"
    and "strategy bars = Inr ss"
  shows "\<exists>ss'. strategy (take n bars) = Inr ss' \<and> ss' = take n ss
    \<and> equity_curve c (calculate_returns tc (take n bars) ss')
      = take n (equity_curve c (calculate_returns tc bars ss))"
proof -
  have "causal_strategy strategy"
    using assms(1) mr.causal_strategy_axioms cb.causal_strategy_axioms dual.causal_strategy_axioms
    by blast
  from causal_strategy.equity_take [OF this assms(2), where c = c and tc = tc and n = n]
    causal_strategy.signals_take [OF this assms(2), where n = n]
  show ?thesis by auto
qed

theorem backtest_no_look_ahead_witness:
  "\<exists>ss'. dual_generate_signals \<lparr>fast_period = 1, short_period = 2, use_long_only = True,
       use_regime_filter = False\<rparr> (take 2 (map flat_bar [10, 12, 3])) = Inr ss' \<and> ss' = [0, 1]"
proof -
  let ?du = "\<lparr>fast_period = 1, short_period = 2, use_long_only = True, use_regime_filter = False\<rparr>"
  have "dual_generate_signals ?du (map flat_bar [10, 12, 3]) = Inr [0, 1, 0]"
    by (simp add: dual_generate_signals_def Let_def closes_def fins_def flat_bar_def rolling_def
        window_at_def mean_fl_def dual_signal_def)
  from backtest_no_look_ahead [where strategy = "dual_generate_signals ?du" and du = ?du and n = 2, OF _ this]
  show ?thesis by (simp add: numeral_2_eq_2)
qed

section \<open>Metrics\<close>

lemma fl_cummax_from_fins:
  "fl_cummax_from (Fin m) (fins xs) = fins (cummax_from m xs)"
  by (induction xs arbitrary: m) (auto simp: fins_def max_def)

lemma fl_cummax_fins: "fl_cummax (fins xs) = fins (cummax xs)"
  by (cases xs) (auto simp: fl_cummax_def fins_def fl_cummax_from_fins [unfolded fins_def])

lemma fl_min_skipna_fold:
  "fold (\<lambda>x m. if isna x then m else if isna m \<or> fl_less x m then x else m) (fins xs) (Fin m)
     = Fin (Min (insert m (set xs)))"
proof (induction xs arbitrary: m)
  case (Cons x xs)
  have "Min (insert m (insert x (set xs))) = min m (min x (Min (insert x (set xs))))"
    by (cases "set xs = {}") (simp_all add: min.assoc min.left_commute)
  have "fold (\<lambda>x m. if isna x then m else if isna m \<or> fl_less x m then x else m)
      (fins (x # xs)) (Fin m) = Fin (Min (insert (min x m) (set xs)))"
    using Cons.IH [of "min x m"] Cons.IH by (simp add: fins_def min_def)
  also have "Min (insert (min x m) (set xs)) = Min (insert m (set (x # xs)))"
    by (cases "set xs = {}") (simp_all add: min.assoc min.commute min.left_commute)
  finally show ?case .
qed (simp add: fins_def)

lemma fl_min_skipna_fins: "xs \<noteq> [] \<Longrightarrow> fl_min_skipna (fins xs) = Fin (Min (set xs))"
  using fl_min_skipna_fold by (cases xs) (auto simp: fl_min_skipna_def fins_def)

lemma calc_max_drawdown_fins:
  assumes "xs \<noteq> []" "0 < hd xs"
  shows "calc_max_drawdown (fins xs) = Fin \<bar>min_list_real (drawdowns xs)\<bar>"
proof -
  have pos: "0 < m" if "m \<in> set (cummax xs)" for m
    using assms that by (cases xs) (auto dest: cummax_from_pos)
  have "map2 (\<lambda>e m. fl_div (fl_sub e m) m) (fins xs) (fins (cummax xs)) = fins (drawdowns xs)"
    using pos by (fastforce simp: fins_def drawdowns_def zip_map1 zip_map2 fl_sub_def
        dest: set_zip_rightD)
  moreover have "drawdowns xs \<noteq> []" using assms(1) length_drawdowns by (metis length_0_conv)
  ultimately show ?thesis
    by (simp add: calc_max_drawdown_def fl_cummax_fins fl_min_skipna_fins min_list_real_def)
qed


text \<open>The return of a day: yesterday's signal on today's price change, less the cost of today's
  change of signal; the first day has none.\<close>

definition net_return :: "trading_costs_settings \<Rightarrow> real list \<Rightarrow> int list \<Rightarrow> nat \<Rightarrow> real" where
  "net_return tc cs ss i =
     (if i = 0 then 0
      else of_int (ss ! (i - 1)) * (cs ! i / cs ! (i - 1) - 1)
           - of_int \<bar>ss ! i - ss ! (i - 1)\<bar> * cost_rate tc)"

lemma int_diff_nth:
  "i < length ss \<Longrightarrow> int_diff ss ! i = (if i = 0 then 0 else ss ! i - ss ! (i - 1))"
  by (cases ss; cases i) auto

lemma calculate_returns_spec:
  assumes "length ss = length bars" "\<forall>b\<in>set bars. 0 < b_close b"
  shows "calculate_returns tc bars ss
    = fins (map (net_return tc (map b_close bars) ss) [0..<length bars])"
proof (rule nth_equalityI)
  show "length (calculate_returns tc bars ss)
      = length (fins (map (net_return tc (map b_close bars) ss) [0..<length bars]))"
    using assms(1) by (simp add: length_calculate_returns fins_def)
  fix i assume "i < length (calculate_returns tc bars ss)"
  then have i: "i < length bars" using assms(1) by (simp add: length_calculate_returns)
  show "calculate_returns tc bars ss ! i
      = fins (map (net_return tc (map b_close bars) ss) [0..<length bars]) ! i"
  proof (cases i)
    case 0
    then have "shift1 (closes bars) ! 0 = NaN" using i length_closes by (metis gr_implies_not0 length_0_conv shift1_0)
    then show ?thesis
      using 0 i assms by (simp add: calculate_returns_def Let_def fillna0_def pct_change_def
          fins_def net_return_def fl_sub_def)
  next
    case (Suc k)
    have pos: "0 < b_close (bars ! k)" using assms(2) i Suc by simp
    have "shift1 (closes bars) ! i = Fin (b_close (bars ! k))"
      "shift1 (fins (map of_int ss)) ! i = Fin (of_int (ss ! k))"
      using i Suc assms(1) by (simp_all add: closes_def fins_def)
    then show ?thesis
      using i Suc assms(1) pos
      by (simp add: calculate_returns_def Let_def fillna0_def pct_change_def closes_def
          fins_def net_return_def fl_sub_def int_diff_nth)
  qed
qed

fun growth :: "real \<Rightarrow> real list \<Rightarrow> real list" where
  "growth e [] = []"
| "growth e (r # rs) = e * (1 + r) # growth (e * (1 + r)) rs"

lemma equity_curve_fins: "equity_curve c (fins rs) = fins (growth c rs)"
proof -
  have "map (fl_mul (Fin c)) (cumprod_from (Fin p) (map (fl_add (Fin 1)) (fins rs)))
      = fins (growth (c * p) rs)" for p
    by (induction rs arbitrary: p) (auto simp: fins_def mult.assoc)
  from this [of 1] show ?thesis by (simp add: equity_curve_def cumprod_def)
qed

lemma growth_pos: "0 < e \<Longrightarrow> \<forall>r\<in>set rs. - 1 < r \<Longrightarrow> x \<in> set (growth e rs) \<Longrightarrow> 0 < x"
  by (induction rs arbitrary: e) (auto, smt (verit) mult_pos_pos)

lemma length_growth [simp]: "length (growth e rs) = length rs"
  by (induction rs arbitrary: e) auto

text \<open>C32. An admissible backtest has an admissible result.  With positive prices, a positive
  capital, dates that span some time and no day that loses the whole equity, the engine
  returns a result whose drawdown is a number in \<open>[0, 1)\<close>; its returns are yesterday's
  signal on today's price change less the trading costs.\<close>

theorem engine_run_admissible:
  assumes "bars = map snd data" "data \<noteq> []" "\<forall>b\<in>set bars. 0 < b_close b" "0 < capital"
    and "fst (hd data) < fst (last data)"
    and "vs_signals st bars = Inr ss" "length ss = length bars" "vs_crossovers st bars = Inr k"
    and "\<forall>i < length bars. - 1 < net_return tc (map b_close bars) ss i"
  shows "\<exists>r d. engine_run tc st data capital sens live = Inr r
    \<and> eng_max_drawdown r = Fin d \<and> 0 \<le> d \<and> d < 1
    \<and> calculate_returns tc bars ss = fins (map (net_return tc (map b_close bars) ss) [0..<length bars])"
proof -
  let ?rs = "map (net_return tc (map b_close bars) ss) [0..<length bars]"
  let ?es = "growth capital ?rs"
  have rets: "calculate_returns tc bars ss = fins ?rs"
    using assms(3,7) by (intro calculate_returns_spec) auto
  have ne: "?es \<noteq> []" using assms(1,2) by (metis length_0_conv length_growth length_map map_is_Nil_conv length_upt diff_zero)
  have "\<forall>r\<in>set ?rs. - 1 < r" using assms(9) by simp
  then have pos: "\<forall>e\<in>set ?es. 0 < e"
    using growth_pos [OF assms(4)] by blast
  define d where "d = \<bar>min_list_real (drawdowns ?es)\<bar>"
  have d: "0 \<le> d" "d < 1" using drawdown_min_range [OF ne pos] by (auto simp: d_def)
  have dd: "calc_max_drawdown (equity_curve capital (calculate_returns tc bars ss)) = Fin d"
    using pos ne by (simp add: rets equity_curve_fins calc_max_drawdown_fins d_def hd_in_set)
  have "0 < (of_int (fst (last data) - fst (hd data)) / 365.25 :: real)" using assms(5) by simp
  then show ?thesis
    using assms(1,6,8) d dd rets by (simp add: engine_run_def Let_def validate_result_def)
qed

text \<open>A short position can make the result invalid.  When the equity falls below zero on some
  day (which a short position does as soon as the price doubles), the drawdown exceeds one
  and the engine raises a validation error instead of reporting the loss.\<close>

theorem engine_run_rejects_ruin:
  assumes "bars = map snd data" "\<forall>b\<in>set bars. 0 < b_close b" "0 < capital"
    and "vs_signals st bars = Inr ss" "length ss = length bars" "vs_crossovers st bars = Inr k"
    and "e \<in> set (growth capital (map (net_return tc (map b_close bars) ss) [0..<length bars]))"
    and "e < 0"
  shows "engine_run tc st data capital sens live = Inl ValueError"
proof -
  let ?rs = "map (net_return tc (map b_close bars) ss) [0..<length bars]"
  let ?es = "growth capital ?rs"
  have rets: "calculate_returns tc bars ss = fins ?rs"
    using assms(2,5) by (intro calculate_returns_spec) auto
  have ne: "bars \<noteq> []" using assms(7) by (cases bars) auto
  then have hd: "hd ?es = capital"
    by (simp add: upt_conv_Cons net_return_def)
  have es: "?es \<noteq> []" using assms(7) by auto
  from assms(7) obtain i where i: "i < length ?es" "?es ! i = e" by (auto simp: in_set_conv_nth)
  have "0 < m" if "m \<in> set (cummax ?es)" for m
    using assms(3) hd es that by (cases ?es) (auto dest: cummax_from_pos)
  then have pos: "0 < cummax ?es ! i" using i by simp
  then have "drawdowns ?es ! i < - 1"
    using i assms(8) by (simp add: drawdowns_def pos_divide_less_eq)
  then have "min_list_real (drawdowns ?es) < - 1"
    unfolding min_list_real_def using i
    by (metis List.finite_set Min_le length_drawdowns nth_mem order_le_less_trans)
  then have "calc_max_drawdown (equity_curve capital (calculate_returns tc bars ss)) = Fin m \<Longrightarrow> 1 < m" for m
    using assms(3) hd es by (simp add: rets equity_curve_fins calc_max_drawdown_fins)
  moreover have "\<exists>m. calc_max_drawdown (equity_curve capital (calculate_returns tc bars ss)) = Fin m"
    using assms(3) hd es by (simp add: rets equity_curve_fins calc_max_drawdown_fins)
  ultimately show ?thesis
    using assms(1,4,6) by (auto simp: engine_run_def Let_def validate_result_def)
qed


definition sample_bars :: "real list \<Rightarrow> (int \<times> bar) list" where
  "sample_bars ps = map2 (\<lambda>d p. (int d * 200, flat_bar p)) [0..<length ps] ps"

definition fixed_strategy :: "int list \<Rightarrow> vstrategy" where
  "fixed_strategy ss = \<lparr>vs_signals = (\<lambda>d. Inr (take (length d) ss)), vs_crossovers = (\<lambda>d. Inr 0),
     vs_sensitivity = (\<lambda>d. Inr (Fin 0))\<rparr>"

theorem engine_run_admissible_witness:
  "\<exists>r d. engine_run trading_costs_default (fixed_strategy [1, 1, 0]) (sample_bars [10, 12, 9]) 1000
      None False = Inr r \<and> eng_max_drawdown r = Fin d \<and> d < 1"
proof -
  have "\<exists>r d. engine_run trading_costs_default (fixed_strategy [1, 1, 0]) (sample_bars [10, 12, 9]) 1000
      None False = Inr r \<and> eng_max_drawdown r = Fin d \<and> 0 \<le> d \<and> d < 1
    \<and> calculate_returns trading_costs_default (map flat_bar [10, 12, 9]) [1, 1, 0]
      = fins (map (net_return trading_costs_default (map b_close (map flat_bar [10, 12, 9])) [1, 1, 0])
               [0..<length (map flat_bar [10, 12, 9])])"
  proof (rule engine_run_admissible)
    show "\<forall>i<length (map flat_bar [10, 12, 9]).
        - 1 < net_return trading_costs_default (map b_close (map flat_bar [10, 12, 9])) [1, 1, 0] i"
      by (simp add: less_Suc_eq net_return_def flat_bar_def cost_rate_def trading_costs_default_def)
  qed (simp_all add: sample_bars_def fixed_strategy_def flat_bar_def upt_rec)
  then show ?thesis by blast
qed

theorem engine_run_rejects_ruin_witness:
  "engine_run trading_costs_default (fixed_strategy [-1, -1, -1]) (sample_bars [10, 30, 30]) 1000
      None False = Inl ValueError"
proof (rule engine_run_rejects_ruin [where bars = "map flat_bar [10, 30, 30]" and ss = "[-1, -1, -1]"
      and e = "- 1000"])
  show "- 1000 \<in> set (growth 1000 (map (net_return trading_costs_default
      (map b_close (map flat_bar [10, 30, 30])) [-1, -1, -1]) [0..<length (map flat_bar [10, 30, 30])]))"
    by (simp add: net_return_def flat_bar_def upt_rec)
qed (simp_all add: sample_bars_def fixed_strategy_def flat_bar_def upt_rec)

end
