(* ===== verification/Backtester.thy ===== *)
theory Backtester imports Risk_Manager Streaming_Strategies begin

text \<open>
  \<open>backtest/backtester.py\<close> and \<open>backtest/result.py\<close>: the bar-by-bar backtester.  Its state is
  the record \<open>bt\<close>; a strategy is a streamer, a risk manager a hook that sees the context
  dictionary (its numeric entries) and answers with whatever its \<open>evaluate\<close> returns.
\<close>

section \<open>State and trades\<close>

datatype bt_trade =
    BuyTrade int real int real   \<comment> \<open>date, price, shares, cost\<close>
  | SellTrade int real int real  \<comment> \<open>date, price, shares, proceeds\<close>

record equity_point =
  eq_date :: int
  eq_cash :: real
  eq_position_value :: real
  eq_total_value :: real
  eq_price :: real

record bt =
  bt_cash :: real
  bt_position :: int
  bt_position_cost :: real
  bt_equity_curve :: "equity_point list"
  bt_trades :: "bt_trade list"

record bt_config =
  bc_initial_capital :: real
  bc_commission :: real

definition bt_start :: "bt_config \<Rightarrow> bt" where
  "bt_start cfg = \<lparr>bt_cash = bc_initial_capital cfg, bt_position = 0, bt_position_cost = 0,
     bt_equity_curve = [], bt_trades = []\<rparr>"

section \<open>Executing a signal\<close>

text \<open>With no adjusted share count (or zero) the whole cash is spent; a price that makes the
  divisor zero gives an infinity or a NaN, which \<open>int()\<close> refuses.\<close>

definition bt_buy_shares :: "bt_config \<Rightarrow> real \<Rightarrow> real \<Rightarrow> int option \<Rightarrow> int res" where
  "bt_buy_shares cfg cash price adjusted =
     (let all_in = (let d = price * (1 + bc_commission cfg) in
            if d = 0 then Inl (if cash = 0 then ValueError else OverflowError)
            else Inr (py_int (cash / d))) in
      case adjusted of
        Some a \<Rightarrow> if a \<noteq> 0 then Inr a else all_in
      | None \<Rightarrow> all_in)"

definition bt_execute_trade ::
  "bt_config \<Rightarrow> signal \<Rightarrow> real \<Rightarrow> int \<Rightarrow> int option \<Rightarrow> bt \<Rightarrow> bt res" where
  "bt_execute_trade cfg s price date adjusted st =
     (if s = BUY \<and> bt_position st = 0 then
        rbind (bt_buy_shares cfg (bt_cash st) price adjusted) (\<lambda>shares.
          if shares > 0 then
            (let cost = of_int shares * price * (1 + bc_commission cfg) in
             Inr (st\<lparr>bt_cash := bt_cash st - cost, bt_position := shares,
                     bt_position_cost := of_int shares * price,
                     bt_trades := bt_trades st @ [BuyTrade date price shares cost]\<rparr>))
          else Inr st)
      else if s = SELL \<and> bt_position st > 0 then
        (let proceeds = of_int (bt_position st) * price * (1 - bc_commission cfg) in
         Inr (st\<lparr>bt_cash := bt_cash st + proceeds,
                 bt_trades := bt_trades st @ [SellTrade date price (bt_position st) proceeds],
                 bt_position := 0, bt_position_cost := 0\<rparr>))
      else Inr st)"

definition bt_record :: "int \<Rightarrow> real \<Rightarrow> bt \<Rightarrow> bt" where
  "bt_record date price st =
     st\<lparr>bt_equity_curve := bt_equity_curve st @
          [\<lparr>eq_date = date, eq_cash = bt_cash st,
            eq_position_value = of_int (bt_position st) * price,
            eq_total_value = bt_cash st + of_int (bt_position st) * price, eq_price = price\<rparr>]\<rparr>"

section \<open>The risk hook\<close>

text \<open>The context the backtester builds.  The drawdown of an equity series that is zero
  throughout is missing and read as 0.\<close>

definition bt_context :: "bt \<Rightarrow> real \<Rightarrow> risk_context" where
  "bt_context st price =
     (let equity = bt_cash st + of_int (bt_position st) * price;
          series = fins (map eq_total_value (bt_equity_curve st) @ [equity]);
          drawdown = fl_min_skipna (map2 (\<lambda>e m. fl_div (fl_sub e m) m) series (fl_cummax series));
          avg_cost = (if bt_position st > 0 then bt_position_cost st / of_int (bt_position st) else 0)
      in [''price'' \<mapsto> price, ''position'' \<mapsto> of_int (bt_position st), ''avg_cost'' \<mapsto> avg_cost,
          ''current_price'' \<mapsto> price, ''total_equity'' \<mapsto> equity, ''total_assets'' \<mapsto> equity,
          ''cash'' \<mapsto> bt_cash st, ''max_drawdown_pct'' \<mapsto> fin_val drawdown])"

text \<open>What \<open>evaluate\<close> of a risk manager returned, and the unpacking
  \<open>signal, adjusted_shares = ...\<close>, which raises TypeError for a bare signal.\<close>

datatype rm_reply = BareSignal signal | SignalAndShares signal "int option"

type_synonym risk_hook = "signal \<Rightarrow> risk_context \<Rightarrow> rm_reply"

definition bt_unpack :: "rm_reply \<Rightarrow> (signal \<times> int option) res" where
  "bt_unpack r = (case r of BareSignal _ \<Rightarrow> Inl TypeError | SignalAndShares s n \<Rightarrow> Inr (s, n))"

definition shipped_hook :: "risk_config \<Rightarrow> risk_hook" where
  "shipped_hook rm s c = BareSignal (rm_evaluate rm s c)"

definition bt_review :: "risk_hook option \<Rightarrow> signal \<Rightarrow> real \<Rightarrow> bt \<Rightarrow> (signal \<times> int option) res" where
  "bt_review hook s price st =
     (case hook of None \<Rightarrow> Inr (s, None) | Some h \<Rightarrow> bt_unpack (h s (bt_context st price)))"

section \<open>The run\<close>

fun bt_loop ::
  "bt_config \<Rightarrow> 'st streamer \<Rightarrow> risk_hook option \<Rightarrow> bar list \<Rightarrow> (int \<times> bar) list \<Rightarrow> 'st \<Rightarrow> bt
   \<Rightarrow> bt res" where
  "bt_loop cfg gen hook seen [] sst st = Inr st"
| "bt_loop cfg gen hook seen ((date, b) # rows) sst st =
     (case gen sst (seen @ [b]) of
        (_, Inl e) \<Rightarrow> Inl e
      | (sst', Inr s) \<Rightarrow>
          rbind (bt_review hook s (b_close b) st) (\<lambda>(s', adjusted).
          rbind (bt_execute_trade cfg s' (b_close b) date adjusted st) (\<lambda>st'.
            bt_loop cfg gen hook (seen @ [b]) rows sst' (bt_record date (b_close b) st'))))"

record bt_result =
  br_initial_capital :: real
  br_final_value :: real
  br_total_return :: fl
  br_annual_return :: fl
  br_max_drawdown :: fl
  br_sharpe_ratio :: fl
  br_total_trades :: nat
  br_winning_trades :: nat
  br_losing_trades :: nat

definition is_winning :: "bt_trade \<Rightarrow> bool" where
  "is_winning t = (case t of SellTrade _ _ _ proceeds \<Rightarrow> proceeds > 0 | BuyTrade _ _ _ _ \<Rightarrow> False)"

definition bt_sharpe :: "real list \<Rightarrow> fl" where
  "bt_sharpe values =
     (let daily = drop 1 (pct_change (fins values));
          kept = filter (\<lambda>x. \<not> isna x) daily in
      if kept \<noteq> [] \<and> list_all is_fin kept \<and> fl_less (Fin 0) (std_fl (map fin_val kept))
      then fl_mul (fl_div (mean_fl (map fin_val kept)) (std_fl (map fin_val kept))) (Fin (sqrt 252))
      else Fin 0)"

definition bt_calculate_result :: "bt_config \<Rightarrow> nat \<Rightarrow> bt \<Rightarrow> bt_result" where
  "bt_calculate_result cfg trading_days st =
     (let ic = bc_initial_capital cfg;
          values = map eq_total_value (bt_equity_curve st);
          final_value = (if values = [] then ic else last values);
          years = real trading_days / 252;
          series = fins values;
          winning = length (filter is_winning (bt_trades st))
      in \<lparr>br_initial_capital = ic, br_final_value = final_value,
          br_total_return = fl_mul (fl_div (Fin (final_value - ic)) (Fin ic)) (Fin 100),
          br_annual_return = (if years > 0
             then fl_mul (fl_sub (fl_powr (fl_div (Fin final_value) (Fin ic)) (1 / years)) (Fin 1)) (Fin 100)
             else Fin 0),
          br_max_drawdown = fl_min_skipna
             (map2 (\<lambda>e m. fl_mul (fl_div (fl_sub e m) m) (Fin 100)) series (fl_cummax series)),
          br_sharpe_ratio = bt_sharpe values,
          br_total_trades = length (bt_trades st), br_winning_trades = winning,
          br_losing_trades = length (bt_trades st) - winning\<rparr>)"

definition br_win_rate :: "bt_result \<Rightarrow> real" where
  "br_win_rate r = (if br_total_trades r = 0 then 0
     else real (br_winning_trades r) / real (br_total_trades r) * 100)"

definition bt_run ::
  "bt_config \<Rightarrow> 'st streamer \<Rightarrow> 'st \<Rightarrow> risk_hook option \<Rightarrow> (int \<times> bar) list res
   \<Rightarrow> (bt \<times> bt_result) res" where
  "bt_run cfg gen reset_state hook fetched =
     rbind fetched (\<lambda>rows.
       if rows = [] then Inl ValueError
       else rbind (bt_loop cfg gen hook [] rows reset_state (bt_start cfg)) (\<lambda>st.
         Inr (st, bt_calculate_result cfg (length rows) st)))"

text \<open>\<open>_fetch_data\<close>: the named provider, then Stooq, then RuntimeError.\<close>

definition bt_fetch_data :: "string \<Rightarrow> 'd res \<Rightarrow> 'd res \<Rightarrow> 'd res" where
  "bt_fetch_data provider_name primary stooq =
     (case primary of
        Inr d \<Rightarrow> Inr d
      | Inl _ \<Rightarrow>
          if provider_name \<noteq> ''stooq'' then
            (case stooq of Inr d \<Rightarrow> Inr d | Inl _ \<Rightarrow> Inl RuntimeError)
          else Inl RuntimeError)"


section \<open>The ledger\<close>

fun trade_flow :: "bt_trade \<Rightarrow> real" where
  "trade_flow (BuyTrade _ _ _ cost) = - cost"
| "trade_flow (SellTrade _ _ _ proceeds) = proceeds"

fun trade_shares :: "bt_trade \<Rightarrow> int" where
  "trade_shares (BuyTrade _ _ n _) = n"
| "trade_shares (SellTrade _ _ n _) = - n"

text \<open>\<open>alternating h ts h'\<close>: the trades take an account that holds shares iff \<open>h\<close> to one that
  does iff \<open>h'\<close>, buying only when flat and selling only when not.\<close>

fun alternating :: "bool \<Rightarrow> bt_trade list \<Rightarrow> bool \<Rightarrow> bool" where
  "alternating h [] h' = (h = h')"
| "alternating h (BuyTrade _ _ _ _ # ts) h' = (\<not> h \<and> alternating True ts h')"
| "alternating h (SellTrade _ _ _ _ # ts) h' = (h \<and> alternating False ts h')"

lemma alternating_append:
  "alternating h (ts @ us) h'' \<longleftrightarrow> (\<exists>h'. alternating h ts h' \<and> alternating h' us h'')"
  by (induction h ts h'' rule: alternating.induct) auto

definition bt_ledger :: "bt_config \<Rightarrow> bt \<Rightarrow> bool" where
  "bt_ledger cfg st \<longleftrightarrow>
     bt_cash st = bc_initial_capital cfg + sum_list (map trade_flow (bt_trades st))
     \<and> bt_position st = sum_list (map trade_shares (bt_trades st))
     \<and> 0 \<le> bt_position st
     \<and> alternating False (bt_trades st) (bt_position st > 0)"

definition bt_solvent :: "bt \<Rightarrow> bool" where
  "bt_solvent st \<longleftrightarrow> 0 \<le> bt_cash st \<and> (\<forall>p\<in>set (bt_equity_curve st). 0 \<le> eq_total_value p)"

lemma bt_start_ok: "bt_ledger cfg (bt_start cfg)" "0 \<le> bc_initial_capital cfg \<Longrightarrow> bt_solvent (bt_start cfg)"
  by (simp_all add: bt_ledger_def bt_start_def bt_solvent_def)

lemma bt_record_ledger [simp]: "bt_ledger cfg (bt_record d p st) = bt_ledger cfg st"
  by (simp add: bt_ledger_def bt_record_def)

lemma bt_record_length [simp]:
  "length (bt_equity_curve (bt_record d p st)) = Suc (length (bt_equity_curve st))"
  by (simp add: bt_record_def)

lemma bt_execute_ledger:
  assumes "bt_execute_trade cfg s price d adj st = Inr st'" "bt_ledger cfg st"
  shows "bt_ledger cfg st'"
  using assms
  by (auto simp: bt_execute_trade_def bt_ledger_def rbind_eq_Inr_iff Let_def alternating_append
      split: if_splits)

text \<open>Spending the whole cash never overdraws it.\<close>

lemma bt_buy_shares_affordable:
  assumes "bt_buy_shares cfg cash price None = Inr n" "n > 0" "0 < price" "0 \<le> bc_commission cfg"
  shows "of_int n * price * (1 + bc_commission cfg) \<le> cash"
proof -
  let ?d = "price * (1 + bc_commission cfg)"
  have d: "0 < ?d" using assms by simp
  have n: "n = py_int (cash / ?d)" using assms(1) d by (auto simp: bt_buy_shares_def split: if_splits)
  then have "0 \<le> cash / ?d" using assms(2) by (auto simp: py_int_def split: if_splits)
  then have "of_int n \<le> cash / ?d" unfolding n by (rule py_int_le)
  then show ?thesis using d by (simp add: field_simps)
qed

lemma bt_execute_solvent:
  assumes "bt_execute_trade cfg s price d None st = Inr st'" "bt_solvent st"
    and "0 < price" "0 \<le> bc_commission cfg" "bc_commission cfg \<le> 1"
  shows "bt_solvent st'"
  using assms bt_buy_shares_affordable [of cfg "bt_cash st" price]
  by (auto simp: bt_execute_trade_def bt_solvent_def rbind_eq_Inr_iff Let_def split: if_splits
      intro!: add_nonneg_nonneg mult_nonneg_nonneg)

text \<open>A trade moves value between cash and shares and loses exactly the commission.\<close>

lemma bt_execute_value:
  assumes "bt_execute_trade cfg s price d adj st = Inr st'"
  shows "bt_cash st' + of_int (bt_position st') * price
    = bt_cash st + of_int (bt_position st) * price
      - of_int \<bar>bt_position st' - bt_position st\<bar> * price * bc_commission cfg"
  using assms
  by (auto simp: bt_execute_trade_def rbind_eq_Inr_iff Let_def algebra_simps split: if_splits)

lemma bt_loop_run:
  assumes "bt_loop cfg gen None seen rows sst st = Inr st'" "bt_ledger cfg st" "bt_solvent st"
    and "\<forall>r\<in>set rows. 0 < b_close (snd r)" "0 \<le> bc_commission cfg" "bc_commission cfg \<le> 1"
  shows "bt_ledger cfg st' \<and> bt_solvent st'
    \<and> length (bt_equity_curve st') = length (bt_equity_curve st) + length rows"
  using assms(1-4)
proof (induction rows arbitrary: seen sst st)
  case (Cons r rows)
  obtain date b where r: "r = (date, b)" by (cases r)
  from Cons.prems(1) obtain sst' s st1 where gen: "gen sst (seen @ [b]) = (sst', Inr s)"
    and ex: "bt_execute_trade cfg s (b_close b) date None st = Inr st1"
    and rest: "bt_loop cfg gen None (seen @ [b]) rows sst' (bt_record date (b_close b) st1) = Inr st'"
    by (auto simp: r bt_review_def rbind_eq_Inr_iff split: prod.splits sum.splits)
  have price: "0 < b_close b" using Cons.prems(4) by (simp add: r)
  have led: "bt_ledger cfg st1" using bt_execute_ledger [OF ex Cons.prems(2)] .
  have sol: "bt_solvent st1" using bt_execute_solvent [OF ex Cons.prems(3) price assms(5,6)] .
  have "0 \<le> bt_cash st1 + of_int (bt_position st1) * b_close b"
    using led sol price by (auto simp: bt_ledger_def bt_solvent_def)
  then have "bt_solvent (bt_record date (b_close b) st1)"
    using sol by (simp add: bt_solvent_def bt_record_def)
  moreover have "bt_equity_curve st1 = bt_equity_curve st"
    using ex by (auto simp: bt_execute_trade_def rbind_eq_Inr_iff Let_def split: if_splits)
  ultimately show ?case
    using Cons.IH [OF rest] led Cons.prems(4) by simp
qed simp

text \<open>C10. A backtest without a risk manager keeps its books.  At the end the cash is the initial
  capital plus the proceeds of all sales minus the costs of all purchases, the position is
  the shares bought less the shares sold and is never negative, purchases and sales
  alternate, cash and every recorded equity are never negative, and there is one equity
  point per bar.\<close>

theorem bt_run_ledger:
  assumes "bt_run cfg gen st0 None (Inr rows) = Inr (st, result)"
    and "\<forall>r\<in>set rows. 0 < b_close (snd r)" "0 \<le> bc_commission cfg" "bc_commission cfg \<le> 1"
    and "0 \<le> bc_initial_capital cfg"
  shows "bt_cash st = bc_initial_capital cfg + sum_list (map trade_flow (bt_trades st))
    \<and> bt_position st = sum_list (map trade_shares (bt_trades st)) \<and> 0 \<le> bt_position st
    \<and> alternating False (bt_trades st) (bt_position st > 0)
    \<and> 0 \<le> bt_cash st \<and> (\<forall>p\<in>set (bt_equity_curve st). 0 \<le> eq_total_value p)
    \<and> length (bt_equity_curve st) = length rows"
proof -
  have "bt_loop cfg gen None [] rows st0 (bt_start cfg) = Inr st"
    using assms(1) by (auto simp: bt_run_def rbind_eq_Inr_iff split: if_splits)
  from bt_loop_run [OF this bt_start_ok(1) bt_start_ok(2) [OF assms(5)] assms(2-4)]
  show ?thesis unfolding bt_ledger_def bt_solvent_def by (auto simp: bt_start_def)
qed

lemma alternating_balance:
  "alternating h ts h' \<Longrightarrow>
     length (filter is_winning ts) + (if h' then 1 else 0)
     \<le> length (filter (\<lambda>t. \<not> is_winning t) ts) + (if h then 1 else 0)"
  by (induction h ts h' rule: alternating.induct) (auto simp: is_winning_def split: if_splits)

text \<open>The win rate of the backtester says nothing about profit: a trade counts as winning
  when it is a sale with positive proceeds, whatever was paid for the shares, and every
  purchase counts as losing; so the win rate never exceeds 50 percent.\<close>

theorem bt_win_rate_at_most_half:
  assumes "bt_run cfg gen st0 None (Inr rows) = Inr (st, result)"
    and "\<forall>r\<in>set rows. 0 < b_close (snd r)" "0 \<le> bc_commission cfg" "bc_commission cfg \<le> 1"
    and "0 \<le> bc_initial_capital cfg"
  shows "br_win_rate result \<le> 50"
proof -
  have res: "result = bt_calculate_result cfg (length rows) st"
    using assms(1) by (auto simp: bt_run_def rbind_eq_Inr_iff split: if_splits)
  from assms have loop: "bt_loop cfg gen None [] rows st0 (bt_start cfg) = Inr st"
    by (auto simp: bt_run_def rbind_eq_Inr_iff split: if_splits)
  have "alternating False (bt_trades st) (bt_position st > 0)"
    using bt_loop_run [OF loop bt_start_ok(1) bt_start_ok(2) [OF assms(5)] assms(2-4)]
    unfolding bt_ledger_def by blast
  from alternating_balance [OF this]
  have "2 * length (filter is_winning (bt_trades st)) \<le> length (bt_trades st)"
    using length_filter_split [of is_winning "bt_trades st"] by simp
  then show ?thesis
    by (simp add: res br_win_rate_def bt_calculate_result_def Let_def field_simps)
qed

section \<open>Strategies that warm up\<close>

context warmup_strategy begin

lemma bt_loop_warm:
  assumes "length seen + length rows < warm" "bt_position st = 0"
  shows "\<exists>st'. bt_loop cfg gen None seen rows sst st = Inr st'
    \<and> bt_cash st' = bt_cash st \<and> bt_trades st' = bt_trades st"
  using assms
proof (induction rows arbitrary: seen st)
  case (Cons r rows)
  obtain date b where r: "r = (date, b)" by (cases r)
  have "gen sst (seen @ [b]) = (sst, Inr HOLD)" using Cons.prems(1) by (intro warm_hold) simp
  then show ?case
    using Cons.IH [of "seen @ [b]" "bt_record date (b_close b) st"] Cons.prems
    by (simp add: r bt_review_def bt_execute_trade_def bt_record_def)
qed simp

lemma bt_run_warm:
  assumes "0 < length rows" "length rows < warm"
  shows "\<exists>st result. bt_run cfg gen st0 None (Inr rows) = Inr (st, result)
    \<and> bt_trades st = [] \<and> bt_cash st = bc_initial_capital cfg"
  using bt_loop_warm [of "[]" rows "bt_start cfg" cfg st0] assms
  by (auto simp: bt_run_def bt_start_def)

end

text \<open>No trade before the indicators exist: on data shorter than a strategy's warm-up the
  backtest of the moving average, RSI or MACD strategy succeeds, makes no trade and leaves
  the capital untouched.\<close>

theorem bt_no_trade_in_warmup:
  fixes cfg_ma :: ma_cross and cfg_rsi :: rsi and cfg_macd :: macd
  assumes "gen \<in> {(ma_generate_signal cfg_ma, long_window cfg_ma),
             (rsi_generate_signal cfg_rsi, rsi_period cfg_rsi + 1),
             (macd_generate_signal cfg_macd, macd_slow_period cfg_macd + macd_signal_period cfg_macd + 1)}"
    and "0 < length rows" "length rows < snd gen"
  shows "\<exists>st result. bt_run cfg (fst gen) st0 None (Inr rows) = Inr (st, result)
    \<and> bt_trades st = [] \<and> bt_cash st = bc_initial_capital cfg"
  using assms ma.bt_run_warm rsi.bt_run_warm macd.bt_run_warm by (elim insertE) auto

section \<open>The shipped risk managers do not fit\<close>

text \<open>Attaching the repository's risk manager to the backtester makes every backtest fail:
  \<open>evaluate\<close> returns a bare signal, which the backtester unpacks as a pair, so the first
  bar whose signal is computed raises TypeError, whatever the strategy and the limits.\<close>

theorem bt_shipped_risk_manager_raises:
  assumes "rows \<noteq> []" "\<And>b sst. is_ok (snd (gen sst [b]))"
  shows "bt_run cfg gen st0 (Some (shipped_hook rm)) (Inr rows) = Inl TypeError"
proof -
  obtain date b rest where rows: "rows = (date, b) # rest" using assms(1) by (cases rows) auto
  obtain sst' s where "gen st0 [b] = (sst', Inr s)"
    using assms(2) [of st0 b] by (cases "gen st0 [b]") (auto simp: is_ok_iff)
  then show ?thesis
    by (simp add: bt_run_def rows bt_review_def shipped_hook_def bt_unpack_def)
qed

text \<open>The stop loss and the take profit cannot act in a backtest either: the context the
  backtester builds names the holding \<open>position\<close>, the risk manager reads
  \<open>position_qty\<close>, so it sees a flat account and never forces a sale.\<close>

theorem bt_context_hides_position:
  "rm_evaluate rm s (bt_context st price) = SELL \<longleftrightarrow> s = SELL"
  by (simp add: rm_evaluate_SELL_iff rm_exit_due_def bt_context_def ctx_get_def Let_def)


section \<open>Witnesses\<close>

definition sample_rows :: "real list \<Rightarrow> (int \<times> bar) list" where
  "sample_rows ps = map2 (\<lambda>i p. (int i, \<lparr>b_open = p, b_high = p, b_low = p, b_close = p, b_volume = 0\<rparr>))
     [0..<length ps] ps"

abbreviation sample_ma :: ma_cross where
  "sample_ma \<equiv> \<lparr>short_window = 1, long_window = 2\<rparr>"

abbreviation sample_bt :: bt_config where
  "sample_bt \<equiv> \<lparr>bc_initial_capital = 100, bc_commission = 0\<rparr>"

lemma sample_run:
  "\<exists>st result. bt_run sample_bt (ma_generate_signal sample_ma) HOLD None
     (Inr (sample_rows [10, 8, 12])) = Inr (st, result) \<and> bt_position st = 8"
  by (simp add: bt_run_def sample_rows_def bt_start_def upt_rec bt_review_def bt_execute_trade_def
      bt_record_def bt_buy_shares_def py_int_def ma_generate_signal_def closes_def fins_def rolling_def
      window_at_def mean_fl_def last_fl_def prev_fl_def rbind_def Let_def)

theorem bt_run_ledger_witness:
  "\<exists>st :: bt. bt_position st = 8 \<and> bt_cash st = 100 + sum_list (map trade_flow (bt_trades st))"
proof -
  obtain st result where run: "bt_run sample_bt (ma_generate_signal sample_ma) HOLD None
     (Inr (sample_rows [10, 8, 12])) = Inr (st, result)" and pos: "bt_position st = 8"
    using sample_run by blast
  moreover have "\<forall>r\<in>set (sample_rows [10, 8, 12]). 0 < b_close (snd r)"
    by (simp add: sample_rows_def upt_rec)
  ultimately have "bt_cash st = 100 + sum_list (map trade_flow (bt_trades st))"
    using bt_run_ledger [OF run] by simp
  with pos show ?thesis by blast
qed

theorem bt_win_rate_at_most_half_witness:
  "\<exists>st result. bt_run sample_bt (ma_generate_signal sample_ma) HOLD None
     (Inr (sample_rows [10, 8, 12])) = Inr (st, result) \<and> br_win_rate result \<le> 50"
proof -
  obtain st result where run: "bt_run sample_bt (ma_generate_signal sample_ma) HOLD None
     (Inr (sample_rows [10, 8, 12])) = Inr (st, result)"
    using sample_run by blast
  moreover have "\<forall>r\<in>set (sample_rows [10, 8, 12]). 0 < b_close (snd r)"
    by (simp add: sample_rows_def upt_rec)
  ultimately show ?thesis using bt_win_rate_at_most_half [OF run] by auto
qed

theorem bt_no_trade_in_warmup_witness:
  "\<exists>st result. bt_run sample_bt (ma_generate_signal \<lparr>short_window = 5, long_window = 20\<rparr>) HOLD None
     (Inr (sample_rows [10, 8, 12])) = Inr (st, result) \<and> bt_trades st = []"
  using bt_no_trade_in_warmup
    [of "(ma_generate_signal \<lparr>short_window = 5, long_window = 20\<rparr>, 20)"
        "\<lparr>short_window = 5, long_window = 20\<rparr>" _ _ "sample_rows [10, 8, 12]" sample_bt HOLD]
  by (auto simp: sample_rows_def upt_rec)

theorem bt_shipped_risk_manager_raises_witness:
  "bt_run sample_bt (ma_generate_signal sample_ma) HOLD (Some (shipped_hook rm_default))
     (Inr (sample_rows [10, 8, 12])) = Inl TypeError"
  by (rule bt_shipped_risk_manager_raises)
    (simp_all add: sample_rows_def upt_rec ma_generate_signal_def)

end
