(* ===== verification/Dates.thy ===== *)
theory Dates imports Prelude begin

text \<open>
  Calendar dates as the walk-forward engine uses them: year, month, day in that order of
  comparison, and the addition of months of \<open>_add_months\<close>, which clips the day to the
  length of the target month.
\<close>

datatype date = Date (year: int) (month: int) (day: int)

instantiation date :: linorder
begin

definition less_eq_date :: "date \<Rightarrow> date \<Rightarrow> bool" where
  "less_eq_date a b = (year a < year b \<or> (year a = year b \<and>
     (month a < month b \<or> (month a = month b \<and> day a \<le> day b))))"

definition less_date :: "date \<Rightarrow> date \<Rightarrow> bool" where
  "less_date a b = (year a < year b \<or> (year a = year b \<and>
     (month a < month b \<or> (month a = month b \<and> day a < day b))))"

instance
  by intro_classes (auto simp: less_eq_date_def less_date_def intro: date.expand)

end

lemmas date_order = less_eq_date_def less_date_def

definition leap :: "int \<Rightarrow> bool" where
  "leap y \<longleftrightarrow> y mod 4 = 0 \<and> (y mod 100 \<noteq> 0 \<or> y mod 400 = 0)"

definition days_in_month :: "int \<Rightarrow> int \<Rightarrow> int" where
  "days_in_month y m =
     [31, if leap y then 29 else 28, 31, 30, 31, 30, 31, 31, 30, 31, 30, 31] ! nat (m - 1)"

definition valid_date :: "date \<Rightarrow> bool" where
  "valid_date d \<longleftrightarrow> 1 \<le> month d \<and> month d \<le> 12 \<and> 1 \<le> day d \<and> day d \<le> days_in_month (year d) (month d)"

definition add_months :: "date \<Rightarrow> int \<Rightarrow> date" where
  "add_months d n =
     (let m = month d + n;
          y = year d + (m - 1) div 12;
          m' = (m - 1) mod 12 + 1
      in Date y m' (min (day d) (days_in_month y m')))"

text \<open>Months since year 0: the measure of progress of the rolling windows.\<close>

definition month_index :: "date \<Rightarrow> int" where
  "month_index d = 12 * year d + month d"

lemma month_index_add [simp]: "month_index (add_months d n) = month_index d + n"
  by (simp add: month_index_def add_months_def Let_def)

lemma add_months_month: "1 \<le> month (add_months d n) \<and> month (add_months d n) \<le> 12"
  using pos_mod_bound [of 12 "month d + n - 1"] pos_mod_sign [of 12 "month d + n - 1"]
  by (simp add: add_months_def Let_def del: pos_mod_bound pos_mod_sign)

lemma month_cases:
  assumes "1 \<le> m" "m \<le> (12::int)"
  obtains "m = 1" | "m = 2" | "m = 3" | "m = 4" | "m = 5" | "m = 6"
    | "m = 7" | "m = 8" | "m = 9" | "m = 10" | "m = 11" | "m = 12"
  using assms by (smt (verit))

lemma days_in_month_bounds:
  assumes "1 \<le> m" "m \<le> 12" shows "28 \<le> days_in_month y m \<and> days_in_month y m \<le> 31"
  using assms by (cases rule: month_cases) (simp_all add: days_in_month_def)

lemma valid_add_months: "valid_date d \<Longrightarrow> valid_date (add_months d n)"
  using add_months_month [of d n] days_in_month_bounds [of "month (add_months d n)" "year (add_months d n)"]
  by (auto simp: valid_date_def) (auto simp: add_months_def Let_def)

text \<open>On dates with proper months, an earlier month is an earlier date.\<close>

lemma month_index_less:
  assumes "valid_date a" "valid_date b" "month_index a < month_index b"
  shows "a < b"
  using assms by (auto simp: valid_date_def month_index_def date_order)

lemma month_index_mono:
  assumes "valid_date a" "valid_date b" "a \<le> b"
  shows "month_index a \<le> month_index b"
  using assms by (auto simp: valid_date_def month_index_def date_order)

end
