(* ===== verification/Walk_Forward.thy ===== *)
theory Walk_Forward imports Dates Pandas_Series begin

text \<open>
  \<open>backtest/walk_forward.py\<close>: the rolling train/test windows.  What the optimiser and the
  test backtest do on a window is a parameter: the optimiser may find no parameters, the
  test may succeed with its metrics, and either may raise.  The \<open>while True\<close> loop is a
  recursion with fuel, so a loop that never ends is \<open>None\<close> for every fuel.
\<close>

record wf_config =
  train_months :: int
  test_months :: int
  step_months :: int

record window_result =
  w_train_start :: date
  w_train_end :: date
  w_test_start :: date
  w_test_end :: date
  w_best_short :: int
  w_best_long :: int
  w_test_return :: real
  w_test_max_drawdown :: real
  w_test_sharpe :: real

text \<open>The outcome of one window: the best parameters (only the moving average windows are
  kept) with the test's return, drawdown and Sharpe ratio.\<close>

datatype wf_outcome =
    NoParams
  | Tested int int real real real
  | Raised

type_synonym wf_study = "date \<Rightarrow> date \<Rightarrow> date \<Rightarrow> date \<Rightarrow> wf_outcome"

fun wf_loop ::
  "nat \<Rightarrow> wf_config \<Rightarrow> wf_study \<Rightarrow> date \<Rightarrow> date \<Rightarrow> window_result list
   \<Rightarrow> window_result list option" where
  "wf_loop 0 cfg study end_date train_start windows = None"
| "wf_loop (Suc fuel) cfg study end_date train_start windows =
     (let train_end = add_months train_start (train_months cfg);
          test_start = train_end;
          test_end = add_months test_start (test_months cfg) in
      if test_end > end_date then Some windows
      else
        (case study train_start train_end test_start test_end of
           NoParams \<Rightarrow> wf_loop fuel cfg study end_date test_start windows
         | Tested sw lw ret dd sharpe \<Rightarrow>
             wf_loop fuel cfg study end_date (add_months train_start (step_months cfg))
               (windows @ [\<lparr>w_train_start = train_start, w_train_end = train_end,
                  w_test_start = test_start, w_test_end = test_end, w_best_short = sw,
                  w_best_long = lw, w_test_return = ret, w_test_max_drawdown = dd,
                  w_test_sharpe = sharpe\<rparr>])
         | Raised \<Rightarrow>
             wf_loop fuel cfg study end_date (add_months train_start (step_months cfg)) windows))"

record wf_summary =
  total_windows :: nat
  avg_return :: real
  avg_max_drawdown :: real
  avg_sharpe :: real
  best_window :: real
  worst_window :: real

definition wf_aggregate :: "window_result list \<Rightarrow> wf_summary option" where
  "wf_aggregate ws =
     (if ws = [] then None
      else
        (let returns = map w_test_return ws; n = real (length ws) in
         Some \<lparr>total_windows = length ws, avg_return = sum_list returns / n,
               avg_max_drawdown = sum_list (map w_test_max_drawdown ws) / n,
               avg_sharpe = sum_list (map w_test_sharpe ws) / n,
               best_window = Max (set returns), worst_window = Min (set returns)\<rparr>))"

definition wf_run ::
  "nat \<Rightarrow> wf_config \<Rightarrow> wf_study \<Rightarrow> date \<Rightarrow> date \<Rightarrow> (window_result list \<times> wf_summary option) option"
where
  "wf_run fuel cfg study start_date end_date =
     (case wf_loop fuel cfg study end_date start_date [] of
        None \<Rightarrow> None
      | Some ws \<Rightarrow> Some (ws, wf_aggregate ws))"

section \<open>Termination\<close>

text \<open>How many months may still pass before the test window leaves the data.\<close>

definition wf_room :: "wf_config \<Rightarrow> date \<Rightarrow> date \<Rightarrow> nat" where
  "wf_room cfg end_date train_start =
     nat (month_index end_date + 1 - month_index train_start - train_months cfg - test_months cfg)"

lemma wf_inside:
  assumes "valid_date s" "valid_date e" "\<not> add_months (add_months s a) b > e"
  shows "month_index s + a + b \<le> month_index e"
  using month_index_mono [of "add_months (add_months s a) b" e] assms
  by (simp add: valid_add_months not_less)

lemma wf_loop_terminates:
  assumes "1 \<le> step_months cfg" "1 \<le> train_months cfg" "valid_date e"
    and "valid_date s" "wf_room cfg e s < fuel"
  shows "\<exists>ws'. wf_loop fuel cfg study e s ws = Some ws'"
  using assms(4,5)
proof (induction fuel arbitrary: s ws)
  case (Suc fuel)
  let ?te = "add_months s (train_months cfg)"
  let ?ts = "add_months s (step_months cfg)"
  show ?case
  proof (cases "add_months ?te (test_months cfg) > e")
    case False
    have room: "wf_room cfg e ?te < fuel" "wf_room cfg e ?ts < fuel"
      using wf_inside [OF Suc.prems(1) assms(3) False] Suc.prems(2) assms(1,2)
      by (auto simp: wf_room_def)
    have valid: "valid_date ?te" "valid_date ?ts" using Suc.prems(1) valid_add_months by blast+
    show ?thesis
      using Suc.IH [OF valid(1) room(1)] Suc.IH [OF valid(2) room(2)] False
      by (auto simp: Let_def split: wf_outcome.split)
  qed (simp add: Let_def)
qed simp

text \<open>C31. The walk-forward loop ends.  With a training window and a step of at least one month,
  valid dates, and whatever the optimiser and the tests do (find nothing, raise, succeed),
  the run returns after at most as many iterations as there are months of room between the
  first test window and the end of the data.\<close>

theorem wf_run_terminates:
  assumes "1 \<le> step_months cfg" "1 \<le> train_months cfg" "valid_date s" "valid_date e"
    and "wf_room cfg e s < fuel"
  shows "\<exists>ws. wf_run fuel cfg study s e = Some (ws, wf_aggregate ws)"
  using wf_loop_terminates [OF assms(1,2,4,3,5), of study "[]"]
  by (auto simp: wf_run_def)

text \<open>With a step of zero months the loop never ends: once a window fits the data and its
  test succeeds or raises, the next iteration is the same window, for every fuel.\<close>

theorem wf_run_step_zero_diverges:
  assumes "step_months cfg = 0" "valid_date s"
    and "\<not> add_months (add_months s (train_months cfg)) (test_months cfg) > e"
    and "\<And>a b c d. study a b c d \<noteq> NoParams"
  shows "wf_run fuel cfg study s e = None"
proof -
  have "add_months s 0 = s"
    using assms(2) by (cases s) (auto simp: add_months_def valid_date_def Let_def)
  then have "wf_loop fuel cfg study e s ws = None" for ws
    using assms(1,3,4)
    by (induction fuel arbitrary: ws) (auto simp: Let_def split: wf_outcome.split)
  then show ?thesis by (simp add: wf_run_def)
qed

section \<open>The windows\<close>

definition window_ok :: "wf_config \<Rightarrow> date \<Rightarrow> date \<Rightarrow> window_result \<Rightarrow> bool" where
  "window_ok cfg s e w \<longleftrightarrow>
     month_index s \<le> month_index (w_train_start w) \<and> w_train_start w < w_train_end w
     \<and> w_test_start w = w_train_end w \<and> w_test_start w < w_test_end w \<and> w_test_end w \<le> e
     \<and> month_index (w_train_end w) = month_index (w_train_start w) + train_months cfg
     \<and> month_index (w_test_end w) = month_index (w_test_start w) + test_months cfg"

lemma wf_loop_windows:
  assumes "1 \<le> step_months cfg" "1 \<le> train_months cfg" "1 \<le> test_months cfg" "valid_date e"
    and "valid_date s" "wf_loop fuel cfg study e s ws = Some ws'"
    and "month_index s0 \<le> month_index s"
    and "\<forall>w\<in>set ws. window_ok cfg s0 e w" "sorted_wrt (<) (map (\<lambda>w. month_index (w_train_start w)) ws)"
    and "\<forall>w\<in>set ws. month_index (w_train_start w) < month_index s"
  shows "(\<forall>w\<in>set ws'. window_ok cfg s0 e w)
    \<and> sorted_wrt (<) (map (\<lambda>w. month_index (w_train_start w)) ws')"
  using assms(5-)
proof (induction fuel arbitrary: s ws)
  case (Suc fuel)
  let ?te = "add_months s (train_months cfg)"
  let ?tt = "add_months ?te (test_months cfg)"
  let ?ts = "add_months s (step_months cfg)"
  have valid: "valid_date ?te" "valid_date ?ts" "valid_date ?tt"
    using Suc.prems(1) valid_add_months by blast+
  have before: "\<forall>w\<in>set ws. month_index (w_train_start w) < month_index ?te"
    "\<forall>w\<in>set ws. month_index (w_train_start w) < month_index ?ts"
    using Suc.prems(6) assms(1,2) by fastforce+
  show ?case
  proof (cases "?tt > e")
    case False
    have lt: "s < ?te" "?te < ?tt"
      using assms(2,3) valid Suc.prems(1) by (auto intro: month_index_less)
    have next_start: "month_index s0 \<le> month_index ?te" "month_index s0 \<le> month_index ?ts"
      using Suc.prems(3) assms(1,2) by simp_all
    show ?thesis
    proof (cases "study s ?te ?te ?tt")
      case NoParams
      with False Suc.prems have "wf_loop fuel cfg study e ?te ws = Some ws'" by (simp add: Let_def)
      from Suc.IH [OF valid(1) this next_start(1) Suc.prems(4,5) before(1)] show ?thesis .
    next
      case (Tested sw lw ret dd sharpe)
      let ?w = "\<lparr>w_train_start = s, w_train_end = ?te, w_test_start = ?te, w_test_end = ?tt,
        w_best_short = sw, w_best_long = lw, w_test_return = ret, w_test_max_drawdown = dd,
        w_test_sharpe = sharpe\<rparr>"
      from Tested False Suc.prems have run: "wf_loop fuel cfg study e ?ts (ws @ [?w]) = Some ws'"
        by (simp add: Let_def)
      have "window_ok cfg s0 e ?w" using lt False Suc.prems(3) by (simp add: window_ok_def not_less)
      then have ok: "\<forall>w\<in>set (ws @ [?w]). window_ok cfg s0 e w" using Suc.prems(4) by simp
      have sorted: "sorted_wrt (<) (map (\<lambda>w. month_index (w_train_start w)) (ws @ [?w]))"
        using Suc.prems(5,6) by (simp add: sorted_wrt_append)
      have "\<forall>w\<in>set (ws @ [?w]). month_index (w_train_start w) < month_index ?ts"
        using before(2) assms(1) by simp
      from Suc.IH [OF valid(2) run next_start(2) ok sorted this] show ?thesis .
    next
      case Raised
      with False Suc.prems have "wf_loop fuel cfg study e ?ts ws = Some ws'" by (simp add: Let_def)
      from Suc.IH [OF valid(2) this next_start(2) Suc.prems(4,5) before(2)] show ?thesis .
    qed
  qed (use Suc.prems in \<open>simp add: Let_def\<close>)
qed simp

text \<open>C30. Every reported window is sound: its test period starts where its training period
  ends, both have the configured number of months and are not empty, they lie inside the
  data, and the windows move strictly forward in time, so no test period precedes its own
  training data.\<close>

theorem wf_run_windows_sound:
  assumes "1 \<le> step_months cfg" "1 \<le> train_months cfg" "1 \<le> test_months cfg"
    and "valid_date s" "valid_date e" "wf_run fuel cfg study s e = Some (ws, summary)"
  shows "(\<forall>w\<in>set ws. window_ok cfg s e w)
    \<and> sorted_wrt (<) (map (\<lambda>w. month_index (w_train_start w)) ws)
    \<and> (summary = None \<longleftrightarrow> ws = [])"
proof -
  from assms(6) have loop: "wf_loop fuel cfg study e s [] = Some ws" and "summary = wf_aggregate ws"
    by (auto simp: wf_run_def split: option.splits)
  then show ?thesis
    using wf_loop_windows [OF assms(1-3,5,4) loop, of s] by (simp add: wf_aggregate_def Let_def)
qed

text \<open>The averages of the summary lie between the worst and the best window.\<close>

lemma wf_aggregate_bounds:
  assumes "wf_aggregate ws = Some r"
  shows "worst_window r \<le> avg_return r \<and> avg_return r \<le> best_window r"
proof -
  define xs where "xs = map w_test_return ws"
  have len: "length ws = length xs" by (simp add: xs_def)
  have ne: "xs \<noteq> []" using assms by (auto simp: wf_aggregate_def xs_def split: if_splits)
  have "sum_list (map (\<lambda>_. Min (set xs)) xs) \<le> sum_list xs"
    "sum_list xs \<le> sum_list (map (\<lambda>_. Max (set xs)) xs)"
    using sum_list_mono [of xs "\<lambda>_. Min (set xs)" "\<lambda>x. x"]
      sum_list_mono [of xs "\<lambda>x. x" "\<lambda>_. Max (set xs)"] by simp_all
  then show ?thesis
    using assms ne
    by (auto simp: wf_aggregate_def xs_def [symmetric] len sum_list_triv field_simps Let_def split: if_splits)
qed


section \<open>Witnesses\<close>

abbreviation sample_wf :: wf_config where
  "sample_wf \<equiv> \<lparr>train_months = 12, test_months = 3, step_months = 3\<rparr>"

theorem wf_run_terminates_witness:
  "\<exists>ws. wf_run 40 sample_wf (\<lambda>_ _ _ _. Raised) (Date 2020 1 31) (Date 2022 1 1) = Some (ws, wf_aggregate ws)"
  by (rule wf_run_terminates)
    (simp_all add: valid_date_def days_in_month_def wf_room_def month_index_def)

theorem wf_run_step_zero_diverges_witness:
  "wf_run 1000 (sample_wf\<lparr>step_months := 0\<rparr>) (\<lambda>_ _ _ _. Raised) (Date 2020 1 31) (Date 2022 1 1) = None"
  by (rule wf_run_step_zero_diverges)
    (simp_all add: valid_date_def days_in_month_def add_months_def date_order)

theorem wf_run_windows_sound_witness:
  "\<exists>ws. wf_run 3 sample_wf (\<lambda>_ _ _ _. Tested 5 20 1 (-2) 1) (Date 2020 1 31) (Date 2021 6 30) = Some (ws, wf_aggregate ws)
     \<and> length ws = 1 \<and> (\<forall>w\<in>set ws. window_ok sample_wf (Date 2020 1 31) (Date 2021 6 30) w)"
proof -
  obtain ws where run: "wf_run 3 sample_wf (\<lambda>_ _ _ _. Tested 5 20 1 (-2) 1) (Date 2020 1 31) (Date 2021 6 30)
      = Some (ws, wf_aggregate ws)" and "length ws = 1"
    by (simp add: wf_run_def add_months_def days_in_month_def leap_def date_order eval_nat_numeral Let_def)
  then show ?thesis
    using wf_run_windows_sound [OF _ _ _ _ _ run]
    by (auto simp: valid_date_def days_in_month_def leap_def)
qed

end
