(* ===== verification/Market_Profile.thy ===== *)
theory Market_Profile imports Prelude Py_String begin

text \<open>
  \<open>market_profile.py\<close>: the profile of each market, with the thresholds of its governance,
  and the lookup that falls back to the Hong Kong profile.
\<close>

record governance_profile =
  gp_promote_threshold :: real
  gp_keep_threshold :: real
  gp_challenger_min_delta :: real
  gp_cooldown_days :: int
  gp_acceptance_min_days :: int
  gp_acceptance_min_fill_rate :: real
  gp_acceptance_max_drawdown :: real
  gp_live_drawdown_pause :: real
  gp_live_drawdown_rollback :: real

record market_profile =
  mp_market_scope :: string
  mp_label :: string
  mp_timezone :: string
  mp_benchmark_symbol :: string
  mp_trading_style :: string
  mp_structure_notes :: "string list"
  mp_preferred_baseline_tags :: "string list"
  mp_discouraged_baseline_tags :: "string list"
  mp_execution_constraints :: "string list"
  mp_governance :: governance_profile

definition hk_profile :: market_profile where
  "hk_profile = \<lparr>mp_market_scope = ''HK'',
     mp_label = ''Hong Kong cash equity / ETF profile'',
     mp_timezone = ''Asia/Hong_Kong'',
     mp_benchmark_symbol = ''2800.HK'',
     mp_trading_style = ''index-led, macro-sensitive, lower-retail-noise'',
     mp_structure_notes = [''Index and ETF leadership dominate broad tape direction.'',
     ''Macro liquidity and USD-linked financial conditions matter more than retail sentiment bursts.'',
     ''Daily execution should prefer lower-turnover, more patient entries than CN retail-driven rotation trades.''],
     mp_preferred_baseline_tags = [''trend'', ''moving-average'', ''breakout'', ''vectorized''],
     mp_discouraged_baseline_tags = [''mean-reversion'', ''oscillator''],
     mp_execution_constraints = [''cash_equity_only'', ''daily_rebalance_only'',
     ''single_active_strategy'', ''respect_hk_lot_and_fee_assumptions''],
     mp_governance = \<lparr>gp_promote_threshold = 76.0, gp_keep_threshold = 69.0,
     gp_challenger_min_delta = 2.5, gp_cooldown_days = 4, gp_acceptance_min_days = 8,
     gp_acceptance_min_fill_rate = 0.55, gp_acceptance_max_drawdown = 0.09,
     gp_live_drawdown_pause = 0.1, gp_live_drawdown_rollback = 0.13\<rparr>\<rparr>"

definition cn_profile :: market_profile where
  "cn_profile = \<lparr>mp_market_scope = ''CN'',
     mp_label = ''China A-share cash equity profile'',
     mp_timezone = ''Asia/Shanghai'',
     mp_benchmark_symbol = ''000300.SH'',
     mp_trading_style = ''rotation-heavy, retail-sensitive, regime-switching'',
     mp_structure_notes = [''Retail-driven rotation and sector bursts are more frequent.'',
     ''Execution and turnover assumptions need more caution around T+1 and lot-size constraints.'',
     ''Reversion and oscillator ideas are more admissible than in HK, but still need hard risk control.''],
     mp_preferred_baseline_tags = [''momentum'', ''oscillator'', ''reversion''],
     mp_discouraged_baseline_tags = [''slow-trend''],
     mp_execution_constraints = [''cash_equity_only'', ''daily_rebalance_only'',
     ''single_active_strategy'', ''respect_cn_t_plus_one''],
     mp_governance = \<lparr>gp_promote_threshold = 75.0, gp_keep_threshold = 68.0,
     gp_challenger_min_delta = 3.0, gp_cooldown_days = 5, gp_acceptance_min_days = 7,
     gp_acceptance_min_fill_rate = 0.6, gp_acceptance_max_drawdown = 0.08,
     gp_live_drawdown_pause = 0.12, gp_live_drawdown_rollback = 0.15\<rparr>\<rparr>"

definition MARKET_PROFILES :: "(string \<times> market_profile) list" where
  "MARKET_PROFILES = [(''HK'', hk_profile), (''CN'', cn_profile)]"

definition get_market_profile :: "string \<Rightarrow> market_profile" where
  "get_market_profile scope =
     (case map_of MARKET_PROFILES (py_upper scope) of Some p \<Rightarrow> p | None \<Rightarrow> hk_profile)"

text \<open>The part of the profile that the governance of the services reads.\<close>

definition market_governance_profile :: "string \<Rightarrow> governance_profile" where
  "market_governance_profile scope = mp_governance (get_market_profile scope)"

lemma get_market_profile_cases: "get_market_profile scope = hk_profile \<or> get_market_profile scope = cn_profile"
  by (simp add: get_market_profile_def MARKET_PROFILES_def)

lemma market_governance_cases:
  obtains "market_governance_profile scope = mp_governance hk_profile"
    | "market_governance_profile scope = mp_governance cn_profile"
  using get_market_profile_cases [of scope] by (auto simp: market_governance_profile_def)

lemma governance_thresholds_ordered:
  "0 < gp_keep_threshold (market_governance_profile scope)"
  "gp_keep_threshold (market_governance_profile scope) \<le> gp_promote_threshold (market_governance_profile scope)"
  "0 < gp_challenger_min_delta (market_governance_profile scope)"
  "0 < gp_cooldown_days (market_governance_profile scope)"
  "0 < gp_live_drawdown_pause (market_governance_profile scope)"
  "gp_live_drawdown_pause (market_governance_profile scope) < gp_live_drawdown_rollback (market_governance_profile scope)"
  by (cases rule: market_governance_cases [of scope]; simp add: hk_profile_def cn_profile_def)+

end
