(* ===== verification/Strategy_Knowledge.thy ===== *)
theory Strategy_Knowledge imports Prelude Py_String begin

text \<open>
  \<open>strategy/knowledge.py\<close>: the catalogue of strategy families with their market conditions
  and parameter priors, and the preferences derived from the tags of a market profile.
  The Chinese texts of the catalogue are for display only and are left out.  A prior is a
  key with its lower and upper bound.
\<close>

record strategy_knowledge =
  sk_id :: string
  sk_family_key :: string
  sk_supported_markets :: "string list"
  sk_preferred_conditions :: "string list"
  sk_discouraged_conditions :: "string list"
  sk_common_indicators :: "string list"
  sk_common_failure_modes :: "string list"
  sk_parameter_priors :: "(string \<times> real \<times> real) list"
  sk_risk_flags :: "string list"
  sk_related_baselines :: "string list"

definition trend_following_knowledge :: strategy_knowledge where
  "trend_following_knowledge = \<lparr>sk_id = ''knowledge_trend_following_v1'',
     sk_family_key = ''trend_following'',
     sk_supported_markets = [''HK'', ''CN''],
     sk_preferred_conditions = [''bullish'', ''trending_up'', ''persistent_trend''],
     sk_discouraged_conditions = [''range_bound'', ''choppy_reversal''],
     sk_common_indicators = [''SMA'', ''EMA'', ''MACD'', ''ADX''],
     sk_common_failure_modes = [''trend_breakdown'', ''false_breakout'', ''sideways_whipsaw''],
     sk_parameter_priors = [(''short_window'', 3, 20), (''long_window'', 15, 90),
     (''fast_period'', 5, 20), (''slow_period'', 15, 60), (''signal_period'', 5, 18)],
     sk_risk_flags = [''slow_signal_lag'', ''range_market_whipsaw''],
     sk_related_baselines = [''ma_cross'', ''macd'']\<rparr>"

definition mean_reversion_knowledge :: strategy_knowledge where
  "mean_reversion_knowledge = \<lparr>sk_id = ''knowledge_mean_reversion_v1'',
     sk_family_key = ''mean_reversion'',
     sk_supported_markets = [''HK'', ''CN''],
     sk_preferred_conditions = [''range_bound'', ''volatility_compression''],
     sk_discouraged_conditions = [''strong_trend'', ''breakout_expansion''],
     sk_common_indicators = [''RSI'', ''Bollinger'', ''volatility''],
     sk_common_failure_modes = [''trend_dominance'', ''falling_knife'', ''late_reversal''],
     sk_parameter_priors = [(''period'', 5, 30), (''oversold'', 10, 40), (''overbought'', 60,
     90), (''z_window'', 10, 60), (''entry_threshold'', 1.0, 3.5), (''exit_threshold'', 0.1,
     1.5)],
     sk_risk_flags = [''trend_fade_risk'', ''oversold_can_stay_oversold''],
     sk_related_baselines = [''rsi'', ''mean_reversion'']\<rparr>"

definition breakout_knowledge :: strategy_knowledge where
  "breakout_knowledge = \<lparr>sk_id = ''knowledge_breakout_v1'',
     sk_family_key = ''breakout'',
     sk_supported_markets = [''HK'', ''CN''],
     sk_preferred_conditions = [''breakout_expansion'', ''trend_resumption''],
     sk_discouraged_conditions = [''range_bound'', ''low_conviction''],
     sk_common_indicators = [''Donchian'', ''ATR'', ''volatility''],
     sk_common_failure_modes = [''false_breakout'', ''low_volume_breakout'',
     ''post_breakout_reversal''],
     sk_parameter_priors = [(''channel_window'', 10, 60), (''atr_window'', 5, 30), (''atr_k'',
     0.5, 4.0)],
     sk_risk_flags = [''false_breakout_risk'', ''gap_reversal''],
     sk_related_baselines = [''channel_breakout'']\<rparr>"

definition momentum_filter_knowledge :: strategy_knowledge where
  "momentum_filter_knowledge = \<lparr>sk_id = ''knowledge_momentum_filter_v1'',
     sk_family_key = ''momentum_filter'',
     sk_supported_markets = [''HK'', ''CN''],
     sk_preferred_conditions = [''persistent_trend'', ''leadership_concentration''],
     sk_discouraged_conditions = [''sharp_reversal'', ''event_shock''],
     sk_common_indicators = [''MACD'', ''ROC'', ''RSI''],
     sk_common_failure_modes = [''late_confirmation'', ''momentum_exhaustion''],
     sk_parameter_priors = [(''fast_period'', 5, 20), (''slow_period'', 15, 60),
     (''signal_period'', 4, 18)],
     sk_risk_flags = [''late_entry'', ''exhaustion_chase''],
     sk_related_baselines = [''macd'', ''rsi'']\<rparr>"

definition volatility_filter_knowledge :: strategy_knowledge where
  "volatility_filter_knowledge = \<lparr>sk_id = ''knowledge_volatility_filter_v1'',
     sk_family_key = ''volatility_filter'',
     sk_supported_markets = [''HK'', ''CN''],
     sk_preferred_conditions = [''volatility_compression'', ''orderly_expansion''],
     sk_discouraged_conditions = [''chaotic_volatility'', ''event_shock''],
     sk_common_indicators = [''ATR'', ''volatility'', ''drawdown''],
     sk_common_failure_modes = [''volatility_spike'', ''filter_too_strict'',
     ''filter_too_loose''],
     sk_parameter_priors = [(''atr_window'', 5, 30), (''atr_k'', 0.5, 4.0)],
     sk_risk_flags = [''filter_overfit'', ''missed_moves''],
     sk_related_baselines = [''channel_breakout'']\<rparr>"

definition fundamental_growth_knowledge :: strategy_knowledge where
  "fundamental_growth_knowledge = \<lparr>sk_id = ''knowledge_fundamental_growth_v1'',
     sk_family_key = ''fundamental_growth'',
     sk_supported_markets = [''HK'', ''CN''],
     sk_preferred_conditions = [''bullish'', ''orderly_expansion'', ''persistent_trend''],
     sk_discouraged_conditions = [''event_shock'', ''sharp_reversal'', ''liquidity_stress''],
     sk_common_indicators = [''revenue_growth'', ''earnings_growth'', ''ROE'', ''PEG'', ''PB''],
     sk_common_failure_modes = [''valuation_trap'', ''earnings_miss'',
     ''quality_deterioration''],
     sk_parameter_priors = [(''min_revenue_growth'', 0.05, 0.5), (''min_earnings_growth'', 0.05,
     0.6), (''max_peg'', 0.4, 2.5), (''rebalance_days'', 5, 90)],
     sk_risk_flags = [''fundamental_data_lag'', ''valuation_compression'', ''crowded_quality''],
     sk_related_baselines = []\<rparr>"

definition cross_sectional_ranking_knowledge :: strategy_knowledge where
  "cross_sectional_ranking_knowledge = \<lparr>sk_id = ''knowledge_cross_sectional_ranking_v1'',
     sk_family_key = ''cross_sectional_ranking'',
     sk_supported_markets = [''HK'', ''CN''],
     sk_preferred_conditions = [''leadership_concentration'', ''orderly_expansion'',
     ''persistent_trend''],
     sk_discouraged_conditions = [''liquidity_stress'', ''chaotic_volatility'',
     ''sharp_reversal''],
     sk_common_indicators = [''market_cap'', ''turnover'', ''relative_strength'',
     ''quality_score'', ''composite_rank''],
     sk_common_failure_modes = [''crowding'', ''liquidity_thin_tail'', ''ranking_instability''],
     sk_parameter_priors = [(''top_n'', 3, 50), (''min_turnover_millions'', 50, 5000),
     (''rebalance_days'', 1, 30)],
     sk_risk_flags = [''capacity_mismatch'', ''style_drift'', ''rank_overfit''],
     sk_related_baselines = []\<rparr>"

definition regime_filter_knowledge :: strategy_knowledge where
  "regime_filter_knowledge = \<lparr>sk_id = ''knowledge_regime_filter_v1'',
     sk_family_key = ''regime_filter'',
     sk_supported_markets = [''HK'', ''CN''],
     sk_preferred_conditions = [''persistent_trend'', ''orderly_expansion'',
     ''macro_tailwind''],
     sk_discouraged_conditions = [''event_shock'', ''chaotic_volatility'', ''macro_headwind''],
     sk_common_indicators = [''index_trend'', ''MACD'', ''breadth'', ''drawdown'',
     ''macro_bias''],
     sk_common_failure_modes = [''late_deactivation'', ''missed_reentry'', ''filter_conflict''],
     sk_parameter_priors = [(''lookback_days'', 5, 120), (''cooldown_days'', 1, 20),
     (''breadth_threshold'', 0.2, 0.8)],
     sk_risk_flags = [''overfiltering'', ''macro_dependency'', ''timing_whipsaw''],
     sk_related_baselines = []\<rparr>"

definition portfolio_construction_overlay_knowledge :: strategy_knowledge where
  "portfolio_construction_overlay_knowledge = \<lparr>sk_id = ''knowledge_portfolio_construction_overlay_v1'',
     sk_family_key = ''portfolio_construction_overlay'',
     sk_supported_markets = [''HK'', ''CN''],
     sk_preferred_conditions = [''orderly_expansion'', ''range_bound'', ''persistent_trend''],
     sk_discouraged_conditions = [''liquidity_stress'', ''event_shock''],
     sk_common_indicators = [''position_count'', ''weight_cap'', ''sector_limit'',
     ''turnover_budget''],
     sk_common_failure_modes = [''overconcentration'', ''hidden_factor_bet'',
     ''turnover_spike''],
     sk_parameter_priors = [(''max_positions'', 2, 30), (''max_weight'', 0.03, 0.5),
     (''sector_cap'', 0.1, 0.7)],
     sk_risk_flags = [''concentration_risk'', ''rebalance_drag'', ''constraint_interaction''],
     sk_related_baselines = []\<rparr>"

definition STRATEGY_KNOWLEDGE_CATALOG :: "(string \<times> strategy_knowledge) list" where
  "STRATEGY_KNOWLEDGE_CATALOG = map (\<lambda>k. (sk_family_key k, k))
     [trend_following_knowledge, mean_reversion_knowledge, breakout_knowledge,
      momentum_filter_knowledge, volatility_filter_knowledge, fundamental_growth_knowledge,
      cross_sectional_ranking_knowledge, regime_filter_knowledge,
      portfolio_construction_overlay_knowledge]"

definition FAMILY_TO_BASELINE_TAGS :: "(string \<times> string list) list" where
  "FAMILY_TO_BASELINE_TAGS = [(''trend_following'', [''trend'', ''moving-average'']),
  (''mean_reversion'', [''reversion'', ''mean-reversion'', ''oscillator'']), (''breakout'',
  [''breakout'']), (''momentum_filter'', [''momentum'', ''oscillator'', ''trend'']),
  (''volatility_filter'', [''vectorized'', ''breakout'']), (''fundamental_growth'',
  [''quality'', ''growth'', ''valuation'', ''fundamental'']), (''cross_sectional_ranking'',
  [''momentum'', ''ranking'', ''rotation'', ''small-cap'']), (''regime_filter'', [''trend'',
  ''macro'', ''timing'', ''momentum'']), (''portfolio_construction_overlay'', [''vectorized'',
  ''diversified'', ''portfolio'', ''risk-budget''])]"

definition get_strategy_knowledge :: "string \<Rightarrow> strategy_knowledge res" where
  "get_strategy_knowledge family_key =
     (case map_of STRATEGY_KNOWLEDGE_CATALOG (py_lower (py_strip family_key)) of
        Some k \<Rightarrow> Inr k | None \<Rightarrow> Inl KeyError)"

definition knowledge_payload_for_market :: "string \<Rightarrow> strategy_knowledge list" where
  "knowledge_payload_for_market scope =
     filter (\<lambda>k. py_upper scope \<in> set (sk_supported_markets k)) (map snd STRATEGY_KNOWLEDGE_CATALOG)"

definition families_tagged :: "string list \<Rightarrow> string list" where
  "families_tagged tags =
     map fst (filter (\<lambda>(k, ts). list_ex (\<lambda>t. t \<in> set tags) ts) FAMILY_TO_BASELINE_TAGS)"

definition knowledge_preferences_from_market_profile ::
  "string list \<Rightarrow> string list \<Rightarrow> string list \<times> string list" where
  "knowledge_preferences_from_market_profile preferred discouraged =
     (families_tagged preferred, families_tagged discouraged)"

end
