(* ===== verification/Strategy_Registry.thy ===== *)
theory Strategy_Registry imports Prelude Py_String "HOL-Library.Char_ord" "HOL-Library.List_Lexorder" begin

text \<open>
  \<open>strategy/plugins.py\<close> and the registry and factory of \<open>strategy/factory.py\<close>.  The registry
  is a Python dictionary, an association list in insertion order.  A parameter value is a
  number, a boolean, a text, \<open>None\<close>, a list or an object, and a number may be an infinity or not
  a number; a boolean is a number to \<open>isinstance\<close> and to \<open>==\<close>, and what is not a number equals nothing.
  Creating a strategy is choosing its class and the keyword arguments of its constructor:
  a keyword that the class does not accept raises a TypeError.
\<close>

datatype pval = PNum real | PInfinity | PMinusInfinity | PNaN | PBool bool | PStr string | PNone
  | PList "pval list" | PDict "(string \<times> pval) list"

definition pval_num :: "pval \<Rightarrow> real option" where
  "pval_num v = (case v of PNum x \<Rightarrow> Some x | PBool b \<Rightarrow> Some (if b then 1 else 0) | _ \<Rightarrow> None)"

definition pval_eq :: "pval \<Rightarrow> pval \<Rightarrow> bool" where
  "pval_eq a b = (case (pval_num a, pval_num b) of (Some x, Some y) \<Rightarrow> x = y | _ \<Rightarrow> a = b \<and> a \<noteq> PNaN)"

type_synonym params = "(string \<times> pval) list"

datatype strategy_class =
  MACrossStrategy | RSIStrategy | MACDStrategy | MeanReversionStrategy | ChannelBreakoutStrategy

text \<open>The keywords of each constructor.\<close>

definition init_params :: "strategy_class \<Rightarrow> string list" where
  "init_params c = (case c of
     MACrossStrategy \<Rightarrow> [''short_window'', ''long_window'']
   | RSIStrategy \<Rightarrow> [''period'', ''oversold'', ''overbought'', ''use_mid_crossover'']
   | MACDStrategy \<Rightarrow> [''fast_period'', ''slow_period'', ''signal_period'', ''use_zero_cross'']
   | MeanReversionStrategy \<Rightarrow> [''z_window'', ''entry_threshold'', ''exit_threshold'', ''use_short'']
   | ChannelBreakoutStrategy \<Rightarrow> [''channel_window'', ''atr_window'', ''atr_k'', ''use_stop_loss''])"

record strategy_definition =
  sd_name :: string
  sd_description :: string
  sd_stream_cls :: "strategy_class option"
  sd_vectorized_cls :: "strategy_class option"
  sd_default_params :: params
  sd_tags :: "string list"
  sd_supported_markets :: "string list"
  sd_market_bias :: string
  sd_knowledge_families :: "string list"

definition ma_cross_plugin :: strategy_definition where
  "ma_cross_plugin = \<lparr>sd_name = ''ma_cross'',
     sd_description = ''Trend-following moving-average crossover baseline.'',
     sd_stream_cls = Some MACrossStrategy,
     sd_vectorized_cls = None,
     sd_default_params = [(''short_window'', PNum 5), (''long_window'', PNum 20)],
     sd_tags = [''trend'', ''moving-average''],
     sd_supported_markets = [''HK'', ''CN''],
     sd_market_bias = ''hk_preferred'',
     sd_knowledge_families = [''trend_following'']\<rparr>"

definition rsi_plugin :: strategy_definition where
  "rsi_plugin = \<lparr>sd_name = ''rsi'',
     sd_description = ''Momentum reversal baseline based on RSI bands.'',
     sd_stream_cls = Some RSIStrategy,
     sd_vectorized_cls = None,
     sd_default_params = [(''period'', PNum 14), (''oversold'', PNum 30), (''overbought'', PNum
     70)],
     sd_tags = [''momentum'', ''oscillator''],
     sd_supported_markets = [''CN'', ''HK''],
     sd_market_bias = ''cn_preferred'',
     sd_knowledge_families = [''mean_reversion'', ''momentum_filter'']\<rparr>"

definition macd_plugin :: strategy_definition where
  "macd_plugin = \<lparr>sd_name = ''macd'',
     sd_description = ''Momentum crossover baseline based on MACD signal changes.'',
     sd_stream_cls = Some MACDStrategy,
     sd_vectorized_cls = None,
     sd_default_params = [(''fast_period'', PNum 12), (''slow_period'', PNum 26),
     (''signal_period'', PNum 9)],
     sd_tags = [''momentum'', ''trend''],
     sd_supported_markets = [''HK'', ''CN''],
     sd_market_bias = ''balanced'',
     sd_knowledge_families = [''trend_following'', ''momentum_filter'']\<rparr>"

definition mean_reversion_plugin :: strategy_definition where
  "mean_reversion_plugin = \<lparr>sd_name = ''mean_reversion'',
     sd_description = ''Vectorized mean-reversion baseline using z-score envelopes.'',
     sd_stream_cls = None,
     sd_vectorized_cls = Some MeanReversionStrategy,
     sd_default_params = [(''z_window'', PNum 20), (''entry_threshold'', PNum 2.0),
     (''exit_threshold'', PNum 0.5), (''use_short'', PBool False)],
     sd_tags = [''reversion'', ''vectorized''],
     sd_supported_markets = [''CN'', ''HK''],
     sd_market_bias = ''cn_preferred'',
     sd_knowledge_families = [''mean_reversion'']\<rparr>"

definition channel_breakout_plugin :: strategy_definition where
  "channel_breakout_plugin = \<lparr>sd_name = ''channel_breakout'',
     sd_description = ''Vectorized breakout baseline using price channels and ATR filters.'',
     sd_stream_cls = None,
     sd_vectorized_cls = Some ChannelBreakoutStrategy,
     sd_default_params = [(''channel_window'', PNum 20), (''atr_window'', PNum 14), (''atr_k'',
     PNum 2.0)],
     sd_tags = [''breakout'', ''vectorized''],
     sd_supported_markets = [''HK'', ''CN''],
     sd_market_bias = ''hk_preferred'',
     sd_knowledge_families = [''breakout'', ''volatility_filter'']\<rparr>"

definition iter_builtin_strategy_plugins :: "strategy_definition list" where
  "iter_builtin_strategy_plugins =
     [ma_cross_plugin, rsi_plugin, macd_plugin, mean_reversion_plugin, channel_breakout_plugin]"

definition strategy_plugin_names :: "bool \<Rightarrow> string list" where
  "strategy_plugin_names include_llm_anchor =
     map sd_name iter_builtin_strategy_plugins @ (if include_llm_anchor then [''novel_composite''] else [])"

section \<open>The registry\<close>

type_synonym registry = "(string \<times> strategy_definition) list"

definition registry_key :: "string \<Rightarrow> string" where
  "registry_key name = py_lower (py_strip name)"

text \<open>Empty markets fall back to the two supported ones (\<open>supported_markets or (...)\<close>).\<close>

definition register :: "strategy_definition \<Rightarrow> registry \<Rightarrow> registry" where
  "register d defs =
     AList.update (registry_key (sd_name d))
       (d\<lparr>sd_name := registry_key (sd_name d),
          sd_supported_markets := (if sd_supported_markets d = [] then [''HK'', ''CN''] else sd_supported_markets d)\<rparr>)
       defs"

definition registry_get :: "registry \<Rightarrow> string \<Rightarrow> strategy_definition res" where
  "registry_get defs name =
     (case map_of defs (registry_key name) of Some d \<Rightarrow> Inr d | None \<Rightarrow> Inl ValueError)"

definition names :: "registry \<Rightarrow> string list" where
  "names defs = sort (map fst defs)"

definition definitions :: "registry \<Rightarrow> strategy_definition list" where
  "definitions defs = map (\<lambda>n. the (map_of defs n)) (names defs)"

definition create_default_registry :: registry where
  "create_default_registry = fold register iter_builtin_strategy_plugins []"

section \<open>The factory\<close>

datatype mode = Stream | Vectorized | Auto

definition or_else :: "'a option \<Rightarrow> 'a option \<Rightarrow> 'a option" where
  "or_else a b = (case a of Some x \<Rightarrow> Some x | None \<Rightarrow> b)"

definition chosen_cls :: "strategy_definition \<Rightarrow> mode \<Rightarrow> strategy_class option" where
  "chosen_cls d m = (case m of
     Stream \<Rightarrow> or_else (sd_stream_cls d) (sd_vectorized_cls d)
   | Vectorized \<Rightarrow> or_else (sd_vectorized_cls d) (sd_stream_cls d)
   | Auto \<Rightarrow> or_else (sd_stream_cls d) (sd_vectorized_cls d))"

definition instantiate :: "strategy_class \<Rightarrow> params \<Rightarrow> (strategy_class \<times> params) res" where
  "instantiate c ps =
     (if list_all (\<lambda>(k, _). k \<in> set (init_params c)) ps then Inr (c, ps) else Inl TypeError)"

definition create :: "registry \<Rightarrow> string \<Rightarrow> mode \<Rightarrow> params \<Rightarrow> (string \<times> strategy_class \<times> params) res" where
  "create defs name m ps =
     rbind (registry_get defs name) (\<lambda>d.
       let merged = AList.updates (map fst ps) (map snd ps) (sd_default_params d) in
       case chosen_cls d m of
         None \<Rightarrow> Inl ValueError
       | Some c \<Rightarrow> rbind (instantiate c merged) (\<lambda>s. Inr (sd_name d, s)))"

text \<open>\<open>_sanitize_strategy_params\<close> of the services: keep the keywords the class accepts.\<close>

definition sanitize_strategy_params :: "registry \<Rightarrow> string \<Rightarrow> params \<Rightarrow> params res" where
  "sanitize_strategy_params defs base ps =
     rbind (registry_get defs base) (\<lambda>d.
       case or_else (sd_stream_cls d) (sd_vectorized_cls d) of
         None \<Rightarrow> Inr []
       | Some c \<Rightarrow> Inr (filter (\<lambda>(k, _). k \<in> set (init_params c)) ps))"

text \<open>\<open>_strategy_adapter_from_spec\<close>: the strategy that a proposal names, from the parameters of
  its description without the two keys that are not parameters.\<close>

definition base_strategy_from_spec :: "string \<Rightarrow> params \<Rightarrow> string" where
  "base_strategy_from_spec title ps =
     (case map_of ps ''base_strategy'' of Some (PStr s) \<Rightarrow> if s \<noteq> [] then s else title | _ \<Rightarrow> title)"

definition strategy_adapter_from_spec ::
  "registry \<Rightarrow> string \<Rightarrow> params \<Rightarrow> (string \<times> strategy_class \<times> params) res" where
  "strategy_adapter_from_spec defs title ps =
     rbind (sanitize_strategy_params defs (base_strategy_from_spec title ps)
              (filter (\<lambda>(k, _). k \<noteq> ''base_strategy'' \<and> k \<noteq> ''symbol'') ps))
       (\<lambda>s. create defs (base_strategy_from_spec title ps) Auto s)"

section \<open>The registry is a store keyed by the normalised name\<close>

locale keyed_store =
  fixes put :: "'v \<Rightarrow> 's \<Rightarrow> 's"
    and fetch :: "'s \<Rightarrow> 'k \<Rightarrow> 'v option"
    and key_of :: "'v \<Rightarrow> 'k"
    and norm :: "'k \<Rightarrow> 'k"
    and stored :: "'v \<Rightarrow> 'v"
  assumes fetch_put:
    "fetch (put v s) k = (if norm k = norm (key_of v) then Some (stored v) else fetch s k)"
begin

lemma fetch_own [simp]: "fetch (put v s) (key_of v) = Some (stored v)"
  by (simp add: fetch_put)

lemma put_overwrites: "norm (key_of v) = norm (key_of w) \<Longrightarrow> fetch (put w (put v s)) k = fetch (put w s) k"
  by (simp add: fetch_put)

lemma put_commute:
  "norm (key_of v) \<noteq> norm (key_of w) \<Longrightarrow> fetch (put v (put w s)) k = fetch (put w (put v s)) k"
  by (simp add: fetch_put)

lemma fetch_fold_notin:
  "\<forall>v\<in>set vs. norm (key_of v) \<noteq> norm k \<Longrightarrow> fetch (fold put vs s) k = fetch s k"
  by (induction vs arbitrary: s) (auto simp: fetch_put)

lemma fetch_fold:
  "distinct (map (norm \<circ> key_of) vs) \<Longrightarrow> v \<in> set vs \<Longrightarrow> norm k = norm (key_of v)
   \<Longrightarrow> fetch (fold put vs s) k = Some (stored v)"
proof (induction vs arbitrary: s)
  case (Cons w ws)
  show ?case
  proof (cases "v = w")
    case True
    with Cons.prems have "\<forall>u\<in>set ws. norm (key_of u) \<noteq> norm k"
      by (metis (no_types, lifting) comp_apply distinct.simps(2) image_eqI list.set_map list.simps(9))
    with True Cons.prems show ?thesis by (simp add: fetch_fold_notin fetch_put)
  next
    case False
    with Cons show ?thesis by simp
  qed
qed simp

end

definition stored_definition :: "strategy_definition \<Rightarrow> strategy_definition" where
  "stored_definition d = d\<lparr>sd_name := registry_key (sd_name d),
     sd_supported_markets := (if sd_supported_markets d = [] then [''HK'', ''CN''] else sd_supported_markets d)\<rparr>"

lemma register_alt: "register d defs = AList.update (registry_key (sd_name d)) (stored_definition d) defs"
  by (simp add: register_def stored_definition_def)

interpretation registry: keyed_store register "\<lambda>defs k. map_of defs (registry_key k)" sd_name
  registry_key stored_definition
  by unfold_locales (auto simp: register_alt update_conv')

lemma builtin_keys:
  "map (registry_key \<circ> sd_name) iter_builtin_strategy_plugins =
     [''ma_cross'', ''rsi'', ''macd'', ''mean_reversion'', ''channel_breakout'']"
  by code_simp

lemma default_names:
  "map fst create_default_registry =
     [''ma_cross'', ''rsi'', ''macd'', ''mean_reversion'', ''channel_breakout'']"
  by code_simp

lemma default_registry_get:
  assumes "d \<in> set iter_builtin_strategy_plugins" "registry_key name = registry_key (sd_name d)"
  shows "registry_get create_default_registry name = Inr (stored_definition d)"
proof -
  have "distinct (map (registry_key \<circ> sd_name) iter_builtin_strategy_plugins)"
    unfolding builtin_keys by code_simp
  from registry.fetch_fold [OF this assms] show ?thesis
    by (simp add: registry_get_def create_default_registry_def)
qed

lemma default_registry_none:
  "registry_key name \<notin> set (map fst create_default_registry) \<Longrightarrow>
   registry_get create_default_registry name = Inl ValueError"
  by (simp add: registry_get_def map_of_eq_None_iff split: option.split)

section \<open>What the factory can build\<close>

lemma builtin_class:
  assumes "d \<in> set iter_builtin_strategy_plugins"
  obtains c where "or_else (sd_stream_cls d) (sd_vectorized_cls d) = Some c"
    "\<forall>k\<in>set (map fst (sd_default_params d)). k \<in> set (init_params c)"
proof -
  have "\<forall>d\<in>set iter_builtin_strategy_plugins.
     case or_else (sd_stream_cls d) (sd_vectorized_cls d) of None \<Rightarrow> False
     | Some c \<Rightarrow> \<forall>k\<in>set (map fst (sd_default_params d)). k \<in> set (init_params c)"
    by code_simp
  with assms that show thesis by (fastforce split: option.splits)
qed

lemma stored_definition_simps [simp]:
  "sd_stream_cls (stored_definition d) = sd_stream_cls d"
  "sd_vectorized_cls (stored_definition d) = sd_vectorized_cls d"
  "sd_default_params (stored_definition d) = sd_default_params d"
  "sd_knowledge_families (stored_definition d) = sd_knowledge_families d"
  "sd_name (stored_definition d) = registry_key (sd_name d)"
  by (simp_all add: stored_definition_def)

lemma map_of_filter_fst: "map_of (filter (\<lambda>(k, _). P k) ps) k = (if P k then map_of ps k else None)"
  by (induction ps) auto

lemma adapter_known:
  assumes "d \<in> set iter_builtin_strategy_plugins"
    and "registry_key (base_strategy_from_spec title ps) = registry_key (sd_name d)"
  obtains c qs where
    "strategy_adapter_from_spec create_default_registry title ps = Inr (registry_key (sd_name d), c, qs)"
    "or_else (sd_stream_cls d) (sd_vectorized_cls d) = Some c"
    "set (map fst qs) \<subseteq> set (init_params c)"
proof -
  define s where "s = filter (\<lambda>(k, _). k \<noteq> ''base_strategy'' \<and> k \<noteq> ''symbol'') ps"
  obtain c where c: "or_else (sd_stream_cls d) (sd_vectorized_cls d) = Some c"
    and dom: "\<forall>k\<in>set (map fst (sd_default_params d)). k \<in> set (init_params c)"
    by (rule builtin_class [OF assms(1)])
  define t where "t = filter (\<lambda>(k, _). k \<in> set (init_params c)) s"
  define qs where "qs = AList.updates (map fst t) (map snd t) (sd_default_params d)"
  have "fst ` set qs = fst ` set (sd_default_params d) \<union> fst ` set t"
    unfolding dom_map_of_conv_image_fst [symmetric] qs_def updates_conv' dom_map_upds
    by (auto simp: dom_map_of_conv_image_fst)
  then have sub: "set (map fst qs) \<subseteq> set (init_params c)"
    using dom by (auto simp: t_def)
  then have "list_all (\<lambda>(k, _). k \<in> set (init_params c)) qs"
    by (auto simp: list_all_iff)
  then have "strategy_adapter_from_spec create_default_registry title ps
     = Inr (registry_key (sd_name d), c, qs)"
    by (simp add: strategy_adapter_from_spec_def sanitize_strategy_params_def create_def
        default_registry_get [OF assms] c chosen_cls_def instantiate_def Let_def
        flip: s_def t_def qs_def)
  from that [OF this c sub] show thesis .
qed

text \<open>C29. A proposal's strategy can be built exactly when the name it gives is one of the
  built-in strategies: any other name, in particular the label \<open>novel_composite\<close> that the
  prompt offers to the model, is refused with a ValueError, and whatever parameters the model
  invents, building never fails with the TypeError of an unknown keyword.\<close>

theorem strategy_adapter_total:
  "(case strategy_adapter_from_spec create_default_registry title ps of
      Inl e \<Rightarrow> e = ValueError
        \<and> registry_key (base_strategy_from_spec title ps) \<notin> set (strategy_plugin_names False)
    | Inr (name, c, qs) \<Rightarrow> name = registry_key (base_strategy_from_spec title ps)
        \<and> name \<in> set (strategy_plugin_names False) \<and> set (map fst qs) \<subseteq> set (init_params c))
   \<and> ''novel_composite'' \<notin> set (strategy_plugin_names False)
   \<and> ''novel_composite'' \<in> set (strategy_plugin_names True)"
proof -
  let ?k = "registry_key (base_strategy_from_spec title ps)"
  have names: "strategy_plugin_names False = map fst create_default_registry"
    unfolding default_names by code_simp
  have novel: "''novel_composite'' \<notin> set (strategy_plugin_names False)"
    "''novel_composite'' \<in> set (strategy_plugin_names True)"
    by code_simp+
  show ?thesis
  proof (cases "?k \<in> set (strategy_plugin_names False)")
    case True
    then have "?k \<in> set (map (registry_key \<circ> sd_name) iter_builtin_strategy_plugins)"
      unfolding names default_names builtin_keys .
    then obtain d where d: "d \<in> set iter_builtin_strategy_plugins" "?k = registry_key (sd_name d)"
      by auto
    obtain c qs where "strategy_adapter_from_spec create_default_registry title ps
        = Inr (registry_key (sd_name d), c, qs)" "set (map fst qs) \<subseteq> set (init_params c)"
      by (rule adapter_known [OF d])
    then show ?thesis using True novel by (simp add: d(2) [symmetric])
  next
    case False
    then show ?thesis using default_registry_none [of "base_strategy_from_spec title ps"] novel
      by (simp add: names strategy_adapter_from_spec_def sanitize_strategy_params_def)
  qed
qed

end
