(* ===== verification/Market_Regime.thy ===== *)
theory Market_Regime imports Prelude begin

text \<open>
  \<open>market_regime.py\<close>: the vote that classifies a price series as a rising, a falling or a
  ranging market, with the way \<open>build_market_snapshot\<close> of the services calls it on the
  equity curve of the paper account.  A division by a zero price raises.
\<close>

datatype regime = TRENDING_UP | TRENDING_DOWN | RANGING

record regime_indicators =
  ri_ma20 :: real
  ri_ma60 :: real
  ri_volatility :: real
  ri_trend_strength :: real
  ri_above_ma20 :: bool
  ri_above_ma60 :: bool

record regime_result =
  rr_regime :: regime
  rr_confidence :: real
  rr_reason :: "nat \<times> nat"
  rr_indicators :: regime_indicators

text \<open>\<open>data[-n:]\<close> and \<open>data[-n]\<close> for a list with at least \<open>n\<close> elements.\<close>

definition last_n :: "nat \<Rightarrow> 'a list \<Rightarrow> 'a list" where
  "last_n n xs = drop (length xs - n) xs"

definition from_end :: "nat \<Rightarrow> 'a list \<Rightarrow> 'a" where
  "from_end n xs = xs ! (length xs - n)"

definition regime_ma :: "real list \<Rightarrow> nat \<Rightarrow> real" where
  "regime_ma data period =
     (if length data < period then (if data = [] then 0 else last data)
      else sum_list (last_n period data) / of_nat period)"

definition regime_volatility :: "real list \<Rightarrow> nat \<Rightarrow> real" where
  "regime_volatility data period =
     (if length data < period then 0
      else
        (let recent = last_n period data;
             mean = sum_list recent / of_nat (length recent);
             variance = sum_list (map (\<lambda>x. (x - mean)\<^sup>2) recent) / of_nat (length recent)
         in if mean > 0 then sqrt variance / mean else 0))"

definition price_change :: "nat \<Rightarrow> real list \<Rightarrow> real res" where
  "price_change n close = py_div (last close - from_end n close) (from_end n close)"

definition regime_trend_strength :: "real list \<Rightarrow> real res" where
  "regime_trend_strength close =
     (if length close < 60 then Inr 0
      else rbind (price_change 20 close) (\<lambda>c20.
           rbind (price_change 60 close) (\<lambda>c60.
             Inr (max (-1) (min 1 (c20 * 0.6 + c60 * 0.4))))))"

definition votes :: "bool list \<Rightarrow> nat" where
  "votes bs = length (filter id bs)"

definition determine_regime :: "real \<Rightarrow> real \<Rightarrow> real \<Rightarrow> real \<Rightarrow> real \<Rightarrow> regime_result" where
  "determine_regime price ma20 ma60 vol ts =
     (let bull = votes [ts > 0.05, price > ma20, price > ma60, ma20 > ma60];
          bear = votes [ts < -0.05, \<not> price > ma20, \<not> price > ma60, ma20 < ma60];
          (r, c) = (if bull \<ge> 3 then (TRENDING_UP, of_nat bull / 4)
                    else if bear \<ge> 3 then (TRENDING_DOWN, of_nat bear / 4)
                    else (RANGING, 0.7))
      in \<lparr>rr_regime = r, rr_confidence = py_round c 2, rr_reason = (bull, bear),
          rr_indicators = \<lparr>ri_ma20 = ma20, ri_ma60 = ma60, ri_volatility = vol,
             ri_trend_strength = ts, ri_above_ma20 = (price > ma20), ri_above_ma60 = (price > ma60)\<rparr>\<rparr>)"

definition regime_analyze :: "real list \<Rightarrow> regime_result option res" where
  "regime_analyze close =
     (if length close < 60 then Inr None
      else rbind (regime_trend_strength close) (\<lambda>ts.
        Inr (Some (determine_regime (last close) (regime_ma close 20) (regime_ma close 60)
          (regime_volatility close 20) ts))))"

section \<open>The snapshot's regime\<close>

text \<open>The regime, its confidence, the volatility and the trend strength of a snapshot: they are
  those of the paper account's equity (newest row first in \<open>nav_rows\<close>), or constants when
  fewer than 60 rows exist.\<close>

record snapshot_regime =
  sr_regime :: regime
  sr_confidence :: real
  sr_volatility :: real
  sr_trend_strength :: real

definition snapshot_regime_of :: "real list \<Rightarrow> snapshot_regime res" where
  "snapshot_regime_of nav_equities =
     rbind (regime_analyze (rev nav_equities)) (\<lambda>r.
       case r of
         None \<Rightarrow> Inr \<lparr>sr_regime = RANGING, sr_confidence = 0.58, sr_volatility = 0.021,
                      sr_trend_strength = 0.04\<rparr>
       | Some x \<Rightarrow> Inr \<lparr>sr_regime = rr_regime x, sr_confidence = rr_confidence x,
                      sr_volatility = ri_volatility (rr_indicators x),
                      sr_trend_strength = ri_trend_strength (rr_indicators x)\<rparr>)"

section \<open>Properties\<close>

lemma votes_bounds: "votes bs \<le> length bs"
  by (simp add: votes_def)

lemma last_n_map: "last_n n (map f xs) = map f (last_n n xs)"
  by (simp add: last_n_def drop_map)

lemma from_end_map: "0 < n \<Longrightarrow> n \<le> length xs \<Longrightarrow> from_end n (map f xs) = f (from_end n xs)"
  by (simp add: from_end_def)

lemma sum_list_scale: "sum_list (map ((*) k) xs) = k * sum_list (xs :: real list)"
  by (induction xs) (simp_all add: distrib_left)

lemma sum_list_scale_map: "(\<Sum>x\<leftarrow>xs. k * f x) = (k :: real) * sum_list (map f xs)"
  by (induction xs) (simp_all add: distrib_left)

lemma regime_ma_scale: "regime_ma (map ((*) k) data) n = k * regime_ma data n"
  by (simp add: regime_ma_def last_n_map last_map sum_list_scale)

lemma regime_volatility_scale:
  assumes "0 < k" shows "regime_volatility (map ((*) k) data) n = regime_volatility data n"
proof -
  define xs where "xs = last_n n data"
  define m where "m = sum_list xs / real (length xs)"
  define v where "v = sum_list (map (\<lambda>x. (x - m)\<^sup>2) xs) / real (length xs)"
  have mean: "sum_list (map ((*) k) xs) / real (length xs) = k * m"
    by (simp add: sum_list_scale m_def)
  have "(\<Sum>x\<leftarrow>xs. (k * x - k * m)\<^sup>2) = (\<Sum>x\<leftarrow>xs. k\<^sup>2 * (x - m)\<^sup>2)"
    by (intro arg_cong [where f = sum_list] map_cong refl)
      (simp add: power2_eq_square algebra_simps)
  then have var: "(\<Sum>x\<leftarrow>xs. (k * x - k * m)\<^sup>2) / real (length xs) = k\<^sup>2 * v"
    by (simp add: sum_list_scale_map v_def)
  have "regime_volatility (map ((*) k) data) n
      = (if length data < n then 0 else if k * m > 0 then sqrt (k\<^sup>2 * v) / (k * m) else 0)"
    by (simp add: regime_volatility_def last_n_map Let_def comp_def mean var flip: xs_def)
  also have "\<dots> = (if length data < n then 0 else if m > 0 then sqrt v / m else 0)"
    using assms by (simp add: real_sqrt_mult zero_less_mult_iff)
  also have "\<dots> = regime_volatility data n"
    by (simp add: regime_volatility_def Let_def flip: xs_def m_def v_def)
  finally show ?thesis .
qed

lemma price_change_scale:
  assumes "0 < k" "0 < n" "n \<le> length close"
  shows "price_change n (map ((*) k) close) = price_change n close"
proof -
  have "last (map ((*) k) close) = k * last close" using assms by (intro last_map) auto
  then show ?thesis
    using assms by (cases "from_end n close = 0") (simp_all add: price_change_def from_end_map field_simps)
qed

lemma determine_regime_scale:
  assumes "0 < k"
  shows "rr_regime (determine_regime (k * p) (k * a) (k * b) v t) = rr_regime (determine_regime p a b v t)"
    "rr_confidence (determine_regime (k * p) (k * a) (k * b) v t) = rr_confidence (determine_regime p a b v t)"
  using assms by (simp_all add: determine_regime_def Let_def split_def)


lemma regime_trend_strength_scale:
  "0 < k \<Longrightarrow> regime_trend_strength (map ((*) k) close) = regime_trend_strength close"
  by (simp add: regime_trend_strength_def price_change_scale)

lemma confidence_values:
  "rr_confidence (determine_regime p a b v t) \<in> {0.7, 0.75, 1}"
proof -
  have r: "py_round (3 / 4) 2 = 0.75" "py_round 1 2 = 1" "py_round 0.7 2 = 0.7"
    using py_round_exact [of "3 / 4" 2 75] py_round_exact [of 1 2 100] py_round_exact [of "0.7" 2 70]
    by simp_all
  define n where "n = votes [t > 0.05, p > a, p > b, a > b]"
  define m where "m = votes [t < -0.05, \<not> p > a, \<not> p > b, a < b]"
  have "n \<le> 4" "m \<le> 4"
    unfolding n_def m_def using votes_bounds [of "[t > 0.05, p > a, p > b, a > b]"]
      votes_bounds [of "[t < -0.05, \<not> p > a, \<not> p > b, a < b]"] by simp_all
  then have "3 \<le> n \<Longrightarrow> n = 3 \<or> n = 4" "3 \<le> m \<Longrightarrow> m = 3 \<or> m = 4" by auto
  then show ?thesis
    unfolding determine_regime_def Let_def n_def [symmetric] m_def [symmetric]
    by (auto simp: r)
qed

lemma trend_strength_range:
  "regime_trend_strength close = Inr ts \<Longrightarrow> -1 \<le> ts \<and> ts \<le> 1"
  by (auto simp: regime_trend_strength_def rbind_eq_Inr_iff split: if_splits)

text \<open>The classification is unit free and bounded: quoting every price in another unit
  changes neither the regime nor its confidence, a confidence is 0.70, 0.75 or 1, the trend
  strength lies between -1 and 1, and a series of fewer than 60 prices gives no answer.\<close>

theorem regime_analyze_unit_free:
  assumes "0 < k" "regime_analyze close = Inr (Some r)"
  shows "(\<exists>r'. regime_analyze (map ((*) k) close) = Inr (Some r')
            \<and> rr_regime r' = rr_regime r \<and> rr_confidence r' = rr_confidence r)
    \<and> rr_confidence r \<in> {0.7, 0.75, 1}
    \<and> ri_trend_strength (rr_indicators r) \<in> {-1..1} \<and> 60 \<le> length close"
proof -
  from assms(2) obtain ts where len: "60 \<le> length close" and ts: "regime_trend_strength close = Inr ts"
    and r: "r = determine_regime (last close) (regime_ma close 20) (regime_ma close 60)
              (regime_volatility close 20) ts"
    by (auto simp: regime_analyze_def rbind_eq_Inr_iff split: if_splits)
  have "last (map ((*) k) close) = k * last close" using len by (intro last_map) auto
  then have "regime_analyze (map ((*) k) close) = Inr (Some (determine_regime (k * last close)
       (k * regime_ma close 20) (k * regime_ma close 60) (regime_volatility close 20) ts))"
    using len ts assms(1)
    by (simp add: regime_analyze_def regime_trend_strength_scale regime_ma_scale regime_volatility_scale)
  moreover have "ri_trend_strength (rr_indicators r) = ts"
    by (simp add: r determine_regime_def Let_def split_def)
  ultimately show ?thesis
    using len trend_strength_range [OF ts] determine_regime_scale [OF assms(1)] confidence_values
    unfolding r by auto
qed

lemma sample_analyze: "\<exists>r. regime_analyze (replicate 60 1) = Inr (Some r)"
  by (simp add: regime_analyze_def regime_trend_strength_def price_change_def from_end_def)

theorem regime_analyze_unit_free_witness:
  "\<exists>r. regime_analyze (map ((*) 2) (replicate 60 1)) = Inr (Some r)"
  using sample_analyze regime_analyze_unit_free [of 2 "replicate 60 1"] by fastforce

end
