(* ===== verification/Knowledge_Gate.thy ===== *)
theory Knowledge_Gate imports Market_Profile Market_Regime Strategy_Knowledge Strategy_Registry begin

text \<open>
  The knowledge gate of \<open>api/services.py\<close>: the market conditions of a snapshot, the families
  they prefer and discourage, the assessment of a strategy blueprint against the catalogue,
  the penalty and the ranks derived from it and the filters for a ranging market.  Python
  sets are HOL sets and \<open>sorted\<close> lists them; a text is its UTF-8 bytes, so that a keyword of
  Chinese characters is the list of its bytes; the Chinese default texts of the report are
  left out.
\<close>

section \<open>Market conditions\<close>

record snapshot =
  sn_symbol :: string
  sn_market_scope :: string
  sn_market_profile :: market_profile
  sn_regime :: string
  sn_volatility :: "real option"
  sn_trend_strength :: "real option"

definition regime_value :: "regime \<Rightarrow> string" where
  "regime_value r = (case r of TRENDING_UP \<Rightarrow> ''TRENDING_UP'' | TRENDING_DOWN \<Rightarrow> ''TRENDING_DOWN''
     | RANGING \<Rightarrow> ''RANGING'')"

definition regime_conditions :: "string \<Rightarrow> string list" where
  "regime_conditions reg =
     (if reg \<in> set [''RANGING'', ''SIDEWAYS''] then [''range_bound'', ''low_conviction'']
      else if reg \<in> set [''BULLISH'', ''TRENDING_UP''] then [''bullish'', ''trending_up'', ''persistent_trend'']
      else if reg \<in> set [''BEARISH'', ''TRENDING_DOWN''] then [''strong_trend'', ''trend_breakdown'']
      else [])"

definition volatility_conditions :: "real option \<Rightarrow> string list" where
  "volatility_conditions v = (case v of None \<Rightarrow> []
     | Some x \<Rightarrow> if x \<le> 0.025 then [''volatility_compression'']
                else if x \<le> 0.045 then [''orderly_expansion''] else [''chaotic_volatility''])"

definition trend_conditions :: "real option \<Rightarrow> string list" where
  "trend_conditions t = (case t of None \<Rightarrow> []
     | Some x \<Rightarrow> if x \<ge> 0.12 then [''trend_resumption'']
                else if x \<le> 0.05 then [''choppy_reversal''] else [])"

definition current_market_conditions :: "snapshot \<Rightarrow> string list" where
  "current_market_conditions s =
     dedupe (regime_conditions (py_upper (sn_regime s)) @ volatility_conditions (sn_volatility s)
       @ trend_conditions (sn_trend_strength s))"

section \<open>Preferred and discouraged families\<close>

definition knowledge_preferences_for_market_profile :: "market_profile \<Rightarrow> string list \<times> string list" where
  "knowledge_preferences_for_market_profile p =
     knowledge_preferences_from_market_profile (mp_preferred_baseline_tags p) (mp_discouraged_baseline_tags p)"

definition ranging_update :: "string set \<Rightarrow> string set \<times> string set \<Rightarrow> string set \<times> string set" where
  "ranging_update conds pd =
     (let (p, d) = pd in
      if {''range_bound'', ''low_conviction'', ''choppy_reversal''} \<inter> conds \<noteq> {} then
        (p \<union> {''mean_reversion'', ''volatility_filter''}
           - {''breakout'', ''trend_following'', ''momentum_filter''},
         (d - {''mean_reversion''}) \<union> {''breakout''}
           \<union> (if ''choppy_reversal'' \<in> conds then {''trend_following'', ''momentum_filter''} else {}))
      else (p, d))"

definition compression_update :: "string set \<Rightarrow> string set \<times> string set \<Rightarrow> string set \<times> string set" where
  "compression_update conds pd =
     (if ''volatility_compression'' \<in> conds then (insert ''volatility_filter'' (fst pd), snd pd) else pd)"

definition trending_update :: "string set \<Rightarrow> string set \<times> string set \<Rightarrow> string set \<times> string set" where
  "trending_update conds pd =
     (if {''persistent_trend'', ''trend_resumption'', ''trending_up''} \<inter> conds \<noteq> {} then
        (fst pd \<union> {''trend_following'', ''momentum_filter''},
         snd pd - {''trend_following'', ''momentum_filter''})
      else pd)"

definition effective_knowledge_preferences :: "market_profile \<Rightarrow> string list \<Rightarrow> string list \<times> string list" where
  "effective_knowledge_preferences profile conditions =
     (let (preferred, discouraged) = knowledge_preferences_for_market_profile profile;
          conds = set (filter (\<lambda>c. py_strip c \<noteq> []) conditions);
          (p, d) = trending_update conds (compression_update conds
                     (ranging_update conds (set preferred, set discouraged)))
      in (sorted_list_of_set (p - d), sorted_list_of_set d))"

section \<open>The assessment of a blueprint\<close>

record blueprint =
  bp_title :: string
  bp_base_strategy :: string
  bp_thesis :: string
  bp_knowledge_families_used :: "string list"
  bp_baseline_delta_summary :: string
  bp_novelty_claim :: string
  bp_features_used :: "string list"
  bp_params :: params
  bp_source_kind :: string
  bp_provider_status :: string

datatype reason =
    Bottom_line_failed | Llm_mock_fallback | Below_keep_threshold | Below_promote_threshold
  | Delta_below_threshold | Cooldown_active | Macro_provider_degraded
  | Backtest_missing | Backtest_not_passed | Backtest_no_go | Backtest_review_required
  | Backtest_requires_revision | Backtest_unavailable
  | Knowledge_family_mismatch | Knowledge_failure_mode_risk | Knowledge_param_outlier
  | Knowledge_low_novelty | Knowledge_rule_stack_overfit | Knowledge_capacity_unclear

datatype fit = Aligned | Fragile | Neutral | Mismatch
datatype novelty = Distinct | Moderate_novelty | Low_novelty
datatype level = Low | Moderate | High
datatype clarity = Clear | Unclear | Not_applicable

record knowledge_assessment =
  ka_families :: "string list"
  ka_entries :: "strategy_knowledge list"
  ka_fit :: fit
  ka_risk_flags :: "string list"
  ka_failure_mode_hits :: "string list"
  ka_novelty :: novelty
  ka_blocked_reasons :: "reason list"
  ka_fit_notes :: "(string \<times> string list) list"
  ka_param_outliers :: "string list"
  ka_rule_stack_complexity :: level
  ka_capacity_clarity :: clarity
  ka_regime_dependency :: level
  ka_preferred :: "string list"
  ka_discouraged :: "string list"
  ka_conditions :: "string list"

definition nonblank :: "string list \<Rightarrow> string list" where
  "nonblank xs = filter (\<lambda>s. py_strip s \<noteq> []) xs"

definition knowledge_entries :: "string list \<Rightarrow> strategy_knowledge list" where
  "knowledge_entries families =
     concat (map (\<lambda>k. case get_strategy_knowledge k of Inr e \<Rightarrow> [e] | Inl _ \<Rightarrow> []) (dedupe families))"

definition numeric_param_outlier :: "(string \<times> real \<times> real) list \<Rightarrow> params \<Rightarrow> string list" where
  "numeric_param_outlier priors ps =
     map fst (filter (\<lambda>(key, lo, hi).
        case map_of ps key of None \<Rightarrow> False
        | Some v \<Rightarrow> (case pval_num v of None \<Rightarrow> v \<in> {PInfinity, PMinusInfinity}
            | Some x \<Rightarrow> x < lo \<or> x > hi)) priors)"

definition named_baseline :: "blueprint \<Rightarrow> bool" where
  "named_baseline b \<longleftrightarrow> bp_base_strategy b \<noteq> [] \<and> bp_base_strategy b \<noteq> ''novel_composite''"

definition blueprint_families :: "blueprint \<Rightarrow> string list" where
  "blueprint_families b =
     (let fs = nonblank (bp_knowledge_families_used b) in
      if fs = [] \<and> named_baseline b then
        (case registry_get create_default_registry (bp_base_strategy b) of
           Inr d \<Rightarrow> sd_knowledge_families d | Inl _ \<Rightarrow> [])
      else fs)"

definition blueprint_defaults :: "blueprint \<Rightarrow> params" where
  "blueprint_defaults b =
     (if named_baseline b then
        (case registry_get create_default_registry (bp_base_strategy b) of
           Inr d \<Rightarrow> sd_default_params d | Inl _ \<Rightarrow> [])
      else [])"

definition changed_keys :: "params \<Rightarrow> params \<Rightarrow> string list" where
  "changed_keys defaults ps =
     map fst (filter (\<lambda>(k, v). \<not> pval_eq (case map_of defaults k of Some d \<Rightarrow> d | None \<Rightarrow> PNone) v) ps)"

definition novelty_assessment :: "blueprint \<Rightarrow> string list \<Rightarrow> novelty" where
  "novelty_assessment b families =
     (let changed = length (changed_keys (blueprint_defaults b) (bp_params b)) in
      if bp_base_strategy b \<noteq> ''novel_composite'' then
        (if changed \<le> 1 \<and> length families \<le> 1 then Low_novelty
         else if changed \<le> 2 then Moderate_novelty else Distinct)
      else if families = [] then Low_novelty else Distinct)"

definition capacity_keywords :: "string list" where
  "capacity_keywords =
     [''liquidity'', ''turnover'', ''capacity'', ''position'', ''weight'', ''sector'',
      map char_of [230, 181, 129, 229, 138, 168, 230, 128, 167 :: nat],
      map char_of [230, 136, 144, 228, 186, 164, 233, 162, 157 :: nat],
      map char_of [230, 141, 162, 230, 137, 139 :: nat],
      map char_of [229, 174, 185, 233, 135, 143 :: nat],
      map char_of [230, 140, 129, 228, 187, 147 :: nat],
      map char_of [228, 187, 147, 228, 189, 141 :: nat],
      map char_of [230, 157, 131, 233, 135, 141 :: nat],
      map char_of [229, 136, 134, 230, 149, 163 :: nat],
      map char_of [232, 161, 140, 228, 184, 154 :: nat]]"

definition capacity_sensitive :: "string list \<Rightarrow> bool" where
  "capacity_sensitive families \<longleftrightarrow> list_ex (\<lambda>f. f \<in> set [''cross_sectional_ranking'',
     ''portfolio_construction_overlay'', ''fundamental_growth'']) families"

definition text_context :: "blueprint \<Rightarrow> string" where
  "text_context b = py_lower (bp_thesis b @ '' '' @ py_strip (bp_baseline_delta_summary b) @ '' ''
     @ py_strip (bp_novelty_claim b))"

definition capacity_clarity :: "blueprint \<Rightarrow> string list \<Rightarrow> clarity" where
  "capacity_clarity b families =
     (if \<not> capacity_sensitive families then Not_applicable
      else if list_ex (\<lambda>k. contains k (text_context b)) capacity_keywords then Clear else Unclear)"

definition rule_stack_complexity :: "blueprint \<Rightarrow> string list \<Rightarrow> level" where
  "rule_stack_complexity b families =
     (let layers = length families + (if bp_base_strategy b = ''novel_composite'' then 1 else 0);
          features = length (nonblank (bp_features_used b));
          ps = length (bp_params b)
      in if layers \<ge> 4 \<or> features \<ge> 5 \<or> ps \<ge> 6 then High
         else if layers \<ge> 3 \<or> features \<ge> 4 \<or> ps \<ge> 4 then Moderate else Low)"

definition regime_dependency :: "string list \<Rightarrow> level" where
  "regime_dependency families =
     (if ''regime_filter'' \<in> set families then High
      else if list_ex (\<lambda>f. f \<in> set [''trend_following'', ''momentum_filter'', ''volatility_filter'']) families
        then Moderate else Low)"

definition entry_failure_hits :: "string list \<Rightarrow> strategy_knowledge \<Rightarrow> string list" where
  "entry_failure_hits conds e =
     map (\<lambda>c. sk_family_key e @ '':'' @ c)
       (filter (\<lambda>c. c \<in> set (map py_lower (sk_discouraged_conditions e))) conds)"

definition entry_fit_notes :: "string list \<Rightarrow> strategy_knowledge \<Rightarrow> (string \<times> string list) list" where
  "entry_fit_notes conds e =
     (let matched = filter (\<lambda>c. c \<in> set (map py_lower (sk_preferred_conditions e))) conds
      in if matched = [] then [] else [(sk_family_key e, matched)])"

definition family_mismatch :: "string list \<Rightarrow> string list \<Rightarrow> string list \<Rightarrow> bool" where
  "family_mismatch families preferred discouraged \<longleftrightarrow>
     families \<noteq> [] \<and> list_all (\<lambda>f. f \<in> set discouraged) families
     \<and> \<not> list_ex (\<lambda>f. f \<in> set preferred) families"

definition fit_of :: "bool \<Rightarrow> bool \<Rightarrow> bool \<Rightarrow> bool \<Rightarrow> fit" where
  "fit_of mismatch fragile preferred some =
     (if mismatch then Mismatch else if fragile then Fragile
      else if preferred then Aligned else if some then Neutral else Aligned)"

definition assess_knowledge :: "blueprint \<Rightarrow> snapshot \<Rightarrow> knowledge_assessment" where
  "assess_knowledge b s =
     (let conds = current_market_conditions s;
          families = blueprint_families b;
          (preferred, discouraged) = effective_knowledge_preferences (sn_market_profile s) conds;
          entries = knowledge_entries families;
          hits = concat (map (entry_failure_hits conds) entries);
          outliers = concat (map (\<lambda>e. numeric_param_outlier (sk_parameter_priors e) (bp_params b)) entries);
          nov = novelty_assessment b families;
          mismatch = family_mismatch families preferred discouraged;
          clear = capacity_clarity b families;
          complexity = rule_stack_complexity b families
      in \<lparr>ka_families = families, ka_entries = entries,
          ka_fit = fit_of mismatch (hits \<noteq> [] \<or> outliers \<noteq> [] \<or> clear = Unclear)
                     (list_ex (\<lambda>f. f \<in> set preferred) families) (families \<noteq> []),
          ka_risk_flags = sort (remdups (concat (map sk_risk_flags entries))),
          ka_failure_mode_hits = hits,
          ka_novelty = nov,
          ka_blocked_reasons =
            (if mismatch then [Knowledge_family_mismatch] else [])
            @ (if hits \<noteq> [] then [Knowledge_failure_mode_risk] else [])
            @ (if outliers \<noteq> [] then [Knowledge_param_outlier] else [])
            @ (if nov = Low_novelty then [Knowledge_low_novelty] else [])
            @ (if complexity = High then [Knowledge_rule_stack_overfit] else [])
            @ (if capacity_sensitive families \<and> clear = Unclear then [Knowledge_capacity_unclear] else []),
          ka_fit_notes = concat (map (entry_fit_notes conds) entries),
          ka_param_outliers = sort (remdups outliers),
          ka_rule_stack_complexity = complexity,
          ka_capacity_clarity = clear,
          ka_regime_dependency = regime_dependency families,
          ka_preferred = preferred, ka_discouraged = discouraged, ka_conditions = conds\<rparr>)"

section \<open>Penalty, ranks and filters\<close>

definition knowledge_penalty_score :: "knowledge_assessment \<Rightarrow> real" where
  "knowledge_penalty_score a =
     (let blocked = set (ka_blocked_reasons a) in
      (if Knowledge_family_mismatch \<in> blocked then 8 else 0)
      + (if Knowledge_failure_mode_risk \<in> blocked then 5 else 0)
      + (if Knowledge_param_outlier \<in> blocked then 4 else 0)
      + (if Knowledge_low_novelty \<in> blocked then 2 else 0)
      + (if Knowledge_rule_stack_overfit \<in> blocked then 4 else 0)
      + (if Knowledge_capacity_unclear \<in> blocked then 3 else 0))"

text \<open>The rank table names three of the four assessments; a neutral blueprint takes the
  default rank 3, behind a mismatch.\<close>

definition fit_order :: "fit \<Rightarrow> int" where
  "fit_order f = (case f of Aligned \<Rightarrow> 0 | Fragile \<Rightarrow> 1 | Mismatch \<Rightarrow> 2 | Neutral \<Rightarrow> 3)"

definition hits_in :: "string list \<Rightarrow> string list \<Rightarrow> int" where
  "hits_in families wanted = int (length (filter (\<lambda>f. f \<in> set wanted) families))"

definition blueprint_market_fit_rank ::
  "blueprint \<Rightarrow> snapshot \<Rightarrow> string list \<Rightarrow> string list \<Rightarrow> int list" where
  "blueprint_market_fit_rank b s preferred discouraged =
     (let a = assess_knowledge b s; families = nonblank (ka_families a)
      in [fit_order (ka_fit a), hits_in families discouraged,
          int (length (ka_blocked_reasons a)), - hits_in families preferred])"

definition prioritize_blueprints_for_market ::
  "blueprint list \<Rightarrow> snapshot \<Rightarrow> string list \<Rightarrow> string list \<Rightarrow> blueprint list" where
  "prioritize_blueprints_for_market bs s preferred discouraged =
     (if length bs \<le> 1 then bs
      else sort_key (\<lambda>b. blueprint_market_fit_rank b s preferred discouraged) bs)"

record baseline =
  bl_name :: string
  bl_knowledge_families :: "string list"

definition baseline_strategy_priority :: "baseline \<Rightarrow> string list \<Rightarrow> string list \<Rightarrow> int list" where
  "baseline_strategy_priority b preferred discouraged =
     (let families = nonblank (bl_knowledge_families b)
      in [hits_in families discouraged, - hits_in families preferred])"

definition is_strong_ranging_context :: "string list \<Rightarrow> bool" where
  "is_strong_ranging_context conditions \<longleftrightarrow>
     {''range_bound'', ''low_conviction'', ''choppy_reversal''} \<subseteq> set (nonblank conditions)"

definition filter_baselines_for_market_context ::
  "baseline list \<Rightarrow> string list \<Rightarrow> string list \<Rightarrow> string list \<Rightarrow> baseline list" where
  "filter_baselines_for_market_context bls preferred discouraged conditions =
     (if \<not> is_strong_ranging_context conditions then bls
      else
        (let kept = filter (\<lambda>b. let fs = set (nonblank (bl_knowledge_families b)) in
               fs \<noteq> {} \<and> fs \<inter> set preferred \<noteq> {} \<and> fs \<inter> set discouraged = {}) bls
         in if kept = [] then bls else kept))"

section \<open>Properties of the preferences\<close>

lemma families_tagged_known: "set (families_tagged tags) \<subseteq> set (map fst FAMILY_TO_BASELINE_TAGS)"
  by (auto simp: families_tagged_def)

lemma finite_trending [simp]: "finite (fst pd) \<Longrightarrow> finite (fst (trending_update c pd))"
  "finite (snd pd) \<Longrightarrow> finite (snd (trending_update c pd))"
  by (auto simp: trending_update_def)

lemma finite_compression [simp]: "finite (fst pd) \<Longrightarrow> finite (fst (compression_update c pd))"
  "finite (snd pd) \<Longrightarrow> finite (snd (compression_update c pd))"
  by (auto simp: compression_update_def)

lemma finite_ranging [simp]: "finite (fst pd) \<Longrightarrow> finite (fst (ranging_update c pd))"
  "finite (snd pd) \<Longrightarrow> finite (snd (ranging_update c pd))"
  by (auto simp: ranging_update_def split_def)

definition preference_sets :: "market_profile \<Rightarrow> string list \<Rightarrow> string set \<times> string set" where
  "preference_sets profile conditions =
     (let conds = set (nonblank conditions);
          pd = knowledge_preferences_for_market_profile profile
      in trending_update conds (compression_update conds
           (ranging_update conds (set (fst pd), set (snd pd)))))"

lemma effective_alt:
  "effective_knowledge_preferences profile conditions =
     (sorted_list_of_set (fst (preference_sets profile conditions) - snd (preference_sets profile conditions)),
      sorted_list_of_set (snd (preference_sets profile conditions)))"
  by (simp add: effective_knowledge_preferences_def preference_sets_def nonblank_def Let_def split_def)

lemma finite_preference_sets [simp]:
  "finite (fst (preference_sets profile conditions))" "finite (snd (preference_sets profile conditions))"
  by (simp_all add: preference_sets_def Let_def)

lemma set_effective:
  "set (fst (effective_knowledge_preferences profile conditions)) =
     fst (preference_sets profile conditions) - snd (preference_sets profile conditions)"
  "set (snd (effective_knowledge_preferences profile conditions)) = snd (preference_sets profile conditions)"
  by (simp_all add: effective_alt)

lemma effective_disjoint:
  "set (fst (effective_knowledge_preferences p c)) \<inter> set (snd (effective_knowledge_preferences p c)) = {}"
  by (auto simp: set_effective)

lemma names_distinct:
  "''breakout'' \<notin> {''trend_following'', ''momentum_filter''}"
  "''mean_reversion'' \<notin> {''trend_following'', ''momentum_filter'', ''breakout'', ''volatility_filter''}"
  "''volatility_filter'' \<notin> {''breakout'', ''trend_following'', ''momentum_filter''}"
  by code_simp+

definition ranging :: "string list \<Rightarrow> bool" where
  "ranging conds \<longleftrightarrow> list_ex (\<lambda>c. c \<in> set [''range_bound'', ''low_conviction'', ''choppy_reversal'']) (nonblank conds)"

definition trending :: "string list \<Rightarrow> bool" where
  "trending conds \<longleftrightarrow> list_ex (\<lambda>c. c \<in> set [''persistent_trend'', ''trend_resumption'', ''trending_up'']) (nonblank conds)"

lemma ranging_iff: "{''range_bound'', ''low_conviction'', ''choppy_reversal''} \<inter> set (nonblank conds) \<noteq> {} \<longleftrightarrow> ranging conds"
  unfolding ranging_def list_ex_iff by force

lemma trending_iff: "{''persistent_trend'', ''trend_resumption'', ''trending_up''} \<inter> set (nonblank conds) \<noteq> {} \<longleftrightarrow> trending conds"
  unfolding trending_def list_ex_iff by force

text \<open>The families a market prefers and those it discourages are always disjoint, sorted
  lists without repetition.  As soon as one condition speaks of a range, mean reversion is
  preferred and breakout is discouraged, whatever the tags of the market's profile say; and as
  soon as one speaks of a trend, trend following is preferred, even in a range.\<close>

theorem effective_preferences_contract:
  "set (fst (effective_knowledge_preferences p c)) \<inter> set (snd (effective_knowledge_preferences p c)) = {}
   \<and> sorted (fst (effective_knowledge_preferences p c)) \<and> distinct (fst (effective_knowledge_preferences p c))
   \<and> sorted (snd (effective_knowledge_preferences p c)) \<and> distinct (snd (effective_knowledge_preferences p c))
   \<and> (if ranging c
       then ''mean_reversion'' \<in> set (fst (effective_knowledge_preferences p c))
          \<and> ''breakout'' \<in> set (snd (effective_knowledge_preferences p c)) else True)
   \<and> (if trending c
       then ''trend_following'' \<in> set (fst (effective_knowledge_preferences p c))
          \<and> ''momentum_filter'' \<in> set (fst (effective_knowledge_preferences p c)) else True)"
proof -
  have r: "ranging c \<Longrightarrow> ''mean_reversion'' \<in> fst (preference_sets p c)
      \<and> ''mean_reversion'' \<notin> snd (preference_sets p c) \<and> ''breakout'' \<in> snd (preference_sets p c)"
    unfolding preference_sets_def Let_def
    using names_distinct ranging_iff [of c]
    by (simp add: ranging_update_def compression_update_def trending_update_def)
  have t: "trending c \<Longrightarrow> ''trend_following'' \<in> fst (preference_sets p c)
      \<and> ''trend_following'' \<notin> snd (preference_sets p c)
      \<and> ''momentum_filter'' \<in> fst (preference_sets p c) \<and> ''momentum_filter'' \<notin> snd (preference_sets p c)"
    unfolding preference_sets_def Let_def using trending_iff [of c]
    by (simp add: trending_update_def)
  show ?thesis
    using effective_disjoint [of p c] r t by (simp add: set_effective) (simp add: effective_alt)
qed

section \<open>Properties of the assessment\<close>

lemma assess_simps:
  fixes b s
  defines "a \<equiv> assess_knowledge b s"
  shows "ka_families a = blueprint_families b"
    "ka_conditions a = current_market_conditions s"
    "ka_preferred a = fst (effective_knowledge_preferences (sn_market_profile s) (current_market_conditions s))"
    "ka_discouraged a = snd (effective_knowledge_preferences (sn_market_profile s) (current_market_conditions s))"
    "ka_failure_mode_hits a = concat (map (entry_failure_hits (current_market_conditions s))
        (knowledge_entries (blueprint_families b)))"
    "ka_novelty a = novelty_assessment b (blueprint_families b)"
    "ka_rule_stack_complexity a = rule_stack_complexity b (blueprint_families b)"
    "ka_capacity_clarity a = capacity_clarity b (blueprint_families b)"
  by (simp_all add: a_def assess_knowledge_def Let_def split_def)

lemma capacity_unclear_sensitive: "capacity_clarity b fs = Unclear \<Longrightarrow> capacity_sensitive fs"
  by (simp add: capacity_clarity_def split: if_splits)

lemma assess_blocked:
  fixes b s
  defines "a \<equiv> assess_knowledge b s"
  shows "Knowledge_family_mismatch \<in> set (ka_blocked_reasons a) \<longleftrightarrow>
      family_mismatch (ka_families a) (ka_preferred a) (ka_discouraged a)"
    "Knowledge_failure_mode_risk \<in> set (ka_blocked_reasons a) \<longleftrightarrow> ka_failure_mode_hits a \<noteq> []"
    "Knowledge_param_outlier \<in> set (ka_blocked_reasons a) \<longleftrightarrow> ka_param_outliers a \<noteq> []"
    "Knowledge_low_novelty \<in> set (ka_blocked_reasons a) \<longleftrightarrow> ka_novelty a = Low_novelty"
    "Knowledge_rule_stack_overfit \<in> set (ka_blocked_reasons a) \<longleftrightarrow> ka_rule_stack_complexity a = High"
    "Knowledge_capacity_unclear \<in> set (ka_blocked_reasons a) \<longleftrightarrow> ka_capacity_clarity a = Unclear"
  by (auto simp: a_def assess_knowledge_def Let_def split_def dest: capacity_unclear_sensitive)

lemma assess_fit:
  fixes b s
  defines "a \<equiv> assess_knowledge b s"
  shows "ka_fit a = fit_of (family_mismatch (ka_families a) (ka_preferred a) (ka_discouraged a))
     (ka_failure_mode_hits a \<noteq> [] \<or> ka_param_outliers a \<noteq> [] \<or> ka_capacity_clarity a = Unclear)
     (list_ex (\<lambda>f. f \<in> set (ka_preferred a)) (ka_families a)) (ka_families a \<noteq> [])"
  by (simp add: a_def assess_knowledge_def Let_def split_def del: concat_eq_Nil_conv)

lemma mismatch_all_discouraged:
  "family_mismatch (ka_families (assess_knowledge b s)) (ka_preferred (assess_knowledge b s))
     (ka_discouraged (assess_knowledge b s)) \<longleftrightarrow>
   ka_families (assess_knowledge b s) \<noteq> []
   \<and> set (ka_families (assess_knowledge b s)) \<subseteq> set (ka_discouraged (assess_knowledge b s))"
  using effective_disjoint [of "sn_market_profile s" "current_market_conditions s"]
  unfolding family_mismatch_def assess_simps list_all_iff list_ex_iff by blast

lemma blocked_reasons_known:
  "set (ka_blocked_reasons (assess_knowledge b s)) \<subseteq>
     {Knowledge_family_mismatch, Knowledge_failure_mode_risk, Knowledge_param_outlier,
      Knowledge_low_novelty, Knowledge_rule_stack_overfit, Knowledge_capacity_unclear}"
  by (auto simp: assess_knowledge_def Let_def split_def)

lemma penalty_terms_zero:
  "(if p1 then 8 else 0) + (if p2 then 5 else 0) + (if p3 then 4 else 0) + (if p4 then 2 else 0)
     + (if p5 then 4 else 0) + (if p6 then 3 else 0) = (0 :: real)
   \<longleftrightarrow> \<not> p1 \<and> \<not> p2 \<and> \<not> p3 \<and> \<not> p4 \<and> \<not> p5 \<and> \<not> p6"
  by (cases p1; cases p2; cases p3; cases p4; cases p5; cases p6; simp)

text \<open>C37. The assessment and its reasons say the same.  A blueprint is a mismatch exactly when
  it names families and the market discourages every one of them, and fragile exactly when it
  is no mismatch and a failure mode, a parameter outlier or an unclear capacity blocks it; the
  penalty lies between 0 and 26 and is 0 exactly when nothing blocks the blueprint.\<close>

theorem knowledge_assessment_contract:
  "(ka_fit (assess_knowledge b s) = Mismatch \<longleftrightarrow>
      ka_families (assess_knowledge b s) \<noteq> []
      \<and> set (ka_families (assess_knowledge b s)) \<subseteq> set (ka_discouraged (assess_knowledge b s)))
   \<and> (ka_fit (assess_knowledge b s) = Mismatch \<longleftrightarrow>
      Knowledge_family_mismatch \<in> set (ka_blocked_reasons (assess_knowledge b s)))
   \<and> (ka_fit (assess_knowledge b s) = Fragile \<longleftrightarrow>
      ka_fit (assess_knowledge b s) \<noteq> Mismatch
      \<and> {Knowledge_failure_mode_risk, Knowledge_param_outlier, Knowledge_capacity_unclear}
          \<inter> set (ka_blocked_reasons (assess_knowledge b s)) \<noteq> {})
   \<and> knowledge_penalty_score (assess_knowledge b s) \<in> {0..26}
   \<and> (knowledge_penalty_score (assess_knowledge b s) = 0 \<longleftrightarrow> ka_blocked_reasons (assess_knowledge b s) = [])"
proof -
  have fit: "fit_of m f p q = Mismatch \<longleftrightarrow> m" "fit_of m f p q = Fragile \<longleftrightarrow> f \<and> \<not> m" for m f p q
    by (auto simp: fit_of_def)
  let ?K = "{Knowledge_family_mismatch, Knowledge_failure_mode_risk, Knowledge_param_outlier,
      Knowledge_low_novelty, Knowledge_rule_stack_overfit, Knowledge_capacity_unclear}"
  have "knowledge_penalty_score (assess_knowledge b s) = 0 \<longleftrightarrow>
      ?K \<inter> set (ka_blocked_reasons (assess_knowledge b s)) = {}"
    unfolding knowledge_penalty_score_def Let_def penalty_terms_zero insert_disjoint by simp
  also have "\<dots> \<longleftrightarrow> set (ka_blocked_reasons (assess_knowledge b s)) = {}"
    using Int_absorb1 [OF blocked_reasons_known [of b s]] by simp
  finally have pen: "knowledge_penalty_score (assess_knowledge b s) = 0 \<longleftrightarrow> ka_blocked_reasons (assess_knowledge b s) = []"
    by simp
  have range: "knowledge_penalty_score (assess_knowledge b s) \<in> {0..26}"
    by (simp add: knowledge_penalty_score_def Let_def)
  show ?thesis
    unfolding assess_fit fit mismatch_all_discouraged assess_blocked
    using pen range by (auto simp: assess_blocked)
qed

text \<open>The rank table forgets the neutral assessment: a blueprint the market has nothing
  against is sorted behind one whose every family the market discourages.\<close>

theorem neutral_ranks_behind_mismatch:
  assumes "ka_fit (assess_knowledge b s) = Neutral" "ka_fit (assess_knowledge b' s) = Mismatch"
  shows "prioritize_blueprints_for_market [b, b'] s p d = [b', b]"
  using assms
  by (simp add: prioritize_blueprints_for_market_def blueprint_market_fit_rank_def Let_def fit_order_def)

definition sample_snapshot :: snapshot where
  "sample_snapshot = \<lparr>sn_symbol = ''2800.HK'', sn_market_scope = ''HK'', sn_market_profile = hk_profile,
     sn_regime = ''BULLISH'', sn_volatility = Some 0.03, sn_trend_strength = Some 0.08\<rparr>"

definition sample_blueprint :: "string \<Rightarrow> blueprint" where
  "sample_blueprint family = \<lparr>bp_title = ''sample'', bp_base_strategy = ''novel_composite'',
     bp_thesis = ''rank by liquidity'', bp_knowledge_families_used = [family],
     bp_baseline_delta_summary = [], bp_novelty_claim = [], bp_features_used = [''SMA''],
     bp_params = [], bp_source_kind = ''minimax'', bp_provider_status = ''ready''\<rparr>"

theorem neutral_ranks_behind_mismatch_witness:
  "prioritize_blueprints_for_market
     [sample_blueprint ''cross_sectional_ranking'', sample_blueprint ''mean_reversion''] sample_snapshot [] []
   = [sample_blueprint ''mean_reversion'', sample_blueprint ''cross_sectional_ranking'']"
proof (rule neutral_ranks_behind_mismatch)
  show "ka_fit (assess_knowledge (sample_blueprint ''cross_sectional_ranking'') sample_snapshot) = Neutral"
    by code_simp
  show "ka_fit (assess_knowledge (sample_blueprint ''mean_reversion'') sample_snapshot) = Mismatch"
    by code_simp
qed

text \<open>The filter for ranging markets never leaves the agent without a baseline, invents
  none and keeps their order; and unless it gives up and returns everything, what it keeps in a
  strongly ranging market has a preferred family and no discouraged one.\<close>

theorem filter_baselines_contract:
  "(filter_baselines_for_market_context bls p d c = [] \<longleftrightarrow> bls = [])
   \<and> (filter_baselines_for_market_context bls p d c = bls
      \<or> is_strong_ranging_context c
        \<and> list_all (\<lambda>b. set (nonblank (bl_knowledge_families b)) \<inter> set p \<noteq> {}
             \<and> set (nonblank (bl_knowledge_families b)) \<inter> set d = {})
            (filter_baselines_for_market_context bls p d c)
        \<and> filter_baselines_for_market_context bls p d c
            = filter (\<lambda>b. b \<in> set (filter_baselines_for_market_context bls p d c)) bls)"
  unfolding filter_baselines_for_market_context_def Let_def
  by (auto simp: list_all_iff intro!: filter_cong)

end
