(* ===== verification/Governance.thy ===== *)
theory Governance imports Settings Review_Gate Knowledge_Gate begin

text \<open>
  The admission of proposals of \<open>api/services.py\<close>: the backtest gate of a proposal, the
  cooldown, the estimate of the next step and \<open>_governance_action\<close>, which decides whether a
  proposal is promoted to paper trading, kept as a candidate or rejected and writes the
  governance report.  A point in time is a number of seconds since 0001-01-01, a Monday, in
  the time zone of the service; \<open>isoformat\<close> and \<open>fromisoformat\<close> are inverse on it, so the
  report carries the time itself.  The reasons are the constructors of \<open>reason\<close>, in the
  order in which the code collects them.
\<close>

section \<open>Time\<close>

type_synonym datetime = int

definition dt_date :: "datetime \<Rightarrow> int" where
  "dt_date t = t div 86400"

definition dt_weekday :: "datetime \<Rightarrow> int" where
  "dt_weekday t = dt_date t mod 7"

definition dt_minutes :: "datetime \<Rightarrow> int" where
  "dt_minutes t = (t mod 86400) div 60"

definition plus_days :: "datetime \<Rightarrow> int \<Rightarrow> datetime" where
  "plus_days t n = t + n * 86400"

definition plus_minutes :: "datetime \<Rightarrow> int \<Rightarrow> datetime" where
  "plus_minutes t n = t + n * 60"

lemma dt_date_mono: "s \<le> t \<Longrightarrow> dt_date s \<le> dt_date t"
  by (simp add: dt_date_def zdiv_mono1)

lemma dt_date_plus_days [simp]: "dt_date (plus_days t n) = dt_date t + n"
  by (simp add: dt_date_def plus_days_def)

section \<open>The backtest gate\<close>

text \<open>The outcome of the backtest is a parameter: a result, or the exception that the code
  catches.  The gate keeps the review, or \<open>None\<close> for the review made up on an exception,
  whose verdict is REVISE with no failed gate.\<close>

record backtest_gate =
  bg_available :: bool
  bg_eligible :: bool
  bg_blocked_reasons :: "reason list"
  bg_verdict :: verdict
  bg_requires_human :: bool
  bg_hard_gates_failed :: "hard_fail list"
  bg_metrics :: "backtest_result option"

definition proposal_backtest_gate ::
  "hard_gates_settings \<Rightarrow> yellow_flags_settings \<Rightarrow> backtest_result res \<Rightarrow> backtest_gate" where
  "proposal_backtest_gate hg yf outcome =
     (case outcome of
        Inr r \<Rightarrow>
          (let review = risk_gate_review hg yf r in
           \<lparr>bg_available = True,
            bg_eligible = (ro_verdict review = GO \<and> \<not> ro_requires_human_approve review),
            bg_blocked_reasons =
              (if ro_verdict review = NO_GO then [Backtest_no_go]
               else if ro_requires_human_approve review then [Backtest_review_required]
               else if ro_verdict review = REVISE then [Backtest_requires_revision] else []),
            bg_verdict = ro_verdict review,
            bg_requires_human = ro_requires_human_approve review,
            bg_hard_gates_failed = ro_hard_gates_failed review,
            bg_metrics = Some r\<rparr>)
      | Inl e \<Rightarrow>
           \<lparr>bg_available = False, bg_eligible = False, bg_blocked_reasons = [Backtest_unavailable],
            bg_verdict = REVISE, bg_requires_human = False, bg_hard_gates_failed = [],
            bg_metrics = None\<rparr>)"

definition backtest_gate_bottom_line :: "backtest_gate \<Rightarrow> bool" where
  "backtest_gate_bottom_line g =
     (if \<not> bg_available g then False
      else if bg_eligible g then True
      else bg_verdict g \<in> {GO, REVISE} \<and> bg_hard_gates_failed g = [])"

definition backtest_gate_candidate_ok :: "backtest_gate option \<Rightarrow> bool" where
  "backtest_gate_candidate_ok g =
     (case g of None \<Rightarrow> False | Some b \<Rightarrow> bg_available b \<and> bg_hard_gates_failed b = [])"

section \<open>Scores, cooldown and estimates\<close>

text \<open>The features and the event sentiment enter the deterministic score of the blueprint at
  position \<open>index\<close> of its batch.\<close>

definition deterministic_score :: "nat \<Rightarrow> string \<Rightarrow> real \<Rightarrow> nat \<Rightarrow> real" where
  "deterministic_score index reg sentiment features =
     py_round (max 55 (min 92
       (78 - of_nat index * 6 + sentiment * 8 + of_nat (min features 4) * 0.8
        + (if py_upper reg \<in> set [''BULLISH'', ''TRENDING_UP''] then 1.5 else 0)))) 1"

definition cooldown_remaining_days :: "datetime option \<Rightarrow> datetime \<Rightarrow> int \<Rightarrow> int" where
  "cooldown_remaining_days promoted_at current days =
     (case promoted_at of None \<Rightarrow> 0
      | Some p \<Rightarrow> max 0 (days - max 0 (dt_date current - dt_date p)))"

datatype phase =
    Promotion_ready | Candidate_watch | Candidate_cooldown | Paused_pending_review
  | Rolled_back | Rejected_phase

datatype eta_kind = Next_sync_window | Cooldown_window | Review_pending | Quality_revalidation

definition lifecycle_eta :: "int \<Rightarrow> phase \<Rightarrow> int \<Rightarrow> datetime \<Rightarrow> eta_kind \<times> datetime option" where
  "lifecycle_eta interval_minutes ph cooldown current =
     (let next_sync = plus_minutes current (max 1 interval_minutes) in
      case ph of
        Promotion_ready \<Rightarrow> (Next_sync_window, Some next_sync)
      | Candidate_watch \<Rightarrow> (Next_sync_window, Some next_sync)
      | Candidate_cooldown \<Rightarrow>
          (if cooldown > 0 then (Cooldown_window, Some (plus_days current cooldown))
           else (Next_sync_window, Some next_sync))
      | Paused_pending_review \<Rightarrow> (Review_pending, None)
      | Rolled_back \<Rightarrow> (Quality_revalidation, None)
      | Rejected_phase \<Rightarrow> (Quality_revalidation, None))"

section \<open>The decision\<close>

datatype proposal_status = CANDIDATE | ACTIVE | REJECTED | ARCHIVED
datatype action = REJECT | KEEP_CANDIDATE | PROMOTE_TO_PAPER | PAUSE_ACTIVE | ROLLBACK_TO_PREVIOUS_STABLE

record active_context =
  ac_proposal_id :: string
  ac_title :: string
  ac_status :: proposal_status
  ac_final_score :: real
  ac_source_kind :: string
  ac_promoted_at :: "datetime option"

record macro_status =
  ms_provider :: string
  ms_status :: string
  ms_degraded :: bool

datatype next_step = Promote_now | Wait_for_cooldown | Monitor_candidate | Improve_quality
  | Resume_after_revalidation | Continue_with_previous_stable

datatype resume_condition = Cooldown_elapsed | Score_delta_revalidated | Score_above_keep_threshold
  | Macro_pipeline_ready | Drawdown_back_below_pause_threshold | Fresh_candidate_review_completed
  | New_candidate_outperforms_active

record lifecycle =
  lc_phase :: phase
  lc_next_step :: next_step
  lc_rechallenge_allowed :: bool
  lc_eta_kind :: eta_kind
  lc_next_eligible_at :: "datetime option"
  lc_resume_conditions :: "resume_condition list"

record governance_report =
  gr_market_scope :: string
  gr_thresholds :: governance_profile
  gr_promotion_eligible :: bool
  gr_promotion_blocked :: "reason list"
  gr_backtest_required :: bool
  gr_candidate_eligible :: bool
  gr_candidate_blocked :: "reason list"
  gr_backtest_candidate_ok :: bool
  gr_bottom_line_passed :: bool
  gr_active_title :: "string option"
  gr_active_score :: "real option"
  gr_score_delta :: "real option"
  gr_can_challenge_active :: bool
  gr_cooldown_remaining_days :: int
  gr_replacing_mock_active :: bool
  gr_macro :: macro_status
  gr_knowledge :: "knowledge_assessment option"
  gr_market_profile :: market_profile
  gr_lifecycle :: lifecycle
  gr_selected_action :: action

record governance_input =
  gi_final_score :: real
  gi_bottom_line_passed :: bool
  gi_active_context :: "active_context option"
  gi_macro_status :: macro_status
  gi_market_scope :: string
  gi_current_time :: datetime
  gi_proposal_source_kind :: string
  gi_backtest_gate :: "backtest_gate option"
  gi_knowledge :: "knowledge_assessment option"

definition score_delta :: "governance_input \<Rightarrow> real option" where
  "score_delta i = map_option (\<lambda>a. py_round (gi_final_score i - ac_final_score a) 1) (gi_active_context i)"

definition gi_cooldown :: "governance_input \<Rightarrow> int" where
  "gi_cooldown i = cooldown_remaining_days
     (case gi_active_context i of None \<Rightarrow> None | Some a \<Rightarrow> ac_promoted_at a)
     (gi_current_time i) (gp_cooldown_days (market_governance_profile (gi_market_scope i)))"

definition replacing_mock_active :: "governance_input \<Rightarrow> bool" where
  "replacing_mock_active i =
     (case gi_active_context i of None \<Rightarrow> False
      | Some a \<Rightarrow> ac_source_kind a = ''mock'' \<and> gi_proposal_source_kind i \<noteq> ''mock''
          \<and> gi_final_score i \<ge> ac_final_score a
          \<and> gi_final_score i \<ge> gp_promote_threshold (market_governance_profile (gi_market_scope i)))"

definition can_challenge_active :: "governance_input \<Rightarrow> bool" where
  "can_challenge_active i =
     (replacing_mock_active i \<or>
      (case score_delta i of None \<Rightarrow> True
       | Some d \<Rightarrow> d \<ge> gp_challenger_min_delta (market_governance_profile (gi_market_scope i))
           \<and> gi_cooldown i = 0))"

definition gi_knowledge_blocked :: "governance_input \<Rightarrow> reason list" where
  "gi_knowledge_blocked i = (case gi_knowledge i of None \<Rightarrow> [] | Some k \<Rightarrow> ka_blocked_reasons k)"

definition candidate_blocked_reasons :: "governance_input \<Rightarrow> reason list" where
  "candidate_blocked_reasons i =
     append_new (gi_knowledge_blocked i)
       ((if \<not> gi_bottom_line_passed i \<and> \<not> backtest_gate_candidate_ok (gi_backtest_gate i)
           then [Bottom_line_failed] else [])
        @ (if gi_proposal_source_kind i = ''mock'' then [Llm_mock_fallback] else [])
        @ (if gi_final_score i < gp_keep_threshold (market_governance_profile (gi_market_scope i))
           then [Below_keep_threshold] else []))"

definition backtest_blocked_reasons :: "governance_settings \<Rightarrow> governance_input \<Rightarrow> reason list" where
  "backtest_blocked_reasons gs i =
     (if require_backtest_before_paper gs then
        (case gi_backtest_gate i of
           None \<Rightarrow> [Backtest_missing]
         | Some g \<Rightarrow> if bg_eligible g then []
             else if bg_blocked_reasons g = [] then [Backtest_not_passed] else bg_blocked_reasons g)
      else [])"

definition promotion_blocked_reasons :: "governance_settings \<Rightarrow> governance_input \<Rightarrow> reason list" where
  "promotion_blocked_reasons gs i =
     append_new (gi_knowledge_blocked i)
       ((if gi_proposal_source_kind i = ''mock'' then [Llm_mock_fallback] else [])
        @ (if gi_final_score i < gp_promote_threshold (market_governance_profile (gi_market_scope i))
           then [Below_promote_threshold] else [])
        @ (case score_delta i of None \<Rightarrow> []
           | Some d \<Rightarrow> if d < gp_challenger_min_delta (market_governance_profile (gi_market_scope i))
               \<and> \<not> replacing_mock_active i then [Delta_below_threshold] else [])
        @ (if gi_cooldown i > 0 \<and> \<not> replacing_mock_active i then [Cooldown_active] else [])
        @ (if block_promotion_on_macro_degrade gs \<and> ms_degraded (gi_macro_status i)
           then [Macro_provider_degraded] else [])
        @ backtest_blocked_reasons gs i)"

definition promote_allowed :: "governance_settings \<Rightarrow> governance_input \<Rightarrow> bool" where
  "promote_allowed gs i \<longleftrightarrow>
     gi_bottom_line_passed i
     \<and> gi_final_score i \<ge> gp_promote_threshold (market_governance_profile (gi_market_scope i))
     \<and> can_challenge_active i
     \<and> (\<not> require_backtest_before_paper gs
        \<or> (case gi_backtest_gate i of None \<Rightarrow> False | Some g \<Rightarrow> bg_eligible g))
     \<and> \<not> (block_promotion_on_macro_degrade gs \<and> ms_degraded (gi_macro_status i))
     \<and> \<not> list_ex (\<lambda>r. r \<in> {Knowledge_family_mismatch, Knowledge_failure_mode_risk,
            Knowledge_param_outlier, Knowledge_low_novelty, Knowledge_rule_stack_overfit,
            Knowledge_capacity_unclear}) (promotion_blocked_reasons gs i)"

definition candidate_allowed :: "governance_input \<Rightarrow> bool" where
  "candidate_allowed i \<longleftrightarrow>
     (gi_bottom_line_passed i \<or> backtest_gate_candidate_ok (gi_backtest_gate i))
     \<and> gi_final_score i \<ge> gp_keep_threshold (market_governance_profile (gi_market_scope i))
     \<and> gi_proposal_source_kind i \<noteq> ''mock''
     \<and> \<not> list_ex (\<lambda>r. r \<in> {Knowledge_family_mismatch, Knowledge_failure_mode_risk,
            Knowledge_param_outlier, Knowledge_rule_stack_overfit}) (candidate_blocked_reasons i)"

definition decide :: "governance_settings \<Rightarrow> governance_input \<Rightarrow> proposal_status \<times> action" where
  "decide gs i =
     (if promote_allowed gs i then (ACTIVE, PROMOTE_TO_PAPER)
      else if candidate_allowed i then (CANDIDATE, KEEP_CANDIDATE)
      else (REJECTED, REJECT))"

definition decision_lifecycle :: "int \<Rightarrow> governance_input \<Rightarrow> action \<Rightarrow> lifecycle" where
  "decision_lifecycle interval i act =
     (let cooldown = gi_cooldown i;
          (ph, step) =
            (case act of
               KEEP_CANDIDATE \<Rightarrow> if cooldown > 0 then (Candidate_cooldown, Wait_for_cooldown)
                                else (Candidate_watch, Monitor_candidate)
             | REJECT \<Rightarrow> (Rejected_phase, Improve_quality)
             | _ \<Rightarrow> (Promotion_ready, Promote_now));
          (kind, next_at) = lifecycle_eta interval ph cooldown (gi_current_time i)
      in \<lparr>lc_phase = ph, lc_next_step = step, lc_rechallenge_allowed = can_challenge_active i,
          lc_eta_kind = kind, lc_next_eligible_at = next_at,
          lc_resume_conditions = (if cooldown > 0 then [Cooldown_elapsed, Score_delta_revalidated]
             else [Score_above_keep_threshold, Macro_pipeline_ready])\<rparr>)"

definition governance_action ::
  "governance_settings \<Rightarrow> int \<Rightarrow> governance_input \<Rightarrow> proposal_status \<times> action \<times> governance_report" where
  "governance_action gs interval i =
     (let (status, act) = decide gs i in
      (status, act,
       \<lparr>gr_market_scope = gi_market_scope i,
        gr_thresholds = market_governance_profile (gi_market_scope i),
        gr_promotion_eligible = (act = PROMOTE_TO_PAPER),
        gr_promotion_blocked = dedupe (promotion_blocked_reasons gs i),
        gr_backtest_required = require_backtest_before_paper gs,
        gr_candidate_eligible = (act \<in> {KEEP_CANDIDATE, PROMOTE_TO_PAPER}),
        gr_candidate_blocked = dedupe (candidate_blocked_reasons i),
        gr_backtest_candidate_ok = backtest_gate_candidate_ok (gi_backtest_gate i),
        gr_bottom_line_passed = gi_bottom_line_passed i,
        gr_active_title = map_option ac_title (gi_active_context i),
        gr_active_score = map_option ac_final_score (gi_active_context i),
        gr_score_delta = score_delta i,
        gr_can_challenge_active = can_challenge_active i,
        gr_cooldown_remaining_days = gi_cooldown i,
        gr_replacing_mock_active = replacing_mock_active i,
        gr_macro = gi_macro_status i,
        gr_knowledge = gi_knowledge i,
        gr_market_profile = get_market_profile (gi_market_scope i),
        gr_lifecycle = decision_lifecycle interval i act,
        gr_selected_action = act\<rparr>))"

section \<open>The backtest gate is consistent\<close>

text \<open>The three readings of a backtest gate agree: a proposal is eligible for paper trading
  exactly when nothing is listed against it, which needs a GO without warnings; and the
  bottom line and the softer candidate test are the same test, that the backtest ran and failed
  no hard gate.\<close>

theorem backtest_gate_contract:
  "(bg_eligible (proposal_backtest_gate hg yf oc) \<longleftrightarrow>
      bg_blocked_reasons (proposal_backtest_gate hg yf oc) = [])
   \<and> (bg_eligible (proposal_backtest_gate hg yf oc) \<longleftrightarrow>
      (\<exists>r. oc = Inr r \<and> hard_fails hg r = [] \<and> yellow_flags yf r = [] \<and> utility_score r \<ge> 4))
   \<and> (backtest_gate_bottom_line (proposal_backtest_gate hg yf oc) \<longleftrightarrow>
      (\<exists>r. oc = Inr r \<and> hard_fails hg r = []))
   \<and> (backtest_gate_candidate_ok (Some (proposal_backtest_gate hg yf oc)) \<longleftrightarrow>
      backtest_gate_bottom_line (proposal_backtest_gate hg yf oc))"
  by (cases oc) (auto simp: proposal_backtest_gate_def backtest_gate_bottom_line_def
      backtest_gate_candidate_ok_def risk_gate_review_def Let_def)

lemma gate_blocked_known:
  "set (bg_blocked_reasons (proposal_backtest_gate hg yf oc)) \<subseteq>
     {Backtest_no_go, Backtest_review_required, Backtest_requires_revision, Backtest_unavailable}"
  by (cases oc) (auto simp: proposal_backtest_gate_def Let_def)

section \<open>The reasons explain the decision\<close>

abbreviation knowledge_reasons :: "reason set" where
  "knowledge_reasons \<equiv> {Knowledge_family_mismatch, Knowledge_failure_mode_risk,
     Knowledge_param_outlier, Knowledge_low_novelty, Knowledge_rule_stack_overfit,
     Knowledge_capacity_unclear}"

abbreviation gate_reasons :: "reason set" where
  "gate_reasons \<equiv> {Backtest_no_go, Backtest_review_required, Backtest_requires_revision,
     Backtest_unavailable}"

text \<open>The input of a decision is well formed when its gate and its assessment were produced by
  the components above.\<close>

definition gi_wf :: "governance_input \<Rightarrow> bool" where
  "gi_wf i \<longleftrightarrow> set (gi_knowledge_blocked i) \<subseteq> knowledge_reasons
     \<and> (case gi_backtest_gate i of None \<Rightarrow> True
        | Some g \<Rightarrow> set (bg_blocked_reasons g) \<subseteq> gate_reasons)"

lemma gi_wf_produced:
  "gi_wf (i\<lparr>gi_knowledge := map_option (\<lambda>(b, s). assess_knowledge b s) kb,
     gi_backtest_gate := map_option (proposal_backtest_gate hg yf) oc\<rparr>)"
  using blocked_reasons_known gate_blocked_known
  by (auto simp: gi_wf_def gi_knowledge_blocked_def split: option.split)

lemma cooldown_nonneg: "0 \<le> cooldown_remaining_days p t n"
  by (simp add: cooldown_remaining_days_def split: option.split)

lemma backtest_blocked_no_mock:
  assumes "gi_wf i"
  shows "set (backtest_blocked_reasons gs i) \<subseteq> insert Backtest_missing (insert Backtest_not_passed gate_reasons)"
    "set (backtest_blocked_reasons gs i) \<subseteq> {Llm_mock_fallback} \<longleftrightarrow> backtest_blocked_reasons gs i = []"
proof -
  show sub: "set (backtest_blocked_reasons gs i) \<subseteq> insert Backtest_missing (insert Backtest_not_passed gate_reasons)"
    using assms by (auto simp: backtest_blocked_reasons_def gi_wf_def split: option.splits)
  then have "Llm_mock_fallback \<notin> set (backtest_blocked_reasons gs i)" by auto
  then show "set (backtest_blocked_reasons gs i) \<subseteq> {Llm_mock_fallback} \<longleftrightarrow> backtest_blocked_reasons gs i = []"
    by (auto simp: subset_singleton_iff)
qed

lemma knowledge_blocked_no_mock:
  assumes "gi_wf i" shows "set (gi_knowledge_blocked i) \<subseteq> {Llm_mock_fallback} \<longleftrightarrow> gi_knowledge_blocked i = []"
proof -
  have "Llm_mock_fallback \<notin> set (gi_knowledge_blocked i)" using assms by (auto simp: gi_wf_def)
  then show ?thesis by (auto simp: subset_singleton_iff)
qed

lemma backtest_blocked_Nil:
  "backtest_blocked_reasons gs i = [] \<longleftrightarrow>
     \<not> require_backtest_before_paper gs \<or> (case gi_backtest_gate i of None \<Rightarrow> False | Some g \<Rightarrow> bg_eligible g)"
  by (simp add: backtest_blocked_reasons_def split: option.split)

lemma can_challenge_iff:
  "can_challenge_active i \<longleftrightarrow> replacing_mock_active i
     \<or> (gi_cooldown i = 0 \<and> (case score_delta i of None \<Rightarrow> True
          | Some d \<Rightarrow> gp_challenger_min_delta (market_governance_profile (gi_market_scope i)) \<le> d))"
  by (auto simp: can_challenge_active_def score_delta_def gi_cooldown_def cooldown_remaining_days_def
      split: option.splits)

lemma promotion_blocked_mock_only:
  assumes "gi_wf i"
  shows "set (promotion_blocked_reasons gs i) \<subseteq> {Llm_mock_fallback} \<longleftrightarrow>
     gp_promote_threshold (market_governance_profile (gi_market_scope i)) \<le> gi_final_score i
     \<and> can_challenge_active i
     \<and> \<not> (block_promotion_on_macro_degrade gs \<and> ms_degraded (gi_macro_status i))
     \<and> backtest_blocked_reasons gs i = [] \<and> gi_knowledge_blocked i = []"
proof -
  have c: "gi_cooldown i = 0 \<longleftrightarrow> \<not> gi_cooldown i > 0"
    using cooldown_nonneg unfolding gi_cooldown_def by (simp add: le_less) (metis less_le_not_le)
  show ?thesis
    using backtest_blocked_no_mock(2) [OF assms, of gs] knowledge_blocked_no_mock [OF assms]
    unfolding promotion_blocked_reasons_def set_append_new can_challenge_iff c
    by (auto split: option.splits)
qed

definition other_reasons :: "reason set" where
  "other_reasons = {Bottom_line_failed, Llm_mock_fallback, Below_keep_threshold, Below_promote_threshold,
     Delta_below_threshold, Cooldown_active, Macro_provider_degraded, Backtest_missing,
     Backtest_not_passed} \<union> gate_reasons"

lemma other_not_knowledge: "r \<in> other_reasons \<Longrightarrow> r \<notin> knowledge_reasons"
  by (cases r) (simp_all add: other_reasons_def)

lemma other_reasons_mem:
  "Llm_mock_fallback \<in> other_reasons" "Below_promote_threshold \<in> other_reasons"
  "Delta_below_threshold \<in> other_reasons" "Cooldown_active \<in> other_reasons"
  "Macro_provider_degraded \<in> other_reasons"
  by (simp_all add: other_reasons_def)

lemma promotion_blocked_sub:
  assumes "gi_wf i"
  shows "set (promotion_blocked_reasons gs i) \<subseteq> set (gi_knowledge_blocked i) \<union> other_reasons"
proof -
  have "set (backtest_blocked_reasons gs i) \<subseteq> other_reasons"
    using backtest_blocked_no_mock(1) [OF assms, of gs] by (rule order_trans) (auto simp: other_reasons_def)
  then show ?thesis
    unfolding promotion_blocked_reasons_def set_append_new
    using other_reasons_mem by (auto split: option.splits)
qed

lemma promote_allowed_iff:
  assumes "gi_wf i"
  shows "promote_allowed gs i \<longleftrightarrow> gi_bottom_line_passed i
     \<and> set (promotion_blocked_reasons gs i) \<subseteq> {Llm_mock_fallback}"
proof -
  have sup: "set (gi_knowledge_blocked i) \<subseteq> set (promotion_blocked_reasons gs i)"
    by (simp add: promotion_blocked_reasons_def)
  have "gi_knowledge_blocked i = [] \<longleftrightarrow> set (gi_knowledge_blocked i) = {}" by simp
  moreover have "(\<exists>r\<in>set (promotion_blocked_reasons gs i). r \<in> knowledge_reasons)
      \<longleftrightarrow> set (gi_knowledge_blocked i) \<noteq> {}"
    using assms promotion_blocked_sub [OF assms, of gs] sup other_not_knowledge
    unfolding gi_wf_def by (metis UnE ex_in_conv subsetD)
  ultimately have "list_ex (\<lambda>r. r \<in> knowledge_reasons) (promotion_blocked_reasons gs i)
      \<longleftrightarrow> gi_knowledge_blocked i \<noteq> []"
    unfolding list_ex_iff by blast
  then show ?thesis
    unfolding promote_allowed_def promotion_blocked_mock_only [OF assms] backtest_blocked_Nil by argo
qed

lemma candidate_allowed_iff:
  assumes "gi_wf i"
  shows "candidate_allowed i \<longleftrightarrow>
     set (candidate_blocked_reasons i) \<subseteq> {Knowledge_low_novelty, Knowledge_capacity_unclear}"
proof -
  have k: "set (gi_knowledge_blocked i) \<subseteq> knowledge_reasons" using assms by (simp add: gi_wf_def)
  show ?thesis
    unfolding candidate_allowed_def candidate_blocked_reasons_def list_ex_iff set_append_new
    using k by (auto simp: not_less)
qed

section \<open>Properties of the decision\<close>

lemma governance_action_simps:
  "fst (governance_action gs n i) = fst (decide gs i)"
  "fst (snd (governance_action gs n i)) = snd (decide gs i)"
  "gr_promotion_blocked (snd (snd (governance_action gs n i))) = dedupe (promotion_blocked_reasons gs i)"
  "gr_candidate_blocked (snd (snd (governance_action gs n i))) = dedupe (candidate_blocked_reasons i)"
  "gr_selected_action (snd (snd (governance_action gs n i))) = snd (decide gs i)"
  "gr_lifecycle (snd (snd (governance_action gs n i))) = decision_lifecycle n i (snd (decide gs i))"
  "gr_promotion_eligible (snd (snd (governance_action gs n i))) = (snd (decide gs i) = PROMOTE_TO_PAPER)"
  "gr_candidate_eligible (snd (snd (governance_action gs n i)))
     = (snd (decide gs i) \<in> {KEEP_CANDIDATE, PROMOTE_TO_PAPER})"
  by (simp_all add: governance_action_def split_def Let_def)

lemma decide_status:
  "fst (decide gs i) = ACTIVE \<longleftrightarrow> promote_allowed gs i"
  "fst (decide gs i) = CANDIDATE \<longleftrightarrow> \<not> promote_allowed gs i \<and> candidate_allowed i"
  "fst (decide gs i) = REJECTED \<longleftrightarrow> \<not> promote_allowed gs i \<and> \<not> candidate_allowed i"
  "snd (decide gs i) = PROMOTE_TO_PAPER \<longleftrightarrow> promote_allowed gs i"
  "snd (decide gs i) = KEEP_CANDIDATE \<longleftrightarrow> \<not> promote_allowed gs i \<and> candidate_allowed i"
  "snd (decide gs i) = REJECT \<longleftrightarrow> \<not> promote_allowed gs i \<and> \<not> candidate_allowed i"
  by (simp_all add: decide_def)

definition with_evidence ::
  "governance_input \<Rightarrow> (blueprint \<times> snapshot) option \<Rightarrow> hard_gates_settings \<Rightarrow> yellow_flags_settings
   \<Rightarrow> backtest_result res option \<Rightarrow> governance_input" where
  "with_evidence i kb hg yf oc =
     i\<lparr>gi_knowledge := map_option (\<lambda>(b, s). assess_knowledge b s) kb,
       gi_backtest_gate := map_option (proposal_backtest_gate hg yf) oc\<rparr>"

lemma with_evidence_wf [simp]: "gi_wf (with_evidence i kb hg yf oc)"
  unfolding with_evidence_def by (rule gi_wf_produced)

lemma with_evidence_simps [simp]:
  "gi_bottom_line_passed (with_evidence i kb hg yf oc) = gi_bottom_line_passed i"
  "gi_final_score (with_evidence i kb hg yf oc) = gi_final_score i"
  "gi_market_scope (with_evidence i kb hg yf oc) = gi_market_scope i"
  "gi_backtest_gate (with_evidence i kb hg yf oc) = map_option (proposal_backtest_gate hg yf) oc"
  by (simp_all add: with_evidence_def)

text \<open>C2. The report explains the decision.  With a gate and an assessment as the code produces
  them, a proposal is promoted exactly when its bottom line passed and the list of reasons
  against its promotion holds nothing but the mark of a mock source; it is kept exactly when it
  is not promoted and the list of reasons against its candidacy holds nothing but low novelty
  and unclear capacity; it is rejected otherwise, and the report names the action taken.\<close>

theorem governance_report_explains_decision:
  "(case governance_action gs n (with_evidence i kb hg yf oc) of (status, act, report) \<Rightarrow>
      (status = ACTIVE \<longleftrightarrow> gi_bottom_line_passed i
         \<and> set (gr_promotion_blocked report) \<subseteq> {Llm_mock_fallback})
      \<and> (status = CANDIDATE \<longleftrightarrow> status \<noteq> ACTIVE
         \<and> set (gr_candidate_blocked report) \<subseteq> {Knowledge_low_novelty, Knowledge_capacity_unclear})
      \<and> status \<noteq> ARCHIVED
      \<and> gr_selected_action report = act
      \<and> (act = PROMOTE_TO_PAPER \<longleftrightarrow> status = ACTIVE) \<and> (act = KEEP_CANDIDATE \<longleftrightarrow> status = CANDIDATE)
      \<and> (act = REJECT \<longleftrightarrow> status = REJECTED))"
proof -
  let ?i = "with_evidence i kb hg yf oc"
  have "fst (decide gs ?i) \<noteq> ARCHIVED" by (simp add: decide_def)
  then show ?thesis
    using promote_allowed_iff [OF with_evidence_wf, of gs i kb hg yf oc]
      candidate_allowed_iff [OF with_evidence_wf, of i kb hg yf oc]
    unfolding split_def governance_action_simps decide_status set_dedupe by simp
qed

text \<open>A mock proposal can be promoted.  Whenever a proposal is promoted without the rule that
  lets a real proposal replace a mock one, the same proposal with a mock source is promoted
  too, although the report lists the mock source among the reasons against its promotion and
  among those against its candidacy.\<close>

theorem mock_proposal_is_promoted:
  assumes "\<not> replacing_mock_active i" "gi_proposal_source_kind i \<noteq> ''mock''"
    "fst (governance_action gs n i) = ACTIVE"
  shows "case governance_action gs n (i\<lparr>gi_proposal_source_kind := ''mock''\<rparr>) of (status, act, report) \<Rightarrow>
     status = ACTIVE \<and> act = PROMOTE_TO_PAPER
     \<and> Llm_mock_fallback \<in> set (gr_promotion_blocked report)
     \<and> Llm_mock_fallback \<in> set (gr_candidate_blocked report)"
proof -
  let ?j = "i\<lparr>gi_proposal_source_kind := ''mock''\<rparr>"
  have same: "score_delta ?j = score_delta i" "gi_cooldown ?j = gi_cooldown i"
    "gi_knowledge_blocked ?j = gi_knowledge_blocked i"
    "backtest_blocked_reasons gs ?j = backtest_blocked_reasons gs i"
    by (simp_all add: score_delta_def gi_cooldown_def gi_knowledge_blocked_def backtest_blocked_reasons_def
        split: option.split)
  have rep: "\<not> replacing_mock_active ?j" by (simp add: replacing_mock_active_def split: option.split)
  have "set (promotion_blocked_reasons gs ?j) = insert Llm_mock_fallback (set (promotion_blocked_reasons gs i))"
    using rep assms(1) unfolding promotion_blocked_reasons_def set_append_new same
    by (simp add: assms(2))
  moreover have "can_challenge_active ?j = can_challenge_active i"
    using rep assms(1) by (simp add: can_challenge_active_def same split: option.split)
  ultimately have "promote_allowed gs ?j"
    using assms(3) unfolding governance_action_simps decide_status promote_allowed_def list_ex_iff by simp
  then show ?thesis
    unfolding split_def governance_action_simps decide_status
    by (simp add: promotion_blocked_reasons_def candidate_blocked_reasons_def)
qed

text \<open>C26. What a promotion guarantees.  With the backtest requirement on, a promoted proposal has
  a backtest that ran, keeps the drawdown under the red line, models every required cost,
  covers the required years, reaches a utility of 4 and raised no warning; its score reaches
  the promotion threshold of its market and the macro pipeline is not degraded when that
  blocks promotions.\<close>

theorem promotion_requires_sound_backtest:
  assumes "require_backtest_before_paper gs"
    and "fst (governance_action gs n (with_evidence i kb hg yf oc)) = ACTIVE"
  shows "\<exists>r. oc = Some (Inr r) \<and> max_drawdown r \<le> hg_max_drawdown hg
     \<and> set (hg_required_assumptions hg) \<subseteq> set (assumptions r)
     \<and> of_int (hg_min_data_years hg) \<le> data_years r \<and> utility_score r \<ge> 4 \<and> yellow_flags yf r = []
     \<and> gp_promote_threshold (market_governance_profile (gi_market_scope i)) \<le> gi_final_score i
     \<and> \<not> (block_promotion_on_macro_degrade gs \<and> ms_degraded (gi_macro_status i))"
proof -
  have p: "promote_allowed gs (with_evidence i kb hg yf oc)"
    using assms(2) by (simp add: governance_action_simps decide_status)
  then obtain q where "oc = Some q" "bg_eligible (proposal_backtest_gate hg yf q)"
    using assms(1) by (auto simp: promote_allowed_def split: option.splits)
  moreover from this(2) obtain r where "q = Inr r" "hard_fails hg r = []" "yellow_flags yf r = []"
    "utility_score r \<ge> 4"
    by (auto simp: proposal_backtest_gate_def risk_gate_review_def Let_def split: sum.splits if_splits)
  moreover have "gp_promote_threshold (market_governance_profile (gi_market_scope i)) \<le> gi_final_score i"
    "\<not> (block_promotion_on_macro_degrade gs \<and> ms_degraded (gi_macro_status i))"
    using p unfolding promote_allowed_def by (simp_all add: with_evidence_def)
  ultimately show ?thesis by (simp add: hard_fails_Nil_iff)
qed

definition sample_input :: governance_input where
  "sample_input = \<lparr>gi_final_score = 90, gi_bottom_line_passed = True, gi_active_context = None,
     gi_macro_status = \<lparr>ms_provider = ''fred'', ms_status = ''ready'', ms_degraded = False\<rparr>,
     gi_market_scope = ''HK'', gi_current_time = 0, gi_proposal_source_kind = ''minimax'',
     gi_backtest_gate = None, gi_knowledge = None\<rparr>"

definition sample_evidence :: governance_input where
  "sample_evidence = with_evidence sample_input None hard_gates_default yellow_flags_default
     (Some (Inr sample_result))"

lemma hk_governance: "market_governance_profile ''HK'' = mp_governance hk_profile"
proof -
  have "py_upper ''HK'' = ''HK''" by code_simp
  then show ?thesis by (simp add: market_governance_profile_def get_market_profile_def MARKET_PROFILES_def)
qed

lemma sample_result_eligible:
  "bg_eligible (proposal_backtest_gate hard_gates_default yellow_flags_default (Inr sample_result))"
proof -
  have "utility_score sample_result = 11.5"
    unfolding utility_score_def sample_result_def Let_def
    by (simp add: py_round_exact [of _ _ 115])
  moreover have "hard_fails hard_gates_default sample_result = []"
    by (simp add: hard_fails_Nil_iff) (simp add: sample_result_def hard_gates_default_def)
  moreover have "yellow_flags yellow_flags_default sample_result = []"
    by (simp add: yellow_flags_def yellow_flags_default_def sample_result_def)
  ultimately show ?thesis by (simp add: proposal_backtest_gate_def risk_gate_review_def Let_def)
qed

lemma sample_promoted: "fst (governance_action governance_default 15 sample_evidence) = ACTIVE"
proof -
  have "backtest_blocked_reasons governance_default sample_evidence = []"
    using sample_result_eligible by (simp add: backtest_blocked_Nil sample_evidence_def)
  moreover have "gi_knowledge_blocked sample_evidence = []"
    by (simp add: gi_knowledge_blocked_def sample_evidence_def with_evidence_def)
  ultimately show ?thesis
    unfolding governance_action_simps decide_status
    using promote_allowed_iff [of sample_evidence] promotion_blocked_mock_only [of sample_evidence governance_default]
    by (simp add: sample_evidence_def) (simp add: sample_input_def with_evidence_def hk_governance
        hk_profile_def can_challenge_active_def score_delta_def)
qed

theorem mock_proposal_is_promoted_witness:
  "fst (governance_action governance_default 15
      (sample_evidence\<lparr>gi_proposal_source_kind := ''mock''\<rparr>)) = ACTIVE"
proof -
  have "\<not> replacing_mock_active sample_evidence" "gi_proposal_source_kind sample_evidence \<noteq> ''mock''"
    by (simp_all add: sample_evidence_def with_evidence_def sample_input_def replacing_mock_active_def)
  from mock_proposal_is_promoted [OF this sample_promoted] show ?thesis by (simp add: split_def)
qed

theorem promotion_requires_sound_backtest_witness:
  "\<exists>r. Some (Inr sample_result) = Some (Inr r :: backtest_result res) \<and> utility_score r \<ge> 4"
  using promotion_requires_sound_backtest
    [of governance_default 15 sample_input None hard_gates_default yellow_flags_default "Some (Inr sample_result)"]
    sample_promoted
  by (auto simp: sample_evidence_def governance_default_def)

section \<open>Cooldown\<close>

lemma cooldown_zero_iff:
  assumes "0 \<le> k" "cooldown_remaining_days (Some p) t days = m" "0 < m" "p \<le> t"
  shows "cooldown_remaining_days (Some p) (plus_days t k) days = 0 \<longleftrightarrow> m \<le> k"
  using assms dt_date_mono [of p t] by (auto simp: cooldown_remaining_days_def)

lemma cooldown_blocks:
  assumes "gi_active_context i = Some a" "ac_source_kind a \<noteq> ''mock''" "ac_promoted_at a = Some p"
    "p \<le> gi_current_time i"
    "dt_date (gi_current_time i) - dt_date p < gp_cooldown_days (market_governance_profile (gi_market_scope i))"
  shows "0 < gi_cooldown i" "\<not> replacing_mock_active i" "\<not> promote_allowed gs i"
proof -
  show pos: "0 < gi_cooldown i"
    using assms dt_date_mono [OF assms(4)] by (simp add: gi_cooldown_def cooldown_remaining_days_def)
  show norep: "\<not> replacing_mock_active i" using assms by (simp add: replacing_mock_active_def)
  show "\<not> promote_allowed gs i"
    using pos norep by (auto simp: promote_allowed_def can_challenge_iff)
qed

text \<open>The cooldown protects a real active strategy: until its market's cooldown has elapsed
  since the promotion, no proposal of any score is promoted over it; the report of a kept
  candidate names the cooldown and the day on which it ends, and that is the first day on which
  the cooldown is over.\<close>

theorem cooldown_protects_active:
  assumes "gi_active_context i = Some a" "ac_source_kind a \<noteq> ''mock''" "ac_promoted_at a = Some p"
    "p \<le> gi_current_time i"
    "dt_date (gi_current_time i) - dt_date p < gp_cooldown_days (market_governance_profile (gi_market_scope i))"
  shows "case governance_action gs n i of (status, act, report) \<Rightarrow>
     status \<noteq> ACTIVE \<and> Cooldown_active \<in> set (gr_promotion_blocked report)
     \<and> (status = CANDIDATE \<longleftrightarrow> lc_phase (gr_lifecycle report) = Candidate_cooldown)
     \<and> (status = CANDIDATE \<longleftrightarrow> (\<exists>k > 0. lc_next_eligible_at (gr_lifecycle report) = Some (plus_days (gi_current_time i) k)
          \<and> cooldown_remaining_days (Some p) (plus_days (gi_current_time i) k)
              (gp_cooldown_days (market_governance_profile (gi_market_scope i))) = 0
          \<and> cooldown_remaining_days (Some p) (plus_days (gi_current_time i) (k - 1))
              (gp_cooldown_days (market_governance_profile (gi_market_scope i))) \<noteq> 0))"
proof -
  let ?days = "gp_cooldown_days (market_governance_profile (gi_market_scope i))"
  define m where "m = cooldown_remaining_days (Some p) (gi_current_time i) ?days"
  have cd: "gi_cooldown i = m" by (simp add: gi_cooldown_def assms m_def)
  note blocks = cooldown_blocks [OF assms]
  have pos: "0 < m" using blocks(1) cd by simp
  have norep: "\<not> replacing_mock_active i" by (rule blocks)
  have "\<not> promote_allowed gs i" by (rule blocks)
  moreover have "Cooldown_active \<in> set (promotion_blocked_reasons gs i)"
    using pos cd norep by (simp add: promotion_blocked_reasons_def)
  moreover have "cooldown_remaining_days (Some p) (plus_days (gi_current_time i) m) ?days = 0"
    "cooldown_remaining_days (Some p) (plus_days (gi_current_time i) (m - 1)) ?days \<noteq> 0"
    using cooldown_zero_iff [OF _ m_def [symmetric] pos assms(4)] pos by simp_all
  ultimately show ?thesis
    unfolding split_def governance_action_simps decide_status set_dedupe
    using pos cd by (cases "candidate_allowed i") (auto simp: decide_def decision_lifecycle_def lifecycle_eta_def)
qed

theorem cooldown_protects_active_witness:
  "fst (governance_action governance_default 15
     (sample_input\<lparr>gi_active_context := Some \<lparr>ac_proposal_id = ''p1'', ac_title = ''t'', ac_status = ACTIVE,
        ac_final_score = 77, ac_source_kind = ''minimax'', ac_promoted_at = Some 0\<rparr>,
        gi_current_time := 86400\<rparr>)) \<noteq> ACTIVE"
  using cooldown_protects_active
    [of "sample_input\<lparr>gi_active_context := Some \<lparr>ac_proposal_id = ''p1'', ac_title = ''t'', ac_status = ACTIVE,
        ac_final_score = 77, ac_source_kind = ''minimax'', ac_promoted_at = Some 0\<rparr>,
        gi_current_time := 86400\<rparr>" _ 0 governance_default 15]
  by (simp add: split_def sample_input_def dt_date_def hk_governance hk_profile_def)

lemma deterministic_score_bounds:
  "55 \<le> deterministic_score k reg s f \<and> deterministic_score k reg s f \<le> 92"
proof -
  have "of_int 55 \<le> deterministic_score k reg s f" "deterministic_score k reg s f \<le> of_int 92"
    unfolding deterministic_score_def
    by (rule py_round_ge_of_int, simp, rule py_round_le_of_int, simp)
  then show ?thesis by simp
qed

lemma deterministic_score_antimono:
  "j \<le> k \<Longrightarrow> deterministic_score k reg s f \<le> deterministic_score j reg s f"
  unfolding deterministic_score_def by (intro py_round_mono max.mono min.mono) simp_all

end
