(* ===== verification/Evidence.thy ===== *)
theory Evidence imports Governance begin

text \<open>
  The evidence of a proposal in \<open>api/services.py\<close>: \<open>_base_evidence_pack\<close>, which derives
  performance figures and a bottom line from the deterministic score, the figures of the
  backtest that replace some of them, and the quality report built on both.
\<close>

section \<open>The evidence pack\<close>

record deterministic_evidence =
  de_cagr :: real
  de_sharpe :: real
  de_max_drawdown :: real
  de_walkforward_pass_rate :: real
  de_signal_density :: real
  de_min_holding_days :: int
  de_param_sensitivity :: real
  de_annual_turnover :: "real option"
  de_data_years :: "real option"

record bottom_line =
  bl_data_integrity :: bool
  bl_max_drawdown_limit :: bool
  bl_execution_safety :: bool
  bl_backtest_admission :: bool

definition base_evidence :: "real \<Rightarrow> deterministic_evidence" where
  "base_evidence score =
     (let max_dd = min 0.149 (max 0.082 (0.15 - (score - 60) / 1000)) in
      \<lparr>de_cagr = py_round (0.12 + (score - 70) / 200) 4,
       de_sharpe = py_round (1.05 + (score - 70) / 60) 3,
       de_max_drawdown = py_round max_dd 4,
       de_walkforward_pass_rate = py_round (min 0.95 (0.6 + (score - 60) / 100)) 3,
       de_signal_density = py_round (0.15 + (80 - score) / 300) 3,
       de_min_holding_days = 5,
       de_param_sensitivity = py_round (max 0.12 (0.55 - score / 200)) 3,
       de_annual_turnover = None, de_data_years = None\<rparr>)"

definition base_bottom_line :: "real \<Rightarrow> bottom_line" where
  "base_bottom_line score =
     \<lparr>bl_data_integrity = True,
      bl_max_drawdown_limit = (de_max_drawdown (base_evidence score) \<le> 0.15),
      bl_execution_safety = True, bl_backtest_admission = True\<rparr>"

definition bottom_line_values :: "bottom_line \<Rightarrow> bool list" where
  "bottom_line_values b = [bl_data_integrity b, bl_max_drawdown_limit b, bl_execution_safety b,
     bl_backtest_admission b]"

text \<open>\<open>_backtest_metrics_for_evidence\<close> and the update of the evidence: the figures that a
  backtest has replace the derived ones, a missing sensitivity leaves the derived one.\<close>

definition with_backtest_metrics :: "backtest_gate \<Rightarrow> deterministic_evidence \<Rightarrow> deterministic_evidence" where
  "with_backtest_metrics g e =
     (case bg_metrics g of None \<Rightarrow> e
      | Some r \<Rightarrow> e\<lparr>de_cagr := cagr r, de_sharpe := sharpe r, de_max_drawdown := max_drawdown r,
          de_annual_turnover := Some (annual_turnover r), de_data_years := Some (data_years r),
          de_param_sensitivity := (case param_sensitivity r of None \<Rightarrow> de_param_sensitivity e | Some p \<Rightarrow> p)\<rparr>)"

section \<open>The quality report\<close>

datatype quality_band = Strong | Admissible | Fragile_band
datatype relative = Outperforming | Lagging | Flat

definition quality_band :: "real \<Rightarrow> real \<Rightarrow> real \<Rightarrow> quality_band" where
  "quality_band final_score pass_rate sensitivity =
     (if final_score \<ge> 82 \<and> pass_rate \<ge> 0.75 \<and> sensitivity \<le> 0.22 then Strong
      else if final_score \<ge> 75 \<and> pass_rate \<ge> 0.65 \<and> sensitivity \<le> 0.3 then Admissible
      else Fragile_band)"

record quality_report =
  qr_walkforward_pass_rate :: real
  qr_oos_passed :: bool
  qr_passed_windows :: int
  qr_total_windows :: int
  qr_stability_ratio :: real
  qr_score_delta :: "real option"
  qr_required_delta :: real
  qr_relative :: relative
  qr_param_sensitivity :: real
  qr_robustness_passed :: bool
  qr_return_quality :: "real \<times> real \<times> real"
  qr_backtest_gate :: backtest_gate
  qr_knowledge :: knowledge_assessment
  qr_quality_band :: quality_band
  qr_comparable :: bool
  qr_replaceable :: bool
  qr_accumulable :: bool

definition build_quality_report ::
  "deterministic_evidence \<Rightarrow> backtest_gate \<Rightarrow> knowledge_assessment \<Rightarrow> governance_report \<Rightarrow> real \<Rightarrow> quality_report" where
  "build_quality_report e g k rep final_score =
     (let rate = de_walkforward_pass_rate e;
          sens = de_param_sensitivity e;
          delta = gr_score_delta rep;
          min_delta = gp_challenger_min_delta (gr_thresholds rep);
          comparable = (final_score \<ge> gp_keep_threshold (gr_thresholds rep));
          replaceable = (gr_promotion_eligible rep \<and> gr_can_challenge_active rep
             \<and> (case delta of None \<Rightarrow> True | Some d \<Rightarrow> d \<ge> min_delta));
          passed = max 0 (min 12 (round_even (rate * 12)))
      in \<lparr>qr_walkforward_pass_rate = rate,
          qr_oos_passed = (rate \<ge> 0.65),
          qr_passed_windows = passed,
          qr_total_windows = 12,
          qr_stability_ratio = py_round (of_int passed / 12) 3,
          qr_score_delta = delta,
          qr_required_delta = min_delta,
          qr_relative = (case delta of None \<Rightarrow> Flat
             | Some d \<Rightarrow> if d > 0 then Outperforming else if d < 0 then Lagging else Flat),
          qr_param_sensitivity = sens,
          qr_robustness_passed = (sens \<le> 0.3),
          qr_return_quality = (de_cagr e, de_sharpe e, de_max_drawdown e),
          qr_backtest_gate = g,
          qr_knowledge = k,
          qr_quality_band = quality_band final_score rate sens,
          qr_comparable = comparable,
          qr_replaceable = replaceable,
          qr_accumulable = (comparable \<and> rate \<ge> 0.65 \<and> sens \<le> 0.3)\<rparr>)"

section \<open>What the evidence rests on\<close>

lemma bottom_line_drawdown: "de_max_drawdown (base_evidence score) \<in> {0.082..0.149}"
proof -
  let ?d = "min 0.149 (max 0.082 (0.15 - (score - 60) / 1000)) :: real"
  have "?d \<le> 0.149" by (rule min.cobounded1)
  moreover have "0.082 \<le> ?d" by (rule min.boundedI) (simp, rule max.cobounded1)
  ultimately have "py_round 0.082 4 \<le> py_round ?d 4" "py_round ?d 4 \<le> py_round 0.149 4"
    by (blast intro: py_round_mono)+
  moreover have "py_round 0.082 4 = 0.082" "py_round 0.149 4 = 0.149"
    using py_round_exact [of "0.082" 4 820] py_round_exact [of "0.149" 4 1490] by simp_all
  ultimately have "0.082 \<le> py_round ?d 4" "py_round ?d 4 \<le> 0.149" by simp_all
  then show ?thesis by (simp add: base_evidence_def Let_def)
qed

lemma bottom_line_true:
  "bl_data_integrity (base_bottom_line score)" "bl_max_drawdown_limit (base_bottom_line score)"
  "bl_execution_safety (base_bottom_line score)" "bl_backtest_admission (base_bottom_line score)"
  using bottom_line_drawdown [of score] by (simp_all add: base_bottom_line_def)

text \<open>The bottom line that precedes the backtest is empty: whatever the score, every entry
  of the report is true, because the drawdown it checks against 15% is itself derived from the
  score and cut at 14.9%.\<close>

theorem base_bottom_line_always_passes:
  "list_all id (bottom_line_values (base_bottom_line score))
   \<and> de_max_drawdown (base_evidence score) \<in> {0.082..0.149}"
  using bottom_line_drawdown [of score] bottom_line_true [of score]
  by (simp add: bottom_line_values_def)

lemma deterministic_score_tenths: "\<exists>n. deterministic_score k reg s f = of_int n / 10"
  unfolding deterministic_score_def py_round_def by auto

lemma walkforward_of_score:
  "de_walkforward_pass_rate (with_backtest_metrics g (base_evidence (deterministic_score k reg s f)))
     = 0.6 + (deterministic_score k reg s f - 60) / 100"
proof -
  obtain n where n: "deterministic_score k reg s f = of_int n / 10"
    using deterministic_score_tenths by blast
  let ?s = "deterministic_score k reg s f"
  have "?s \<le> 92" using deterministic_score_bounds by simp
  then have "min 0.95 (0.6 + (?s - 60) / 100) = 0.6 + (?s - 60) / 100" by (simp add: field_simps)
  moreover have "py_round (0.6 + (?s - 60) / 100) 3 = 0.6 + (?s - 60) / 100"
    by (rule py_round_exact [where k = n]) (simp add: n field_simps)
  ultimately have "de_walkforward_pass_rate (base_evidence ?s) = 0.6 + (?s - 60) / 100"
    by (simp add: base_evidence_def Let_def)
  then show ?thesis by (simp add: with_backtest_metrics_def split: option.split)
qed

text \<open>The out-of-sample validation of the quality report is not a validation: whatever the
  backtest says, the pass rate is the deterministic score in other units, and the report says
  \<open>passed\<close> exactly when that score is at least 65.\<close>

theorem oos_validation_is_the_score:
  "qr_walkforward_pass_rate (build_quality_report
      (with_backtest_metrics g (base_evidence (deterministic_score k reg s f))) g' a rep fs)
     = 0.6 + (deterministic_score k reg s f - 60) / 100
   \<and> (qr_oos_passed (build_quality_report
      (with_backtest_metrics g (base_evidence (deterministic_score k reg s f))) g' a rep fs)
     \<longleftrightarrow> 65 \<le> deterministic_score k reg s f)"
  unfolding build_quality_report_def Let_def by (simp add: walkforward_of_score field_simps)

end
