(* ===== verification/Proposal_Pool.thy ===== *)
theory Proposal_Pool
  imports Evidence Pandas_Series "HOL-Library.Option_ord" "HOL-Library.Product_Lexorder"
begin

text \<open>
  The pool of strategy proposals of \<open>api/services.py\<close> and the operations of a sync on it:
  archiving, pruning, the active strategy and its recovery, the health check with pause and
  rollback, the promotion of an existing candidate and the materialisation of new proposals.
  The table is the list of its rows; a query that orders its rows returns ties in row order
  and puts a missing time last, as SQLite does.  Texts of messages and the audit records are
  left out; the time, the identifiers and what the language model and the backtest return are
  parameters.
\<close>

section \<open>Rows\<close>

record decision =
  dc_id :: string
  dc_action :: action
  dc_final_score :: real
  dc_bottom_line_passed :: bool
  dc_lifecycle :: "lifecycle option"
  dc_created_at :: datetime

record proposal =
  pr_id :: string
  pr_title :: string
  pr_symbol :: string
  pr_market_scope :: string
  pr_source_kind :: string
  pr_provider_status :: string
  pr_deterministic_score :: real
  pr_llm_score :: real
  pr_final_score :: real
  pr_status :: proposal_status
  pr_created_at :: datetime
  pr_updated_at :: datetime
  pr_promoted_at :: "datetime option"
  pr_archived_at :: "datetime option"
  pr_governance :: governance_report
  pr_quality :: quality_report
  pr_decisions :: "decision list"

type_synonym pool = "proposal list"

definition update_where :: "(proposal \<Rightarrow> bool) \<Rightarrow> (proposal \<Rightarrow> proposal) \<Rightarrow> pool \<Rightarrow> pool" where
  "update_where P f pool = map (\<lambda>r. if P r then f r else r) pool"

definition update_row :: "string \<Rightarrow> (proposal \<Rightarrow> proposal) \<Rightarrow> pool \<Rightarrow> pool" where
  "update_row i f pool = update_where (\<lambda>r. pr_id r = i) f pool"

definition archive_record :: "datetime \<Rightarrow> proposal \<Rightarrow> proposal" where
  "archive_record now r = r\<lparr>pr_status := ARCHIVED, pr_archived_at := Some now, pr_updated_at := now\<rparr>"

definition latest_proposal_decision :: "proposal \<Rightarrow> decision option" where
  "latest_proposal_decision p =
     (if pr_decisions p = [] then None
      else Some (last (sort_key (\<lambda>d. (dc_created_at d, dc_id d)) (pr_decisions p))))"

definition proposal_lifecycle_phase :: "proposal \<Rightarrow> phase option" where
  "proposal_lifecycle_phase p =
     (case latest_proposal_decision p of None \<Rightarrow> None
      | Some d \<Rightarrow> map_option lc_phase (dc_lifecycle d))"

definition proposal_context :: "proposal \<Rightarrow> active_context" where
  "proposal_context p = \<lparr>ac_proposal_id = pr_id p, ac_title = pr_title p, ac_status = pr_status p,
     ac_final_score = pr_final_score p, ac_source_kind = pr_source_kind p,
     ac_promoted_at = pr_promoted_at p\<rparr>"

section \<open>Archiving\<close>

definition archive_strategy_proposals :: "datetime \<Rightarrow> pool \<Rightarrow> pool" where
  "archive_strategy_proposals now = update_where (\<lambda>r. pr_status r \<noteq> ARCHIVED) (archive_record now)"

definition archive_non_active_strategy_proposals :: "datetime \<Rightarrow> pool \<Rightarrow> pool" where
  "archive_non_active_strategy_proposals now =
     update_where (\<lambda>r. pr_status r \<notin> {ARCHIVED, ACTIVE}) (archive_record now)"

definition archive_out_of_scope_strategy_proposals :: "string \<Rightarrow> string \<Rightarrow> datetime \<Rightarrow> pool \<Rightarrow> pool" where
  "archive_out_of_scope_strategy_proposals symbol scope now =
     update_where (\<lambda>r. pr_status r \<noteq> ARCHIVED \<and> pr_status r \<noteq> ACTIVE
        \<and> (pr_symbol r \<noteq> symbol \<or> pr_market_scope r \<noteq> scope)) (archive_record now)"

section \<open>Pruning\<close>

record prune_counts =
  pc_rejected_retention :: nat
  pc_aged_candidates :: nat
  pc_overflow_candidates :: nat

definition protected_phase :: "proposal \<Rightarrow> bool" where
  "protected_phase r \<longleftrightarrow> proposal_lifecycle_phase r \<in> {Some Candidate_cooldown, Some Paused_pending_review}"

definition age_days :: "datetime \<Rightarrow> proposal \<Rightarrow> int" where
  "age_days now r = max 0 (dt_date now - dt_date (pr_created_at r))"

definition stale_rejected :: "governance_settings \<Rightarrow> datetime \<Rightarrow> proposal \<Rightarrow> bool" where
  "stale_rejected gs now r \<longleftrightarrow> pr_status r = REJECTED
     \<and> pr_created_at r < plus_days now (- max 0 (rejected_retention_days gs))"

definition prune_candidate :: "string \<Rightarrow> string \<Rightarrow> proposal \<Rightarrow> bool" where
  "prune_candidate symbol scope r \<longleftrightarrow>
     pr_status r = CANDIDATE \<and> pr_symbol r = symbol \<and> pr_market_scope r = scope"

definition aged :: "governance_settings \<Rightarrow> datetime \<Rightarrow> proposal \<Rightarrow> bool" where
  "aged gs now r \<longleftrightarrow> age_days now r > max 1 (candidate_max_age_days gs) \<and> \<not> protected_phase r"

definition retention_limit :: "governance_settings \<Rightarrow> nat" where
  "retention_limit gs = nat (max 1 (candidate_retention_limit gs))"

definition ranked_survivors :: "governance_settings \<Rightarrow> string \<Rightarrow> string \<Rightarrow> datetime \<Rightarrow> pool \<Rightarrow> proposal list" where
  "ranked_survivors gs symbol scope now pool =
     sort_desc (\<lambda>r. (pr_final_score r, pr_created_at r))
       (filter (\<lambda>r. \<not> aged gs now r) (filter (prune_candidate symbol scope) pool))"

definition overflow :: "governance_settings \<Rightarrow> string \<Rightarrow> string \<Rightarrow> datetime \<Rightarrow> pool \<Rightarrow> proposal list" where
  "overflow gs symbol scope now pool =
     filter (\<lambda>r. \<not> protected_phase r) (drop (retention_limit gs) (ranked_survivors gs symbol scope now pool))"

definition prune_strategy_proposals ::
  "governance_settings \<Rightarrow> string \<Rightarrow> string \<Rightarrow> datetime \<Rightarrow> pool \<Rightarrow> prune_counts \<times> pool" where
  "prune_strategy_proposals gs symbol scope now pool =
     (let pool1 = update_where (stale_rejected gs now) (archive_record now) pool;
          aged_ids = map pr_id (filter (aged gs now) (filter (prune_candidate symbol scope) pool1));
          overflow_ids = map pr_id (overflow gs symbol scope now pool1)
      in (\<lparr>pc_rejected_retention = length (filter (stale_rejected gs now) pool),
           pc_aged_candidates = length aged_ids,
           pc_overflow_candidates = length overflow_ids\<rparr>,
          update_where (\<lambda>r. pr_id r \<in> set overflow_ids) (archive_record now)
            (update_where (\<lambda>r. pr_id r \<in> set aged_ids) (archive_record now) pool1)))"

section \<open>The active strategy\<close>

definition first_of :: "'a list \<Rightarrow> 'a option" where
  "first_of xs = (case xs of [] \<Rightarrow> None | x # _ \<Rightarrow> Some x)"

definition by_promotion :: "pool \<Rightarrow> proposal list" where
  "by_promotion = sort_desc (\<lambda>r. (pr_promoted_at r, pr_created_at r))"

definition by_score :: "pool \<Rightarrow> proposal list" where
  "by_score = sort_desc (\<lambda>r. (pr_final_score r, pr_created_at r))"

definition get_active_strategy :: "pool \<Rightarrow> proposal option" where
  "get_active_strategy pool = first_of (by_promotion (filter (\<lambda>r. pr_status r = ACTIVE) pool))"

definition list_candidate_strategies :: "pool \<Rightarrow> proposal list" where
  "list_candidate_strategies pool =
     by_score (filter (\<lambda>r. pr_status r \<in> {CANDIDATE, ACTIVE} \<and> pr_source_kind r \<noteq> ''mock'') pool)"

definition get_previous_stable_strategy :: "string option \<Rightarrow> pool \<Rightarrow> proposal option" where
  "get_previous_stable_strategy exclude pool =
     first_of (filter (\<lambda>r. case exclude of None \<Rightarrow> True | Some i \<Rightarrow> i = [] \<or> pr_id r \<noteq> i)
       (by_promotion (filter (\<lambda>r. pr_status r = ARCHIVED \<and> pr_promoted_at r \<noteq> None) pool)))"

definition recover_active_strategy :: "datetime \<Rightarrow> pool \<Rightarrow> proposal option \<times> pool" where
  "recover_active_strategy now pool =
     (case first_of (by_promotion (filter (\<lambda>r. pr_source_kind r \<noteq> ''mock'' \<and> pr_promoted_at r \<noteq> None) pool)) of
        None \<Rightarrow> (None, pool)
      | Some c \<Rightarrow>
          (let f = (\<lambda>r. r\<lparr>pr_status := ACTIVE, pr_archived_at := None, pr_updated_at := now\<rparr>)
           in (Some (f c), update_row (pr_id c) f pool)))"

section \<open>The health of the active strategy\<close>

text \<open>\<open>_paper_nav_drawdown\<close>: the equities are listed newest first.\<close>

definition nav_drawdown_step :: "real \<Rightarrow> real \<times> real \<Rightarrow> real \<times> real" where
  "nav_drawdown_step equity st =
     (let peak = max (fst st) equity
      in (peak, if peak > 0 then max (snd st) ((peak - equity) / peak) else snd st))"

definition paper_nav_drawdown :: "real list \<Rightarrow> real" where
  "paper_nav_drawdown nav = py_round (snd (fold nav_drawdown_step (rev nav) (0, 0))) 4"

definition health_lifecycle :: "action \<Rightarrow> lifecycle" where
  "health_lifecycle act =
     (if act = ROLLBACK_TO_PREVIOUS_STABLE then
        \<lparr>lc_phase = Rolled_back, lc_next_step = Continue_with_previous_stable,
         lc_rechallenge_allowed = False, lc_eta_kind = Quality_revalidation,
         lc_next_eligible_at = None,
         lc_resume_conditions = [New_candidate_outperforms_active, Cooldown_elapsed, Macro_pipeline_ready]\<rparr>
      else
        \<lparr>lc_phase = Paused_pending_review, lc_next_step = Resume_after_revalidation,
         lc_rechallenge_allowed = False, lc_eta_kind = Review_pending,
         lc_next_eligible_at = None,
         lc_resume_conditions = [Drawdown_back_below_pause_threshold, Macro_pipeline_ready,
            Fresh_candidate_review_completed]\<rparr>)"

definition health_decision :: "string \<Rightarrow> action \<Rightarrow> proposal \<Rightarrow> datetime \<Rightarrow> decision" where
  "health_decision did act p now = \<lparr>dc_id = did, dc_action = act, dc_final_score = pr_final_score p,
     dc_bottom_line_passed = True, dc_lifecycle = Some (health_lifecycle act), dc_created_at = now\<rparr>"

definition evaluate_active_strategy_health ::
  "string \<Rightarrow> real \<Rightarrow> string \<Rightarrow> datetime \<Rightarrow> pool \<Rightarrow> decision option \<times> pool" where
  "evaluate_active_strategy_health scope live_drawdown did now pool =
     (case get_active_strategy pool of
        None \<Rightarrow> (None, pool)
      | Some active \<Rightarrow>
          (let governance = market_governance_profile scope;
               latest = latest_proposal_decision active
           in if (case latest of None \<Rightarrow> False
                  | Some d \<Rightarrow> dc_action d \<in> {PAUSE_ACTIVE, ROLLBACK_TO_PREVIOUS_STABLE})
              then (latest, pool)
              else if live_drawdown < gp_live_drawdown_pause governance then (None, pool)
              else
                (let stable = get_previous_stable_strategy (Some (pr_id active)) pool;
                     rollback = (live_drawdown \<ge> gp_live_drawdown_rollback governance \<and> stable \<noteq> None);
                     act = (if rollback then ROLLBACK_TO_PREVIOUS_STABLE else PAUSE_ACTIVE);
                     d = health_decision did act active now;
                     demoted = update_row (pr_id active)
                       (\<lambda>r. r\<lparr>pr_status := CANDIDATE, pr_updated_at := now, pr_decisions := pr_decisions r @ [d]\<rparr>) pool
                 in (Some d,
                     if rollback then update_row (pr_id (the stable))
                       (\<lambda>r. r\<lparr>pr_status := ACTIVE, pr_promoted_at := Some now, pr_updated_at := now\<rparr>) demoted
                     else demoted))))"

section \<open>Promoting an existing candidate\<close>

definition challenger_query :: "proposal \<Rightarrow> pool \<Rightarrow> proposal list" where
  "challenger_query active pool =
     by_score (filter (\<lambda>r. pr_status r = CANDIDATE \<and> pr_symbol r = pr_symbol active
        \<and> pr_market_scope r = pr_market_scope active \<and> pr_source_kind r \<noteq> ''mock''
        \<and> pr_provider_status r = ''ready''
        \<and> pr_final_score r \<ge> gp_promote_threshold (market_governance_profile (pr_market_scope active))
        \<and> pr_final_score r \<ge> pr_final_score active) pool)"

definition promoted_report :: "proposal \<Rightarrow> proposal \<Rightarrow> governance_report" where
  "promoted_report active r =
     (let rep = pr_governance r in
      rep\<lparr>gr_selected_action := PROMOTE_TO_PAPER, gr_active_title := Some (pr_title active),
          gr_active_score := Some (pr_final_score active),
          gr_score_delta := Some (py_round (pr_final_score r - pr_final_score active) 1),
          gr_replacing_mock_active := True,
          gr_lifecycle := (gr_lifecycle rep)\<lparr>lc_phase := Promotion_ready, lc_next_step := Promote_now\<rparr>\<rparr>)"

definition promote_existing_real_candidate_over_mock_active ::
  "proposal \<Rightarrow> string \<Rightarrow> datetime \<Rightarrow> pool \<Rightarrow> string option \<times> pool" where
  "promote_existing_real_candidate_over_mock_active active did now pool =
     (if pr_source_kind active = ''minimax'' then (None, pool)
      else
        (case first_of (challenger_query active pool) of
           None \<Rightarrow> (None, pool)
         | Some c \<Rightarrow>
             (let rep = promoted_report active c;
                  d = \<lparr>dc_id = did, dc_action = PROMOTE_TO_PAPER, dc_final_score = pr_final_score c,
                       dc_bottom_line_passed = True, dc_lifecycle = Some (gr_lifecycle rep), dc_created_at = now\<rparr>
              in (Some (pr_id c),
                  update_row (pr_id c)
                    (\<lambda>r. r\<lparr>pr_status := ACTIVE, pr_promoted_at := Some now, pr_updated_at := now,
                           pr_decisions := pr_decisions r @ [d]\<rparr>)
                    (update_row (pr_id active) (archive_record now) pool)))))"

section \<open>New proposals\<close>

record sync_env =
  se_settings :: governance_settings
  se_hard_gates :: hard_gates_settings
  se_yellow_flags :: yellow_flags_settings
  se_interval :: int
  se_snapshot :: snapshot
  se_macro :: macro_status
  se_market_scope :: string
  se_sentiment :: real
  se_now :: datetime

text \<open>What is external to the materialisation of one blueprint: the score it carries for the fallback
  judgment, the score the model answered (nothing when the answer has no explanation; it may be
  infinite or not a number), the
  outcome of its backtest and the identifiers of the new rows.\<close>

record draft =
  md_blueprint :: blueprint
  md_fallback_score :: real
  md_llm_answer :: "fl option"
  md_outcome :: "backtest_result res"
  md_id :: string
  md_decision_id :: string

definition judged_llm_score :: "blueprint \<Rightarrow> real \<Rightarrow> fl option \<Rightarrow> knowledge_assessment \<Rightarrow> real" where
  "judged_llm_score b fallback answer a =
     (if bp_source_kind b = ''mock'' then max 50 (fallback - knowledge_penalty_score a)
      else (case answer of
          Some raw \<Rightarrow> py_clamp 50 95 (fl_sub raw (Fin (knowledge_penalty_score a)))
        | None \<Rightarrow> fallback))"

definition draft_bottom_line :: "governance_settings \<Rightarrow> real \<Rightarrow> backtest_gate \<Rightarrow> bottom_line" where
  "draft_bottom_line gs score g =
     (let b = base_bottom_line score in
      if require_backtest_before_paper gs
      then b\<lparr>bl_backtest_admission := backtest_gate_bottom_line g\<rparr> else b)"

definition draft_score :: "sync_env \<Rightarrow> nat \<Rightarrow> draft \<Rightarrow> real" where
  "draft_score env index m = deterministic_score index (sn_regime (se_snapshot env)) (se_sentiment env)
     (length (bp_features_used (md_blueprint m)))"

definition draft_final_score :: "sync_env \<Rightarrow> nat \<Rightarrow> draft \<Rightarrow> real" where
  "draft_final_score env index m =
     py_round (draft_score env index m * 0.7
       + judged_llm_score (md_blueprint m) (md_fallback_score m) (md_llm_answer m)
           (assess_knowledge (md_blueprint m) (se_snapshot env)) * 0.3) 1"

definition draft_gate :: "sync_env \<Rightarrow> draft \<Rightarrow> backtest_gate" where
  "draft_gate env m = proposal_backtest_gate (se_hard_gates env) (se_yellow_flags env) (md_outcome m)"

definition draft_input :: "sync_env \<Rightarrow> active_context option \<Rightarrow> nat \<Rightarrow> draft \<Rightarrow> governance_input" where
  "draft_input env ctx index m =
     \<lparr>gi_final_score = draft_final_score env index m,
      gi_bottom_line_passed = list_all id (bottom_line_values
        (draft_bottom_line (se_settings env) (draft_score env index m) (draft_gate env m))),
      gi_active_context = ctx, gi_macro_status = se_macro env, gi_market_scope = se_market_scope env,
      gi_current_time = se_now env, gi_proposal_source_kind = bp_source_kind (md_blueprint m),
      gi_backtest_gate = Some (draft_gate env m),
      gi_knowledge = Some (assess_knowledge (md_blueprint m) (se_snapshot env))\<rparr>"

definition materialize_one :: "sync_env \<Rightarrow> active_context option \<Rightarrow> nat \<Rightarrow> draft \<Rightarrow> proposal" where
  "materialize_one env ctx index m =
     (let b = md_blueprint m;
          now = se_now env;
          det = draft_score env index m;
          ka = assess_knowledge b (se_snapshot env);
          gate = draft_gate env m;
          i = draft_input env ctx index m;
          (status, act, rep) = governance_action (se_settings env) (se_interval env) i
      in \<lparr>pr_id = md_id m, pr_title = bp_title b, pr_symbol = sn_symbol (se_snapshot env),
          pr_market_scope = se_market_scope env, pr_source_kind = bp_source_kind b,
          pr_provider_status = bp_provider_status b, pr_deterministic_score = det,
          pr_llm_score = judged_llm_score b (md_fallback_score m) (md_llm_answer m) ka,
          pr_final_score = draft_final_score env index m, pr_status = status,
          pr_created_at = now, pr_updated_at = now,
          pr_promoted_at = (if status = ACTIVE then Some now else None),
          pr_archived_at = (if status = REJECTED then Some now else None),
          pr_governance = rep,
          pr_quality = build_quality_report (with_backtest_metrics gate (base_evidence det)) gate ka rep
            (draft_final_score env index m),
          pr_decisions = [\<lparr>dc_id = md_decision_id m, dc_action = act,
            dc_final_score = draft_final_score env index m,
            dc_bottom_line_passed = gi_bottom_line_passed i,
            dc_lifecycle = Some (gr_lifecycle rep), dc_created_at = now\<rparr>]\<rparr>)"

fun materialize_drafts :: "sync_env \<Rightarrow> active_context option \<Rightarrow> nat \<Rightarrow> draft list \<Rightarrow> proposal list" where
  "materialize_drafts env ctx index [] = []"
| "materialize_drafts env ctx index (m # ms) =
     (let p = materialize_one env ctx index m
      in p # materialize_drafts env (if pr_status p = ACTIVE then Some (proposal_context p) else ctx)
               (Suc index) ms)"

text \<open>The titles of one batch are taken to be different.  The \<open>run_id\<close> of a row is a hash of its title and of
  what the whole batch shares, and it is unique, so the flush of a second row with the same title fails
  in the code; the normalisation of an answer does not exclude it.\<close>

definition materialize_proposals_and_decisions ::
  "sync_env \<Rightarrow> proposal option \<Rightarrow> draft list \<Rightarrow> pool \<Rightarrow> proposal list \<times> pool" where
  "materialize_proposals_and_decisions env previous_active drafts pool =
     (let created = materialize_drafts env (map_option proposal_context previous_active) 0 drafts;
          replaced = list_ex (\<lambda>p. pr_status p = ACTIVE) created
      in (created,
          (case previous_active of
             Some a \<Rightarrow> if replaced then update_row (pr_id a) (archive_record (se_now env)) pool else pool
           | None \<Rightarrow> pool) @ created))"

section \<open>Rows and queries\<close>

lemma update_where_id [simp]:
  "(\<And>r. pr_id (f r) = pr_id r) \<Longrightarrow> map pr_id (update_where P f pool) = map pr_id pool"
  by (simp add: update_where_def)

lemma update_row_id [simp]:
  "(\<And>r. pr_id (f r) = pr_id r) \<Longrightarrow> map pr_id (update_row i f pool) = map pr_id pool"
  by (simp add: update_row_def)

lemma archive_record_simps [simp]:
  "pr_id (archive_record now r) = pr_id r" "pr_status (archive_record now r) = ARCHIVED"
  by (simp_all add: archive_record_def)

lemma update_row_absent: "i \<notin> pr_id ` set pool \<Longrightarrow> update_row i f pool = pool"
  unfolding update_row_def update_where_def by (intro map_idI) auto

lemma update_row_append [simp]: "update_row i f (xs @ ys) = update_row i f xs @ update_row i f ys"
  by (simp add: update_row_def update_where_def)

lemma update_row_split:
  assumes "distinct (map pr_id pool)" "a \<in> set pool"
  obtains xs ys where "pool = xs @ a # ys" "\<And>f. update_row (pr_id a) f pool = xs @ f a # ys"
    "pr_id a \<notin> pr_id ` set (xs @ ys)"
proof -
  from assms(2) obtain xs ys where pool: "pool = xs @ a # ys" by (meson split_list)
  with assms(1) have no: "pr_id a \<notin> pr_id ` set xs" "pr_id a \<notin> pr_id ` set ys" by auto
  then have "update_row (pr_id a) f pool = xs @ f a # ys" for f
    using update_row_absent [OF no(1)] update_row_absent [OF no(2)]
    by (simp add: pool) (simp add: update_row_def update_where_def)
  with that pool no show thesis by auto
qed

definition actives :: "pool \<Rightarrow> proposal list" where
  "actives pool = filter (\<lambda>r. pr_status r = ACTIVE) pool"

lemma actives_append [simp]: "actives (xs @ ys) = actives xs @ actives ys"
  by (simp add: actives_def)

lemma actives_simps [simp]: "actives [] = []"
  "actives (x # xs) = (if pr_status x = ACTIVE then x # actives xs else actives xs)"
  by (simp_all add: actives_def)

lemma actives_update_where:
  assumes "\<And>r. pr_status (f r) \<noteq> ACTIVE"
  shows "length (actives (update_where P f pool)) \<le> length (actives pool)"
  by (induction pool) (auto simp: update_where_def assms)

lemma actives_keep:
  assumes "\<And>r. P r \<Longrightarrow> pr_status r \<noteq> ACTIVE" "\<And>r. pr_status (f r) \<noteq> ACTIVE"
  shows "actives (update_where P f pool) = actives pool"
  by (induction pool) (auto simp: update_where_def assms)

lemma first_of_by_promotion:
  assumes "first_of (by_promotion xs) = Some x"
  shows "x \<in> set xs" "y \<in> set xs \<Longrightarrow> (pr_promoted_at y, pr_created_at y) \<le> (pr_promoted_at x, pr_created_at x)"
proof -
  from assms obtain zs where z: "by_promotion xs = x # zs"
    by (auto simp: first_of_def split: list.splits)
  then have "set xs = insert x (set zs)" by (metis by_promotion_def list.simps(15) set_sort_desc)
  moreover have "sorted_wrt (\<lambda>x y. (pr_promoted_at y, pr_created_at y) \<le> (pr_promoted_at x, pr_created_at x)) (x # zs)"
    unfolding z [symmetric] by_promotion_def by (rule sorted_sort_desc)
  ultimately show "x \<in> set xs" "y \<in> set xs \<Longrightarrow> (pr_promoted_at y, pr_created_at y) \<le> (pr_promoted_at x, pr_created_at x)"
    by auto
qed

lemma first_of_by_score:
  assumes "first_of (by_score xs) = Some x"
  shows "x \<in> set xs" "y \<in> set xs \<Longrightarrow> pr_final_score y \<le> pr_final_score x"
proof -
  from assms obtain zs where z: "by_score xs = x # zs"
    by (auto simp: first_of_def split: list.splits)
  then have "set xs = insert x (set zs)" by (metis by_score_def list.simps(15) set_sort_desc)
  moreover have "sorted_wrt (\<lambda>x y. (pr_final_score y, pr_created_at y) \<le> (pr_final_score x, pr_created_at x)) (x # zs)"
    unfolding z [symmetric] by_score_def by (rule sorted_sort_desc)
  ultimately show "x \<in> set xs" "y \<in> set xs \<Longrightarrow> pr_final_score y \<le> pr_final_score x"
    by (auto simp: less_eq_prod_def)
qed

lemma by_promotion_Nil [simp]: "by_promotion xs = [] \<longleftrightarrow> xs = []"
  by (simp add: by_promotion_def sort_desc_def)

lemma by_promotion_single [simp]: "by_promotion [x] = [x]"
  by (simp add: by_promotion_def sort_desc_def)

lemma first_of_None [simp]: "first_of xs = None \<longleftrightarrow> xs = []"
  by (simp add: first_of_def split: list.split)

lemma first_of_simps [simp]: "first_of [] = None" "first_of (x # xs) = Some x"
  by (simp_all add: first_of_def)

lemma get_active_alt: "get_active_strategy pool = first_of (by_promotion (actives pool))"
  by (simp add: get_active_strategy_def actives_def)

lemma get_active_None: "get_active_strategy pool = None \<longleftrightarrow> actives pool = []"
  by (simp add: get_active_alt)

lemma get_active_Some:
  assumes "get_active_strategy pool = Some a" shows "a \<in> set pool" "pr_status a = ACTIVE" "a \<in> set (actives pool)"
  using first_of_by_promotion(1) [of "actives pool" a] assms
  by (auto simp: get_active_alt actives_def)

lemma single_active:
  assumes "get_active_strategy pool = Some a" "length (actives pool) \<le> 1"
  shows "actives pool = [a]"
  using get_active_Some(3) [OF assms(1)] assms(2) by (cases "actives pool") auto

end
