(* ===== verification/Pool_Properties.thy ===== *)
theory Pool_Properties imports Proposal_Pool begin

text \<open>
  Properties of the proposal pool: at most one active strategy through every operation of a
  sync, the contract of pruning, the life of a paused strategy and the batches in which a mock
  proposal leads to two active strategies.
\<close>

section \<open>At most one active strategy\<close>

definition pool_ok :: "pool \<Rightarrow> bool" where
  "pool_ok pool \<longleftrightarrow> distinct (map pr_id pool) \<and> length (actives pool) \<le> 1"

lemma pool_ok_update_where:
  assumes "pool_ok pool" "\<And>r. pr_id (f r) = pr_id r" "\<And>r. pr_status (f r) \<noteq> ACTIVE"
  shows "pool_ok (update_where P f pool)"
  using assms actives_update_where [of f P pool] by (simp add: pool_ok_def)

lemma pool_ok_update_row:
  assumes "pool_ok pool" "\<And>r. pr_id (f r) = pr_id r" "\<And>r. pr_status (f r) \<noteq> ACTIVE"
  shows "pool_ok (update_row i f pool)"
  unfolding update_row_def using assms by (rule pool_ok_update_where)

lemma actives_activate:
  assumes "distinct (map pr_id pool)" "a \<in> set pool" "actives pool = []" "pr_status (f a) = ACTIVE"
  shows "actives (update_row (pr_id a) f pool) = [f a]"
proof -
  obtain xs ys where "pool = xs @ a # ys" "update_row (pr_id a) f pool = xs @ f a # ys"
    using update_row_split [OF assms(1,2)] by metis
  with assms(3,4) show ?thesis by (simp split: if_splits)
qed

lemma pool_ok_activate:
  assumes "pool_ok pool" "a \<in> set pool" "actives pool = []"
    "\<And>r. pr_id (f r) = pr_id r" "\<And>r. pr_status (f r) = ACTIVE"
  shows "pool_ok (update_row (pr_id a) f pool)"
  using assms actives_activate [of pool a f] by (simp add: pool_ok_def)

lemma actives_demote:
  assumes "distinct (map pr_id pool)" "actives pool = [a]" "pr_status (f a) \<noteq> ACTIVE"
  shows "actives (update_row (pr_id a) f pool) = []"
proof -
  have "a \<in> set pool" using assms(2) by (metis actives_def filter_is_subset list.set_intros(1) subsetD)
  then obtain xs ys where p: "pool = xs @ a # ys" and "update_row (pr_id a) f pool = xs @ f a # ys"
    using update_row_split [OF assms(1)] by metis
  moreover have "pr_status a = ACTIVE" using assms(2) by (auto simp: actives_def filter_eq_Cons_iff)
  then have "actives xs @ a # actives ys = [a]" using assms(2) p by simp
  then have "actives xs = []" "actives ys = []" by (auto simp: append_eq_Cons_conv)
  ultimately show ?thesis using assms(3) by simp
qed

lemma prune_ok:
  assumes "pool_ok pool" shows "pool_ok (snd (prune_strategy_proposals gs symbol scope now pool))"
  unfolding prune_strategy_proposals_def Let_def snd_conv
  by (intro pool_ok_update_where assms) simp_all

lemma recover_ok:
  assumes "pool_ok pool" "get_active_strategy pool = None"
  shows "pool_ok (snd (recover_active_strategy now pool))"
proof (cases "first_of (by_promotion (filter (\<lambda>r. pr_source_kind r \<noteq> ''mock'' \<and> pr_promoted_at r \<noteq> None) pool))")
  case (Some c)
  have "c \<in> set pool" using first_of_by_promotion(1) [OF Some] by simp
  then show ?thesis
    using assms Some unfolding recover_active_strategy_def
    by (auto simp: Let_def get_active_None intro!: pool_ok_activate)
next
  case None
  then show ?thesis unfolding recover_active_strategy_def None by (simp add: assms)
qed

lemma previous_stable_Some:
  assumes "get_previous_stable_strategy e pool = Some s"
  shows "s \<in> set pool" "pr_status s = ARCHIVED" "pr_promoted_at s \<noteq> None"
proof -
  let ?xs = "filter (\<lambda>r. case e of None \<Rightarrow> True | Some i \<Rightarrow> i = [] \<or> pr_id r \<noteq> i)
      (by_promotion (filter (\<lambda>r. pr_status r = ARCHIVED \<and> pr_promoted_at r \<noteq> None) pool))"
  have "s \<in> set ?xs"
    using assms unfolding get_previous_stable_strategy_def by (cases ?xs) (simp_all add: first_of_def)
  then show "s \<in> set pool" "pr_status s = ARCHIVED" "pr_promoted_at s \<noteq> None"
    by (simp_all add: by_promotion_def)
qed

lemma health_ok:
  assumes "pool_ok pool"
  shows "pool_ok (snd (evaluate_active_strategy_health scope dd did now pool))"
proof (cases "get_active_strategy pool")
  case None
  with assms show ?thesis by (simp add: evaluate_active_strategy_health_def)
next
  case (Some a)
  have act: "actives pool = [a]" using assms Some single_active by (simp add: pool_ok_def)
  define f where "f act = (\<lambda>r :: proposal. r\<lparr>pr_status := CANDIDATE, pr_updated_at := now,
     pr_decisions := pr_decisions r @ [health_decision did act a now]\<rparr>)" for act
  have ok: "pool_ok (update_row (pr_id a) (f act) pool)" for act
    using assms by (rule pool_ok_update_row) (simp_all add: f_def)
  have none: "actives (update_row (pr_id a) (f act) pool) = []" for act
    using assms act by (intro actives_demote) (simp_all add: pool_ok_def f_def)
  have "pool_ok (update_row (pr_id s) (\<lambda>r. r\<lparr>pr_status := ACTIVE, pr_promoted_at := Some now, pr_updated_at := now\<rparr>)
      (update_row (pr_id a) (f act) pool))"
    if s: "get_previous_stable_strategy (Some (pr_id a)) pool = Some s" for s act
  proof (rule pool_ok_activate [OF ok _ none])
    have "pr_id s \<noteq> pr_id a"
      using previous_stable_Some [OF s] get_active_Some [OF Some] assms
      by (auto simp: pool_ok_def distinct_map inj_on_def)
    then show "s \<in> set (update_row (pr_id a) (f act) pool)"
      using previous_stable_Some(1) [OF s] by (force simp: update_row_def update_where_def)
  qed simp_all
  then show ?thesis
    using assms ok Some
    by (auto simp: evaluate_active_strategy_health_def Let_def f_def split: option.splits)
qed

lemma promote_existing_ok:
  assumes "pool_ok pool" "get_active_strategy pool = Some a"
  shows "pool_ok (snd (promote_existing_real_candidate_over_mock_active a did now pool))"
proof (cases "first_of (challenger_query a pool)")
  case None
  with assms(1) show ?thesis by (simp add: promote_existing_real_candidate_over_mock_active_def)
next
  case (Some c)
  have act: "actives pool = [a]" using assms single_active by (simp add: pool_ok_def)
  have c: "c \<in> set pool" "pr_status c = CANDIDATE"
    using first_of_by_score(1) [OF Some [unfolded challenger_query_def]] by simp_all
  have ok: "pool_ok (update_row (pr_id a) (archive_record now) pool)"
    using assms(1) by (rule pool_ok_update_row) simp_all
  have none: "actives (update_row (pr_id a) (archive_record now) pool) = []"
    using assms(1) act by (intro actives_demote) (simp_all add: pool_ok_def)
  have "pr_id c \<noteq> pr_id a"
    using c get_active_Some [OF assms(2)] assms(1) by (auto simp: pool_ok_def distinct_map inj_on_def)
  then have "c \<in> set (update_row (pr_id a) (archive_record now) pool)"
    using c(1) by (force simp: update_row_def update_where_def)
  from pool_ok_activate [OF ok this none] show ?thesis
    using assms(1) Some by (simp add: promote_existing_real_candidate_over_mock_active_def Let_def)
qed

section \<open>Batches\<close>

lemma materialize_one_simps [simp]:
  "pr_id (materialize_one env ctx k m) = md_id m"
  "pr_source_kind (materialize_one env ctx k m) = bp_source_kind (md_blueprint m)"
  "pr_status (materialize_one env ctx k m) = fst (decide (se_settings env) (draft_input env ctx k m))"
  "pr_promoted_at (materialize_one env ctx k m) =
     (if fst (decide (se_settings env) (draft_input env ctx k m)) = ACTIVE then Some (se_now env) else None)"
  by (simp_all add: materialize_one_def Let_def split_def governance_action_simps)

lemma materialize_drafts_ids [simp]:
  "map pr_id (materialize_drafts env ctx k ms) = map md_id ms"
  by (induction ms arbitrary: ctx k) (simp_all add: Let_def)

lemma materialize_one_cooldown:
  assumes "ac_source_kind c \<noteq> ''mock''" "ac_promoted_at c = Some (se_now env)"
  shows "fst (decide (se_settings env) (draft_input env (Some c) k m)) \<noteq> ACTIVE"
proof -
  have "\<not> promote_allowed (se_settings env) (draft_input env (Some c) k m)"
    using assms governance_thresholds_ordered(4) [of "se_market_scope env"]
    by (intro cooldown_blocks [where a = c and p = "se_now env"]) (simp_all add: draft_input_def)
  then show ?thesis by (simp add: decide_status)
qed

lemma no_promotion_after_promotion:
  assumes "ac_source_kind c \<noteq> ''mock''" "ac_promoted_at c = Some (se_now env)"
  shows "actives (materialize_drafts env (Some c) k ms) = []"
  by (induction ms arbitrary: k) (simp_all add: Let_def materialize_one_cooldown assms)

lemma one_promotion_per_batch:
  assumes "\<forall>m\<in>set ms. bp_source_kind (md_blueprint m) \<noteq> ''mock''"
  shows "length (actives (materialize_drafts env ctx k ms)) \<le> 1"
  using assms
proof (induction ms arbitrary: ctx k)
  case (Cons m ms)
  show ?case
  proof (cases "pr_status (materialize_one env ctx k m) = ACTIVE")
    case True
    then have "actives (materialize_drafts env (Some (proposal_context (materialize_one env ctx k m))) (Suc k) ms) = []"
      using Cons.prems by (intro no_promotion_after_promotion) (simp_all add: proposal_context_def)
    with True show ?thesis by (simp add: Let_def del: materialize_one_simps)
  next
    case False
    with Cons show ?thesis by (simp add: Let_def del: materialize_one_simps)
  qed
qed simp

lemma materialize_ok:
  assumes "pool_ok pool" "\<forall>m\<in>set ms. bp_source_kind (md_blueprint m) \<noteq> ''mock''"
    "distinct (map md_id ms)" "set (map md_id ms) \<inter> set (map pr_id pool) = {}"
  shows "pool_ok (snd (materialize_proposals_and_decisions env (get_active_strategy pool) ms pool))"
proof -
  define ctx where "ctx = map_option proposal_context (get_active_strategy pool)"
  define created where "created = materialize_drafts env ctx 0 ms"
  define old where "old = (case get_active_strategy pool of
      Some a \<Rightarrow> if list_ex (\<lambda>p. pr_status p = ACTIVE) created
        then update_row (pr_id a) (archive_record (se_now env)) pool else pool
    | None \<Rightarrow> pool)"
  have res: "snd (materialize_proposals_and_decisions env (get_active_strategy pool) ms pool) = old @ created"
    unfolding materialize_proposals_and_decisions_def Let_def old_def created_def ctx_def by (rule snd_conv)
  have ids: "map pr_id old = map pr_id pool" by (simp add: old_def split: option.split)
  have one: "length (actives created) \<le> 1"
    unfolding created_def using assms(2) by (rule one_promotion_per_batch)
  have "actives old = [] \<or> actives created = [] \<and> length (actives old) \<le> 1"
  proof (cases "get_active_strategy pool")
    case None
    then have "actives pool = []" by (simp add: get_active_None)
    then show ?thesis unfolding old_def None by simp
  next
    case (Some a)
    have act: "actives pool = [a]" using assms(1) Some single_active by (simp add: pool_ok_def)
    show ?thesis
    proof (cases "list_ex (\<lambda>p. pr_status p = ACTIVE) created")
      case True
      then have "old = update_row (pr_id a) (archive_record (se_now env)) pool"
        by (simp add: old_def Some)
      then show ?thesis
        using assms(1) act by (simp add: pool_ok_def actives_demote)
    next
      case False
      then have "actives created = []" by (simp add: actives_def filter_empty_conv list_ex_iff)
      then show ?thesis using False act by (simp add: old_def Some)
    qed
  qed
  moreover have "distinct (map pr_id (old @ created))"
    using assms(1,3,4) ids unfolding map_append by (auto simp: created_def pool_ok_def)
  ultimately show ?thesis using one unfolding res pool_ok_def by auto
qed

section \<open>A sync as a step relation\<close>

text \<open>The operations of a sync on the pool, in any order and with any data: the recovery only
  without an active strategy, the promotion of an existing candidate over the active strategy,
  and batches of real proposals under fresh identifiers.\<close>

inductive pool_step :: "pool \<Rightarrow> pool \<Rightarrow> bool" where
  Archive_all: "pool_step pool (archive_strategy_proposals now pool)"
| Archive_non_active: "pool_step pool (archive_non_active_strategy_proposals now pool)"
| Archive_out_of_scope: "pool_step pool (archive_out_of_scope_strategy_proposals symbol scope now pool)"
| Prune: "pool_step pool (snd (prune_strategy_proposals gs symbol scope now pool))"
| Recover: "get_active_strategy pool = None \<Longrightarrow> pool_step pool (snd (recover_active_strategy now pool))"
| Health: "pool_step pool (snd (evaluate_active_strategy_health scope dd did now pool))"
| Promote_existing: "get_active_strategy pool = Some a \<Longrightarrow>
     pool_step pool (snd (promote_existing_real_candidate_over_mock_active a did now pool))"
| Materialize: "\<lbrakk>\<forall>m\<in>set ms. bp_source_kind (md_blueprint m) \<noteq> ''mock'';
     distinct (map md_id ms); set (map md_id ms) \<inter> set (map pr_id pool) = {}\<rbrakk> \<Longrightarrow>
     pool_step pool (snd (materialize_proposals_and_decisions env (get_active_strategy pool) ms pool))"

lemma pool_step_ok: "pool_step pool pool' \<Longrightarrow> pool_ok pool \<Longrightarrow> pool_ok pool'"
proof (induction rule: pool_step.induct)
  case Archive_all
  then show ?case unfolding archive_strategy_proposals_def by (rule pool_ok_update_where) simp_all
next
  case Archive_non_active
  then show ?case unfolding archive_non_active_strategy_proposals_def by (rule pool_ok_update_where) simp_all
next
  case Archive_out_of_scope
  then show ?case unfolding archive_out_of_scope_strategy_proposals_def by (rule pool_ok_update_where) simp_all
qed (simp_all add: prune_ok recover_ok health_ok promote_existing_ok materialize_ok)

lemma reachable_ok: "pool_step\<^sup>*\<^sup>* [] pool \<Longrightarrow> pool_ok pool"
proof (induction rule: rtranclp_induct)
  case base
  then show ?case by (simp add: pool_ok_def)
next
  case (step y z)
  then show ?case by (simp add: pool_step_ok)
qed

text \<open>C6. At most one strategy is active.  Starting from the empty table, every state that the
  operations of a sync reach with real proposals has at most one active proposal and no two
  rows with the same identifier; the active strategy of such a state is its only active row.\<close>

theorem at_most_one_active:
  assumes "pool_step\<^sup>*\<^sup>* [] pool"
  shows "distinct (map pr_id pool) \<and> length (filter (\<lambda>r. pr_status r = ACTIVE) pool) \<le> 1
     \<and> filter (\<lambda>r. pr_status r = ACTIVE) pool = (case get_active_strategy pool of None \<Rightarrow> [] | Some a \<Rightarrow> [a])"
proof -
  have "pool_ok pool" using assms by (rule reachable_ok)
  then have ok: "distinct (map pr_id pool)" "length (actives pool) \<le> 1" by (simp_all add: pool_ok_def)
  moreover have "actives pool = (case get_active_strategy pool of None \<Rightarrow> [] | Some a \<Rightarrow> [a])"
    using single_active [OF _ ok(2)] by (auto simp: get_active_None split: option.split)
  ultimately show ?thesis by (simp add: actives_def)
qed

definition sample_report :: governance_report where
  "sample_report = snd (snd (governance_action governance_default 15 sample_input))"

definition sample_quality :: quality_report where
  "sample_quality = build_quality_report (base_evidence 80)
     (proposal_backtest_gate hard_gates_default yellow_flags_default (Inr sample_result))
     (assess_knowledge (sample_blueprint ''trend_following'') sample_snapshot) sample_report 80"

definition sample_proposal :: "string \<Rightarrow> proposal_status \<Rightarrow> datetime \<Rightarrow> proposal" where
  "sample_proposal i st t = \<lparr>pr_id = i, pr_title = i, pr_symbol = ''2800.HK'', pr_market_scope = ''HK'',
     pr_source_kind = ''minimax'', pr_provider_status = ''ready'', pr_deterministic_score = 80,
     pr_llm_score = 80, pr_final_score = 80, pr_status = st, pr_created_at = t, pr_updated_at = t,
     pr_promoted_at = (if st = ACTIVE then Some t else None), pr_archived_at = None,
     pr_governance = sample_report, pr_quality = sample_quality, pr_decisions = []\<rparr>"

theorem at_most_one_active_witness:
  "length (filter (\<lambda>r. pr_status r = ACTIVE) (snd (materialize_proposals_and_decisions
     \<lparr>se_settings = governance_default, se_hard_gates = hard_gates_default,
      se_yellow_flags = yellow_flags_default, se_interval = 15, se_snapshot = sample_snapshot,
      se_macro = \<lparr>ms_provider = [], ms_status = [], ms_degraded = False\<rparr>, se_market_scope = ''HK'',
      se_sentiment = 0, se_now = 0\<rparr> (get_active_strategy [])
     [\<lparr>md_blueprint = sample_blueprint ''trend_following'', md_fallback_score = 90, md_llm_answer = Some (Fin 90),
       md_outcome = Inr sample_result, md_id = ''a'', md_decision_id = ''d''\<rparr>,
      \<lparr>md_blueprint = sample_blueprint ''trend_following'', md_fallback_score = 95, md_llm_answer = Some (Fin 95),
       md_outcome = Inr sample_result, md_id = ''b'', md_decision_id = ''e''\<rparr>] []))) \<le> 1"
  by (rule at_most_one_active [THEN conjunct2, THEN conjunct1], rule r_into_rtranclp, rule Materialize)
    (simp_all add: sample_blueprint_def)

section \<open>A pause does not last\<close>

lemma update_row_middle:
  assumes "pr_id b \<notin> pr_id ` set (xs @ ys)"
  shows "update_row (pr_id b) f (xs @ b # ys) = xs @ f b # ys"
proof -
  have "update_row (pr_id b) f xs = xs" "update_row (pr_id b) f ys = ys"
    using assms by (auto intro: update_row_absent)
  moreover have "update_row (pr_id b) f (b # ys) = f b # update_row (pr_id b) f ys"
    by (simp add: update_row_def update_where_def)
  ultimately show ?thesis by simp
qed

lemma actives_split:
  assumes "actives pool = [a]" "pool = xs @ a # ys" "pr_status a = ACTIVE"
  shows "actives xs = []" "actives ys = []"
  using assms by (auto simp: append_eq_Cons_conv)

lemma first_of_strict_max:
  assumes "c \<in> set xs" "\<And>y. y \<in> set xs \<Longrightarrow> y \<noteq> c \<Longrightarrow> pr_promoted_at y < pr_promoted_at c"
  shows "first_of (by_promotion xs) = Some c"
proof (cases "first_of (by_promotion xs)")
  case None
  with assms(1) show ?thesis by auto
next
  case (Some x)
  have "(pr_promoted_at c, pr_created_at c) \<le> (pr_promoted_at x, pr_created_at x)"
    using first_of_by_promotion(2) [OF Some assms(1)] .
  then have "\<not> pr_promoted_at x < pr_promoted_at c" by (auto simp: less_eq_prod_def)
  with assms(2) [of x] first_of_by_promotion(1) [OF Some] Some show ?thesis by auto
qed

lemma sorted_last: "sorted xs \<Longrightarrow> x \<in> set xs \<Longrightarrow> x \<le> last xs"
  by (induction xs) auto

lemma latest_snoc:
  assumes "\<forall>d\<in>set (pr_decisions p). dc_created_at d < dc_created_at e"
  shows "latest_proposal_decision (p\<lparr>pr_decisions := pr_decisions p @ [e]\<rparr>) = Some e"
proof -
  let ?k = "\<lambda>d. (dc_created_at d, dc_id d)"
  let ?ds = "pr_decisions p @ [e]"
  have ne: "sort_key ?k ?ds \<noteq> []" by simp
  have "?k e \<le> last (map ?k (sort_key ?k ?ds))"
    by (rule sorted_last) simp_all
  then have "?k e \<le> ?k (last (sort_key ?k ?ds))" by (simp only: last_map [OF ne])
  then have "dc_created_at e \<le> dc_created_at (last (sort_key ?k ?ds))" by (auto simp: less_eq_prod_def)
  moreover have "last (sort_key ?k ?ds) \<in> set ?ds" using last_in_set [OF ne] by simp
  ultimately have "last (sort_key ?k ?ds) = e" using assms by auto
  then show ?thesis by (simp add: latest_proposal_decision_def)
qed

lemma latest_decisions_only: "pr_decisions p = pr_decisions q \<Longrightarrow> latest_proposal_decision p = latest_proposal_decision q"
  by (simp add: latest_proposal_decision_def)

lemma health_early_return:
  assumes "get_active_strategy pool = Some a" "latest_proposal_decision a = Some d"
    "dc_action d \<in> {PAUSE_ACTIVE, ROLLBACK_TO_PREVIOUS_STABLE}"
  shows "evaluate_active_strategy_health scope dd did now pool = (Some d, pool)"
  using assms by (simp add: evaluate_active_strategy_health_def Let_def)

definition paused :: "string \<Rightarrow> proposal \<Rightarrow> datetime \<Rightarrow> proposal" where
  "paused did a now = a\<lparr>pr_status := CANDIDATE, pr_updated_at := now,
     pr_decisions := pr_decisions a @ [health_decision did PAUSE_ACTIVE a now]\<rparr>"

definition recovered :: "datetime \<Rightarrow> proposal \<Rightarrow> proposal" where
  "recovered now r = r\<lparr>pr_status := ACTIVE, pr_archived_at := None, pr_updated_at := now\<rparr>"

lemma recover_alt:
  "recover_active_strategy now pool =
     (case first_of (by_promotion (filter (\<lambda>r. pr_source_kind r \<noteq> ''mock'' \<and> pr_promoted_at r \<noteq> None) pool)) of
        None \<Rightarrow> (None, pool)
      | Some c \<Rightarrow> (Some (recovered now c), update_row (pr_id c) (recovered now) pool))"
  unfolding recover_active_strategy_def Let_def recovered_def [abs_def] ..

lemma latest_paused:
  assumes "\<forall>d\<in>set (pr_decisions a). dc_created_at d < now"
  shows "latest_proposal_decision (paused did a now) = Some (health_decision did PAUSE_ACTIVE a now)"
  using latest_snoc [of a "health_decision did PAUSE_ACTIVE a now"] assms
  by (simp add: paused_def latest_proposal_decision_def health_decision_def)

lemma latest_in_decisions: "latest_proposal_decision a = Some d \<Longrightarrow> d \<in> set (pr_decisions a)"
proof -
  assume "latest_proposal_decision a = Some d"
  then have "pr_decisions a \<noteq> []" "d = last (sort_key (\<lambda>d. (dc_created_at d, dc_id d)) (pr_decisions a))"
    by (auto simp: latest_proposal_decision_def split: if_splits)
  then show ?thesis using last_in_set [of "sort_key (\<lambda>d. (dc_created_at d, dc_id d)) (pr_decisions a)"] by simp
qed

lemma health_pauses:
  assumes "actives pool = [a]" "\<forall>d\<in>set (pr_decisions a). dc_action d = PROMOTE_TO_PAPER"
    "gp_live_drawdown_pause (market_governance_profile scope) \<le> dd"
    "dd < gp_live_drawdown_rollback (market_governance_profile scope)"
    "distinct (map pr_id pool)"
    and pool: "pool = xs @ a # ys" "\<And>f. update_row (pr_id a) f pool = xs @ f a # ys"
  shows "evaluate_active_strategy_health scope dd did now pool
    = (Some (health_decision did PAUSE_ACTIVE a now), xs @ paused did a now # ys)"
proof -
  have act: "get_active_strategy pool = Some a" using assms(1) by (simp add: get_active_alt)
  have "\<not> (case latest_proposal_decision a of None \<Rightarrow> False
      | Some d \<Rightarrow> dc_action d \<in> {PAUSE_ACTIVE, ROLLBACK_TO_PREVIOUS_STABLE})"
    using assms(2) latest_in_decisions [of a] by (auto split: option.split)
  then show ?thesis
    using assms(3,4) act pool(2)
    by (simp add: evaluate_active_strategy_health_def Let_def paused_def)
qed

text \<open>A pause does not last.  When the health check pauses the only active strategy, a real
  one that was promoted after every other row, the recovery of the next sync makes the same
  strategy active again; and from then on every health check returns that old pause decision
  without looking at the drawdown, so the strategy is never paused or rolled back again.\<close>

theorem pause_is_undone_by_recovery:
  assumes "distinct (map pr_id pool)" "filter (\<lambda>r. pr_status r = ACTIVE) pool = [a]"
    and "pr_source_kind a \<noteq> ''mock''" "\<forall>r\<in>set pool. r \<noteq> a \<longrightarrow> pr_promoted_at r < pr_promoted_at a"
    and "pr_promoted_at a \<noteq> None"
    and "\<forall>d\<in>set (pr_decisions a). dc_action d = PROMOTE_TO_PAPER \<and> dc_created_at d < now"
    and "gp_live_drawdown_pause (market_governance_profile scope) \<le> dd"
    and "dd < gp_live_drawdown_rollback (market_governance_profile scope)"
  shows "case evaluate_active_strategy_health scope dd did now pool of (d, pool1) \<Rightarrow>
     d = Some (health_decision did PAUSE_ACTIVE a now) \<and> get_active_strategy pool1 = None
     \<and> (case recover_active_strategy later pool1 of (r, pool2) \<Rightarrow>
          map_option pr_id r = Some (pr_id a) \<and> get_active_strategy pool2 = r
          \<and> evaluate_active_strategy_health scope' dd' did' later' pool2 = (d, pool2))"
proof -
  have act: "actives pool = [a]" using assms(2) by (simp add: actives_def)
  then have a: "a \<in> set pool" "pr_status a = ACTIVE"
    using get_active_Some [of pool a] by (simp_all add: get_active_alt)
  obtain xs ys where pool: "pool = xs @ a # ys" "\<And>f. update_row (pr_id a) f pool = xs @ f a # ys"
    and fresh: "pr_id a \<notin> pr_id ` set (xs @ ys)"
    using update_row_split [OF assms(1) a(1)] by metis
  let ?b = "paused did a now"
  let ?c = "recovered later ?b"
  let ?pool1 = "xs @ ?b # ys"
  let ?pool2 = "xs @ ?c # ys"
  have none: "actives xs = []" "actives ys = []"
    using actives_split [OF act pool(1) a(2)] by simp_all
  have ids: "pr_id ?b = pr_id a" "pr_status ?b = CANDIDATE" "pr_promoted_at ?b = pr_promoted_at a"
    "pr_source_kind ?b = pr_source_kind a" "pr_status ?c = ACTIVE" "pr_id ?c = pr_id a"
    by (simp_all add: paused_def recovered_def)
  have h: "evaluate_active_strategy_health scope dd did now pool
      = (Some (health_decision did PAUSE_ACTIVE a now), ?pool1)"
    using assms act pool by (intro health_pauses) auto
  have "first_of (by_promotion (filter (\<lambda>r. pr_source_kind r \<noteq> ''mock'' \<and> pr_promoted_at r \<noteq> None) ?pool1)) = Some ?b"
  proof (rule first_of_strict_max)
    show "?b \<in> set (filter (\<lambda>r. pr_source_kind r \<noteq> ''mock'' \<and> pr_promoted_at r \<noteq> None) ?pool1)"
      using assms(3,5) by (simp add: ids)
  next
    fix y
    assume "y \<in> set (filter (\<lambda>r. pr_source_kind r \<noteq> ''mock'' \<and> pr_promoted_at r \<noteq> None) ?pool1)" "y \<noteq> ?b"
    then have y: "y \<in> set (xs @ ys)" by (auto split: if_splits)
    with fresh have "y \<noteq> a" by auto
    with y show "pr_promoted_at y < pr_promoted_at ?b" using assms(4) by (auto simp: pool(1) ids)
  qed
  moreover have "update_row (pr_id ?b) (recovered later) ?pool1 = ?pool2"
    using update_row_middle [of ?b xs ys "recovered later"] fresh by (simp add: ids del: update_row_append)
  ultimately have r: "recover_active_strategy later ?pool1 = (Some ?c, ?pool2)"
    unfolding recover_alt by (simp only: option.case)
  have "get_active_strategy ?pool1 = None" by (simp add: get_active_None none ids)
  moreover have act2: "get_active_strategy ?pool2 = Some ?c" by (simp add: get_active_alt none ids)
  moreover have "latest_proposal_decision ?c = Some (health_decision did PAUSE_ACTIVE a now)"
    using latest_paused [of a now did] latest_decisions_only [of ?c ?b] assms(6)
    by (simp add: recovered_def)
  then have "evaluate_active_strategy_health scope' dd' did' later' ?pool2
      = (Some (health_decision did PAUSE_ACTIVE a now), ?pool2)"
    by (intro health_early_return [OF act2]) (simp_all add: health_decision_def)
  ultimately show ?thesis by (simp add: h r ids)
qed

lemma sample_proposal_simps [simp]:
  "pr_id (sample_proposal i st t) = i" "pr_status (sample_proposal i st t) = st"
  "pr_source_kind (sample_proposal i st t) = ''minimax''" "pr_decisions (sample_proposal i st t) = []"
  "pr_promoted_at (sample_proposal i st t) = (if st = ACTIVE then Some t else None)"
  "pr_final_score (sample_proposal i st t) = 80" "pr_created_at (sample_proposal i st t) = t"
  by (simp_all add: sample_proposal_def)

theorem pause_is_undone_by_recovery_witness:
  "map_option pr_id (get_active_strategy (snd (recover_active_strategy 200000
     (snd (evaluate_active_strategy_health ''HK'' 0.11 ''d'' 100000 [sample_proposal ''a'' ACTIVE 0])))))
   = Some ''a''"
  using pause_is_undone_by_recovery
    [where pool = "[sample_proposal ''a'' ACTIVE 0]" and a = "sample_proposal ''a'' ACTIVE 0"
       and now = 100000 and scope = "''HK''" and dd = "0.11" and did = "''d''" and later = 200000]
  by (auto simp: hk_governance hk_profile_def split_def)

section \<open>Pruning\<close>

lemma archive_idem [simp]: "archive_record now (archive_record now r) = archive_record now r"
  by (simp add: archive_record_def)

lemma archived_not_candidate [simp]: "\<not> prune_candidate symbol scope (archive_record now r)"
  by (simp add: prune_candidate_def)

lemma filter_candidates_stale:
  "filter (prune_candidate symbol scope) (update_where (stale_rejected gs now) (archive_record now) pool)
     = filter (prune_candidate symbol scope) pool"
  by (induction pool) (auto simp: update_where_def stale_rejected_def prune_candidate_def)

lemma ranked_stale:
  "ranked_survivors gs symbol scope now (update_where (stale_rejected gs now) (archive_record now) pool)
     = ranked_survivors gs symbol scope now pool"
  unfolding ranked_survivors_def filter_candidates_stale ..

lemma id_member:
  assumes "distinct (map pr_id pool)" "r \<in> set pool" "set L \<subseteq> set pool"
  shows "pr_id r \<in> set (map pr_id L) \<longleftrightarrow> r \<in> set L"
  using assms by (auto simp: distinct_map inj_on_def)

lemma ranked_subset: "set (ranked_survivors gs symbol scope now pool) \<subseteq> set pool"
  by (auto simp: ranked_survivors_def)

lemma overflow_subset: "set (overflow gs symbol scope now pool) \<subseteq> set pool"
proof -
  have "set (overflow gs symbol scope now pool) \<subseteq> set (ranked_survivors gs symbol scope now pool)"
    by (auto simp: overflow_def dest: in_set_dropD)
  with ranked_subset show ?thesis by blast
qed

text \<open>The rows that one pruning archives.\<close>

definition pruned :: "governance_settings \<Rightarrow> string \<Rightarrow> string \<Rightarrow> datetime \<Rightarrow> pool \<Rightarrow> proposal \<Rightarrow> bool" where
  "pruned gs symbol scope now pool r \<longleftrightarrow> stale_rejected gs now r
     \<or> (prune_candidate symbol scope r \<and> aged gs now r) \<or> r \<in> set (overflow gs symbol scope now pool)"

lemma prune_alt:
  assumes "distinct (map pr_id pool)"
  shows "snd (prune_strategy_proposals gs symbol scope now pool)
    = update_where (pruned gs symbol scope now pool) (archive_record now) pool"
proof -
  let ?aged = "filter (aged gs now) (filter (prune_candidate symbol scope) pool)"
  let ?over = "overflow gs symbol scope now pool"
  have aged: "r \<in> set pool \<Longrightarrow> pr_id r \<in> set (map pr_id ?aged) \<longleftrightarrow> prune_candidate symbol scope r \<and> aged gs now r" for r
    by (subst id_member [OF assms]) auto
  have over: "r \<in> set pool \<Longrightarrow> pr_id r \<in> set (map pr_id ?over) \<longleftrightarrow> r \<in> set ?over" for r
    by (rule id_member [OF assms _ overflow_subset])
  have res: "snd (prune_strategy_proposals gs symbol scope now pool)
    = update_where (\<lambda>r. pr_id r \<in> set (map pr_id ?over)) (archive_record now)
        (update_where (\<lambda>r. pr_id r \<in> set (map pr_id ?aged)) (archive_record now)
          (update_where (stale_rejected gs now) (archive_record now) pool))"
    unfolding prune_strategy_proposals_def Let_def snd_conv filter_candidates_stale overflow_def ranked_stale ..
  show ?thesis
    unfolding res unfolding update_where_def map_map
  proof (rule map_cong [OF refl])
    fix r
    assume "r \<in> set pool"
    from aged [OF this] over [OF this] show
      "((\<lambda>r. if pr_id r \<in> set (map pr_id ?over) then archive_record now r else r)
        \<circ> ((\<lambda>r. if pr_id r \<in> set (map pr_id ?aged) then archive_record now r else r)
        \<circ> (\<lambda>r. if stale_rejected gs now r then archive_record now r else r))) r
       = (if pruned gs symbol scope now pool r then archive_record now r else r)"
      unfolding pruned_def by (simp del: set_map)
  qed
qed

lemma overflow_props:
  assumes "r \<in> set (overflow gs symbol scope now pool)"
  shows "prune_candidate symbol scope r" "\<not> protected_phase r" "\<not> aged gs now r"
    "r \<in> set (drop (retention_limit gs) (ranked_survivors gs symbol scope now pool))"
proof -
  from assms have r: "r \<in> set (drop (retention_limit gs) (ranked_survivors gs symbol scope now pool))"
    and p: "\<not> protected_phase r" by (simp_all add: overflow_def)
  from in_set_dropD [OF r] have "r \<in> set (filter (\<lambda>r. \<not> aged gs now r) (filter (prune_candidate symbol scope) pool))"
    by (simp add: ranked_survivors_def)
  with r p show "prune_candidate symbol scope r" "\<not> protected_phase r" "\<not> aged gs now r"
    "r \<in> set (drop (retention_limit gs) (ranked_survivors gs symbol scope now pool))" by simp_all
qed

lemma survivor_kept:
  assumes "r \<in> set pool" "prune_candidate symbol scope r" "\<not> protected_phase r"
    "\<not> pruned gs symbol scope now pool r"
  shows "r \<in> set (take (retention_limit gs) (ranked_survivors gs symbol scope now pool))"
proof -
  have "r \<in> set (ranked_survivors gs symbol scope now pool)"
    using assms by (auto simp: ranked_survivors_def pruned_def)
  then have "r \<in> set (take (retention_limit gs) (ranked_survivors gs symbol scope now pool))
     \<or> r \<in> set (drop (retention_limit gs) (ranked_survivors gs symbol scope now pool))"
    by (metis UnE append_take_drop_id set_append)
  then show ?thesis using assms by (auto simp: pruned_def overflow_def)
qed

lemma filter_update_where_kept:
  assumes "\<And>r. \<not> Q (f r)"
  shows "filter Q (update_where P f pool) = filter (\<lambda>r. Q r \<and> \<not> P r) pool"
  by (induction pool) (auto simp: update_where_def assms)

lemma pruned_status: "pruned gs symbol scope now pool r \<Longrightarrow> pr_status r = REJECTED \<or> pr_status r = CANDIDATE"
  using overflow_props(1) by (auto simp: pruned_def stale_rejected_def prune_candidate_def)

lemma prune_actives:
  assumes "distinct (map pr_id pool)"
  shows "actives (snd (prune_strategy_proposals gs symbol scope now pool)) = actives pool"
  unfolding prune_alt [OF assms] actives_def
  by (subst filter_update_where_kept) (auto intro!: filter_cong dest: pruned_status)

text \<open>C17. What pruning does to a table with distinct identifiers: active rows and the candidates
  in a cooldown or under review stay; at most the retention limit of other candidates of the
  scope remains; none of those that remain scores below one that was archived for want of room;
  every archived row was a stale rejection, an aged candidate or an overflowing one.\<close>

theorem prune_contract:
  assumes "distinct (map pr_id pool)"
    and kept_def: "kept = filter (\<lambda>r. prune_candidate symbol scope r \<and> \<not> protected_phase r)
      (snd (prune_strategy_proposals gs symbol scope now pool))"
  shows "filter (\<lambda>r. pr_status r = ACTIVE) (snd (prune_strategy_proposals gs symbol scope now pool))
      = filter (\<lambda>r. pr_status r = ACTIVE) pool
    \<and> filter (\<lambda>r. pr_status r = CANDIDATE \<and> protected_phase r) (snd (prune_strategy_proposals gs symbol scope now pool))
      = filter (\<lambda>r. pr_status r = CANDIDATE \<and> protected_phase r) pool
    \<and> length kept \<le> nat (max 1 (candidate_retention_limit gs))
    \<and> (\<forall>r\<in>set kept. \<forall>x\<in>set (overflow gs symbol scope now pool). pr_final_score x \<le> pr_final_score r)
    \<and> snd (prune_strategy_proposals gs symbol scope now pool)
      = map (\<lambda>r. if stale_rejected gs now r \<or> prune_candidate symbol scope r \<and> aged gs now r
                   \<or> r \<in> set (overflow gs symbol scope now pool) then archive_record now r else r) pool"
proof -
  let ?P = "pruned gs symbol scope now pool"
  have prot: "?P r \<Longrightarrow> pr_status r = CANDIDATE \<Longrightarrow> \<not> protected_phase r" for r
    using overflow_props(2) by (auto simp: pruned_def stale_rejected_def aged_def)
  have kept: "kept = filter (\<lambda>r. (prune_candidate symbol scope r \<and> \<not> protected_phase r) \<and> \<not> ?P r) pool"
    unfolding kept_def prune_alt [OF assms(1)] by (rule filter_update_where_kept) simp
  have sub: "set kept \<subseteq> set (take (retention_limit gs) (ranked_survivors gs symbol scope now pool))"
    unfolding kept by (auto intro: survivor_kept)
  have "distinct kept" using assms(1) unfolding kept by (simp add: distinct_map)
  then have "length kept = card (set kept)" by (simp add: distinct_card)
  also have "\<dots> \<le> card (set (take (retention_limit gs) (ranked_survivors gs symbol scope now pool)))"
    by (rule card_mono [OF _ sub]) simp
  also have "\<dots> \<le> retention_limit gs"
    by (rule order_trans [OF card_length]) simp
  finally have len: "length kept \<le> nat (max 1 (candidate_retention_limit gs))" by (simp add: retention_limit_def)
  have score: "pr_final_score x \<le> pr_final_score r"
    if "r \<in> set kept" "x \<in> set (overflow gs symbol scope now pool)" for r x
    using sort_desc_take_ge [of r _ "\<lambda>r. (pr_final_score r, pr_created_at r)" _ x] that sub overflow_props(4) [OF that(2)]
    unfolding ranked_survivors_def by (fastforce simp: less_eq_prod_def)
  have pro: "filter (\<lambda>r. pr_status r = CANDIDATE \<and> protected_phase r) (snd (prune_strategy_proposals gs symbol scope now pool))
      = filter (\<lambda>r. pr_status r = CANDIDATE \<and> protected_phase r) pool"
    unfolding prune_alt [OF assms(1)] by (subst filter_update_where_kept) (auto intro!: filter_cong dest: prot)
  show ?thesis
    using prune_actives [OF assms(1), unfolded actives_def] pro len score unfolding prune_alt [OF assms(1)] update_where_def pruned_def by blast
qed

theorem prune_contract_witness:
  "length (filter (\<lambda>r. prune_candidate ''2800.HK'' ''HK'' r \<and> \<not> protected_phase r)
     (snd (prune_strategy_proposals (governance_default\<lparr>candidate_retention_limit := 1\<rparr>) ''2800.HK'' ''HK'' 0
       [sample_proposal ''a'' CANDIDATE 0, sample_proposal ''b'' CANDIDATE 0]))) \<le> 1"
  by (rule prune_contract [OF _ refl, THEN conjunct2, THEN conjunct2, THEN conjunct1, THEN order_trans])
    simp_all

section \<open>A mock proposal and its replacement\<close>

lemma promote_allowed_replacing:
  assumes "gi_wf i" "promote_allowed gs (i\<lparr>gi_active_context := None\<rparr>)"
    "ac_source_kind c = ''mock''" "gi_proposal_source_kind i \<noteq> ''mock''" "ac_final_score c \<le> gi_final_score i"
  shows "promote_allowed gs (i\<lparr>gi_active_context := Some c\<rparr>)"
proof -
  let ?i = "i\<lparr>gi_active_context := None\<rparr>" and ?j = "i\<lparr>gi_active_context := Some c\<rparr>"
  have wf: "gi_wf ?i" "gi_wf ?j" using assms(1) by (simp_all add: gi_wf_def gi_knowledge_blocked_def)
  have same: "backtest_blocked_reasons gs ?j = backtest_blocked_reasons gs ?i"
    "gi_knowledge_blocked ?j = gi_knowledge_blocked ?i"
    by (simp_all add: backtest_blocked_reasons_def gi_knowledge_blocked_def)
  have p: "gp_promote_threshold (market_governance_profile (gi_market_scope i)) \<le> gi_final_score i"
    using assms(2) by (simp add: promote_allowed_def)
  then have "can_challenge_active ?j"
    using assms by (simp add: can_challenge_active_def replacing_mock_active_def)
  then show ?thesis
    using assms(2) p unfolding promote_allowed_iff [OF wf(1)] promote_allowed_iff [OF wf(2)]
      promotion_blocked_mock_only [OF wf(1)] promotion_blocked_mock_only [OF wf(2)] same
    by simp
qed

lemma draft_input_wf: "gi_wf (draft_input env ctx k m)"
  using gi_wf_produced [where i = "draft_input env ctx k m" and kb = "Some (md_blueprint m, se_snapshot env)"
      and hg = "se_hard_gates env" and yf = "se_yellow_flags env" and oc = "Some (md_outcome m)"]
  by (simp add: draft_input_def draft_gate_def)

lemma draft_input_context:
  "(draft_input env ctx k m)\<lparr>gi_active_context := c\<rparr> = draft_input env c k m"
  by (simp add: draft_input_def)

text \<open>A batch can leave two active strategies.  When a mock proposal is promoted and a real
  one follows in the same batch, scores at least as high and would be promoted on its own, both
  end up active: the real one replaces the mock one in the comparison, but only the strategy
  that was active before the batch is archived.\<close>

theorem mock_and_real_both_active:
  assumes "bp_source_kind (md_blueprint m) = ''mock''" "bp_source_kind (md_blueprint m') \<noteq> ''mock''"
    and "promote_allowed (se_settings env) (draft_input env (map_option proposal_context prev) 0 m)"
    and "promote_allowed (se_settings env) (draft_input env None 1 m')"
    and "draft_final_score env 0 m \<le> draft_final_score env 1 m'"
  shows "map pr_status (fst (materialize_proposals_and_decisions env prev [m, m'] pool)) = [ACTIVE, ACTIVE]"
proof -
  define p where "p = materialize_one env (map_option proposal_context prev) 0 m"
  have p: "pr_status p = ACTIVE" "pr_source_kind p = ''mock''" "pr_final_score p = draft_final_score env 0 m"
    using assms(1,3) by (simp_all add: p_def decide_status)
      (simp_all add: materialize_one_def Let_def split_def)
  have "promote_allowed (se_settings env) (draft_input env (Some (proposal_context p)) 1 m')"
    using promote_allowed_replacing [OF draft_input_wf, of "se_settings env" env None 1 m' "proposal_context p"]
      assms(2,4,5) p
    by (simp only: draft_input_context) (simp add: proposal_context_def draft_input_def)
  then show ?thesis
    using p(1) unfolding materialize_proposals_and_decisions_def Let_def fst_conv
    by (simp add: Let_def decide_status flip: p_def)
qed

definition sample_env :: sync_env where
  "sample_env = \<lparr>se_settings = governance_default, se_hard_gates = hard_gates_default,
     se_yellow_flags = yellow_flags_default, se_interval = 15, se_snapshot = sample_snapshot,
     se_macro = \<lparr>ms_provider = [], ms_status = [], ms_degraded = False\<rparr>, se_market_scope = ''HK'',
     se_sentiment = 1, se_now = 0\<rparr>"

definition sample_baseline :: "string \<Rightarrow> blueprint" where
  "sample_baseline source = \<lparr>bp_title = ''t'', bp_base_strategy = ''ma_cross'', bp_thesis = ''trend'',
     bp_knowledge_families_used = [], bp_baseline_delta_summary = [], bp_novelty_claim = [],
     bp_features_used = [''SMA'', ''EMA''], bp_params = [(''short_window'', PNum 8), (''long_window'', PNum 30)],
     bp_source_kind = source, bp_provider_status = ''ready''\<rparr>"

definition sample_draft :: "string \<Rightarrow> real \<Rightarrow> draft" where
  "sample_draft source raw = \<lparr>md_blueprint = sample_baseline source, md_fallback_score = raw, md_llm_answer = Some (Fin raw),
     md_outcome = Inr sample_result, md_id = source, md_decision_id = source\<rparr>"

lemma sample_baseline_unblocked: "ka_blocked_reasons (assess_knowledge (sample_baseline s) sample_snapshot) = []"
  by code_simp

lemma sample_draft_scores:
  "draft_final_score sample_env 0 (sample_draft ''mock'' 70) = 83.4"
  "draft_final_score sample_env 1 (sample_draft ''minimax'' 95) = 86.7"
proof -
  have up: "py_upper ''BULLISH'' = ''BULLISH''" by code_simp
  have pen: "knowledge_penalty_score (assess_knowledge (sample_baseline s) sample_snapshot) = 0" for s
    by (simp add: knowledge_penalty_score_def sample_baseline_unblocked)
  have d: "draft_score sample_env 0 (sample_draft s x) = 89.1" "draft_score sample_env 1 (sample_draft s x) = 83.1" for s x
    using py_round_exact [of "89.1" 1 891] py_round_exact [of "83.1" 1 831]
    by (simp_all add: draft_score_def sample_env_def sample_snapshot_def sample_draft_def sample_baseline_def
        deterministic_score_def up)
  have r: "round_even (8337 / 10) = 834" "round_even (8667 / 10) = 867"
    by (simp_all add: round_even_def Let_def)
  have "py_round (89.1 * 0.7 + 70 * 0.3) 1 = 83.4" "py_round (83.1 * 0.7 + 95 * 0.3) 1 = 86.7"
    by (simp_all add: py_round_def r)
  moreover have "judged_llm_score (sample_baseline ''mock'') 70 (Some (Fin 70))
      (assess_knowledge (sample_baseline ''mock'') sample_snapshot) = 70"
    "judged_llm_score (sample_baseline ''minimax'') 95 (Some (Fin 95))
      (assess_knowledge (sample_baseline ''minimax'') sample_snapshot) = 95"
    by (simp_all add: judged_llm_score_def pen sample_baseline_def fl_sub_def) (simp_all add: sample_baseline_def pen [unfolded sample_baseline_def])
  ultimately show "draft_final_score sample_env 0 (sample_draft ''mock'' 70) = 83.4"
    "draft_final_score sample_env 1 (sample_draft ''minimax'' 95) = 86.7"
    unfolding draft_final_score_def d
    by (simp_all add: sample_draft_def sample_env_def)
qed

lemma sample_draft_allowed:
  assumes "draft_final_score sample_env k (sample_draft s x) \<ge> 76"
  shows "promote_allowed governance_default (draft_input sample_env None k (sample_draft s x))"
proof -
  let ?i = "draft_input sample_env None k (sample_draft s x)"
  have gate: "draft_gate sample_env (sample_draft s x)
      = proposal_backtest_gate hard_gates_default yellow_flags_default (Inr sample_result)"
    by (simp add: draft_gate_def sample_env_def sample_draft_def)
  have elig: "bg_eligible (draft_gate sample_env (sample_draft s x))"
    unfolding gate by (rule sample_result_eligible)
  then have admitted: "backtest_gate_bottom_line (draft_gate sample_env (sample_draft s x))"
    unfolding gate by (simp add: backtest_gate_bottom_line_def proposal_backtest_gate_def Let_def)
  have "gi_knowledge_blocked ?i = []"
    by (simp add: gi_knowledge_blocked_def draft_input_def sample_env_def sample_draft_def sample_baseline_unblocked)
  moreover have "backtest_blocked_reasons governance_default ?i = []"
    using elig by (simp add: backtest_blocked_Nil draft_input_def)
  moreover have "can_challenge_active ?i" by (simp add: can_challenge_active_def score_delta_def draft_input_def)
  moreover have "gp_promote_threshold (market_governance_profile (gi_market_scope ?i)) \<le> gi_final_score ?i"
    using assms by (simp add: draft_input_def sample_env_def hk_governance hk_profile_def)
  moreover have "\<not> ms_degraded (gi_macro_status ?i)" by (simp add: draft_input_def sample_env_def)
  moreover have "gi_bottom_line_passed ?i"
    using bottom_line_true [of "draft_score sample_env k (sample_draft s x)"] admitted
    by (simp add: draft_input_def draft_bottom_line_def bottom_line_values_def Let_def)
  ultimately show ?thesis
    unfolding promote_allowed_iff [OF draft_input_wf] promotion_blocked_mock_only [OF draft_input_wf] by simp
qed

theorem mock_and_real_both_active_witness:
  "map pr_status (fst (materialize_proposals_and_decisions sample_env None
     [sample_draft ''mock'' 70, sample_draft ''minimax'' 95] [])) = [ACTIVE, ACTIVE]"
proof (rule mock_and_real_both_active)
  have gs: "se_settings sample_env = governance_default" by (simp add: sample_env_def)
  show "promote_allowed (se_settings sample_env)
      (draft_input sample_env (map_option proposal_context None) 0 (sample_draft ''mock'' 70))"
    unfolding gs option.map by (rule sample_draft_allowed) (simp add: sample_draft_scores)
  show "promote_allowed (se_settings sample_env) (draft_input sample_env None 1 (sample_draft ''minimax'' 95))"
    unfolding gs by (rule sample_draft_allowed) (simp add: sample_draft_scores(2) [unfolded One_nat_def])
  show "draft_final_score sample_env 0 (sample_draft ''mock'' 70) \<le> draft_final_score sample_env 1 (sample_draft ''minimax'' 95)"
    unfolding sample_draft_scores by simp
qed (simp_all add: sample_draft_def sample_baseline_def)

end
