(* ===== verification/Paper_Pool.thy ===== *)
theory Paper_Pool imports Pool_Properties begin

text \<open>
  The paper trading slots of \<open>api/services.py\<close>: which proposals are eligible for a slot, how the
  slots are created and how a sync assigns them.  A slot identifier is the primary slot or the
  candidate slot of a number; the table, whose identifiers are unique, is a map.
\<close>

datatype slot_id = Primary_slot | Candidate_slot nat
datatype slot_kind = Primary_kind | Candidate_kind
datatype slot_status = Idle | Assigned | Running
datatype entry_reason = Paper_pool_seed | Primary_active_sync | Candidate_slot_idle
  | Candidate_slot_priority_selection

record slot =
  sl_slot_id :: slot_id
  sl_slot_kind :: slot_kind
  sl_proposal_id :: "string option"
  sl_status :: slot_status
  sl_rank :: "nat option"
  sl_assigned_at :: "datetime option"
  sl_updated_at :: datetime
  sl_last_executed_at :: "datetime option"
  sl_entry_reason :: entry_reason

type_synonym slot_table = "slot_id \<rightharpoonup> slot"

definition paper_slot_count :: "governance_settings \<Rightarrow> nat" where
  "paper_slot_count gs = nat (max 1 (Settings.paper_slot_count gs))"

definition candidate_paper_slot_ids :: "governance_settings \<Rightarrow> slot_id list" where
  "candidate_paper_slot_ids gs = map Candidate_slot [1..<paper_slot_count gs]"

definition paper_slot_ids :: "governance_settings \<Rightarrow> slot_id list" where
  "paper_slot_ids gs = Primary_slot # candidate_paper_slot_ids gs"

section \<open>Eligibility and order\<close>

definition paper_candidate_eligible :: "string option \<Rightarrow> proposal \<Rightarrow> bool" where
  "paper_candidate_eligible active_id p =
     (if pr_source_kind p = ''mock'' then False
      else if active_id = Some (pr_id p) then False
      else if ka_blocked_reasons (qr_knowledge (pr_quality p)) \<noteq> [] then False
      else bg_eligible (qr_backtest_gate (pr_quality p)) \<and> gr_promotion_blocked (pr_governance p) = [])"

definition paper_slot_sort_key :: "proposal \<Rightarrow> real \<times> real \<times> real \<times> datetime" where
  "paper_slot_sort_key p =
     (if bg_eligible (qr_backtest_gate (pr_quality p)) then 1 else 0,
      if qr_replaceable (pr_quality p) then 1 else 0, pr_final_score p, pr_created_at p)"

definition ranked_candidates :: "governance_settings \<Rightarrow> string option \<Rightarrow> pool \<Rightarrow> proposal list" where
  "ranked_candidates gs active_id pool =
     take (paper_slot_count gs - 1)
       (sort_desc paper_slot_sort_key
         (filter (paper_candidate_eligible active_id) (list_candidate_strategies pool)))"

section \<open>Slots\<close>

definition seed_slot :: "proposal option \<Rightarrow> datetime \<Rightarrow> slot_id \<Rightarrow> slot" where
  "seed_slot active now i =
     \<lparr>sl_slot_id = i,
      sl_slot_kind = (if i = Primary_slot then Primary_kind else Candidate_kind),
      sl_proposal_id = (if i = Primary_slot then map_option pr_id active else None),
      sl_status = (if i = Primary_slot \<and> active \<noteq> None then Assigned else Idle),
      sl_rank = (if i = Primary_slot then Some 1 else None),
      sl_assigned_at = (if i = Primary_slot \<and> active \<noteq> None then Some now else None),
      sl_updated_at = now, sl_last_executed_at = None, sl_entry_reason = Paper_pool_seed\<rparr>"

definition seed_slots :: "governance_settings \<Rightarrow> proposal option \<Rightarrow> datetime \<Rightarrow> slot_table \<Rightarrow> slot_table" where
  "seed_slots gs active now tab =
     fold (\<lambda>i t. case t i of None \<Rightarrow> t(i \<mapsto> seed_slot active now i) | Some _ \<Rightarrow> t) (paper_slot_ids gs) tab"

definition list_paper_slots ::
  "governance_settings \<Rightarrow> proposal option \<Rightarrow> datetime \<Rightarrow> slot_table \<Rightarrow> slot_table \<times> slot list" where
  "list_paper_slots gs active now tab =
     (let tab' = seed_slots gs active now tab
      in (tab', List.map_filter tab' (paper_slot_ids gs)))"

definition assign_primary :: "proposal option \<Rightarrow> datetime \<Rightarrow> slot \<Rightarrow> slot" where
  "assign_primary active now s =
     s\<lparr>sl_slot_kind := Primary_kind, sl_rank := Some 1, sl_proposal_id := map_option pr_id active,
       sl_status := (if active \<noteq> None then Assigned else Idle),
       sl_assigned_at := (if active \<noteq> None \<and> sl_assigned_at s = None then Some now else sl_assigned_at s),
       sl_updated_at := now, sl_entry_reason := Primary_active_sync\<rparr>"

definition assign_candidate :: "proposal option \<Rightarrow> nat \<Rightarrow> datetime \<Rightarrow> slot \<Rightarrow> slot" where
  "assign_candidate p rank now s =
     (let s' = s\<lparr>sl_slot_kind := Candidate_kind, sl_rank := Some rank, sl_updated_at := now\<rparr> in
      case p of
        None \<Rightarrow> s'\<lparr>sl_proposal_id := None, sl_status := Idle, sl_entry_reason := Candidate_slot_idle\<rparr>
      | Some c \<Rightarrow> s'\<lparr>sl_proposal_id := Some (pr_id c), sl_status := Assigned,
          sl_assigned_at := (case sl_assigned_at s of None \<Rightarrow> Some now | Some t \<Rightarrow> Some t),
          sl_entry_reason := Candidate_slot_priority_selection\<rparr>)"

definition assign_paper_pool_slots ::
  "governance_settings \<Rightarrow> datetime \<Rightarrow> proposal option \<Rightarrow> pool \<Rightarrow> slot_table \<Rightarrow> slot_table \<times> slot list" where
  "assign_paper_pool_slots gs now active pool tab =
     (let tab0 = fst (list_paper_slots gs (get_active_strategy pool) now tab);
          tab1 = tab0(Primary_slot := map_option (assign_primary active now) (tab0 Primary_slot));
          ranked = ranked_candidates gs (map_option pr_id active) pool;
          by_slot = map_of (zip (candidate_paper_slot_ids gs) ranked);
          tab2 = fold (\<lambda>(rank, i) t. t(i := map_option (assign_candidate (by_slot i) rank now) (t i)))
                   (enumerate 1 (candidate_paper_slot_ids gs)) tab1
      in list_paper_slots gs (get_active_strategy pool) now tab2)"

section \<open>The slot table\<close>

lemma distinct_slot_ids: "distinct (paper_slot_ids gs)"
  by (auto simp: paper_slot_ids_def candidate_paper_slot_ids_def distinct_map inj_on_def)

lemma length_slot_ids [simp]: "length (paper_slot_ids gs) = paper_slot_count gs"
  by (simp add: paper_slot_ids_def candidate_paper_slot_ids_def paper_slot_count_def)

lemma seed_fold_some:
  "t i = Some s \<Longrightarrow> fold (\<lambda>i t. case t i of None \<Rightarrow> t(i \<mapsto> seed_slot active now i) | Some _ \<Rightarrow> t) ids t i = Some s"
proof (induction ids arbitrary: t)
  case (Cons a ids)
  show ?case
  proof (cases "t a")
    case None
    with Cons.prems have "(t(a \<mapsto> seed_slot active now a)) i = Some s" by auto
    from Cons.IH [where t = "t(a \<mapsto> seed_slot active now a)", OF this] None show ?thesis
      by (simp del: fun_upd_apply)
  next
    case (Some b)
    with Cons show ?thesis by simp
  qed
qed simp

lemma seed_fold_dom:
  "i \<in> set ids \<Longrightarrow> fold (\<lambda>i t. case t i of None \<Rightarrow> t(i \<mapsto> seed_slot active now i) | Some _ \<Rightarrow> t) ids t i \<noteq> None"
proof (induction ids arbitrary: t)
  case (Cons j ids)
  show ?case
  proof (cases "i = j")
    case True
    then show ?thesis
      by (cases "t j") (simp_all add: seed_fold_some)
  next
    case False
    with Cons show ?thesis by simp
  qed
qed simp

lemma seed_slots_dom: "i \<in> set (paper_slot_ids gs) \<Longrightarrow> seed_slots gs active now tab i \<noteq> None"
  unfolding seed_slots_def by (rule seed_fold_dom)

lemma seed_fold_id:
  "\<forall>i\<in>set ids. t i \<noteq> None \<Longrightarrow> fold (\<lambda>i t. case t i of None \<Rightarrow> t(i \<mapsto> seed_slot active now i) | Some _ \<Rightarrow> t) ids t = t"
  by (induction ids) (auto split: option.split)

lemma seed_slots_id: "\<forall>i\<in>set (paper_slot_ids gs). t i \<noteq> None \<Longrightarrow> seed_slots gs active now t = t"
  unfolding seed_slots_def by (rule seed_fold_id)

lemma map_filter_some: "\<forall>i\<in>set ids. t i \<noteq> None \<Longrightarrow> List.map_filter t ids = map (\<lambda>i. the (t i)) ids"
  by (induction ids) (auto simp: List.map_filter_def)

definition update_at :: "(nat \<Rightarrow> 'k \<Rightarrow> 'v option \<Rightarrow> 'v option) \<Rightarrow> nat \<times> 'k \<Rightarrow> ('k \<rightharpoonup> 'v) \<Rightarrow> 'k \<rightharpoonup> 'v" where
  "update_at g = (\<lambda>(r, i) t. t(i := g r i (t i)))"

lemma update_at_apply: "update_at g (r, i) t j = (if j = i then g r i (t i) else t j)"
  by (simp add: update_at_def)

lemma fold_enumerate_outside: "i \<notin> set ks \<Longrightarrow> fold (update_at g) (enumerate n ks) t i = t i"
  by (induction ks arbitrary: n t) (simp_all add: update_at_apply)

lemma fold_enumerate_map:
  "distinct ks \<Longrightarrow> map (fold (update_at g) (enumerate n ks) t) ks = map (\<lambda>(r, i). g r i (t i)) (enumerate n ks)"
proof (induction ks arbitrary: n t)
  case (Cons k ks)
  let ?t = "update_at g (n, k) t"
  have "map (fold (update_at g) (enumerate (Suc n) ks) ?t) ks = map (\<lambda>(r, i). g r i (?t i)) (enumerate (Suc n) ks)"
    by (rule Cons.IH) (use Cons.prems in simp)
  also have "\<dots> = map (\<lambda>(r, i). g r i (t i)) (enumerate (Suc n) ks)"
    using Cons.prems by (auto simp: in_set_enumerate_eq update_at_apply dest: nth_mem)
  finally show ?case using Cons.prems by (simp add: fold_enumerate_outside update_at_apply)
qed simp

lemma map_of_zip_prefix:
  "distinct ks \<Longrightarrow> length xs \<le> length ks \<Longrightarrow>
   map (map_of (zip ks xs)) ks = map Some xs @ replicate (length ks - length xs) None"
proof (induction ks arbitrary: xs)
  case (Cons k ks)
  show ?case
  proof (cases xs)
    case Nil
    then show ?thesis by (simp add: map_replicate_const)
  next
    case (Cons y ys)
    have "map (\<lambda>i. if i = k then Some y else map_of (zip ks ys) i) ks = map (map_of (zip ks ys)) ks"
      using Cons.prems by (intro map_cong refl) auto
    with Cons Cons.prems Cons.IH [of ys] show ?thesis by (simp add: fun_upd_def)
  qed
qed simp

lemma assign_candidate_proposal [simp]:
  "sl_proposal_id (assign_candidate p r now s) = map_option pr_id p"
  by (simp add: assign_candidate_def Let_def split: option.split)

lemma length_ranked: "length (ranked_candidates gs a pool) \<le> length (candidate_paper_slot_ids gs)"
  by (simp add: ranked_candidates_def candidate_paper_slot_ids_def)

lemma map_enumerate_proposals:
  "\<forall>i\<in>set ks. t i \<noteq> None \<Longrightarrow>
   map (\<lambda>(r, i). sl_proposal_id (the (map_option (assign_candidate (f i) r now) (t i)))) (enumerate n ks)
     = map (\<lambda>i. map_option pr_id (f i)) ks"
  by (induction ks arbitrary: n) auto

lemma assigned_proposals:
  "map sl_proposal_id (snd (assign_paper_pool_slots gs now active pool tab)) =
     map_option pr_id active #
     map (\<lambda>p. Some (pr_id p)) (ranked_candidates gs (map_option pr_id active) pool)
     @ replicate (paper_slot_count gs - 1 - length (ranked_candidates gs (map_option pr_id active) pool)) None"
proof -
  let ?ids = "candidate_paper_slot_ids gs"
  let ?ranked = "ranked_candidates gs (map_option pr_id active) pool"
  define tab0 where "tab0 = seed_slots gs (get_active_strategy pool) now tab"
  define tab1 where "tab1 = tab0(Primary_slot := map_option (assign_primary active now) (tab0 Primary_slot))"
  define g where "g = (\<lambda>r i. map_option (assign_candidate (map_of (zip ?ids ?ranked) i) r now))"
  define tab2 where "tab2 = fold (update_at g) (enumerate 1 ?ids) tab1"
  have step: "(\<lambda>(rank, i) t. t(i := map_option (assign_candidate (map_of (zip ?ids ?ranked) i) rank now) (t i)))
      = update_at g"
    by (simp add: update_at_def g_def)
  have dis: "distinct ?ids" "Primary_slot \<notin> set ?ids"
    using distinct_slot_ids [of gs] by (simp_all add: paper_slot_ids_def)
  have some0: "\<forall>i\<in>set (paper_slot_ids gs). tab0 i \<noteq> None"
    unfolding tab0_def using seed_slots_dom by blast
  then have some1: "\<forall>i\<in>set ?ids. tab1 i \<noteq> None"
    using dis(2) by (auto simp: tab1_def paper_slot_ids_def)
  have cand: "map tab2 ?ids = map (\<lambda>(r, i). g r i (tab1 i)) (enumerate 1 ?ids)"
    unfolding tab2_def by (rule fold_enumerate_map [OF dis(1)])
  have prim: "tab2 Primary_slot = map_option (assign_primary active now) (tab0 Primary_slot)"
    unfolding tab2_def fold_enumerate_outside [OF dis(2)] by (simp add: tab1_def)
  have "\<forall>x\<in>set (map tab2 ?ids). x \<noteq> None"
    unfolding cand using some1 by (auto simp: g_def in_set_enumerate_eq)
  then have some2: "\<forall>i\<in>set (paper_slot_ids gs). tab2 i \<noteq> None"
    using some0 prim by (auto simp: paper_slot_ids_def)
  have "snd (assign_paper_pool_slots gs now active pool tab) = List.map_filter tab2 (paper_slot_ids gs)"
    unfolding assign_paper_pool_slots_def Let_def list_paper_slots_def fst_conv snd_conv step
      tab0_def [symmetric] tab1_def [symmetric] tab2_def [symmetric] seed_slots_id [OF some2] ..
  also have "\<dots> = map (\<lambda>i. the (tab2 i)) (paper_slot_ids gs)" by (rule map_filter_some [OF some2])
  finally have "map sl_proposal_id (snd (assign_paper_pool_slots gs now active pool tab))
      = sl_proposal_id (the (tab2 Primary_slot)) # map (\<lambda>x. sl_proposal_id (the x)) (map tab2 ?ids)"
    by (simp add: paper_slot_ids_def)
  moreover have "sl_proposal_id (the (tab2 Primary_slot)) = map_option pr_id active"
    using some0 unfolding prim by (auto simp: paper_slot_ids_def assign_primary_def)
  moreover have "map (\<lambda>x. sl_proposal_id (the x)) (map tab2 ?ids)
      = map (map_option pr_id) (map (map_of (zip ?ids ?ranked)) ?ids)"
    unfolding cand using map_enumerate_proposals [OF some1, where n = 1 and f = "map_of (zip ?ids ?ranked)"]
    by (simp add: g_def split_def comp_def)
  moreover have "map (map_of (zip ?ids ?ranked)) ?ids = map Some ?ranked @ replicate (length ?ids - length ?ranked) None"
    by (rule map_of_zip_prefix [OF dis(1) length_ranked])
  moreover have "length ?ids = paper_slot_count gs - 1" by (simp add: candidate_paper_slot_ids_def)
  ultimately show ?thesis by simp
qed

lemma ranked_props:
  assumes "p \<in> set (ranked_candidates gs a pool)"
  shows "p \<in> set pool" "pr_status p \<in> {CANDIDATE, ACTIVE}" "paper_candidate_eligible a p"
proof -
  have "p \<in> set (sort_desc paper_slot_sort_key (filter (paper_candidate_eligible a) (list_candidate_strategies pool)))"
    using assms unfolding ranked_candidates_def by (rule in_set_takeD)
  then show "p \<in> set pool" "pr_status p \<in> {CANDIDATE, ACTIVE}" "paper_candidate_eligible a p"
    by (simp_all add: list_candidate_strategies_def by_score_def)
qed

lemma distinct_ranked: "distinct (map pr_id pool) \<Longrightarrow> distinct (map pr_id (ranked_candidates gs a pool))"
proof -
  assume d: "distinct (map pr_id pool)"
  have "distinct (ranked_candidates gs a pool)"
    using d unfolding ranked_candidates_def list_candidate_strategies_def by_score_def
    by (simp add: distinct_map)
  moreover have "inj_on pr_id (set (ranked_candidates gs a pool))"
    using d ranked_props(1) by (auto simp: distinct_map inj_on_def)
  ultimately show ?thesis by (simp add: distinct_map)
qed

lemma slots_by_id:
  "map (\<lambda>i. map_option sl_proposal_id (fst (assign_paper_pool_slots gs now active pool tab) i)) (paper_slot_ids gs)
     = map Some (map sl_proposal_id (snd (assign_paper_pool_slots gs now active pool tab)))"
proof -
  have read: "map (\<lambda>i. map_option sl_proposal_id (t i)) ids = map Some (map sl_proposal_id (List.map_filter t ids))"
    if "\<forall>i\<in>set ids. t i \<noteq> None" for t :: slot_table and ids
    using that by (induction ids) (auto simp: map_filter_simps)
  show ?thesis
    unfolding assign_paper_pool_slots_def list_paper_slots_def Let_def fst_conv snd_conv
    by (rule read) (use seed_slots_dom in blast)
qed

lemma ranked_sorted: "sorted_wrt (\<lambda>p q. paper_slot_sort_key q \<le> paper_slot_sort_key p) (ranked_candidates gs a pool)"
  unfolding ranked_candidates_def by (rule sorted_wrt_take) (rule sorted_sort_desc)

lemma ranked_from_candidates: "p \<in> set (ranked_candidates gs a pool) \<Longrightarrow> p \<in> set (list_candidate_strategies pool)"
  unfolding ranked_candidates_def by (auto dest: in_set_takeD)

text \<open>C12. What a sync assigns.  There are as many slots as the settings ask for, one at least,
  and the slot table and the list of slots agree, slot by slot.  The first slot runs the active
  strategy; the others run, in falling order of their sort key and without a gap, eligible
  proposals of the candidate list, and after the last of these nothing; no proposal runs in two
  slots, and an eligible proposal is left out only when every candidate slot is taken by one
  that ranks at least as high.\<close>

theorem assign_slots_contract:
  assumes "distinct (map pr_id pool)" "active = get_active_strategy pool"
    and "slots = map sl_proposal_id (snd (assign_paper_pool_slots gs now active pool tab))"
  shows "length slots = nat (max 1 (Settings.paper_slot_count gs)) \<and> hd slots = map_option pr_id active
    \<and> map (\<lambda>i. map_option sl_proposal_id (fst (assign_paper_pool_slots gs now active pool tab) i)) (paper_slot_ids gs)
        = map Some slots
    \<and> (\<exists>qs. tl slots = map (\<lambda>p. Some (pr_id p)) qs @ replicate (length slots - 1 - length qs) None
         \<and> set qs \<subseteq> {p \<in> set (list_candidate_strategies pool). paper_candidate_eligible (map_option pr_id active) p}
         \<and> sorted_wrt (\<lambda>p q. paper_slot_sort_key q \<le> paper_slot_sort_key p) qs)
    \<and> distinct (filter (\<lambda>s. s \<noteq> None) slots)
    \<and> (\<forall>i. Some i \<in> set (tl slots) \<longrightarrow> (\<exists>p\<in>set pool. pr_id p = i \<and> paper_candidate_eligible (map_option pr_id active) p))
    \<and> (\<forall>q\<in>set (list_candidate_strategies pool). paper_candidate_eligible (map_option pr_id active) q \<longrightarrow>
         Some (pr_id q) \<in> set (tl slots) \<or> list_all (\<lambda>s. \<exists>p\<in>set pool. s = Some (pr_id p)
            \<and> paper_slot_sort_key q \<le> paper_slot_sort_key p) (tl slots))"
proof -
  let ?a = "map_option pr_id active"
  let ?ranked = "ranked_candidates gs ?a pool"
  let ?all = "sort_desc paper_slot_sort_key (filter (paper_candidate_eligible ?a) (list_candidate_strategies pool))"
  have slots: "slots = ?a # map (\<lambda>p. Some (pr_id p)) ?ranked @ replicate (paper_slot_count gs - 1 - length ?ranked) None"
    unfolding assms(3) by (rule assigned_proposals)
  have len: "length ?ranked \<le> paper_slot_count gs - 1" by (simp add: ranked_candidates_def)
  have pos: "1 \<le> paper_slot_count gs" by (simp add: paper_slot_count_def)
  have l: "length slots = nat (max 1 (Settings.paper_slot_count gs))"
    using len pos by (simp add: slots) (simp add: paper_slot_count_def)
  have ne: "?a \<noteq> Some (pr_id p)" if "p \<in> set ?ranked" for p
    using ranked_props(3) [OF that] by (auto simp: paper_candidate_eligible_def split: if_splits)
  have "distinct (map (\<lambda>p. Some (pr_id p)) ?ranked)"
    using distinct_ranked [OF assms(1), of gs ?a] by (simp add: distinct_map inj_on_def)
  then have d: "distinct (filter (\<lambda>s. s \<noteq> None) slots)"
    using ne unfolding slots by (auto simp: filter_map comp_def)
  have e: "\<exists>p\<in>set pool. pr_id p = i \<and> paper_candidate_eligible ?a p" if "Some i \<in> set (tl slots)" for i
    using that ranked_props(1,3) by (force simp: slots)
  have r: "Some (pr_id q) \<in> set (tl slots) \<or> list_all (\<lambda>s. \<exists>p\<in>set pool. s = Some (pr_id p)
            \<and> paper_slot_sort_key q \<le> paper_slot_sort_key p) (tl slots)"
    if q: "q \<in> set (list_candidate_strategies pool)" "paper_candidate_eligible ?a q" for q
  proof (cases "q \<in> set ?ranked")
    case True
    then show ?thesis by (simp add: slots)
  next
    case False
    have "q \<in> set ?all" using q by simp
    with False have drop: "q \<in> set (drop (paper_slot_count gs - 1) ?all)"
      unfolding ranked_candidates_def by (metis UnE append_take_drop_id set_append)
    then have "paper_slot_count gs - 1 < length ?all"
      by (metis drop_all empty_iff leI list.set(1))
    then have "length ?ranked = paper_slot_count gs - 1" by (simp add: ranked_candidates_def)
    moreover have "paper_slot_sort_key q \<le> paper_slot_sort_key p" if "p \<in> set ?ranked" for p
      using sort_desc_take_ge [OF that [unfolded ranked_candidates_def] drop] .
    ultimately show ?thesis using ranked_props(1) by (auto simp: slots list_all_iff)
  qed
  have order: "\<exists>qs. tl slots = map (\<lambda>p. Some (pr_id p)) qs @ replicate (length slots - 1 - length qs) None
         \<and> set qs \<subseteq> {p \<in> set (list_candidate_strategies pool). paper_candidate_eligible ?a p}
         \<and> sorted_wrt (\<lambda>p q. paper_slot_sort_key q \<le> paper_slot_sort_key p) qs"
  proof (intro exI conjI)
    show "tl slots = map (\<lambda>p. Some (pr_id p)) ?ranked @ replicate (length slots - 1 - length ?ranked) None"
      using len by (simp add: slots)
  qed (use ranked_props(3) ranked_from_candidates ranked_sorted in auto)
  have table: "map (\<lambda>i. map_option sl_proposal_id (fst (assign_paper_pool_slots gs now active pool tab) i))
      (paper_slot_ids gs) = map Some slots"
    unfolding assms(3) by (rule slots_by_id)
  have "hd slots = ?a" by (simp add: slots)
  with l table order d e r show ?thesis by blast
qed

theorem assign_slots_contract_witness:
  "hd (map sl_proposal_id (snd (assign_paper_pool_slots governance_default 0
     (get_active_strategy [sample_proposal ''a'' ACTIVE 0]) [sample_proposal ''a'' ACTIVE 0] Map.empty)))
   = Some ''a''"
proof -
  have "hd (map sl_proposal_id (snd (assign_paper_pool_slots governance_default 0
     (get_active_strategy [sample_proposal ''a'' ACTIVE 0]) [sample_proposal ''a'' ACTIVE 0] Map.empty)))
   = map_option pr_id (get_active_strategy [sample_proposal ''a'' ACTIVE 0])"
    by (rule assign_slots_contract [OF _ refl refl, THEN conjunct2, THEN conjunct1]) simp
  then show ?thesis by (simp add: get_active_alt)
qed

section \<open>The candidate slots stay empty\<close>

lemma materialize_one_reports:
  "pr_quality (materialize_one env ctx k m) =
     build_quality_report (with_backtest_metrics (draft_gate env m) (base_evidence (draft_score env k m)))
       (draft_gate env m) (assess_knowledge (md_blueprint m) (se_snapshot env))
       (pr_governance (materialize_one env ctx k m)) (draft_final_score env k m)"
  "gr_promotion_blocked (pr_governance (materialize_one env ctx k m)) =
     dedupe (promotion_blocked_reasons (se_settings env) (draft_input env ctx k m))"
  by (simp_all add: materialize_one_def Let_def split_def governance_action_simps)

lemma kept_candidate_not_eligible:
  "\<not> (pr_status (materialize_one env ctx k m) = CANDIDATE
       \<and> paper_candidate_eligible active_id (materialize_one env ctx k m))"
proof
  assume a: "pr_status (materialize_one env ctx k m) = CANDIDATE
       \<and> paper_candidate_eligible active_id (materialize_one env ctx k m)"
  then have elig: "bg_eligible (draft_gate env m)"
    and none: "promotion_blocked_reasons (se_settings env) (draft_input env ctx k m) = []"
    by (simp_all add: paper_candidate_eligible_def materialize_one_reports build_quality_report_def Let_def
        split: if_splits)
  from elig have "bg_available (draft_gate env m)"
    by (auto simp: draft_gate_def proposal_backtest_gate_def Let_def split: sum.splits)
  with elig have "backtest_gate_bottom_line (draft_gate env m)"
    by (simp add: backtest_gate_bottom_line_def)
  then have "gi_bottom_line_passed (draft_input env ctx k m)"
    using bottom_line_true [of "draft_score env k m"]
    by (simp add: draft_input_def draft_bottom_line_def bottom_line_values_def Let_def)
  with none have "promote_allowed (se_settings env) (draft_input env ctx k m)"
    by (simp add: promote_allowed_iff [OF draft_input_wf])
  with a show False by (simp add: decide_status)
qed

lemma kept_candidates_not_eligible:
  "filter (\<lambda>p. pr_status p = CANDIDATE \<and> paper_candidate_eligible active_id p) (materialize_drafts env ctx k ms) = []"
proof (induction ms arbitrary: ctx k)
  case (Cons m ms)
  then show ?case using kept_candidate_not_eligible [of env ctx k m active_id] by (simp add: Let_def)
qed simp

text \<open>C25. A fresh candidate never gets a paper slot.  Whatever a batch proposes, none of the proposals
  that it keeps as candidates is eligible for a slot, under whatever active strategy: eligibility asks
  for a passed backtest gate and an empty list of reasons against the promotion, and a proposal with
  both is promoted, not kept.\<close>

theorem fresh_candidates_never_get_a_slot:
  "filter (\<lambda>p. pr_status p = CANDIDATE \<and> paper_candidate_eligible active_id p)
     (fst (materialize_proposals_and_decisions env previous ms pool)) = []"
  by (simp add: materialize_proposals_and_decisions_def Let_def kept_candidates_not_eligible)

end
