(* ===== verification/Paper_Execution.thy ===== *)
theory Paper_Execution imports Paper_Pool Symbols Signals begin

text \<open>
  The paper account of \<open>api/services.py\<close>: the tables of a slot, market hours, the target
  quantity, the start of a proposal in its slot and \<open>execute_paper_cycle_for_slot\<close> with every
  exit.  The tables are lists in order of insertion; the service writes the same rows to its
  two database files and reads the first, so one store models both; the execution records of
  the audit log are a list of the store.  The price history, the strategy's signal and the
  latest quote come from outside: a price with its date or nothing, a signal or an exception.
\<close>

section \<open>The store\<close>

record nav_row =
  nr_date :: int
  nr_slot :: slot_id
  nr_proposal :: string
  nr_cash :: real
  nr_position_value :: real
  nr_total_equity :: real

datatype side = Buy_side | Sell_side

record order_row =
  or_slot :: slot_id
  or_proposal :: string
  or_symbol :: string
  or_side :: side
  or_quantity :: int
  or_price :: real
  or_amount :: real
  or_created_at :: datetime

record position_row =
  ps_slot :: slot_id
  ps_proposal :: string
  ps_symbol :: string
  ps_quantity :: int
  ps_avg_cost :: real
  ps_market_value :: real
  ps_updated_at :: datetime

datatype exec_reason = History_unavailable | Market_closed_non_trading_day
  | Market_closed_outside_session | Market_open

datatype explanation = Rebalance_executed | Price_unchanged_position_held
  | Position_held_rounding_flat | Signal_holds_position | Signal_no_trade signal

record execution =
  ex_proposal :: string
  ex_slot :: slot_id
  ex_executed :: bool
  ex_message :: "exec_reason option"
  ex_latest_price :: "real option"
  ex_price_changed :: bool
  ex_equity_changed :: bool
  ex_current_quantity :: int
  ex_target_quantity :: int
  ex_order_side :: "side option"
  ex_order_quantity :: int
  ex_cash :: "real option"
  ex_position_value :: "real option"
  ex_total_equity :: "real option"
  ex_explanation :: "explanation option"
  ex_created_at :: datetime

record paper_store =
  px_nav :: "nav_row list"
  px_orders :: "order_row list"
  px_positions :: "position_row list"
  px_executions :: "execution list"
  px_initialized :: "(string \<times> slot_id) list"
  px_bootstrapped :: "(string \<times> slot_id) list"

text \<open>What a proposal says of its execution: its description's position sizing (0.25 when
  absent) and minimal holding days (0 when absent).\<close>

record account =
  pa_proposal :: string
  pa_symbol :: string
  pa_market_scope :: string
  pa_sizing :: real
  pa_min_holding_days :: int

section \<open>Reading\<close>

definition fetch_nav :: "nat \<Rightarrow> slot_id \<Rightarrow> paper_store \<Rightarrow> nav_row list" where
  "fetch_nav limit s px =
     take limit (sort_desc nr_date (rev (filter (\<lambda>r. nr_slot r = s) (px_nav px))))"

definition fetch_orders :: "nat \<Rightarrow> slot_id \<Rightarrow> paper_store \<Rightarrow> order_row list" where
  "fetch_orders limit s px = take limit (sort_desc or_created_at (filter (\<lambda>r. or_slot r = s) (px_orders px)))"

definition fetch_positions :: "nat \<Rightarrow> slot_id \<Rightarrow> paper_store \<Rightarrow> position_row list" where
  "fetch_positions limit s px =
     take limit (sort_desc ps_updated_at (filter (\<lambda>r. ps_slot r = s) (px_positions px)))"

text \<open>\<open>x or default\<close>: a zero is false in Python.\<close>

definition or_default :: "real \<Rightarrow> real \<Rightarrow> real" where
  "or_default x d = (if x = 0 then d else x)"

record nav_state =
  ns_trade_date :: "int option"
  ns_cash :: real
  ns_position_value :: real
  ns_total_equity :: real

definition latest_paper_nav_state :: "real \<Rightarrow> slot_id \<Rightarrow> paper_store \<Rightarrow> nav_state" where
  "latest_paper_nav_state capital s px =
     (case fetch_nav 1 s px of
        [] \<Rightarrow> \<lparr>ns_trade_date = None, ns_cash = capital, ns_position_value = 0, ns_total_equity = capital\<rparr>
      | r # _ \<Rightarrow> \<lparr>ns_trade_date = Some (nr_date r), ns_cash = or_default (nr_cash r) capital,
                 ns_position_value = or_default (nr_position_value r) 0,
                 ns_total_equity = or_default (nr_total_equity r) capital\<rparr>)"

definition same_symbol :: "string \<Rightarrow> string \<Rightarrow> bool" where
  "same_symbol a b \<longleftrightarrow> normalize_symbol a (Some (detect_market a)) = normalize_symbol b (Some (detect_market b))"

definition latest_paper_position :: "string \<Rightarrow> slot_id \<Rightarrow> paper_store \<Rightarrow> position_row option" where
  "latest_paper_position symbol s px = find (\<lambda>r. same_symbol (ps_symbol r) symbol) (fetch_positions 50 s px)"

definition position_quantity :: "position_row option \<Rightarrow> int" where
  "position_quantity p = (case p of None \<Rightarrow> 0 | Some r \<Rightarrow> ps_quantity r)"

definition latest_paper_execution :: "string \<Rightarrow> slot_id \<Rightarrow> paper_store \<Rightarrow> execution option" where
  "latest_paper_execution p s px =
     find (\<lambda>e. ex_slot e = s)
       (sort_desc ex_created_at (rev (filter (\<lambda>e. ex_proposal e = p) (px_executions px))))"

section \<open>Market hours\<close>

definition resolved_scope :: "string \<Rightarrow> string \<Rightarrow> string" where
  "resolved_scope symbol scope =
     (let s = py_upper (py_strip scope) in
      if s \<noteq> [] then s
      else if symbol \<noteq> [] then (case detect_market symbol of market.HK \<Rightarrow> ''HK'' | market.CN \<Rightarrow> ''CN'' | market.US \<Rightarrow> ''US'')
      else ''HK'')"

definition is_trading_day :: "datetime \<Rightarrow> string \<Rightarrow> bool" where
  "is_trading_day now scope = (if scope \<in> set [''HK'', ''CN'', ''US''] then dt_weekday now < 5 else True)"

definition paper_market_is_open :: "datetime \<Rightarrow> string \<Rightarrow> string \<Rightarrow> bool \<times> exec_reason" where
  "paper_market_is_open now symbol scope =
     (let s = resolved_scope symbol scope in
      if \<not> is_trading_day now s then (False, Market_closed_non_trading_day)
      else if s = ''HK'' then (570 \<le> dt_minutes now \<and> dt_minutes now < 960, Market_closed_outside_session)
      else if s = ''CN'' then (570 \<le> dt_minutes now \<and> dt_minutes now < 900, Market_closed_outside_session)
      else (True, Market_open))"

section \<open>Quantities\<close>

definition market_lot_size :: "string \<Rightarrow> int" where
  "market_lot_size symbol = (if detect_market symbol \<in> {market.HK, market.CN} then 100 else 1)"

definition lots :: "real \<Rightarrow> real \<Rightarrow> int \<Rightarrow> int" where
  "lots notional price lot = max lot ((\<lfloor>notional / price\<rfloor> div lot) * lot)"

definition sizing_value :: "account \<Rightarrow> real" where
  "sizing_value a = max 0.05 (min 0.5 (pa_sizing a))"

definition current_target_quantity :: "account \<Rightarrow> real \<Rightarrow> real \<Rightarrow> signal \<Rightarrow> slot_id \<Rightarrow> paper_store \<Rightarrow> int" where
  "current_target_quantity a price equity sig s px =
     (if price \<le> 0 then 0
      else if sig = SELL then 0
      else if sig \<noteq> BUY then position_quantity (latest_paper_position (pa_symbol a) s px)
      else max 0 (lots (max 0 equity * sizing_value a) price (market_lot_size (pa_symbol a))))"

definition held_too_briefly :: "account \<Rightarrow> datetime \<Rightarrow> slot_id \<Rightarrow> paper_store \<Rightarrow> bool" where
  "held_too_briefly a now s px \<longleftrightarrow> pa_min_holding_days a > 0
     \<and> (case find (\<lambda>r. same_symbol (or_symbol r) (pa_symbol a) \<and> or_side r = Buy_side) (fetch_orders 200 s px) of
          None \<Rightarrow> False
        | Some r \<Rightarrow> dt_date now - dt_date (or_created_at r) < pa_min_holding_days a)"

definition constrained_target :: "account \<Rightarrow> datetime \<Rightarrow> real \<Rightarrow> real \<Rightarrow> signal \<Rightarrow> slot_id \<Rightarrow> paper_store \<Rightarrow> int" where
  "constrained_target a now price equity sig s px =
     (let target = current_target_quantity a price equity sig s px;
          current = position_quantity (latest_paper_position (pa_symbol a) s px)
      in if target < current \<and> held_too_briefly a now s px then current else target)"

definition paper_execution_explanation :: "int \<Rightarrow> bool \<Rightarrow> bool \<Rightarrow> int \<Rightarrow> int \<Rightarrow> signal \<Rightarrow> explanation" where
  "paper_execution_explanation trade_qty price_changed equity_changed target current sig =
     (if trade_qty > 0 then Rebalance_executed
      else if target = current \<and> \<not> price_changed then Price_unchanged_position_held
      else if target = current \<and> price_changed \<and> \<not> equity_changed then Position_held_rounding_flat
      else if target = current then Signal_holds_position
      else Signal_no_trade sig)"

section \<open>Writing\<close>

definition append_daily_nav_if_needed :: "nav_row \<Rightarrow> paper_store \<Rightarrow> paper_store" where
  "append_daily_nav_if_needed r px =
     (let same = (case fetch_nav 1 (nr_slot r) px of [] \<Rightarrow> False
        | l # _ \<Rightarrow> nr_date l = nr_date r \<and> \<bar>nr_cash l - nr_cash r\<bar> \<le> 1 / 10 ^ 9
            \<and> \<bar>nr_position_value l - nr_position_value r\<bar> \<le> 1 / 10 ^ 9
            \<and> \<bar>nr_total_equity l - nr_total_equity r\<bar> \<le> 1 / 10 ^ 9)
      in if same then px else px\<lparr>px_nav := px_nav px @ [r]\<rparr>)"

definition initialize_paper_snapshot :: "real \<Rightarrow> account \<Rightarrow> datetime \<Rightarrow> slot_id \<Rightarrow> paper_store \<Rightarrow> paper_store" where
  "initialize_paper_snapshot capital a now s px =
     (if (pa_proposal a, s) \<in> set (px_initialized px) then px
      else px\<lparr>px_nav := px_nav px @ [\<lparr>nr_date = dt_date now, nr_slot = s, nr_proposal = pa_proposal a,
                 nr_cash = capital, nr_position_value = 0, nr_total_equity = capital\<rparr>],
              px_initialized := px_initialized px @ [(pa_proposal a, s)]\<rparr>)"

definition delete_position :: "slot_id \<Rightarrow> string \<Rightarrow> paper_store \<Rightarrow> paper_store" where
  "delete_position s symbol px =
     px\<lparr>px_positions := filter (\<lambda>r. \<not> (ps_slot r = s \<and> ps_symbol r = symbol)) (px_positions px)\<rparr>"

definition insert_position :: "account \<Rightarrow> slot_id \<Rightarrow> int \<Rightarrow> real \<Rightarrow> real \<Rightarrow> datetime \<Rightarrow> paper_store \<Rightarrow> paper_store" where
  "insert_position a s q cost mv now px =
     px\<lparr>px_positions := px_positions px @ [\<lparr>ps_slot = s, ps_proposal = pa_proposal a, ps_symbol = pa_symbol a,
        ps_quantity = q, ps_avg_cost = cost, ps_market_value = mv, ps_updated_at = now\<rparr>]\<rparr>"

definition insert_order :: "account \<Rightarrow> slot_id \<Rightarrow> side \<Rightarrow> int \<Rightarrow> real \<Rightarrow> real \<Rightarrow> datetime \<Rightarrow> paper_store \<Rightarrow> paper_store" where
  "insert_order a s sd q price amount now px =
     px\<lparr>px_orders := px_orders px @ [\<lparr>or_slot = s, or_proposal = pa_proposal a, or_symbol = pa_symbol a,
        or_side = sd, or_quantity = q, or_price = price, or_amount = amount, or_created_at = now\<rparr>]\<rparr>"

definition log_execution :: "execution \<Rightarrow> paper_store \<Rightarrow> paper_store" where
  "log_execution e px = px\<lparr>px_executions := px_executions px @ [e]\<rparr>"

definition bootstrap_paper_trade ::
  "real \<Rightarrow> account \<Rightarrow> datetime \<Rightarrow> slot_id \<Rightarrow> real option \<Rightarrow> paper_store \<Rightarrow> bool \<times> paper_store" where
  "bootstrap_paper_trade capital a now s quote px =
     (if (pa_proposal a, s) \<in> set (px_bootstrapped px) then (False, px)
      else if \<not> fst (paper_market_is_open now (pa_symbol a) (pa_market_scope a)) then (False, px)
      else
        (case quote of
           None \<Rightarrow> (False, px)
         | Some price \<Rightarrow>
             if price \<le> 0 then (False, px)
             else
               (let q = lots (capital * sizing_value a) price (market_lot_size (pa_symbol a));
                    amount = py_round (of_int q * price) 2;
                    cash = py_round (max 0 (capital - amount)) 2;
                    px1 = insert_order a s Buy_side q price amount now px;
                    px2 = insert_position a s q price amount now (delete_position s (pa_symbol a) px1);
                    px3 = append_daily_nav_if_needed
                      \<lparr>nr_date = dt_date now, nr_slot = s, nr_proposal = pa_proposal a, nr_cash = cash,
                       nr_position_value = amount, nr_total_equity = py_round (cash + amount) 2\<rparr> px2
                in (True, px3\<lparr>px_bootstrapped := px_bootstrapped px3 @ [(pa_proposal a, s)]\<rparr>))))"

section \<open>One execution cycle\<close>

text \<open>What the cycle reads before it acts.\<close>

record cycle_view =
  cv_nav :: nav_state
  cv_quantity :: int
  cv_avg_cost :: real
  cv_previous_price :: "real option"
  cv_previous_equity :: real

definition cycle_view_of :: "real \<Rightarrow> account \<Rightarrow> slot_id \<Rightarrow> real \<Rightarrow> paper_store \<Rightarrow> cycle_view" where
  "cycle_view_of capital a s price px =
     (let nav = latest_paper_nav_state capital s px;
          pos = latest_paper_position (pa_symbol a) s px;
          prev = latest_paper_execution (pa_proposal a) s px
      in \<lparr>cv_nav = nav, cv_quantity = position_quantity pos,
          cv_avg_cost = (case pos of None \<Rightarrow> price | Some r \<Rightarrow> or_default (ps_avg_cost r) price),
          cv_previous_price = (case prev of None \<Rightarrow> None | Some e \<Rightarrow> ex_latest_price e),
          cv_previous_equity = (case prev of None \<Rightarrow> ns_total_equity nav
             | Some e \<Rightarrow> (case ex_total_equity e of None \<Rightarrow> ns_total_equity nav | Some v \<Rightarrow> v))\<rparr>)"

definition price_moved :: "cycle_view \<Rightarrow> real \<Rightarrow> bool" where
  "price_moved v price = (case cv_previous_price v of None \<Rightarrow> True | Some q \<Rightarrow> \<bar>q - price\<bar> > 1 / 10 ^ 9)"

definition equity_moved :: "cycle_view \<Rightarrow> real \<Rightarrow> bool" where
  "equity_moved v equity \<longleftrightarrow> \<bar>cv_previous_equity v - equity\<bar> > 1 / 10 ^ 9"

definition mark_closed_market ::
  "account \<Rightarrow> datetime \<Rightarrow> slot_id \<Rightarrow> real \<Rightarrow> exec_reason \<Rightarrow> cycle_view \<Rightarrow> paper_store \<Rightarrow> paper_store" where
  "mark_closed_market a now s price msg v px =
     (let cash = ns_cash (cv_nav v);
          pv = py_round (of_int (cv_quantity v) * price) 2;
          eq = py_round (cash + pv) 2;
          px1 = (if equity_moved v eq \<or> ns_trade_date (cv_nav v) \<noteq> Some (dt_date now)
                 then append_daily_nav_if_needed
                   \<lparr>nr_date = dt_date now, nr_slot = s, nr_proposal = pa_proposal a, nr_cash = cash,
                    nr_position_value = pv, nr_total_equity = eq\<rparr> px
                 else px)
      in log_execution
        \<lparr>ex_proposal = pa_proposal a, ex_slot = s, ex_executed = False, ex_message = Some msg,
         ex_latest_price = Some price, ex_price_changed = price_moved v price,
         ex_equity_changed = equity_moved v eq, ex_current_quantity = cv_quantity v,
         ex_target_quantity = cv_quantity v, ex_order_side = None, ex_order_quantity = 0,
         ex_cash = Some cash, ex_position_value = Some pv, ex_total_equity = Some eq,
         ex_explanation = None, ex_created_at = now\<rparr> px1)"

definition side_of :: "int \<Rightarrow> side option" where
  "side_of q = (if q > 0 then Some Buy_side else if q < 0 then Some Sell_side else None)"

definition traded_cash :: "real \<Rightarrow> int \<Rightarrow> real \<Rightarrow> real" where
  "traded_cash cash q amount =
     (case side_of q of
        Some Buy_side \<Rightarrow> py_round (max 0 (cash - amount)) 2
      | Some Sell_side \<Rightarrow> py_round (cash + amount) 2
      | None \<Rightarrow> cash)"

definition traded_avg_cost :: "cycle_view \<Rightarrow> int \<Rightarrow> real \<Rightarrow> real \<Rightarrow> real" where
  "traded_avg_cost v target price amount =
     (case side_of (target - cv_quantity v) of
        Some Buy_side \<Rightarrow>
          (if cv_quantity v > 0
           then py_round ((of_int (cv_quantity v) * cv_avg_cost v + amount) / of_int (max target 1)) 4
           else price)
      | Some Sell_side \<Rightarrow> (if target \<le> 0 then 0 else cv_avg_cost v)
      | None \<Rightarrow> cv_avg_cost v)"

definition rebalance_open_market ::
  "account \<Rightarrow> datetime \<Rightarrow> slot_id \<Rightarrow> real \<Rightarrow> signal \<Rightarrow> int \<Rightarrow> cycle_view \<Rightarrow> paper_store \<Rightarrow> paper_store" where
  "rebalance_open_market a now s price sig target v px =
     (let q = target - cv_quantity v;
          trade = \<bar>q\<bar>;
          amount = py_round (of_int trade * price) 2;
          cash = traded_cash (ns_cash (cv_nav v)) q amount;
          avg = traded_avg_cost v target price amount;
          pv = py_round (of_int target * price) 2;
          eq = py_round (cash + pv) 2;
          px1 = (case side_of q of None \<Rightarrow> px | Some sd \<Rightarrow> insert_order a s sd trade price amount now px);
          px2 = delete_position s (pa_symbol a) px1;
          px3 = (if target > 0 then insert_position a s target avg pv now px2 else px2);
          px4 = append_daily_nav_if_needed
            \<lparr>nr_date = dt_date now, nr_slot = s, nr_proposal = pa_proposal a, nr_cash = cash,
             nr_position_value = pv, nr_total_equity = eq\<rparr> px3
      in log_execution
        \<lparr>ex_proposal = pa_proposal a, ex_slot = s, ex_executed = True, ex_message = None,
         ex_latest_price = Some price, ex_price_changed = price_moved v price,
         ex_equity_changed = equity_moved v eq, ex_current_quantity = cv_quantity v,
         ex_target_quantity = target, ex_order_side = side_of q, ex_order_quantity = trade,
         ex_cash = Some cash, ex_position_value = Some pv, ex_total_equity = Some eq,
         ex_explanation = Some (paper_execution_explanation trade (price_moved v price)
           (equity_moved v eq) target (cv_quantity v) sig), ex_created_at = now\<rparr> px4)"

definition skip_without_history :: "account \<Rightarrow> datetime \<Rightarrow> slot_id \<Rightarrow> paper_store \<Rightarrow> paper_store" where
  "skip_without_history a now s px =
     log_execution
       \<lparr>ex_proposal = pa_proposal a, ex_slot = s, ex_executed = False, ex_message = Some History_unavailable,
        ex_latest_price = None, ex_price_changed = False, ex_equity_changed = False,
        ex_current_quantity = 0, ex_target_quantity = 0, ex_order_side = None, ex_order_quantity = 0,
        ex_cash = None, ex_position_value = None, ex_total_equity = None,
        ex_explanation = None, ex_created_at = now\<rparr> px"

text \<open>The whole handler.  \<open>bar\<close> is the close of the last bar of the history, or nothing when there
  is no history; \<open>sig\<close> is what the strategy answers, or nothing when it raises, which leaves the
  snapshot already written.  The first component is the \<open>executed\<close> flag, nothing for an
  exception.\<close>

definition execute_paper_cycle_for_slot ::
  "real \<Rightarrow> account \<Rightarrow> datetime \<Rightarrow> slot_id \<Rightarrow> real option \<Rightarrow> signal option \<Rightarrow> paper_store
     \<Rightarrow> bool option \<times> paper_store" where
  "execute_paper_cycle_for_slot capital a now s bar sig px0 =
     (let px = initialize_paper_snapshot capital a now s px0 in
      case bar of
        None \<Rightarrow> (Some False, skip_without_history a now s px)
      | Some price \<Rightarrow>
          (case sig of
             None \<Rightarrow> (None, px)
           | Some sg \<Rightarrow>
               (let v = cycle_view_of capital a s price px;
                    target = constrained_target a now price (ns_total_equity (cv_nav v)) sg s px;
                    m = paper_market_is_open now (pa_symbol a) (pa_market_scope a)
                in if fst m then (Some True, rebalance_open_market a now s price sg target v px)
                   else (Some False, mark_closed_market a now s price (snd m) v px))))"

end
