(* ===== verification/Paper_Properties.thy ===== *)
theory Paper_Properties imports Paper_Execution begin

text \<open>
  What the paper account promises: the rows it writes are well formed whatever is executed, a
  cycle in one slot does not touch another, a cycle refines the trade of a two-field ledger,
  value is conserved by a funded trade, and the three places where it is not.
\<close>

section \<open>Well-formed tables\<close>

definition row_sized :: "string \<Rightarrow> int \<Rightarrow> bool" where
  "row_sized symbol q \<longleftrightarrow> 0 < q \<and> market_lot_size symbol dvd q"

definition paper_tables_ok :: "paper_store \<Rightarrow> bool" where
  "paper_tables_ok px \<longleftrightarrow>
     list_all (\<lambda>r. row_sized (ps_symbol r) (ps_quantity r)) (px_positions px)
     \<and> list_all (\<lambda>r. row_sized (or_symbol r) (or_quantity r)) (px_orders px)"

lemma market_lot_size_pos [simp]: "0 < market_lot_size symbol"
  by (simp add: market_lot_size_def)

lemma market_lot_size_nonneg [simp]: "0 \<le> market_lot_size symbol"
  by (simp add: market_lot_size_def)

lemma div_times_below:
  fixes k l :: int
  assumes "0 < l" "k < 2 * l"
  shows "k div l * l \<le> l"
proof (rule ccontr)
  assume "\<not> k div l * l \<le> l"
  then have "1 < k div l" using assms(1) by (simp add: not_le)
  then have "2 * l \<le> k div l * l" using assms(1) by (intro mult_right_mono) simp_all
  then show False
    using assms div_mult_mod_eq [of k l] pos_mod_sign [of l k] by linarith
qed

lemma lots_sized: "row_sized symbol (lots n p (market_lot_size symbol))"
proof -
  let ?l = "market_lot_size symbol"
  have "?l dvd max ?l (k * ?l)" for k
    by (simp add: max_def)
  then show ?thesis
    using market_lot_size_pos [of symbol] by (simp add: row_sized_def lots_def less_max_iff_disj)
qed

lemma same_symbol_lot: "same_symbol a b \<Longrightarrow> market_lot_size a = market_lot_size b"
  unfolding same_symbol_def market_lot_size_def by (drule same_normal_form_same_market) simp

lemma same_symbol_refl [simp]: "same_symbol a a"
  by (simp add: same_symbol_def)

lemma latest_position_in:
  assumes "latest_paper_position symbol s px = Some r"
  shows "r \<in> set (px_positions px) \<and> ps_slot r = s \<and> same_symbol (ps_symbol r) symbol"
proof -
  have "r \<in> set (fetch_positions 50 s px)" "same_symbol (ps_symbol r) symbol"
    using assms unfolding latest_paper_position_def by (auto simp: find_Some_iff)
  then show ?thesis by (auto simp: fetch_positions_def dest: in_set_takeD)
qed

lemma held_quantity_ok:
  assumes "paper_tables_ok px"
  shows "position_quantity (latest_paper_position symbol s px) = 0
    \<or> row_sized symbol (position_quantity (latest_paper_position symbol s px))"
proof (cases "latest_paper_position symbol s px")
  case (Some r)
  then show ?thesis
    using assms latest_position_in [OF Some] same_symbol_lot [of "ps_symbol r" symbol]
    by (auto simp: position_quantity_def paper_tables_ok_def list_all_iff row_sized_def)
qed (simp add: position_quantity_def)

lemma current_target_ok:
  assumes "paper_tables_ok px"
  shows "current_target_quantity a price equity sig s px = 0
    \<or> row_sized (pa_symbol a) (current_target_quantity a price equity sig s px)"
  using held_quantity_ok [OF assms, of "pa_symbol a" s] lots_sized [of "pa_symbol a"]
  unfolding current_target_quantity_def by (simp add: row_sized_def max_def)

lemma constrained_target_ok:
  assumes "paper_tables_ok px"
  shows "constrained_target a now price equity sig s px = 0
    \<or> row_sized (pa_symbol a) (constrained_target a now price equity sig s px)"
  using held_quantity_ok [OF assms, of "pa_symbol a" s] current_target_ok [OF assms, of a price equity sig s]
  unfolding constrained_target_def Let_def by presburger

text \<open>The fields each write leaves alone.\<close>

lemma append_nav_fields [simp]:
  "px_positions (append_daily_nav_if_needed r px) = px_positions px"
  "px_orders (append_daily_nav_if_needed r px) = px_orders px"
  "px_executions (append_daily_nav_if_needed r px) = px_executions px"
  "px_initialized (append_daily_nav_if_needed r px) = px_initialized px"
  "px_bootstrapped (append_daily_nav_if_needed r px) = px_bootstrapped px"
  by (simp_all add: append_daily_nav_if_needed_def Let_def)

lemma initialize_fields [simp]:
  "px_positions (initialize_paper_snapshot c a now s px) = px_positions px"
  "px_orders (initialize_paper_snapshot c a now s px) = px_orders px"
  "px_executions (initialize_paper_snapshot c a now s px) = px_executions px"
  "px_bootstrapped (initialize_paper_snapshot c a now s px) = px_bootstrapped px"
  by (simp_all add: initialize_paper_snapshot_def)

lemma log_fields [simp]:
  "px_positions (log_execution e px) = px_positions px"
  "px_orders (log_execution e px) = px_orders px"
  "px_nav (log_execution e px) = px_nav px"
  "px_initialized (log_execution e px) = px_initialized px"
  "px_bootstrapped (log_execution e px) = px_bootstrapped px"
  by (simp_all add: log_execution_def)

lemma order_fields [simp]:
  "px_positions (insert_order a s sd q p am now px) = px_positions px"
  "px_nav (insert_order a s sd q p am now px) = px_nav px"
  "px_nav (delete_position s sy px) = px_nav px"
  "px_orders (delete_position s sy px) = px_orders px"
  "px_nav (insert_position a s q c mv now px) = px_nav px"
  "px_orders (insert_position a s q c mv now px) = px_orders px"
  "px_bootstrapped (insert_order a s sd q p am now px) = px_bootstrapped px"
  "px_bootstrapped (delete_position s sy px) = px_bootstrapped px"
  "px_bootstrapped (insert_position a s q c mv now px) = px_bootstrapped px"
  by (simp_all add: insert_order_def delete_position_def insert_position_def)

lemma tables_ok_frame:
  "px_positions px' = px_positions px \<Longrightarrow> px_orders px' = px_orders px \<Longrightarrow>
     paper_tables_ok px' = paper_tables_ok px"
  by (simp add: paper_tables_ok_def)

lemma tables_ok_insert_order:
  "paper_tables_ok px \<Longrightarrow> row_sized (pa_symbol a) q \<Longrightarrow> paper_tables_ok (insert_order a s sd q p am now px)"
  by (simp add: paper_tables_ok_def insert_order_def)

lemma tables_ok_delete: "paper_tables_ok px \<Longrightarrow> paper_tables_ok (delete_position s sy px)"
  by (auto simp: paper_tables_ok_def delete_position_def list_all_iff)

lemma tables_ok_insert_position:
  "paper_tables_ok px \<Longrightarrow> row_sized (pa_symbol a) q \<Longrightarrow> paper_tables_ok (insert_position a s q c mv now px)"
  by (simp add: paper_tables_ok_def insert_position_def)

lemma tables_ok_rebalance:
  assumes "paper_tables_ok px" "t = 0 \<or> row_sized (pa_symbol a) t"
    "cv_quantity v = 0 \<or> row_sized (pa_symbol a) (cv_quantity v)"
  shows "paper_tables_ok (rebalance_open_market a now s price sig t v px)"
proof -
  let ?q = "t - cv_quantity v"
  have sized: "row_sized (pa_symbol a) \<bar>?q\<bar>" if "?q \<noteq> 0"
    using assms(2,3) that by (auto simp: row_sized_def)
  have pos: "row_sized (pa_symbol a) t" if "0 < t"
    using assms(2) that by auto
  have ord: "paper_tables_ok (case side_of ?q of None \<Rightarrow> px
      | Some sd \<Rightarrow> insert_order a s sd \<bar>?q\<bar> price am now px)" for am
    using assms(1) sized by (auto simp: side_of_def intro: tables_ok_insert_order)
  show ?thesis
    unfolding rebalance_open_market_def Let_def
    by (simp add: tables_ok_frame [OF log_fields(1,2)] tables_ok_frame [OF append_nav_fields(1,2)]
        tables_ok_delete tables_ok_insert_position ord pos)
qed

lemma tables_ok_cycle:
  assumes "paper_tables_ok px"
  shows "paper_tables_ok (snd (execute_paper_cycle_for_slot capital a now s bar sig px))"
proof -
  let ?px = "initialize_paper_snapshot capital a now s px"
  have ok: "paper_tables_ok ?px" using assms tables_ok_frame [of ?px px] by simp
  have closed: "paper_tables_ok (mark_closed_market a now s p m v ?px)" for p m v
    using ok by (simp add: mark_closed_market_def Let_def paper_tables_ok_def)
  have skip: "paper_tables_ok (skip_without_history a now s ?px)"
    using ok by (simp add: skip_without_history_def paper_tables_ok_def)
  have trade: "paper_tables_ok (rebalance_open_market a now s p sg
      (constrained_target a now p e sg s ?px) (cycle_view_of capital a s p ?px) ?px)" for p e sg
    using ok constrained_target_ok [OF ok] held_quantity_ok [OF ok]
    by (intro tables_ok_rebalance) (simp_all add: cycle_view_of_def Let_def)
  show ?thesis
    using ok closed skip trade by (simp add: execute_paper_cycle_for_slot_def Let_def split: option.split)
qed

lemma tables_ok_mark [simp]: "paper_tables_ok (px\<lparr>px_bootstrapped := b\<rparr>) = paper_tables_ok px"
  by (simp add: paper_tables_ok_def)

lemma tables_ok_bootstrap:
  assumes "paper_tables_ok px"
  shows "paper_tables_ok (snd (bootstrap_paper_trade capital a now s quote px))"
  using assms lots_sized [of "pa_symbol a"]
  by (auto simp: bootstrap_paper_trade_def Let_def tables_ok_frame [OF append_nav_fields(1,2)]
      tables_ok_insert_position tables_ok_insert_order tables_ok_delete split: option.split)

section \<open>The account as a state machine\<close>

inductive paper_step :: "real \<Rightarrow> paper_store \<Rightarrow> paper_store \<Rightarrow> bool" for capital where
  initialise: "paper_step capital px (initialize_paper_snapshot capital a now s px)"
| bootstrap: "paper_step capital px (snd (bootstrap_paper_trade capital a now s quote px))"
| cycle: "paper_step capital px (snd (execute_paper_cycle_for_slot capital a now s bar sig px))"

definition empty_store :: paper_store where
  "empty_store = \<lparr>px_nav = [], px_orders = [], px_positions = [], px_executions = [],
     px_initialized = [], px_bootstrapped = []\<rparr>"

inductive paper_reachable :: "real \<Rightarrow> paper_store \<Rightarrow> bool" for capital where
  start: "paper_reachable capital empty_store"
| step: "paper_reachable capital px \<Longrightarrow> paper_step capital px px' \<Longrightarrow> paper_reachable capital px'"

lemma reachable_tables_ok: "paper_reachable capital px \<Longrightarrow> paper_tables_ok px"
proof (induction rule: paper_reachable.induct)
  case start
  then show ?case by (simp add: empty_store_def paper_tables_ok_def)
next
  case (step px px')
  then show ?case
    by (auto elim!: paper_step.cases simp: tables_ok_bootstrap tables_ok_cycle
        tables_ok_frame [OF initialize_fields(1,2)])
qed

section \<open>Slots are isolated\<close>

text \<open>What a slot shows of the account: its value rows, its orders and its positions.\<close>

definition slot_view :: "slot_id \<Rightarrow> paper_store \<Rightarrow> nav_row list \<times> order_row list \<times> position_row list" where
  "slot_view t px = (filter (\<lambda>r. nr_slot r = t) (px_nav px), filter (\<lambda>r. or_slot r = t) (px_orders px),
     filter (\<lambda>r. ps_slot r = t) (px_positions px))"

lemma slot_view_nav:
  "nr_slot r \<noteq> t \<Longrightarrow> slot_view t (append_daily_nav_if_needed r px) = slot_view t px"
  by (simp add: slot_view_def append_daily_nav_if_needed_def Let_def)

lemma slot_view_log [simp]: "slot_view t (log_execution e px) = slot_view t px"
  by (simp add: slot_view_def)

lemma slot_view_mark [simp]: "slot_view t (px\<lparr>px_bootstrapped := b\<rparr>) = slot_view t px"
  by (simp add: slot_view_def)

lemma slot_view_writes:
  assumes "s \<noteq> t"
  shows "slot_view t (insert_order a s sd q p am now px) = slot_view t px"
    "slot_view t (insert_position a s q c mv now px) = slot_view t px"
    "slot_view t (delete_position s sy px) = slot_view t px"
    "slot_view t (initialize_paper_snapshot capital a now s px) = slot_view t px"
proof -
  show "slot_view t (delete_position s sy px) = slot_view t px"
    using assms by (auto simp: slot_view_def delete_position_def intro!: filter_cong)
qed (use assms in \<open>simp_all add: slot_view_def insert_order_def insert_position_def initialize_paper_snapshot_def\<close>)

lemma slot_view_rebalance:
  "s \<noteq> t \<Longrightarrow> slot_view t (rebalance_open_market a now s price sig q v px) = slot_view t px"
  by (simp add: rebalance_open_market_def Let_def slot_view_nav slot_view_writes split: option.split)

lemma slot_view_closed:
  "s \<noteq> t \<Longrightarrow> slot_view t (mark_closed_market a now s price m v px) = slot_view t px"
  by (simp add: mark_closed_market_def Let_def slot_view_nav)

lemma slot_view_cycle:
  "s \<noteq> t \<Longrightarrow> slot_view t (snd (execute_paper_cycle_for_slot capital a now s bar sig px)) = slot_view t px"
  by (simp add: execute_paper_cycle_for_slot_def Let_def slot_view_closed slot_view_rebalance
      slot_view_writes skip_without_history_def split: option.split)

lemma slot_view_bootstrap:
  "s \<noteq> t \<Longrightarrow> slot_view t (snd (bootstrap_paper_trade capital a now s quote px)) = slot_view t px"
  by (simp add: bootstrap_paper_trade_def Let_def slot_view_nav slot_view_writes split: option.split)

text \<open>Everything the account reads of a slot it reads of its view.\<close>

lemma readers_of_view:
  assumes "slot_view t px = slot_view t px'"
  shows "latest_paper_nav_state capital t px = latest_paper_nav_state capital t px'"
    "latest_paper_position symbol t px = latest_paper_position symbol t px'"
    "fetch_orders n t px = fetch_orders n t px'"
  using assms by (simp_all add: slot_view_def latest_paper_nav_state_def fetch_nav_def
      latest_paper_position_def fetch_positions_def fetch_orders_def)

section \<open>The ledger a slot refines\<close>

text \<open>Cash and held quantity, as the next cycle will read them, and what one trade to a target
  does to them: cash that comes out as zero is read back as the default capital.\<close>

type_synonym ledger = "real \<times> int"

definition ledger_of :: "real \<Rightarrow> slot_id \<Rightarrow> string \<Rightarrow> paper_store \<Rightarrow> ledger" where
  "ledger_of capital s symbol px =
     (ns_cash (latest_paper_nav_state capital s px), position_quantity (latest_paper_position symbol s px))"

definition ledger_trade :: "real \<Rightarrow> real \<Rightarrow> int \<Rightarrow> ledger \<Rightarrow> ledger" where
  "ledger_trade capital price target l =
     (or_default (traded_cash (fst l) (target - snd l) (py_round (of_int \<bar>target - snd l\<bar> * price) 2)) capital,
      target)"

definition slot_rows :: "slot_id \<Rightarrow> paper_store \<Rightarrow> position_row list" where
  "slot_rows s px = filter (\<lambda>r. ps_slot r = s) (px_positions px)"

text \<open>The condition of the refinement: no value row of the slot lies in the future and cash is in
  whole cents, the symbol is spelled one way and has one row, and the slot shows no more
  rows than the service reads.\<close>

definition slot_tidy :: "datetime \<Rightarrow> slot_id \<Rightarrow> string \<Rightarrow> paper_store \<Rightarrow> bool" where
  "slot_tidy now s symbol px \<longleftrightarrow>
     list_all (\<lambda>r. nr_slot r = s \<longrightarrow> nr_date r \<le> dt_date now \<and> cents (nr_cash r)) (px_nav px)
     \<and> list_all (\<lambda>r. same_symbol (ps_symbol r) symbol \<longrightarrow> ps_symbol r = symbol) (slot_rows s px)
     \<and> length (filter (\<lambda>r. ps_symbol r = symbol) (slot_rows s px)) \<le> 1
     \<and> length (filter (\<lambda>r. ps_symbol r \<noteq> symbol) (slot_rows s px)) < 50"

lemma slot_tidy_frame:
  "px_nav px' = px_nav px \<Longrightarrow> px_positions px' = px_positions px \<Longrightarrow> slot_tidy now s symbol px' = slot_tidy now s symbol px"
  by (simp add: slot_tidy_def slot_rows_def)

lemma slot_tidy_later: "slot_tidy now s symbol px \<Longrightarrow> now \<le> now' \<Longrightarrow> slot_tidy now' s symbol px"
  using dt_date_mono [of now now'] by (fastforce simp: slot_tidy_def list_all_iff)

lemma latest_nav_row:
  assumes "\<forall>r\<in>set (px_nav px). nr_slot r = s \<longrightarrow> nr_date r \<le> nr_date n" "nr_slot n = s"
  shows "fetch_nav 1 s (px\<lparr>px_nav := px_nav px @ [n]\<rparr>) = [n]"
  using assms sort_desc_Cons_max [of "rev (filter (\<lambda>r. nr_slot r = s) (px_nav px))" nr_date n]
  by (simp add: fetch_nav_def)

lemma fetch_nav_rows: "r \<in> set (fetch_nav k s px) \<Longrightarrow> r \<in> set (px_nav px) \<and> nr_slot r = s"
  by (auto simp: fetch_nav_def dest: in_set_takeD)

text \<open>After a row of today in whole cents is appended, its cash is what the account reads, also
  when the row was left out because the last one says the same.\<close>

lemma cash_after_append:
  assumes "slot_tidy now s symbol px" "nr_slot n = s" "nr_date n = dt_date now" "cents (nr_cash n)"
  shows "ns_cash (latest_paper_nav_state capital s (append_daily_nav_if_needed n px)) = or_default (nr_cash n) capital"
proof -
  have le: "\<forall>r\<in>set (px_nav px). nr_slot r = s \<longrightarrow> nr_date r \<le> nr_date n"
    using assms(1,3) by (simp add: slot_tidy_def list_all_iff)
  show ?thesis
  proof (cases "append_daily_nav_if_needed n px = px")
    case False
    then have "append_daily_nav_if_needed n px = px\<lparr>px_nav := px_nav px @ [n]\<rparr>"
      by (simp add: append_daily_nav_if_needed_def Let_def split: if_splits)
    then show ?thesis
      using latest_nav_row [OF le assms(2)] by (simp add: latest_paper_nav_state_def)
  next
    case True
    then have "px_nav (append_daily_nav_if_needed n px) = px_nav px" by simp
    then obtain l ls where l: "fetch_nav 1 s px = l # ls" "\<bar>nr_cash l - nr_cash n\<bar> \<le> 1 / 10 ^ 9"
      using assms(2) by (auto simp: append_daily_nav_if_needed_def Let_def split: list.splits if_splits)
    have "cents (nr_cash l)"
      using fetch_nav_rows [of l 1 s px] l(1) assms(1) by (simp add: slot_tidy_def list_all_iff)
    with assms(4) l(2) have "nr_cash l = nr_cash n" by (intro cents_close) simp_all
    with True l(1) show ?thesis by (simp add: latest_paper_nav_state_def)
  qed
qed

lemma tidy_append:
  assumes "slot_tidy now s symbol px" "nr_slot n = s" "nr_date n = dt_date now" "cents (nr_cash n)"
  shows "slot_tidy now s symbol (append_daily_nav_if_needed n px)"
  using assms by (simp add: slot_tidy_def slot_rows_def append_daily_nav_if_needed_def Let_def)

lemma nav_state_cash_cents:
  assumes "slot_tidy now s symbol px" "cents capital"
  shows "cents (ns_cash (latest_paper_nav_state capital s px))"
  using assms fetch_nav_rows [of _ 1 s px]
  by (auto simp: latest_paper_nav_state_def or_default_def slot_tidy_def list_all_iff split: list.split)

lemma latest_position_unique:
  assumes "slot_tidy now s symbol px"
  shows "latest_paper_position symbol s px =
    (case filter (\<lambda>r. ps_symbol r = symbol) (slot_rows s px) of [] \<Rightarrow> None | r # _ \<Rightarrow> Some r)"
proof -
  let ?own = "filter (\<lambda>r. ps_symbol r = symbol) (slot_rows s px)"
  let ?fetched = "fetch_positions 50 s px"
  have len: "length ?own \<le> 1" "length (slot_rows s px) \<le> 50"
    using assms length_filter_split [of "\<lambda>r. ps_symbol r = symbol" "slot_rows s px"]
    by (simp_all add: slot_tidy_def)
  have fetched: "set ?fetched = set (slot_rows s px)"
    using len(2) by (simp add: fetch_positions_def slot_rows_def [symmetric])
  have own: "same_symbol (ps_symbol r) symbol \<longleftrightarrow> ps_symbol r = symbol" if "r \<in> set ?fetched" for r
    using that assms by (auto simp: fetched slot_tidy_def list_all_iff)
  show ?thesis
  proof (cases ?own)
    case Nil
    then have "find (\<lambda>r. same_symbol (ps_symbol r) symbol) ?fetched = None"
      using own fetched unfolding find_None_iff filter_empty_conv by blast
    then show ?thesis unfolding latest_paper_position_def Nil by simp
  next
    case (Cons r rs)
    with len(1) have one: "?own = [r]" by simp
    have mem: "x \<in> set (slot_rows s px) \<and> ps_symbol x = symbol \<longleftrightarrow> x = r" for x
      using arg_cong [OF one, of set] by auto
    have "find (\<lambda>r. same_symbol (ps_symbol r) symbol) ?fetched = Some r"
      by (rule find_unique) (use mem own fetched in blast)+
    then show ?thesis unfolding one latest_paper_position_def by simp
  qed
qed

text \<open>The positions of the slot after the cycle's delete and insert.\<close>

definition replace_position :: "account \<Rightarrow> slot_id \<Rightarrow> int \<Rightarrow> real \<Rightarrow> real \<Rightarrow> datetime \<Rightarrow> paper_store \<Rightarrow> paper_store" where
  "replace_position a s q c mv now px =
     (let px2 = delete_position s (pa_symbol a) px
      in if q > 0 then insert_position a s q c mv now px2 else px2)"

lemma tidy_replace:
  assumes "slot_tidy now s (pa_symbol a) px"
  shows "slot_tidy now s (pa_symbol a) (replace_position a s q c mv t px)"
    and "0 \<le> q \<Longrightarrow> position_quantity (latest_paper_position (pa_symbol a) s (replace_position a s q c mv t px)) = q"
proof -
  let ?y = "pa_symbol a" let ?px = "replace_position a s q c mv t px"
  have drop: "slot_rows s (delete_position s ?y px) = filter (\<lambda>r. ps_symbol r \<noteq> ?y) (slot_rows s px)"
    by (auto simp: slot_rows_def delete_position_def conj_commute intro!: filter_cong)
  obtain tl where rows: "slot_rows s ?px = filter (\<lambda>r. ps_symbol r \<noteq> ?y) (slot_rows s px) @ tl"
    "tl = (if q > 0 then [\<lparr>ps_slot = s, ps_proposal = pa_proposal a, ps_symbol = ?y, ps_quantity = q,
       ps_avg_cost = c, ps_market_value = mv, ps_updated_at = t\<rparr>] else [])"
    using drop by (auto simp: replace_position_def Let_def slot_rows_def insert_position_def)
  have nav: "px_nav ?px = px_nav px" by (simp add: replace_position_def Let_def)
  show tidy: "slot_tidy now s ?y ?px"
    using assms unfolding slot_tidy_def nav rows by (auto simp: list_all_iff)
  show "position_quantity (latest_paper_position ?y s ?px) = q" if "0 \<le> q"
    using that unfolding latest_position_unique [OF tidy] rows by (auto simp: position_quantity_def)
qed

lemma rebalance_shape:
  "\<exists>e px1. rebalance_open_market a now s price sig t v px =
     log_execution e
       (append_daily_nav_if_needed
          \<lparr>nr_date = dt_date now, nr_slot = s, nr_proposal = pa_proposal a,
           nr_cash = traded_cash (ns_cash (cv_nav v)) (t - cv_quantity v)
             (py_round (of_int \<bar>t - cv_quantity v\<bar> * price) 2),
           nr_position_value = py_round (of_int t * price) 2,
           nr_total_equity = py_round (traded_cash (ns_cash (cv_nav v)) (t - cv_quantity v)
             (py_round (of_int \<bar>t - cv_quantity v\<bar> * price) 2) + py_round (of_int t * price) 2) 2\<rparr>
          (replace_position a s t
             (traded_avg_cost v t price (py_round (of_int \<bar>t - cv_quantity v\<bar> * price) 2))
             (py_round (of_int t * price) 2) now px1))
     \<and> px_nav px1 = px_nav px \<and> px_positions px1 = px_positions px
     \<and> ex_total_equity e = Some (py_round (traded_cash (ns_cash (cv_nav v)) (t - cv_quantity v)
             (py_round (of_int \<bar>t - cv_quantity v\<bar> * price) 2) + py_round (of_int t * price) 2) 2)"
  unfolding rebalance_open_market_def replace_position_def Let_def
  by (intro exI conjI, rule refl) (simp_all split: option.split)

lemma position_frame:
  "px_positions px' = px_positions px \<Longrightarrow> latest_paper_position sy s px' = latest_paper_position sy s px"
  by (simp add: latest_paper_position_def fetch_positions_def)

lemma nav_frame:
  "px_nav px' = px_nav px \<Longrightarrow> latest_paper_nav_state c s px' = latest_paper_nav_state c s px"
  by (simp add: latest_paper_nav_state_def fetch_nav_def)

lemma traded_cash_cents: "cents c \<Longrightarrow> cents (traded_cash c q am)"
  by (simp add: traded_cash_def side_of_def)

lemma ledger_rebalance:
  assumes tidy: "slot_tidy now s (pa_symbol a) px" and cap: "cents capital" and t: "0 \<le> t"
    and v: "ns_cash (cv_nav v) = fst (ledger_of capital s (pa_symbol a) px)"
      "cv_quantity v = snd (ledger_of capital s (pa_symbol a) px)"
  shows "ledger_of capital s (pa_symbol a) (rebalance_open_market a now s price sig t v px)
      = ledger_trade capital price t (ledger_of capital s (pa_symbol a) px)"
    and "slot_tidy now s (pa_symbol a) (rebalance_open_market a now s price sig t v px)"
proof -
  let ?y = "pa_symbol a" let ?am = "py_round (of_int \<bar>t - cv_quantity v\<bar> * price) 2"
  let ?cash = "traded_cash (ns_cash (cv_nav v)) (t - cv_quantity v) ?am"
  obtain e px1 where sh: "rebalance_open_market a now s price sig t v px = log_execution e
       (append_daily_nav_if_needed
          \<lparr>nr_date = dt_date now, nr_slot = s, nr_proposal = pa_proposal a, nr_cash = ?cash,
           nr_position_value = py_round (of_int t * price) 2,
           nr_total_equity = py_round (?cash + py_round (of_int t * price) 2) 2\<rparr>
          (replace_position a s t (traded_avg_cost v t price ?am) (py_round (of_int t * price) 2) now px1))"
    and px1: "px_nav px1 = px_nav px" "px_positions px1 = px_positions px"
    using rebalance_shape [of a now s price sig t v px] by blast
  have "slot_tidy now s ?y px1" using tidy slot_tidy_frame [OF px1] by simp
  note rep = tidy_replace [OF this]
  have cash: "cents ?cash"
    using nav_state_cash_cents [OF tidy cap] v(1) by (intro traded_cash_cents) (simp add: ledger_of_def)
  show "slot_tidy now s ?y (rebalance_open_market a now s price sig t v px)"
    unfolding sh slot_tidy_frame [OF log_fields(3,1)] by (rule tidy_append [OF rep(1)]) (use cash in simp_all)
  show "ledger_of capital s ?y (rebalance_open_market a now s price sig t v px)
      = ledger_trade capital price t (ledger_of capital s ?y px)"
    unfolding sh ledger_of_def [of capital s ?y "log_execution _ _"]
      nav_frame [OF log_fields(3)] position_frame [OF log_fields(1)] position_frame [OF append_nav_fields(1)]
      rep(2) [OF t]
    using cash_after_append [OF rep(1)] cash v by (simp add: ledger_trade_def)
qed

lemma or_default_idem [simp]: "or_default (or_default x d) d = or_default x d"
  by (simp add: or_default_def)

lemma nav_state_cash_read: "or_default (ns_cash (latest_paper_nav_state c s px)) c = ns_cash (latest_paper_nav_state c s px)"
  by (simp add: latest_paper_nav_state_def or_default_def split: list.split)

lemma ledger_closed:
  assumes tidy: "slot_tidy now s (pa_symbol a) px" and cap: "cents capital"
    and v: "ns_cash (cv_nav v) = fst (ledger_of capital s (pa_symbol a) px)"
  shows "ledger_of capital s (pa_symbol a) (mark_closed_market a now s price m v px) = ledger_of capital s (pa_symbol a) px"
    and "slot_tidy now s (pa_symbol a) (mark_closed_market a now s price m v px)"
proof -
  have cash: "cents (ns_cash (cv_nav v))" "or_default (ns_cash (cv_nav v)) capital = ns_cash (cv_nav v)"
    using nav_state_cash_cents [OF tidy cap] nav_state_cash_read v by (simp_all add: ledger_of_def)
  show "ledger_of capital s (pa_symbol a) (mark_closed_market a now s price m v px) = ledger_of capital s (pa_symbol a) px"
    using cash v cash_after_append [OF tidy]
    by (simp add: mark_closed_market_def Let_def ledger_of_def nav_frame [OF log_fields(3)]
        position_frame [OF log_fields(1)] position_frame [OF append_nav_fields(1)])
  show "slot_tidy now s (pa_symbol a) (mark_closed_market a now s price m v px)"
    using tidy tidy_append [OF tidy] cash by (simp add: mark_closed_market_def Let_def slot_tidy_frame [OF log_fields(3,1)])
qed

lemma tidy_initialize:
  assumes "slot_tidy now s symbol px" "cents capital"
  shows "slot_tidy now s symbol (initialize_paper_snapshot capital a now s px)"
  using assms by (simp add: slot_tidy_def slot_rows_def initialize_paper_snapshot_def)

lemma cycle_view_ledger [simp]:
  "ns_cash (cv_nav (cycle_view_of c a s p px)) = fst (ledger_of c s (pa_symbol a) px)"
  "cv_quantity (cycle_view_of c a s p px) = snd (ledger_of c s (pa_symbol a) px)"
  by (simp_all add: cycle_view_of_def ledger_of_def Let_def)

text \<open>The targets are quantities that can be held.\<close>

lemma constrained_target_nonneg:
  assumes "paper_tables_ok px"
  shows "0 \<le> constrained_target a now price equity sig s px"
  using constrained_target_ok [OF assms, of a now price equity sig s] by (auto simp: row_sized_def)

lemma paper_cycle_refines_ledger_step:
  assumes "slot_tidy now s (pa_symbol a) px" "cents capital" "paper_tables_ok px"
  shows "let px0 = initialize_paper_snapshot capital a now s px;
             px' = snd (execute_paper_cycle_for_slot capital a now s bar sig px);
             l = ledger_of capital s (pa_symbol a) px0
         in slot_tidy now s (pa_symbol a) px' \<and> paper_tables_ok px'
            \<and> ledger_of capital s (pa_symbol a) px' =
                (case (bar, sig) of
                   (Some price, Some sg) \<Rightarrow>
                     (if fst (paper_market_is_open now (pa_symbol a) (pa_market_scope a))
                      then ledger_trade capital price (constrained_target a now price
                        (ns_total_equity (latest_paper_nav_state capital s px0)) sg s px0) l
                      else l)
                 | _ \<Rightarrow> l)"
proof -
  let ?px0 = "initialize_paper_snapshot capital a now s px"
  have ok: "paper_tables_ok ?px0" using assms(3) tables_ok_frame [of ?px0 px] by simp
  have tidy: "slot_tidy now s (pa_symbol a) ?px0" using assms(1,2) by (rule tidy_initialize)
  have skip: "ledger_of capital s (pa_symbol a) (skip_without_history a now s ?px0) = ledger_of capital s (pa_symbol a) ?px0"
    "slot_tidy now s (pa_symbol a) (skip_without_history a now s ?px0)"
    using tidy by (simp_all add: skip_without_history_def ledger_of_def nav_frame [OF log_fields(3)]
        position_frame [OF log_fields(1)] slot_tidy_frame [OF log_fields(3,1)])
  have view: "cv_nav (cycle_view_of capital a s p ?px0) = latest_paper_nav_state capital s ?px0" for p
    by (simp add: cycle_view_of_def Let_def)
  note trade = ledger_rebalance [OF tidy assms(2) constrained_target_nonneg [OF ok] cycle_view_ledger]
  note closed = ledger_closed [OF tidy assms(2) cycle_view_ledger(1)]
  show ?thesis
    using tables_ok_cycle [OF assms(3)] 
    by (simp add: execute_paper_cycle_for_slot_def Let_def view skip trade closed tidy split: option.split)
qed

section \<open>A sample account\<close>

definition demo_account :: account where
  "demo_account = \<lparr>pa_proposal = ''p'', pa_symbol = ''0700.HK'', pa_market_scope = ''HK'',
     pa_sizing = 1 / 4, pa_min_holding_days = 3\<rparr>"

lemma demo_lot: "market_lot_size (pa_symbol demo_account) = 100"
  by code_simp

lemma demo_open: "fst (paper_market_is_open 36000 (pa_symbol demo_account) (pa_market_scope demo_account))"
  by code_simp

lemma empty_store_ok: "slot_tidy now s symbol empty_store" "paper_tables_ok empty_store"
  by (simp_all add: slot_tidy_def slot_rows_def empty_store_def paper_tables_ok_def)

lemma cents_numeral [simp]: "cents (numeral n)"
  using cents_of_int [of "numeral n"] by simp

lemma demo_start:
  "latest_paper_nav_state 100000 s (initialize_paper_snapshot 100000 a now s empty_store)
     = \<lparr>ns_trade_date = Some (dt_date now), ns_cash = 100000, ns_position_value = 0, ns_total_equity = 100000\<rparr>"
  "latest_paper_position y s (initialize_paper_snapshot 100000 a now s empty_store) = None"
  "fetch_orders n s (initialize_paper_snapshot 100000 a now s empty_store) = []"
  by (simp_all add: initialize_paper_snapshot_def empty_store_def latest_paper_nav_state_def fetch_nav_def
      latest_paper_position_def fetch_positions_def fetch_orders_def sort_desc_def or_default_def)

lemma demo_target:
  "constrained_target demo_account now 300 100000 BUY s (initialize_paper_snapshot 100000 a now' s empty_store) = 100"
proof -
  have "\<lfloor>25000 / 300 :: real\<rfloor> = 83" by (simp add: floor_eq_iff)
  then show ?thesis
    unfolding constrained_target_def current_target_quantity_def Let_def demo_start demo_lot
    by (simp add: position_quantity_def lots_def sizing_value_def demo_account_def)
qed

section \<open>Properties\<close>

text \<open>C1. A cycle of a paper slot refines one trade of a two-field ledger.  The abstraction of the
  slot is the cash and the held quantity the next cycle will read from the value rows, the
  positions and their fallbacks.  In an open market a cycle with a price and a signal takes
  it to the ledger's trade to the constrained target, and in a closed market, without history
  or when the strategy raises it leaves it alone; the conditions under which this holds are kept
  for every later cycle of the proposal.\<close>

theorem paper_cycle_refines_ledger:
  assumes "slot_tidy now s (pa_symbol a) px" "cents capital" "paper_tables_ok px"
  shows "let px0 = initialize_paper_snapshot capital a now s px;
             px' = snd (execute_paper_cycle_for_slot capital a now s bar sig px);
             l = ledger_of capital s (pa_symbol a) px0
         in slot_tidy now s (pa_symbol a) px' \<and> paper_tables_ok px'
            \<and> ledger_of capital s (pa_symbol a) px' =
                (case (bar, sig) of
                   (Some price, Some sg) \<Rightarrow>
                     (if fst (paper_market_is_open now (pa_symbol a) (pa_market_scope a))
                      then ledger_trade capital price (constrained_target a now price
                        (ns_total_equity (latest_paper_nav_state capital s px0)) sg s px0) l
                      else l)
                 | _ \<Rightarrow> l)"
  by (rule paper_cycle_refines_ledger_step [OF assms])

theorem paper_cycle_refines_ledger_witness:
  "ledger_of 100000 Primary_slot (pa_symbol demo_account)
     (snd (execute_paper_cycle_for_slot 100000 demo_account 36000 Primary_slot (Some 300) (Some BUY) empty_store))
   = (70000, 100)"
proof -
  let ?px0 = "initialize_paper_snapshot 100000 demo_account 36000 Primary_slot empty_store"
  have "ledger_of 100000 Primary_slot (pa_symbol demo_account) ?px0 = (100000, 0)"
    by (simp add: ledger_of_def demo_start position_quantity_def)
  moreover have "py_round 30000 2 = 30000" "py_round 70000 2 = 70000"
    using py_round_of_int [of 30000 2] py_round_of_int [of 70000 2] by simp_all
  then have "ledger_trade 100000 300 100 (100000, 0) = (70000, 100)"
    by (simp add: ledger_trade_def traded_cash_def side_of_def or_default_def)
  ultimately show ?thesis
    using paper_cycle_refines_ledger [where now = 36000 and s = Primary_slot and a = demo_account
        and bar = "Some 300" and sig = "Some BUY", OF empty_store_ok(1) cents_numeral [of "num.Bit0 _"] empty_store_ok(2)] demo_open
    by (simp add: Let_def demo_start demo_target)
qed

text \<open>C19. Where the money goes: in an open market the equity a cycle records is the cash it found
  plus the held quantity at the current price, up to the four roundings to cents (two cents),
  plus the whole amount by which a purchase exceeds the cash.  A sale and a purchase the cash
  covers conserve value; a purchase beyond it, which nothing refuses, creates the difference.\<close>

theorem paper_value_law:
  assumes "fst (paper_market_is_open now (pa_symbol a) (pa_market_scope a))"
  shows "let px0 = initialize_paper_snapshot capital a now s px;
             nav = latest_paper_nav_state capital s px0;
             q = position_quantity (latest_paper_position (pa_symbol a) s px0);
             t = constrained_target a now price (ns_total_equity nav) sg s px0;
             paid = py_round (of_int (t - q) * price) 2;
             r = execute_paper_cycle_for_slot capital a now s (Some price) (Some sg) px
         in fst r = Some True \<and>
            (\<exists>e. ex_total_equity (last (px_executions (snd r))) = Some e
              \<and> \<bar>e - (ns_cash nav + of_int q * price
                       + (if q < t then max 0 (paid - ns_cash nav) else 0))\<bar> \<le> 1 / 50)"
proof -
  define px0 where "px0 = initialize_paper_snapshot capital a now s px"
  define v where "v = cycle_view_of capital a s price px0"
  define t where "t = constrained_target a now price (ns_total_equity (latest_paper_nav_state capital s px0)) sg s px0"
  let ?c = "ns_cash (cv_nav v)" let ?q = "cv_quantity v"
  let ?am = "py_round (of_int \<bar>t - ?q\<bar> * price) 2" let ?pv = "py_round (of_int t * price) 2"
  let ?cash = "traded_cash ?c (t - ?q) ?am"
  have v: "cv_nav v = latest_paper_nav_state capital s px0"
    "?q = position_quantity (latest_paper_position (pa_symbol a) s px0)"
    by (simp_all add: v_def cycle_view_of_def Let_def)
  have run: "execute_paper_cycle_for_slot capital a now s (Some price) (Some sg) px
      = (Some True, rebalance_open_market a now s price sg t v px0)"
    using assms by (simp add: execute_paper_cycle_for_slot_def Let_def t_def v_def cycle_view_of_def px0_def)
  obtain e n px1 where sh: "rebalance_open_market a now s price sg t v px0 = log_execution e (append_daily_nav_if_needed n px1)"
      "ex_total_equity e = Some (py_round (?cash + ?pv) 2)"
    using rebalance_shape [of a now s price sg t v px0] by blast
  have eq: "ex_total_equity (last (px_executions (rebalance_open_market a now s price sg t v px0))) = Some (py_round (?cash + ?pv) 2)"
    using sh(2) unfolding sh(1) by (simp add: log_execution_def)
  have near: "\<bar>py_round x 2 - x\<bar> \<le> 1 / 200" for x by (rule py_round_error)
  define m where "m = of_int t * price" define h where "h = of_int ?q * price"
  have diff: "of_int (t - ?q) * price = m - h" "of_int (?q - t) * price = h - m"
    by (simp_all add: m_def h_def left_diff_distrib)
  have cash: "\<bar>?cash - (?c - (m - h) + (if ?q < t then max 0 (?am - ?c) else 0))\<bar> \<le> 1 / 100"
  proof -
    consider "?q < t" | "t < ?q" | "t = ?q" by linarith
    then show ?thesis
    proof cases
      case 1
      then have "?am = py_round (m - h) 2" "?cash = py_round (max 0 (?c - ?am)) 2"
        using diff(1) by (simp_all add: traded_cash_def side_of_def)
      moreover have "max 0 (?c - ?am) = ?c - ?am + max 0 (?am - ?c)" by (simp add: max_def)
      moreover have "\<bar>?am - (m - h)\<bar> \<le> 1 / 200" using near [of "m - h"] calculation(1) by simp
      ultimately show ?thesis using 1 near [of "max 0 (?c - ?am)"] by (simp only: if_True) linarith
    next
      case 2
      then have "?am = py_round (h - m) 2" "?cash = py_round (?c + ?am) 2"
        using diff(2) by (simp_all add: traded_cash_def side_of_def)
      moreover have "\<bar>?am - (h - m)\<bar> \<le> 1 / 200" using near [of "h - m"] calculation(1) by simp
      moreover have "\<not> ?q < t" using 2 by simp
      ultimately show ?thesis using near [of "?c + ?am"] by (simp only: if_False)
    next
      case 3
      then show ?thesis by (simp add: traded_cash_def side_of_def m_def h_def)
    qed
  qed
  have "\<bar>py_round (?cash + ?pv) 2 - (?c + h + (if ?q < t then max 0 (?am - ?c) else 0))\<bar> \<le> 1 / 50"
    using cash near [of "?cash + ?pv"] near [of m] unfolding m_def [symmetric] by linarith
  moreover have "(if ?q < t then max 0 (?am - ?c) else 0)
      = (if ?q < t then max 0 (py_round (of_int (t - ?q) * price) 2 - ?c) else 0)" by simp
  ultimately have "\<bar>py_round (?cash + ?pv) 2 - (?c + of_int ?q * price
      + (if ?q < t then max 0 (py_round (of_int (t - ?q) * price) 2 - ?c) else 0))\<bar> \<le> 1 / 50"
    unfolding h_def by (simp only:)
  moreover have "t = constrained_target a now price (ns_total_equity (cv_nav v)) sg s px0"
    by (simp add: t_def v)
  ultimately show ?thesis
    unfolding Let_def px0_def [symmetric] v [symmetric] run fst_conv snd_conv
    using eq by (simp only:) blast
qed

theorem paper_value_law_witness:
  "\<exists>e. ex_total_equity (last (px_executions (snd
      (execute_paper_cycle_for_slot 100000 demo_account 36000 Primary_slot (Some 300) (Some BUY) empty_store)))) = Some e
    \<and> \<bar>e - 100000\<bar> \<le> 1 / 50"
proof -
  have "py_round 30000 2 = 30000" using py_round_of_int [of 30000 2] by simp
  then show ?thesis
    using paper_value_law [OF demo_open, of 100000 Primary_slot empty_store 300 BUY]
    by (simp add: Let_def demo_start demo_target position_quantity_def)
qed

text \<open>One lot is bought whatever it costs.  On a flat account a buy signal in an open market
  whose price makes a single lot dearer than the cash and than the sized share of the equity
  is executed all the same: the account holds the lot, worth more than everything it had, and
  the next cycle reads the zero cash it left as the whole default capital.\<close>

theorem unaffordable_lot_refills_cash:
  assumes "slot_tidy now s (pa_symbol a) px" "cents capital" "paper_tables_ok px"
    and init: "(pa_proposal a, s) \<in> set (px_initialized px)"
    and op: "fst (paper_market_is_open now (pa_symbol a) (pa_market_scope a))"
    and flat: "ledger_of capital s (pa_symbol a) px = (cash, 0)"
    and price: "0 < price" "cash < py_round (of_int (market_lot_size (pa_symbol a)) * price) 2"
      "ns_total_equity (latest_paper_nav_state capital s px) * sizing_value a < 2 * of_int (market_lot_size (pa_symbol a)) * price"
  shows "ledger_of capital s (pa_symbol a)
      (snd (execute_paper_cycle_for_slot capital a now s (Some price) (Some BUY) px))
    = (capital, market_lot_size (pa_symbol a))"
proof -
  let ?lot = "market_lot_size (pa_symbol a)" and ?eq = "ns_total_equity (latest_paper_nav_state capital s px)"
  have sz: "0 < sizing_value a" by (simp add: sizing_value_def)
  let ?k = "\<lfloor>max 0 ?eq * sizing_value a / price\<rfloor>"
  have "max 0 ?eq * sizing_value a < 2 * of_int ?lot * price"
    using price(1,3) sz market_lot_size_pos [of "pa_symbol a"] by (simp add: max_def)
  then have "max 0 ?eq * sizing_value a / price < of_int (2 * ?lot)"
    using price(1) by (simp add: field_simps)
  then have "?k < 2 * ?lot" by (simp add: floor_less_iff)
  then have "?k div ?lot * ?lot \<le> 1 * ?lot"
    using div_times_below [of ?lot ?k] by simp
  then have "constrained_target a now price ?eq BUY s px = ?lot"
    using flat price(1) market_lot_size_pos [of "pa_symbol a"]
    by (simp add: constrained_target_def current_target_quantity_def Let_def ledger_of_def lots_def max_def)
  moreover have "initialize_paper_snapshot capital a now s px = px"
    using init by (simp add: initialize_paper_snapshot_def)
  ultimately show ?thesis
    using price(2) market_lot_size_pos [of "pa_symbol a"] flat op
      paper_cycle_refines_ledger_step [OF assms(1-3), of "Some price" "Some BUY"]
    by (simp add: Let_def ledger_trade_def traded_cash_def side_of_def or_default_def)
qed

theorem unaffordable_lot_refills_cash_witness:
  "ledger_of 100000 Primary_slot (pa_symbol demo_account)
      (snd (execute_paper_cycle_for_slot 100000 demo_account 36000 Primary_slot (Some 3000) (Some BUY)
        (initialize_paper_snapshot 100000 demo_account 36000 Primary_slot empty_store)))
    = (100000, 100)"
proof -
  let ?px = "initialize_paper_snapshot 100000 demo_account 36000 Primary_slot empty_store"
  have "slot_tidy 36000 Primary_slot (pa_symbol demo_account) ?px" "paper_tables_ok ?px"
    using tidy_initialize [OF empty_store_ok(1) cents_numeral] tables_ok_frame [OF initialize_fields(1,2)] empty_store_ok(2)
    by simp_all
  moreover have "py_round 300000 2 = 300000" using py_round_of_int [of 300000 2] by simp
  moreover have "(pa_proposal demo_account, Primary_slot) \<in> set (px_initialized ?px)"
    by (simp add: initialize_paper_snapshot_def empty_store_def)
  moreover have "sizing_value demo_account = 1 / 4" by (simp add: sizing_value_def demo_account_def)
  ultimately show ?thesis
    using unaffordable_lot_refills_cash [of 36000 Primary_slot demo_account ?px 100000 100000 3000] demo_open
    by (simp add: ledger_of_def demo_start demo_lot position_quantity_def)
qed

text \<open>C21. The tables of the paper account stay well formed: in every state that can be reached from
  the empty store by starting snapshots, bootstrap purchases and cycles, for any proposals, slots,
  prices and signals, every position and every order has a positive quantity that is a multiple
  of the lot of its market.  The account is long only and never trades an odd lot.\<close>

theorem paper_rows_well_formed:
  assumes "paper_reachable capital px"
  shows "(\<forall>r\<in>set (px_positions px). 0 < ps_quantity r \<and> market_lot_size (ps_symbol r) dvd ps_quantity r)
    \<and> (\<forall>r\<in>set (px_orders px). 0 < or_quantity r \<and> market_lot_size (or_symbol r) dvd or_quantity r)"
  using reachable_tables_ok [OF assms] by (simp add: paper_tables_ok_def row_sized_def list_all_iff)

definition demo_run :: paper_store where
  "demo_run = snd (execute_paper_cycle_for_slot 100000 demo_account 36000 Primary_slot (Some 300) (Some BUY) empty_store)"

theorem paper_rows_well_formed_witness:
  "list_all (\<lambda>r. 0 < ps_quantity r) (px_positions demo_run)"
  using paper_rows_well_formed [of 100000 demo_run] paper_reachable.step [OF paper_reachable.start paper_step.cycle]
  by (simp add: demo_run_def list_all_iff)

text \<open>C36. Slots do not see each other.  Starting a proposal, buying its bootstrap position and
  executing its cycle in one slot leave the value rows, the orders and the positions of every other
  slot as they are, so what any other slot reads of its account afterwards, its cash, its equity,
  its positions and its orders, is what it read before.\<close>

theorem slots_are_isolated:
  assumes "s \<noteq> t"
    and "px' \<in> {initialize_paper_snapshot capital a now s px,
      snd (bootstrap_paper_trade capital a now s quote px),
      snd (execute_paper_cycle_for_slot capital a now s bar sig px)}"
  shows "slot_view t px' = slot_view t px
    \<and> latest_paper_nav_state c t px' = latest_paper_nav_state c t px
    \<and> latest_paper_position symbol t px' = latest_paper_position symbol t px
    \<and> fetch_orders n t px' = fetch_orders n t px"
proof -
  have "slot_view t px' = slot_view t px"
    using assms slot_view_writes(4) slot_view_bootstrap slot_view_cycle by auto
  then show ?thesis using readers_of_view by metis
qed

theorem slots_are_isolated_witness:
  "slot_view (Candidate_slot 1) demo_run = slot_view (Candidate_slot 1) empty_store"
  using slots_are_isolated [of Primary_slot "Candidate_slot 1" demo_run 100000 demo_account 36000 empty_store
      None "Some 300" "Some BUY"]
  by (simp add: demo_run_def)

text \<open>A new proposal in a slot forgets the account.  The first time a proposal is started in a
  slot whose rows are not in the future, the cash and the equity the slot reads become the default
  capital and its position value zero, whatever was lost or won before, while every position row
  of the slot stays; starting the same proposal again changes nothing.\<close>

theorem new_proposal_forgets_account:
  assumes "list_all (\<lambda>r. nr_slot r = s \<longrightarrow> nr_date r \<le> dt_date now) (px_nav px)"
    and "(pa_proposal a, s) \<notin> set (px_initialized px)"
  shows "let px' = initialize_paper_snapshot capital a now s px in
    latest_paper_nav_state capital s px'
      = \<lparr>ns_trade_date = Some (dt_date now), ns_cash = capital, ns_position_value = 0, ns_total_equity = capital\<rparr>
    \<and> px_positions px' = px_positions px
    \<and> initialize_paper_snapshot capital a later s px' = px'"
proof -
  let ?n = "\<lparr>nr_date = dt_date now, nr_slot = s, nr_proposal = pa_proposal a, nr_cash = capital,
    nr_position_value = 0, nr_total_equity = capital\<rparr>"
  have "fetch_nav 1 s (px\<lparr>px_nav := px_nav px @ [?n]\<rparr>) = [?n]"
    using assms(1) by (intro latest_nav_row) (simp_all add: list_all_iff)
  then have "fetch_nav 1 s (initialize_paper_snapshot capital a now s px) = [?n]"
    using assms(2) by (simp add: initialize_paper_snapshot_def fetch_nav_def)
  then show ?thesis
    using assms(2) by (simp add: latest_paper_nav_state_def or_default_def initialize_paper_snapshot_def)
qed

theorem new_proposal_forgets_account_witness:
  "ns_cash (latest_paper_nav_state 100000 Primary_slot
     (initialize_paper_snapshot 100000 (demo_account\<lparr>pa_proposal := ''q''\<rparr>) 36000 Primary_slot demo_run)) = 100000"
proof -
  have "slot_tidy 36000 Primary_slot (pa_symbol demo_account) demo_run"
    using paper_cycle_refines_ledger_step [OF empty_store_ok(1) cents_numeral empty_store_ok(2)]
    by (simp add: demo_run_def Let_def)
  then have "list_all (\<lambda>r. nr_slot r = Primary_slot \<longrightarrow> nr_date r \<le> dt_date 36000) (px_nav demo_run)"
    by (simp add: slot_tidy_def list_all_iff)
  moreover have "px_initialized demo_run = [(''p'', Primary_slot)]"
    using demo_open by (simp add: demo_run_def execute_paper_cycle_for_slot_def Let_def rebalance_open_market_def
        delete_position_def insert_position_def insert_order_def initialize_paper_snapshot_def empty_store_def
        demo_account_def split: option.split)
  ultimately show ?thesis
    using new_proposal_forgets_account [where a = "demo_account\<lparr>pa_proposal := ''q''\<rparr>"
        and now = 36000 and px = demo_run and s = Primary_slot and capital = 100000]
    by (simp add: Let_def)
qed

text \<open>When the market is open: on every weekday at ten in the morning, whatever the scope.\<close>

lemma ten_oclock_open:
  assumes "d mod 7 < 5"
  shows "fst (paper_market_is_open (d * 86400 + 36000) symbol scope)"
proof -
  have "dt_weekday (d * 86400 + 36000) < 5" "dt_minutes (d * 86400 + 36000) = 600"
    using assms by (simp_all add: dt_weekday_def dt_date_def dt_minutes_def)
  then show ?thesis by (simp add: paper_market_is_open_def Let_def is_trading_day_def)
qed

lemma that_day: "e mod 7 < (5::int) \<Longrightarrow> d \<le> e \<Longrightarrow> e \<le> d + 2 \<Longrightarrow> \<exists>e. d \<le> e \<and> e \<le> d + 2 \<and> e mod 7 < 5"
  by blast

lemma next_weekday: "\<exists>e. d \<le> e \<and> e \<le> d + 2 \<and> e mod 7 < (5::int)"
proof -
  have "d mod 7 < 5 \<or> (d + 1) mod 7 < 5 \<or> (d + 2) mod 7 < 5" by presburger
  then show ?thesis
    by (elim disjE) (rule that_day, assumption, simp, simp)+
qed

lemma holding_period_over:
  assumes "\<forall>r\<in>set (px_orders px). or_slot r = s \<longrightarrow> or_created_at r \<le> now"
    and "dt_date now + pa_min_holding_days a \<le> dt_date later"
  shows "\<not> held_too_briefly a later s px"
proof
  assume "held_too_briefly a later s px"
  then obtain r where r: "find (\<lambda>r. same_symbol (or_symbol r) (pa_symbol a) \<and> or_side r = Buy_side) (fetch_orders 200 s px) = Some r"
    "dt_date later - dt_date (or_created_at r) < pa_min_holding_days a"
    by (auto simp: held_too_briefly_def split: option.splits)
  have "r \<in> set (fetch_orders 200 s px)" using find_SomeD [OF r(1)] by simp
  then have "or_created_at r \<le> now"
    using assms(1) by (auto simp: fetch_orders_def dest: in_set_takeD)
  with r(2) assms(2) dt_date_mono [of "or_created_at r" now] show False by simp
qed

text \<open>C20. A sell signal gets out.  Whatever a slot holds, if its orders and value rows are not in
  the future then at the latest on the second weekday morning after the minimal holding days
  have passed there is a time at which a cycle with a sell signal leaves the slot without a
  position; before that time no cycle shrinks a position bought within the minimal holding days,
  whatever the signal and the price are.\<close>

theorem sell_signal_closes_position:
  assumes "slot_tidy now s (pa_symbol a) px" "cents capital" "paper_tables_ok px"
    and orders: "\<forall>r\<in>set (px_orders px). or_slot r = s \<longrightarrow> or_created_at r \<le> now"
  shows "(\<exists>later \<ge> now. dt_date later \<le> dt_date now + max 1 (pa_min_holding_days a) + 2
      \<and> (\<forall>price. snd (ledger_of capital s (pa_symbol a)
          (snd (execute_paper_cycle_for_slot capital a later s (Some price) (Some SELL) px))) = 0))
    \<and> (\<forall>bar sig. held_too_briefly a now s px \<longrightarrow>
        snd (ledger_of capital s (pa_symbol a) px)
          \<le> snd (ledger_of capital s (pa_symbol a) (snd (execute_paper_cycle_for_slot capital a now s bar sig px))))"
proof (intro conjI allI impI)
  let ?d = "dt_date now + max 1 (pa_min_holding_days a)"
  obtain e where e: "?d \<le> e" "e \<le> ?d + 2" "e mod 7 < 5" using next_weekday by blast
  let ?t = "e * 86400 + 36000"
  have dt: "dt_date ?t = e" by (simp add: dt_date_def)
  have "dt_date now < e" using e(1) by simp
  then have later: "now \<le> ?t" using dt_date_mono [of ?t now] dt by linarith
  let ?px0 = "initialize_paper_snapshot capital a ?t s px"
  have "\<not> held_too_briefly a ?t s ?px0"
    using orders e(1) dt by (intro holding_period_over [where now = now]) simp_all
  then have "constrained_target a ?t price q SELL s ?px0 = 0" for price q
    by (simp add: constrained_target_def current_target_quantity_def)
  then have "snd (ledger_of capital s (pa_symbol a)
      (snd (execute_paper_cycle_for_slot capital a ?t s (Some price) (Some SELL) px))) = 0" for price
    using paper_cycle_refines_ledger_step [OF slot_tidy_later [OF assms(1) later] assms(2,3), of "Some price" "Some SELL"]
      ten_oclock_open [OF e(3)] by (simp add: Let_def ledger_trade_def)
  with later e(2) dt show "\<exists>later \<ge> now. dt_date later \<le> ?d + 2
      \<and> (\<forall>price. snd (ledger_of capital s (pa_symbol a)
          (snd (execute_paper_cycle_for_slot capital a later s (Some price) (Some SELL) px))) = 0)"
    by (intro exI [of _ ?t]) simp
next
  fix bar sig
  assume held: "held_too_briefly a now s px"
  let ?px0 = "initialize_paper_snapshot capital a now s px"
  have "held_too_briefly a now s ?px0"
    using held by (simp add: held_too_briefly_def fetch_orders_def)
  then have "snd (ledger_of capital s (pa_symbol a) ?px0) \<le> constrained_target a now price q sg s ?px0" for price q sg
    by (simp add: constrained_target_def ledger_of_def Let_def)
  moreover have "snd (ledger_of capital s (pa_symbol a) ?px0) = snd (ledger_of capital s (pa_symbol a) px)"
    by (simp add: ledger_of_def position_frame [OF initialize_fields(1)])
  ultimately show "snd (ledger_of capital s (pa_symbol a) px)
      \<le> snd (ledger_of capital s (pa_symbol a) (snd (execute_paper_cycle_for_slot capital a now s bar sig px)))"
    using paper_cycle_refines_ledger_step [OF assms(1-3), of bar sig]
    by (simp add: Let_def ledger_trade_def split: option.splits if_splits)
qed

text \<open>A proposal gets one bootstrap purchase per slot.  A bootstrap that trades needs an open
  market, a positive quote and a proposal not bootstrapped in the slot before; it buys one order
  of the sized share of the default capital, at least one lot, replaces the position of the symbol
  by it, and every later bootstrap of the proposal in the slot does nothing.\<close>

theorem bootstrap_trades_once:
  assumes "bootstrap_paper_trade capital a now s quote px = (True, px')"
  shows "(\<exists>price > 0. quote = Some price
      \<and> (\<exists>o_row. px_orders px' = px_orders px @ [o_row] \<and> or_side o_row = Buy_side
          \<and> or_quantity o_row = lots (capital * sizing_value a) price (market_lot_size (pa_symbol a))
          \<and> market_lot_size (pa_symbol a) \<le> or_quantity o_row))
    \<and> fst (paper_market_is_open now (pa_symbol a) (pa_market_scope a))
    \<and> bootstrap_paper_trade capital' a later s quote' px' = (False, px')"
proof -
  have "market_lot_size (pa_symbol a) \<le> lots n p (market_lot_size (pa_symbol a))" for n p
    by (simp add: lots_def)
  then show ?thesis
    using assms by (auto simp: bootstrap_paper_trade_def Let_def insert_order_def split: if_splits option.splits)
qed

theorem sell_signal_closes_position_witness:
  "\<exists>later \<ge> 36000. dt_date later \<le> 5 \<and> (\<forall>price. snd (ledger_of 100000 Primary_slot (pa_symbol demo_account)
      (snd (execute_paper_cycle_for_slot 100000 demo_account later Primary_slot (Some price) (Some SELL) demo_run))) = 0)"
proof -
  have "slot_tidy 36000 Primary_slot (pa_symbol demo_account) demo_run" "paper_tables_ok demo_run"
    using paper_cycle_refines_ledger_step [OF empty_store_ok(1) cents_numeral empty_store_ok(2)]
    by (simp_all add: demo_run_def Let_def)
  moreover have "\<forall>r\<in>set (px_orders demo_run). or_slot r = Primary_slot \<longrightarrow> or_created_at r \<le> 36000"
    using demo_open by (simp add: demo_run_def execute_paper_cycle_for_slot_def Let_def rebalance_open_market_def
        delete_position_def insert_position_def insert_order_def initialize_paper_snapshot_def empty_store_def
        split: option.split)
  ultimately show ?thesis
    using sell_signal_closes_position [of 36000 Primary_slot demo_account demo_run 100000]
    by (simp add: demo_account_def dt_date_def)
qed

theorem bootstrap_trades_once_witness:
  "bootstrap_paper_trade 100000 demo_account 40000 Primary_slot (Some 7)
     (snd (bootstrap_paper_trade 100000 demo_account 36000 Primary_slot (Some 300) empty_store))
   = (False, snd (bootstrap_paper_trade 100000 demo_account 36000 Primary_slot (Some 300) empty_store))"
proof -
  have "fst (bootstrap_paper_trade 100000 demo_account 36000 Primary_slot (Some 300) empty_store)"
    using demo_open by (simp add: bootstrap_paper_trade_def Let_def empty_store_def)
  then show ?thesis
    using bootstrap_trades_once [of 100000 demo_account 36000 Primary_slot "Some 300" empty_store _ 100000 40000 "Some 7"]
    by (metis prod.collapse)
qed

end
