(* ===== verification/Market_Cache.thy ===== *)
theory Market_Cache imports Pandas_Series begin

text \<open>
  \<open>data/cache.py\<close>: the cache of daily bars.  The table has the primary key of symbol and date, so
  it is an association list on that key, kept up to date by \<open>AList.update\<close>; a date is a day
  number (the stored ISO texts compare as the days do).  A NaN cell is stored as a null and the
  columns refuse nulls, so writing it raises and the transaction is rolled back.
\<close>

section \<open>The table\<close>

record quote_row =
  q_open :: fl
  q_high :: fl
  q_low :: fl
  q_close :: fl
  q_volume :: fl

type_synonym dated_rows = "(int \<times> quote_row) list"
type_synonym ohlcv_cache = "((string \<times> int) \<times> quote_row) list"

definition storable :: "quote_row \<Rightarrow> bool" where
  "storable q \<longleftrightarrow> \<not> list_ex isna [q_open q, q_high q, q_low q, q_close q, q_volume q]"

definition get_range :: "string \<Rightarrow> int \<Rightarrow> int \<Rightarrow> ohlcv_cache \<Rightarrow> dated_rows" where
  "get_range symbol start stop c =
     sort_key fst (map (\<lambda>((_, d), q). (d, q))
       (filter (\<lambda>((s, d), _). s = symbol \<and> start \<le> d \<and> d \<le> stop) c))"

definition cached_dates :: "string \<Rightarrow> ohlcv_cache \<Rightarrow> int list" where
  "cached_dates symbol c = map (snd \<circ> fst) (filter (\<lambda>((s, _), _). s = symbol) c)"

definition get_last_trade_date :: "string \<Rightarrow> ohlcv_cache \<Rightarrow> int option" where
  "get_last_trade_date symbol c =
     (case sort_desc id (cached_dates symbol c) of [] \<Rightarrow> None | d # _ \<Rightarrow> Some d)"

definition get_date_bounds :: "string \<Rightarrow> ohlcv_cache \<Rightarrow> (int \<times> int) option" where
  "get_date_bounds symbol c =
     (case cached_dates symbol c of [] \<Rightarrow> None
      | d # ds \<Rightarrow> Some (fold min ds d, fold max ds d))"

definition upsert :: "string \<Rightarrow> dated_rows \<Rightarrow> ohlcv_cache \<Rightarrow> ohlcv_cache res" where
  "upsert symbol rows c =
     (if list_all (storable \<circ> snd) rows
      then Inr (fold (\<lambda>(d, q). AList.update (symbol, d) q) rows c)
      else Inl IntegrityError)"

section \<open>Fetching through the cache\<close>

definition tolerated_gap_days :: int where
  "tolerated_gap_days = 3"

text \<open>A loader that raises, returns nothing or an empty frame loads nothing.\<close>

definition loaded_rows :: "dated_rows option res \<Rightarrow> dated_rows" where
  "loaded_rows r = (case r of Inr (Some rows) \<Rightarrow> rows | _ \<Rightarrow> [])"

definition load_into ::
  "string \<Rightarrow> (int \<Rightarrow> int \<Rightarrow> dated_rows option res) \<Rightarrow> int \<Rightarrow> int \<Rightarrow> ohlcv_cache \<Rightarrow> ohlcv_cache res" where
  "load_into symbol loader a b c =
     (let rows = loaded_rows (loader a b) in if rows = [] then Inr c else upsert symbol rows c)"

definition load_head ::
  "string \<Rightarrow> (int \<Rightarrow> int \<Rightarrow> dated_rows option res) \<Rightarrow> int \<Rightarrow> int \<Rightarrow> ohlcv_cache \<Rightarrow> ohlcv_cache res" where
  "load_head symbol loader start earliest c =
     (let head_gap_days = max 0 (earliest - start); head_end = earliest - 1 in
      if start < earliest \<and> start \<le> head_end \<and> head_gap_days > tolerated_gap_days
      then load_into symbol loader start head_end c else Inr c)"

definition load_tail ::
  "string \<Rightarrow> (int \<Rightarrow> int \<Rightarrow> dated_rows option res) \<Rightarrow> int \<Rightarrow> int \<Rightarrow> ohlcv_cache \<Rightarrow> ohlcv_cache res" where
  "load_tail symbol loader stop latest c =
     (let tail_gap_days = max 0 (stop - latest); tail_start = latest + 1 in
      if latest < stop \<and> tail_start \<le> stop \<and> tail_gap_days > tolerated_gap_days
      then load_into symbol loader tail_start stop c else Inr c)"

text \<open>The result, and the table as it is afterwards, also when a write raises.\<close>

definition fetch_or_load ::
  "string \<Rightarrow> int \<Rightarrow> int \<Rightarrow> (int \<Rightarrow> int \<Rightarrow> dated_rows option res) \<Rightarrow> ohlcv_cache
     \<Rightarrow> dated_rows res \<times> ohlcv_cache" where
  "fetch_or_load symbol start stop loader c =
     (let cached = get_range symbol start stop c in
      case get_date_bounds symbol c of
        None \<Rightarrow>
          (case load_into symbol loader start stop c of
             Inl e \<Rightarrow> (Inl e, c)
           | Inr c' \<Rightarrow> (Inr (get_range symbol start stop c'), c'))
      | Some (earliest, latest) \<Rightarrow>
          if earliest \<le> start \<and> latest \<ge> stop \<and> cached \<noteq> [] then (Inr cached, c)
          else
            (case load_head symbol loader start earliest c of
               Inl e \<Rightarrow> (Inl e, c)
             | Inr c1 \<Rightarrow>
                 (case load_tail symbol loader stop latest c1 of
                    Inl e \<Rightarrow> (Inl e, c1)
                  | Inr c2 \<Rightarrow> (Inr (get_range symbol start stop c2), c2))))"

section \<open>The store interface\<close>

text \<open>What the fetching relies on: a table of rows by symbol and date, a write that makes the written
  rows the ones that are read, and a range query that returns the rows of the range in order.\<close>

locale price_store =
  fixes look :: "'c \<Rightarrow> string \<Rightarrow> int \<Rightarrow> 'q option"
    and put :: "string \<Rightarrow> (int \<times> 'q) list \<Rightarrow> 'c \<Rightarrow> 'c"
    and range_of :: "string \<Rightarrow> int \<Rightarrow> int \<Rightarrow> 'c \<Rightarrow> (int \<times> 'q) list"
    and ok :: "'c \<Rightarrow> bool"
  assumes look_write: "look (put s rows c) t d =
      (if s = t then (case map_of (rev rows) d of Some q \<Rightarrow> Some q | None \<Rightarrow> look c t d) else look c t d)"
    and ok_write: "ok c \<Longrightarrow> ok (put s rows c)"
    and in_range: "ok c \<Longrightarrow> (d, q) \<in> set (range_of s a b c) \<longleftrightarrow> a \<le> d \<and> d \<le> b \<and> look c s d = Some q"
    and range_sorted: "ok c \<Longrightarrow> sorted_wrt (<) (map fst (range_of s a b c))"
begin

lemma range_dates_distinct: "ok c \<Longrightarrow> distinct (map fst (range_of s a b c))"
  using range_sorted strict_sorted_iff by blast

lemma other_symbol: "s \<noteq> t \<Longrightarrow> look (put s rows c) t d = look c t d"
  by (simp add: look_write)

lemma range_functional:
  "ok c \<Longrightarrow> (d, q) \<in> set (range_of s a b c) \<Longrightarrow> (d, q') \<in> set (range_of s a b c) \<Longrightarrow> q = q'"
  by (auto simp: in_range)

lemma range_sub: "ok c \<Longrightarrow> a \<le> a' \<Longrightarrow> b' \<le> b \<Longrightarrow> set (range_of s a' b' c) \<subseteq> set (range_of s a b c)"
  by (auto simp: in_range)

text \<open>Writing rows that are already there changes nothing that can be read.\<close>

lemma rewrite_same:
  assumes "ok c" "distinct (map fst rows)" "\<forall>(d, q)\<in>set rows. look c s d = Some q"
  shows "look (put s rows c) = look c"
proof (intro ext)
  fix t d
  show "look (put s rows c) t d = look c t d"
  proof (cases "map_of (rev rows) d")
    case (Some q)
    then have "(d, q) \<in> set rows" using map_of_SomeD by fastforce
    with assms(3) Some show ?thesis by (auto simp: look_write)
  qed (simp add: look_write)
qed

end

definition cache_look :: "ohlcv_cache \<Rightarrow> string \<Rightarrow> int \<Rightarrow> quote_row option" where
  "cache_look c s d = map_of c (s, d)"

definition cache_write :: "string \<Rightarrow> dated_rows \<Rightarrow> ohlcv_cache \<Rightarrow> ohlcv_cache" where
  "cache_write symbol rows c = fold (\<lambda>(d, q). AList.update (symbol, d) q) rows c"

definition cache_ok :: "ohlcv_cache \<Rightarrow> bool" where
  "cache_ok c \<longleftrightarrow> distinct (map fst c)"

lemma cache_look_write:
  "cache_look (cache_write s rows c) t d =
     (if s = t then (case map_of (rev rows) d of Some q \<Rightarrow> Some q | None \<Rightarrow> cache_look c t d) else cache_look c t d)"
proof (induction rows arbitrary: c)
  case (Cons r rows)
  obtain d' q where r: "r = (d', q)" by (cases r)
  show ?case
    using Cons.IH [of "AList.update (s, d') q c"]
    by (auto simp: r cache_write_def cache_look_def update_conv map_add_def split: option.split)
qed (simp add: cache_write_def)

lemma cache_ok_write: "cache_ok c \<Longrightarrow> cache_ok (cache_write s rows c)"
proof (induction rows arbitrary: c)
  case (Cons r rows)
  then show ?case
    by (cases r) (simp add: cache_write_def cache_ok_def distinct_update)
qed (simp add: cache_write_def)

lemma in_get_range:
  assumes "cache_ok c"
  shows "(d, q) \<in> set (get_range s a b c) \<longleftrightarrow> a \<le> d \<and> d \<le> b \<and> cache_look c s d = Some q"
proof -
  have "((s, d), q) \<in> set c \<longleftrightarrow> map_of c (s, d) = Some q"
    using assms by (simp add: cache_ok_def)
  then show ?thesis by (force simp: get_range_def cache_look_def)
qed

lemma distinct_map_sort: "distinct (map f xs) \<Longrightarrow> distinct (map f (sort_key g xs))"
proof -
  assume "distinct (map f xs)"
  moreover have "mset (map f (sort_key g xs)) = mset (map f xs)" by simp
  ultimately show ?thesis using mset_eq_imp_distinct_iff by blast
qed

lemma get_range_sorted:
  assumes "cache_ok c"
  shows "sorted_wrt (<) (map fst (get_range s a b c))"
proof -
  let ?f = "filter (\<lambda>((t, d), _). t = s \<and> a \<le> d \<and> d \<le> b) c"
  have "distinct (map fst ?f)" using assms by (simp add: cache_ok_def distinct_map_filter)
  moreover have "inj_on snd (set (map fst ?f))" by (auto intro!: inj_onI)
  ultimately have "distinct (map snd (map fst ?f))" by (simp only: distinct_map [of snd "map fst ?f"])
  moreover have "map snd (map fst ?f) = map fst (map (\<lambda>((_, d), q). (d, q)) ?f)" by (simp add: split_def)
  ultimately have "distinct (map fst (map (\<lambda>((_, d), q). (d, q)) ?f))" by (simp only:)
  then have "distinct (map fst (get_range s a b c))"
    unfolding get_range_def by (rule distinct_map_sort)
  then show ?thesis
    unfolding strict_sorted_iff by (simp add: get_range_def)
qed

interpretation ohlcv: price_store cache_look cache_write get_range cache_ok
  by unfold_locales (simp_all add: cache_look_write cache_ok_write in_get_range get_range_sorted)

lemma upsert_eq: "upsert s rows c = (if list_all (storable \<circ> snd) rows then Inr (cache_write s rows c) else Inl IntegrityError)"
  by (simp add: upsert_def cache_write_def)

section \<open>The bounds of a symbol\<close>

lemma fold_min_le: "fold min ds d \<le> (d :: int) \<and> (\<forall>x\<in>set ds. fold min ds d \<le> x) \<and> fold min ds d \<in> set (d # ds)"
  using Min.set_eq_fold [of d ds, symmetric] Min_le [of "set (d # ds)"] Min_in [of "set (d # ds)"] by simp

lemma fold_max_ge: "(d :: int) \<le> fold max ds d \<and> (\<forall>x\<in>set ds. x \<le> fold max ds d) \<and> fold max ds d \<in> set (d # ds)"
  using Max.set_eq_fold [of d ds, symmetric] Max_ge [of "set (d # ds)"] Max_in [of "set (d # ds)"] by simp

lemma in_cached_dates: "cache_ok c \<Longrightarrow> d \<in> set (cached_dates s c) \<longleftrightarrow> cache_look c s d \<noteq> None"
proof -
  assume "cache_ok c"
  have "d \<in> set (cached_dates s c) \<longleftrightarrow> (s, d) \<in> fst ` set c"
    by (force simp: cached_dates_def)
  also have "\<dots> \<longleftrightarrow> cache_look c s d \<noteq> None"
    by (simp add: cache_look_def map_of_eq_None_iff)
  finally show ?thesis .
qed

lemma bounds_None: "cache_ok c \<Longrightarrow> get_date_bounds s c = None \<longleftrightarrow> (\<forall>d. cache_look c s d = None)"
proof -
  assume ok: "cache_ok c"
  have "get_date_bounds s c = None \<longleftrightarrow> set (cached_dates s c) = {}"
    by (simp add: get_date_bounds_def split: list.split)
  also have "\<dots> \<longleftrightarrow> (\<forall>d. d \<notin> set (cached_dates s c))" by auto
  also have "\<dots> \<longleftrightarrow> (\<forall>d. cache_look c s d = None)" by (simp add: in_cached_dates [OF ok])
  finally show ?thesis .
qed

lemma bounds_Some:
  assumes "cache_ok c" "get_date_bounds s c = Some (lo, hi)"
  shows "cache_look c s lo \<noteq> None" "cache_look c s hi \<noteq> None"
    "cache_look c s d \<noteq> None \<Longrightarrow> lo \<le> d \<and> d \<le> hi" "lo \<le> hi"
proof -
  obtain x ds where ds: "cached_dates s c = x # ds" "lo = fold min ds x" "hi = fold max ds x"
    using assms(2) by (auto simp: get_date_bounds_def split: list.splits)
  have mem: "set (x # ds) = {d. cache_look c s d \<noteq> None}"
    using in_cached_dates [OF assms(1), of _ s] ds(1) by auto
  show "cache_look c s lo \<noteq> None" "cache_look c s hi \<noteq> None"
    using fold_min_le [of ds x] fold_max_ge [of x ds] ds mem by blast+
  show "cache_look c s d \<noteq> None \<Longrightarrow> lo \<le> d \<and> d \<le> hi"
    using fold_min_le [of ds x] fold_max_ge [of x ds] ds mem by auto
  show "lo \<le> hi" using fold_min_le [of ds x] fold_max_ge [of x ds] ds by linarith
qed

section \<open>A cache that agrees with the market\<close>

text \<open>The market is what the provider would answer; the cache agrees with it for a symbol if it
  holds nothing else and has no hole between its bounds.  A loader answers for the market if each
  answer is empty, as after a failure, or exactly the market's rows of the asked range.\<close>

definition agrees :: "(int \<Rightarrow> quote_row option) \<Rightarrow> string \<Rightarrow> ohlcv_cache \<Rightarrow> bool" where
  "agrees M s c \<longleftrightarrow> cache_ok c
     \<and> (\<forall>d q. cache_look c s d = Some q \<longrightarrow> M d = Some q)
     \<and> (\<forall>lo hi d. get_date_bounds s c = Some (lo, hi) \<longrightarrow> lo \<le> d \<longrightarrow> d \<le> hi \<longrightarrow> cache_look c s d = M d)"

definition answers_for :: "(int \<Rightarrow> quote_row option) \<Rightarrow> (int \<Rightarrow> int \<Rightarrow> dated_rows option res) \<Rightarrow> bool" where
  "answers_for M loader \<longleftrightarrow>
     (\<forall>a b. loaded_rows (loader a b) = []
        \<or> (\<forall>d q. (d, q) \<in> set (loaded_rows (loader a b)) \<longleftrightarrow> a \<le> d \<and> d \<le> b \<and> M d = Some q))
     \<and> (\<forall>d q. M d = Some q \<longrightarrow> storable q)"

lemma load_into_answers:
  assumes "agrees M s c" "answers_for M loader"
  shows "\<exists>c'. load_into s loader a b c = Inr c' \<and> cache_ok c'
    \<and> (c' = c \<and> loaded_rows (loader a b) = []
       \<or> (\<forall>d. cache_look c' s d = (if a \<le> d \<and> d \<le> b then M d else cache_look c s d)))"
proof (cases "loaded_rows (loader a b) = []")
  case True
  then show ?thesis using assms(1) by (simp add: load_into_def agrees_def)
next
  case False
  let ?rows = "loaded_rows (loader a b)"
  have rows: "(d, q) \<in> set ?rows \<longleftrightarrow> a \<le> d \<and> d \<le> b \<and> M d = Some q" for d q
    using assms(2) False by (auto simp: answers_for_def)
  then have "list_all (storable \<circ> snd) ?rows"
    using assms(2) by (auto simp: answers_for_def list_all_iff)
  then have into: "load_into s loader a b c = Inr (cache_write s ?rows c)"
    using False by (simp add: load_into_def Let_def upsert_eq)
  have look: "map_of (rev ?rows) d = (if a \<le> d \<and> d \<le> b then M d else None)" for d
  proof (cases "map_of (rev ?rows) d")
    case None
    then have "d \<notin> fst ` set ?rows" by (simp add: map_of_eq_None_iff)
    then have "\<not> (a \<le> d \<and> d \<le> b \<and> M d = Some q)" for q using rows by force
    with None show ?thesis by (cases "M d") auto
  next
    case (Some q)
    then have "(d, q) \<in> set ?rows" using map_of_SomeD by fastforce
    with Some rows show ?thesis by simp
  qed
  have sub: "M d = None \<Longrightarrow> cache_look c s d = None" for d
    using assms(1) by (cases "cache_look c s d") (auto simp: agrees_def)
  have "cache_look (cache_write s ?rows c) s d = (if a \<le> d \<and> d \<le> b then M d else cache_look c s d)" for d
    using sub [of d] by (cases "M d") (auto simp: cache_look_write look)
  then show ?thesis using into assms(1) cache_ok_write by (auto simp: agrees_def)
qed

text \<open>A load that touches the known range leaves no hole.\<close>

lemma agrees_extend:
  assumes ag: "agrees M s c" and ok: "cache_ok c'"
    and look: "\<And>d. cache_look c' s d = (if a \<le> d \<and> d \<le> b then M d else cache_look c s d)"
    and touch: "\<And>lo hi. get_date_bounds s c = Some (lo, hi) \<Longrightarrow> lo - 1 \<le> b \<and> a \<le> hi + 1"
  shows "agrees M s c'"
proof -
  have sub: "M d = Some q" if "cache_look c' s d = Some q" for d q
    using that ag look by (auto simp: agrees_def split: if_splits)
  have "cache_look c' s d = M d" if b': "get_date_bounds s c' = Some (lo', hi')" and d: "lo' \<le> d" "d \<le> hi'" for lo' hi' d
  proof (cases "get_date_bounds s c")
    case None
    then have "cache_look c s e = None" for e using ag bounds_None by (auto simp: agrees_def)
    then have "a \<le> lo'" "hi' \<le> b" using bounds_Some(1,2) [OF ok b'] look by (auto split: if_splits)
    with d show ?thesis using look by simp
  next
    case (Some r)
    then obtain lo hi where r: "get_date_bounds s c = Some (lo, hi)" by (cases r) auto
    have in_r: "cache_look c s e \<noteq> None \<Longrightarrow> lo \<le> e \<and> e \<le> hi" for e
      using bounds_Some(3) [OF _ r] ag by (auto simp: agrees_def)
    have "a \<le> lo' \<or> lo \<le> lo'"
      using bounds_Some(1) [OF ok b'] look [of lo'] in_r [of lo'] by (cases "a \<le> lo'") simp_all
    moreover have "hi' \<le> b \<or> hi' \<le> hi"
      using bounds_Some(2) [OF ok b'] look [of hi'] in_r [of hi'] by (cases "hi' \<le> b") simp_all
    moreover have "lo - 1 \<le> b \<and> a \<le> hi + 1" using touch [OF r] .
    ultimately have "a \<le> d \<and> d \<le> b \<or> lo \<le> d \<and> d \<le> hi" using d by linarith
    then show ?thesis using look [of d] ag r by (auto simp: agrees_def)
  qed
  then show ?thesis unfolding agrees_def using ok sub by blast
qed

text \<open>The two loads that a known range allows.\<close>

lemma load_head_agrees:
  assumes ag: "agrees M s c" "answers_for M loader" and b: "get_date_bounds s c = Some (lo, hi)"
  shows "\<exists>c'. load_head s loader a lo c = Inr c' \<and> agrees M s c'
    \<and> (\<forall>d. cache_look c s d \<noteq> None \<longrightarrow> cache_look c' s d = cache_look c s d)
    \<and> (\<forall>d. a \<le> d \<longrightarrow> d < lo \<longrightarrow> cache_look c' s d = M d \<or> lo - a \<le> 3
           \<or> (\<exists>x y. x \<le> d \<and> d \<le> y \<and> loaded_rows (loader x y) = []))
    \<and> (\<forall>d. lo \<le> d \<longrightarrow> cache_look c' s d = cache_look c s d)"
proof (cases "a < lo \<and> lo - a > 3")
  case False
  then have "load_head s loader a lo c = Inr c" by (auto simp: load_head_def Let_def tolerated_gap_days_def max_def)
  with ag False show ?thesis by auto
next
  case True
  then have lh: "load_head s loader a lo c = load_into s loader a (lo - 1) c"
    by (simp add: load_head_def Let_def tolerated_gap_days_def)
  obtain c' where c': "load_into s loader a (lo - 1) c = Inr c'" "cache_ok c'"
    "c' = c \<and> loaded_rows (loader a (lo - 1)) = []
      \<or> (\<forall>d. cache_look c' s d = (if a \<le> d \<and> d \<le> lo - 1 then M d else cache_look c s d))"
    using load_into_answers [OF ag, of a "lo - 1"] by blast
  from c'(3) show ?thesis
  proof
    assume "c' = c \<and> loaded_rows (loader a (lo - 1)) = []"
    with ag(1) c'(1) lh show ?thesis by (intro exI [of _ c]) auto
  next
    assume look: "\<forall>d. cache_look c' s d = (if a \<le> d \<and> d \<le> lo - 1 then M d else cache_look c s d)"
    then have "agrees M s c'"
      using True bounds_Some(4) [OF _ b] ag(1)
      by (intro agrees_extend [OF ag(1) c'(2), of a "lo - 1"]) (auto simp: b agrees_def)
    moreover have "cache_look c s d = None" if "d < lo" for d
      using bounds_Some(3) [OF _ b, of d] ag(1) that by (cases "cache_look c s d") (auto simp: agrees_def)
    ultimately show ?thesis using c'(1) lh look by (intro exI [of _ c']) auto
  qed
qed

lemma load_tail_agrees:
  assumes ag: "agrees M s c" "answers_for M loader" and b: "get_date_bounds s c = Some (lo, hi)"
  shows "\<exists>c'. load_tail s loader z hi c = Inr c' \<and> agrees M s c'
    \<and> (\<forall>d. cache_look c s d \<noteq> None \<longrightarrow> cache_look c' s d = cache_look c s d)
    \<and> (\<forall>d. d \<le> z \<longrightarrow> hi < d \<longrightarrow> cache_look c' s d = M d \<or> z - hi \<le> 3
           \<or> (\<exists>x y. x \<le> d \<and> d \<le> y \<and> loaded_rows (loader x y) = []))
    \<and> (\<forall>d. d \<le> hi \<longrightarrow> cache_look c' s d = cache_look c s d)"
proof (cases "hi < z \<and> z - hi > 3")
  case False
  then have "load_tail s loader z hi c = Inr c" by (auto simp: load_tail_def Let_def tolerated_gap_days_def max_def)
  with ag False show ?thesis by auto
next
  case True
  then have lh: "load_tail s loader z hi c = load_into s loader (hi + 1) z c"
    by (simp add: load_tail_def Let_def tolerated_gap_days_def)
  obtain c' where c': "load_into s loader (hi + 1) z c = Inr c'" "cache_ok c'"
    "c' = c \<and> loaded_rows (loader (hi + 1) z) = []
      \<or> (\<forall>d. cache_look c' s d = (if hi + 1 \<le> d \<and> d \<le> z then M d else cache_look c s d))"
    using load_into_answers [OF ag, of "hi + 1" z] by blast
  from c'(3) show ?thesis
  proof
    assume "c' = c \<and> loaded_rows (loader (hi + 1) z) = []"
    with ag(1) c'(1) lh show ?thesis by (intro exI [of _ c]) force
  next
    assume look: "\<forall>d. cache_look c' s d = (if hi + 1 \<le> d \<and> d \<le> z then M d else cache_look c s d)"
    then have "agrees M s c'"
      using True bounds_Some(4) [OF _ b] ag(1)
      by (intro agrees_extend [OF ag(1) c'(2), of "hi + 1" z]) (auto simp: b agrees_def)
    moreover have "cache_look c s d = None" if "hi < d" for d
      using bounds_Some(3) [OF _ b, of d] ag(1) that by (cases "cache_look c s d") (auto simp: agrees_def)
    ultimately show ?thesis using c'(1) lh look by (intro exI [of _ c']) auto
  qed
qed

lemma bounds_upper:
  assumes "cache_ok c" "cache_look c s hi \<noteq> None" "\<And>d. hi < d \<Longrightarrow> cache_look c s d = None"
  shows "\<exists>lo. get_date_bounds s c = Some (lo, hi)"
proof (cases "get_date_bounds s c")
  case None
  then show ?thesis using assms(2) bounds_None [OF assms(1)] by simp
next
  case (Some r)
  then obtain lo h where r: "get_date_bounds s c = Some (lo, h)" by (cases r) auto
  have "hi \<le> h" using bounds_Some(3) [OF assms(1) r assms(2)] by simp
  moreover have "\<not> hi < h" using bounds_Some(2) [OF assms(1) r] assms(3) [of h] by auto
  ultimately show ?thesis using r by auto
qed

text \<open>What a request can miss: a day for which a load came back empty, or a day in a gap of at most
  three days before the first or after the last cached day.\<close>

definition tolerated_miss ::
  "string \<Rightarrow> ohlcv_cache \<Rightarrow> (int \<Rightarrow> int \<Rightarrow> dated_rows option res) \<Rightarrow> int \<Rightarrow> int \<Rightarrow> int \<Rightarrow> bool" where
  "tolerated_miss s c loader a b d \<longleftrightarrow>
     (\<exists>x y. x \<le> d \<and> d \<le> y \<and> loaded_rows (loader x y) = [])
     \<or> (\<exists>lo hi. get_date_bounds s c = Some (lo, hi) \<and> (d < lo \<and> lo - a \<le> 3 \<or> hi < d \<and> b - hi \<le> 3))"

lemma fetch_or_load_state:
  assumes ag: "agrees M s c" "answers_for M loader"
  shows "\<exists>c'. fetch_or_load s a b loader c = (Inr (get_range s a b c'), c') \<and> agrees M s c'
    \<and> (\<forall>d. a \<le> d \<longrightarrow> d \<le> b \<longrightarrow> cache_look c' s d = M d \<or> tolerated_miss s c loader a b d)"
proof (cases "get_date_bounds s c")
  case None
  have none: "cache_look c s d = None" for d using None bounds_None ag(1) by (auto simp: agrees_def)
  obtain c' where c': "load_into s loader a b c = Inr c'" "cache_ok c'"
    "c' = c \<and> loaded_rows (loader a b) = [] \<or> (\<forall>d. cache_look c' s d = (if a \<le> d \<and> d \<le> b then M d else cache_look c s d))"
    using load_into_answers [OF ag, of a b] by blast
  have "fetch_or_load s a b loader c = (Inr (get_range s a b c'), c')"
    using None c'(1) by (simp add: fetch_or_load_def Let_def)
  moreover have "agrees M s c'"
  proof (cases "c' = c")
    case False
    with c'(3) show ?thesis by (intro agrees_extend [OF ag(1) c'(2), of a b]) (simp_all add: None)
  qed (use ag(1) in simp)
  moreover have "a \<le> d \<longrightarrow> d \<le> b \<longrightarrow> cache_look c' s d = M d \<or> tolerated_miss s c loader a b d" for d
  proof (intro impI)
    assume "a \<le> d" "d \<le> b"
    with c'(3) show "cache_look c' s d = M d \<or> tolerated_miss s c loader a b d"
      by (elim disjE) (rule disjI2, simp add: tolerated_miss_def, blast, simp)
  qed
  ultimately show ?thesis by blast
next
  case (Some r)
  then obtain lo hi where r: "get_date_bounds s c = Some (lo, hi)" by (cases r) auto
  have ok: "cache_ok c" using ag(1) by (simp add: agrees_def)
  have hole: "lo \<le> d \<Longrightarrow> d \<le> hi \<Longrightarrow> cache_look c s d = M d" for d
    using ag(1) r unfolding agrees_def by blast
  show ?thesis
  proof (cases "lo \<le> a \<and> hi \<ge> b \<and> get_range s a b c \<noteq> []")
    case True
    then have "fetch_or_load s a b loader c = (Inr (get_range s a b c), c)"
      by (simp add: fetch_or_load_def r)
    with ag(1) True hole show ?thesis by (intro exI [of _ c]) auto
  next
    case False
    obtain c1 where c1: "load_head s loader a lo c = Inr c1" "agrees M s c1"
      "\<forall>d. cache_look c s d \<noteq> None \<longrightarrow> cache_look c1 s d = cache_look c s d"
      "\<forall>d. a \<le> d \<longrightarrow> d < lo \<longrightarrow> cache_look c1 s d = M d \<or> lo - a \<le> 3
         \<or> (\<exists>x y. x \<le> d \<and> d \<le> y \<and> loaded_rows (loader x y) = [])"
      "\<forall>d. lo \<le> d \<longrightarrow> cache_look c1 s d = cache_look c s d"
      using load_head_agrees [OF ag r, of a] by blast
    have ok1: "cache_ok c1" using c1(2) by (simp add: agrees_def)
    have "cache_look c1 s hi \<noteq> None" using bounds_Some(2) [OF ok r] c1(3) by simp
    moreover have "cache_look c1 s d = None" if "hi < d" for d
      using bounds_Some(3) [OF ok r, of d] bounds_Some(4) [OF ok r] c1(5) that by (cases "cache_look c s d") auto
    ultimately obtain lo1 where r1: "get_date_bounds s c1 = Some (lo1, hi)" using bounds_upper [OF ok1] by blast
    obtain c2 where c2: "load_tail s loader b hi c1 = Inr c2" "agrees M s c2"
      "\<forall>d. d \<le> b \<longrightarrow> hi < d \<longrightarrow> cache_look c2 s d = M d \<or> b - hi \<le> 3
         \<or> (\<exists>x y. x \<le> d \<and> d \<le> y \<and> loaded_rows (loader x y) = [])"
      "\<forall>d. d \<le> hi \<longrightarrow> cache_look c2 s d = cache_look c1 s d"
      using load_tail_agrees [OF c1(2) ag(2) r1, of b] by blast
    have run: "fetch_or_load s a b loader c = (Inr (get_range s a b c2), c2)"
      using False c1(1) c2(1) by (auto simp: fetch_or_load_def r Let_def)
    have "cache_look c2 s d = M d \<or> tolerated_miss s c loader a b d" if "a \<le> d" "d \<le> b" for d
    proof -
      consider "d < lo" | "lo \<le> d" "d \<le> hi" | "hi < d" by linarith
      then show ?thesis
      proof cases
        case 1
        then have "d \<le> hi" using bounds_Some(4) [OF ok r] by simp
        with 1 c1(4) c2(4) that(1) r show ?thesis unfolding tolerated_miss_def by metis
      next
        case 2
        then show ?thesis using c2(4) c1(5) hole by simp
      next
        case 3
        then show ?thesis using c2(3) that(2) r unfolding tolerated_miss_def by metis
      qed
    qed
    with run c2(2) show ?thesis by blast
  qed
qed

lemma fetch_refines_market:
  assumes "agrees M s c" "answers_for M loader"
  shows "\<exists>rows c'. fetch_or_load s a b loader c = (Inr rows, c') \<and> agrees M s c'
    \<and> sorted_wrt (<) (map fst rows)
    \<and> (\<forall>d q. (d, q) \<in> set rows \<longrightarrow> a \<le> d \<and> d \<le> b \<and> M d = Some q)
    \<and> (\<forall>d q. a \<le> d \<longrightarrow> d \<le> b \<longrightarrow> M d = Some q \<longrightarrow> (d, q) \<in> set rows \<or> tolerated_miss s c loader a b d)"
proof -
  obtain c' where c': "fetch_or_load s a b loader c = (Inr (get_range s a b c'), c')" "agrees M s c'"
    "\<forall>d. a \<le> d \<longrightarrow> d \<le> b \<longrightarrow> cache_look c' s d = M d \<or> tolerated_miss s c loader a b d"
    using fetch_or_load_state [OF assms, of a b] by blast
  have ok: "cache_ok c'" using c'(2) by (simp add: agrees_def)
  have sub: "M d = Some q" if "cache_look c' s d = Some q" for d q using that c'(2) unfolding agrees_def by blast
  have "(d, q) \<in> set (get_range s a b c') \<Longrightarrow> a \<le> d \<and> d \<le> b \<and> M d = Some q" for d q
    unfolding ohlcv.in_range [OF ok] using sub by blast
  moreover have "(d, q) \<in> set (get_range s a b c') \<or> tolerated_miss s c loader a b d"
    if "a \<le> d" "d \<le> b" "M d = Some q" for d q
    unfolding ohlcv.in_range [OF ok] using c'(3) that by metis
  ultimately show ?thesis
    using c'(1,2) ohlcv.range_sorted [OF ok] by blast
qed

text \<open>The cache refines the market.  If it agrees with the market for a symbol and the loader answers
  for the market, a fetch returns the rows of the asked range in strictly increasing order of
  date, each one a row of the market, and leaves a cache that agrees with the market; it misses a
  row of the market only where a load came back empty or in a gap of at most three days at
  the ends of what was cached.\<close>

theorem cache_refines_market:
  assumes "agrees M s c" "answers_for M loader"
  shows "\<exists>rows c'. fetch_or_load s a b loader c = (Inr rows, c') \<and> agrees M s c'
    \<and> sorted_wrt (<) (map fst rows)
    \<and> (\<forall>d q. (d, q) \<in> set rows \<longrightarrow> a \<le> d \<and> d \<le> b \<and> M d = Some q)
    \<and> (\<forall>d q. a \<le> d \<longrightarrow> d \<le> b \<longrightarrow> M d = Some q \<longrightarrow> (d, q) \<in> set rows \<or> tolerated_miss s c loader a b d)"
  by (rule fetch_refines_market [OF assms])

definition flat_quote :: "real \<Rightarrow> quote_row" where
  "flat_quote p = \<lparr>q_open = Fin p, q_high = Fin p, q_low = Fin p, q_close = Fin p, q_volume = Fin 1\<rparr>"

text \<open>A market with one row a day, and a loader that answers it.\<close>

definition daily_market :: "int \<Rightarrow> quote_row option" where
  "daily_market d = Some (flat_quote (of_int d))"

definition daily_loader :: "int \<Rightarrow> int \<Rightarrow> dated_rows option res" where
  "daily_loader a b = Inr (Some (map (\<lambda>d. (d, flat_quote (of_int d))) [a..b]))"

lemma daily_answers: "answers_for daily_market daily_loader"
  by (auto simp: answers_for_def daily_market_def daily_loader_def loaded_rows_def storable_def flat_quote_def isna_def)

lemma agrees_empty: "agrees M s []"
  by (simp add: agrees_def cache_ok_def cache_look_def get_date_bounds_def cached_dates_def)

theorem cache_refines_market_witness:
  "\<exists>rows c'. fetch_or_load ''0700.HK'' 10 12 daily_loader [] = (Inr rows, c') \<and> (11, flat_quote 11) \<in> set rows"
proof -
  have ne: "loaded_rows (daily_loader x y) \<noteq> []" if "x \<le> y" for x y
    using that by (simp add: daily_loader_def loaded_rows_def)
  then have "\<not> tolerated_miss ''0700.HK'' [] daily_loader 10 12 11"
    by (auto simp: tolerated_miss_def get_date_bounds_def cached_dates_def)
  then show ?thesis
    using cache_refines_market [OF agrees_empty daily_answers, of "''0700.HK''" 10 12]
    by (elim exE conjE) (rule exI, rule exI, rule conjI, assumption, drule spec [of _ 11], force simp: daily_market_def)
qed

text \<open>A short tail is never fetched.  When the asked range starts inside the known one and ends at most
  three days after its last day, the loader has no influence and the cache does not change: the
  newest rows stay missing however often they are asked for, and the latest price is up to
  three days old.\<close>

theorem short_tail_is_never_loaded:
  assumes "cache_ok c" "get_date_bounds s c = Some (lo, hi)" "lo \<le> a" "b \<le> hi + 3"
  shows "fetch_or_load s a b loader c = (Inr (get_range s a b c), c)
    \<and> list_all (\<lambda>(d, q). d \<le> hi) (get_range s a b c)"
proof -
  have "load_head s loader a lo c = Inr c" "load_tail s loader b hi c = Inr c"
    using assms(3,4) by (auto simp: load_head_def load_tail_def Let_def tolerated_gap_days_def max_def)
  then have "fetch_or_load s a b loader c = (Inr (get_range s a b c), c)"
    by (simp add: fetch_or_load_def assms(2) Let_def)
  moreover have "d \<le> hi" if "(d, q) \<in> set (get_range s a b c)" for d q
    using that in_get_range [OF assms(1)] bounds_Some(3) [OF assms(1,2)] by auto
  ultimately show ?thesis by (auto simp: list_all_iff)
qed

theorem short_tail_is_never_loaded_witness:
  "fetch_or_load ''0700.HK'' 10 13 daily_loader [((''0700.HK'', 10), flat_quote 10)]
     = (Inr [(10, flat_quote 10)], [((''0700.HK'', 10), flat_quote 10)])"
  using short_tail_is_never_loaded [of "[((''0700.HK'', 10), flat_quote 10)]" "''0700.HK''" 10 10 10 13 daily_loader]
  by (simp add: cache_ok_def get_date_bounds_def cached_dates_def get_range_def)

text \<open>One missing cell loses the whole answer.  When the rows a first load brings hold a cell that is
  not a number, the fetch raises instead of returning the other rows, and stores none of them.\<close>

theorem missing_cell_raises:
  assumes "get_date_bounds s c = None" "loader a b = Inr (Some rows)" "\<not> list_all (storable \<circ> snd) rows"
  shows "fetch_or_load s a b loader c = (Inl IntegrityError, c)"
proof -
  have "rows \<noteq> []" using assms(3) by auto
  then show ?thesis
    using assms by (simp add: fetch_or_load_def load_into_def loaded_rows_def Let_def upsert_def)
qed

theorem missing_cell_raises_witness:
  "fetch_or_load ''0700.HK'' 1 2 (\<lambda>_ _. Inr (Some [(1, flat_quote 1), (2, (flat_quote 2)\<lparr>q_volume := NaN\<rparr>)])) []
     = (Inl IntegrityError, [])"
  by (rule missing_cell_raises [where rows = "[(1, flat_quote 1), (2, (flat_quote 2)\<lparr>q_volume := NaN\<rparr>)]"])
    (simp_all add: get_date_bounds_def cached_dates_def storable_def flat_quote_def isna_def)

end
