(* ===== verification/Source_Manager.thy ===== *)
theory Source_Manager imports Market_Cache Symbols begin

text \<open>
  \<open>data/source_manager.py\<close>: the providers of a market in their order, the fallback from one to the
  next, and prices through the cache.  Which providers can be built and what they answer is an
  argument: a frame is its column names and its dated rows, whose cells are numbers or
  missing (\<open>to_numeric\<close> with coercion); rows of one date keep their order when sorted.
\<close>

record raw_frame =
  rf_columns :: "string list"
  rf_rows :: dated_rows

record provider_env =
  pe_builds :: "string \<Rightarrow> bool"
  pe_fetch :: "string \<Rightarrow> string \<Rightarrow> int \<Rightarrow> int \<Rightarrow> raw_frame option res"
  pe_minshare_quote :: "string \<Rightarrow> (real \<times> int) option res"

definition provider_priority :: "market \<Rightarrow> string list" where
  "provider_priority m =
     (case m of
        CN \<Rightarrow> [''tushare'', ''akshare'', ''stooq'']
      | HK \<Rightarrow> [''minshare'', ''tencent'', ''akshare'', ''yfinance'', ''stooq'']
      | US \<Rightarrow> [''alphavantage'', ''yfinance'', ''stooq''])"

definition known_providers :: "string list" where
  "known_providers = [''tencent'', ''alphavantage'', ''itick'', ''akshare'', ''yfinance'', ''stooq'', ''minshare'', ''tushare'']"

definition build_provider :: "provider_env \<Rightarrow> string \<Rightarrow> unit res" where
  "build_provider env name =
     (if name \<notin> set known_providers then Inl ValueError
      else if pe_builds env name then Inr () else Inl RuntimeError)"

text \<open>A provider is built once and kept; one that cannot be built is skipped and tried again later.\<close>

definition get_provider :: "provider_env \<Rightarrow> string \<Rightarrow> string list \<Rightarrow> bool \<times> string list" where
  "get_provider env name loaded =
     (if name \<in> set loaded then (True, loaded)
      else (case build_provider env name of Inr _ \<Rightarrow> (True, loaded @ [name]) | Inl _ \<Rightarrow> (False, loaded)))"

definition ohlcv_columns :: "string list" where
  "ohlcv_columns = [''open'', ''high'', ''low'', ''close'', ''volume'']"

definition normalize_frame :: "raw_frame option \<Rightarrow> dated_rows res" where
  "normalize_frame f =
     (case f of
        None \<Rightarrow> Inr []
      | Some fr \<Rightarrow>
          if rf_rows fr = [] then Inr []
          else if list_ex (\<lambda>col. col \<notin> set (map py_lower (rf_columns fr))) ohlcv_columns then Inl ValueError
          else Inr (sort_key fst (rf_rows fr)))"

fun fetch_from_providers ::
  "provider_env \<Rightarrow> string \<Rightarrow> int \<Rightarrow> int \<Rightarrow> string list \<Rightarrow> string list \<Rightarrow> dated_rows option \<times> string list" where
  "fetch_from_providers env symbol a b [] loaded = (None, loaded)"
| "fetch_from_providers env symbol a b (n # ns) loaded =
     (let (built, loaded') = get_provider env n loaded in
      if \<not> built then fetch_from_providers env symbol a b ns loaded'
      else (case rbind (pe_fetch env n symbol a b) normalize_frame of
              Inr rows \<Rightarrow>
                if rows = [] then fetch_from_providers env symbol a b ns loaded' else (Some rows, loaded')
            | Inl _ \<Rightarrow> fetch_from_providers env symbol a b ns loaded'))"

record source_manager =
  sm_cache :: "ohlcv_cache option"
  sm_loaded :: "string list"

text \<open>The ranges a fetch through the cache asks the providers for, in order.\<close>

definition requested_ranges :: "string \<Rightarrow> int \<Rightarrow> int \<Rightarrow> (int \<Rightarrow> int \<Rightarrow> dated_rows option res) \<Rightarrow> ohlcv_cache \<Rightarrow> (int \<times> int) list" where
  "requested_ranges symbol start stop loader c =
     (case get_date_bounds symbol c of
        None \<Rightarrow> [(start, stop)]
      | Some (earliest, latest) \<Rightarrow>
          if earliest \<le> start \<and> latest \<ge> stop \<and> get_range symbol start stop c \<noteq> [] then []
          else (if earliest - start > tolerated_gap_days then [(start, earliest - 1)] else [])
            @ (case load_head symbol loader start earliest c of
                 Inl _ \<Rightarrow> []
               | Inr _ \<Rightarrow> if stop - latest > tolerated_gap_days then [(latest + 1, stop)] else []))"

definition provider_loader :: "provider_env \<Rightarrow> string \<Rightarrow> market \<Rightarrow> string list \<Rightarrow> int \<Rightarrow> int \<Rightarrow> dated_rows option res" where
  "provider_loader env symbol m loaded x y =
     Inr (fst (fetch_from_providers env symbol x y (provider_priority m) loaded))"

definition fetch_ohlcv ::
  "provider_env \<Rightarrow> string \<Rightarrow> int \<Rightarrow> int \<Rightarrow> source_manager \<Rightarrow> dated_rows option res \<times> source_manager" where
  "fetch_ohlcv env ticker start stop sm =
     (let m = detect_market ticker in
      case normalize_symbol ticker (Some m) of
        Inl e \<Rightarrow> (Inl e, sm)
      | Inr symbol \<Rightarrow>
          (case sm_cache sm of
             None \<Rightarrow>
               (let (rows, loaded) = fetch_from_providers env symbol start stop (provider_priority m) (sm_loaded sm)
                in (Inr rows, sm\<lparr>sm_loaded := loaded\<rparr>))
           | Some c \<Rightarrow>
               (let loader = provider_loader env symbol m (sm_loaded sm);
                    (r, c') = fetch_or_load symbol start stop loader c;
                    loaded = fold (\<lambda>(x, y) l. snd (fetch_from_providers env symbol x y (provider_priority m) l))
                      (requested_ranges symbol start stop loader c) (sm_loaded sm)
                in (map_sum id Some r, sm\<lparr>sm_cache := Some c', sm_loaded := loaded\<rparr>))))"

text \<open>The latest quote: minshare's own for Hong Kong, else the last close of the last ten days.\<close>

definition last_close :: "dated_rows option \<Rightarrow> (fl \<times> int) option" where
  "last_close rows = (case rows of None \<Rightarrow> None | Some [] \<Rightarrow> None
     | Some xs \<Rightarrow> Some (q_close (snd (last xs)), fst (last xs)))"

definition fetch_latest_quote ::
  "provider_env \<Rightarrow> string \<Rightarrow> int \<Rightarrow> source_manager \<Rightarrow> (fl \<times> int) option res \<times> source_manager" where
  "fetch_latest_quote env ticker today sm =
     (let history = (\<lambda>sm1. let (r, sm2) = fetch_ohlcv env ticker (today - 10) today sm1
                           in (map_sum id last_close r, sm2)) in
      if detect_market ticker = HK then
        (let (built, loaded) = get_provider env ''minshare'' (sm_loaded sm);
             sm1 = sm\<lparr>sm_loaded := loaded\<rparr>
         in if built then
              (case pe_minshare_quote env ticker of
                 Inr (Some (price, as_of)) \<Rightarrow> (Inr (Some (Fin price, as_of)), sm1)
               | _ \<Rightarrow> history sm1)
            else history sm1)
      else history sm)"

definition fetch_latest_price :: "provider_env \<Rightarrow> string \<Rightarrow> int \<Rightarrow> source_manager \<Rightarrow> fl option res \<times> source_manager" where
  "fetch_latest_price env ticker today sm =
     (let (q, sm') = fetch_latest_quote env ticker today sm in (map_sum id (map_option fst) q, sm'))"

definition get_provider_status :: "source_manager \<Rightarrow> ((market \<times> string) \<times> bool) list" where
  "get_provider_status sm =
     concat (map (\<lambda>m. map (\<lambda>n. ((m, n), n \<in> set (sm_loaded sm))) (provider_priority m)) [CN, HK, US])"

section \<open>The order of the providers\<close>

text \<open>The answer of one provider, if it can be had: what it returns, normalised, unless empty.\<close>

definition provider_answer :: "provider_env \<Rightarrow> string list \<Rightarrow> string \<Rightarrow> int \<Rightarrow> int \<Rightarrow> string \<Rightarrow> dated_rows option" where
  "provider_answer env loaded symbol a b n =
     (if fst (get_provider env n loaded)
      then (case rbind (pe_fetch env n symbol a b) normalize_frame of
              Inr rows \<Rightarrow> if rows = [] then None else Some rows | Inl _ \<Rightarrow> None)
      else None)"

lemma get_provider_other: "n \<noteq> k \<Longrightarrow> fst (get_provider env n (snd (get_provider env k loaded))) = fst (get_provider env n loaded)"
  by (auto simp: get_provider_def split: sum.split)

lemma provider_answer_later:
  "n \<noteq> k \<Longrightarrow> provider_answer env (snd (get_provider env k loaded)) symbol a b n = provider_answer env loaded symbol a b n"
  by (simp add: provider_answer_def get_provider_other)

lemma map_filter_same: "(\<And>x. x \<in> set xs \<Longrightarrow> f x = g x) \<Longrightarrow> List.map_filter f xs = List.map_filter g xs"
  by (induction xs) (auto split: option.split)

lemma fetch_from_providers_first:
  "distinct ns \<Longrightarrow> fst (fetch_from_providers env symbol a b ns loaded) =
     (case List.map_filter (provider_answer env loaded symbol a b) ns of [] \<Rightarrow> None | r # _ \<Rightarrow> Some r)"
proof (induction ns arbitrary: loaded)
  case (Cons n ns)
  let ?l = "snd (get_provider env n loaded)"
  have "n \<notin> set ns" using Cons.prems by simp
  then have same: "List.map_filter (provider_answer env ?l symbol a b) ns = List.map_filter (provider_answer env loaded symbol a b) ns"
    by (intro map_filter_same) (metis provider_answer_later)
  show ?case
    using Cons same by (auto simp: Let_def split_def map_filter_simps provider_answer_def [of env loaded symbol a b n] split: sum.split)
qed (simp add: map_filter_simps)

lemma distinct_priority: "distinct (provider_priority m)"
  by (cases m) (simp_all add: provider_priority_def)

lemma provider_answer_nonempty: "provider_answer env loaded symbol a b n = Some rows \<Longrightarrow> rows \<noteq> []"
  by (auto simp: provider_answer_def split: sum.splits if_splits)

lemma normalize_frame_rows: "normalize_frame f = Inr rows \<Longrightarrow> rows = [] \<or> (\<exists>fr. f = Some fr \<and> set rows = set (rf_rows fr))"
  by (auto simp: normalize_frame_def split: option.splits if_splits)

text \<open>What the loader of the cache sees of a market whose providers all answer for it, or fail.\<close>

definition providers_answer_for :: "(int \<Rightarrow> quote_row option) \<Rightarrow> provider_env \<Rightarrow> string \<Rightarrow> bool" where
  "providers_answer_for M env symbol \<longleftrightarrow>
     (\<forall>n a b fr. pe_fetch env n symbol a b = Inr (Some fr) \<longrightarrow>
        rf_rows fr = [] \<or> (\<forall>d q. (d, q) \<in> set (rf_rows fr) \<longleftrightarrow> a \<le> d \<and> d \<le> b \<and> M d = Some q))
     \<and> (\<forall>d q. M d = Some q \<longrightarrow> storable q)"

lemma provider_answer_market:
  assumes "providers_answer_for M env symbol" "provider_answer env loaded symbol a b n = Some rows"
  shows "(d, q) \<in> set rows \<longleftrightarrow> a \<le> d \<and> d \<le> b \<and> M d = Some q"
proof -
  obtain f where f: "pe_fetch env n symbol a b = Inr f" "normalize_frame f = Inr rows" "rows \<noteq> []"
    using assms(2) provider_answer_nonempty [OF assms(2)]
    by (auto simp: provider_answer_def rbind_def split: sum.splits if_splits)
  then obtain fr where fr: "f = Some fr" "set rows = set (rf_rows fr)"
    using normalize_frame_rows [OF f(2)] by auto
  with f(3) have "rf_rows fr \<noteq> []" by auto
  then show ?thesis using assms(1) f(1) fr unfolding providers_answer_for_def by metis
qed

lemma provider_loader_answers:
  assumes "providers_answer_for M env symbol"
  shows "answers_for M (provider_loader env symbol m loaded)"
proof -
  have "loaded_rows (provider_loader env symbol m loaded a b) = []
      \<or> (\<forall>d q. (d, q) \<in> set (loaded_rows (provider_loader env symbol m loaded a b)) \<longleftrightarrow> a \<le> d \<and> d \<le> b \<and> M d = Some q)" for a b
  proof (cases "List.map_filter (provider_answer env loaded symbol a b) (provider_priority m)")
    case Nil
    then show ?thesis
      by (simp add: provider_loader_def loaded_rows_def fetch_from_providers_first [OF distinct_priority])
  next
    case (Cons rows rs)
    then have "rows \<in> set (List.map_filter (provider_answer env loaded symbol a b) (provider_priority m))" by simp
    then obtain n where "provider_answer env loaded symbol a b n = Some rows"
      by (auto simp: List.map_filter_def)
    from provider_answer_market [OF assms this] Cons show ?thesis
      by (simp add: provider_loader_def loaded_rows_def fetch_from_providers_first [OF distinct_priority])
  qed
  then show ?thesis using assms unfolding answers_for_def providers_answer_for_def by blast
qed

text \<open>The providers are tried in the order of their market.  What a fetch without a cache returns is the
  first usable answer in that order, where an answer is usable if its provider could be built, did
  not raise, and gave a frame with all columns and at least one row; it returns nothing when no
  provider has one.  Whatever the providers do, it does not raise.\<close>

theorem provider_fallback_order:
  "fst (fetch_ohlcv env ticker start stop \<lparr>sm_cache = None, sm_loaded = loaded\<rparr>) =
     (case normalize_symbol ticker (Some (detect_market ticker)) of
        Inl e \<Rightarrow> Inl e
      | Inr symbol \<Rightarrow>
          Inr (case List.map_filter (provider_answer env loaded symbol start stop) (provider_priority (detect_market ticker)) of
                 [] \<Rightarrow> None | rows # _ \<Rightarrow> Some rows))
   \<and> is_ok (fst (fetch_ohlcv env ticker start stop \<lparr>sm_cache = None, sm_loaded = loaded\<rparr>))"
proof -
  obtain symbol where s: "normalize_symbol ticker (Some (detect_market ticker)) = Inr symbol"
    using normalize_symbol_fix [of ticker] by blast
  show ?thesis
    by (simp add: fetch_ohlcv_def Let_def s split_def fetch_from_providers_first [OF distinct_priority])
qed

text \<open>C13. Prices refine the market through the whole path.  If every provider that answers for a symbol gives
  the market's rows of the asked range, and the cache agrees with that market, then a fetch gives a
  frame in increasing order of date, all of whose rows are the market's rows of the range,
  and leaves a cache that agrees; it misses a row only where a load came back empty or within three
  days of the ends of what was cached.  The ticker may be written in any form of the symbol.\<close>

theorem fetch_ohlcv_refines_market:
  assumes "normalize_symbol ticker None = Inr symbol" "providers_answer_for M env symbol"
    and "sm_cache sm = Some c" "agrees M symbol c"
  shows "\<exists>rows c'. fst (fetch_ohlcv env ticker a b sm) = Inr (Some rows)
    \<and> sm_cache (snd (fetch_ohlcv env ticker a b sm)) = Some c' \<and> agrees M symbol c'
    \<and> sorted_wrt (<) (map fst rows)
    \<and> (\<forall>d q. (d, q) \<in> set rows \<longrightarrow> a \<le> d \<and> d \<le> b \<and> M d = Some q)
    \<and> (\<forall>d q. a \<le> d \<longrightarrow> d \<le> b \<longrightarrow> M d = Some q \<longrightarrow> (d, q) \<in> set rows
         \<or> tolerated_miss symbol c (provider_loader env symbol (detect_market ticker) (sm_loaded sm)) a b d)"
proof -
  let ?m = "detect_market ticker"
  have s: "normalize_symbol ticker (Some ?m) = Inr symbol"
    using assms(1) by (simp add: normalize_symbol_def)
  obtain rows c' where f: "fetch_or_load symbol a b (provider_loader env symbol ?m (sm_loaded sm)) c = (Inr rows, c')"
    and rest: "agrees M symbol c'" "sorted_wrt (<) (map fst rows)"
    "\<forall>d q. (d, q) \<in> set rows \<longrightarrow> a \<le> d \<and> d \<le> b \<and> M d = Some q"
    "\<forall>d q. a \<le> d \<longrightarrow> d \<le> b \<longrightarrow> M d = Some q \<longrightarrow> (d, q) \<in> set rows
      \<or> tolerated_miss symbol c (provider_loader env symbol ?m (sm_loaded sm)) a b d"
    using fetch_refines_market [OF assms(4) provider_loader_answers [OF assms(2)], of a b] by blast
  have "fst (fetch_ohlcv env ticker a b sm) = Inr (Some rows)"
    "sm_cache (snd (fetch_ohlcv env ticker a b sm)) = Some c'"
    by (simp_all add: fetch_ohlcv_def Let_def s assms(3) f)
  with rest show ?thesis by blast
qed

text \<open>A provider that always has the daily market.\<close>

definition daily_env :: provider_env where
  "daily_env = \<lparr>pe_builds = (\<lambda>n. n = ''tencent''),
     pe_fetch = (\<lambda>n s a b. Inr (Some \<lparr>rf_columns = [''Open'', ''High'', ''Low'', ''Close'', ''Volume''],
       rf_rows = map (\<lambda>d. (d, flat_quote (of_int d))) [a..b]\<rparr>)),
     pe_minshare_quote = (\<lambda>_. Inr None)\<rparr>"

lemma daily_env_answers: "providers_answer_for daily_market daily_env symbol"
  by (auto simp: providers_answer_for_def daily_env_def daily_market_def storable_def flat_quote_def isna_def)

theorem fetch_ohlcv_refines_market_witness:
  "\<exists>rows. fst (fetch_ohlcv daily_env '' 700'' 10 12 \<lparr>sm_cache = Some [], sm_loaded = []\<rparr>) = Inr (Some rows)
     \<and> sorted_wrt (<) (map fst rows)"
proof -
  have n: "normalize_symbol '' 700'' None = Inr ''0700.HK''" by code_simp
  show ?thesis
    using fetch_ohlcv_refines_market [OF n daily_env_answers, of "\<lparr>sm_cache = Some [], sm_loaded = []\<rparr>" "[]" 10 12] agrees_empty
    by auto
qed

text \<open>A quote through the cache can be three days old.  Outside Hong Kong, when the cached days of the
  symbol start at least ten days ago and end within the last three days, the latest quote is the
  last cached close, whatever newer prices any provider has, and asking for it changes nothing,
  so the next request gets the same old close.\<close>

theorem latest_quote_is_stale:
  assumes "detect_market ticker \<noteq> HK" "normalize_symbol ticker None = Inr symbol"
    and "sm_cache sm = Some c" "cache_ok c" "get_date_bounds symbol c = Some (lo, hi)"
    and "lo \<le> today - 10" "today - 10 \<le> hi" "hi \<le> today" "today \<le> hi + 3"
  shows "\<exists>q. cache_look c symbol hi = Some q
    \<and> fst (fetch_latest_quote env ticker today sm) = Inr (Some (q_close q, hi))
    \<and> sm_cache (snd (fetch_latest_quote env ticker today sm)) = Some c"
proof -
  let ?xs = "get_range symbol (today - 10) today c"
  have s: "normalize_symbol ticker (Some (detect_market ticker)) = Inr symbol"
    using assms(2) by (simp add: normalize_symbol_def)
  obtain q where q: "cache_look c symbol hi = Some q" using bounds_Some(2) [OF assms(4,5)] by auto
  have mem: "(hi, q) \<in> set ?xs" using q assms(7,8) by (simp add: in_get_range [OF assms(4)])
  have le: "\<forall>x\<in>set ?xs. fst x \<le> hi" using bounds_Some(3) [OF assms(4,5)] by (auto simp: in_get_range [OF assms(4)])
  have "last ?xs = (hi, q)"
  proof -
    obtain ys where ys: "?xs = ys @ [last ?xs]" using mem by (metis append_butlast_last_id empty_iff list.set(1))
    have "fst x < fst (last ?xs)" if "x \<in> set ys" for x
      using get_range_sorted [OF assms(4), of symbol "today - 10" today] that
      by (subst (asm) ys) (simp add: sorted_wrt_append)
    moreover have "fst (last ?xs) \<le> hi" using le mem last_in_set [of ?xs] by fastforce
    ultimately have "(hi, q) \<notin> set ys" by fastforce
    with mem show ?thesis by (subst (asm) ys) simp
  qed
  moreover have "?xs \<noteq> []" using mem by auto
  moreover have "fetch_or_load symbol (today - 10) today (provider_loader env symbol (detect_market ticker) (sm_loaded sm)) c = (Inr ?xs, c)"
    using short_tail_is_never_loaded [OF assms(4,5), of "today - 10" today] assms(6,9) by simp
  ultimately show ?thesis
    using assms(1,3) q
    by (auto simp: fetch_latest_quote_def fetch_ohlcv_def Let_def s split_def last_close_def split: list.split)
qed

theorem latest_quote_is_stale_witness:
  "fst (fetch_latest_quote daily_env ''AAPL'' 13
     \<lparr>sm_cache = Some [((''AAPL'', 1), flat_quote 1), ((''AAPL'', 10), flat_quote 10)], sm_loaded = []\<rparr>)
   = Inr (Some (Fin 10, 10))"
proof -
  have m: "detect_market ''AAPL'' \<noteq> HK" "normalize_symbol ''AAPL'' None = Inr ''AAPL''" by code_simp+
  let ?c = "[((''AAPL'', 1), flat_quote 1), ((''AAPL'', 10), flat_quote 10)]"
  have "cache_ok ?c" "get_date_bounds ''AAPL'' ?c = Some (1, 10)"
    by (simp_all add: cache_ok_def get_date_bounds_def cached_dates_def)
  then show ?thesis
    using latest_quote_is_stale [OF m, of "\<lparr>sm_cache = Some ?c, sm_loaded = []\<rparr>" ?c 1 10 13 daily_env]
    by (simp add: cache_look_def flat_quote_def)
qed

end
