(* ===== verification/LLM_Gateway.thy ===== *)
theory LLM_Gateway imports Py_String begin

text \<open>
  \<open>llm_gateway.py\<close>: which provider is in force, its status, and the call with its retries and its
  fallback.  What the adapter does on each attempt is an argument; the runtime settings are the
  two records the gateway keeps.  A message is a constructor with what the text inserts.
\<close>

datatype llm_provider = MiniMax | MockProvider

datatype llm_code = Ready | Mock_code | Missing_key | Auth_error | Rate_limited | Network_error
  | Provider_error | Parse_error

datatype llm_message = Mock_selected | Key_not_configured | Provider_ready | Responded_after nat
  | Http_failed int | Network_failed | Non_json_output | Provider_failed

record llm_status =
  ls_provider :: llm_provider
  ls_model :: string
  ls_code :: llm_code
  ls_message :: llm_message
  ls_using_mock_fallback :: bool

record llm_config =
  lc_provider :: string
  lc_model :: string
  lc_retry_attempts :: int
  lc_retry_backoff :: real
  lc_api_key :: string

text \<open>The runtime settings: the text of the chosen provider and the last status.\<close>

record llm_runtime =
  lr_provider :: "string option"
  lr_status :: "llm_status option"

definition parse_provider :: "string \<Rightarrow> llm_provider option" where
  "parse_provider s = (if py_lower s = ''minimax'' then Some MiniMax
     else if py_lower s = ''mock'' then Some MockProvider else None)"

definition provider_name :: "llm_provider \<Rightarrow> string" where
  "provider_name p = (case p of MiniMax \<Rightarrow> ''minimax'' | MockProvider \<Rightarrow> ''mock'')"

definition configured_provider :: "llm_config \<Rightarrow> llm_provider" where
  "configured_provider cfg = (case parse_provider (lc_provider cfg) of None \<Rightarrow> MockProvider | Some p \<Rightarrow> p)"

text \<open>\<open>db\<close> is the runtime settings, or nothing when the caller has no session.\<close>

definition get_provider :: "llm_config \<Rightarrow> llm_runtime option \<Rightarrow> llm_provider" where
  "get_provider cfg db =
     (case db of
        None \<Rightarrow> configured_provider cfg
      | Some rt \<Rightarrow>
          (case lr_provider rt of
             None \<Rightarrow> configured_provider cfg
           | Some s \<Rightarrow> (case parse_provider s of Some p \<Rightarrow> p | None \<Rightarrow> configured_provider cfg)))"

definition base_status :: "llm_config \<Rightarrow> llm_provider \<Rightarrow> llm_status" where
  "base_status cfg p =
     (if p = MockProvider then
        \<lparr>ls_provider = MockProvider, ls_model = ''mock'', ls_code = Mock_code,
         ls_message = Mock_selected, ls_using_mock_fallback = False\<rparr>
      else if lc_api_key cfg = [] then
        \<lparr>ls_provider = MiniMax, ls_model = lc_model cfg, ls_code = Missing_key,
         ls_message = Key_not_configured, ls_using_mock_fallback = True\<rparr>
      else
        \<lparr>ls_provider = MiniMax, ls_model = lc_model cfg, ls_code = Ready,
         ls_message = Provider_ready, ls_using_mock_fallback = False\<rparr>)"

definition persist_status :: "llm_status \<Rightarrow> llm_runtime option \<Rightarrow> llm_runtime option" where
  "persist_status st db = map_option (\<lambda>rt. rt\<lparr>lr_status := Some st\<rparr>) db"

definition get_status :: "llm_config \<Rightarrow> llm_runtime option \<Rightarrow> llm_status" where
  "get_status cfg db =
     (let p = get_provider cfg db in
      case db of
        None \<Rightarrow> base_status cfg p
      | Some rt \<Rightarrow>
          (case lr_status rt of
             None \<Rightarrow> base_status cfg p
           | Some st \<Rightarrow> if ls_provider st \<noteq> p then base_status cfg p else st))"

definition set_provider :: "llm_config \<Rightarrow> string \<Rightarrow> llm_runtime \<Rightarrow> llm_status option \<times> llm_runtime" where
  "set_provider cfg s rt =
     (case parse_provider s of
        None \<Rightarrow> (None, rt)
      | Some p \<Rightarrow>
          (let st = base_status cfg p in
           if p = MiniMax \<and> ls_code st = Missing_key then (Some st, rt)
           else (Some st, rt\<lparr>lr_provider := Some (provider_name p), lr_status := Some st\<rparr>)))"

section \<open>The call\<close>

datatype 'p attempt = Answer 'p | Http_error int | Transport_error | Json_error | Other_error

definition failure_of :: "'p attempt \<Rightarrow> llm_code \<times> llm_message \<times> bool" where
  "failure_of a =
     (case a of
        Http_error n \<Rightarrow>
          (if n \<in> {401, 403} then Auth_error else if n = 429 then Rate_limited else Provider_error,
           Http_failed n, n \<in> {408, 409, 425, 429} \<or> n \<ge> 500)
      | Transport_error \<Rightarrow> (Network_error, Network_failed, True)
      | Json_error \<Rightarrow> (Parse_error, Non_json_output, False)
      | _ \<Rightarrow> (Provider_error, Provider_failed, False))"

definition retryable :: "'p attempt \<Rightarrow> bool" where
  "retryable a = snd (snd (failure_of a))"

text \<open>The loop over the attempts: \<open>left\<close> attempts may still follow this one.  The result is the
  answer with the number of its attempt, or the last failure, and the seconds slept.\<close>

fun attempt_loop ::
  "real \<Rightarrow> (nat \<Rightarrow> 'p attempt) \<Rightarrow> nat \<Rightarrow> nat \<Rightarrow> ((llm_code \<times> llm_message) + ('p \<times> nat)) \<times> real list" where
  "attempt_loop backoff f k left =
     (case f k of
        Answer p \<Rightarrow> (Inr (p, k), [])
      | a \<Rightarrow>
          (let (code, msg, again) = failure_of a in
           case left of
             0 \<Rightarrow> (Inl (code, msg), [])
           | Suc left' \<Rightarrow>
               if again then
                 (let (r, waits) = attempt_loop backoff f (Suc k) left'
                  in (r, backoff * of_nat (k + 1) # waits))
               else (Inl (code, msg), [])))"

declare attempt_loop.simps [simp del]

record 'p invocation =
  in_payload :: 'p
  in_source_kind :: llm_provider
  in_status :: llm_status
  in_audit :: "(llm_code \<times> llm_message) option"
  in_waits :: "real list"

definition adapter_model :: "llm_config \<Rightarrow> string" where
  "adapter_model cfg = (if lc_model cfg = [] then ''MiniMax-M2.7'' else lc_model cfg)"

definition fallback_invocation :: "'p \<Rightarrow> llm_status \<Rightarrow> real list \<Rightarrow> 'p invocation" where
  "fallback_invocation hint st waits =
     \<lparr>in_payload = hint, in_source_kind = MockProvider, in_status = st,
      in_audit = Some (ls_code st, ls_message st), in_waits = waits\<rparr>"

definition invoke_json ::
  "llm_config \<Rightarrow> (nat \<Rightarrow> 'p attempt) \<Rightarrow> 'p \<Rightarrow> llm_runtime option \<Rightarrow> 'p invocation \<times> llm_runtime option" where
  "invoke_json cfg f hint db =
     (let p = get_provider cfg db; base = base_status cfg p in
      if p = MockProvider then
        (\<lparr>in_payload = hint, in_source_kind = MockProvider, in_status = base, in_audit = None, in_waits = []\<rparr>,
         persist_status base db)
      else if ls_code base \<noteq> Ready then
        (let st = base\<lparr>ls_using_mock_fallback := True\<rparr>
         in (fallback_invocation hint st [], persist_status st db))
      else
        (case attempt_loop (max 0 (lc_retry_backoff cfg)) f 0 (nat (max 0 (lc_retry_attempts cfg))) of
           (Inr (payload, k), waits) \<Rightarrow>
             (let st = \<lparr>ls_provider = p, ls_model = adapter_model cfg, ls_code = Ready,
                        ls_message = Responded_after k, ls_using_mock_fallback = False\<rparr>
              in (\<lparr>in_payload = payload, in_source_kind = p, in_status = st, in_audit = None, in_waits = waits\<rparr>,
                  persist_status st db))
         | (Inl (code, msg), waits) \<Rightarrow>
             (let st = \<lparr>ls_provider = p, ls_model = lc_model cfg, ls_code = code,
                        ls_message = msg, ls_using_mock_fallback = True\<rparr>
              in (fallback_invocation hint st waits, persist_status st db))))"

section \<open>The attempts\<close>

definition answered :: "'p attempt \<Rightarrow> bool" where
  "answered a \<longleftrightarrow> (case a of Answer _ \<Rightarrow> True | _ \<Rightarrow> False)"

definition loop_end :: "'p attempt \<Rightarrow> nat \<Rightarrow> (llm_code \<times> llm_message) + ('p \<times> nat)" where
  "loop_end a j = (case a of Answer p \<Rightarrow> Inr (p, j) | _ \<Rightarrow> Inl (fst (failure_of a), fst (snd (failure_of a))))"

lemma loop_end_cases:
  "(\<exists>p. a = Answer p \<and> answered a \<and> loop_end a j = Inr (p, j)) \<or> (\<exists>c m. \<not> answered a \<and> loop_end a j = Inl (c, m))"
  by (cases a) (simp_all add: loop_end_def answered_def)

lemma attempt_loop_step:
  "attempt_loop b f k left =
     (if answered (f k) \<or> left = 0 \<or> \<not> retryable (f k) then (loop_end (f k) k, [])
      else (fst (attempt_loop b f (Suc k) (left - 1)), b * of_nat (k + 1) # snd (attempt_loop b f (Suc k) (left - 1))))"
  unfolding attempt_loop.simps [of b f k left]
  by (cases "f k"; cases left) (simp_all add: loop_end_def answered_def retryable_def split_def Let_def)

text \<open>The attempt the loop ends with, and the seconds slept on the way to it.\<close>

definition stops_at :: "(nat \<Rightarrow> 'p attempt) \<Rightarrow> nat \<Rightarrow> nat \<Rightarrow> nat \<Rightarrow> bool" where
  "stops_at f k left j \<longleftrightarrow> k \<le> j \<and> j \<le> k + left
     \<and> list_all (\<lambda>i. \<not> answered (f i) \<and> retryable (f i)) [k..<j]
     \<and> (answered (f j) \<or> j = k + left \<or> \<not> retryable (f j))"

lemma attempt_loop_stops:
  "\<exists>j. stops_at f k left j
     \<and> attempt_loop b f k left = (loop_end (f j) j, map (\<lambda>i. b * of_nat (i + 1)) [k..<j])"
proof (induction left arbitrary: k)
  case 0
  show ?case
    by (rule exI [of _ k]) (simp add: attempt_loop_step [of b f k 0] stops_at_def)
next
  case (Suc left)
  show ?case
  proof (cases "answered (f k) \<or> \<not> retryable (f k)")
    case True
    then show ?thesis
      by (intro exI [of _ k]) (auto simp: attempt_loop_step [of b f k "Suc left"] stops_at_def)
  next
    case False
    obtain j where j: "stops_at f (Suc k) left j"
      "attempt_loop b f (Suc k) left = (loop_end (f j) j, map (\<lambda>i. b * of_nat (i + 1)) [Suc k..<j])"
      using Suc.IH [of "Suc k"] by blast
    have k: "[k..<j] = k # [Suc k..<j]" using j(1) by (simp add: stops_at_def upt_conv_Cons)
    then have "stops_at f k (Suc left) j"
      using j(1) False by (simp add: stops_at_def)
    then show ?thesis
      using False j(2) k by (intro exI [of _ j]) (simp add: attempt_loop_step [of b f k "Suc left"])
  qed
qed

text \<open>C14. A call to the language model is honest about where its payload comes from.  With MiniMax in force
  and a key configured it makes attempts until the first that answers, the first that fails in
  a way that is not retried, or the last of one more than the configured retries, sleeping a
  multiple of the backoff that grows by one each time; the payload is the adapter's exactly when
  an attempt answered.  Otherwise the payload is the caller's hint, marked as mock, and the status
  says that a mock replaces the chosen provider, except when the mock itself was chosen.  With a
  session the status that was returned is the one that is read afterwards.\<close>

theorem llm_invocation_contract:
  fixes f :: "nat \<Rightarrow> 'p attempt"
  shows "let (r, db') = invoke_json cfg f hint db;
             live = (get_provider cfg db = MiniMax \<and> lc_api_key cfg \<noteq> []) in
    (\<exists>j. stops_at f 0 (nat (max 0 (lc_retry_attempts cfg))) j
       \<and> in_waits r = (if live then map (\<lambda>i. max 0 (lc_retry_backoff cfg) * of_nat (i + 1)) [0..<j] else [])
       \<and> (in_source_kind r = MiniMax \<longleftrightarrow> live \<and> answered (f j))
       \<and> (in_source_kind r = MiniMax \<longrightarrow> f j = Answer (in_payload r)))
    \<and> (in_source_kind r = MockProvider \<longrightarrow> in_payload r = hint)
    \<and> (ls_using_mock_fallback (in_status r) \<longleftrightarrow> get_provider cfg db = MiniMax \<and> in_source_kind r = MockProvider)
    \<and> (in_audit r \<noteq> None \<longleftrightarrow> ls_using_mock_fallback (in_status r))
    \<and> (db = None \<longrightarrow> db' = None)
    \<and> (db \<noteq> None \<longrightarrow> get_status cfg db' = in_status r)"
proof -
  let ?b = "max 0 (lc_retry_backoff cfg)" and ?n = "nat (max 0 (lc_retry_attempts cfg))"
  obtain j where j: "stops_at f 0 ?n j"
    "attempt_loop ?b f 0 ?n = (loop_end (f j) j, map (\<lambda>i. ?b * of_nat (i + 1)) [0..<j])"
    using attempt_loop_stops [of f 0 ?n ?b] by blast
  have same: "get_provider cfg (persist_status st db) = get_provider cfg db" for st
    by (cases db) (simp_all add: persist_status_def get_provider_def)
  have read: "get_status cfg (persist_status st db) = st" if "db \<noteq> None" "ls_provider st = get_provider cfg db" for st
    using that same [of st] by (cases db) (auto simp: get_status_def persist_status_def Let_def)
  have none: "db = None \<Longrightarrow> persist_status st db = None" for st by (simp add: persist_status_def)
  consider "get_provider cfg db = MockProvider" | "get_provider cfg db = MiniMax" "lc_api_key cfg = []"
    | "get_provider cfg db = MiniMax" "lc_api_key cfg \<noteq> []"
    by (cases "get_provider cfg db") auto
  then show ?thesis
  proof cases
    case 1
    then show ?thesis using j(1) none read by (simp add: invoke_json_def base_status_def Let_def) blast
  next
    case 2
    then show ?thesis
      using j(1) none read by (simp add: invoke_json_def base_status_def fallback_invocation_def Let_def) blast
  next
    case 3
    from loop_end_cases [of "f j" j] show ?thesis
    proof (elim disjE exE conjE)
      fix p assume "f j = Answer p" "answered (f j)" "loop_end (f j) j = Inr (p, j)"
      then show ?thesis
        using 3 j none read by (simp add: invoke_json_def base_status_def Let_def) (intro exI [of _ j], simp)
    next
      fix c m assume "\<not> answered (f j)" "loop_end (f j) j = Inl (c, m)"
      then show ?thesis
        using 3 j none read by (simp add: invoke_json_def base_status_def fallback_invocation_def Let_def) (intro exI [of _ j], simp)
    qed
  qed
qed

definition sample_config :: llm_config where
  "sample_config = \<lparr>lc_provider = ''MiniMax'', lc_model = [], lc_retry_attempts = 2,
     lc_retry_backoff = 1, lc_api_key = ''k''\<rparr>"

definition second_try :: "nat \<Rightarrow> nat attempt" where
  "second_try i = (if i = 0 then Transport_error else Answer (7 * i))"

lemma second_try_end: "stops_at second_try 0 2 j \<Longrightarrow> j = 1"
  by (cases j rule: nat.exhaust; cases "j = 2")
     (auto simp: stops_at_def second_try_def answered_def retryable_def failure_of_def list_all_iff)

theorem llm_invocation_contract_witness:
  "in_source_kind (fst (invoke_json sample_config second_try 0 None)) = MiniMax
   \<and> in_payload (fst (invoke_json sample_config second_try 0 None)) = 7
   \<and> in_waits (fst (invoke_json sample_config second_try 0 None)) = [1]"
proof -
  have live: "LLM_Gateway.get_provider sample_config None = MiniMax \<and> lc_api_key sample_config \<noteq> []"
    "lc_retry_attempts sample_config = 2" "lc_retry_backoff sample_config = 1"
    by (simp_all add: sample_config_def get_provider_def configured_provider_def parse_provider_def py_lower_def)
       code_simp+
  have at: "answered (second_try 1)" "second_try 1 = Answer 7"
    by (simp_all add: second_try_def answered_def)
  show ?thesis
    using llm_invocation_contract [of sample_config second_try 0 None] live at
    by (auto simp: Let_def split_def upt_rec dest!: second_try_end)
qed

end
