(* ===== verification/Runtime_Status.thy ===== *)
theory Runtime_Status imports Governance begin

text \<open>
  The runtime status of the pipeline in \<open>api/services.py\<close>: \<open>_set_pipeline_runtime_status\<close> and its
  readers, what \<open>sync_agent_state\<close> reports while it runs, and the interval of
  \<open>runtime/scheduler.py\<close>.  Times are seconds; durations are milliseconds, as stored.  Message texts
  and the per-symbol summaries of a batch are left out.
\<close>

section \<open>The stored status\<close>

datatype run_state = State_idle | State_running | State_failed | State_degraded

record batch_info =
  bi_batch_size :: nat
  bi_symbols :: "string list"
  bi_current_symbol :: "string option"
  bi_current_symbol_stage :: "string option"
  bi_completed :: nat
  bi_total :: nat
  bi_batch_id :: "string option"
  bi_paper_slots :: nat

record pipeline_status =
  st_state :: run_state
  st_stage :: "string option"
  st_stage_started_at :: "datetime option"
  st_stage_durations :: "(string \<times> int) list"
  st_last_run_at :: datetime
  st_last_success_at :: "datetime option"
  st_last_failure_at :: "datetime option"
  st_consecutive_failures :: int
  st_expected_next_run_at :: "datetime option"
  st_last_duration_ms :: "int option"
  st_last_trigger :: "string option"
  st_degraded :: bool
  st_batch :: "batch_info option"

text \<open>The keyword arguments of one update; nothing stands for an argument left out.\<close>

record status_update =
  up_state :: run_state
  up_time :: datetime
  up_last_success :: "datetime option"
  up_last_failure :: "datetime option"
  up_failures :: "int option"
  up_duration :: "int option"
  up_trigger :: "string option"
  up_degraded :: "bool option"
  up_stage :: "string option"
  up_batch :: "batch_info option"

definition interval_minutes :: "int \<Rightarrow> int" where
  "interval_minutes configured = max 5 configured"

definition elapsed_ms :: "datetime \<Rightarrow> datetime \<Rightarrow> int" where
  "elapsed_ms now started = max 0 ((now - started) * 1000)"

definition add_duration :: "string \<Rightarrow> int \<Rightarrow> (string \<times> int) list \<Rightarrow> (string \<times> int) list" where
  "add_duration stage ms ds = AList.update stage ((case map_of ds stage of None \<Rightarrow> 0 | Some v \<Rightarrow> v) + ms) ds"

definition previous_state :: "pipeline_status option \<Rightarrow> run_state" where
  "previous_state prev = (case prev of None \<Rightarrow> State_idle | Some p \<Rightarrow> st_state p)"

definition next_durations :: "status_update \<Rightarrow> pipeline_status option \<Rightarrow> (string \<times> int) list" where
  "next_durations u prev =
     (let ds = (if up_state u = State_running \<and> previous_state prev \<noteq> State_running then []
                else (case prev of None \<Rightarrow> [] | Some p \<Rightarrow> st_stage_durations p)) in
      case prev of
        None \<Rightarrow> ds
      | Some p \<Rightarrow>
          (case (st_stage p, st_stage_started_at p) of
             (Some stage, Some started) \<Rightarrow>
               if up_state u = State_running \<and> (case up_stage u of None \<Rightarrow> False | Some t \<Rightarrow> t \<noteq> [] \<and> t \<noteq> stage)
                 then add_duration stage (elapsed_ms (up_time u) started) ds
               else if st_state p = State_running \<and> up_state u \<noteq> State_running
                 then add_duration stage (elapsed_ms (up_time u) started) ds
               else ds
           | _ \<Rightarrow> ds))"

definition or_keep :: "'a option \<Rightarrow> 'a option \<Rightarrow> 'a option" where
  "or_keep new old = (case new of Some x \<Rightarrow> Some x | None \<Rightarrow> old)"

definition set_pipeline_runtime_status ::
  "int \<Rightarrow> status_update \<Rightarrow> pipeline_status option \<Rightarrow> pipeline_status" where
  "set_pipeline_runtime_status configured u prev =
     (let prev_stage = Option.bind prev st_stage;
          running = (up_state u = State_running)
      in \<lparr>st_state = up_state u,
          st_stage = (if running then or_keep (up_stage u) prev_stage else None),
          st_stage_started_at =
            (if running then
               (if up_stage u \<noteq> None \<and> up_stage u \<noteq> prev_stage then Some (up_time u)
                else or_keep (Option.bind prev st_stage_started_at) (Some (up_time u)))
             else None),
          st_stage_durations = next_durations u prev,
          st_last_run_at = up_time u,
          st_last_success_at = or_keep (up_last_success u) (Option.bind prev st_last_success_at),
          st_last_failure_at = or_keep (up_last_failure u) (Option.bind prev st_last_failure_at),
          st_consecutive_failures = (case up_failures u of Some n \<Rightarrow> n
             | None \<Rightarrow> (case prev of None \<Rightarrow> 0 | Some p \<Rightarrow> st_consecutive_failures p)),
          st_expected_next_run_at =
            (if running then None else Some (plus_minutes (up_time u) (interval_minutes configured))),
          st_last_duration_ms = or_keep (up_duration u) (Option.bind prev st_last_duration_ms),
          st_last_trigger = or_keep (up_trigger u) (Option.bind prev st_last_trigger),
          st_degraded = (case up_degraded u of Some d \<Rightarrow> d
             | None \<Rightarrow> (case prev of None \<Rightarrow> False | Some p \<Rightarrow> st_degraded p)),
          st_batch = or_keep (up_batch u) (Option.bind prev st_batch)\<rparr>)"

definition stage_update :: "string \<Rightarrow> datetime \<Rightarrow> string \<Rightarrow> batch_info option \<Rightarrow> status_update" where
  "stage_update stage now trigger batch =
     \<lparr>up_state = State_running, up_time = now, up_last_success = None, up_last_failure = None,
      up_failures = None, up_duration = None, up_trigger = Some trigger, up_degraded = Some False,
      up_stage = Some stage, up_batch = batch\<rparr>"

definition set_pipeline_runtime_stage ::
  "int \<Rightarrow> string \<Rightarrow> datetime \<Rightarrow> string \<Rightarrow> batch_info option \<Rightarrow> pipeline_status option \<Rightarrow> pipeline_status" where
  "set_pipeline_runtime_stage configured stage now trigger batch prev =
     set_pipeline_runtime_status configured (stage_update stage now trigger batch) prev"

definition empty_batch :: "nat \<Rightarrow> batch_info" where
  "empty_batch slots = \<lparr>bi_batch_size = 0, bi_symbols = [], bi_current_symbol = None,
     bi_current_symbol_stage = None, bi_completed = 0, bi_total = 0, bi_batch_id = None,
     bi_paper_slots = slots\<rparr>"

definition ensure_pipeline_runtime_status_baseline ::
  "int \<Rightarrow> nat \<Rightarrow> datetime \<Rightarrow> string \<Rightarrow> pipeline_status option \<Rightarrow> pipeline_status option" where
  "ensure_pipeline_runtime_status_baseline configured slots now trigger prev =
     (case prev of Some p \<Rightarrow> Some p
      | None \<Rightarrow> Some (set_pipeline_runtime_stage configured ''startup_bootstrap'' now trigger (Some (empty_batch slots)) None))"

section \<open>Reading the status\<close>

datatype shown_state = Shown run_state | Shown_stalled | Shown_scheduled

definition is_stalled :: "int \<Rightarrow> datetime \<Rightarrow> pipeline_status \<Rightarrow> bool" where
  "is_stalled configured now p =
     (if st_state p = State_running
      then now - st_last_run_at p > 60 * max (interval_minutes configured * 2) 15
      else (case st_expected_next_run_at p of None \<Rightarrow> False | Some t \<Rightarrow> now > t))"

definition get_pipeline_runtime_status :: "int \<Rightarrow> datetime \<Rightarrow> pipeline_status option \<Rightarrow> shown_state \<times> bool" where
  "get_pipeline_runtime_status configured now stored =
     (case stored of
        None \<Rightarrow> (Shown State_idle, False)
      | Some p \<Rightarrow>
          (let stalled = is_stalled configured now p in
           (if stalled \<and> st_state p \<notin> {State_failed, State_degraded} then Shown_stalled
            else if st_state p = State_idle \<and> st_last_success_at p \<noteq> None
                 \<and> st_expected_next_run_at p \<noteq> None \<and> \<not> stalled then Shown_scheduled
            else Shown (st_state p), stalled)))"

section \<open>The scheduler and one sync's reports\<close>

definition scheduler_interval_seconds :: "int option \<Rightarrow> int \<Rightarrow> int" where
  "scheduler_interval_seconds given configured =
     max 60 ((case given of None \<Rightarrow> configured | Some m \<Rightarrow> if m = 0 then configured else m) * 60)"

text \<open>What a sync reports when it starts, when it completes and when it raises.  The completion uses
  the time that was taken when the market snapshot was built.\<close>

definition sync_started :: "int \<Rightarrow> datetime \<Rightarrow> string \<Rightarrow> batch_info \<Rightarrow> pipeline_status option \<Rightarrow> pipeline_status" where
  "sync_started configured started trigger batch prev =
     set_pipeline_runtime_stage configured ''sync_event_stream'' started trigger (Some batch) prev"

definition sync_completed ::
  "int \<Rightarrow> datetime \<Rightarrow> datetime \<Rightarrow> string \<Rightarrow> bool \<Rightarrow> batch_info \<Rightarrow> pipeline_status option \<Rightarrow> pipeline_status" where
  "sync_completed configured started snapshot_time trigger degraded batch prev =
     set_pipeline_runtime_status configured
       \<lparr>up_state = (if degraded then State_degraded else State_idle), up_time = snapshot_time,
        up_last_success = Some snapshot_time, up_last_failure = None, up_failures = Some 0,
        up_duration = Some (elapsed_ms snapshot_time started), up_trigger = Some trigger,
        up_degraded = Some degraded, up_stage = None, up_batch = Some batch\<rparr> prev"

definition sync_failed :: "int \<Rightarrow> datetime \<Rightarrow> datetime \<Rightarrow> string \<Rightarrow> pipeline_status option \<Rightarrow> pipeline_status" where
  "sync_failed configured started failed_at trigger prev =
     set_pipeline_runtime_status configured
       \<lparr>up_state = State_failed, up_time = failed_at, up_last_success = None,
        up_last_failure = Some failed_at,
        up_failures = Some ((case prev of None \<Rightarrow> 0 | Some p \<Rightarrow> st_consecutive_failures p) + 1),
        up_duration = Some (elapsed_ms failed_at started), up_trigger = Some trigger,
        up_degraded = Some True, up_stage = None, up_batch = None\<rparr> prev"

text \<open>One sync as the status sees it: its start, the stages it passes with their times and batch
  data, and how it ends.\<close>

datatype sync_end = Completed datetime bool batch_info | Raised datetime

record sync_run =
  sy_started :: datetime
  sy_trigger :: string
  sy_batch :: batch_info
  sy_stages :: "(string \<times> datetime \<times> batch_info option) list"
  sy_end :: sync_end

definition sync_stages :: "int \<Rightarrow> string \<Rightarrow> (string \<times> datetime \<times> batch_info option) list \<Rightarrow> pipeline_status \<Rightarrow> pipeline_status" where
  "sync_stages configured trigger stages p =
     fold (\<lambda>(stage, now, batch) q. set_pipeline_runtime_stage configured stage now trigger batch (Some q)) stages p"

definition sync_ended :: "int \<Rightarrow> sync_run \<Rightarrow> pipeline_status \<Rightarrow> pipeline_status" where
  "sync_ended configured r p =
     (case sy_end r of
        Completed snapshot_time degraded batch \<Rightarrow>
          sync_completed configured (sy_started r) snapshot_time (sy_trigger r) degraded batch (Some p)
      | Raised failed_at \<Rightarrow> sync_failed configured (sy_started r) failed_at (sy_trigger r) (Some p))"

definition run_sync :: "int \<Rightarrow> sync_run \<Rightarrow> pipeline_status option \<Rightarrow> pipeline_status" where
  "run_sync configured r prev =
     sync_ended configured r
       (sync_stages configured (sy_trigger r) (sy_stages r)
         (sync_started configured (sy_started r) (sy_trigger r) (sy_batch r) prev))"

section \<open>The statuses that can be reached\<close>

inductive status_step :: "int \<Rightarrow> pipeline_status option \<Rightarrow> pipeline_status option \<Rightarrow> bool" for configured where
  Baseline: "status_step configured prev (ensure_pipeline_runtime_status_baseline configured slots now trigger prev)"
| Start: "status_step configured prev (Some (sync_started configured now trigger batch prev))"
| Stage: "status_step configured prev (Some (set_pipeline_runtime_stage configured stage now trigger extra prev))"
| Complete: "status_step configured prev (Some (sync_completed configured started snapshot trigger deg batch prev))"
| Fail: "status_step configured prev (Some (sync_failed configured started failed_at trigger prev))"

definition durations_ok :: "(string \<times> int) list \<Rightarrow> bool" where
  "durations_ok ds \<longleftrightarrow> distinct (map fst ds) \<and> (\<forall>(_, ms)\<in>set ds. 0 \<le> ms)"

definition status_wf :: "int \<Rightarrow> pipeline_status \<Rightarrow> bool" where
  "status_wf configured p \<longleftrightarrow>
     (st_stage p = None \<longleftrightarrow> st_state p \<noteq> State_running)
     \<and> (st_stage_started_at p = None \<longleftrightarrow> st_state p \<noteq> State_running)
     \<and> st_expected_next_run_at p =
         (if st_state p = State_running then None
          else Some (st_last_run_at p + 60 * interval_minutes configured))
     \<and> durations_ok (st_stage_durations p)
     \<and> 0 \<le> st_consecutive_failures p
     \<and> (\<forall>ms. st_last_duration_ms p = Some ms \<longrightarrow> 0 \<le> ms)
     \<and> (st_state p = State_idle \<longrightarrow> st_consecutive_failures p = 0 \<and> \<not> st_degraded p
          \<and> st_last_success_at p = Some (st_last_run_at p))
     \<and> (st_state p = State_degraded \<longrightarrow> st_consecutive_failures p = 0 \<and> st_degraded p
          \<and> st_last_success_at p = Some (st_last_run_at p))
     \<and> (st_state p = State_failed \<longrightarrow> 0 < st_consecutive_failures p \<and> st_degraded p
          \<and> st_last_failure_at p = Some (st_last_run_at p))"

definition stored_wf :: "int \<Rightarrow> pipeline_status option \<Rightarrow> bool" where
  "stored_wf configured st \<longleftrightarrow> (case st of None \<Rightarrow> True | Some p \<Rightarrow> status_wf configured p)"

named_theorems status_defs

lemmas [status_defs] = set_pipeline_runtime_status_def set_pipeline_runtime_stage_def stage_update_def
  sync_started_def sync_completed_def sync_failed_def or_keep_def Let_def

lemma elapsed_ms_nonneg [simp]: "0 \<le> elapsed_ms now t"
  by (simp add: elapsed_ms_def)

lemma durations_ok_Nil [simp]: "durations_ok []"
  by (simp add: durations_ok_def)

lemma durations_ok_update:
  assumes "durations_ok ds" "0 \<le> v"
  shows "durations_ok (AList.update k v ds)"
  using assms by (induction ds) (auto simp: durations_ok_def dom_update dest: in_set_zipE)

lemma durations_ok_add [simp]: "durations_ok ds \<Longrightarrow> 0 \<le> ms \<Longrightarrow> durations_ok (add_duration stage ms ds)"
  unfolding add_duration_def
  by (rule durations_ok_update)
     (auto simp: durations_ok_def split: option.split dest!: map_of_SomeD)

lemma durations_ok_next:
  assumes "stored_wf c prev"
  shows "durations_ok (next_durations u prev)"
proof (cases prev)
  case None
  then show ?thesis by (simp add: next_durations_def Let_def)
next
  case (Some p)
  then have "durations_ok (st_stage_durations p)"
    using assms by (simp add: stored_wf_def status_wf_def)
  then show ?thesis
    using Some by (simp add: next_durations_def Let_def split: option.split)
qed

lemma stored_wf_parts:
  assumes "stored_wf c (Some p)"
  shows "0 \<le> st_consecutive_failures p" "\<forall>ms. st_last_duration_ms p = Some ms \<longrightarrow> 0 \<le> ms"
    "st_stage p = None \<longleftrightarrow> st_state p \<noteq> State_running"
    "st_stage_started_at p = None \<longleftrightarrow> st_state p \<noteq> State_running"
  using assms unfolding stored_wf_def status_wf_def by auto

lemma stage_keeps_wf: "stored_wf c prev \<Longrightarrow> status_wf c (set_pipeline_runtime_stage c stage now trigger extra prev)"
  using durations_ok_next [of c prev] stored_wf_parts [of c]
  by (cases prev) (auto simp: status_defs status_wf_def split: option.split)

lemma completed_keeps_wf: "stored_wf c prev \<Longrightarrow> status_wf c (sync_completed c started snapshot trigger deg batch prev)"
  using durations_ok_next [of c prev]
  by (simp add: status_defs status_wf_def plus_minutes_def)

lemma failed_keeps_wf: "stored_wf c prev \<Longrightarrow> status_wf c (sync_failed c started failed_at trigger prev)"
  using durations_ok_next [of c prev] stored_wf_parts(1) [of c]
  by (cases prev) (auto simp: status_defs status_wf_def plus_minutes_def)

lemma step_keeps_wf:
  assumes "status_step c prev next" "stored_wf c prev"
  shows "stored_wf c next"
  using assms(1)
proof cases
  case (Baseline slots now trigger)
  then show ?thesis
    using assms(2) stage_keeps_wf [of c None]
    by (auto simp: ensure_pipeline_runtime_status_baseline_def stored_wf_def split: option.split)
next
  case (Start now trigger batch)
  then show ?thesis
    using stage_keeps_wf [OF assms(2)] by (simp add: sync_started_def stored_wf_def)
next
  case (Stage stage now trigger extra)
  then show ?thesis
    using stage_keeps_wf [OF assms(2)] by (simp add: stored_wf_def)
next
  case (Complete started snapshot trigger deg batch)
  then show ?thesis
    using completed_keeps_wf [OF assms(2)] by (simp add: stored_wf_def)
next
  case (Fail started failed_at trigger)
  then show ?thesis
    using failed_keeps_wf [OF assms(2)] by (simp add: stored_wf_def)
qed

lemma reachable_wf: "(status_step c)\<^sup>*\<^sup>* None st \<Longrightarrow> stored_wf c st"
proof (induction rule: rtranclp_induct)
  case base
  show ?case by (simp add: stored_wf_def)
next
  case (step x y)
  then show ?case using step_keeps_wf by blast
qed

text \<open>C15. Every status that the baseline, the stages and the ends of syncs can store, in any order,
  is well formed: a stage and its start are known exactly while the pipeline runs, the next run
  is expected one interval after the last report exactly when it does not, durations and the
  count of failures are never negative, an idle or degraded status has no failures and a failed
  one at least one.  Reading such a status shows running, scheduled, failed, degraded or stalled,
  and idle never again.\<close>

theorem runtime_status_invariant:
  assumes "(status_step configured)\<^sup>*\<^sup>* None (Some p)"
  shows "status_wf configured p \<and> fst (get_pipeline_runtime_status configured now (Some p)) \<noteq> Shown State_idle"
proof -
  have wf: "status_wf configured p"
    using reachable_wf [OF assms] by (simp add: stored_wf_def)
  then show ?thesis
    by (auto simp: get_pipeline_runtime_status_def Let_def status_wf_def split: if_splits)
qed

lemma batch_run_reaches:
  "(status_step c)\<^sup>*\<^sup>* None
     (Some (sync_failed c 0 90 ''manual'' (Some (sync_started c 0 ''manual'' (empty_batch 3) None))))"
  by (rule rtranclp.rtrancl_into_rtrancl [OF r_into_rtranclp])
     (rule Start [of c None 0], rule Fail)

theorem runtime_status_invariant_witness:
  "status_wf 60 (sync_failed 60 0 90 ''manual'' (Some (sync_started 60 0 ''manual'' (empty_batch 3) None)))
   \<and> fst (get_pipeline_runtime_status 60 0
        (Some (sync_failed 60 0 90 ''manual'' (Some (sync_started 60 0 ''manual'' (empty_batch 3) None)))))
       \<noteq> Shown State_idle"
  using runtime_status_invariant [OF batch_run_reaches [of 60], of 0] .

section \<open>The count of failures\<close>

definition sync_failed_run :: "sync_run \<Rightarrow> bool" where
  "sync_failed_run r \<longleftrightarrow> (case sy_end r of Completed _ _ _ \<Rightarrow> False | Raised _ \<Rightarrow> True)"

definition failures_of :: "pipeline_status option \<Rightarrow> int" where
  "failures_of st = (case st of None \<Rightarrow> 0 | Some p \<Rightarrow> st_consecutive_failures p)"

lemma stages_keep_failures: "st_consecutive_failures (sync_stages c trigger stages p) = st_consecutive_failures p"
  by (induction stages arbitrary: p) (auto simp: sync_stages_def status_defs)

lemma run_sync_failures:
  "st_consecutive_failures (run_sync c r prev) = (if sync_failed_run r then failures_of prev + 1 else 0)"
  by (cases "sy_end r"; cases prev)
     (simp_all add: run_sync_def sync_ended_def sync_failed_run_def failures_of_def status_defs stages_keep_failures [unfolded status_defs])

definition run_syncs :: "int \<Rightarrow> sync_run list \<Rightarrow> pipeline_status option" where
  "run_syncs configured rs = fold (\<lambda>r st. Some (run_sync configured r st)) rs None"

lemma run_syncs_snoc: "run_syncs c (rs @ [r]) = Some (run_sync c r (run_syncs c rs))"
  by (simp add: run_syncs_def)

text \<open>The stored count of consecutive failures is the number of failed syncs since the last one
  that completed, whatever the stages, times and batches of the syncs were, and the status of the
  last sync says how that one ended.\<close>

theorem failure_count_is_trailing_failures:
  "failures_of (run_syncs configured rs) = int (length (takeWhile sync_failed_run (rev rs)))
   \<and> (case run_syncs configured rs of None \<Rightarrow> rs = []
      | Some p \<Rightarrow> (st_state p = State_failed \<longleftrightarrow> sync_failed_run (last rs)))"
proof (induction rs rule: rev_induct)
  case Nil
  show ?case by (simp add: run_syncs_def failures_of_def)
next
  case (snoc r rs)
  then show ?case
    unfolding run_syncs_snoc
    by (cases "sy_end r")
       (simp_all add: failures_of_def [of "Some _"] run_sync_failures, simp_all add: run_sync_def
          sync_ended_def sync_failed_run_def set_pipeline_runtime_status_def sync_completed_def sync_failed_def Let_def)
qed

section \<open>When a completed sync reads as stalled\<close>

text \<open>A completed sync is dated by the time its market snapshot was built, before the research and
  the paper execution.  So the status reads as stalled one interval after that time, however
  late the sync finished, the stage that was running last is charged nothing when it began after
  the snapshot, and the reported duration leaves out everything after the snapshot.\<close>

theorem completed_sync_is_dated_by_snapshot:
  "let p = sync_completed configured started snapshot trigger False batch
             (Some (set_pipeline_runtime_stage configured stage (snapshot + int after) trigger extra prev))
   in get_pipeline_runtime_status configured now (Some p)
        = (if now > snapshot + 60 * max 5 configured then (Shown_stalled, True) else (Shown_scheduled, False))
      \<and> (Option.bind prev st_stage = Some stage \<or>
           map_of (st_stage_durations p) stage
             = Some (case map_of (next_durations (stage_update stage (snapshot + int after) trigger extra) prev) stage of
                 None \<Rightarrow> 0 | Some v \<Rightarrow> v))
      \<and> st_last_duration_ms p = Some (max 0 ((snapshot - started) * 1000))"
  by (auto simp: get_pipeline_runtime_status_def is_stalled_def plus_minutes_def interval_minutes_def
      next_durations_def [of _ "Some _"] previous_state_def add_duration_def update_Some_unfold elapsed_ms_def status_defs)

text \<open>A degraded or failed status is never shown as stalled, whatever the time: the macro feed being
  degraded hides that the pipeline has stopped.\<close>

lemma shown_of_degraded:
  "get_pipeline_runtime_status c now (Some (sync_completed c started snapshot trigger True batch prev))
     = (Shown State_degraded, now > snapshot + 60 * interval_minutes c)"
  by (simp add: mult.commute get_pipeline_runtime_status_def is_stalled_def plus_minutes_def status_defs)

end
