(* ===== verification/Watchdog.thy ===== *)
theory Watchdog imports Runtime_Status "HOL-Library.Sublist" begin

text \<open>
  \<open>watchdog/local_watchdog.py\<close>: what one check reads, the issues it finds in their order, whether it
  restarts the service, and the history it keeps.  The answers of the two endpoints and the
  outcome of the restart are arguments; an endpoint that cannot be reached is an error.
\<close>

datatype issue = Healthz_unreachable | Command_unreachable | Runtime_status_missing
  | Runtime_failed | Runtime_stalled | Consecutive_failures_present | Llm_mock_fallback_issue
  | Macro_degraded | Fallback_events_high | Error_log_signal_spike

text \<open>The fields of the command's answer that the check reads.\<close>

record command_view =
  cm_state :: "string option"
  cm_stage :: "string option"
  cm_consecutive_failures :: int
  cm_using_mock_fallback :: bool
  cm_macro_degraded :: bool
  cm_blockers :: "string list"

definition no_view :: command_view where
  "no_view = \<lparr>cm_state = None, cm_stage = None, cm_consecutive_failures = 0,
     cm_using_mock_fallback = False, cm_macro_degraded = False, cm_blockers = []\<rparr>"

section \<open>The error log\<close>

definition ignored_line :: "string \<Rightarrow> bool" where
  "ignored_line lowered \<longleftrightarrow>
     contains ''shell-init: error retrieving current directory'' lowered
     \<or> contains ([CHR 0xE2, CHR 0x9D, CHR 0x8C] @ '' no_go'') lowered
     \<or> contains ([CHR 0xE2, CHR 0x9D, CHR 0x8C] @ '' no-go'') lowered"

definition signal_line :: "string \<Rightarrow> bool" where
  "signal_line text \<longleftrightarrow>
     (let lowered = py_lower text in
      \<not> ignored_line lowered
      \<and> list_ex (\<lambda>token. contains token lowered)
          [''traceback'', ''error'', ''exception'', ''unhandled'', ''fatal''])"

definition last_entries :: "nat \<Rightarrow> 'a list \<Rightarrow> 'a list" where
  "last_entries n xs = drop (length xs - n) xs"

definition tail_log_signals :: "string list option \<Rightarrow> nat \<Rightarrow> nat \<times> string list" where
  "tail_log_signals lines limit =
     (case lines of
        None \<Rightarrow> (0, [])
      | Some ls \<Rightarrow> (let signals = filter signal_line (last_entries limit ls)
                    in (length signals, last_entries 8 signals)))"

section \<open>One check\<close>

datatype health = Health_ok | Health_warning | Health_critical

record watchdog_snapshot =
  ws_checked_at :: datetime
  ws_status :: health
  ws_service_healthy :: bool
  ws_command_available :: bool
  ws_restart_attempted :: bool
  ws_restart_reason :: "issue option"
  ws_current_state :: "string option"
  ws_issues :: "issue list"
  ws_stalled_detected :: bool
  ws_error_log_count :: nat
  ws_error_log_excerpt :: "string list"

text \<open>The health endpoint gives its status text, or nothing for an answer that is not an object.\<close>

definition service_healthy :: "string option res \<Rightarrow> bool" where
  "service_healthy h = (h = Inr (Some ''ok''))"

definition view_of :: "command_view option res \<Rightarrow> command_view" where
  "view_of c = (case c of Inr (Some v) \<Rightarrow> v | _ \<Rightarrow> no_view)"

definition command_available :: "command_view option res \<Rightarrow> bool" where
  "command_available c = (case c of Inr (Some _) \<Rightarrow> True | _ \<Rightarrow> False)"

definition detected_issues :: "string option res \<Rightarrow> command_view option res \<Rightarrow> nat \<Rightarrow> issue list" where
  "detected_issues h c log_count =
     (let v = view_of c in
      (if is_ok h then [] else [Healthz_unreachable])
      @ (if is_ok c then [] else [Command_unreachable])
      @ (if command_available c \<and> (cm_state v = None \<or> cm_state v = Some []) then [Runtime_status_missing] else [])
      @ (if cm_state v = Some ''failed'' then [Runtime_failed]
         else if cm_state v = Some ''stalled'' then [Runtime_stalled] else [])
      @ (if cm_consecutive_failures v > 0 then [Consecutive_failures_present] else [])
      @ (if cm_using_mock_fallback v then [Llm_mock_fallback_issue] else [])
      @ (if cm_macro_degraded v then [Macro_degraded] else [])
      @ (if ''too_many_fallback_events'' \<in> set (cm_blockers v) then [Fallback_events_high] else [])
      @ (if log_count \<ge> 5 then [Error_log_signal_spike] else []))"

definition severe_issues :: "issue list" where
  "severe_issues = [Healthz_unreachable, Command_unreachable, Runtime_failed, Runtime_stalled, Runtime_status_missing]"

definition is_severe :: "issue list \<Rightarrow> bool" where
  "is_severe issues \<longleftrightarrow> list_ex (\<lambda>i. i \<in> set severe_issues) issues"

record watchdog_state =
  wd_latest :: "watchdog_snapshot option"
  wd_history :: "watchdog_snapshot list"

definition check :: "datetime \<Rightarrow> string option res \<Rightarrow> command_view option res \<Rightarrow> string list option \<Rightarrow> bool \<Rightarrow> watchdog_snapshot" where
  "check now h c log_lines restart_works =
     (let (n, excerpt) = tail_log_signals log_lines 80;
          issues = detected_issues h c n;
          severe = is_severe issues
      in \<lparr>ws_checked_at = now,
          ws_status = (if issues = [] then Health_ok else if severe then Health_critical else Health_warning),
          ws_service_healthy = service_healthy h,
          ws_command_available = command_available c,
          ws_restart_attempted = severe \<and> restart_works,
          ws_restart_reason = (if severe then Some (hd issues) else None),
          ws_current_state = cm_state (view_of c),
          ws_issues = issues,
          ws_stalled_detected = (cm_state (view_of c) = Some ''stalled''),
          ws_error_log_count = n,
          ws_error_log_excerpt = excerpt\<rparr>)"

definition run_watchdog ::
  "datetime \<Rightarrow> string option res \<Rightarrow> command_view option res \<Rightarrow> string list option \<Rightarrow> bool
     \<Rightarrow> watchdog_state \<Rightarrow> watchdog_snapshot \<times> watchdog_state" where
  "run_watchdog now h c log_lines restart_works st =
     (let snap = check now h c log_lines restart_works
      in (snap, \<lparr>wd_latest = Some snap, wd_history = last_entries 72 (wd_history st @ [snap])\<rparr>))"

section \<open>Properties\<close>

text \<open>C16. The check restarts the service only for a severe issue, and names a severe issue as its reason:
  the severe issues come first in the list.  The status is critical exactly then, and healthy
  exactly when no issue was found; the history keeps at most its last 72 entries, ending with this
  one, and nothing else is lost.\<close>

theorem watchdog_contract:
  "let (snap, st') = run_watchdog now h c log_lines works st in
     (ws_restart_reason snap \<noteq> None \<longleftrightarrow> is_severe (ws_issues snap))
     \<and> (\<forall>i. ws_restart_reason snap = Some i \<longrightarrow> i \<in> set severe_issues)
     \<and> (ws_restart_attempted snap \<longrightarrow> ws_status snap = Health_critical)
     \<and> (ws_status snap = Health_critical \<longleftrightarrow> is_severe (ws_issues snap))
     \<and> (ws_status snap = Health_ok \<longleftrightarrow> ws_issues snap = [])
     \<and> length (wd_history st') \<le> 72 \<and> last (wd_history st') = snap \<and> wd_latest st' = Some snap
     \<and> suffix (wd_history st') (wd_history st @ [snap])"
proof -
  have first: "hd (detected_issues h c n) \<in> set severe_issues" if "is_severe (detected_issues h c n)" for n
    using that unfolding detected_issues_def Let_def is_severe_def severe_issues_def
    by (auto simp: is_ok_def split: sum.splits if_splits)
  obtain n ex where log: "tail_log_signals log_lines 80 = (n, ex)" by (cases "tail_log_signals log_lines 80")
  have "is_severe is \<Longrightarrow> is \<noteq> []" for "is" by (auto simp: is_severe_def)
  then show ?thesis
    using first [of n]
    by (auto simp: run_watchdog_def check_def log Let_def last_entries_def suffix_drop last_drop)
qed

theorem watchdog_contract_witness:
  "ws_restart_reason (fst (run_watchdog 0 (Inl RuntimeError) (Inr None) None True
     \<lparr>wd_latest = None, wd_history = []\<rparr>)) = Some Healthz_unreachable
   \<and> ws_status (fst (run_watchdog 0 (Inl RuntimeError) (Inr None) None True
     \<lparr>wd_latest = None, wd_history = []\<rparr>)) = Health_critical"
proof -
  have issues: "ws_issues (fst (run_watchdog 0 (Inl RuntimeError) (Inr None) None True
     \<lparr>wd_latest = None, wd_history = []\<rparr>)) = [Healthz_unreachable]"
    "ws_restart_reason (fst (run_watchdog 0 (Inl RuntimeError) (Inr None) None True
     \<lparr>wd_latest = None, wd_history = []\<rparr>)) = Some Healthz_unreachable"
    by code_simp+
  show ?thesis
    using watchdog_contract [of 0 "Inl RuntimeError" "Inr None" None True "\<lparr>wd_latest = None, wd_history = []\<rparr>"] issues
    by (simp add: Let_def split_def is_severe_def severe_issues_def)
qed

section \<open>What the watchdog does not see\<close>

text \<open>The text of a shown state, as the command's answer carries it.\<close>

definition shown_name :: "shown_state \<Rightarrow> string" where
  "shown_name s =
     (case s of
        Shown State_idle \<Rightarrow> ''idle'' | Shown State_running \<Rightarrow> ''running''
      | Shown State_failed \<Rightarrow> ''failed'' | Shown State_degraded \<Rightarrow> ''degraded''
      | Shown_stalled \<Rightarrow> ''stalled'' | Shown_scheduled \<Rightarrow> ''scheduled'')"

definition command_of :: "shown_state \<times> bool \<Rightarrow> command_view \<Rightarrow> command_view" where
  "command_of shown v = v\<lparr>cm_state := Some (shown_name (fst shown))\<rparr>"

lemma check_restart_iff:
  "ws_restart_attempted (check t h c log_lines works)
     = (works \<and> (\<not> is_ok h \<or> \<not> is_ok c
        \<or> (command_available c \<and> (cm_state (view_of c) = None \<or> cm_state (view_of c) = Some []))
        \<or> cm_state (view_of c) = Some ''failed'' \<or> cm_state (view_of c) = Some ''stalled''))"
  by (cases "tail_log_signals log_lines 80")
     (auto simp: check_def Let_def detected_issues_def is_severe_def severe_issues_def)

lemma shown_name_facts:
  "shown_name s = ''failed'' \<longleftrightarrow> s = Shown State_failed"
  "shown_name s = ''stalled'' \<longleftrightarrow> s = Shown_stalled"
  "shown_name s \<noteq> []"
  by (auto simp: shown_name_def split: shown_state.splits run_state.splits)

lemma restart_of_shown:
  "ws_restart_attempted (check t (Inr h) (Inr (Some (command_of shown v))) log_lines works)
     = (works \<and> (fst shown = Shown State_failed \<or> fst shown = Shown_stalled))"
  by (simp add: check_restart_iff view_of_def command_available_def command_of_def shown_name_facts is_ok_def)

text \<open>The check restarts a reachable service exactly when the status it is shown has failed or
  stalled.  So after a sync that completed with a degraded macro feed nothing is restarted,
  however long ago the next run was due, while the same stop after a clean sync is; and a service
  that answers with a bad health status is not restarted for it.\<close>

theorem degraded_sync_hides_stall:
  "ws_restart_attempted (check t (Inr (Some health))
       (Inr (Some (command_of (get_pipeline_runtime_status configured now
          (Some (sync_completed configured started snapshot trigger degraded batch prev))) v))) log_lines True)
     = (\<not> degraded \<and> now > snapshot + 60 * max 5 configured)
   \<and> snd (get_pipeline_runtime_status configured now
          (Some (sync_completed configured started snapshot trigger degraded batch prev)))
     = (now > snapshot + 60 * max 5 configured)"
  by (cases degraded)
     (simp_all add: restart_of_shown get_pipeline_runtime_status_def is_stalled_def plus_minutes_def
        interval_minutes_def sync_completed_def set_pipeline_runtime_status_def or_keep_def Let_def mult.commute)

end
