(* ===== verification/Agent_Sync.thy ===== *)
theory Agent_Sync imports Paper_Properties Runtime_Status begin

text \<open>
  \<open>sync_agent_state\<close> of \<open>api/services.py\<close>: one sync composed of the operations on the proposal pool,
  the paper slots and the paper account, in the order of the code, with the exceptions that can
  end it early and the status it reports.  What the language model, the backtests, the market data
  and the strategies answer, the identifiers of new rows and the times of the clock are fields of
  its input; audit and batch records are left out.  One sync uses one database session, which
  keeps what it has loaded when it commits.
\<close>

section \<open>The input and the state\<close>

text \<open>What a proposal's description says of its sizing and its holding time, and what the market and
  its strategy answer at a time: the quote for a first purchase (\<open>Inl\<close> when fetching it raises or it
  is not a number), the close of the last bar of the history, and the signal (nothing when the
  history, the adapter or the strategy raises).  \<open>te_judged\<close>: debate and judgement of the draft with
  this identifier did not raise.\<close>

record trade_env =
  te_capital :: real
  te_sizing :: "proposal \<Rightarrow> real"
  te_min_holding_days :: "proposal \<Rightarrow> int"
  te_quote :: "proposal \<Rightarrow> datetime \<Rightarrow> real option res"
  te_bar :: "proposal \<Rightarrow> datetime \<Rightarrow> real option"
  te_signal :: "proposal \<Rightarrow> datetime \<Rightarrow> signal option"
  te_judged :: "string \<Rightarrow> bool"

record sync_state =
  ss_pool :: pool
  ss_paper :: paper_store
  ss_slots :: slot_table

text \<open>\<open>sx_agents\<close>: per research symbol the environment and the drafts its agent returned, nothing when
  an agent raises; \<open>sx_ready\<close>: the stages before the pool is touched did not raise.\<close>

record sync_input =
  sx_settings :: governance_settings
  sx_force_refresh :: bool
  sx_now :: datetime
  sx_market_scope :: string
  sx_symbols :: "string list"
  sx_ready :: bool
  sx_agents :: "(sync_env \<times> draft list) list option"
  sx_health_id :: string
  sx_promotion_id :: string
  sx_final_health_id :: string
  sx_assign_at :: datetime
  sx_execute_at :: "slot_id \<Rightarrow> datetime"
  sx_trade :: trade_env

section \<open>The operations with their effects on the account\<close>

definition account_of :: "trade_env \<Rightarrow> proposal \<Rightarrow> account" where
  "account_of te p = \<lparr>pa_proposal = pr_id p, pa_symbol = pr_symbol p, pa_market_scope = pr_market_scope p,
     pa_sizing = te_sizing te p, pa_min_holding_days = te_min_holding_days te p\<rparr>"

text \<open>\<open>_initialize_paper_snapshot_for_proposal\<close> and \<open>_bootstrap_paper_trade_for_proposal\<close> on the primary
  slot, as every promotion and every health check calls them; false when the quote raised.  The
  quote is fetched only for a first purchase on an open market.\<close>

definition quote_consulted :: "account \<Rightarrow> datetime \<Rightarrow> paper_store \<Rightarrow> bool" where
  "quote_consulted a now px \<longleftrightarrow> (pa_proposal a, Primary_slot) \<notin> set (px_bootstrapped px)
     \<and> fst (paper_market_is_open now (pa_symbol a) (pa_market_scope a))"

definition open_paper_account :: "trade_env \<Rightarrow> datetime \<Rightarrow> proposal \<Rightarrow> paper_store \<Rightarrow> bool \<times> paper_store" where
  "open_paper_account te now p px =
     (let a = account_of te p; px1 = initialize_paper_snapshot (te_capital te) a now Primary_slot px in
      case (if quote_consulted a now px1 then te_quote te p now else Inr None) of
        Inl _ \<Rightarrow> (False, px1)
      | Inr quote \<Rightarrow> (True, snd (bootstrap_paper_trade (te_capital te) a now Primary_slot quote px1)))"

text \<open>One cycle in a slot; false when it raised.\<close>

definition paper_cycle :: "trade_env \<Rightarrow> datetime \<Rightarrow> slot_id \<Rightarrow> proposal \<Rightarrow> paper_store \<Rightarrow> bool \<times> paper_store" where
  "paper_cycle te now s p px =
     (let (executed, px') = execute_paper_cycle_for_slot (te_capital te) (account_of te p) now s
        (te_bar te p now) (te_signal te p now) px
      in (executed \<noteq> None, px'))"

definition live_nav_drawdown :: "paper_store \<Rightarrow> real" where
  "live_nav_drawdown px = paper_nav_drawdown (map nr_total_equity (fetch_nav 120 Primary_slot px))"

text \<open>\<open>evaluate_active_strategy_health\<close> with the purchase and the cycle it runs first.\<close>

definition active_health_check :: "sync_input \<Rightarrow> string \<Rightarrow> sync_state \<Rightarrow> bool \<times> sync_state" where
  "active_health_check x did st =
     (case get_active_strategy (ss_pool st) of
        None \<Rightarrow> (True, st)
      | Some active \<Rightarrow>
          (let (bought, px1) = open_paper_account (sx_trade x) (sx_now x) active (ss_paper st);
               (ok, px) = (if bought then paper_cycle (sx_trade x) (sx_now x) Primary_slot active px1
                           else (False, px1))
           in if \<not> ok then (False, st\<lparr>ss_paper := px\<rparr>)
              else (True, st\<lparr>ss_paper := px,
                 ss_pool := snd (evaluate_active_strategy_health (sx_market_scope x) (live_nav_drawdown px)
                   did (sx_now x) (ss_pool st))\<rparr>)))"

text \<open>What is done with the rows that are there before the research: archiving, recovery, health.\<close>

definition out_of_scope_archived :: "sync_input \<Rightarrow> pool \<Rightarrow> pool" where
  "out_of_scope_archived x pool =
     archive_out_of_scope_strategy_proposals
       (case get_active_strategy pool of None \<Rightarrow> hd (sx_symbols x) | Some a \<Rightarrow> pr_symbol a)
       (sx_market_scope x) (sx_now x) pool"

definition settle_existing :: "sync_input \<Rightarrow> sync_state \<Rightarrow> bool \<times> proposal option \<times> sync_state" where
  "settle_existing x st =
     (let previous = get_active_strategy (ss_pool st);
          pool = out_of_scope_archived x (ss_pool st);
          existing_open = list_ex (\<lambda>r. pr_status r \<noteq> ARCHIVED) pool;
          st1 = st\<lparr>ss_pool := pool\<rparr>
      in if sx_force_refresh x then
           (True, previous, st1\<lparr>ss_pool := (if previous \<noteq> None
              then archive_non_active_strategy_proposals (sx_now x) pool
              else archive_strategy_proposals (sx_now x) pool)\<rparr>)
         else if existing_open \<and> previous = None then
           (case recover_active_strategy (sx_now x) pool of
              (Some _, pool') \<Rightarrow> (True, get_active_strategy pool', st1\<lparr>ss_pool := pool'\<rparr>)
            | (None, _) \<Rightarrow> (True, None, st1\<lparr>ss_pool := archive_strategy_proposals (sx_now x) pool\<rparr>))
         else if existing_open \<and> previous \<noteq> None then
           (let (ok, st2) = active_health_check x (sx_health_id x) st1
            in (ok, get_active_strategy (ss_pool st2), st2))
         else (True, previous, st1))"

text \<open>One research symbol: its drafts are judged and decided one after the other against the active
  strategy, and each promoted one gets its account.  When a draft's judgement or the quote of a
  first purchase raises, the rows inserted so far stay, the promoted one among them, and the
  strategy that was active before has not been archived yet.\<close>

fun open_promoted :: "trade_env \<Rightarrow> datetime \<Rightarrow> proposal list \<Rightarrow> paper_store \<Rightarrow> bool \<times> proposal list \<times> paper_store" where
  "open_promoted te now [] px = (True, [], px)"
| "open_promoted te now (p # ps) px =
     (if \<not> te_judged te (pr_id p) then (False, [], px)
      else
        (let (ok, px1) = (if pr_status p = ACTIVE then open_paper_account te now p px else (True, px)) in
         if \<not> ok then (False, [p], px1)
         else (let (ok', inserted, px2) = open_promoted te now ps px1 in (ok', p # inserted, px2))))"

definition research_symbol ::
  "trade_env \<Rightarrow> sync_env \<times> draft list \<Rightarrow> proposal option \<Rightarrow> sync_state
     \<Rightarrow> bool \<times> proposal option \<times> proposal list \<times> sync_state" where
  "research_symbol te out previous st =
     (let (env, drafts) = out;
          (created, pool) = materialize_proposals_and_decisions env previous drafts (ss_pool st);
          (ok, inserted, px) = open_promoted te (se_now env) created (ss_paper st)
      in if ok then (True, get_active_strategy pool, created, st\<lparr>ss_pool := pool, ss_paper := px\<rparr>)
         else (False, previous, inserted, st\<lparr>ss_pool := ss_pool st @ inserted, ss_paper := px\<rparr>))"

fun research :: "trade_env \<Rightarrow> (sync_env \<times> draft list) list \<Rightarrow> proposal option \<Rightarrow> sync_state
     \<Rightarrow> bool \<times> proposal option \<times> proposal list \<times> sync_state" where
  "research te [] previous st = (True, previous, [], st)"
| "research te (out # outs) previous st =
     (let (ok, previous', created, st1) = research_symbol te out previous st in
      if \<not> ok then (False, previous', created, st1)
      else (let (ok', p, more_created, st2) = research te outs previous' st1
            in (ok', p, created @ more_created, st2)))"

text \<open>The challengers a batch names: the best eligible new proposals, at most one per candidate slot.\<close>

definition ranked_challengers :: "governance_settings \<Rightarrow> proposal option \<Rightarrow> proposal list \<Rightarrow> proposal list" where
  "ranked_challengers gs previous created =
     take (paper_slot_count gs - 1)
       (sort_desc paper_slot_sort_key (filter (paper_candidate_eligible (map_option pr_id previous)) created))"

definition promote_over_mock :: "sync_input \<Rightarrow> proposal option \<Rightarrow> sync_state \<Rightarrow> bool \<times> sync_state" where
  "promote_over_mock x previous st =
     (case previous of
        None \<Rightarrow> (True, st)
      | Some a \<Rightarrow>
          (let (promoted, pool) = promote_existing_real_candidate_over_mock_active a (sx_promotion_id x) (sx_now x) (ss_pool st);
               st1 = st\<lparr>ss_pool := pool\<rparr>
           in case Option.bind promoted (\<lambda>i. find (\<lambda>r. pr_id r = i) pool) of
                None \<Rightarrow> (True, st1)
              | Some c \<Rightarrow>
                  (let (ok, px) = open_paper_account (sx_trade x) (sx_now x) c (ss_paper st)
                   in (ok, st1\<lparr>ss_paper := px\<rparr>))))"

text \<open>The cycles of the assigned slots, in their order; a strategy that raises ends the sync.  A slot
  runs its \<open>proposal\<close> relation, not its \<open>proposal_id\<close>.  The relation of a row that was in the table
  before the assignment was loaded with it, and neither the change of \<open>proposal_id\<close> nor the second
  query refreshes it; a row that the assignment inserted gets its relation with the second query.
  So the first argument after the input is the table before the assignment.\<close>

definition loaded_proposal :: "slot_table \<Rightarrow> slot \<Rightarrow> string option" where
  "loaded_proposal before_table s =
     (case before_table (sl_slot_id s) of
        None \<Rightarrow> sl_proposal_id s
      | Some old \<Rightarrow> sl_proposal_id old)"

definition mark_executed :: "datetime \<Rightarrow> slot \<Rightarrow> slot" where
  "mark_executed now s = s\<lparr>sl_last_executed_at := Some now, sl_status := Running, sl_updated_at := now\<rparr>"

fun execute_slots :: "sync_input \<Rightarrow> slot_table \<Rightarrow> slot list \<Rightarrow> sync_state \<Rightarrow> bool \<times> sync_state" where
  "execute_slots x tb [] st = (True, st)"
| "execute_slots x tb (s # ss) st =
     (case Option.bind (loaded_proposal tb s) (\<lambda>i. find (\<lambda>r. pr_id r = i) (ss_pool st)) of
        None \<Rightarrow> execute_slots x tb ss st
      | Some p \<Rightarrow>
          (let now = sx_execute_at x (sl_slot_id s);
               (ok, px) = paper_cycle (sx_trade x) now (sl_slot_id s) p (ss_paper st)
           in if \<not> ok then (False, st\<lparr>ss_paper := px\<rparr>)
              else execute_slots x tb ss
                (st\<lparr>ss_paper := px,
                    ss_slots := (ss_slots st)(sl_slot_id s := map_option (mark_executed now) (ss_slots st (sl_slot_id s)))\<rparr>)))"

section \<open>The sync\<close>

text \<open>From the end of the research on: pruning, promotion over a mock, slots, cycles, health.\<close>

definition finish_sync :: "sync_input \<Rightarrow> proposal option \<Rightarrow> string \<Rightarrow> sync_state \<Rightarrow> bool \<times> sync_state" where
  "finish_sync x previous current_symbol st =
     (let st1 = st\<lparr>ss_pool := snd (prune_strategy_proposals (sx_settings x)
            (case previous of None \<Rightarrow> current_symbol | Some a \<Rightarrow> pr_symbol a)
            (sx_market_scope x) (sx_now x) (ss_pool st))\<rparr>;
          (bought, st2) = promote_over_mock x previous st1
      in if \<not> bought then (False, st2)
         else
           (let (tab, slots) = assign_paper_pool_slots (sx_settings x) (sx_assign_at x)
                  (get_active_strategy (ss_pool st2)) (ss_pool st2) (ss_slots st2);
                (ok, st3) = execute_slots x (ss_slots st2) slots (st2\<lparr>ss_slots := tab\<rparr>)
            in if \<not> ok then (False, st3) else active_health_check x (sx_final_health_id x) st3))"

text \<open>The result says whether the sync completed; what was done before an exception stays, because
  the handler of the exception commits the session.\<close>

definition sync_agent_state :: "sync_input \<Rightarrow> sync_state \<Rightarrow> bool \<times> sync_state" where
  "sync_agent_state x st =
     (if \<not> sx_ready x then (False, st)
      else
        (let (ok, previous, st1) = settle_existing x st in
         if \<not> ok then (False, st1)
         else (case sx_agents x of
                 None \<Rightarrow> (False, st1)
               | Some outs \<Rightarrow>
                   (let current_symbol = (case previous of None \<Rightarrow> hd (sx_symbols x) | Some a \<Rightarrow> pr_symbol a);
                        (researched, previous', _, st2) = research (sx_trade x) outs previous st1
                    in if \<not> researched then (False, st2)
                       else finish_sync x previous' current_symbol st2))))"

text \<open>With the status: the end of the run it reports is what happened.\<close>

definition reported_sync ::
  "int \<Rightarrow> sync_input \<Rightarrow> sync_run \<Rightarrow> bool \<Rightarrow> batch_info \<Rightarrow> datetime \<Rightarrow> sync_state \<times> pipeline_status option
     \<Rightarrow> sync_state \<times> pipeline_status option" where
  "reported_sync configured x r degraded batch failed_at s =
     (let (ok, st') = sync_agent_state x (fst s)
      in (st', Some (run_sync configured
            (r\<lparr>sy_end := (if ok then Completed (sx_now x) degraded batch else Raised failed_at)\<rparr>) (snd s))))"

section \<open>A sync is a run of the pool's and the account's steps\<close>

text \<open>The drafts of all agents are real, and their identifiers are new and distinct.\<close>

definition real_and_fresh :: "(sync_env \<times> draft list) list \<Rightarrow> pool \<Rightarrow> bool" where
  "real_and_fresh outs pool \<longleftrightarrow>
     (let ms = concat (map snd outs) in
      list_all (\<lambda>m. bp_source_kind (md_blueprint m) \<noteq> ''mock'') ms
      \<and> distinct (map md_id ms) \<and> list_all (\<lambda>m. md_id m \<notin> pr_id ` set pool) ms)"

definition moves :: "trade_env \<Rightarrow> sync_state \<Rightarrow> sync_state \<Rightarrow> bool" where
  "moves te st st' \<longleftrightarrow> pool_step\<^sup>*\<^sup>* (ss_pool st) (ss_pool st')
     \<and> (paper_step (te_capital te))\<^sup>*\<^sup>* (ss_paper st) (ss_paper st')"

lemma moves_refl: "ss_pool st' = ss_pool st \<Longrightarrow> ss_paper st' = ss_paper st \<Longrightarrow> moves te st st'"
  by (simp add: moves_def)

lemma moves_trans [trans]: "moves te a b \<Longrightarrow> moves te b c \<Longrightarrow> moves te a c"
  unfolding moves_def by (meson rtranclp_trans)

lemma moves_cong: "moves te st st' \<Longrightarrow> ss_pool t = ss_pool st' \<Longrightarrow> ss_paper t = ss_paper st' \<Longrightarrow> moves te st t"
  by (simp add: moves_def)

lemma open_cases:
  "snd (open_paper_account te now p px) = initialize_paper_snapshot (te_capital te) (account_of te p) now Primary_slot px
   \<or> (\<exists>quote. open_paper_account te now p px = (True, snd (bootstrap_paper_trade (te_capital te) (account_of te p) now Primary_slot quote
       (initialize_paper_snapshot (te_capital te) (account_of te p) now Primary_slot px))))"
  by (auto simp: open_paper_account_def Let_def split: sum.split)

lemma open_raises: "\<not> fst (open_paper_account te now p px) \<Longrightarrow> \<exists>e. te_quote te p now = Inl e"
  by (auto simp: open_paper_account_def Let_def split: sum.splits if_splits)

lemma paper_step_open: "(paper_step (te_capital te))\<^sup>*\<^sup>* px (snd (open_paper_account te now p px))"
proof -
  let ?px = "initialize_paper_snapshot (te_capital te) (account_of te p) now Primary_slot px"
  have one: "(paper_step (te_capital te))\<^sup>*\<^sup>* px ?px" by (rule r_into_rtranclp) (rule initialise)
  have "(paper_step (te_capital te))\<^sup>*\<^sup>* px
      (snd (bootstrap_paper_trade (te_capital te) (account_of te p) now Primary_slot quote ?px))" for quote
    by (rule rtranclp.rtrancl_into_rtrancl [OF one]) (rule bootstrap)
  with one open_cases [of te now p px] show ?thesis by fastforce
qed

lemma paper_step_open_promoted:
  "(paper_step (te_capital te))\<^sup>*\<^sup>* px (snd (snd (open_promoted te now ps px)))"
proof (induction ps arbitrary: px)
  case (Cons p ps)
  obtain ok px1 where o: "(if pr_status p = ACTIVE then open_paper_account te now p px else (True, px)) = (ok, px1)"
    by fastforce
  have "(paper_step (te_capital te))\<^sup>*\<^sup>* px px1"
    using o paper_step_open [of te px now p] by (auto split: if_splits)
  then show ?case using rtranclp_trans [OF _ Cons.IH [of px1]] by (auto simp: o Let_def split_def)
qed simp

text \<open>What is inserted when a batch is interrupted, and what interrupted it.\<close>

definition interrupted :: "trade_env \<Rightarrow> datetime \<Rightarrow> proposal list \<Rightarrow> proposal list \<Rightarrow> bool" where
  "interrupted te now created inserted \<longleftrightarrow> (\<exists>rest. created = inserted @ rest
     \<and> ((\<exists>r\<in>set rest. \<not> te_judged te (pr_id r))
        \<or> (\<exists>r\<in>set inserted. pr_status r = ACTIVE \<and> (\<exists>e. te_quote te r now = Inl e))))"

lemma interrupted_Cons: "interrupted te now created inserted \<Longrightarrow> interrupted te now (p # created) (p # inserted)"
  unfolding interrupted_def by auto

lemma open_promoted_outcome:
  "open_promoted te now ps px = (ok, inserted, px') \<Longrightarrow> if ok then inserted = ps else interrupted te now ps inserted"
proof (induction ps arbitrary: px ok inserted px')
  case (Cons p ps)
  obtain ok1 px1 where o: "(if pr_status p = ACTIVE then open_paper_account te now p px else (True, px)) = (ok1, px1)"
    by fastforce
  obtain ok2 ins px2 where r: "open_promoted te now ps px1 = (ok2, ins, px2)" by (metis prod_cases3)
  consider "\<not> te_judged te (pr_id p)" | "te_judged te (pr_id p)" "\<not> ok1" | "te_judged te (pr_id p)" "ok1" by blast
  then show ?case
  proof cases
    case 1
    then show ?thesis using Cons.prems by (auto simp: interrupted_def)
  next
    case 2
    then have res: "\<not> ok" "inserted = [p]" using Cons.prems by (simp_all add: o)
    from 2 have "pr_status p = ACTIVE" "\<exists>e. te_quote te p now = Inl e"
      using o open_raises [of te now p px] by (auto split: if_splits)
    then show ?thesis unfolding interrupted_def using res by auto
  next
    case 3
    then have "ok = ok2" "inserted = p # ins" using Cons.prems by (simp_all add: o r)
    then show ?thesis using Cons.IH [OF r] interrupted_Cons by (cases ok2) auto
  qed
qed simp

lemma paper_step_cycle: "paper_step (te_capital te) px (snd (paper_cycle te now s p px))"
  unfolding paper_cycle_def by (simp add: split_def Let_def cycle)

lemma health_moves:
  "moves (sx_trade x) st (snd (active_health_check x did st))"
  "map pr_id (ss_pool (snd (active_health_check x did st))) = map pr_id (ss_pool st)"
proof -
  have ids: "map pr_id (snd (evaluate_active_strategy_health sc dd did now pool)) = map pr_id pool" for sc dd now pool
    by (simp add: evaluate_active_strategy_health_def Let_def split: option.split)
  show "map pr_id (ss_pool (snd (active_health_check x did st))) = map pr_id (ss_pool st)"
    by (simp add: active_health_check_def Let_def split_def ids split: option.split)
  have px: "(paper_step (te_capital (sx_trade x)))\<^sup>*\<^sup>* (ss_paper st)
      (snd (paper_cycle (sx_trade x) (sx_now x) Primary_slot a (snd (open_paper_account (sx_trade x) (sx_now x) a (ss_paper st)))))" for a
    by (rule rtranclp.rtrancl_into_rtrancl [OF paper_step_open paper_step_cycle])
  show "moves (sx_trade x) st (snd (active_health_check x did st))"
    by (auto simp: active_health_check_def moves_def Let_def split_def intro: px paper_step_open Health split: option.split)
qed

lemma active_out_of_scope: "get_active_strategy (out_of_scope_archived x pool) = get_active_strategy pool"
  unfolding out_of_scope_archived_def archive_out_of_scope_strategy_proposals_def get_active_alt
  by (subst actives_keep) simp_all

lemma active_non_active: "get_active_strategy (archive_non_active_strategy_proposals now pool) = get_active_strategy pool"
  unfolding archive_non_active_strategy_proposals_def get_active_alt
  by (subst actives_keep) simp_all

lemma active_archive_all: "get_active_strategy (archive_strategy_proposals now pool) = None"
  unfolding archive_strategy_proposals_def get_active_None
  by (auto simp: actives_def update_where_def filter_empty_conv)

lemma archiving_ids [simp]:
  "map pr_id (out_of_scope_archived x pool) = map pr_id pool"
  "map pr_id (archive_non_active_strategy_proposals now pool) = map pr_id pool"
  "map pr_id (archive_strategy_proposals now pool) = map pr_id pool"
  by (simp_all add: out_of_scope_archived_def archive_out_of_scope_strategy_proposals_def
      archive_non_active_strategy_proposals_def archive_strategy_proposals_def)

lemma recover_ids [simp]: "map pr_id (snd (recover_active_strategy now pool)) = map pr_id pool"
  by (simp add: recover_active_strategy_def Let_def split: option.split)

lemma step_out_of_scope: "pool_step pool (out_of_scope_archived x pool)"
  unfolding out_of_scope_archived_def by (rule Archive_out_of_scope)

lemma pool_steps2: "pool_step a b \<Longrightarrow> pool_step b c \<Longrightarrow> pool_step\<^sup>*\<^sup>* a c"
  by (meson r_into_rtranclp rtranclp.rtrancl_into_rtrancl)

lemma settle_existing_run:
  assumes "settle_existing x st = (ok, previous, st')"
  shows "moves (sx_trade x) st st'" "previous = get_active_strategy (ss_pool st')"
    "map pr_id (ss_pool st') = map pr_id (ss_pool st)"
proof -
  let ?pool = "out_of_scope_archived x (ss_pool st)"
  let ?st1 = "st\<lparr>ss_pool := ?pool\<rparr>"
  have s1: "moves (sx_trade x) st ?st1"
    using step_out_of_scope by (simp add: moves_def r_into_rtranclp)
  have recover: "moves (sx_trade x) st (?st1\<lparr>ss_pool := snd (recover_active_strategy (sx_now x) ?pool)\<rparr>)"
    if "get_active_strategy (ss_pool st) = None"
    using that pool_steps2 [OF step_out_of_scope Recover] by (simp add: moves_def active_out_of_scope)
  have archive: "moves (sx_trade x) st (?st1\<lparr>ss_pool := archive_strategy_proposals (sx_now x) ?pool\<rparr>)"
    "moves (sx_trade x) st (?st1\<lparr>ss_pool := archive_non_active_strategy_proposals (sx_now x) ?pool\<rparr>)"
    by (auto simp: moves_def intro: pool_steps2 [OF step_out_of_scope] Archive_all Archive_non_active)
  have health: "moves (sx_trade x) st (snd (active_health_check x (sx_health_id x) ?st1))"
    using moves_trans [OF s1 health_moves(1)] .
  note defs = settle_existing_def Let_def split_def active_out_of_scope active_non_active active_archive_all
  show "moves (sx_trade x) st st'"
    using assms s1 recover archive health
    by (cases "recover_active_strategy (sx_now x) ?pool")
       (auto simp: defs split: if_splits option.splits)
  show "previous = get_active_strategy (ss_pool st')"
    using assms by (cases "recover_active_strategy (sx_now x) ?pool")
       (auto simp: defs split: if_splits option.splits)
  show "map pr_id (ss_pool st') = map pr_id (ss_pool st)"
    using assms recover_ids [of "sx_now x" ?pool]
    by (cases "recover_active_strategy (sx_now x) ?pool")
       (auto simp: defs health_moves(2) split: if_splits option.splits)
qed

lemma materialize_ids:
  "map pr_id (snd (materialize_proposals_and_decisions env prev ms pool)) = map pr_id pool @ map md_id ms"
  by (simp add: materialize_proposals_and_decisions_def Let_def split: option.split)

text \<open>A batch that is interrupted: after steps like any others some of its new rows are appended.\<close>

definition cut_short :: "trade_env \<Rightarrow> (sync_env \<times> draft list) list \<Rightarrow> sync_state \<Rightarrow> sync_state \<Rightarrow> bool" where
  "cut_short te outs st st' \<longleftrightarrow> (\<exists>env ms mid inserted. (env, ms) \<in> set outs \<and> moves te st mid
     \<and> real_and_fresh [(env, ms)] (ss_pool mid)
     \<and> interrupted te (se_now env)
         (materialize_drafts env (map_option proposal_context (get_active_strategy (ss_pool mid))) 0 ms) inserted
     \<and> ss_pool st' = ss_pool mid @ inserted
     \<and> (paper_step (te_capital te))\<^sup>*\<^sup>* (ss_paper mid) (ss_paper st'))"

lemma cut_short_after: "moves te st0 st \<Longrightarrow> cut_short te outs st st' \<Longrightarrow> cut_short te outs st0 st'"
  unfolding cut_short_def by (meson moves_trans)

lemma cut_short_mono: "set outs \<subseteq> set outs' \<Longrightarrow> cut_short te outs st st' \<Longrightarrow> cut_short te outs' st st'"
  unfolding cut_short_def by (meson subsetD)

lemma materialize_fst:
  "fst (materialize_proposals_and_decisions env prev ms pool) = materialize_drafts env (map_option proposal_context prev) 0 ms"
  by (simp add: materialize_proposals_and_decisions_def Let_def)

lemma real_and_fresh_first: "real_and_fresh (out # outs) pool \<Longrightarrow> real_and_fresh [out] pool"
  by (simp add: real_and_fresh_def Let_def)

lemma research_symbol_run:
  assumes "research_symbol te (env, ms) (get_active_strategy (ss_pool st)) st = (ok, previous, created, st')"
    and "real_and_fresh ((env, ms) # outs) (ss_pool st)"
  shows "ok \<Longrightarrow> moves te st st' \<and> previous = get_active_strategy (ss_pool st') \<and> real_and_fresh outs (ss_pool st')"
    "\<not> ok \<Longrightarrow> cut_short te ((env, ms) # outs) st st'"
proof -
  let ?new = "materialize_proposals_and_decisions env (get_active_strategy (ss_pool st)) ms (ss_pool st)"
  obtain ok1 inserted px where o: "open_promoted te (se_now env) (fst ?new) (ss_paper st) = (ok1, inserted, px)"
    by (metis prod_cases3)
  note res = assms(1) [unfolded research_symbol_def Let_def split_def fst_conv snd_conv o]
  have paper: "(paper_step (te_capital te))\<^sup>*\<^sup>* (ss_paper st) px"
    using paper_step_open_promoted [of te "ss_paper st" "se_now env" "fst ?new"] by (simp add: o)
  show "cut_short te ((env, ms) # outs) st st'" if "\<not> ok"
  proof -
    have st': "\<not> ok1" "ss_pool st' = ss_pool st @ inserted" "ss_paper st' = px"
      using res that by (auto split: if_splits)
    have "interrupted te (se_now env) (fst ?new) inserted"
      using open_promoted_outcome [OF o] st'(1) by simp
    then show ?thesis
      unfolding cut_short_def using st'(2,3) paper real_and_fresh_first [OF assms(2)]
      by (intro exI [where x = env] exI [where x = ms] exI [where x = st] exI [where x = inserted])
        (simp add: moves_refl materialize_fst)
  qed
  show "moves te st st' \<and> previous = get_active_strategy (ss_pool st') \<and> real_and_fresh outs (ss_pool st')" if ok
  proof -
    have st': "ss_pool st' = snd ?new" "previous = get_active_strategy (snd ?new)" "ss_paper st' = px"
      using res that by (auto split: if_splits)
    have "pool_step (ss_pool st) (snd ?new)"
      using assms(2) by (intro Materialize) (auto simp: real_and_fresh_def Let_def list_all_iff)
    then have "moves te st st'"
      using st' paper by (simp add: moves_def r_into_rtranclp)
    define rest where "rest = concat (map snd outs)"
    have "pr_id ` set (snd ?new) = pr_id ` set (ss_pool st) \<union> md_id ` set ms"
      using arg_cong [OF materialize_ids, of set] by simp
    then have "real_and_fresh outs (ss_pool st')"
      using assms(2) unfolding st' real_and_fresh_def Let_def list_all_iff
      by (simp add: rest_def [symmetric] del: set_concat) blast
    with \<open>moves te st st'\<close> st' show ?thesis by simp
  qed
qed

lemma research_run:
  assumes "real_and_fresh outs (ss_pool st)"
    and "research te outs (get_active_strategy (ss_pool st)) st = (ok, previous, created, st')"
  shows "if ok then moves te st st' \<and> previous = get_active_strategy (ss_pool st') else cut_short te outs st st'"
  using assms
proof (induction outs arbitrary: st created)
  case Nil
  then show ?case by (auto simp: moves_refl)
next
  case (Cons out outs)
  obtain env ms where out: "out = (env, ms)" by (cases out)
  obtain ok1 p1 c1 st1 where s1: "research_symbol te (env, ms) (get_active_strategy (ss_pool st)) st = (ok1, p1, c1, st1)"
    by (metis prod_cases4)
  note run = research_symbol_run [OF s1 Cons.prems(1) [unfolded out]]
  show ?case
  proof (cases ok1)
    case False
    then show ?thesis using run(2) Cons.prems(2) by (auto simp: out s1)
  next
    case True
    obtain ok2 p2 c2 st2 where s2: "research te outs p1 st1 = (ok2, p2, c2, st2)" by (metis prod_cases4)
    note first = run(1) [OF True]
    have "if ok2 then moves te st1 st2 \<and> p2 = get_active_strategy (ss_pool st2) else cut_short te outs st1 st2"
      using Cons.IH [of st1 c2] first s2 True Cons.prems(2) by (auto simp: out s1)
    moreover have "ok = ok2" "previous = p2" "st' = st2"
      using Cons.prems(2) True by (simp_all add: out s1 s2)
    moreover have "cut_short te (out # outs) st st2" if "cut_short te outs st1 st2"
      by (rule cut_short_mono [OF _ cut_short_after [OF _ that]]) (use first in auto)
    ultimately show ?thesis using first moves_trans by (auto split: if_splits)
  qed
qed

lemma promote_over_mock_run:
  assumes "previous = get_active_strategy (ss_pool st)"
  shows "moves (sx_trade x) st (snd (promote_over_mock x previous st))"
proof (cases previous)
  case None
  then show ?thesis by (simp add: promote_over_mock_def moves_refl)
next
  case (Some a)
  let ?p = "promote_existing_real_candidate_over_mock_active a (sx_promotion_id x) (sx_now x) (ss_pool st)"
  have "pool_step\<^sup>*\<^sup>* (ss_pool st) (snd ?p)"
    by (rule r_into_rtranclp, rule Promote_existing) (use assms Some in simp)
  then show ?thesis
    by (auto simp: promote_over_mock_def Some Let_def split_def moves_def intro: paper_step_open split: option.split)
qed

text \<open>The turn of one slot.\<close>

definition slot_turn :: "sync_input \<Rightarrow> slot \<Rightarrow> proposal \<Rightarrow> sync_state \<Rightarrow> sync_state" where
  "slot_turn x s p st =
     st\<lparr>ss_paper := snd (paper_cycle (sx_trade x) (sx_execute_at x (sl_slot_id s)) (sl_slot_id s) p (ss_paper st)),
        ss_slots := (ss_slots st)(sl_slot_id s :=
          map_option (mark_executed (sx_execute_at x (sl_slot_id s))) (ss_slots st (sl_slot_id s)))\<rparr>"

lemma execute_slots_Cons:
  "execute_slots x tb (s # ss) st =
     (case Option.bind (loaded_proposal tb s) (\<lambda>i. find (\<lambda>r. pr_id r = i) (ss_pool st)) of
        None \<Rightarrow> execute_slots x tb ss st
      | Some p \<Rightarrow>
          if fst (paper_cycle (sx_trade x) (sx_execute_at x (sl_slot_id s)) (sl_slot_id s) p (ss_paper st))
          then execute_slots x tb ss (slot_turn x s p st)
          else (False, st\<lparr>ss_paper := snd (paper_cycle (sx_trade x) (sx_execute_at x (sl_slot_id s)) (sl_slot_id s) p (ss_paper st))\<rparr>))"
  by (simp add: Let_def split_def slot_turn_def split: option.split)

lemma slot_turn_simps [simp]:
  "ss_pool (slot_turn x s p st) = ss_pool st"
  "i \<noteq> sl_slot_id s \<Longrightarrow> ss_slots (slot_turn x s p st) i = ss_slots st i"
  by (simp_all add: slot_turn_def)

declare execute_slots.simps(2) [simp del]

lemma execute_slots_run:
  "moves (sx_trade x) st (snd (execute_slots x tb ss st)) \<and> ss_pool (snd (execute_slots x tb ss st)) = ss_pool st"
proof (induction ss arbitrary: st)
  case Nil
  show ?case by (simp add: moves_refl)
next
  case (Cons s ss)
  show ?case
  proof (cases "Option.bind (loaded_proposal tb s) (\<lambda>i. find (\<lambda>r. pr_id r = i) (ss_pool st))")
    case None
    then show ?thesis using Cons.IH by (simp add: execute_slots_Cons)
  next
    case (Some p)
    have "moves (sx_trade x) st (slot_turn x s p st)"
      "moves (sx_trade x) st (st\<lparr>ss_paper := snd (paper_cycle (sx_trade x) (sx_execute_at x (sl_slot_id s)) (sl_slot_id s) p (ss_paper st))\<rparr>)"
      using paper_step_cycle by (auto simp: slot_turn_def moves_def intro!: r_into_rtranclp)
    then show ?thesis
      using Some Cons.IH [of "slot_turn x s p st"] moves_trans [of "sx_trade x" st "slot_turn x s p st"]
      by (simp add: execute_slots_Cons)
  qed
qed

text \<open>The stages of the end of a sync, with a name for each intermediate state.\<close>

lemma finish_sync_stages:
  obtains bought st1 st2 tab slots ok st3 where
    "st1 = st\<lparr>ss_pool := snd (prune_strategy_proposals (sx_settings x)
       (case previous of None \<Rightarrow> symbol | Some a \<Rightarrow> pr_symbol a) (sx_market_scope x) (sx_now x) (ss_pool st))\<rparr>"
    "promote_over_mock x previous st1 = (bought, st2)"
    "assign_paper_pool_slots (sx_settings x) (sx_assign_at x)
       (get_active_strategy (ss_pool st2)) (ss_pool st2) (ss_slots st2) = (tab, slots)"
    "execute_slots x (ss_slots st2) slots (st2\<lparr>ss_slots := tab\<rparr>) = (ok, st3)"
    "finish_sync x previous symbol st = (if \<not> bought then (False, st2) else if \<not> ok then (False, st3)
       else active_health_check x (sx_final_health_id x) st3)"
proof -
  define st1 where "st1 = st\<lparr>ss_pool := snd (prune_strategy_proposals (sx_settings x)
       (case previous of None \<Rightarrow> symbol | Some a \<Rightarrow> pr_symbol a) (sx_market_scope x) (sx_now x) (ss_pool st))\<rparr>"
  obtain bought st2 where p: "promote_over_mock x previous st1 = (bought, st2)" by fastforce
  obtain tab slots where t: "assign_paper_pool_slots (sx_settings x) (sx_assign_at x)
       (get_active_strategy (ss_pool st2)) (ss_pool st2) (ss_slots st2) = (tab, slots)" by fastforce
  obtain ok st3 where e: "execute_slots x (ss_slots st2) slots (st2\<lparr>ss_slots := tab\<rparr>) = (ok, st3)" by fastforce
  have "finish_sync x previous symbol st = (if \<not> bought then (False, st2) else if \<not> ok then (False, st3)
       else active_health_check x (sx_final_health_id x) st3)"
    unfolding finish_sync_def Let_def st1_def [symmetric] p t e by (simp add: t e)
  from that [OF st1_def p t e this] show thesis .
qed

lemma finish_sync_run:
  assumes "distinct (map pr_id (ss_pool st))" "previous = get_active_strategy (ss_pool st)"
  shows "moves (sx_trade x) st (snd (finish_sync x previous symbol st))"
proof -
  obtain bought st1 st2 tab slots ok st3 where stages:
    "st1 = st\<lparr>ss_pool := snd (prune_strategy_proposals (sx_settings x)
       (case previous of None \<Rightarrow> symbol | Some a \<Rightarrow> pr_symbol a) (sx_market_scope x) (sx_now x) (ss_pool st))\<rparr>"
    "promote_over_mock x previous st1 = (bought, st2)"
    "execute_slots x (ss_slots st2) slots (st2\<lparr>ss_slots := tab\<rparr>) = (ok, st3)"
    "finish_sync x previous symbol st = (if \<not> bought then (False, st2) else if \<not> ok then (False, st3)
       else active_health_check x (sx_final_health_id x) st3)"
    by (rule finish_sync_stages)
  have m1: "moves (sx_trade x) st st1"
    unfolding stages(1) by (simp add: moves_def r_into_rtranclp [of pool_step, OF Prune])
  have "previous = get_active_strategy (ss_pool st1)"
    using assms by (simp add: stages(1) get_active_alt prune_actives)
  from moves_trans [OF m1 promote_over_mock_run [OF this, of x]]
  have m2: "moves (sx_trade x) st st2" unfolding stages(2) snd_conv .
  have "moves (sx_trade x) (st2\<lparr>ss_slots := tab\<rparr>) st3"
    using execute_slots_run [of x "st2\<lparr>ss_slots := tab\<rparr>" "ss_slots st2" slots] by (simp add: stages(3))
  then have m3: "moves (sx_trade x) st st3"
    using moves_trans [OF m2 moves_trans [OF moves_refl [of "st2\<lparr>ss_slots := tab\<rparr>" st2]]] by simp
  show ?thesis
    using m2 m3 moves_trans [OF m3 health_moves(1)] unfolding stages(4) by simp
qed

lemma pool_steps_ok: "pool_step\<^sup>*\<^sup>* a b \<Longrightarrow> pool_ok a \<Longrightarrow> pool_ok b"
  by (induction rule: rtranclp_induct) (auto intro: pool_step_ok)

lemma paper_steps_ok: "(paper_step c)\<^sup>*\<^sup>* a b \<Longrightarrow> paper_reachable c a \<Longrightarrow> paper_reachable c b"
  by (induction rule: rtranclp_induct) (auto intro: paper_reachable.step)

definition agents_real_and_fresh :: "sync_input \<Rightarrow> sync_state \<Rightarrow> bool" where
  "agents_real_and_fresh x st \<longleftrightarrow>
     (case sx_agents x of None \<Rightarrow> True | Some outs \<Rightarrow> real_and_fresh outs (ss_pool st))"

text \<open>A sync is a run of steps, or one that fails while it inserts a batch.\<close>

definition sync_outcome :: "sync_input \<Rightarrow> sync_state \<Rightarrow> bool \<times> sync_state \<Rightarrow> bool" where
  "sync_outcome x st res \<longleftrightarrow> moves (sx_trade x) st (snd res)
     \<or> (\<not> fst res \<and> (\<exists>outs. sx_agents x = Some outs \<and> cut_short (sx_trade x) outs st (snd res)))"

lemma sync_outcome_after: "moves (sx_trade x) st0 st \<Longrightarrow> sync_outcome x st res \<Longrightarrow> sync_outcome x st0 res"
  unfolding sync_outcome_def by (meson moves_trans cut_short_after)

lemma sync_moves_rest:
  assumes "sx_ready x" "pool_ok (ss_pool st)" "agents_real_and_fresh x st"
    and s: "settle_existing x st = (ok, previous, st1)"
  shows "sync_outcome x st1 (sync_agent_state x st)"
proof (cases "ok \<and> sx_agents x \<noteq> None")
  case False
  then show ?thesis using assms(1) by (auto simp: sync_agent_state_def sync_outcome_def s moves_refl split: option.split)
next
  case True
  note run = settle_existing_run [OF s]
  obtain outs where outs: "sx_agents x = Some outs" using True by auto
  obtain complete previous' created st2 where r: "research (sx_trade x) outs previous st1 = (complete, previous', created, st2)"
    by (metis prod_cases4)
  have "pr_id ` set (ss_pool st1) = pr_id ` set (ss_pool st)"
    using arg_cong [OF run(3), of set] by simp
  then have "real_and_fresh outs (ss_pool st1)"
    using assms(3) outs by (auto simp: agents_real_and_fresh_def real_and_fresh_def Let_def list_all_iff)
  note run2 = research_run [OF this r [unfolded run(2)]]
  have sync: "sync_agent_state x st = (if \<not> complete then (False, st2) else
      finish_sync x previous' (case previous of None \<Rightarrow> hd (sx_symbols x) | Some a \<Rightarrow> pr_symbol a) st2)"
    using True assms(1) by (simp add: sync_agent_state_def s outs r)
  show ?thesis
  proof (cases complete)
    case False
    then show ?thesis using run2 outs by (simp add: sync sync_outcome_def)
  next
    case True
    with run2 have m: "moves (sx_trade x) st1 st2" "previous' = get_active_strategy (ss_pool st2)" by simp_all
    have "pool_ok (ss_pool st2)"
      using pool_steps_ok [OF _ assms(2)] moves_trans [OF run(1) m(1)] by (auto simp: moves_def)
    then have "moves (sx_trade x) st2 (snd (finish_sync x previous' symbol st2))" for symbol
      using m(2) by (intro finish_sync_run) (simp_all add: pool_ok_def)
    then show ?thesis
      using True moves_trans [OF m(1)] by (simp add: sync sync_outcome_def)
  qed
qed

lemma sync_moves:
  assumes "pool_ok (ss_pool st)" "agents_real_and_fresh x st"
  shows "sync_outcome x st (sync_agent_state x st)"
proof (cases "sx_ready x")
  case False
  then show ?thesis by (simp add: sync_agent_state_def sync_outcome_def moves_refl)
next
  case True
  obtain ok previous st1 where s: "settle_existing x st = (ok, previous, st1)" by (metis prod_cases3)
  show ?thesis
    by (rule sync_outcome_after [OF settle_existing_run(1) [OF s] sync_moves_rest [OF True assms s]])
qed

section \<open>Archived for good\<close>

lemma update_row_other: "r \<in> set pool \<Longrightarrow> pr_id r \<noteq> i \<Longrightarrow> r \<in> set (update_row i f pool)"
  by (force simp: update_row_def update_where_def)

lemma update_where_other: "r \<in> set pool \<Longrightarrow> \<not> P r \<Longrightarrow> r \<in> set (update_where P f pool)"
  by (force simp: update_where_def)

lemma distinct_rows_id:
  "distinct (map pr_id pool) \<Longrightarrow> r \<in> set pool \<Longrightarrow> q \<in> set pool \<Longrightarrow> r \<noteq> q \<Longrightarrow> pr_id r \<noteq> pr_id q"
  by (auto simp: distinct_map inj_on_def)

text \<open>A row that is archived and was never promoted is out of the reach of every operation.\<close>

lemma retired_step:
  assumes "pool_step pool pool'" "pool_ok pool" "r \<in> set pool" "pr_status r = ARCHIVED" "pr_promoted_at r = None"
  shows "r \<in> set pool'"
proof -
  have other: "pr_id r \<noteq> pr_id q" if "q \<in> set pool" "pr_status q \<noteq> ARCHIVED \<or> pr_promoted_at q \<noteq> None" for q
  proof (rule distinct_rows_id [OF _ assms(3) that(1)])
    show "distinct (map pr_id pool)" using assms(2) by (simp add: pool_ok_def)
    show "r \<noteq> q" using that(2) assms(4,5) by auto
  qed
  from assms(1) show ?thesis
  proof cases
    case (Archive_all now)
    then show ?thesis
      using assms(3,4) unfolding archive_strategy_proposals_def by (auto intro: update_where_other)
  next
    case (Archive_non_active now)
    then show ?thesis
      using assms(3,4) unfolding archive_non_active_strategy_proposals_def by (auto intro: update_where_other)
  next
    case (Archive_out_of_scope symbol scope now)
    then show ?thesis
      using assms(3,4) unfolding archive_out_of_scope_strategy_proposals_def by (auto intro: update_where_other)
  next
    case (Prune gs symbol scope now)
    have "\<not> pruned gs symbol scope now pool r" using assms(4) pruned_status by force
    then show ?thesis
      using Prune assms(2,3) prune_alt [of pool] by (auto simp: pool_ok_def intro: update_where_other)
  next
    case (Recover now)
    have "pr_id r \<noteq> pr_id c"
      if "first_of (by_promotion (filter (\<lambda>r. pr_source_kind r \<noteq> ''mock'' \<and> pr_promoted_at r \<noteq> None) pool)) = Some c" for c
      using first_of_by_promotion(1) [OF that] by (intro other) simp_all
    then show ?thesis
      using Recover assms(3) by (auto simp: recover_active_strategy_def Let_def intro: update_row_other split: option.split)
  next
    case (Health scope dd did now)
    have a: "pr_id r \<noteq> pr_id a" if "get_active_strategy pool = Some a" for a
      using get_active_Some [OF that] by (intro other) simp_all
    have s: "pr_id r \<noteq> pr_id s" if "get_previous_stable_strategy e pool = Some s" for e s
      using previous_stable_Some [OF that] by (intro other) simp_all
    show ?thesis
      using Health assms(3) a s
      by (auto simp: evaluate_active_strategy_health_def Let_def intro!: update_row_other split: option.splits)
         (use s in blast)+
  next
    case (Promote_existing a did now)
    have a: "pr_id r \<noteq> pr_id a"
      using get_active_Some [OF Promote_existing(2)] by (intro other) simp_all
    have "pr_id r \<noteq> pr_id c" if "first_of (challenger_query a pool) = Some c" for c
      using first_of_by_score(1) [OF that [unfolded challenger_query_def]] by (intro other) simp_all
    then show ?thesis
      using Promote_existing assms(3) a
      by (auto simp: promote_existing_real_candidate_over_mock_active_def Let_def intro!: update_row_other split: option.split)
  next
    case (Materialize ms env)
    have "pr_id r \<noteq> pr_id a" if "get_active_strategy pool = Some a" for a
      using get_active_Some [OF that] by (intro other) simp_all
    then show ?thesis
      using Materialize assms(3)
      by (auto simp: materialize_proposals_and_decisions_def Let_def intro!: update_row_other split: option.split)
  qed
qed

lemma retired_steps:
  assumes "pool_step\<^sup>*\<^sup>* pool pool'" "pool_ok pool" "r \<in> set pool" "pr_status r = ARCHIVED" "pr_promoted_at r = None"
  shows "r \<in> set pool'"
  using assms(1)
proof (induction rule: rtranclp_induct)
  case base
  then show ?case using assms(3) .
next
  case (step y z)
  then show ?case using retired_step [OF step(2)] pool_steps_ok [OF step(1) assms(2)] assms(4,5) by blast
qed

section \<open>The slots of a completed sync\<close>

lemma executions_writes [simp]:
  "px_executions (append_daily_nav_if_needed n px) = px_executions px"
  "px_executions (initialize_paper_snapshot c a now s px) = px_executions px"
  "px_executions (insert_order a s sd q p am now px) = px_executions px"
  "px_executions (delete_position s sy px) = px_executions px"
  "px_executions (insert_position a s k co mv now px) = px_executions px"
  by (simp_all add: append_daily_nav_if_needed_def initialize_paper_snapshot_def insert_order_def
      delete_position_def insert_position_def Let_def)

lemma executions_bootstrap [simp]: "px_executions (snd (bootstrap_paper_trade c a now s q px)) = px_executions px"
  by (simp add: bootstrap_paper_trade_def Let_def split: option.split)

lemma executions_log: "px_executions (log_execution e px) = px_executions px @ [e]"
  by (simp add: log_execution_def)

definition logs_one :: "slot_id \<Rightarrow> datetime \<Rightarrow> string \<Rightarrow> paper_store \<Rightarrow> paper_store \<Rightarrow> bool" where
  "logs_one s now p px px' \<longleftrightarrow> (\<exists>e. px_executions px' = px_executions px @ [e]
     \<and> ex_slot e = s \<and> ex_created_at e = now \<and> ex_proposal e = p)"

lemma logs_one_log:
  "ex_slot e = s \<Longrightarrow> ex_created_at e = now \<Longrightarrow> ex_proposal e = p \<Longrightarrow> px_executions px1 = px_executions px
     \<Longrightarrow> logs_one s now p px (log_execution e px1)"
  by (simp add: logs_one_def executions_log)

lemma rebalance_logs: "logs_one s now (pa_proposal a) px (rebalance_open_market a now s price sig t v px)"
  unfolding rebalance_open_market_def Let_def
  by (rule logs_one_log) (simp_all split: option.split)

lemma closed_logs: "logs_one s now (pa_proposal a) px (mark_closed_market a now s price msg v px)"
  unfolding mark_closed_market_def Let_def by (rule logs_one_log) simp_all

lemma skip_logs: "logs_one s now (pa_proposal a) px (skip_without_history a now s px)"
  unfolding skip_without_history_def by (rule logs_one_log) simp_all

lemma logs_one_initialized:
  "logs_one s now p (initialize_paper_snapshot c a t i px) px' = logs_one s now p px px'"
  by (simp add: logs_one_def)

text \<open>A cycle that does not raise logs one execution of its slot at its time.\<close>

lemma cycle_logs:
  assumes "fst (paper_cycle te now s p px)"
  shows "logs_one s now (pr_id p) px (snd (paper_cycle te now s p px))"
proof -
  let ?px = "initialize_paper_snapshot (te_capital te) (account_of te p) now s px"
  have "logs_one s now (pa_proposal (account_of te p)) px (snd (paper_cycle te now s p px))"
    using assms rebalance_logs [where px = ?px] closed_logs [where px = ?px] skip_logs [where px = ?px]
    unfolding logs_one_initialized
    by (simp add: paper_cycle_def execute_paper_cycle_for_slot_def Let_def split: option.splits)
  moreover have "pa_proposal (account_of te p) = pr_id p" by (simp add: account_of_def)
  ultimately show ?thesis by simp
qed

lemma cycle_result:
  "fst (execute_paper_cycle_for_slot c a now s bar sig px) = None \<longleftrightarrow> bar \<noteq> None \<and> sig = None"
  by (cases bar; cases sig) (auto simp: execute_paper_cycle_for_slot_def Let_def)

lemma cycle_raises:
  assumes "\<not> fst (paper_cycle te now s p px)"
  shows "snd (paper_cycle te now s p px) = initialize_paper_snapshot (te_capital te) (account_of te p) now s px"
proof -
  have "te_bar te p now \<noteq> None" "te_signal te p now = None"
    using assms cycle_result unfolding paper_cycle_def split_def Let_def fst_conv by blast+
  then show ?thesis by (auto simp: paper_cycle_def execute_paper_cycle_for_slot_def)
qed

lemma cycle_keeps_log: "set (px_executions px) \<subseteq> set (px_executions (snd (paper_cycle te now s p px)))"
proof (cases "fst (paper_cycle te now s p px)")
  case True
  from cycle_logs [OF this] obtain e where "px_executions (snd (paper_cycle te now s p px)) = px_executions px @ [e]"
    unfolding logs_one_def by blast
  then show ?thesis by auto
next
  case False
  then show ?thesis unfolding cycle_raises [OF False] by simp
qed

definition slot_keys :: "slot_table \<Rightarrow> bool" where
  "slot_keys tab \<longleftrightarrow> (\<forall>i s. tab i = Some s \<longrightarrow> sl_slot_id s = i)"

lemma slot_keys_upd: "slot_keys tab \<Longrightarrow> sl_slot_id s = i \<Longrightarrow> slot_keys (tab(i \<mapsto> s))"
  by (simp add: slot_keys_def)

lemma slot_keys_fold:
  "slot_keys tab \<Longrightarrow>
     slot_keys (fold (\<lambda>i t. case t i of None \<Rightarrow> t(i \<mapsto> seed_slot active now i) | Some _ \<Rightarrow> t) ids tab)"
proof (induction ids arbitrary: tab)
  case (Cons i ids)
  show ?case
  proof (cases "tab i")
    case None
    have "slot_keys (tab(i \<mapsto> seed_slot active now i))"
      using Cons.prems by (rule slot_keys_upd) (simp add: seed_slot_def)
    from Cons.IH [OF this] None show ?thesis by (simp del: fun_upd_apply)
  next
    case (Some s)
    with Cons show ?thesis by simp
  qed
qed simp

lemma slot_keys_seed: "slot_keys tab \<Longrightarrow> slot_keys (seed_slots gs active now tab)"
  unfolding seed_slots_def by (rule slot_keys_fold)

text \<open>When a slot was last executed before the sync, and that seeding does not change it.\<close>

definition last_run :: "slot_table \<Rightarrow> slot_id \<Rightarrow> datetime option" where
  "last_run tab i = Option.bind (tab i) sl_last_executed_at"

lemma last_run_seed_fold:
  assumes "\<forall>i. (t i = None \<longrightarrow> tab i = None) \<and> (\<forall>s. t i = Some s \<longrightarrow> sl_last_executed_at s = last_run tab i)"
  shows "fold (\<lambda>i t. case t i of None \<Rightarrow> t(i \<mapsto> seed_slot active now i) | Some _ \<Rightarrow> t) ids t i = Some s
     \<Longrightarrow> sl_last_executed_at s = last_run tab i"
  using assms
proof (induction ids arbitrary: t)
  case (Cons k ids)
  show ?case
  proof (cases "t k")
    case None
    let ?t = "t(k \<mapsto> seed_slot active now k)"
    have "\<forall>i. (?t i = None \<longrightarrow> tab i = None) \<and> (\<forall>s. ?t i = Some s \<longrightarrow> sl_last_executed_at s = last_run tab i)"
      using Cons.prems(2) None by (auto simp: last_run_def seed_slot_def)
    from Cons.IH [OF _ this] Cons.prems(1) None show ?thesis by (simp del: fun_upd_apply)
  next
    case (Some s)
    with Cons show ?thesis by simp
  qed
qed auto

lemma last_run_seed: "seed_slots gs active now tab i = Some s \<Longrightarrow> sl_last_executed_at s = last_run tab i"
  unfolding seed_slots_def by (rule last_run_seed_fold [of tab tab]) (auto simp: last_run_def)

text \<open>A slot as the assignment leaves it: idle without a proposal, assigned with one of the pool.\<close>

definition freshly_assigned :: "pool \<Rightarrow> slot_table \<Rightarrow> slot_id \<Rightarrow> slot \<Rightarrow> bool" where
  "freshly_assigned pool tb i s \<longleftrightarrow> sl_slot_id s = i \<and> sl_last_executed_at s = last_run tb i
     \<and> (case sl_proposal_id s of None \<Rightarrow> sl_status s = Idle
        | Some p \<Rightarrow> sl_status s = Assigned \<and> p \<in> pr_id ` set pool)"

lemma freshly_assigned_candidate:
  "sl_slot_id s = i \<Longrightarrow> sl_last_executed_at s = last_run tb i \<Longrightarrow> \<forall>r. c = Some r \<longrightarrow> r \<in> set pool
     \<Longrightarrow> freshly_assigned pool tb i (assign_candidate c k now s)"
  by (auto simp: freshly_assigned_def assign_candidate_def Let_def split: option.split)

lemma freshly_assigned_primary:
  "sl_slot_id s = i \<Longrightarrow> sl_last_executed_at s = last_run tb i
     \<Longrightarrow> freshly_assigned pool tb i (assign_primary (get_active_strategy pool) now s)"
  using get_active_Some(1) [of pool]
  by (auto simp: freshly_assigned_def assign_primary_def split: option.split)

lemma fold_update_at_cases:
  assumes "\<And>r i v. P i v \<Longrightarrow> Q i (g r i v)" "\<And>r i v. Q i v \<Longrightarrow> Q i (g r i v)"
  shows "i \<in> set ks \<Longrightarrow> P i (t i) \<or> Q i (t i) \<Longrightarrow> Q i (fold (update_at g) (enumerate n ks) t i)"
proof (induction ks arbitrary: n t)
  case (Cons k ks)
  let ?t = "update_at g (n, k) t"
  show ?case
  proof (cases "i \<in> set ks")
    case True
    have "P i (?t i) \<or> Q i (?t i)" using Cons.prems(2) assms by (auto simp: update_at_apply)
    with True Cons.IH show ?thesis by simp
  next
    case False
    then have "Q i (?t i)" using Cons.prems assms by (auto simp: update_at_apply)
    with False show ?thesis by (simp add: fold_enumerate_outside)
  qed
qed simp

lemma assign_table:
  assumes "slot_keys tab" "i \<in> set (paper_slot_ids gs)" "active = get_active_strategy pool"
  shows "\<exists>s. fst (assign_paper_pool_slots gs now active pool tab) i = Some s \<and> freshly_assigned pool tab i s"
    "snd (assign_paper_pool_slots gs now active pool tab)
       = map (\<lambda>i. the (fst (assign_paper_pool_slots gs now active pool tab) i)) (paper_slot_ids gs)"
proof -
  let ?ids = "candidate_paper_slot_ids gs"
  let ?ranked = "ranked_candidates gs (map_option pr_id active) pool"
  define tab0 where "tab0 = seed_slots gs (get_active_strategy pool) now tab"
  define tab1 where "tab1 = tab0(Primary_slot := map_option (assign_primary active now) (tab0 Primary_slot))"
  define g where "g = (\<lambda>r i. map_option (assign_candidate (map_of (zip ?ids ?ranked) i) r now))"
  define tab2 where "tab2 = fold (update_at g) (enumerate 1 ?ids) tab1"
  have step: "(\<lambda>(rank, i) t. t(i := map_option (assign_candidate (map_of (zip ?ids ?ranked) i) rank now) (t i)))
      = update_at g"
    by (simp add: update_at_def g_def)
  have prim: "Primary_slot \<notin> set ?ids" by (auto simp: candidate_paper_slot_ids_def)
  have keys: "slot_keys tab0" unfolding tab0_def using assms(1) by (rule slot_keys_seed)
  have some0: "tab0 j \<noteq> None" if "j \<in> set (paper_slot_ids gs)" for j
    using that seed_slots_dom unfolding tab0_def by blast
  have seeded: "sl_last_executed_at s = last_run tab j" if "tab0 j = Some s" for j s
    using that unfolding tab0_def by (rule last_run_seed)
  let ?Q = "\<lambda>j v. \<exists>s. v = Some s \<and> freshly_assigned pool tab j s"
  let ?P = "\<lambda>j v. \<exists>s. v = Some s \<and> sl_slot_id s = j \<and> sl_last_executed_at s = last_run tab j"
  have ranked: "c \<in> set pool" if "map_of (zip ?ids ?ranked) j = Some c" for j c
    using set_zip_rightD [OF map_of_SomeD [OF that]] ranked_props(1) by blast
  have gPQ: "?Q j (g r j v)" if "?P j v" for r j v
    using that ranked by (auto simp: g_def intro: freshly_assigned_candidate)
  have gQQ: "?Q j (g r j v)" if "?Q j v" for r j v
    using that gPQ [of v j r] by (auto simp: freshly_assigned_def)
  have cand: "?Q j (tab2 j)" if "j \<in> set ?ids" for j
  proof -
    have "?P j (tab1 j)"
      using that some0 [of j] keys prim seeded [of j]
      by (auto simp: tab1_def slot_keys_def paper_slot_ids_def)
    then show ?thesis
      unfolding tab2_def using that gPQ gQQ by (intro fold_update_at_cases [where P = ?P and Q = ?Q]) auto
  qed
  have "tab2 Primary_slot = map_option (assign_primary active now) (tab0 Primary_slot)"
    unfolding tab2_def fold_enumerate_outside [OF prim] by (simp add: tab1_def)
  moreover have "\<exists>s. tab0 Primary_slot = Some s \<and> sl_slot_id s = Primary_slot \<and> sl_last_executed_at s = last_run tab Primary_slot"
    using some0 [of Primary_slot] keys seeded [of Primary_slot] by (auto simp: paper_slot_ids_def slot_keys_def)
  ultimately have "?Q Primary_slot (tab2 Primary_slot)"
    using assms(3) freshly_assigned_primary by auto
  then have all: "?Q j (tab2 j)" if "j \<in> set (paper_slot_ids gs)" for j
    using that cand by (auto simp: paper_slot_ids_def)
  then have some2: "\<forall>j\<in>set (paper_slot_ids gs). tab2 j \<noteq> None" by blast
  have res: "assign_paper_pool_slots gs now active pool tab = (tab2, List.map_filter tab2 (paper_slot_ids gs))"
    unfolding assign_paper_pool_slots_def Let_def list_paper_slots_def fst_conv snd_conv step
      tab0_def [symmetric] tab1_def [symmetric] tab2_def [symmetric] seed_slots_id [OF some2] ..
  show "\<exists>s. fst (assign_paper_pool_slots gs now active pool tab) i = Some s \<and> freshly_assigned pool tab i s"
    using all [OF assms(2)] by (simp add: res)
  show "snd (assign_paper_pool_slots gs now active pool tab)
       = map (\<lambda>i. the (fst (assign_paper_pool_slots gs now active pool tab) i)) (paper_slot_ids gs)"
    by (simp add: res map_filter_some [OF some2])
qed

text \<open>What a completed sync leaves in a slot: running, executed at the time of its turn, with that
  execution of the proposal that was loaded with the slot in the log; or, when no proposal of the
  pool was loaded with it, as the assignment left it and executed when it was before.\<close>

definition slot_executed :: "sync_input \<Rightarrow> paper_store \<Rightarrow> slot_id \<Rightarrow> string \<Rightarrow> slot \<Rightarrow> bool" where
  "slot_executed x px i q s \<longleftrightarrow> sl_status s = Running \<and> sl_last_executed_at s = Some (sx_execute_at x i)
     \<and> list_ex (\<lambda>e. ex_slot e = i \<and> ex_proposal e = q \<and> ex_created_at e = sx_execute_at x i) (px_executions px)"

definition slot_left_alone :: "slot_table \<Rightarrow> slot_id \<Rightarrow> slot \<Rightarrow> bool" where
  "slot_left_alone tb i s \<longleftrightarrow> sl_status s = (if sl_proposal_id s = None then Idle else Assigned)
     \<and> sl_last_executed_at s = last_run tb i"

definition slot_served :: "sync_input \<Rightarrow> slot_table \<Rightarrow> pool \<Rightarrow> paper_store \<Rightarrow> slot_id \<Rightarrow> slot \<Rightarrow> bool" where
  "slot_served x tb pool px i s \<longleftrightarrow> sl_slot_id s = i
     \<and> (case sl_proposal_id s of None \<Rightarrow> True | Some p \<Rightarrow> p \<in> pr_id ` set pool)
     \<and> (case loaded_proposal tb s of
          None \<Rightarrow> slot_left_alone tb i s
        | Some q \<Rightarrow> if q \<in> pr_id ` set pool then slot_executed x px i q s else slot_left_alone tb i s)"

lemma slot_served_mono:
  "slot_served x tb pool px i s \<Longrightarrow> set (px_executions px) \<subseteq> set (px_executions px') \<Longrightarrow> slot_served x tb pool px' i s"
  unfolding slot_served_def slot_executed_def list_ex_iff
  by (cases "loaded_proposal tb s") (simp_all, metis subsetD)

lemma slot_served_ids:
  "pr_id ` set pool = pr_id ` set pool' \<Longrightarrow> slot_served x tb pool px i s = slot_served x tb pool' px i s"
  unfolding slot_served_def by (simp split: option.split)

lemma execute_slots_frame:
  "ss_pool (snd (execute_slots x tb ss st)) = ss_pool st
   \<and> set (px_executions (ss_paper st)) \<subseteq> set (px_executions (ss_paper (snd (execute_slots x tb ss st))))
   \<and> (\<forall>i. i \<notin> sl_slot_id ` set ss \<longrightarrow> ss_slots (snd (execute_slots x tb ss st)) i = ss_slots st i)"
proof (induction ss arbitrary: st)
  case (Cons s ss)
  have log: "set (px_executions (ss_paper st)) \<subseteq> set (px_executions (ss_paper (slot_turn x s p st)))" for p
    using cycle_keeps_log by (simp add: slot_turn_def)
  show ?case
  proof (cases "Option.bind (loaded_proposal tb s) (\<lambda>i. find (\<lambda>r. pr_id r = i) (ss_pool st))")
    case None
    then show ?thesis using Cons.IH [of st] by (simp add: execute_slots_Cons)
  next
    case (Some p)
    then show ?thesis
      using Cons.IH [of "slot_turn x s p st"] log [of p] cycle_keeps_log
      by (simp add: execute_slots_Cons) blast
  qed
qed simp

lemma loaded_mark_executed [simp]: "loaded_proposal tb (mark_executed now s) = loaded_proposal tb s"
  by (simp add: loaded_proposal_def mark_executed_def split: option.split)

lemma slot_turn_serves:
  assumes "fst (paper_cycle (sx_trade x) (sx_execute_at x i) i p (ss_paper st))"
    and "ss_slots st i = Some s" "freshly_assigned (ss_pool st) tb i s"
    and "p \<in> set (ss_pool st)" "loaded_proposal tb s = Some (pr_id p)"
  shows "\<exists>s'. ss_slots (slot_turn x s p st) i = Some s'
     \<and> slot_served x tb (ss_pool st) (ss_paper (slot_turn x s p st)) i s'"
proof -
  have i: "sl_slot_id s = i" using assms(3) by (simp add: freshly_assigned_def)
  obtain e where "px_executions (ss_paper (slot_turn x s p st)) = px_executions (ss_paper st) @ [e]"
    "ex_slot e = i" "ex_created_at e = sx_execute_at x i" "ex_proposal e = pr_id p"
    using cycle_logs [OF assms(1)] by (auto simp: logs_one_def slot_turn_def i)
  then have "slot_executed x (ss_paper (slot_turn x s p st)) i (pr_id p) (mark_executed (sx_execute_at x i) s)"
    by (simp add: slot_executed_def mark_executed_def)
  moreover have "sl_slot_id (mark_executed now s) = i" "sl_proposal_id (mark_executed now s) = sl_proposal_id s" for now
    using i by (simp_all add: mark_executed_def)
  moreover have "ss_slots (slot_turn x s p st) i = Some (mark_executed (sx_execute_at x i) s)"
    using assms(2) by (simp add: slot_turn_def i)
  ultimately show ?thesis
    using assms(3,4,5) unfolding slot_served_def freshly_assigned_def by (auto split: option.splits)
qed

lemma left_alone_serves:
  assumes "freshly_assigned pool tb i s" "Option.bind (loaded_proposal tb s) (\<lambda>q. find (\<lambda>r. pr_id r = q) pool) = None"
  shows "slot_served x tb pool px i s"
  using assms
  by (auto simp: freshly_assigned_def slot_served_def slot_left_alone_def bind_eq_None_conv find_None_iff
      split: option.splits)

lemma execute_slots_serves:
  assumes "fst (execute_slots x tb ss st)" "distinct (map sl_slot_id ss)"
    and "\<forall>s\<in>set ss. ss_slots st (sl_slot_id s) = Some s \<and> freshly_assigned (ss_pool st) tb (sl_slot_id s) s"
  shows "\<forall>s\<in>set ss. \<exists>s'. ss_slots (snd (execute_slots x tb ss st)) (sl_slot_id s) = Some s'
     \<and> slot_served x tb (ss_pool st) (ss_paper (snd (execute_slots x tb ss st))) (sl_slot_id s) s'"
  using assms
proof (induction ss arbitrary: st)
  case (Cons s ss)
  have s: "ss_slots st (sl_slot_id s) = Some s" "freshly_assigned (ss_pool st) tb (sl_slot_id s) s"
    using Cons.prems(3) by simp_all
  have other: "sl_slot_id u \<noteq> sl_slot_id s" if "u \<in> set ss" for u
    using Cons.prems(2) that by (metis distinct.simps(2) image_eqI list.simps(9) set_map)
  show ?case
  proof (cases "Option.bind (loaded_proposal tb s) (\<lambda>i. find (\<lambda>r. pr_id r = i) (ss_pool st))")
    case None
    then have run: "execute_slots x tb (s # ss) st = execute_slots x tb ss st" by (simp add: execute_slots_Cons)
    have "ss_slots (snd (execute_slots x tb ss st)) (sl_slot_id s) = Some s"
      using execute_slots_frame [of x tb ss st] Cons.prems(2) s(1) by simp
    then show ?thesis
      using Cons.IH [of st] Cons.prems left_alone_serves [OF s(2) None] unfolding run by simp
  next
    case (Some p)
    then obtain q where q: "loaded_proposal tb s = Some q" "find (\<lambda>r. pr_id r = q) (ss_pool st) = Some p"
      by (auto simp: bind_eq_Some_conv)
    then have p: "p \<in> set (ss_pool st)" "pr_id p = q" using find_SomeD [OF q(2)] by simp_all
    let ?t = "slot_turn x s p st"
    have ok: "fst (paper_cycle (sx_trade x) (sx_execute_at x (sl_slot_id s)) (sl_slot_id s) p (ss_paper st))"
      using Cons.prems(1) Some by (simp add: execute_slots_Cons split: if_splits)
    then have run: "execute_slots x tb (s # ss) st = execute_slots x tb ss ?t"
      using Some by (simp add: execute_slots_Cons)
    have rest: "\<forall>s\<in>set ss. \<exists>s'. ss_slots (snd (execute_slots x tb ss ?t)) (sl_slot_id s) = Some s'
        \<and> slot_served x tb (ss_pool ?t) (ss_paper (snd (execute_slots x tb ss ?t))) (sl_slot_id s) s'"
      using Cons.prems other by (intro Cons.IH) (simp_all add: run)
    obtain s' where s': "ss_slots ?t (sl_slot_id s) = Some s'"
      "slot_served x tb (ss_pool st) (ss_paper ?t) (sl_slot_id s) s'"
      using slot_turn_serves [OF ok s p(1)] q(1) p(2) by auto
    have "ss_slots (snd (execute_slots x tb ss ?t)) (sl_slot_id s) = Some s'"
      using execute_slots_frame [of x tb ss ?t] Cons.prems(2) s'(1) by simp
    moreover have "slot_served x tb (ss_pool st) (ss_paper (snd (execute_slots x tb ss ?t))) (sl_slot_id s) s'"
      using slot_served_mono [OF s'(2)] execute_slots_frame [of x tb ss ?t] by simp
    ultimately show ?thesis using rest unfolding run by simp
  qed
qed simp

lemma health_frame:
  "ss_slots (snd (active_health_check x did st)) = ss_slots st"
  "set (px_executions (ss_paper st)) \<subseteq> set (px_executions (ss_paper (snd (active_health_check x did st))))"
proof -
  have "px_executions (snd (open_paper_account te now p px)) = px_executions px" for te now p px
    using open_cases [of te now p px] by auto
  then show "set (px_executions (ss_paper st)) \<subseteq> set (px_executions (ss_paper (snd (active_health_check x did st))))"
    using cycle_keeps_log
    by (fastforce simp: active_health_check_def Let_def split_def split: option.split)
qed (simp add: active_health_check_def Let_def split_def split: option.split)

lemma finish_sync_serves:
  assumes "fst (finish_sync x previous symbol st)" "slot_keys (ss_slots st)" "i \<in> set (paper_slot_ids (sx_settings x))"
  defines "res \<equiv> snd (finish_sync x previous symbol st)"
  shows "\<exists>s. ss_slots res i = Some s \<and> slot_served x (ss_slots st) (ss_pool res) (ss_paper res) i s"
proof -
  obtain bought st1 st2 tab slots ok st3 where stages:
    "st1 = st\<lparr>ss_pool := snd (prune_strategy_proposals (sx_settings x)
       (case previous of None \<Rightarrow> symbol | Some a \<Rightarrow> pr_symbol a) (sx_market_scope x) (sx_now x) (ss_pool st))\<rparr>"
    "promote_over_mock x previous st1 = (bought, st2)"
    "assign_paper_pool_slots (sx_settings x) (sx_assign_at x)
       (get_active_strategy (ss_pool st2)) (ss_pool st2) (ss_slots st2) = (tab, slots)"
    "execute_slots x (ss_slots st2) slots (st2\<lparr>ss_slots := tab\<rparr>) = (ok, st3)"
    "finish_sync x previous symbol st = (if \<not> bought then (False, st2) else if \<not> ok then (False, st3)
       else active_health_check x (sx_final_health_id x) st3)"
    by (rule finish_sync_stages)
  have ok: ok and res: "res = snd (active_health_check x (sx_final_health_id x) st3)"
    using assms(1) unfolding res_def stages(5) by (auto split: if_splits)
  have tb: "ss_slots st2 = ss_slots st"
    using arg_cong [OF stages(2), of "\<lambda>r. ss_slots (snd r)"] stages(1)
    by (auto simp: promote_over_mock_def Let_def split_def split: option.splits)
  have keys: "slot_keys (ss_slots st2)" using assms(2) tb by simp
  note table = assign_table [OF keys _ refl, where pool = "ss_pool st2" and gs = "sx_settings x" and now = "sx_assign_at x",
      unfolded stages(3) fst_conv snd_conv]
  have slots: "slots = map (\<lambda>j. the (tab j)) (paper_slot_ids (sx_settings x))" by (rule table(2) [OF assms(3)])
  have ids: "map sl_slot_id slots = paper_slot_ids (sx_settings x)"
    unfolding slots map_map using table(1) by (intro map_idI) (force simp: freshly_assigned_def)
  have all: "\<forall>s\<in>set slots. tab (sl_slot_id s) = Some s \<and> freshly_assigned (ss_pool st2) (ss_slots st2) (sl_slot_id s) s"
  proof
    fix s assume "s \<in> set slots"
    then obtain j where j: "j \<in> set (paper_slot_ids (sx_settings x))" "s = the (tab j)" unfolding slots by auto
    from table(1) [OF j(1)] obtain u where u: "tab j = Some u" "freshly_assigned (ss_pool st2) (ss_slots st2) j u" by blast
    have "u = s" "sl_slot_id u = j" using u j(2) by (simp_all add: freshly_assigned_def)
    with u show "tab (sl_slot_id s) = Some s \<and> freshly_assigned (ss_pool st2) (ss_slots st2) (sl_slot_id s) s" by simp
  qed
  obtain s where s: "s \<in> set slots" "sl_slot_id s = i" using ids assms(3) by (metis imageE set_map)
  have "distinct (map sl_slot_id slots)" unfolding ids by (rule distinct_slot_ids)
  then have "\<exists>s'. ss_slots st3 i = Some s' \<and> slot_served x (ss_slots st2) (ss_pool st2) (ss_paper st3) i s'"
    using execute_slots_serves [where st = "st2\<lparr>ss_slots := tab\<rparr>" and x = x and ss = slots and tb = "ss_slots st2"] ok all s
    by (auto simp: stages(4))
  moreover have "ss_pool st3 = ss_pool st2"
    using execute_slots_run [of x "st2\<lparr>ss_slots := tab\<rparr>" "ss_slots st2" slots] by (simp add: stages(4))
  moreover have "pr_id ` set (ss_pool res) = pr_id ` set (ss_pool st3)"
    unfolding res using arg_cong [OF health_moves(2), of set] by simp
  ultimately obtain s' where s': "ss_slots res i = Some s'" "slot_served x (ss_slots st) (ss_pool res) (ss_paper st3) i s'"
    using slot_served_ids [of "ss_pool res" "ss_pool st2"] by (auto simp: res health_frame(1) tb)
  from slot_served_mono [OF s'(2)] health_frame(2) [of st3 x "sx_final_health_id x"] s'(1)
  show ?thesis unfolding res by blast
qed

section \<open>Properties\<close>

lemma settle_slots: "settle_existing x st = (ok, previous, st') \<Longrightarrow> ss_slots st' = ss_slots st"
  by (auto simp: settle_existing_def active_health_check_def Let_def split_def split: if_splits option.splits)

lemma research_slots: "research te outs previous st = (ok, p, created, st') \<Longrightarrow> ss_slots st' = ss_slots st"
proof (induction outs arbitrary: previous st created)
  case (Cons out outs)
  obtain ok1 p1 c1 st1 where s1: "research_symbol te out previous st = (ok1, p1, c1, st1)" by (metis prod_cases4)
  have "ss_slots st1 = ss_slots st"
    using s1 by (auto simp: research_symbol_def Let_def split_def split: if_splits)
  moreover obtain ok2 p2 c2 st2 where s2: "research te outs p1 st1 = (ok2, p2, c2, st2)" by (metis prod_cases4)
  moreover have "st' = (if ok1 then st2 else st1)" using Cons.prems by (auto simp: s1 s2)
  ultimately show ?case using Cons.IH [of p1 st1 c2] Cons.prems by (auto simp: s1 s2 split: if_splits)
qed simp

lemma sync_serves:
  assumes "fst (sync_agent_state x st)" "slot_keys (ss_slots st)" "i \<in> set (paper_slot_ids (sx_settings x))"
  defines "res \<equiv> snd (sync_agent_state x st)"
  shows "\<exists>s. ss_slots res i = Some s \<and> slot_served x (ss_slots st) (ss_pool res) (ss_paper res) i s"
proof -
  obtain ok previous st1 where s: "settle_existing x st = (ok, previous, st1)" by (metis prod_cases3)
  from assms(1) obtain outs where ok: "sx_ready x" "ok" "sx_agents x = Some outs"
    by (auto simp: sync_agent_state_def s split: if_splits option.splits)
  obtain complete previous' created st2 where r: "research (sx_trade x) outs previous st1 = (complete, previous', created, st2)"
    by (metis prod_cases4)
  have tb: "ss_slots st2 = ss_slots st" using research_slots [OF r] settle_slots [OF s] by simp
  have complete using assms(1) by (simp add: sync_agent_state_def s ok r split: if_splits)
  then show ?thesis
    using assms(1,2) finish_sync_serves [of x previous' _ st2 i] assms(3)
    by (simp add: sync_agent_state_def s ok r tb res_def)
qed

text \<open>Only a judgement, a quote or a cycle that raises can end a sync once its agents have answered.\<close>

definition nothing_raises :: "trade_env \<Rightarrow> bool" where
  "nothing_raises te \<longleftrightarrow> (\<forall>p t. te_signal te p t \<noteq> None) \<and> (\<forall>p t. \<exists>q. te_quote te p t = Inr q) \<and> (\<forall>i. te_judged te i)"

lemma open_completes: "nothing_raises te \<Longrightarrow> fst (open_paper_account te now p px)"
  unfolding nothing_raises_def by (metis Inl_Inr_False open_raises)

lemma cycle_completes: "nothing_raises te \<Longrightarrow> fst (paper_cycle te now s p px)"
  unfolding paper_cycle_def split_def Let_def fst_conv cycle_result nothing_raises_def by blast

lemma health_completes: "nothing_raises (sx_trade x) \<Longrightarrow> fst (active_health_check x did st)"
  by (simp add: active_health_check_def Let_def split_def cycle_completes open_completes split: option.split)

lemma slots_complete: "nothing_raises (sx_trade x) \<Longrightarrow> fst (execute_slots x tb ss st)"
  by (induction ss arbitrary: st) (simp_all add: execute_slots_Cons cycle_completes split: option.split)

lemma promotion_completes: "nothing_raises (sx_trade x) \<Longrightarrow> fst (promote_over_mock x previous st)"
  by (simp add: promote_over_mock_def Let_def split_def open_completes split: option.split)

lemma promoted_complete: "nothing_raises te \<Longrightarrow> fst (open_promoted te now ps px)"
  by (induction ps arbitrary: px) (simp_all add: Let_def split_def open_completes, simp add: nothing_raises_def)

lemma research_completes: "nothing_raises te \<Longrightarrow> fst (research te outs previous st)"
  by (induction outs arbitrary: previous st) (simp_all add: research_symbol_def Let_def split_def promoted_complete)

lemma sync_completes:
  assumes "sx_ready x" "sx_agents x = Some outs" "nothing_raises (sx_trade x)"
  shows "fst (sync_agent_state x st)"
proof -
  have "fst (settle_existing x st)"
    by (auto simp: settle_existing_def Let_def split_def health_completes [OF assms(3)] split: option.split prod.split)
  moreover have "fst (finish_sync x p y t)" for p y t
    by (simp add: finish_sync_def Let_def split_def health_completes [OF assms(3)] slots_complete [OF assms(3)]
        promotion_completes [OF assms(3)])
  ultimately show ?thesis
    using assms(1,2) research_completes [OF assms(3)] by (simp add: sync_agent_state_def Let_def split_def)
qed

text \<open>A promotion that was interrupted: the row of a draft is active, and fetching the quote of its
  first purchase raised, or a draft of its batch was not judged.\<close>

definition interrupted_promotion :: "sync_input \<Rightarrow> pool \<Rightarrow> bool" where
  "interrupted_promotion x pool \<longleftrightarrow>
     (\<exists>outs env ms. sx_agents x = Some outs \<and> (env, ms) \<in> set outs
        \<and> (\<exists>p\<in>set pool. pr_id p \<in> md_id ` set ms \<and> pr_status p = ACTIVE
             \<and> ((\<exists>e. te_quote (sx_trade x) p (se_now env) = Inl e)
                \<or> (\<exists>m\<in>set ms. \<not> te_judged (sx_trade x) (md_id m)))))"

lemma cut_short_rows:
  assumes "cut_short (sx_trade x) outs st st'" "pool_ok (ss_pool st)" "sx_agents x = Some outs"
  shows "distinct (map pr_id (ss_pool st'))" "length (actives (ss_pool st')) \<le> 2"
    "length (actives (ss_pool st')) \<le> 1 \<or> interrupted_promotion x (ss_pool st')"
proof -
  obtain env ms mid inserted where c: "(env, ms) \<in> set outs" "moves (sx_trade x) st mid"
    "real_and_fresh [(env, ms)] (ss_pool mid)"
    "interrupted (sx_trade x) (se_now env)
       (materialize_drafts env (map_option proposal_context (get_active_strategy (ss_pool mid))) 0 ms) inserted"
    "ss_pool st' = ss_pool mid @ inserted"
    using assms(1) unfolding cut_short_def by blast
  let ?created = "materialize_drafts env (map_option proposal_context (get_active_strategy (ss_pool mid))) 0 ms"
  obtain rest where rest: "?created = inserted @ rest" using c(4) unfolding interrupted_def by blast
  have ids: "map pr_id inserted @ map pr_id rest = map md_id ms"
    using arg_cong [OF rest, of "map pr_id"] by simp
  have ok: "pool_ok (ss_pool mid)" using c(2) pool_steps_ok assms(2) by (auto simp: moves_def)
  have fresh: "distinct (map md_id ms)" "\<forall>m\<in>set ms. md_id m \<notin> pr_id ` set (ss_pool mid)"
    "\<forall>m\<in>set ms. bp_source_kind (md_blueprint m) \<noteq> ''mock''"
    using c(3) by (simp_all add: real_and_fresh_def list_all_iff)
  have sub: "pr_id ` set inserted \<subseteq> md_id ` set ms" "pr_id ` set rest \<subseteq> md_id ` set ms"
    unfolding set_map [symmetric] ids [symmetric] by simp_all
  have "distinct (map pr_id inserted)" using fresh(1) unfolding ids [symmetric] by simp
  moreover have "pr_id ` set (ss_pool mid) \<inter> pr_id ` set inserted = {}"
  proof -
    have "pr_id ` set (ss_pool mid) \<inter> md_id ` set ms = {}" 
    proof (intro equals0I, elim IntE)
      fix i assume i: "i \<in> pr_id ` set (ss_pool mid)" "i \<in> md_id ` set ms"
      from i(2) obtain m where m: "m \<in> set ms" "i = md_id m" by auto
      from bspec [OF fresh(2) m(1)] i(1) m(2) show False by simp
    qed
    with sub(1) show ?thesis by auto
  qed
  ultimately show "distinct (map pr_id (ss_pool st'))" using ok unfolding c(5) pool_ok_def by simp
  have one: "length (actives inserted) \<le> 1"
    using one_promotion_per_batch [OF fresh(3), of env "map_option proposal_context (get_active_strategy (ss_pool mid))" 0]
    unfolding rest by simp
  then show "length (actives (ss_pool st')) \<le> 2" using ok unfolding c(5) pool_ok_def by simp
  show "length (actives (ss_pool st')) \<le> 1 \<or> interrupted_promotion x (ss_pool st')"
  proof (cases "actives inserted")
    case Nil
    then show ?thesis using ok unfolding c(5) pool_ok_def by simp
  next
    case (Cons p ps)
    have cause: "(\<exists>r\<in>set rest. \<not> te_judged (sx_trade x) (pr_id r))
        \<or> (\<exists>r\<in>set inserted. pr_status r = ACTIVE \<and> (\<exists>e. te_quote (sx_trade x) r (se_now env) = Inl e))"
      using c(4) rest unfolding interrupted_def by auto
    have p: "p \<in> set inserted" "pr_status p = ACTIVE"
      using arg_cong [OF Cons, of set] by (auto simp: actives_def)
    have "\<exists>p\<in>set inserted. pr_status p = ACTIVE \<and> ((\<exists>e. te_quote (sx_trade x) p (se_now env) = Inl e)
        \<or> (\<exists>m\<in>set ms. \<not> te_judged (sx_trade x) (md_id m)))"
      using cause p sub(2) by fastforce
    then have "interrupted_promotion x (ss_pool st')"
      unfolding interrupted_promotion_def c(5) using assms(3) c(1) sub(1) by fastforce
    then show ?thesis ..
  qed
qed

lemma sync_paper_steps:
  "sync_outcome x st res \<Longrightarrow> (paper_step (te_capital (sx_trade x)))\<^sup>*\<^sup>* (ss_paper st) (ss_paper (snd res))"
  unfolding sync_outcome_def cut_short_def moves_def by (meson rtranclp_trans)

text \<open>The rows of a promotion whose quote raises: the strategy that was active is still there when
  the new one is, and the handler of the exception commits both.\<close>

lemma failed_quote_leaves_two_active:
  assumes "pool_ok (ss_pool st)" "get_active_strategy (ss_pool st) = Some a"
    and "pr_status (materialize_one env (Some (proposal_context a)) 0 m) = ACTIVE" "te_judged te (md_id m)"
    and "\<not> fst (open_paper_account te (se_now env) (materialize_one env (Some (proposal_context a)) 0 m) (ss_paper st))"
  shows "research_symbol te (env, [m]) (Some a) st = (False, Some a, created, st')
     \<Longrightarrow> map pr_status (actives (ss_pool st')) = [ACTIVE, ACTIVE]"
proof -
  define p where "p = materialize_one env (Some (proposal_context a)) 0 m"
  have created: "fst (materialize_proposals_and_decisions env (Some a) [m] (ss_pool st)) = [p]"
    by (simp add: materialize_fst p_def)
  have p: "pr_id p = md_id m" "pr_status p = ACTIVE" using assms(3) by (simp_all add: p_def)
  obtain px where "open_paper_account te (se_now env) p (ss_paper st) = (False, px)"
    using assms(5) unfolding p_def [symmetric] by (metis prod.collapse)
  then have "open_promoted te (se_now env) [p] (ss_paper st) = (False, [p], px)"
    using assms(4) p by simp
  moreover assume "research_symbol te (env, [m]) (Some a) st = (False, Some a, created, st')"
  ultimately have "ss_pool st' = ss_pool st @ [p]"
    by (auto simp: research_symbol_def Let_def split_def created)
  moreover have "actives (ss_pool st) = [a]" using assms(1,2) single_active by (simp add: pool_ok_def)
  ultimately show "map pr_status (actives (ss_pool st')) = [ACTIVE, ACTIVE]"
    using p(2) get_active_Some [OF assms(2)] by (simp add: actives_def)
qed

text \<open>C3. What a sync keeps of what every reader of its tables relies on, whether it completes or is
  cut short by a stage before the pool, an agent, the judgement of a draft, a quote or a cycle
  that raises, for any market data and any answers of the agents with real proposals under new
  identifiers.  No two rows share an identifier and all positions and orders of the account are
  positive multiples of the lot, always.  At most one strategy is active, except when the sync
  failed after it had promoted a draft, on the quote of its first purchase or on a draft of the
  same batch that was not judged: then there may be two, and never more.\<close>

theorem sync_keeps_invariants:
  assumes "pool_ok (ss_pool st)" "paper_reachable (te_capital (sx_trade x)) (ss_paper st)"
    and "agents_real_and_fresh x st"
    and "(ok, st') = sync_agent_state x st"
  shows "distinct (map pr_id (ss_pool st'))
     \<and> length (filter (\<lambda>r. pr_status r = ACTIVE) (ss_pool st'))
         \<le> (if \<not> ok \<and> interrupted_promotion x (ss_pool st') then 2 else 1)
     \<and> list_all (\<lambda>r. 0 < ps_quantity r \<and> market_lot_size (ps_symbol r) dvd ps_quantity r) (px_positions (ss_paper st'))
     \<and> list_all (\<lambda>r. 0 < or_quantity r \<and> market_lot_size (or_symbol r) dvd or_quantity r) (px_orders (ss_paper st'))"
proof -
  have m: "sync_outcome x st (ok, st')" unfolding assms(4) using assms(1,3) by (rule sync_moves)
  have "distinct (map pr_id (ss_pool st')) \<and> length (actives (ss_pool st'))
      \<le> (if \<not> ok \<and> interrupted_promotion x (ss_pool st') then 2 else 1)"
  proof (cases "moves (sx_trade x) st st'")
    case True
    then have "pool_ok (ss_pool st')" using pool_steps_ok assms(1) by (auto simp: moves_def)
    then show ?thesis by (simp add: pool_ok_def)
  next
    case False
    with m obtain outs where "\<not> ok" "sx_agents x = Some outs" "cut_short (sx_trade x) outs st st'"
      by (auto simp: sync_outcome_def)
    with cut_short_rows [OF this(3) assms(1) this(2)] show ?thesis by auto
  qed
  moreover have "paper_tables_ok (ss_paper st')"
    using paper_steps_ok [OF sync_paper_steps [OF m] assms(2)] by (intro reachable_tables_ok) simp
  ultimately show ?thesis
    by (simp add: actives_def paper_tables_ok_def row_sized_def list_all_iff)
qed

definition demo_trade :: "signal option \<Rightarrow> trade_env" where
  "demo_trade sig = \<lparr>te_capital = 100000, te_sizing = (\<lambda>_. 1 / 4), te_min_holding_days = (\<lambda>_. 0),
     te_quote = (\<lambda>_ _. Inr (Some 300)), te_bar = (\<lambda>_ _. Some 300), te_signal = (\<lambda>_ _. sig),
     te_judged = (\<lambda>_. True)\<rparr>"

definition demo_sync :: "signal option \<Rightarrow> sync_input" where
  "demo_sync sig = \<lparr>sx_settings = governance_default, sx_force_refresh = True, sx_now = 36000,
     sx_market_scope = ''HK'', sx_symbols = [''2800.HK''], sx_ready = True,
     sx_agents = Some [(sample_env, [sample_draft ''minimax'' 95])], sx_health_id = ''h'',
     sx_promotion_id = ''q'', sx_final_health_id = ''f'', sx_assign_at = 36060,
     sx_execute_at = (\<lambda>_. 36120), sx_trade = demo_trade sig\<rparr>"

definition demo_sync_state :: sync_state where
  "demo_sync_state = \<lparr>ss_pool = [sample_proposal ''a'' CANDIDATE 0], ss_paper = empty_store, ss_slots = Map.empty\<rparr>"

lemma demo_sync_ok:
  "pool_ok (ss_pool demo_sync_state)" "agents_real_and_fresh (demo_sync sig) demo_sync_state"
  "paper_reachable c (ss_paper demo_sync_state)" "slot_keys (ss_slots demo_sync_state)"
  "sx_settings (demo_sync sig) = governance_default" "sx_ready (demo_sync sig)" "sx_force_refresh (demo_sync sig)"
  by (simp_all add: demo_sync_def demo_sync_state_def pool_ok_def actives_def agents_real_and_fresh_def
      real_and_fresh_def sample_draft_def sample_baseline_def sample_proposal_def slot_keys_def paper_reachable.start)

theorem sync_keeps_invariants_witness:
  "length (filter (\<lambda>r. pr_status r = ACTIVE) (ss_pool (snd (sync_agent_state (demo_sync None) demo_sync_state)))) \<le> 2"
proof -
  obtain ok st' where s: "(ok, st') = sync_agent_state (demo_sync None) demo_sync_state" by (metis prod.collapse)
  have "length (filter (\<lambda>r. pr_status r = ACTIVE) (ss_pool st')) \<le> 2"
    using sync_keeps_invariants [OF demo_sync_ok(1,3,2) s] by (auto split: if_splits)
  then show ?thesis using arg_cong [OF s, of snd] by simp
qed

text \<open>C4. What a sync that completes does with every slot of the settings.  The slot is there, it is
  assigned nobody or a proposal of the pool, and what runs in it is the proposal that was loaded
  with it: for a slot the sync inserts the one it is assigned, for a slot that was there before
  the one it had \<^emph>\<open>before\<close> the assignment.  If that is a proposal of the pool, the slot is running,
  executed at its turn, with an execution of that proposal at that time in the log; if not, it
  is idle or assigned as the assignment left it and was not executed.  So a slot that is new or keeps
  its proposal is served, and a slot whose proposal changes runs the previous one for this sync.\<close>

theorem completed_sync_serves_every_slot:
  assumes "(True, st') = sync_agent_state x st" "slot_keys (ss_slots st)" "i \<in> set (paper_slot_ids (sx_settings x))"
  shows "\<exists>s. ss_slots st' i = Some s
     \<and> (case sl_proposal_id s of None \<Rightarrow> True | Some p \<Rightarrow> p \<in> pr_id ` set (ss_pool st'))
     \<and> (let left_alone = (sl_status s = (if sl_proposal_id s = None then Idle else Assigned)
            \<and> sl_last_executed_at s = Option.bind (ss_slots st i) sl_last_executed_at)
        in case (case ss_slots st i of None \<Rightarrow> sl_proposal_id s | Some old \<Rightarrow> sl_proposal_id old) of
             None \<Rightarrow> left_alone
           | Some q \<Rightarrow>
               if q \<in> pr_id ` set (ss_pool st')
               then sl_status s = Running \<and> sl_last_executed_at s = Some (sx_execute_at x i)
                 \<and> list_ex (\<lambda>e. ex_slot e = i \<and> ex_proposal e = q \<and> ex_created_at e = sx_execute_at x i)
                     (px_executions (ss_paper st'))
               else left_alone)"
proof -
  have ok: "fst (sync_agent_state x st)" "snd (sync_agent_state x st) = st'"
    unfolding assms(1) [symmetric] by simp_all
  obtain s where s: "ss_slots st' i = Some s" "slot_served x (ss_slots st) (ss_pool st') (ss_paper st') i s"
    using sync_serves [OF ok(1) assms(2,3)] unfolding ok(2) by blast
  have i: "sl_slot_id s = i" using s(2) by (simp add: slot_served_def)
  show ?thesis
    by (rule exI [where x = s])
      (use s in \<open>simp only: slot_served_def slot_executed_def slot_left_alone_def last_run_def loaded_proposal_def i
        Let_def simp_thms\<close>)
qed

theorem completed_sync_serves_every_slot_witness:
  "ss_slots (snd (sync_agent_state (demo_sync (Some BUY)) demo_sync_state)) (Candidate_slot 1) \<noteq> None"
proof -
  have "fst (sync_agent_state (demo_sync (Some BUY)) demo_sync_state)"
    by (rule sync_completes) (auto simp: demo_sync_def demo_trade_def nothing_raises_def)
  then have "(True, snd (sync_agent_state (demo_sync (Some BUY)) demo_sync_state))
      = sync_agent_state (demo_sync (Some BUY)) demo_sync_state" by (simp add: prod_eq_iff)
  moreover have "Candidate_slot 1 \<in> set (paper_slot_ids (sx_settings (demo_sync (Some BUY))))"
    by (simp add: demo_sync_ok(5) paper_slot_ids_def candidate_paper_slot_ids_def paper_slot_count_def governance_default_def)
  ultimately show ?thesis
    using completed_sync_serves_every_slot [OF _ demo_sync_ok(4)] by blast
qed

text \<open>C5. A forced refresh is not undone by its failure.  Every row that is neither active nor archived
  and was never promoted is archived by a forced sync and stays archived to the end of it, also
  when the sync raises afterwards and is reported as failed, because the handler of the exception
  commits what was done.\<close>

theorem forced_refresh_survives_failure:
  assumes "sx_ready x" "sx_force_refresh x" "pool_ok (ss_pool st)" "agents_real_and_fresh x st"
    and "r \<in> set (ss_pool st)" "pr_status r \<notin> {ARCHIVED, ACTIVE}" "pr_promoted_at r = None"
  shows "archive_record (sx_now x) r \<in> set (ss_pool (snd (sync_agent_state x st)))"
proof -
  let ?r = "archive_record (sx_now x) r"
  obtain ok previous st1 where s: "settle_existing x st = (ok, previous, st1)" by (metis prod_cases3)
  note run = settle_existing_run [OF s]
  have scoped: "r \<in> set (out_of_scope_archived x (ss_pool st)) \<or> ?r \<in> set (out_of_scope_archived x (ss_pool st))"
    using assms(5) by (force simp: out_of_scope_archived_def archive_out_of_scope_strategy_proposals_def update_where_def)
  have "?r \<in> set (ss_pool st1)"
    using s scoped assms(2,6)
    by (auto simp: settle_existing_def Let_def archive_non_active_strategy_proposals_def
        archive_strategy_proposals_def update_where_def image_iff split: if_splits)
  moreover have "pr_status ?r = ARCHIVED" "pr_promoted_at ?r = None"
    using assms(7) by (simp_all add: archive_record_def)
  moreover have "pool_ok (ss_pool st1)" using run(1) pool_steps_ok assms(3) by (auto simp: moves_def)
  ultimately have stays: "?r \<in> set (ss_pool mid)" if "moves (sx_trade x) st1 mid" for mid
    using retired_steps that unfolding moves_def by blast
  show ?thesis
    using sync_moves_rest [OF assms(1,3,4) s] stays unfolding sync_outcome_def cut_short_def by auto
qed

theorem forced_refresh_survives_failure_witness:
  "archive_record 36000 (sample_proposal ''a'' CANDIDATE 0)
     \<in> set (ss_pool (snd (sync_agent_state (demo_sync None) demo_sync_state)))"
  using forced_refresh_survives_failure [OF demo_sync_ok(6,7,1,2), of "sample_proposal ''a'' CANDIDATE 0" None]
  by (simp add: demo_sync_def demo_sync_state_def sample_proposal_def)

end
