(* ===== verification/Optimizer.thy ===== *)
theory Optimizer
  imports Backtester Strategy_Registry Streaming_Strategies "HOL-Library.Product_Lexorder"
begin

text \<open>
  \<open>backtest/optimizer.py\<close>: the parameter grids, the cartesian product, and the two searches, with
  every candidate run through the event-driven backtester.  The rows the provider returns are an
  argument.  Results of the same Sharpe ratio come in the order of a stable sort; a NaN comes last.
\<close>

section \<open>Building and running a candidate\<close>

record backtest_metrics =
  om_total_return :: fl
  om_annual_return :: fl
  om_max_drawdown :: fl
  om_sharpe_ratio :: fl
  om_win_rate :: real
  om_total_trades :: nat

definition num_arg :: "string \<Rightarrow> real \<Rightarrow> params \<Rightarrow> real" where
  "num_arg k d ps = (case Option.bind (map_of ps k) pval_num of None \<Rightarrow> d | Some x \<Rightarrow> x)"

definition flag_arg :: "string \<Rightarrow> bool \<Rightarrow> params \<Rightarrow> bool" where
  "flag_arg k d ps = (case map_of ps k of Some (PBool b) \<Rightarrow> b | _ \<Rightarrow> d)"

text \<open>\<open>strategy_class(**params)\<close> as the generator the backtester drives: an unknown keyword is a
  TypeError, and the two vectorised classes have no \<open>reset\<close>, which the backtester calls first.\<close>

definition build_streamer :: "strategy_class \<Rightarrow> params \<Rightarrow> signal streamer res" where
  "build_streamer c ps =
     (if list_ex (\<lambda>(k, _). k \<notin> set (init_params c)) ps then Inl TypeError
      else (case c of
        MACrossStrategy \<Rightarrow> Inr (ma_generate_signal
          \<lparr>short_window = nat (py_int (num_arg ''short_window'' 5 ps)),
           long_window = nat (py_int (num_arg ''long_window'' 20 ps))\<rparr>)
      | RSIStrategy \<Rightarrow> Inr (rsi_generate_signal
          \<lparr>rsi_period = nat (py_int (num_arg ''period'' 14 ps)),
           oversold = py_int (num_arg ''oversold'' 30 ps),
           overbought = py_int (num_arg ''overbought'' 70 ps),
           use_mid_crossover = flag_arg ''use_mid_crossover'' True ps\<rparr>)
      | MACDStrategy \<Rightarrow> Inr (macd_generate_signal
          \<lparr>macd_fast_period = nat (py_int (num_arg ''fast_period'' 12 ps)),
           macd_slow_period = nat (py_int (num_arg ''slow_period'' 26 ps)),
           macd_signal_period = nat (py_int (num_arg ''signal_period'' 9 ps)),
           use_zero_cross = flag_arg ''use_zero_cross'' True ps\<rparr>)
      | _ \<Rightarrow> Inl AttributeError))"

definition default_bt :: bt_config where
  "default_bt = \<lparr>bc_initial_capital = 100000, bc_commission = 0.001\<rparr>"

definition metrics_of :: "bt_result \<Rightarrow> backtest_metrics" where
  "metrics_of r = \<lparr>om_total_return = br_total_return r, om_annual_return = br_annual_return r,
     om_max_drawdown = br_max_drawdown r, om_sharpe_ratio = br_sharpe_ratio r,
     om_win_rate = br_win_rate r, om_total_trades = br_total_trades r\<rparr>"

definition backtest_strategy ::
  "(int \<times> bar) list res \<Rightarrow> strategy_class \<Rightarrow> params \<Rightarrow> backtest_metrics res" where
  "backtest_strategy fetched c ps =
     rbind (build_streamer c ps) (\<lambda>gen.
     rbind (bt_run default_bt gen HOLD None fetched) (\<lambda>(_, r). Inr (metrics_of r)))"

section \<open>The grids\<close>

record grid =
  gr_class :: strategy_class
  gr_params :: "(string \<times> pval list) list"
  gr_validate :: "params \<Rightarrow> bool"

definition nums :: "real list \<Rightarrow> pval list" where
  "nums xs = map PNum xs"

definition strategy_params :: "(string \<times> grid) list" where
  "strategy_params =
     [(''ma_cross'', \<lparr>gr_class = MACrossStrategy,
        gr_params = [(''short_window'', nums [5, 10, 15, 20, 30]), (''long_window'', nums [20, 30, 40, 50, 60, 90])],
        gr_validate = (\<lambda>p. num_arg ''short_window'' 0 p < num_arg ''long_window'' 999 p)\<rparr>),
      (''rsi'', \<lparr>gr_class = RSIStrategy,
        gr_params = [(''period'', nums [7, 10, 14, 21]), (''oversold'', nums [20, 25, 30, 35]),
          (''overbought'', nums [65, 70, 75, 80])],
        gr_validate = (\<lambda>p. num_arg ''oversold'' 50 p < 50 \<and> 50 < num_arg ''overbought'' 50 p)\<rparr>),
      (''macd'', \<lparr>gr_class = MACDStrategy,
        gr_params = [(''fast_period'', nums [8, 10, 12, 15]), (''slow_period'', nums [20, 24, 26, 30]),
          (''signal_period'', nums [6, 9, 12])],
        gr_validate = (\<lambda>p. num_arg ''fast_period'' 0 p < num_arg ''slow_period'' 999 p)\<rparr>),
      (''mean_reversion'', \<lparr>gr_class = MeanReversionStrategy,
        gr_params = [(''z_window'', nums [10, 20, 30]), (''entry_threshold'', nums [1.5, 2.0, 2.5]),
          (''exit_threshold'', nums [0.3, 0.5, 0.8]), (''use_short'', [PBool False])],
        gr_validate = (\<lambda>p. num_arg ''exit_threshold'' 0 p < num_arg ''entry_threshold'' 0 p)\<rparr>),
      (''channel_breakout'', \<lparr>gr_class = ChannelBreakoutStrategy,
        gr_params = [(''channel_window'', nums [20, 30, 55]), (''atr_window'', nums [10, 14, 20]),
          (''atr_k'', nums [1.5, 2.0, 2.5]), (''use_stop_loss'', [PBool True])],
        gr_validate = (\<lambda>p. num_arg ''channel_window'' 0 p > 0 \<and> num_arg ''atr_window'' 0 p > 0)\<rparr>)]"

definition generate_params :: "(string \<times> pval list) list \<Rightarrow> params list" where
  "generate_params defs = map (zip (map fst defs)) (product_lists (map snd defs))"

section \<open>The searches\<close>

text \<open>\<open>sort_values("sharpe_ratio", ascending=False)\<close>: descending, missing values last.\<close>

definition sharpe_key :: "fl \<Rightarrow> nat \<times> real" where
  "sharpe_key x = (case x of NaN \<Rightarrow> (0, 0) | NInf \<Rightarrow> (1, 0) | Fin a \<Rightarrow> (2, a) | PInf \<Rightarrow> (3, 0))"

record found =
  fd_strategy :: string
  fd_params :: params
  fd_metrics :: backtest_metrics

definition found_key :: "found \<Rightarrow> nat \<times> real" where
  "found_key f = sharpe_key (om_sharpe_ratio (fd_metrics f))"

text \<open>A candidate whose backtest raises is left out.\<close>

definition try_candidate ::
  "(int \<times> bar) list res \<Rightarrow> string \<Rightarrow> strategy_class \<Rightarrow> params \<Rightarrow> found option" where
  "try_candidate fetched name c ps =
     (case backtest_strategy fetched c ps of
        Inl _ \<Rightarrow> None
      | Inr m \<Rightarrow> Some \<lparr>fd_strategy = name, fd_params = ps, fd_metrics = m\<rparr>)"

definition search_strategy :: "(int \<times> bar) list res \<Rightarrow> string \<Rightarrow> found list" where
  "search_strategy fetched name =
     (case map_of strategy_params name of
        None \<Rightarrow> []
      | Some g \<Rightarrow> List.map_filter (try_candidate fetched name (gr_class g))
                   (filter (gr_validate g) (generate_params (gr_params g))))"

definition multi_search :: "(int \<times> bar) list res \<Rightarrow> string list option \<Rightarrow> nat \<Rightarrow> found list" where
  "multi_search fetched chosen top_n =
     take top_n (sort_desc found_key
       (concat (map (search_strategy fetched) (case chosen of None \<Rightarrow> map fst strategy_params | Some ns \<Rightarrow> ns))))"

text \<open>\<open>GridSearchOptimizer.search\<close>: the moving averages only, over the two ranges.\<close>

definition ma_params :: "int \<Rightarrow> int \<Rightarrow> params" where
  "ma_params short long = [(''short_window'', PNum (of_int short)), (''long_window'', PNum (of_int long))]"

definition ma_grid :: "int list \<Rightarrow> int list \<Rightarrow> (int \<times> int) list" where
  "ma_grid short_range long_range = filter (\<lambda>(s, l). s < l) (List.product short_range long_range)"

definition grid_search :: "(int \<times> bar) list res \<Rightarrow> int list \<Rightarrow> int list \<Rightarrow> nat \<Rightarrow> found list" where
  "grid_search fetched short_range long_range top_n =
     take top_n (sort_desc found_key
       (List.map_filter (\<lambda>(s, l). try_candidate fetched ''ma_cross'' MACrossStrategy (ma_params s l))
         (ma_grid short_range long_range)))"

section \<open>What a search returns\<close>

lemma set_map_filter: "set (List.map_filter f xs) = {y. \<exists>x\<in>set xs. f x = Some y}"
  by (auto simp: List.map_filter_def image_iff) force

lemma found_in_search:
  "f \<in> set (search_strategy fetched name) \<longleftrightarrow>
     (\<exists>g. map_of strategy_params name = Some g \<and> fd_strategy f = name
        \<and> fd_params f \<in> set (generate_params (gr_params g)) \<and> gr_validate g (fd_params f)
        \<and> backtest_strategy fetched (gr_class g) (fd_params f) = Inr (fd_metrics f))"
proof (cases "map_of strategy_params name")
  case None
  then show ?thesis by (simp add: search_strategy_def)
next
  case (Some g)
  have "try_candidate fetched name c ps = Some f \<longleftrightarrow>
      fd_strategy f = name \<and> fd_params f = ps \<and> backtest_strategy fetched c ps = Inr (fd_metrics f)" for c ps
    by (cases f) (auto simp: try_candidate_def split: sum.split)
  then show ?thesis by (auto simp: search_strategy_def Some set_map_filter)
qed

lemma generate_params_set:
  "ps \<in> set (generate_params defs) \<longleftrightarrow> map fst ps = map fst defs \<and> list_all2 (\<lambda>(_, v) (_, vs). v \<in> set vs) ps defs"
proof
  assume "ps \<in> set (generate_params defs)"
  then obtain vs where vs: "ps = zip (map fst defs) vs" "list_all2 (\<lambda>v ws. v \<in> set ws) vs (map snd defs)"
    by (auto simp: generate_params_def product_lists_set)
  have len: "length vs = length defs" using vs(2) by (simp add: list_all2_lengthD)
  then show "map fst ps = map fst defs \<and> list_all2 (\<lambda>(_, v) (_, vs). v \<in> set vs) ps defs"
    using vs by (auto simp: list_all2_conv_all_nth)
next
  assume ps: "map fst ps = map fst defs \<and> list_all2 (\<lambda>(_, v) (_, vs). v \<in> set vs) ps defs"
  then have "map snd ps \<in> set (product_lists (map snd defs))"
    by (auto simp: product_lists_set list_all2_conv_all_nth split_def)
  moreover have "ps = zip (map fst defs) (map snd ps)"
    using ps by (metis zip_map_fst_snd)
  ultimately show "ps \<in> set (generate_params defs)" by (auto simp: generate_params_def)
qed

lemma vectorised_classes_never_run:
  assumes "c = MeanReversionStrategy \<or> c = ChannelBreakoutStrategy"
  shows "\<not> is_ok (backtest_strategy fetched c ps)"
  using assms by (auto simp: backtest_strategy_def build_streamer_def rbind_def is_ok_def)

definition candidates :: "(int \<times> bar) list res \<Rightarrow> string list option \<Rightarrow> found list" where
  "candidates fetched chosen =
     concat (map (search_strategy fetched) (case chosen of None \<Rightarrow> map fst strategy_params | Some ns \<Rightarrow> ns))"

lemma only_streaming_found:
  assumes "f \<in> set (search_strategy fetched name)"
  shows "fd_strategy f \<in> {''ma_cross'', ''rsi'', ''macd''}"
proof -
  from assms obtain g where g: "map_of strategy_params name = Some g" "fd_strategy f = name"
    "is_ok (backtest_strategy fetched (gr_class g) (fd_params f))"
    by (auto simp: found_in_search is_ok_def)
  then have "gr_class g \<noteq> MeanReversionStrategy" "gr_class g \<noteq> ChannelBreakoutStrategy"
    using vectorised_classes_never_run by blast+
  then show ?thesis using g(1,2) by (auto simp: strategy_params_def split: if_splits)
qed

text \<open>What the multi-strategy search returns: the best of everything it could run.  The result is
  sorted by Sharpe ratio and has as many entries as asked for, when there are as many; together
  with a rest it is a permutation of all candidates that ran, and nothing in the rest ranks above
  anything in it.  Every entry is a valid point of its grid with the metrics its own backtest
  returned; entries of the mean reversion and channel grids never occur, because their classes
  cannot be driven by this backtester.\<close>

theorem multi_search_contract:
  "let res = multi_search fetched chosen n; rest = drop n (sort_desc found_key (candidates fetched chosen)) in
     mset (res @ rest) = mset (candidates fetched chosen) \<and> length res = min n (length (candidates fetched chosen))
     \<and> sorted_wrt (\<lambda>x y. found_key y \<le> found_key x) res
     \<and> (\<forall>x\<in>set res. \<forall>y\<in>set rest. found_key y \<le> found_key x)
     \<and> (\<forall>x\<in>set res. fd_strategy x \<in> {''ma_cross'', ''rsi'', ''macd''}
          \<and> (\<exists>g. map_of strategy_params (fd_strategy x) = Some g \<and> gr_validate g (fd_params x)
               \<and> map fst (fd_params x) = map fst (gr_params g)
               \<and> list_all2 (\<lambda>(_, v) (_, vs). v \<in> set vs) (fd_params x) (gr_params g)
               \<and> backtest_strategy fetched (gr_class g) (fd_params x) = Inr (fd_metrics x)))"
proof -
  let ?all = "sort_desc found_key (candidates fetched chosen)"
  have res: "multi_search fetched chosen n = take n ?all" by (simp add: multi_search_def candidates_def)
  have "mset (take n ?all @ drop n ?all) = mset (candidates fetched chosen)" by (simp only: append_take_drop_id mset_sort_desc)
  moreover have "sorted_wrt (\<lambda>x y. found_key y \<le> found_key x) (take n ?all)"
    by (rule sorted_wrt_take [OF sorted_sort_desc])
  moreover have "found_key y \<le> found_key x" if "x \<in> set (take n ?all)" "y \<in> set (drop n ?all)" for x y
    using sort_desc_take_ge [OF that] .
  moreover have "\<exists>name. x \<in> set (search_strategy fetched name)" if "x \<in> set (take n ?all)" for x
    using in_set_takeD [OF that] by (auto simp: candidates_def)
  ultimately show ?thesis
    unfolding Let_def res using only_streaming_found found_in_search generate_params_set
    by (simp add: min.commute) blast
qed

lemma sample_candidate_runs:
  "is_ok (backtest_strategy (Inr (sample_rows [10, 8, 12])) MACrossStrategy (ma_params 5 20))"
  by (simp add: backtest_strategy_def build_streamer_def init_params_def ma_params_def num_arg_def pval_num_def
      py_int_def default_bt_def bt_run_def sample_rows_def bt_start_def upt_rec bt_review_def bt_execute_trade_def
      bt_record_def ma_generate_signal_def rbind_def Let_def is_ok_def)

theorem multi_search_contract_witness:
  "length (multi_search (Inr (sample_rows [10, 8, 12])) (Some [''ma_cross'']) 1) = 1"
proof -
  let ?rows = "Inr (sample_rows [10, 8, 12])" and ?ps = "ma_params 5 20"
  obtain m where m: "backtest_strategy ?rows MACrossStrategy ?ps = Inr m"
    using sample_candidate_runs by (auto simp: is_ok_iff)
  obtain g where g: "map_of strategy_params ''ma_cross'' = Some g" "gr_class g = MACrossStrategy"
    "?ps \<in> set (generate_params (gr_params g))" "gr_validate g ?ps"
    by (simp add: strategy_params_def generate_params_def nums_def ma_params_def num_arg_def pval_num_def)
  have "\<lparr>fd_strategy = ''ma_cross'', fd_params = ?ps, fd_metrics = m\<rparr> \<in> set (search_strategy ?rows ''ma_cross'')"
    unfolding found_in_search using g m by simp
  then have "candidates ?rows (Some [''ma_cross'']) \<noteq> []" by (auto simp: candidates_def)
  then have "1 \<le> length (candidates ?rows (Some [''ma_cross'']))" by (simp add: Suc_leI)
  then show ?thesis
    using multi_search_contract [of ?rows "Some [''ma_cross'']" 1] by (simp add: Let_def)
qed

text \<open>The two searches agree: the moving-average search over the ranges of the grid table is the
  multi-strategy search restricted to that strategy.\<close>

lemma ma_grid_params:
  "map_of strategy_params ''ma_cross'' = Some g \<Longrightarrow>
     filter (gr_validate g) (generate_params (gr_params g))
       = map (\<lambda>(s, l). ma_params s l) (ma_grid [5, 10, 15, 20, 30] [20, 30, 40, 50, 60, 90])"
  by (auto simp: strategy_params_def generate_params_def nums_def ma_grid_def ma_params_def num_arg_def pval_num_def)

theorem grid_search_is_restricted_search:
  "grid_search fetched [5, 10, 15, 20, 30] [20, 30, 40, 50, 60, 90] n = multi_search fetched (Some [''ma_cross'']) n"
proof -
  obtain g where g: "map_of strategy_params ''ma_cross'' = Some g" "gr_class g = MACrossStrategy"
    by (simp add: strategy_params_def)
  show ?thesis
    by (simp add: grid_search_def multi_search_def search_strategy_def g ma_grid_params [OF g(1)] List.map_filter_def
        filter_map comp_def split_def)
qed

text \<open>The vectorised grids are searched in vain: all their candidates raise and are swallowed.\<close>

theorem vectorised_search_is_empty:
  "multi_search fetched (Some [''mean_reversion'', ''channel_breakout'']) n = []"
proof -
  have "search_strategy fetched name = []" if "name = ''mean_reversion'' \<or> name = ''channel_breakout''" for name
  proof (rule ccontr)
    assume "search_strategy fetched name \<noteq> []"
    then obtain f where f: "f \<in> set (search_strategy fetched name)" by (cases "search_strategy fetched name") auto
    then have "fd_strategy f = name" unfolding found_in_search by blast
    with only_streaming_found [OF f] that show False by auto
  qed
  then show ?thesis by (simp add: multi_search_def sort_desc_def)
qed

end
