(* ===== verification/Regime_Detector.thy ===== *)
theory Regime_Detector imports Vector_Strategies Streaming_Strategies begin

text \<open>
  \<open>strategy/regime.py\<close>: the moving-average slope, the directional index, the decision and the daily
  series of regimes.  The series are the lists of \<open>Pandas_Series\<close>; a division by zero is numpy's.
\<close>

section \<open>The detector\<close>

datatype detected_regime = TRENDING | RANGING | UNKNOWN

record regime_config =
  ma_slope_threshold :: real
  adx_threshold :: real
  use_ma_slope :: bool
  use_adx :: bool
  logic_and :: bool

definition regime_default :: regime_config where
  "regime_default = \<lparr>ma_slope_threshold = 0.001, adx_threshold = 25, use_ma_slope = True,
     use_adx = True, logic_and = False\<rparr>"

definition calc_ma_slope :: "nat \<Rightarrow> series \<Rightarrow> fl" where
  "calc_ma_slope period close =
     (if length close < period then Fin 0
      else (let ma = rolling period mean_fl close; recent = drop (length ma - 20) ma in
        if length recent < 2 then Fin 0
        else fl_div (fl_div (fl_sub (last recent) (hd recent)) (hd recent)) (Fin (real (length recent)))))"

definition clip_negative :: "fl \<Rightarrow> fl" where
  "clip_negative d = (if fl_less d (Fin 0) then Fin 0 else d)"

definition plus_dm :: "bar list \<Rightarrow> series" where
  "plus_dm bars = map clip_negative (diff (fins (map b_high bars)))"

definition minus_dm :: "bar list \<Rightarrow> series" where
  "minus_dm bars = map (clip_negative \<circ> fl_neg) (diff (fins (map b_low bars)))"

definition directional_index :: "nat \<Rightarrow> series \<Rightarrow> series \<Rightarrow> series" where
  "directional_index period dm atr =
     map2 (\<lambda>d a. fl_mul (Fin 100) (fl_div d a)) (rolling period mean_fl dm) atr"

definition dx_value :: "fl \<Rightarrow> fl \<Rightarrow> fl" where
  "dx_value p m = fl_div (fl_mul (Fin 100) (fl_abs (fl_sub p m))) (fl_add p m)"

definition adx_series :: "nat \<Rightarrow> bar list \<Rightarrow> series" where
  "adx_series period bars =
     (let atr = rolling period mean_fl (fins (true_range bars));
          plus_di = directional_index period (plus_dm bars) atr;
          minus_di = directional_index period (minus_dm bars) atr
      in rolling period mean_fl (map2 dx_value plus_di minus_di))"

definition calc_adx :: "nat \<Rightarrow> bar list \<Rightarrow> fl" where
  "calc_adx period bars =
     (if length bars < period + 1 then Fin 0
      else (let adx = last_fl (adx_series period bars) in if isna adx then Fin 0 else adx))"

definition is_trending :: "regime_config \<Rightarrow> fl \<Rightarrow> fl \<Rightarrow> bool" where
  "is_trending cfg ma_slope adx =
     (let ma_ok = use_ma_slope cfg \<and> fl_less (Fin (ma_slope_threshold cfg)) ma_slope;
          adx_ok = use_adx cfg \<and> fl_less (Fin (adx_threshold cfg)) adx
      in if logic_and cfg then ma_ok \<and> adx_ok else ma_ok \<or> adx_ok)"

definition detect :: "regime_config \<Rightarrow> bar list \<Rightarrow> detected_regime" where
  "detect cfg bars =
     (if is_trending cfg (calc_ma_slope 50 (closes bars)) (calc_adx 14 bars) then TRENDING else RANGING)"

definition get_regime_series :: "regime_config \<Rightarrow> bar list \<Rightarrow> detected_regime list" where
  "get_regime_series cfg bars =
     map (\<lambda>i. if i < 50 then UNKNOWN else detect cfg (take (i + 1) bars)) [0..<length bars]"

text \<open>\<open>detect_regime\<close>; its two period arguments are not used.\<close>

definition detect_regime :: "bar list \<Rightarrow> nat \<Rightarrow> nat \<Rightarrow> real \<Rightarrow> real \<Rightarrow> detected_regime" where
  "detect_regime bars ma_period adx_period slope_threshold adx_limit =
     detect (regime_default\<lparr>ma_slope_threshold := slope_threshold, adx_threshold := adx_limit\<rparr>) bars"

section \<open>The bounds of the directional index\<close>

definition percent_or_na :: "fl \<Rightarrow> bool" where
  "percent_or_na x = (case x of Fin a \<Rightarrow> 0 \<le> a \<and> a \<le> 100 | NaN \<Rightarrow> True | _ \<Rightarrow> False)"

definition nonneg_or_na :: "fl \<Rightarrow> bool" where
  "nonneg_or_na x = (case x of Fin a \<Rightarrow> 0 \<le> a | NInf \<Rightarrow> False | _ \<Rightarrow> True)"

lemma abs_diff_percent: "0 \<le> a \<Longrightarrow> 0 \<le> b \<Longrightarrow> \<bar>a - b\<bar> * 100 \<le> a * 100 + b * (100 :: real)"
  by (simp add: abs_if)

lemma dx_percent: "nonneg_or_na p \<Longrightarrow> nonneg_or_na m \<Longrightarrow> percent_or_na (dx_value p m)"
  by (cases p; cases m)
     (auto simp: nonneg_or_na_def percent_or_na_def dx_value_def fl_sub_def fl_sgn_def field_simps abs_diff_percent)

lemma di_nonneg: "nonneg_fl d \<Longrightarrow> nonneg_fl a \<Longrightarrow> nonneg_or_na (fl_mul (Fin 100) (fl_div d a))"
  by (cases d; cases a) (auto simp: nonneg_or_na_def nonneg_fl_def fl_sgn_def)

lemma clip_nonneg: "is_fin d \<or> isna d \<Longrightarrow> nonneg_fl (clip_negative d)"
  by (cases d) (auto simp: clip_negative_def nonneg_fl_def isna_def)

lemma diff_fins: "d \<in> set (diff (fins xs)) \<Longrightarrow> is_fin d \<or> isna d"
proof -
  assume "d \<in> set (diff (fins xs))"
  then obtain a b where "d = fl_sub a b" "a \<in> set (fins xs)" "b \<in> set (shift1 (fins xs))"
    by (auto simp: diff_def set_zip in_set_conv_nth)
  moreover have "b = NaN \<or> b \<in> set (fins xs)"
    using calculation(3) by (auto simp: shift1_def dest: in_set_butlastD split: if_splits)
  ultimately show ?thesis by (auto simp: fins_def fl_sub_def)
qed

lemma dm_nonneg: "\<forall>x\<in>set (plus_dm bars). nonneg_fl x" "\<forall>x\<in>set (minus_dm bars). nonneg_fl x"
proof -
  show "\<forall>x\<in>set (plus_dm bars). nonneg_fl x"
    by (auto simp: plus_dm_def intro!: clip_nonneg dest: diff_fins)
  have "is_fin d \<or> isna d \<Longrightarrow> is_fin (fl_neg d) \<or> isna (fl_neg d)" for d by (cases d) (auto simp: isna_def)
  then show "\<forall>x\<in>set (minus_dm bars). nonneg_fl x"
    by (auto simp: minus_dm_def intro!: clip_nonneg dest: diff_fins)
qed

lemma rolling_mean_percent:
  assumes "\<forall>x\<in>set xs. percent_or_na x" "y \<in> set (rolling w mean_fl xs)"
  shows "percent_or_na y"
proof -
  have val: "0 \<le> fin_val x \<and> fin_val x \<le> 100" if "x \<in> set xs" for x
    using assms(1) that by (cases x) (auto simp: percent_or_na_def)
  have win: "set (window_at w xs i) \<subseteq> set xs" for i
    by (auto simp: window_at_def dest: in_set_takeD in_set_dropD)
  have le: "sum_list (map fin_val ws) \<le> 100 * real (length ws)" if "set ws \<subseteq> set xs" for ws
    using that val by (induction ws) (auto simp: algebra_simps intro: add_mono)
  have ge: "0 \<le> sum_list (map fin_val ws)" if "set ws \<subseteq> set xs" for ws
    using that val by (intro sum_list_nonneg_map) blast
  show ?thesis
    using assms(2) le [OF win] ge [OF win]
    by (auto simp: rolling_def percent_or_na_def mean_fl_def divide_le_eq split: if_splits)
qed

lemma directional_nonneg:
  assumes "\<forall>x\<in>set dm. nonneg_fl x" "\<forall>x\<in>set atr. nonneg_fl x" "y \<in> set (directional_index period dm atr)"
  shows "nonneg_or_na y"
proof -
  from assms(3) obtain d a where "y = fl_mul (Fin 100) (fl_div d a)" "d \<in> set (rolling period mean_fl dm)" "a \<in> set atr"
    by (auto simp: directional_index_def dest: set_zip_leftD set_zip_rightD)
  then show ?thesis using di_nonneg rolling_mean_nonneg [OF assms(1)] assms(2) by blast
qed

lemma length_adx [simp]: "length (adx_series period bars) = length bars"
  by (simp add: adx_series_def Let_def directional_index_def plus_dm_def minus_dm_def fins_def)

lemma adx_series_percent:
  assumes "\<forall>b\<in>set bars. b_low b \<le> b_high b"
  shows "\<forall>y\<in>set (adx_series period bars). percent_or_na y"
proof
  fix y assume y: "y \<in> set (adx_series period bars)"
  let ?atr = "rolling period mean_fl (fins (true_range bars))"
  have "\<forall>x\<in>set (fins (true_range bars)). nonneg_fl x"
    using true_range_nonneg [OF assms] by (auto simp: fins_def nonneg_fl_def)
  then have atr: "\<forall>x\<in>set ?atr. nonneg_fl x" using rolling_mean_nonneg by blast
  have "percent_or_na x" if "x \<in> set (map2 dx_value (directional_index period (plus_dm bars) ?atr)
      (directional_index period (minus_dm bars) ?atr))" for x
  proof -
    from that obtain p m where x: "x = dx_value p m" "(p, m) \<in> set (zip (directional_index period (plus_dm bars) ?atr)
      (directional_index period (minus_dm bars) ?atr))" by auto
    show ?thesis
      unfolding x(1) using directional_nonneg [OF dm_nonneg(1) atr set_zip_leftD [OF x(2)]]
        directional_nonneg [OF dm_nonneg(2) atr set_zip_rightD [OF x(2)]] by (rule dx_percent)
  qed
  then show "percent_or_na y"
    using rolling_mean_percent y unfolding adx_series_def Let_def by blast
qed

text \<open>For bars whose low is not above their high the directional index is a percentage, whatever the
  length of the history and wherever a division by zero occurs on the way; so a threshold of a
  hundred or more switches the index off.\<close>

theorem adx_is_a_percentage:
  assumes "\<forall>b\<in>set bars. b_low b \<le> b_high b"
  shows "\<exists>x. calc_adx period bars = Fin x \<and> 0 \<le> x \<and> x \<le> 100"
proof (cases "length bars < period + 1 \<or> isna (last_fl (adx_series period bars))")
  case True
  then show ?thesis by (auto simp: calc_adx_def Let_def)
next
  case False
  then have "last_fl (adx_series period bars) \<in> set (adx_series period bars)"
    by (auto simp: last_fl_def)
  then have "percent_or_na (last_fl (adx_series period bars))" using adx_series_percent [OF assms] by blast
  then show ?thesis
    using False by (cases "last_fl (adx_series period bars)") (auto simp: calc_adx_def Let_def percent_or_na_def)
qed

section \<open>When the slope is silent\<close>

lemma detect_without_slope:
  assumes "\<not> fl_less (Fin (ma_slope_threshold cfg)) (calc_ma_slope 50 (closes bars))"
  shows "detect cfg bars = (if \<not> logic_and cfg \<and> use_adx cfg \<and> fl_less (Fin (adx_threshold cfg)) (calc_adx 14 bars)
     then TRENDING else RANGING)"
  using assms by (simp add: detect_def is_trending_def Let_def)

lemma slope_short_history:
  assumes "length close < 69" "0 \<le> t"
  shows "\<not> fl_less (Fin t) (calc_ma_slope 50 close)"
proof (cases "length close < 50")
  case True
  then show ?thesis using assms(2) by (simp add: calc_ma_slope_def)
next
  case False
  let ?recent = "drop (length close - 20) (rolling 50 mean_fl close)"
  have "hd ?recent = rolling 50 mean_fl close ! (length close - 20)"
    using False by (intro hd_drop_conv_nth) simp
  moreover have "length close - 20 < length close" "Suc (length close - 20) < 50" using False assms(1) by simp_all
  ultimately have "hd ?recent = NaN" by (simp only: rolling_nth if_True)
  then show ?thesis using False by (simp add: calc_ma_slope_def Let_def)
qed

text \<open>Averages of a series that never rises do not rise.\<close>

lemma window_sum: "Suc i \<ge> w \<Longrightarrow> i < length xs \<Longrightarrow>
  sum_list (window_at w xs i) = (\<Sum>j<w. xs ! (Suc i - w + j))"
proof -
  assume a: "Suc i \<ge> w" "i < length xs"
  have "window_at w xs i = map (\<lambda>j. xs ! (Suc i - w + j)) [0..<w]"
    using a by (intro nth_equalityI) (simp_all add: window_at_def)
  then show ?thesis by (simp add: interv_sum_list_conv_sum_set_nat atLeast0LessThan)
qed

lemma rolling_mean_value:
  assumes "0 < w" "w \<le> Suc i" "i < length xs"
  shows "rolling w mean_fl (fins xs) ! i = Fin ((\<Sum>j<w. xs ! (Suc i - w + j)) / real w)"
proof -
  have "window_at w (fins xs) i = fins (window_at w xs i)"
    by (simp add: window_at_def fins_def take_map drop_map)
  moreover have "length (window_at w xs i) = w" using assms by (simp add: window_at_def)
  ultimately show ?thesis
    using assms by (simp add: rolling_nth fins_def comp_def mean_fl_def window_sum list_all_iff) auto
qed

lemma slope_falling:
  assumes "sorted_wrt (\<ge>) xs" "\<forall>x\<in>set xs. 0 < x" "0 \<le> t"
  shows "\<not> fl_less (Fin t) (calc_ma_slope 50 (fins xs))"
proof (cases "length xs < 69")
  case True
  then show ?thesis using slope_short_history [of "fins xs" t] assms(3) by (simp add: fins_def)
next
  case False
  let ?n = "length xs" and ?ma = "rolling 50 mean_fl (fins xs)"
  let ?s = "\<lambda>i. (\<Sum>j<50. xs ! (Suc i - 50 + j))"
  have len: "length ?ma = ?n" by (simp add: fins_def)
  have hd: "hd (drop (?n - 20) ?ma) = Fin (?s (?n - 20) / 50)"
    using False len by (subst hd_drop_conv_nth) (simp_all add: rolling_mean_value)
  have "?ma \<noteq> []" using False len by (metis length_0_conv less_nat_zero_code not_less_iff_gr_or_eq zero_less_numeral)
  then have "last (drop (?n - 20) ?ma) = ?ma ! (?n - 1)"
    using False len by (subst last_drop) (simp_all add: last_conv_nth)
  then have last: "last (drop (?n - 20) ?ma) = Fin (?s (?n - 1) / 50)"
    using False by (simp add: rolling_mean_value)
  have pos: "0 < ?s (?n - 20)"
    using False assms(2) by (intro sum_pos) (auto intro!: nth_mem simp: lessThan_empty_iff)
  have "?s (?n - 1) \<le> ?s (?n - 20)"
  proof (rule sum_mono)
    fix j :: nat assume "j \<in> {..<50}"
    then have "Suc (?n - 20) - 50 + j < Suc (?n - 1) - 50 + j" "Suc (?n - 1) - 50 + j < ?n"
      using False by auto
    then show "xs ! (Suc (?n - 1) - 50 + j) \<le> xs ! (Suc (?n - 20) - 50 + j)"
      using sorted_wrt_nth_less [OF assms(1)] by fastforce
  qed
  then have "(?s (?n - 1) / 50 - ?s (?n - 20) / 50) / (?s (?n - 20) / 50) / 20 \<le> 0"
    using pos by (simp add: divide_le_0_iff)
  then show ?thesis
    using False assms(3) pos unfolding calc_ma_slope_def Let_def len hd last
    by (simp add: fins_def fl_sub_def)
qed

text \<open>The slope finds rising markets only, and late.  With a non-negative threshold it never speaks for
  a history of fewer than sixty-nine bars, where the first of the twenty averages it compares is
  missing, although regimes are given from the fifty-first bar on; and it never speaks for prices
  that only fall.  In both cases the regime is trending exactly when the directional index alone
  says so and may decide alone.\<close>

theorem slope_is_silent:
  assumes "0 \<le> ma_slope_threshold cfg"
    and "length bars < 69 \<or> sorted_wrt (\<lambda>x y. b_close y \<le> b_close x) bars \<and> (\<forall>b\<in>set bars. 0 < b_close b)"
  shows "detect cfg bars = (if \<not> logic_and cfg \<and> use_adx cfg \<and> fl_less (Fin (adx_threshold cfg)) (calc_adx 14 bars)
     then TRENDING else RANGING)"
proof (rule detect_without_slope, use assms(2) in \<open>elim disjE conjE\<close>)
  assume "length bars < 69"
  then show "\<not> fl_less (Fin (ma_slope_threshold cfg)) (calc_ma_slope 50 (closes bars))"
    using assms(1) by (intro slope_short_history) simp_all
next
  assume "sorted_wrt (\<lambda>x y. b_close y \<le> b_close x) bars" "\<forall>b\<in>set bars. 0 < b_close b"
  then show "\<not> fl_less (Fin (ma_slope_threshold cfg)) (calc_ma_slope 50 (closes bars))"
    using assms(1) unfolding closes_def by (intro slope_falling) (auto simp: sorted_wrt_map)
qed

theorem slope_is_silent_witness:
  "detect (regime_default\<lparr>use_adx := False\<rparr>) (map flat_bar [9, 8, 7]) = RANGING"
  using slope_is_silent [of "regime_default\<lparr>use_adx := False\<rparr>" "map flat_bar [9, 8, 7]"]
  by (simp add: regime_default_def)

theorem adx_is_a_percentage_witness:
  "\<exists>x. calc_adx 2 (map flat_bar [9, 8, 7]) = Fin x \<and> 0 \<le> x \<and> x \<le> 100"
  by (rule adx_is_a_percentage) (simp add: flat_bar_def)

text \<open>The daily series says nothing for the first fifty bars and a regime for every later one, and a
  day's regime depends on no later bar.\<close>

theorem regime_series_causal:
  "map (\<lambda>r. r = UNKNOWN) (get_regime_series cfg bars) = map (\<lambda>i. i < 50) [0..<length bars]
   \<and> get_regime_series cfg (take n bars) = take n (get_regime_series cfg bars)"
proof
  show "map (\<lambda>r. r = UNKNOWN) (get_regime_series cfg bars) = map (\<lambda>i. i < 50) [0..<length bars]"
    by (auto simp: get_regime_series_def detect_def)
  show "get_regime_series cfg (take n bars) = take n (get_regime_series cfg bars)"
  proof (rule nth_equalityI)
    fix i assume "i < length (get_regime_series cfg (take n bars))"
    then have "i < n" "i < length bars" by (simp_all add: get_regime_series_def)
    then show "get_regime_series cfg (take n bars) ! i = take n (get_regime_series cfg bars) ! i"
      by (simp add: get_regime_series_def min_def)
  qed (simp add: get_regime_series_def)
qed

end
