(* ===== verification/Macro_Events.thy ===== *)
theory Macro_Events imports Governance begin

text \<open>
  The providers of macro events in \<open>events/providers.py\<close>.  The answers of the FRED and World
  Bank services are parameters (a failed request is \<open>None\<close>); what the code computes from an
  answer, the sentiment of a reading, the events, and the chain that tries the providers in
  order, is modelled.  Bodies and titles, which only format numbers, are parameters.
\<close>

section \<open>Events\<close>

datatype event_type = Macro

datatype meta_value = Meta_text string | Meta_number "real option" | Meta_time datetime | Meta_days int

record event_seed =
  sd_event_id :: string
  sd_event_type :: event_type
  sd_market_scope :: string
  sd_symbol_scope :: string
  sd_published_at :: datetime
  sd_source :: string
  sd_title :: string
  sd_body_ref :: string
  sd_tags :: "string list"
  sd_importance :: real
  sd_sentiment_hint :: real
  sd_metadata :: "string \<rightharpoonup> meta_value"

section \<open>The sentiment of a reading\<close>

definition macro_sentiment :: "real \<Rightarrow> string \<Rightarrow> real \<Rightarrow> real option \<Rightarrow> real" where
  "macro_sentiment change direction latest previous =
     (case previous of None \<Rightarrow> 0
      | Some p \<Rightarrow>
          let magnitude = min (\<bar>change\<bar> / max \<bar>p\<bar> (1 / 1000000)) 1;
              sgn = (if direction = ''lower_is_risk_positive'' then -1 else 1 :: real)
          in py_round (max (-0.35) (min 0.35 (sgn * (- change) * magnitude))) 3)"

section \<open>The demonstration provider\<close>

definition demo_event ::
  "datetime \<Rightarrow> string \<Rightarrow> string \<Rightarrow> nat \<Rightarrow> int \<Rightarrow> string \<Rightarrow> string \<Rightarrow> string list \<Rightarrow> real \<Rightarrow> real \<Rightarrow> event_seed" where
  "demo_event now symbol market n hours title body tags importance sentiment =
     \<lparr>sd_event_id = ''macro-'' @ market @ ''-'' @ py_str_nat n, sd_event_type = Macro,
      sd_market_scope = market, sd_symbol_scope = symbol, sd_published_at = now - hours * 3600,
      sd_source = ''demo_macro'', sd_title = title, sd_body_ref = body, sd_tags = tags,
      sd_importance = importance, sd_sentiment_hint = sentiment, sd_metadata = Map.empty\<rparr>"

text \<open>The two titles and bodies are Chinese sentences, passed as \<open>texts\<close>.\<close>

definition demo_fetch :: "(string \<times> string) \<times> (string \<times> string) \<Rightarrow> datetime \<Rightarrow> string \<Rightarrow> string \<Rightarrow> event_seed list" where
  "demo_fetch texts now symbol market =
     [demo_event now symbol market 0 10 (fst (fst texts)) (snd (fst texts)) [''policy'', ''macro''] 0.83 0.24,
      demo_event now symbol market 1 20 (fst (snd texts)) (snd (snd texts)) [''volatility'', ''regime''] 0.68 0.05]"

section \<open>Series providers\<close>

text \<open>One observation: its date as the service writes it, its parsed time (\<open>_parse_dt\<close> gives
  \<open>now\<close> for a text it cannot read, \<open>None\<close> here) and its value; \<open>None\<close> for a value that the
  filter drops.\<close>

record observation =
  ob_date :: string
  ob_time :: "datetime option"
  ob_value :: "real option"

record series =
  se_id :: string
  se_label :: string
  se_direction :: string
  se_importance :: real

definition fred_series :: "series list" where
  "fred_series =
     [\<lparr>se_id = ''FEDFUNDS'', se_label = ''Federal funds rate'', se_direction = ''lower_is_risk_positive'', se_importance = 0.82\<rparr>,
      \<lparr>se_id = ''CPIAUCSL'', se_label = ''Consumer price index'', se_direction = ''lower_is_risk_positive'', se_importance = 0.75\<rparr>,
      \<lparr>se_id = ''UNRATE'', se_label = ''Unemployment rate'', se_direction = ''lower_is_risk_positive'', se_importance = 0.78\<rparr>,
      \<lparr>se_id = ''NFCI'', se_label = ''Financial conditions index'', se_direction = ''lower_is_risk_positive'', se_importance = 0.70\<rparr>]"

definition worldbank_series :: "series list" where
  "worldbank_series =
     [\<lparr>se_id = ''NY.GDP.MKTP.KD.ZG'', se_label = ''GDP growth'', se_direction = ''higher_is_risk_positive'', se_importance = 0.78\<rparr>,
      \<lparr>se_id = ''FP.CPI.TOTL.ZG'', se_label = ''Inflation rate'', se_direction = ''lower_is_risk_positive'', se_importance = 0.74\<rparr>,
      \<lparr>se_id = ''SL.UEM.TOTL.ZS'', se_label = ''Unemployment rate'', se_direction = ''lower_is_risk_positive'', se_importance = 0.76\<rparr>,
      \<lparr>se_id = ''FR.INR.LEND'', se_label = ''Lending interest rate'', se_direction = ''lower_is_risk_positive'', se_importance = 0.68\<rparr>]"

definition worldbank_country :: "string \<Rightarrow> string" where
  "worldbank_country market =
     (if py_upper market = ''CN'' then ''CN'' else if py_upper market = ''US'' then ''US'' else ''HKG'')"

definition readings :: "observation list \<Rightarrow> (observation \<times> real \<times> real option) option" where
  "readings obs =
     (case filter (\<lambda>x. ob_value x \<noteq> None) obs of
        [] \<Rightarrow> None
      | [l] \<Rightarrow> Some (l, the (ob_value l), None)
      | l # p # _ \<Rightarrow> Some (l, the (ob_value l), ob_value p))"

definition series_event ::
  "string \<Rightarrow> string \<Rightarrow> (series \<Rightarrow> real \<Rightarrow> real option \<Rightarrow> real \<Rightarrow> string \<times> string) \<Rightarrow> datetime \<Rightarrow> string \<Rightarrow> string
    \<Rightarrow> series \<Rightarrow> observation list \<Rightarrow> event_seed option" where
  "series_event source prefix texts now symbol market se obs =
     (case readings obs of None \<Rightarrow> None
      | Some (l, latest, previous) \<Rightarrow>
          let change = (case previous of None \<Rightarrow> 0 | Some p \<Rightarrow> latest - p);
              sentiment = macro_sentiment change (se_direction se) latest previous
          in Some \<lparr>sd_event_id = prefix @ ''-'' @ se_id se @ ''-'' @ ob_date l, sd_event_type = Macro,
               sd_market_scope = market, sd_symbol_scope = symbol,
               sd_published_at = (case ob_time l of None \<Rightarrow> now | Some t \<Rightarrow> t),
               sd_source = source, sd_title = fst (texts se latest previous sentiment),
               sd_body_ref = snd (texts se latest previous sentiment),
               sd_tags = [source, ''macro'', py_lower (se_id se)],
               sd_importance = se_importance se, sd_sentiment_hint = sentiment,
               sd_metadata = [''latest_value'' \<mapsto> Meta_number (Some latest),
                              ''previous_value'' \<mapsto> Meta_number previous]\<rparr>)"

text \<open>The requests are made in the order of the series; the first that fails raises.\<close>

fun fetch_series ::
  "(series \<Rightarrow> observation list \<Rightarrow> event_seed option) \<Rightarrow> (series \<Rightarrow> observation list option) \<Rightarrow> series list
    \<Rightarrow> event_seed list option" where
  "fetch_series build answer [] = Some []"
| "fetch_series build answer (se # ses) =
     (case answer se of None \<Rightarrow> None
      | Some obs \<Rightarrow> map_option (\<lambda>evs. case build se obs of None \<Rightarrow> evs | Some e \<Rightarrow> e # evs)
                      (fetch_series build answer ses))"

definition fred_fetch ::
  "(series \<Rightarrow> real \<Rightarrow> real option \<Rightarrow> real \<Rightarrow> string \<times> string) \<Rightarrow> bool \<Rightarrow> (series \<Rightarrow> observation list option) \<Rightarrow> datetime
    \<Rightarrow> string \<Rightarrow> string \<Rightarrow> event_seed list option" where
  "fred_fetch texts has_key answer now symbol market =
     (if \<not> has_key then None
      else fetch_series (series_event ''fred'' ''fred'' texts now symbol market) answer fred_series)"

definition worldbank_fetch ::
  "(series \<Rightarrow> real \<Rightarrow> real option \<Rightarrow> real \<Rightarrow> string \<times> string) \<Rightarrow> (series \<Rightarrow> observation list option) \<Rightarrow> datetime
    \<Rightarrow> string \<Rightarrow> string \<Rightarrow> event_seed list option" where
  "worldbank_fetch texts answer now symbol market =
     fetch_series (series_event ''worldbank'' (''worldbank-'' @ worldbank_country market) texts now symbol market)
       answer worldbank_series"

section \<open>The chain\<close>

text \<open>What the sync reads of a provider after a fetch: its name and chain, and either the
  events with a message or the text of the exception.\<close>

record fetched =
  ft_provider :: string
  ft_chain :: "string list"
  ft_result :: "string + string \<times> event_seed list"

text \<open>A provider of the chain is its name and its result, the events or the text of an
  exception.\<close>

type_synonym macro_provider = "string \<times> (string + event_seed list)"

definition provider_error :: "macro_provider \<Rightarrow> string" where
  "provider_error p = (case snd p of Inl exc \<Rightarrow> fst p @ '': '' @ exc | Inr _ \<Rightarrow> fst p @ '': empty result'')"

fun chain_loop :: "string \<Rightarrow> nat \<Rightarrow> macro_provider list \<Rightarrow> string list \<Rightarrow> string \<times> (string + string \<times> event_seed list)" where
  "chain_loop preferred i [] errors =
     (''macro_chain'', Inl (if errors = [] then ''all macro providers failed''
        else hd errors @ concat (map (\<lambda>e. ''; '' @ e) (tl errors))))"
| "chain_loop preferred i (p # ps) errors =
     (case snd p of
        Inr (e # es) \<Rightarrow> (fst p, Inr
          (if i = 0 then fst p @ '' macro pipeline is healthy.''
           else fst p @ '' macro pipeline is serving as fallback after '' @ preferred @ '' became unavailable.'', e # es))
      | _ \<Rightarrow> chain_loop preferred (Suc i) ps (errors @ [provider_error p]))"

definition chained_fetch :: "macro_provider list \<Rightarrow> fetched" where
  "chained_fetch ps =
     (let (name, result) = chain_loop (if ps = [] then ''macro_chain'' else fst (hd ps)) 0 ps []
      in \<lparr>ft_provider = name, ft_chain = map fst ps, ft_result = result\<rparr>)"

definition demo_fetched :: "event_seed list \<Rightarrow> fetched" where
  "demo_fetched evs = \<lparr>ft_provider = ''demo_macro'', ft_chain = [''demo_macro''],
     ft_result = Inr (''demo_macro macro pipeline is healthy.'', evs)\<rparr>"

text \<open>\<open>get_event_providers\<close>: one provider, the chain of FRED and the World Bank or the
  demonstration.\<close>

definition get_event_providers :: "events_settings \<Rightarrow> (string + event_seed list) \<Rightarrow> (string + event_seed list)
    \<Rightarrow> event_seed list \<Rightarrow> fetched list" where
  "get_event_providers es fred worldbank demo =
     (if py_lower (es_macro_provider es) = ''fred''
      then [chained_fetch [(''fred'', fred), (''worldbank'', worldbank)]] else [demo_fetched demo])"

section \<open>The direction of the sentiment\<close>

definition clamped_sentiment :: "real \<Rightarrow> real" where
  "clamped_sentiment x = py_round (max (-0.35) (min 0.35 x)) 3"

lemma clamped_sentiment_bound: "\<bar>clamped_sentiment x\<bar> \<le> 0.35"
proof -
  have "py_round (-0.35) 3 \<le> clamped_sentiment x" "clamped_sentiment x \<le> py_round 0.35 3"
    unfolding clamped_sentiment_def by (rule py_round_mono, simp)+
  moreover have "py_round (-0.35) 3 = -0.35" "py_round 0.35 3 = 0.35"
    using py_round_exact [of "-0.35" 3 "-350"] py_round_exact [of "0.35" 3 350] by simp_all
  ultimately show ?thesis by (simp add: abs_le_iff)
qed

lemma clamped_sentiment_pos: "0 \<le> x \<Longrightarrow> 0 \<le> clamped_sentiment x"
  unfolding clamped_sentiment_def by (rule py_round_nonneg) simp

lemma clamped_sentiment_neg: "x \<le> 0 \<Longrightarrow> clamped_sentiment x \<le> 0"
  unfolding clamped_sentiment_def using py_round_le_of_int [of "max (-0.35) (min 0.35 x)" 0 3] by simp

text \<open>The sentiment of a reading lies in \<open>[-0.35, 0.35]\<close>, but its sign is the opposite of what
  the direction says: a rise of a series for which lower is better never counts against the
  market, and a rise of one for which higher is better never counts for it.\<close>

theorem macro_sentiment_is_inverted:
  "\<bar>macro_sentiment change direction latest previous\<bar> \<le> 0.35
   \<and> (0 \<le> change \<and> direction = ''lower_is_risk_positive''
        \<longrightarrow> 0 \<le> macro_sentiment change direction latest previous)
   \<and> (0 \<le> change \<and> direction = ''higher_is_risk_positive''
        \<longrightarrow> macro_sentiment change direction latest previous \<le> 0)
   \<and> (change \<le> 0 \<and> direction = ''lower_is_risk_positive''
        \<longrightarrow> macro_sentiment change direction latest previous \<le> 0)"
proof (cases previous)
  case (Some p)
  define m where "m = min (\<bar>change\<bar> / max \<bar>p\<bar> (1 / 1000000)) 1"
  have m: "0 \<le> m" by (simp add: m_def)
  have lower: "direction = ''lower_is_risk_positive''
      \<Longrightarrow> macro_sentiment change direction latest previous = clamped_sentiment (change * m)"
    and higher: "direction \<noteq> ''lower_is_risk_positive''
      \<Longrightarrow> macro_sentiment change direction latest previous = clamped_sentiment (- (change * m))"
    by (simp_all add: macro_sentiment_def Some Let_def m_def clamped_sentiment_def)
  have up: "0 \<le> change \<Longrightarrow> 0 \<le> change * m" and down: "change \<le> 0 \<Longrightarrow> change * m \<le> 0"
    using m by (simp_all add: mult_nonpos_nonneg)
  show ?thesis
  proof (cases "direction = ''lower_is_risk_positive''")
    case True
    show ?thesis unfolding lower [OF True]
      using clamped_sentiment_bound up down True by (simp add: clamped_sentiment_pos clamped_sentiment_neg)
  next
    case False
    show ?thesis unfolding higher [OF False]
      using clamped_sentiment_bound up False by (simp add: clamped_sentiment_neg)
  qed
qed (simp add: macro_sentiment_def)

lemma macro_sentiment_is_inverted_witness:
  "0 \<le> macro_sentiment 1 ''lower_is_risk_positive'' 5 (Some 4)
   \<and> macro_sentiment 1 ''higher_is_risk_positive'' 5 (Some 4) \<le> 0"
  using macro_sentiment_is_inverted [of 1 "''lower_is_risk_positive''" 5 "Some 4"]
    macro_sentiment_is_inverted [of 1 "''higher_is_risk_positive''" 5 "Some 4"] by simp

section \<open>What the chain serves\<close>

definition serves :: "macro_provider \<Rightarrow> bool" where
  "serves p \<longleftrightarrow> (case snd p of Inl _ \<Rightarrow> False | Inr evs \<Rightarrow> evs \<noteq> [])"

lemma chain_loop_skips:
  "\<not> serves p \<Longrightarrow> chain_loop preferred i (p # ps) errors = chain_loop preferred (Suc i) ps (errors @ [provider_error p])"
  by (auto simp: serves_def split: sum.splits)

lemma chain_loop_serves:
  "serves p \<Longrightarrow> \<exists>msg. chain_loop preferred i (p # ps) errors = (fst p, Inr (msg, projr (snd p)))"
  by (auto simp: serves_def neq_Nil_conv split: sum.splits)

lemma chain_loop_find:
  "(case find serves ps of
      None \<Rightarrow> \<exists>exc. chain_loop preferred i ps errors = (''macro_chain'', Inl exc)
    | Some p \<Rightarrow> \<exists>msg. chain_loop preferred i ps errors = (fst p, Inr (msg, projr (snd p))))"
proof (induction ps arbitrary: i errors)
  case (Cons p ps)
  show ?case
    using Cons.IH [of "Suc i" "errors @ [provider_error p]"]
      chain_loop_skips [of p preferred i ps errors] chain_loop_serves [of p preferred i ps errors]
    by (cases "serves p") (simp_all del: chain_loop.simps cong: option.case_cong)
qed simp

text \<open>The chain serves the events of its first provider that has any, under that provider's
  name; it fails exactly when none has.\<close>

theorem chain_serves_first:
  "case find serves ps of
     None \<Rightarrow> ft_provider (chained_fetch ps) = ''macro_chain'' \<and> isl (ft_result (chained_fetch ps))
   | Some p \<Rightarrow> ft_provider (chained_fetch ps) = fst p
        \<and> \<not> isl (ft_result (chained_fetch ps)) \<and> snd (projr (ft_result (chained_fetch ps))) = projr (snd p)"
  using chain_loop_find [of "if ps = [] then ''macro_chain'' else fst (hd ps)" 0 ps "[]"]
  by (auto simp: chained_fetch_def split_def Let_def split: option.splits)

end
