(* ===== verification/Event_Stream.thy ===== *)
theory Event_Stream
  imports Macro_Events "HOL-Library.Product_Lexorder"
begin

text \<open>
  The event stream of \<open>api/services.py\<close>: the table of macro events, the stored status of the
  macro pipeline with the figures derived from it, the audit rows that are counted, the
  fallback on earlier events when a provider fails, and the daily digests.  A query that orders
  its rows returns ties in row order.  The text of a date (\<open>isodate\<close>) and the digest hash are
  parameters.  The identifier of a seed is a hash of its content; the model keeps the first of two
  seeds of one sync with the same identifier, where the code, which does not flush between them,
  would see the unique index fail at the commit.
\<close>

section \<open>Tables\<close>

record event =
  ev_event_id :: string
  ev_event_type :: event_type
  ev_market_scope :: string
  ev_symbol_scope :: string
  ev_published_at :: datetime
  ev_source :: string
  ev_title :: string
  ev_body_ref :: string
  ev_tags :: "string list"
  ev_importance :: real
  ev_sentiment_hint :: real
  ev_metadata :: "string \<rightharpoonup> meta_value"
  ev_created_at :: datetime

record digest =
  dg_id :: nat
  dg_trade_date :: int
  dg_market_scope :: string
  dg_symbol_scope :: string
  dg_macro_summary :: string
  dg_macro_bias :: real
  dg_aggregate_sentiment :: real
  dg_hash :: string
  dg_event_ids :: "string list"
  dg_created_at :: datetime

record audit =
  au_event_type :: string
  au_entity_type :: string
  au_entity_id :: string
  au_payload :: "string \<rightharpoonup> string"
  au_created_at :: datetime

record macro_stored =
  sm_provider :: string
  sm_active_provider :: string
  sm_provider_chain :: "string list"
  sm_status :: string
  sm_message :: string
  sm_degraded :: bool
  sm_last_success_at :: "datetime option"
  sm_fallback_mode :: "string option"
  sm_fallback_event_count :: nat
  sm_using_last_known_context :: bool
  sm_reliability_score :: real
  sm_reliability_tier :: string

record stream =
  st_events :: "event list"
  st_macro :: "macro_stored option"
  st_audits :: "audit list"
  st_digests :: "digest list"

section \<open>Counting audits\<close>

definition recent_audit_counts :: "datetime \<Rightarrow> string list \<Rightarrow> string option \<Rightarrow> string option \<Rightarrow> int \<Rightarrow> audit list \<Rightarrow> nat" where
  "recent_audit_counts now types etype eid days audits =
     length (filter (\<lambda>a. au_created_at a \<ge> plus_days now (- days) \<and> au_event_type a \<in> set types
        \<and> (case etype of None \<Rightarrow> True | Some t \<Rightarrow> au_entity_type a = t)
        \<and> (case eid of None \<Rightarrow> True | Some i \<Rightarrow> au_entity_id a = i)) audits)"

record macro_health =
  mh_health_score :: real
  mh_degraded_count :: nat
  mh_fallback_count :: nat
  mh_recovery_count :: nat

definition macro_events_of :: "datetime \<Rightarrow> string \<Rightarrow> audit list \<Rightarrow> nat" where
  "macro_events_of now kind = recent_audit_counts now [kind] (Some ''macro_pipeline'') None 30"

definition health_score :: "nat \<Rightarrow> nat \<Rightarrow> nat \<Rightarrow> real" where
  "health_score degraded fallback recovery =
     py_round (max 0.1 (min 1 (1 - of_nat degraded * 0.12 - of_nat fallback * 0.06 + of_nat recovery * 0.02))) 2"

definition build_macro_health_history :: "datetime \<Rightarrow> audit list \<Rightarrow> macro_health" where
  "build_macro_health_history now audits =
     (let degraded = macro_events_of now ''macro_provider_degraded'' audits;
          fallback = macro_events_of now ''macro_provider_fallback_applied'' audits;
          recovery = macro_events_of now ''macro_provider_recovered'' audits
      in \<lparr>mh_health_score = health_score degraded fallback recovery, mh_degraded_count = degraded,
          mh_fallback_count = fallback, mh_recovery_count = recovery\<rparr>)"

section \<open>The status of the macro pipeline\<close>

datatype freshness = Fresh | Aging | Stale | Expired

record macro_pipeline =
  mp_stored :: macro_stored
  mp_freshness_hours :: "real option"
  mp_freshness_tier :: freshness
  mp_health :: macro_health

definition base_macro_status :: "events_settings \<Rightarrow> macro_stored" where
  "base_macro_status es =
     \<lparr>sm_provider = es_macro_provider es, sm_active_provider = es_macro_provider es,
      sm_provider_chain = [es_macro_provider es], sm_status = ''ready'',
      sm_message = es_macro_provider es @ '' macro pipeline ready.'', sm_degraded = False,
      sm_last_success_at = None, sm_fallback_mode = None, sm_fallback_event_count = 0,
      sm_using_last_known_context = False, sm_reliability_score = 1, sm_reliability_tier = ''primary_live''\<rparr>"

definition or_one :: "real \<Rightarrow> real" where
  "or_one x = (if x = 0 then 1 else x)"

definition freshness_hours :: "datetime \<Rightarrow> datetime option \<Rightarrow> real option" where
  "freshness_hours now success = map_option (\<lambda>t. py_round (max 0 (of_int (now - t) / 3600)) 1) success"

definition freshness_tier :: "events_settings \<Rightarrow> real option \<Rightarrow> freshness" where
  "freshness_tier es hours =
     (case hours of None \<Rightarrow> Fresh
      | Some h \<Rightarrow> if h \<le> 24 then Fresh else if h \<le> 72 then Aging
          else if h \<le> of_int (es_fallback_max_age_days es * 24) then Stale else Expired)"

definition enriched_reliability :: "events_settings \<Rightarrow> real option \<Rightarrow> real \<Rightarrow> real" where
  "enriched_reliability es hours base =
     (case hours of None \<Rightarrow> py_round base 2
      | Some h \<Rightarrow>
          let age_penalty = min 0.35 (h / of_int (max (es_fallback_max_age_days es * 24) 1) * 0.35)
          in py_round (max 0.05 (base - age_penalty)) 2)"

definition enrich_macro_pipeline_status ::
  "events_settings \<Rightarrow> datetime \<Rightarrow> audit list \<Rightarrow> macro_stored \<Rightarrow> macro_pipeline" where
  "enrich_macro_pipeline_status es now audits s =
     (let hours = freshness_hours now (sm_last_success_at s)
      in \<lparr>mp_stored = s\<lparr>sm_reliability_score := enriched_reliability es hours (or_one (sm_reliability_score s))\<rparr>,
          mp_freshness_hours = hours, mp_freshness_tier = freshness_tier es hours,
          mp_health = build_macro_health_history now audits\<rparr>)"

definition stored_macro_status :: "events_settings \<Rightarrow> stream \<Rightarrow> macro_stored" where
  "stored_macro_status es st =
     (case st_macro st of None \<Rightarrow> base_macro_status es
      | Some s \<Rightarrow> s\<lparr>sm_reliability_score := or_one (sm_reliability_score s)\<rparr>)"

definition get_macro_pipeline_status :: "events_settings \<Rightarrow> datetime \<Rightarrow> stream \<Rightarrow> macro_pipeline" where
  "get_macro_pipeline_status es now st =
     enrich_macro_pipeline_status es now (st_audits st) (stored_macro_status es st)"

section \<open>The fallback on earlier events\<close>

text \<open>\<open>_macro_fallback_seeds\<close>: the three latest macro events of the market that are not older
  than the limit, published anew a minute apart.\<close>

definition fallback_records :: "events_settings \<Rightarrow> string \<Rightarrow> datetime \<Rightarrow> event list \<Rightarrow> event list" where
  "fallback_records es market now events =
     take 3 (sort_desc ev_published_at
       (filter (\<lambda>e. ev_event_type e = Macro \<and> ev_market_scope e = market
          \<and> ev_published_at e \<ge> plus_days now (- es_fallback_max_age_days es)) events))"

definition fallback_seed ::
  "(int \<Rightarrow> string) \<Rightarrow> string \<Rightarrow> string \<Rightarrow> string \<Rightarrow> datetime \<Rightarrow> nat \<Rightarrow> event \<Rightarrow> event_seed" where
  "fallback_seed isodate provider symbol market now i r =
     \<lparr>sd_event_id = provider @ ''_last_good-'' @ ev_event_id r @ ''-'' @ isodate (dt_date now) @ ''-'' @ py_str_nat i,
      sd_event_type = Macro, sd_market_scope = market, sd_symbol_scope = symbol,
      sd_published_at = plus_minutes now (- (int i + 1)), sd_source = provider @ ''_last_good'',
      sd_title = ''[Fallback] '' @ ev_title r,
      sd_body_ref = (if ev_body_ref r = [] then
         ''Reusing last known macro context while upstream provider is unavailable.'' else ev_body_ref r),
      sd_tags = ev_tags r @ [''fallback''], sd_importance = ev_importance r,
      sd_sentiment_hint = ev_sentiment_hint r,
      sd_metadata = (ev_metadata r)
        (''fallback_mode'' \<mapsto> Meta_text ''reuse_last_good'',
         ''fallback_from_event_id'' \<mapsto> Meta_text (ev_event_id r),
         ''fallback_from_published_at'' \<mapsto> Meta_time (ev_published_at r),
         ''stale_days'' \<mapsto> Meta_days (max 0 (dt_date now - dt_date (ev_published_at r))))\<rparr>"

definition macro_fallback_seeds ::
  "(int \<Rightarrow> string) \<Rightarrow> events_settings \<Rightarrow> string \<Rightarrow> string \<Rightarrow> string \<Rightarrow> datetime \<Rightarrow> event list \<Rightarrow> event_seed list" where
  "macro_fallback_seeds isodate es provider symbol market now events =
     (if es_fallback_mode es \<noteq> ''reuse_last_good'' then []
      else map (\<lambda>(i, r). fallback_seed isodate provider symbol market now i r)
             (enumerate 0 (fallback_records es market now events)))"

section \<open>One sync of the stream\<close>

definition event_of_seed :: "datetime \<Rightarrow> event_seed \<Rightarrow> event" where
  "event_of_seed now s =
     \<lparr>ev_event_id = sd_event_id s, ev_event_type = sd_event_type s, ev_market_scope = sd_market_scope s,
      ev_symbol_scope = sd_symbol_scope s, ev_published_at = sd_published_at s, ev_source = sd_source s,
      ev_title = sd_title s, ev_body_ref = sd_body_ref s, ev_tags = sd_tags s,
      ev_importance = sd_importance s, ev_sentiment_hint = sd_sentiment_hint s,
      ev_metadata = sd_metadata s, ev_created_at = now\<rparr>"

definition add_seed :: "datetime \<Rightarrow> event_seed \<Rightarrow> event list \<Rightarrow> event list" where
  "add_seed now s events =
     (if sd_event_id s \<in> set (map ev_event_id events) then events else events @ [event_of_seed now s])"

definition ready_status :: "string \<Rightarrow> string list \<Rightarrow> string \<Rightarrow> datetime \<Rightarrow> macro_stored" where
  "ready_status provider chain message now =
     \<lparr>sm_provider = provider, sm_active_provider = provider, sm_provider_chain = chain,
      sm_status = ''ready'', sm_message = message, sm_degraded = False, sm_last_success_at = Some now,
      sm_fallback_mode = None, sm_fallback_event_count = 0, sm_using_last_known_context = False,
      sm_reliability_score = (if provider = ''fred'' then 1 else 0.84),
      sm_reliability_tier = (if provider = ''fred'' then ''primary_live'' else ''secondary_live'')\<rparr>"

definition failure_message :: "string \<Rightarrow> string \<Rightarrow> nat \<Rightarrow> string" where
  "failure_message provider exc n =
     provider @ '' macro fetch failed: '' @ exc @ ''. '' @
     (if n > 0 then ''Reusing '' @ py_str_nat n @ '' last-known macro events.''
      else ''No recent fallback context is available.'')"

definition degraded_status ::
  "string \<Rightarrow> string list \<Rightarrow> string \<Rightarrow> event_seed list \<Rightarrow> macro_stored \<Rightarrow> macro_stored" where
  "degraded_status provider chain exc seeds previous =
     (let using = (seeds \<noteq> []) in
      \<lparr>sm_provider = provider,
       sm_active_provider = (if using then provider @ ''_last_good'' else provider),
       sm_provider_chain = chain, sm_status = ''degraded'',
       sm_message = failure_message provider exc (length seeds), sm_degraded = True,
       sm_last_success_at = (if using then Some (Max (set (map sd_published_at seeds)))
          else sm_last_success_at previous),
       sm_fallback_mode = (if using then Some ''reuse_last_good'' else None),
       sm_fallback_event_count = length seeds, sm_using_last_known_context = using,
       sm_reliability_score = (if using then 0.58 else 0.32),
       sm_reliability_tier = (if using then ''last_known_context'' else ''provider_failed'')\<rparr>)"

definition macro_audit :: "string \<Rightarrow> string \<Rightarrow> string \<Rightarrow> string \<Rightarrow> datetime \<Rightarrow> audit" where
  "macro_audit kind provider status message now =
     \<lparr>au_event_type = kind, au_entity_type = ''macro_pipeline'', au_entity_id = provider,
      au_payload = [''status'' \<mapsto> status, ''message'' \<mapsto> message], au_created_at = now\<rparr>"

definition fetch_succeeded :: "events_settings \<Rightarrow> datetime \<Rightarrow> fetched \<Rightarrow> string \<Rightarrow> stream \<Rightarrow> stream" where
  "fetch_succeeded es now ft message st =
     st\<lparr>st_macro := Some (ready_status (ft_provider ft) (ft_chain ft) message now),
        st_audits := st_audits st
          @ (if sm_degraded (stored_macro_status es st) then
               [macro_audit ''macro_provider_recovered'' (ft_provider ft) ''ready'' (ft_provider ft @ '' recovered.'') now]
             else [])\<rparr>"

definition fetch_failed :: "events_settings \<Rightarrow> datetime \<Rightarrow> fetched \<Rightarrow> string \<Rightarrow> event_seed list \<Rightarrow> stream \<Rightarrow> stream" where
  "fetch_failed es now ft exc seeds st =
     (let previous = stored_macro_status es st;
          new = degraded_status (ft_provider ft) (ft_chain ft) exc seeds previous
      in st\<lparr>st_macro := Some new,
            st_audits := st_audits st
              @ (if \<not> sm_degraded previous \<or> sm_message previous \<noteq> sm_message new then
                   [macro_audit ''macro_provider_degraded'' (ft_provider ft) ''degraded'' (sm_message new) now] else [])
              @ (if seeds \<noteq> [] then
                   [macro_audit ''macro_provider_fallback_applied'' (ft_provider ft) ''degraded'' (sm_message new) now]
                 else [])\<rparr>)"

definition store_seeds :: "datetime \<Rightarrow> event_seed list \<Rightarrow> stream \<Rightarrow> stream" where
  "store_seeds now seeds st = st\<lparr>st_events := fold (add_seed now) seeds (st_events st)\<rparr>"

definition sync_provider ::
  "(int \<Rightarrow> string) \<Rightarrow> events_settings \<Rightarrow> string \<Rightarrow> string \<Rightarrow> datetime \<Rightarrow> fetched \<Rightarrow> stream \<Rightarrow> stream" where
  "sync_provider isodate es symbol market now ft st =
     (case ft_result ft of
        Inr (message, seeds) \<Rightarrow> store_seeds now seeds (fetch_succeeded es now ft message st)
      | Inl exc \<Rightarrow>
          let seeds = macro_fallback_seeds isodate es (ft_provider ft) symbol market now (st_events st)
          in store_seeds now seeds (fetch_failed es now ft exc seeds st))"

definition sync_event_stream ::
  "(int \<Rightarrow> string) \<Rightarrow> events_settings \<Rightarrow> string \<Rightarrow> string \<Rightarrow> datetime \<Rightarrow> fetched list \<Rightarrow> stream \<Rightarrow> stream" where
  "sync_event_stream isodate es symbol market now fts st =
     fold (sync_provider isodate es symbol market now) fts st"

section \<open>Daily digests\<close>

type_synonym digest_key = "int \<times> string \<times> string"

definition event_key :: "event \<Rightarrow> digest_key" where
  "event_key e = (dt_date (ev_published_at e), ev_market_scope e, ev_symbol_scope e)"

definition digest_key :: "digest \<Rightarrow> digest_key" where
  "digest_key d = (dg_trade_date d, dg_market_scope d, dg_symbol_scope d)"

definition newest_first :: "event list \<Rightarrow> event list" where
  "newest_first = sort_desc ev_published_at"

definition digest_group :: "event list \<Rightarrow> digest_key \<Rightarrow> event list" where
  "digest_group events k = filter (\<lambda>e. event_key e = k) (newest_first events)"

definition impact :: "event list \<Rightarrow> real" where
  "impact items = py_round (sum_list (map (\<lambda>e. ev_sentiment_hint e * ev_importance e) items)) 3"

definition macro_summary :: "event list \<Rightarrow> string" where
  "macro_summary items =
     (let titles = map ev_title (filter (\<lambda>e. ev_event_type e = Macro) items);
          text = (case titles of [] \<Rightarrow> [] | t # ts \<Rightarrow> t @ concat (map (\<lambda>u. ''; '' @ u) ts))
      in if text = [] then ''No macro pulse.'' else text)"

definition digest_values :: "(digest_key \<Rightarrow> real \<Rightarrow> real \<Rightarrow> string list \<Rightarrow> string) \<Rightarrow> digest_key \<Rightarrow> event list \<Rightarrow> digest \<Rightarrow> digest" where
  "digest_values stable_hash k items d =
     (let bias = impact (filter (\<lambda>e. ev_event_type e = Macro) items);
          ids = map ev_event_id items
      in d\<lparr>dg_macro_summary := macro_summary items, dg_macro_bias := bias,
           dg_aggregate_sentiment := impact items,
           dg_hash := stable_hash k bias (impact items) ids, dg_event_ids := ids\<rparr>)"

definition blank_digest :: "datetime \<Rightarrow> nat \<Rightarrow> digest_key \<Rightarrow> digest" where
  "blank_digest now i k =
     \<lparr>dg_id = i, dg_trade_date = fst k, dg_market_scope = fst (snd k), dg_symbol_scope = snd (snd k),
      dg_macro_summary = [], dg_macro_bias = 0, dg_aggregate_sentiment = 0, dg_hash = [],
      dg_event_ids = [], dg_created_at = now\<rparr>"

definition next_digest_id :: "digest list \<Rightarrow> nat" where
  "next_digest_id ds = Suc (foldr max (map dg_id ds) 0)"

definition sync_digest ::
  "(digest_key \<Rightarrow> real \<Rightarrow> real \<Rightarrow> string list \<Rightarrow> string) \<Rightarrow> datetime \<Rightarrow> event list \<Rightarrow> digest_key \<Rightarrow> digest list \<Rightarrow> digest list" where
  "sync_digest stable_hash now events k ds =
     (let items = digest_group events k in
      case sort_desc dg_id (filter (\<lambda>d. digest_key d = k) ds) of
        [] \<Rightarrow> ds @ [digest_values stable_hash k items (blank_digest now (next_digest_id ds) k)]
      | d # duplicates \<Rightarrow>
          map (\<lambda>x. if dg_id x = dg_id d then digest_values stable_hash k items x else x)
            (filter (\<lambda>x. dg_id x \<notin> set (map dg_id duplicates)) ds))"

definition sync_daily_event_digests ::
  "(digest_key \<Rightarrow> real \<Rightarrow> real \<Rightarrow> string list \<Rightarrow> string) \<Rightarrow> datetime \<Rightarrow> stream \<Rightarrow> stream" where
  "sync_daily_event_digests stable_hash now st =
     st\<lparr>st_digests := fold (sync_digest stable_hash now (st_events st))
          (dedupe (map event_key (newest_first (st_events st)))) (st_digests st)\<rparr>"

definition purge_out_of_scope_event_history :: "string \<Rightarrow> stream \<Rightarrow> stream" where
  "purge_out_of_scope_event_history market st =
     st\<lparr>st_digests := filter (\<lambda>d. dg_market_scope d = market) (st_digests st),
        st_events := filter (\<lambda>e. ev_market_scope e = market) (st_events st)\<rparr>"

definition find_digest :: "string \<Rightarrow> string \<Rightarrow> digest list \<Rightarrow> digest option" where
  "find_digest symbol market ds =
     (case sort_desc (\<lambda>d. (dg_trade_date d, dg_id d))
         (filter (\<lambda>d. dg_market_scope d = market \<and> dg_symbol_scope d \<in> {symbol, ''*''}) ds) of
        [] \<Rightarrow> None | d # _ \<Rightarrow> Some d)"

definition empty_digest ::
  "(digest_key \<Rightarrow> real \<Rightarrow> real \<Rightarrow> string list \<Rightarrow> string) \<Rightarrow> datetime \<Rightarrow> string \<Rightarrow> string \<Rightarrow> digest list \<Rightarrow> digest" where
  "empty_digest stable_hash now symbol market ds =
     (let k = (dt_date now, market, symbol) in
      (blank_digest now (next_digest_id ds) k)
        \<lparr>dg_macro_summary := ''No macro events available.'', dg_hash := stable_hash k 0 0 []\<rparr>)"

definition latest_digest ::
  "(digest_key \<Rightarrow> real \<Rightarrow> real \<Rightarrow> string list \<Rightarrow> string) \<Rightarrow> (int \<Rightarrow> string) \<Rightarrow> events_settings \<Rightarrow> string \<Rightarrow> string
    \<Rightarrow> datetime \<Rightarrow> fetched list \<Rightarrow> stream \<Rightarrow> digest \<times> stream" where
  "latest_digest stable_hash isodate es symbol market now fts st =
     (case find_digest symbol market (st_digests st) of Some d \<Rightarrow> (d, st)
      | None \<Rightarrow>
          let st' = sync_daily_event_digests stable_hash now (sync_event_stream isodate es symbol market now fts st)
          in case find_digest symbol market (st_digests st') of Some d \<Rightarrow> (d, st')
             | None \<Rightarrow>
                 let d = empty_digest stable_hash now symbol market (st_digests st')
                 in (d, st'\<lparr>st_digests := st_digests st' @ [d]\<rparr>))"

section \<open>The invariant of the stream\<close>

text \<open>The status the pipeline stores is one of three: ready, degraded with an earlier context,
  degraded without; no event identifier is stored twice; and every recovery recorded in the
  audit follows a degradation recorded there.\<close>

definition macro_wf :: "macro_stored \<Rightarrow> bool" where
  "macro_wf s \<longleftrightarrow>
     (sm_status s = (if sm_degraded s then ''degraded'' else ''ready''))
     \<and> sm_using_last_known_context s = (sm_fallback_event_count s > 0)
     \<and> sm_using_last_known_context s = (sm_fallback_mode s \<noteq> None)
     \<and> (sm_using_last_known_context s \<longrightarrow> sm_degraded s \<and> sm_last_success_at s \<noteq> None)
     \<and> sm_fallback_event_count s \<le> 3
     \<and> sm_reliability_score s \<in> (if \<not> sm_degraded s then {1, 0.84}
          else if sm_using_last_known_context s then {0.58} else {0.32})"

definition count_audits :: "string \<Rightarrow> audit list \<Rightarrow> nat" where
  "count_audits kind audits = length (filter (\<lambda>a. au_event_type a = kind) audits)"

definition is_degraded :: "stream \<Rightarrow> bool" where
  "is_degraded st = (case st_macro st of None \<Rightarrow> False | Some s \<Rightarrow> sm_degraded s)"

definition stream_wf :: "stream \<Rightarrow> bool" where
  "stream_wf st \<longleftrightarrow>
     (case st_macro st of None \<Rightarrow> True | Some s \<Rightarrow> macro_wf s)
     \<and> distinct (map ev_event_id (st_events st))
     \<and> count_audits ''macro_provider_recovered'' (st_audits st) + of_bool (is_degraded st)
         \<le> count_audits ''macro_provider_degraded'' (st_audits st)"

lemma is_degraded_stored [simp]: "sm_degraded (stored_macro_status es st) = is_degraded st"
  by (simp add: stored_macro_status_def is_degraded_def base_macro_status_def split: option.splits)

lemma count_audits_simps [simp]:
  "count_audits kind [] = 0"
  "count_audits kind (a # as) = of_bool (au_event_type a = kind) + count_audits kind as"
  "count_audits kind (as @ bs) = count_audits kind as + count_audits kind bs"
  by (simp_all add: count_audits_def)

lemma length_fallback_seeds:
  "length (macro_fallback_seeds isodate es p symbol market now events) \<le> 3"
  by (simp add: macro_fallback_seeds_def fallback_records_def)

lemma add_seed_distinct: "distinct (map ev_event_id events) \<Longrightarrow> distinct (map ev_event_id (add_seed now s events))"
  by (auto simp: add_seed_def event_of_seed_def)

lemma add_seeds_distinct:
  "distinct (map ev_event_id events) \<Longrightarrow> distinct (map ev_event_id (fold (add_seed now) seeds events))"
  by (induction seeds arbitrary: events) (simp_all add: add_seed_distinct)

lemma store_seeds_simps [simp]:
  "st_macro (store_seeds now seeds st) = st_macro st"
  "st_audits (store_seeds now seeds st) = st_audits st"
  "st_digests (store_seeds now seeds st) = st_digests st"
  "st_events (store_seeds now seeds st) = fold (add_seed now) seeds (st_events st)"
  by (simp_all add: store_seeds_def)

lemma store_seeds_wf: "stream_wf st \<Longrightarrow> stream_wf (store_seeds now seeds st)"
  by (simp add: stream_wf_def is_degraded_def add_seeds_distinct)

lemma ready_status_wf: "macro_wf (ready_status p chain message now)"
  by (simp add: macro_wf_def ready_status_def)

lemma degraded_status_wf: "length seeds \<le> 3 \<Longrightarrow> macro_wf (degraded_status p chain exc seeds previous)"
  by (simp add: macro_wf_def degraded_status_def Let_def)

lemma macro_audit_kind [simp]: "au_event_type (macro_audit kind p status message now) = kind"
  by (simp add: macro_audit_def)

lemma ready_not_degraded [simp]: "\<not> sm_degraded (ready_status p chain message now)"
  by (simp add: ready_status_def)

lemma degraded_is_degraded [simp]: "sm_degraded (degraded_status p chain exc seeds previous)"
  by (simp add: degraded_status_def Let_def)

lemma fetch_succeeded_simps [simp]:
  "st_events (fetch_succeeded es now ft message st) = st_events st"
  "st_digests (fetch_succeeded es now ft message st) = st_digests st"
  "st_macro (fetch_succeeded es now ft message st) = Some (ready_status (ft_provider ft) (ft_chain ft) message now)"
  by (simp_all add: fetch_succeeded_def)

lemma fetch_failed_simps [simp]:
  "st_events (fetch_failed es now ft exc seeds st) = st_events st"
  "st_digests (fetch_failed es now ft exc seeds st) = st_digests st"
  "st_macro (fetch_failed es now ft exc seeds st)
     = Some (degraded_status (ft_provider ft) (ft_chain ft) exc seeds (stored_macro_status es st))"
  by (simp_all add: fetch_failed_def Let_def)

lemma fetch_succeeded_audits:
  "count_audits ''macro_provider_recovered'' (st_audits (fetch_succeeded es now ft message st))
     = count_audits ''macro_provider_recovered'' (st_audits st) + of_bool (is_degraded st)"
  "count_audits ''macro_provider_degraded'' (st_audits (fetch_succeeded es now ft message st))
     = count_audits ''macro_provider_degraded'' (st_audits st)"
  by (simp_all add: fetch_succeeded_def)

lemma fetch_failed_audits:
  "count_audits ''macro_provider_recovered'' (st_audits (fetch_failed es now ft exc seeds st))
     = count_audits ''macro_provider_recovered'' (st_audits st)"
  "count_audits ''macro_provider_degraded'' (st_audits st) + of_bool (\<not> is_degraded st)
     \<le> count_audits ''macro_provider_degraded'' (st_audits (fetch_failed es now ft exc seeds st))"
  by (simp_all add: fetch_failed_def Let_def)

lemma fetch_succeeded_wf:
  assumes "stream_wf st" shows "stream_wf (fetch_succeeded es now ft message st)"
  using assms unfolding stream_wf_def fetch_succeeded_audits fetch_succeeded_simps
  by (simp add: ready_status_wf is_degraded_def [of "fetch_succeeded _ _ _ _ _"])

lemma fetch_failed_wf:
  assumes "stream_wf st" "length seeds \<le> 3" shows "stream_wf (fetch_failed es now ft exc seeds st)"
  using assms fetch_failed_audits(2) [of st es now ft exc seeds]
  unfolding stream_wf_def fetch_failed_audits(1) fetch_failed_simps
  by (cases "is_degraded st")
    (simp_all add: degraded_status_wf is_degraded_def [of "fetch_failed _ _ _ _ _ _"])

lemma sync_provider_wf: "stream_wf st \<Longrightarrow> stream_wf (sync_provider isodate es symbol market now ft st)"
  by (auto simp: sync_provider_def Let_def store_seeds_wf fetch_succeeded_wf fetch_failed_wf length_fallback_seeds
      split: sum.split)

lemma sync_event_stream_wf: "stream_wf st \<Longrightarrow> stream_wf (sync_event_stream isodate es symbol market now fts st)"
  unfolding sync_event_stream_def
  by (induction fts arbitrary: st) (simp_all add: sync_provider_wf)

definition empty_stream :: stream where
  "empty_stream = \<lparr>st_events = [], st_macro = None, st_audits = [], st_digests = []\<rparr>"

definition run_stream ::
  "(int \<Rightarrow> string) \<Rightarrow> events_settings \<Rightarrow> string \<Rightarrow> string \<Rightarrow> (datetime \<times> fetched list) list \<Rightarrow> stream \<Rightarrow> stream" where
  "run_stream isodate es symbol market syncs st =
     fold (\<lambda>(now, fts). sync_event_stream isodate es symbol market now fts) syncs st"

lemma run_stream_wf: "stream_wf st \<Longrightarrow> stream_wf (run_stream isodate es symbol market syncs st)"
  unfolding run_stream_def
  by (induction syncs arbitrary: st) (auto simp: sync_event_stream_wf)

text \<open>C9. Whatever the providers answer over any number of syncs, the stored status is
  consistent, no event identifier is stored twice and the audit never records more recoveries
  than degradations.\<close>

theorem event_stream_invariant: "stream_wf (run_stream isodate es symbol market syncs empty_stream)"
  by (rule run_stream_wf) (simp add: stream_wf_def empty_stream_def is_degraded_def)

section \<open>An outage\<close>

definition recent_macro :: "events_settings \<Rightarrow> string \<Rightarrow> datetime \<Rightarrow> event list \<Rightarrow> bool" where
  "recent_macro es market now events \<longleftrightarrow>
     list_ex (\<lambda>e. ev_event_type e = Macro \<and> ev_market_scope e = market
        \<and> ev_published_at e \<ge> plus_days now (- es_fallback_max_age_days es)) events"

lemma fallback_records_Nil_iff: "fallback_records es market now events = [] \<longleftrightarrow> \<not> recent_macro es market now events"
proof -
  have "(fallback_records es market now events = []) = (filter (\<lambda>e. ev_event_type e = Macro \<and> ev_market_scope e = market
      \<and> ev_published_at e \<ge> plus_days now (- es_fallback_max_age_days es)) events = [])"
    by (metis (no_types, lifting) fallback_records_def set_empty set_sort_desc take_eq_Nil2 zero_neq_numeral)
  then show ?thesis by (auto simp: recent_macro_def filter_empty_conv list_ex_iff)
qed

lemma fallback_seeds_Nil_iff:
  "macro_fallback_seeds isodate es p symbol market now events = []
     \<longleftrightarrow> es_fallback_mode es \<noteq> ''reuse_last_good'' \<or> \<not> recent_macro es market now events"
proof -
  have "(macro_fallback_seeds isodate es p symbol market now events = [])
      = (es_fallback_mode es \<noteq> ''reuse_last_good'' \<or> fallback_records es market now events = [])"
    by (simp add: macro_fallback_seeds_def enumerate_eq_zip)
  then show ?thesis by (simp add: fallback_records_Nil_iff)
qed

lemma fallback_seeds_Cons:
  assumes "macro_fallback_seeds isodate es p symbol market now events = s # seeds"
  shows "sd_published_at s = now - 60" "sd_event_type s = Macro" "sd_market_scope s = market"
    "Max (set (map sd_published_at (s # seeds))) = now - 60"
proof -
  obtain r rs where recs: "fallback_records es market now events = r # rs"
    and s: "s = fallback_seed isodate p symbol market now 0 r"
    using assms by (cases "fallback_records es market now events")
      (auto simp: macro_fallback_seeds_def split: if_splits)
  show one: "sd_published_at s = now - 60" "sd_event_type s = Macro" "sd_market_scope s = market"
    by (simp_all add: s fallback_seed_def plus_minutes_def)
  have "sd_published_at x \<le> now - 60" if "x \<in> set (s # seeds)" for x
  proof -
    from that obtain i r' where "x = fallback_seed isodate p symbol market now i r'"
      unfolding assms [symmetric] by (auto simp: macro_fallback_seeds_def split: if_splits)
    then show ?thesis by (simp add: fallback_seed_def plus_minutes_def)
  qed
  then show "Max (set (map sd_published_at (s # seeds))) = now - 60"
    using one by (intro Max_eqI) auto
qed

lemma add_seeds_keep: "e \<in> set events \<Longrightarrow> e \<in> set (fold (add_seed now) seeds events)"
  by (induction seeds arbitrary: events) (auto simp: add_seed_def)

text \<open>One sync of a failing provider.\<close>

definition failing :: "string \<Rightarrow> string list \<Rightarrow> string \<Rightarrow> fetched" where
  "failing provider chain exc = \<lparr>ft_provider = provider, ft_chain = chain, ft_result = Inl exc\<rparr>"

definition fails :: "(int \<Rightarrow> string) \<Rightarrow> events_settings \<Rightarrow> string \<Rightarrow> string \<Rightarrow> string \<Rightarrow> string \<Rightarrow> datetime \<Rightarrow> stream \<Rightarrow> stream" where
  "fails isodate es provider exc symbol market now =
     sync_event_stream isodate es symbol market now [failing provider [provider] exc]"

definition shows_fresh_context :: "events_settings \<Rightarrow> datetime \<Rightarrow> stream \<Rightarrow> bool" where
  "shows_fresh_context es now st \<longleftrightarrow>
     (let s = get_macro_pipeline_status es now st
      in sm_degraded (mp_stored s) \<and> sm_using_last_known_context (mp_stored s)
         \<and> mp_freshness_hours s = Some 0 \<and> mp_freshness_tier s = Fresh)"

definition seed_is_new :: "(int \<Rightarrow> string) \<Rightarrow> events_settings \<Rightarrow> string \<Rightarrow> string \<Rightarrow> string \<Rightarrow> datetime \<Rightarrow> stream \<Rightarrow> bool" where
  "seed_is_new isodate es provider symbol market now st \<longleftrightarrow>
     (case macro_fallback_seeds isodate es provider symbol market now (st_events st) of
        [] \<Rightarrow> True | s # _ \<Rightarrow> sd_event_id s \<notin> set (map ev_event_id (st_events st)))"

lemma fails_unfold:
  "fails isodate es provider exc symbol market now st =
     (let seeds = macro_fallback_seeds isodate es provider symbol market now (st_events st)
      in store_seeds now seeds (fetch_failed es now (failing provider [provider] exc) exc seeds st))"
  by (simp add: fails_def sync_event_stream_def sync_provider_def failing_def)

lemma fails_shows_fresh:
  assumes "es_fallback_mode es = ''reuse_last_good''" "recent_macro es market now (st_events st)"
  shows "shows_fresh_context es now (fails isodate es provider exc symbol market now st)"
proof -
  obtain s seeds where seeds: "macro_fallback_seeds isodate es provider symbol market now (st_events st) = s # seeds"
    using assms by (metis fallback_seeds_Nil_iff neq_Nil_conv)
  let ?st = "fails isodate es provider exc symbol market now st"
  let ?new = "degraded_status provider [provider] exc (s # seeds) (stored_macro_status es st)"
  have macro: "st_macro ?st = Some ?new"
    by (simp add: fails_unfold Let_def seeds failing_def)
  have "sm_last_success_at ?new = Some (now - 60)" "sm_using_last_known_context ?new"
    using fallback_seeds_Cons(4) [OF seeds] by (simp_all add: degraded_status_def Let_def)
  moreover have "freshness_hours now (Some (now - 60)) = Some 0"
    by (simp add: freshness_hours_def py_round_def round_even_def Let_def)
  ultimately show ?thesis
    by (simp add: shows_fresh_context_def get_macro_pipeline_status_def stored_macro_status_def macro
        enrich_macro_pipeline_status_def Let_def freshness_tier_def)
qed

lemma fails_renews:
  assumes "es_fallback_mode es = ''reuse_last_good''" "recent_macro es market now (st_events st)"
    and "seed_is_new isodate es provider symbol market now st"
    and "later - now \<le> es_fallback_max_age_days es * 86400 - 60"
  shows "recent_macro es market later (st_events (fails isodate es provider exc symbol market now st))"
proof -
  obtain s seeds where seeds: "macro_fallback_seeds isodate es provider symbol market now (st_events st) = s # seeds"
    using assms by (metis fallback_seeds_Nil_iff neq_Nil_conv)
  have "event_of_seed now s \<in> set (add_seed now s (st_events st))"
    using assms(3) by (simp add: seed_is_new_def seeds add_seed_def)
  then have "event_of_seed now s \<in> set (st_events (fails isodate es provider exc symbol market now st))"
    by (simp add: fails_unfold Let_def seeds add_seeds_keep)
  moreover have "ev_event_type (event_of_seed now s) = Macro" "ev_market_scope (event_of_seed now s) = market"
    "ev_published_at (event_of_seed now s) = now - 60"
    using fallback_seeds_Cons [OF seeds] by (simp_all add: event_of_seed_def)
  ultimately show ?thesis
    using assms(4) by (force simp: recent_macro_def list_ex_iff plus_days_def)
qed

fun outage ::
  "(int \<Rightarrow> string) \<Rightarrow> events_settings \<Rightarrow> string \<Rightarrow> string \<Rightarrow> string \<Rightarrow> string \<Rightarrow> datetime list \<Rightarrow> stream \<Rightarrow> stream" where
  "outage isodate es provider exc symbol market [] st = st"
| "outage isodate es provider exc symbol market (now # ts) st =
     outage isodate es provider exc symbol market ts (fails isodate es provider exc symbol market now st)"

fun seeds_are_new ::
  "(int \<Rightarrow> string) \<Rightarrow> events_settings \<Rightarrow> string \<Rightarrow> string \<Rightarrow> string \<Rightarrow> string \<Rightarrow> datetime list \<Rightarrow> stream \<Rightarrow> bool" where
  "seeds_are_new isodate es provider exc symbol market [] st = True"
| "seeds_are_new isodate es provider exc symbol market (now # ts) st =
     (seed_is_new isodate es provider symbol market now st
      \<and> seeds_are_new isodate es provider exc symbol market ts (fails isodate es provider exc symbol market now st))"

fun paced :: "int \<Rightarrow> datetime \<Rightarrow> datetime list \<Rightarrow> bool" where
  "paced gap t [] = True"
| "paced gap t (u # us) = (u - t \<le> gap \<and> paced gap u us)"

text \<open>The age limit of the fallback has no effect during an outage.  As long as the syncs follow
  each other within the limit, each failing sync republishes the context it found, so the next
  one finds it again and the status calls it fresh, zero hours old, however long ago the
  last provider answered.\<close>

theorem outage_context_never_expires:
  assumes "es_fallback_mode es = ''reuse_last_good''" "recent_macro es market now (st_events st)"
    and "paced (es_fallback_max_age_days es * 86400 - 60) now ts"
    and "seeds_are_new isodate es provider exc symbol market (now # ts) st"
  shows "shows_fresh_context es (last (now # ts)) (outage isodate es provider exc symbol market (now # ts) st)"
  using assms(2-4)
proof (induction ts arbitrary: now st)
  case Nil
  then show ?case by (simp add: fails_shows_fresh [OF assms(1)])
next
  case (Cons u us)
  have "recent_macro es market u (st_events (fails isodate es provider exc symbol market now st))"
    using Cons.prems by (intro fails_renews assms(1)) auto
  from Cons.IH [OF this] Cons.prems show ?case by simp
qed

definition month_old_stream :: stream where
  "month_old_stream = empty_stream\<lparr>st_events :=
     [event_of_seed 0 (demo_event 36000 ''2800.HK'' ''HK'' 0 10 ''Policy'' ''text'' [''macro''] 0.83 0.24)]\<rparr>"

lemma outage_context_never_expires_witness:
  "shows_fresh_context events_default (30 * 86400)
     (outage (\<lambda>_. ''day'') events_default ''fred'' ''timeout'' ''2800.HK'' ''HK''
        [10 * 86400, 20 * 86400, 30 * 86400] month_old_stream)"
proof -
  have "recent_macro events_default ''HK'' (10 * 86400) (st_events month_old_stream)"
    "es_fallback_mode events_default = ''reuse_last_good''"
    "paced (es_fallback_max_age_days events_default * 86400 - 60) (10 * 86400) [20 * 86400, 30 * 86400]"
    by code_simp+
  moreover have "seeds_are_new (\<lambda>_. ''day'') events_default ''fred'' ''timeout'' ''2800.HK'' ''HK''
      [10 * 86400, 20 * 86400, 30 * 86400] month_old_stream"
    by code_simp
  ultimately show ?thesis
    using outage_context_never_expires [of events_default "''HK''" "10 * 86400" month_old_stream
        "[20 * 86400, 30 * 86400]" "\<lambda>_. ''day''" "''fred''" "''timeout''" "''2800.HK''"] by simp
qed

section \<open>The digests follow the events\<close>

definition digests_at :: "digest_key \<Rightarrow> digest list \<Rightarrow> digest list" where
  "digests_at k = filter (\<lambda>d. digest_key d = k)"

definition shows_group :: "event list \<Rightarrow> digest_key \<Rightarrow> digest \<Rightarrow> bool" where
  "shows_group events k d \<longleftrightarrow>
     dg_event_ids d = map ev_event_id (digest_group events k)
     \<and> dg_macro_summary d = macro_summary (digest_group events k)
     \<and> dg_aggregate_sentiment d = impact (digest_group events k)
     \<and> dg_macro_bias d = dg_aggregate_sentiment d"

lemma digest_values_key [simp]: "digest_key (digest_values h k items d) = digest_key d"
  and digest_values_id [simp]: "dg_id (digest_values h k items d) = dg_id d"
  by (simp_all add: digest_values_def digest_key_def Let_def)

lemma digest_values_show: "shows_group events k (digest_values h k (digest_group events k) d)"
proof -
  have "filter (\<lambda>e. ev_event_type e = Macro) xs = xs" for xs :: "event list"
    by (rule filter_True) (metis event_type.exhaust)
  then show ?thesis by (simp add: shows_group_def digest_values_def Let_def)
qed

lemma blank_digest_simps [simp]: "digest_key (blank_digest now i k) = k" "dg_id (blank_digest now i k) = i"
  by (simp_all add: blank_digest_def digest_key_def)

lemma next_digest_id_fresh: "next_digest_id ds \<notin> set (map dg_id ds)"
proof -
  have "x \<le> foldr max xs 0" if "x \<in> set xs" for x :: nat and xs
    using that by (induction xs) auto
  from this [of _ "map dg_id ds"] show ?thesis unfolding next_digest_id_def by fastforce
qed

lemma distinct_map_filter_eq:
  assumes "distinct (map f xs)" "x \<in> set xs"
  shows "filter (\<lambda>y. f y = f x) xs = [x]"
  using assms by (induction xs) (auto simp: filter_empty_conv rev_image_eqI)

lemma sync_digest_group:
  assumes "distinct (map dg_id ds)"
  shows "distinct (map dg_id (sync_digest h now events k ds))"
    and "\<exists>d. digests_at k (sync_digest h now events k ds) = [d] \<and> shows_group events k d"
    and "k' \<noteq> k \<Longrightarrow> digests_at k' (sync_digest h now events k ds) = digests_at k' ds"
proof -
  let ?found = "sort_desc dg_id (digests_at k ds)"
  have "distinct (map dg_id (sync_digest h now events k ds))
    \<and> (\<exists>d. digests_at k (sync_digest h now events k ds) = [d] \<and> shows_group events k d)
    \<and> (k' \<noteq> k \<longrightarrow> digests_at k' (sync_digest h now events k ds) = digests_at k' ds)"
  proof (cases ?found)
    case Nil
    then have none: "digests_at k ds = []" by (metis set_empty set_sort_desc)
    have "sync_digest h now events k ds
        = ds @ [digest_values h k (digest_group events k) (blank_digest now (next_digest_id ds) k)]"
      using Nil by (simp add: sync_digest_def digests_at_def Let_def)
    then show ?thesis
      using assms none next_digest_id_fresh [of ds] digest_values_show
      by (auto simp: digests_at_def)
  next
    case (Cons d dups)
    let ?keep = "filter (\<lambda>x. dg_id x \<notin> set (map dg_id dups)) ds"
    let ?upd = "\<lambda>x. if dg_id x = dg_id d then digest_values h k (digest_group events k) x else x"
    have eq: "sync_digest h now events k ds = map ?upd ?keep"
      using Cons by (simp add: sync_digest_def digests_at_def Let_def)
    have "set (d # dups) = set (digests_at k ds)" using Cons by (metis set_sort_desc)
    moreover have "mset (map dg_id (d # dups)) = mset (map dg_id (digests_at k ds))"
      unfolding mset_map using Cons by (metis mset_sort_desc)
    then have "distinct (map dg_id (d # dups))"
      using distinct_map_filter [OF assms] unfolding digests_at_def by (metis mset_eq_imp_distinct_iff)
    ultimately have at: "set (d # dups) = set (digests_at k ds)" "distinct (map dg_id (d # dups))"
      by blast+
    have d: "d \<in> set ds" "digest_key d = k" "dg_id d \<notin> set (map dg_id dups)"
      using at by (auto simp: digests_at_def)
    have same: "x = y" if "x \<in> set ds" "y \<in> set ds" "dg_id x = dg_id y" for x y
      using assms that by (auto simp: distinct_map inj_on_def)
    have ids: "map dg_id (map ?upd ?keep) = map dg_id ?keep" by simp
    have k: "digests_at k ?keep = [d]"
    proof -
      have "(dg_id x \<notin> set (map dg_id dups) \<and> digest_key x = k) = (dg_id x = dg_id d)"
        if x: "x \<in> set ds" for x
      proof
        assume "dg_id x \<notin> set (map dg_id dups) \<and> digest_key x = k"
        then have "x \<in> set (d # dups)" "x \<notin> set dups"
          using x unfolding at(1) by (auto simp: digests_at_def)
        then show "dg_id x = dg_id d" by simp
      qed (use same [OF x d(1)] d in simp)
      then have "digests_at k ?keep = filter (\<lambda>x. dg_id x = dg_id d) ds"
        unfolding digests_at_def filter_filter by (intro filter_cong) simp_all
      then show ?thesis using distinct_map_filter_eq [OF assms d(1)] by simp
    qed
    have at_map: "digests_at j (map ?upd xs) = map ?upd (digests_at j xs)" for j xs
      by (induction xs) (simp_all add: digests_at_def)
    have other: "digests_at k' (map ?upd ?keep) = digests_at k' ds" if "k' \<noteq> k"
    proof -
      have "(dg_id x \<notin> set (map dg_id dups) \<and> digest_key x = k') = (digest_key x = k')"
        if x: "x \<in> set ds" for x
      proof -
        have "y \<in> set ds \<and> digest_key y = k" if "y \<in> set dups" for y
          using that at(1) by (auto simp: digests_at_def)
        then show ?thesis using same [OF x] \<open>k' \<noteq> k\<close> by auto
      qed
      then have "digests_at k' ?keep = digests_at k' ds"
        unfolding digests_at_def filter_filter by (intro filter_cong) simp_all
      moreover have "map ?upd (digests_at k' ds) = digests_at k' ds"
        using d that same by (intro map_idI) (auto simp: digests_at_def)
      ultimately show ?thesis by (simp add: at_map)
    qed
    have "distinct (map dg_id (map ?upd ?keep))"
      unfolding ids by (rule distinct_map_filter [OF assms])
    moreover have "digests_at k (map ?upd ?keep) = [digest_values h k (digest_group events k) d]"
      unfolding at_map k by simp
    ultimately show ?thesis
      unfolding eq using other digest_values_show by blast
  qed
  then show "distinct (map dg_id (sync_digest h now events k ds))"
    "\<exists>d. digests_at k (sync_digest h now events k ds) = [d] \<and> shows_group events k d"
    "k' \<noteq> k \<Longrightarrow> digests_at k' (sync_digest h now events k ds) = digests_at k' ds" by simp_all
qed

lemma sync_digests_fold:
  assumes "distinct ks" "distinct (map dg_id ds)"
  shows "(k \<in> set ks \<longrightarrow> (\<exists>d. digests_at k (fold (sync_digest h now events) ks ds) = [d] \<and> shows_group events k d))
    \<and> (k \<notin> set ks \<longrightarrow> digests_at k (fold (sync_digest h now events) ks ds) = digests_at k ds)"
  using assms
proof (induction ks arbitrary: ds)
  case (Cons j js)
  note step = sync_digest_group [OF Cons.prems(2), where h = h and now = now and events = events and k = j]
  note rest = Cons.IH [of "sync_digest h now events j ds"]
  show ?case
  proof (cases "k = j")
    case True
    then have "digests_at k (fold (sync_digest h now events) (j # js) ds)
        = digests_at k (sync_digest h now events j ds)"
      using rest step(1) Cons.prems(1) by simp
    then show ?thesis using True step(2) by simp
  next
    case False
    then show ?thesis using rest step(1) step(3) [of k] Cons.prems(1) by simp
  qed
qed simp

text \<open>After the digests are synchronised, the day of every stored event has exactly one digest
  for its market and symbol, which lists the events of that day, newest first, and whose two
  scores are the same number; the digests of other days are left alone.\<close>

theorem digests_follow_events:
  assumes "distinct (map dg_id (st_digests st))"
  shows "list_all (\<lambda>e. case digests_at (event_key e) (st_digests (sync_daily_event_digests h now st)) of
            [d] \<Rightarrow> shows_group (st_events st) (event_key e) d | _ \<Rightarrow> False) (st_events st)
    \<and> (k \<in> event_key ` set (st_events st)
       \<or> digests_at k (st_digests (sync_daily_event_digests h now st)) = digests_at k (st_digests st))"
proof -
  have keys: "set (dedupe (map event_key (newest_first (st_events st)))) = event_key ` set (st_events st)"
    by (simp add: newest_first_def)
  have fold: "st_digests (sync_daily_event_digests h now st)
      = fold (sync_digest h now (st_events st)) (dedupe (map event_key (newest_first (st_events st)))) (st_digests st)"
    by (simp add: sync_daily_event_digests_def)
  have at: "(j \<in> event_key ` set (st_events st) \<longrightarrow>
        (\<exists>d. digests_at j (st_digests (sync_daily_event_digests h now st)) = [d] \<and> shows_group (st_events st) j d))
      \<and> (j \<notin> event_key ` set (st_events st) \<longrightarrow>
        digests_at j (st_digests (sync_daily_event_digests h now st)) = digests_at j (st_digests st))" for j
    unfolding fold keys [symmetric] by (rule sync_digests_fold [OF distinct_dedupe assms])
  have "case digests_at (event_key e) (st_digests (sync_daily_event_digests h now st)) of
      [d] \<Rightarrow> shows_group (st_events st) (event_key e) d | _ \<Rightarrow> False" if "e \<in> set (st_events st)" for e
    using at [of "event_key e"] that by auto
  then show ?thesis using at [of k] by (auto simp: list_all_iff)
qed

lemma digests_follow_events_witness:
  "list_all (\<lambda>e. case digests_at (event_key e) (st_digests (sync_daily_event_digests (\<lambda>_ _ _ _. ''hash'') 0 month_old_stream)) of
      [d] \<Rightarrow> shows_group (st_events month_old_stream) (event_key e) d | _ \<Rightarrow> False) (st_events month_old_stream)
   \<and> st_events month_old_stream \<noteq> []"
  using digests_follow_events [of month_old_stream "\<lambda>_ _ _ _. ''hash''" 0]
  by (simp add: month_old_stream_def empty_stream_def)

end
