(* ===== verification/Quality_Track.thy ===== *)
theory Quality_Track imports Pool_Properties Strategy_Registry begin

text \<open>
  The track record and the ranking that \<open>api/services.py\<close> attaches to the quality report of a
  proposal: \<open>_attach_quality_track_record\<close> looks at the twelve latest proposals of the same
  symbol and strategy, \<open>_attach_pool_ranking\<close> orders the pool by score.  The parameters that
  a proposal's specification names are an argument, keyed by its identifier.
\<close>

section \<open>The track record\<close>

datatype trend = Improving | Weakening | Steady

record track_record =
  tr_recent_total :: nat
  tr_recent_comparable :: nat
  tr_recent_replaceable :: nat
  tr_comparable_ratio :: real
  tr_replaceable_ratio :: real
  tr_average_final_score :: real
  tr_best_final_score :: real
  tr_average_stability_ratio :: real
  tr_stable_streak :: nat
  tr_trend :: trend
  tr_recent_30d_total :: nat
  tr_recent_30d_comparable :: nat

definition proposal_base_strategy :: "(string \<Rightarrow> params) \<Rightarrow> proposal \<Rightarrow> string" where
  "proposal_base_strategy spec p = base_strategy_from_spec (pr_title p) (spec (pr_id p))"

definition track_peers :: "(string \<Rightarrow> params) \<Rightarrow> pool \<Rightarrow> proposal \<Rightarrow> proposal list" where
  "track_peers spec pool p =
     take 12 (filter (\<lambda>r. pr_symbol r = pr_symbol p \<and> proposal_base_strategy spec r = proposal_base_strategy spec p)
       (sort_desc pr_created_at pool))"

text \<open>The rows the loop visits: it stops after the first other proposal that is not comparable.\<close>

fun visited :: "string \<Rightarrow> proposal list \<Rightarrow> proposal list" where
  "visited i [] = []"
| "visited i (r # rs) =
     r # (if \<not> qr_comparable (pr_quality r) \<and> pr_id r \<noteq> i then [] else visited i rs)"

definition mean :: "real list \<Rightarrow> real" where
  "mean xs = sum_list xs / of_nat (length xs)"

definition score_trend :: "real \<Rightarrow> real list \<Rightarrow> trend" where
  "score_trend own scores =
     (let recent_three = take 3 scores;
          prior_three = take 3 (drop 3 scores);
          recent_avg = (if recent_three = [] then own else mean recent_three);
          prior_avg = (if prior_three = [] then recent_avg else mean prior_three)
      in if recent_avg - prior_avg \<ge> 2 then Improving
         else if prior_avg - recent_avg \<ge> 2 then Weakening else Steady)"

definition within_30_days :: "proposal \<Rightarrow> proposal \<Rightarrow> bool" where
  "within_30_days p r \<longleftrightarrow> \<bar>dt_date (pr_created_at p) - dt_date (pr_created_at r)\<bar> \<le> 30"

definition count_of :: "('a \<Rightarrow> bool) \<Rightarrow> 'a list \<Rightarrow> nat" where
  "count_of P xs = length (filter P xs)"

definition track_of :: "proposal \<Rightarrow> proposal list \<Rightarrow> track_record" where
  "track_of p recent =
     (let seen = visited (pr_id p) recent;
          scores = map pr_final_score seen;
          stability = map (\<lambda>r. qr_stability_ratio (pr_quality r)) seen;
          comparable = count_of (\<lambda>r. qr_comparable (pr_quality r)) seen;
          replaceable = count_of (\<lambda>r. qr_replaceable (pr_quality r)) seen;
          ratio = (\<lambda>k. if recent = [] then 0 else py_round (of_nat k / of_nat (length recent)) 3)
      in \<lparr>tr_recent_total = length recent,
          tr_recent_comparable = comparable,
          tr_recent_replaceable = replaceable,
          tr_comparable_ratio = ratio comparable,
          tr_replaceable_ratio = ratio replaceable,
          tr_average_final_score = py_round (if scores = [] then pr_final_score p else mean scores) 1,
          tr_best_final_score = py_round (if scores = [] then pr_final_score p else Max (set scores)) 1,
          tr_average_stability_ratio = (if stability = [] then 0 else py_round (mean stability) 3),
          tr_stable_streak = count_of (\<lambda>r. qr_comparable (pr_quality r) \<and> pr_id r \<noteq> pr_id p) seen,
          tr_trend = score_trend (pr_final_score p) scores,
          tr_recent_30d_total = count_of (within_30_days p) recent,
          tr_recent_30d_comparable =
            count_of (\<lambda>r. within_30_days p r \<and> qr_comparable (pr_quality r)) recent\<rparr>)"

definition track_record :: "(string \<Rightarrow> params) \<Rightarrow> pool \<Rightarrow> proposal \<Rightarrow> track_record" where
  "track_record spec pool p = track_of p (track_peers spec pool p)"

definition attach_quality_track_record ::
  "(string \<Rightarrow> params) \<Rightarrow> pool \<Rightarrow> proposal list \<Rightarrow> (proposal \<times> track_record) list" where
  "attach_quality_track_record spec pool ps = map (\<lambda>p. (p, track_record spec pool p)) ps"

section \<open>The ranking of the pool\<close>

datatype selection_state = Leader | Challenger | Trailing

record pool_ranking =
  pk_rank :: nat
  pk_total_tracked :: nat
  pk_leader_score :: real
  pk_leader_gap :: real
  pk_percentile :: real
  pk_median_score :: real
  pk_median_gap :: real
  pk_selection_state :: selection_state

definition ranked_pool :: "proposal list \<Rightarrow> proposal list" where
  "ranked_pool = sort_desc (\<lambda>p. (pr_final_score p, pr_created_at p))"

definition rank_percentile :: "nat \<Rightarrow> nat \<Rightarrow> real" where
  "rank_percentile n index =
     (if n > 1 then py_round (of_int (int n - int index) / of_int (max (int n - 1) 1)) 3 else 1)"

definition ranking_at :: "proposal list \<Rightarrow> nat \<Rightarrow> proposal \<Rightarrow> pool_ranking" where
  "ranking_at ranked index p =
     (let n = length ranked;
          leader = pr_final_score (hd ranked);
          median = pr_final_score (ranked ! (n div 2))
      in \<lparr>pk_rank = index, pk_total_tracked = n, pk_leader_score = leader,
          pk_leader_gap = py_round (leader - pr_final_score p) 1,
          pk_percentile = rank_percentile n index,
          pk_median_score = py_round median 1,
          pk_median_gap = py_round (pr_final_score p - median) 1,
          pk_selection_state = (if index = 1 then Leader
             else if pr_status p \<in> {CANDIDATE, ACTIVE} then Challenger else Trailing)\<rparr>)"

text \<open>The loop runs over the ranked list and writes into the shared rows; the list that is
  returned is the one that was given.\<close>

definition rank_rows :: "proposal list \<Rightarrow> (proposal \<times> pool_ranking) list" where
  "rank_rows ps = map (\<lambda>(i, p). (p, ranking_at (ranked_pool ps) i p)) (enumerate 1 (ranked_pool ps))"

definition attach_pool_ranking :: "proposal list \<Rightarrow> (proposal \<times> pool_ranking option) list" where
  "attach_pool_ranking ps =
     map (\<lambda>p. (p, map_of (map (\<lambda>(q, k). (pr_id q, k)) (rank_rows ps)) (pr_id p))) ps"

section \<open>What a track record can say\<close>

lemma length_visited: "length (visited i rs) \<le> length rs"
  by (induction rs) auto

lemma visited_Nil_iff [simp]: "visited i rs = [] \<longleftrightarrow> rs = []"
  by (cases rs) auto

lemma count_of_le: "count_of P xs \<le> length xs"
  by (simp add: count_of_def)

lemma count_of_mono: "(\<And>x. x \<in> set xs \<Longrightarrow> P x \<Longrightarrow> Q x) \<Longrightarrow> count_of P xs \<le> count_of Q xs"
  unfolding count_of_def by (induction xs) auto

lemma length_track_peers: "length (track_peers spec pool p) \<le> 12"
  by (simp add: track_peers_def)

lemma mean_le_Max: assumes "xs \<noteq> []" shows "mean xs \<le> Max (set xs)"
proof -
  have "sum_list xs \<le> of_nat (length xs) * Max (set xs)"
    using sum_list_mono [of xs "\<lambda>x. x" "\<lambda>_. Max (set xs)"] by (simp add: sum_list_triv)
  then show ?thesis using assms by (simp add: mean_def divide_le_eq mult.commute)
qed

lemma unit_ratio:
  assumes "k \<le> n" "0 < n"
  shows "0 \<le> py_round (of_nat k / of_nat n) 3 \<and> py_round (of_nat k / of_nat n) 3 \<le> 1"
proof
  show "0 \<le> py_round (of_nat k / of_nat n :: real) 3" by (rule py_round_nonneg) simp
  show "py_round (of_nat k / of_nat n :: real) 3 \<le> 1"
    using py_round_le_of_int [of "of_nat k / of_nat n" 1 3] assms by simp
qed

lemma stable_streak_le: "tr_stable_streak (track_record spec pool p) \<le> 12"
  unfolding track_record_def track_of_def Let_def track_record.simps
  by (rule order_trans [OF count_of_le order_trans [OF length_visited length_track_peers]])

text \<open>A track record is a summary of at most twelve rows: its ratios lie between 0 and 1, its
  average never exceeds its best score, and the streak is at most the number of comparable rows,
  at most twelve.\<close>

theorem track_record_contract:
  "tr_stable_streak (track_record spec pool p) \<le> tr_recent_comparable (track_record spec pool p)
   \<and> tr_recent_comparable (track_record spec pool p) \<le> tr_recent_total (track_record spec pool p)
   \<and> tr_recent_total (track_record spec pool p) \<le> 12
   \<and> tr_comparable_ratio (track_record spec pool p) \<in> {0..1}
   \<and> tr_replaceable_ratio (track_record spec pool p) \<in> {0..1}
   \<and> tr_average_final_score (track_record spec pool p) \<le> tr_best_final_score (track_record spec pool p)"
proof -
  let ?recent = "track_peers spec pool p"
  let ?seen = "visited (pr_id p) ?recent"
  have "count_of (\<lambda>r. qr_comparable (pr_quality r) \<and> pr_id r \<noteq> pr_id p) ?seen
      \<le> count_of (\<lambda>r. qr_comparable (pr_quality r)) ?seen" by (rule count_of_mono) simp
  moreover have count: "count_of P ?seen \<le> length ?recent" for P
    using count_of_le length_visited order_trans by blast
  moreover have "?recent \<noteq> [] \<Longrightarrow> mean (map pr_final_score ?seen) \<le> Max (set (map pr_final_score ?seen))"
    by (rule mean_le_Max) simp
  ultimately show ?thesis
    using length_track_peers [of spec pool p] unit_ratio [OF count]
    unfolding track_record_def track_of_def Let_def
    by (cases "?recent = []") (auto intro: py_round_mono)
qed

text \<open>Where the loop stops, the counts stop: the rows after the first other proposal that is not
  comparable leave the counts of comparable and replaceable rows as they are, while the total
  and the thirty-day counts still include them.\<close>

lemma visited_append:
  assumes "\<not> qr_comparable (pr_quality r)" "pr_id r \<noteq> i"
  shows "visited i (rs @ r # later) = visited i (rs @ [r])"
  using assms by (induction rs) auto

theorem counts_stop_at_incomparable:
  assumes "\<not> qr_comparable (pr_quality r)" "pr_id r \<noteq> pr_id p"
  shows "tr_recent_comparable (track_of p (rs @ r # later)) = tr_recent_comparable (track_of p (rs @ [r]))
    \<and> tr_recent_replaceable (track_of p (rs @ r # later)) = tr_recent_replaceable (track_of p (rs @ [r]))
    \<and> tr_stable_streak (track_of p (rs @ r # later)) = tr_stable_streak (track_of p (rs @ [r]))
    \<and> tr_recent_total (track_of p (rs @ r # later)) = length rs + 1 + length later"
  using visited_append [OF assms, of rs later] by (simp add: track_of_def Let_def)

section \<open>What a ranking says\<close>

lemma length_ranked_pool [simp]: "length (ranked_pool ps) = length ps"
  and set_ranked_pool [simp]: "set (ranked_pool ps) = set ps"
  and mset_ranked_pool: "mset (ranked_pool ps) = mset ps"
  by (simp_all add: ranked_pool_def)

lemma ranked_pool_mono:
  assumes "i \<le> j" "j < length ps"
  shows "pr_final_score (ranked_pool ps ! j) \<le> pr_final_score (ranked_pool ps ! i)"
proof (cases "i = j")
  case False
  have "(pr_final_score (ranked_pool ps ! j), pr_created_at (ranked_pool ps ! j))
      \<le> (pr_final_score (ranked_pool ps ! i), pr_created_at (ranked_pool ps ! i))"
    using sorted_wrt_nth_less [OF sorted_sort_desc, of i j "\<lambda>p. (pr_final_score p, pr_created_at p)" ps] assms False
    by (simp add: ranked_pool_def)
  then show ?thesis by (auto simp: less_eq_prod_def)
qed simp

lemma length_takeWhile_less: "\<exists>x\<in>set xs. \<not> P x \<Longrightarrow> length (takeWhile P xs) < length xs"
  by (induction xs) auto

definition rank_index :: "proposal list \<Rightarrow> proposal \<Rightarrow> nat" where
  "rank_index ps p = length (takeWhile (\<lambda>q. pr_id q \<noteq> pr_id p) (ranked_pool ps))"

lemma rank_index:
  assumes "distinct (map pr_id ps)" "p \<in> set ps"
  shows "rank_index ps p < length ps" "ranked_pool ps ! rank_index ps p = p"
proof -
  have ex: "\<exists>q\<in>set (ranked_pool ps). \<not> pr_id q \<noteq> pr_id p" using assms(2) by auto
  then show less: "rank_index ps p < length ps"
    unfolding rank_index_def using length_takeWhile_less [OF ex] by simp
  have "pr_id (ranked_pool ps ! rank_index ps p) = pr_id p"
    using nth_length_takeWhile [of "\<lambda>q. pr_id q \<noteq> pr_id p" "ranked_pool ps"] less
    by (simp add: rank_index_def)
  moreover have "ranked_pool ps ! rank_index ps p \<in> set ps"
    using less by (metis length_ranked_pool nth_mem set_ranked_pool)
  ultimately show "ranked_pool ps ! rank_index ps p = p"
    using assms by (meson distinct_map inj_onD)
qed

lemma attached_ranking:
  assumes "distinct (map pr_id ps)" "p \<in> set ps"
  shows "map_of (map (\<lambda>(q, k). (pr_id q, k)) (rank_rows ps)) (pr_id p)
    = Some (ranking_at (ranked_pool ps) (Suc (rank_index ps p)) p)"
proof -
  let ?r = "ranked_pool ps"
  have eq: "map (\<lambda>(q, k). (pr_id q, k)) (rank_rows ps)
      = map (\<lambda>(j, q). (pr_id q, ranking_at ?r j q)) (enumerate 1 ?r)"
    by (simp add: rank_rows_def split_def)
  have "map fst (map (\<lambda>(j, q). (pr_id q, ranking_at ?r j q)) (enumerate 1 ?r)) = map pr_id (map snd (enumerate 1 ?r))"
    unfolding map_map by (rule map_cong) auto
  then have "distinct (map fst (map (\<lambda>(j, q). (pr_id q, ranking_at ?r j q)) (enumerate 1 ?r)))"
    using assms(1) mset_ranked_pool [of ps] by (metis map_snd_enumerate mset_eq_imp_distinct_iff mset_map)
  moreover have "(Suc (rank_index ps p), p) \<in> set (enumerate 1 ?r)"
    using rank_index [OF assms] by (simp add: in_set_enumerate_eq)
  then have "(pr_id p, ranking_at ?r (Suc (rank_index ps p)) p)
      \<in> set (map (\<lambda>(j, q). (pr_id q, ranking_at ?r j q)) (enumerate 1 ?r))"
    by force
  ultimately show ?thesis unfolding eq by (rule map_of_is_SomeI)
qed

lemma attach_pool_ranking_eq:
  "distinct (map pr_id ps) \<Longrightarrow>
   attach_pool_ranking ps = map (\<lambda>p. (p, Some (ranking_at (ranked_pool ps) (Suc (rank_index ps p)) p))) ps"
  by (simp add: attach_pool_ranking_def attached_ranking)

lemma rank_percentile_range:
  assumes "1 \<le> i" "i \<le> n" shows "rank_percentile n i \<in> {0..1}"
proof (cases "n > 1")
  case True
  let ?f = "of_int (int n - int i) / of_int (max (int n - 1) 1) :: real"
  have "0 \<le> ?f" "?f \<le> 1" using True assms by (simp_all add: divide_simps)
  then show ?thesis
    using True py_round_le_of_int [of ?f 1 3] py_round_nonneg [of ?f 3]
    unfolding rank_percentile_def by simp
qed (simp add: rank_percentile_def)

definition ranking_ok :: "nat \<Rightarrow> proposal \<Rightarrow> pool_ranking \<Rightarrow> bool" where
  "ranking_ok n p k \<longleftrightarrow>
     pk_rank k \<in> {1..n} \<and> pk_total_tracked k = n \<and> 0 \<le> pk_leader_gap k
     \<and> pk_percentile k \<in> {0..1} \<and> (pk_rank k = 1) = (pk_selection_state k = Leader)"

lemma ranking_at_ok:
  assumes "distinct (map pr_id ps)" "p \<in> set ps"
  shows "ranking_ok (length ps) p (ranking_at (ranked_pool ps) (Suc (rank_index ps p)) p)"
proof -
  let ?i = "rank_index ps p" and ?n = "length ps"
  have i: "?i < ?n" "ranked_pool ps ! ?i = p" using rank_index [OF assms] by simp_all
  have "pr_final_score p \<le> pr_final_score (hd (ranked_pool ps))"
    using ranked_pool_mono [of 0 ?i ps] i by (metis gr_implies_not0 hd_conv_nth le0 length_0_conv length_ranked_pool)
  then have gap: "0 \<le> py_round (pr_final_score (hd (ranked_pool ps)) - pr_final_score p) 1"
    by (intro py_round_nonneg) simp
  show ?thesis
    using i gap rank_percentile_range [of "Suc ?i" ?n] by (simp add: ranking_ok_def ranking_at_def Let_def)
qed

text \<open>The ranks of a pool are the numbers from 1 to its size, one each; a better rank never has
  a lower score, exactly the first is the leader, and gaps and percentiles are in range.\<close>

theorem pool_ranking_contract:
  assumes "distinct (map pr_id ps)"
  shows "map fst (attach_pool_ranking ps) = ps
    \<and> list_all (\<lambda>(p, k). \<exists>r. k = Some r \<and> ranking_ok (length ps) p r) (attach_pool_ranking ps)
    \<and> distinct (map (\<lambda>(p, k). pk_rank (the k)) (attach_pool_ranking ps))
    \<and> list_all (\<lambda>(p, k). list_all (\<lambda>(q, l). pr_final_score p > pr_final_score q
          \<longrightarrow> pk_rank (the k) < pk_rank (the l)) (attach_pool_ranking ps)) (attach_pool_ranking ps)"
proof -
  note eq = attach_pool_ranking_eq [OF assms]
  have rank: "pk_rank (ranking_at rs i p) = i" for rs i p by (simp add: ranking_at_def Let_def)
  have "inj_on (rank_index ps) (set ps)"
    by (rule inj_onI) (metis assms rank_index(2))
  then have "distinct (map (\<lambda>p. Suc (rank_index ps p)) ps)"
    using assms by (simp add: distinct_map inj_on_def)
  moreover have "rank_index ps p < rank_index ps q"
    if "p \<in> set ps" "q \<in> set ps" "pr_final_score q < pr_final_score p" for p q
  proof (rule ccontr)
    assume "\<not> rank_index ps p < rank_index ps q"
    then show False
      using ranked_pool_mono [of "rank_index ps q" "rank_index ps p" ps] rank_index [OF assms that(1)]
        rank_index [OF assms that(2)] that(3) by simp
  qed
  ultimately show ?thesis
    unfolding eq using ranking_at_ok [OF assms]
    by (simp add: list_all_iff comp_def rank)
qed

lemma pool_ranking_contract_witness:
  "distinct (map (\<lambda>(p, k). pk_rank (the k))
     (attach_pool_ranking [sample_proposal ''a'' CANDIDATE 0, sample_proposal ''b'' CANDIDATE 0]))"
  using pool_ranking_contract [of "[sample_proposal ''a'' CANDIDATE 0, sample_proposal ''b'' CANDIDATE 0]"]
  by (simp add: sample_proposal_def)

lemma counts_stop_at_incomparable_witness:
  "tr_recent_comparable (track_of (sample_proposal ''a'' CANDIDATE 0)
     [(sample_proposal ''b'' CANDIDATE 0)\<lparr>pr_quality := sample_quality\<lparr>qr_comparable := False\<rparr>\<rparr>,
      sample_proposal ''c'' CANDIDATE 0]) = 0"
  using counts_stop_at_incomparable [of "(sample_proposal ''b'' CANDIDATE 0)\<lparr>pr_quality := sample_quality\<lparr>qr_comparable := False\<rparr>\<rparr>"
      "sample_proposal ''a'' CANDIDATE 0" "[]" "[sample_proposal ''c'' CANDIDATE 0]"]
  by (simp add: sample_proposal_def) (simp add: track_of_def Let_def count_of_def)

end
