(* ===== verification/Live_Readiness.thy ===== *)
theory Live_Readiness imports Event_Stream Quality_Track Paper_Execution begin

text \<open>
  The acceptance of the paper account and the readiness for live trading in
  \<open>api/services.py\<close>: the operational checks, the acceptance report, the four scores of the
  readiness with their blockers, its history and the change between two evaluations.  The
  summary sentences and the figures that a report only copies are left out.
\<close>

section \<open>Operational acceptance\<close>

text \<open>Every order the service inserts has the status \<open>filled\<close>; \<open>order_statuses\<close> is that
  column of the table.\<close>

definition order_statuses :: "order_row list \<Rightarrow> string list" where
  "order_statuses = map (\<lambda>_. ''filled'')"

definition order_fill_rate :: "string list \<Rightarrow> real option" where
  "order_fill_rate statuses =
     (if statuses = [] then None
      else Some (of_nat (count_of (\<lambda>s. py_lower s = ''filled'') statuses) / of_nat (length statuses)))"

datatype acceptance_check = Minimum_live_days | Fill_rate_ok | Drawdown_within_acceptance | Macro_pipeline_is_ready

datatype acceptance_status = Accepted | Provisional | Review_required

record operational_acceptance =
  oa_status :: acceptance_status
  oa_live_days :: int
  oa_fill_rate :: "real option"
  oa_drawdown :: real
  oa_failed_checks :: "acceptance_check list"
  oa_latest_action :: "action option"
  oa_pause_events :: nat
  oa_rollback_events :: nat
  oa_incident_free_days :: "int option"
  oa_operational_score :: real

definition days_between :: "datetime \<Rightarrow> datetime \<Rightarrow> int" where
  "days_between now t = max 0 (dt_date now - dt_date t)"

definition live_days :: "proposal option \<Rightarrow> datetime \<Rightarrow> int" where
  "live_days proposal now =
     (case proposal of None \<Rightarrow> 0
      | Some p \<Rightarrow> (case pr_promoted_at p of None \<Rightarrow> 0 | Some t \<Rightarrow> days_between now t))"

definition acceptance_failures ::
  "governance_profile \<Rightarrow> int \<Rightarrow> real option \<Rightarrow> real \<Rightarrow> bool \<Rightarrow> acceptance_check list" where
  "acceptance_failures g days fill_rate drawdown degraded =
     map fst (filter (\<lambda>(_, passed). \<not> passed)
       [(Minimum_live_days, days \<ge> gp_acceptance_min_days g),
        (Fill_rate_ok, case fill_rate of None \<Rightarrow> True | Some f \<Rightarrow> f \<ge> gp_acceptance_min_fill_rate g),
        (Drawdown_within_acceptance, drawdown < gp_acceptance_max_drawdown g),
        (Macro_pipeline_is_ready, \<not> degraded)])"

definition acceptance_status :: "acceptance_check list \<Rightarrow> acceptance_status" where
  "acceptance_status failed =
     (if failed = [Minimum_live_days] then Provisional
      else if failed = [] then Accepted else Review_required)"

definition recent_decisions :: "datetime \<Rightarrow> proposal \<Rightarrow> decision list" where
  "recent_decisions now p = sort_desc dc_created_at
     (filter (\<lambda>d. days_between now (dc_created_at d) \<le> 30) (pr_decisions p))"

definition is_incident :: "decision \<Rightarrow> bool" where
  "is_incident d \<longleftrightarrow> dc_action d \<in> {PAUSE_ACTIVE, ROLLBACK_TO_PREVIOUS_STABLE}"

definition action_count :: "action \<Rightarrow> datetime \<Rightarrow> proposal option \<Rightarrow> nat" where
  "action_count act now proposal =
     (case proposal of None \<Rightarrow> 0 | Some p \<Rightarrow> count_of (\<lambda>d. dc_action d = act) (recent_decisions now p))"

definition incident_free_days :: "proposal option \<Rightarrow> datetime \<Rightarrow> int option" where
  "incident_free_days proposal now =
     map_option (\<lambda>p. case find is_incident (recent_decisions now p) of
         None \<Rightarrow> live_days proposal now | Some d \<Rightarrow> days_between now (dc_created_at d)) proposal"

definition operational_score :: "governance_profile \<Rightarrow> real option \<Rightarrow> real \<Rightarrow> bool \<Rightarrow> nat \<Rightarrow> nat \<Rightarrow> real" where
  "operational_score g fill_rate drawdown degraded pauses rollbacks =
     (let s = 1 - min 0.35 (drawdown / max (gp_acceptance_max_drawdown g) 0.0001 * 0.25);
          s = (case fill_rate of None \<Rightarrow> s | Some f \<Rightarrow> s - max 0 (gp_acceptance_min_fill_rate g - f) * 0.5);
          s = s - of_nat pauses * 0.08;
          s = s - of_nat rollbacks * 0.15;
          s = (if degraded then s - 0.12 else s)
      in py_round (max 0 (min 1 s)) 2)"

definition build_operational_acceptance ::
  "proposal option \<Rightarrow> decision option \<Rightarrow> real list \<Rightarrow> string list \<Rightarrow> bool \<Rightarrow> string \<Rightarrow> datetime \<Rightarrow> operational_acceptance" where
  "build_operational_acceptance proposal latest nav orders degraded scope now =
     (let g = market_governance_profile scope;
          drawdown = paper_nav_drawdown nav;
          fill_rate = order_fill_rate orders;
          days = live_days proposal now;
          failed = acceptance_failures g days fill_rate drawdown degraded;
          pauses = action_count PAUSE_ACTIVE now proposal;
          rollbacks = action_count ROLLBACK_TO_PREVIOUS_STABLE now proposal
      in \<lparr>oa_status = acceptance_status failed, oa_live_days = days,
          oa_fill_rate = map_option (\<lambda>f. py_round f 3) fill_rate,
          oa_drawdown = py_round drawdown 4, oa_failed_checks = failed,
          oa_latest_action = map_option dc_action latest, oa_pause_events = pauses,
          oa_rollback_events = rollbacks, oa_incident_free_days = incident_free_days proposal now,
          oa_operational_score = operational_score g fill_rate drawdown degraded pauses rollbacks\<rparr>)"

section \<open>The acceptance report\<close>

datatype report_status = Healthy | Attention | Watch

datatype key_finding = Found_band quality_band | Found_trend trend
  | Found_acceptance acceptance_status | Found_macro_tier string

datatype acceptance_action = Review_operational_acceptance | Restore_macro_pipeline
  | Revalidate_strategy_quality | Continue_monitoring

record acceptance_report =
  ar_status :: report_status
  ar_strategy_title :: "string option"
  ar_key_findings :: "key_finding list"
  ar_next_actions :: "acceptance_action list"
  ar_quality :: "(quality_report \<times> track_record) option"
  ar_operations :: operational_acceptance
  ar_macro :: macro_pipeline
  ar_lifecycle :: "lifecycle option"
  ar_safety_actions :: nat
  ar_fallback_events :: nat
  ar_macro_degraded :: nat

definition latest_risk_decision :: "pool \<Rightarrow> decision option" where
  "latest_risk_decision pool =
     first_of (sort_desc (\<lambda>d. (dc_created_at d, dc_id d)) (concat (map pr_decisions pool)))"

definition report_status :: "acceptance_status \<Rightarrow> bool \<Rightarrow> report_status" where
  "report_status st degraded =
     (if st = Review_required \<or> degraded then Attention else if st = Provisional then Watch else Healthy)"

definition key_findings :: "(quality_report \<times> track_record) option \<Rightarrow> acceptance_status \<Rightarrow> string \<Rightarrow> key_finding list" where
  "key_findings quality st tier =
     (case quality of None \<Rightarrow> [] | Some (q, t) \<Rightarrow> [Found_band (qr_quality_band q), Found_trend (tr_trend t)])
     @ [Found_acceptance st] @ (if tier = [] then [] else [Found_macro_tier tier])"

definition acceptance_actions :: "acceptance_status \<Rightarrow> bool \<Rightarrow> trend option \<Rightarrow> acceptance_action list" where
  "acceptance_actions st degraded tr =
     (let acts = (if st \<noteq> Accepted then [Review_operational_acceptance] else [])
            @ (if degraded then [Restore_macro_pipeline] else [])
            @ (if tr = Some Weakening then [Revalidate_strategy_quality] else [])
      in if acts = [] then [Continue_monitoring] else acts)"

record readiness_env =
  re_spec :: "string \<Rightarrow> params"
  re_events :: events_settings
  re_market_scope :: string
  re_now :: datetime
  re_window_days :: nat

definition build_acceptance_report :: "readiness_env \<Rightarrow> pool \<Rightarrow> paper_store \<Rightarrow> stream \<Rightarrow> acceptance_report" where
  "build_acceptance_report env pool px st =
     (let now = re_now env;
          active = get_active_strategy pool;
          latest = latest_risk_decision pool;
          limit = max (re_window_days env * 2) 60;
          macro = get_macro_pipeline_status (re_events env) now st;
          degraded = sm_degraded (mp_stored macro);
          oa = build_operational_acceptance active latest
                 (map nr_total_equity (fetch_nav limit Primary_slot px))
                 (order_statuses (fetch_orders limit Primary_slot px)) degraded (re_market_scope env) now;
          quality = map_option (\<lambda>p. (pr_quality p, track_record (re_spec env) pool p)) active;
          days = int (re_window_days env)
      in \<lparr>ar_status = report_status (oa_status oa) degraded,
          ar_strategy_title = map_option pr_title active,
          ar_key_findings = key_findings quality (oa_status oa) (sm_reliability_tier (mp_stored macro)),
          ar_next_actions = acceptance_actions (oa_status oa) degraded (map_option (\<lambda>(_, t). tr_trend t) quality),
          ar_quality = quality, ar_operations = oa, ar_macro = macro,
          ar_lifecycle = (case latest of None \<Rightarrow> None | Some d \<Rightarrow> dc_lifecycle d),
          ar_safety_actions = recent_audit_counts now [''risk_decision_recorded''] (Some ''risk_decision'') None days (st_audits st),
          ar_fallback_events = recent_audit_counts now [''llm_fallback_triggered'', ''macro_provider_fallback_applied'']
             None None days (st_audits st),
          ar_macro_degraded = recent_audit_counts now [''macro_provider_degraded''] (Some ''macro_pipeline'') None days
             (st_audits st)\<rparr>)"

section \<open>Live readiness\<close>

datatype blocker = Quality_trend_weakening | Oos_validation_not_passed | Not_consistently_replaceable
  | Stable_streak_too_short | Replaceable_ratio_below_threshold | Paper_acceptance_not_accepted
  | Paper_live_days_below_threshold | Rollback_seen_in_30d | Too_many_pause_events
  | Operational_score_below_threshold | Macro_pipeline_degraded | Macro_health_history_too_weak
  | Too_many_fallback_events | Governance_phase_missing | Governance_next_step_missing
  | No_active_strategy

datatype readiness_status = Ready_candidate | Paper_building_evidence | Not_ready

datatype readiness_action = Accumulate_more_paper_days | Accumulate_longer_quality_history
  | Stabilize_macro_pipeline | Reduce_operational_incidents | Keep_collecting_evidence

record live_readiness =
  lr_status :: readiness_status
  lr_score :: int
  lr_approved_for_live :: bool
  lr_blockers :: "blocker list"
  lr_next_actions :: "readiness_action list"
  lr_quality :: int
  lr_operations :: int
  lr_runtime :: int
  lr_explainability :: int

text \<open>A dimension starts from its full score and goes through its deductions in order; a
  deduction that applies may name a blocker.\<close>

type_synonym deduction = "bool \<times> int \<times> blocker option"

definition dimension_score :: "int \<Rightarrow> deduction list \<Rightarrow> int" where
  "dimension_score full ds = max 0 (full - sum_list (map (\<lambda>(c, n, _). if c then n else 0) ds))"

definition dimension_blockers :: "deduction list \<Rightarrow> blocker list" where
  "dimension_blockers ds = List.map_filter (\<lambda>(c, _, b). if c then b else None) ds"

definition quality_deductions :: "(quality_report \<times> track_record) option \<Rightarrow> deduction list" where
  "quality_deductions quality =
     [(case quality of None \<Rightarrow> False | Some (_, t) \<Rightarrow> tr_trend t = Weakening, 8, Some Quality_trend_weakening),
      (case quality of None \<Rightarrow> True | Some (q, _) \<Rightarrow> \<not> qr_oos_passed q, 8, Some Oos_validation_not_passed),
      (case quality of None \<Rightarrow> True | Some (q, _) \<Rightarrow> \<not> qr_replaceable q, 6, Some Not_consistently_replaceable),
      (case quality of None \<Rightarrow> True | Some (_, t) \<Rightarrow> tr_stable_streak t < 20, 8, Some Stable_streak_too_short),
      (case quality of None \<Rightarrow> True | Some (_, t) \<Rightarrow> tr_replaceable_ratio t < 0.6, 5,
         Some Replaceable_ratio_below_threshold)]"

definition operations_deductions :: "operational_acceptance \<Rightarrow> deduction list" where
  "operations_deductions oa =
     [(oa_status oa \<noteq> Accepted, 8, Some Paper_acceptance_not_accepted),
      (oa_live_days oa < 20, 7, Some Paper_live_days_below_threshold),
      (oa_rollback_events oa > 0, 10, Some Rollback_seen_in_30d),
      (oa_pause_events oa > 2, 5, Some Too_many_pause_events),
      (oa_operational_score oa < 0.75, 5, Some Operational_score_below_threshold)]"

definition runtime_deductions :: "report_status \<Rightarrow> macro_pipeline \<Rightarrow> nat \<Rightarrow> deduction list" where
  "runtime_deductions st macro fallbacks =
     [(st = Attention, 8, None),
      (sm_status (mp_stored macro) = ''degraded'', 7, Some Macro_pipeline_degraded),
      (mh_health_score (mp_health macro) < 0.8, 5, Some Macro_health_history_too_weak),
      (fallbacks > 3, 5, Some Too_many_fallback_events)]"

text \<open>The fourth deduction of the code, for resume conditions that are no list, never applies:
  the report always writes a list.\<close>

definition explainability_deductions :: "lifecycle option \<Rightarrow> string option \<Rightarrow> deduction list" where
  "explainability_deductions lc title =
     [(lc = None, 5, Some Governance_phase_missing),
      (lc = None, 4, Some Governance_next_step_missing),
      (title = None \<or> title = Some [], 7, Some No_active_strategy)]"

definition readiness_actions :: "blocker list \<Rightarrow> readiness_action list" where
  "readiness_actions bs =
     (let acts = (if Paper_live_days_below_threshold \<in> set bs then [Accumulate_more_paper_days] else [])
            @ (if Stable_streak_too_short \<in> set bs \<or> Replaceable_ratio_below_threshold \<in> set bs
               then [Accumulate_longer_quality_history] else [])
            @ (if Macro_pipeline_degraded \<in> set bs \<or> Macro_health_history_too_weak \<in> set bs
               then [Stabilize_macro_pipeline] else [])
            @ (if Rollback_seen_in_30d \<in> set bs \<or> Too_many_pause_events \<in> set bs
               then [Reduce_operational_incidents] else [])
      in if acts = [] then [Keep_collecting_evidence] else acts)"

definition readiness_of :: "acceptance_report \<Rightarrow> live_readiness" where
  "readiness_of ar =
     (let qd = quality_deductions (ar_quality ar);
          od = operations_deductions (ar_operations ar);
          rd = runtime_deductions (ar_status ar) (ar_macro ar) (ar_fallback_events ar);
          ed = explainability_deductions (ar_lifecycle ar) (ar_strategy_title ar);
          q = dimension_score 30 qd; op = dimension_score 25 od;
          r = dimension_score 25 rd; e = dimension_score 20 ed;
          blockers = dimension_blockers (qd @ od @ rd @ ed);
          score = q + op + r + e
      in \<lparr>lr_status = (if score \<ge> 85 \<and> blockers = [] then Ready_candidate
             else if score \<ge> 65 then Paper_building_evidence else Not_ready),
          lr_score = score, lr_approved_for_live = False, lr_blockers = blockers,
          lr_next_actions = readiness_actions blockers,
          lr_quality = q, lr_operations = op, lr_runtime = r, lr_explainability = e\<rparr>)"

definition build_live_readiness :: "readiness_env \<Rightarrow> pool \<Rightarrow> paper_store \<Rightarrow> stream \<Rightarrow> live_readiness" where
  "build_live_readiness env pool px st = readiness_of (build_acceptance_report env pool px st)"

section \<open>What the acceptance checks\<close>

lemma acceptance_failures_set:
  "set (acceptance_failures g days fill drawdown degraded) =
     (if days < gp_acceptance_min_days g then {Minimum_live_days} else {})
     \<union> (case fill of None \<Rightarrow> {} | Some f \<Rightarrow> if f < gp_acceptance_min_fill_rate g then {Fill_rate_ok} else {})
     \<union> (if drawdown < gp_acceptance_max_drawdown g then {} else {Drawdown_within_acceptance})
     \<union> (if degraded then {Macro_pipeline_is_ready} else {})"
  by (auto simp: acceptance_failures_def split: option.splits)

lemma operational_score_range:
  "0 \<le> operational_score g fill drawdown degraded pauses rollbacks
   \<and> operational_score g fill drawdown degraded pauses rollbacks \<le> 1"
proof -
  have "0 \<le> py_round (max 0 (min 1 x)) 2 \<and> py_round (max 0 (min 1 x)) 2 \<le> 1" for x :: real
    using py_round_le_of_int [of "max 0 (min 1 x)" 1 2] by (simp add: py_round_nonneg)
  then show ?thesis unfolding operational_score_def Let_def by blast
qed

lemma filled_orders_rate: "order_fill_rate (order_statuses os) \<in> {None, Some 1}"
proof -
  have "py_lower ''filled'' = ''filled''" by code_simp
  then have "filter (\<lambda>s. py_lower s = ''filled'') (map (\<lambda>_. ''filled'') os) = map (\<lambda>_. ''filled'') os"
    by (simp add: filter_map comp_def)
  then show ?thesis by (simp add: order_fill_rate_def order_statuses_def count_of_def)
qed

lemma profile_fill_rate: "gp_acceptance_min_fill_rate (market_governance_profile scope) \<le> 1"
  by (cases scope rule: market_governance_cases) (simp_all add: hk_profile_def cn_profile_def)

section \<open>What the readiness says\<close>

lemma deductions_bounds:
  assumes "list_all (\<lambda>(_, n, _). 0 \<le> n) ds" "0 \<le> full"
  shows "0 \<le> dimension_score full ds" "dimension_score full ds \<le> full"
proof -
  have "0 \<le> sum_list (map (\<lambda>(c, n, _). if c then n else 0) ds)"
    using assms(1) by (intro sum_list_nonneg) (auto simp: list_all_iff)
  then show "0 \<le> dimension_score full ds" "dimension_score full ds \<le> full"
    using assms(2) by (simp_all add: dimension_score_def)
qed

lemma no_blocker_no_deduction:
  assumes "dimension_blockers ds = []" "list_all (\<lambda>(_, _, b). b \<noteq> None) ds"
  shows "dimension_score full ds = max 0 full"
proof -
  have "sum_list (map (\<lambda>(c, n, _). if c then n else 0) ds) = 0"
    using assms by (induction ds) (auto simp: dimension_blockers_def map_filter_simps split: if_splits)
  then show ?thesis by (simp add: dimension_score_def)
qed

lemma dimension_blockers_append [simp]:
  "dimension_blockers (xs @ ys) = dimension_blockers xs @ dimension_blockers ys"
  by (simp add: dimension_blockers_def map_filter_def)

lemma deductions_shape:
  "list_all (\<lambda>(_, n, _). 0 \<le> n) (quality_deductions q)" "list_all (\<lambda>(_, _, b). b \<noteq> None) (quality_deductions q)"
  "list_all (\<lambda>(_, n, _). 0 \<le> n) (operations_deductions oa)" "list_all (\<lambda>(_, _, b). b \<noteq> None) (operations_deductions oa)"
  "list_all (\<lambda>(_, n, _). 0 \<le> n) (runtime_deductions st m k)"
  "list_all (\<lambda>(_, n, _). 0 \<le> n) (explainability_deductions lc t)"
  "list_all (\<lambda>(_, _, b). b \<noteq> None) (explainability_deductions lc t)"
  by (simp_all add: quality_deductions_def operations_deductions_def runtime_deductions_def explainability_deductions_def)

lemma runtime_without_blockers:
  assumes "dimension_blockers (runtime_deductions st m k) = []"
  shows "dimension_score 25 (runtime_deductions st m k) = (if st = Attention then 17 else 25)"
  using assms by (auto simp: runtime_deductions_def dimension_blockers_def map_filter_simps dimension_score_def
      split: if_splits)

lemma readiness_of_simps:
  "lr_quality (readiness_of ar) = dimension_score 30 (quality_deductions (ar_quality ar))"
  "lr_operations (readiness_of ar) = dimension_score 25 (operations_deductions (ar_operations ar))"
  "lr_runtime (readiness_of ar) = dimension_score 25 (runtime_deductions (ar_status ar) (ar_macro ar) (ar_fallback_events ar))"
  "lr_explainability (readiness_of ar) =
     dimension_score 20 (explainability_deductions (ar_lifecycle ar) (ar_strategy_title ar))"
  "lr_score (readiness_of ar) = lr_quality (readiness_of ar) + lr_operations (readiness_of ar)
     + lr_runtime (readiness_of ar) + lr_explainability (readiness_of ar)"
  "lr_blockers (readiness_of ar) = dimension_blockers (quality_deductions (ar_quality ar))
     @ dimension_blockers (operations_deductions (ar_operations ar))
     @ dimension_blockers (runtime_deductions (ar_status ar) (ar_macro ar) (ar_fallback_events ar))
     @ dimension_blockers (explainability_deductions (ar_lifecycle ar) (ar_strategy_title ar))"
  "lr_status (readiness_of ar) = (if lr_score (readiness_of ar) \<ge> 85 \<and> lr_blockers (readiness_of ar) = []
     then Ready_candidate else if lr_score (readiness_of ar) \<ge> 65 then Paper_building_evidence else Not_ready)"
  "lr_approved_for_live (readiness_of ar) = False"
  "lr_next_actions (readiness_of ar) = readiness_actions (lr_blockers (readiness_of ar))"
  by (simp_all add: readiness_of_def Let_def)

lemma score_without_blockers:
  assumes "lr_blockers (readiness_of ar) = []"
  shows "lr_score (readiness_of ar) = (if ar_status ar = Attention then 92 else 100)"
proof -
  have none: "dimension_blockers (quality_deductions (ar_quality ar)) = []"
    "dimension_blockers (operations_deductions (ar_operations ar)) = []"
    "dimension_blockers (runtime_deductions (ar_status ar) (ar_macro ar) (ar_fallback_events ar)) = []"
    "dimension_blockers (explainability_deductions (ar_lifecycle ar) (ar_strategy_title ar)) = []"
    using assms by (simp_all add: readiness_of_simps(6))
  show ?thesis
    unfolding readiness_of_simps(1-5) runtime_without_blockers [OF none(3)]
      no_blocker_no_deduction [OF none(1) deductions_shape(2)]
      no_blocker_no_deduction [OF none(2) deductions_shape(4)]
      no_blocker_no_deduction [OF none(4) deductions_shape(7)] by simp
qed

text \<open>C22. The four dimensions stay within their weights, so the score is between 0 and 100; a
  report without blockers has exactly 92 points while the runtime asks for attention and 100
  points otherwise, so \<open>ready_candidate\<close> is the same as having no blocker; and no evaluation
  approves live trading.\<close>

theorem readiness_contract:
  "lr_quality (readiness_of ar) \<in> {0..30} \<and> lr_operations (readiness_of ar) \<in> {0..25}
   \<and> lr_runtime (readiness_of ar) \<in> {0..25} \<and> lr_explainability (readiness_of ar) \<in> {0..20}
   \<and> lr_score (readiness_of ar) \<in> {0..100}
   \<and> (if lr_blockers (readiness_of ar) = []
       then lr_score (readiness_of ar) = (if ar_status ar = Attention then 92 else 100) else True)
   \<and> (lr_status (readiness_of ar) = Ready_candidate) = (lr_blockers (readiness_of ar) = [])
   \<and> \<not> lr_approved_for_live (readiness_of ar)"
proof -
  have dims: "lr_quality (readiness_of ar) \<in> {0..30}" "lr_operations (readiness_of ar) \<in> {0..25}"
    "lr_runtime (readiness_of ar) \<in> {0..25}" "lr_explainability (readiness_of ar) \<in> {0..20}"
    unfolding readiness_of_simps(1-4) using deductions_bounds deductions_shape by simp_all
  then have "lr_score (readiness_of ar) \<in> {0..100}" by (simp add: readiness_of_simps(5))
  moreover have "(lr_status (readiness_of ar) = Ready_candidate) = (lr_blockers (readiness_of ar) = [])"
    unfolding readiness_of_simps(7) using score_without_blockers [of ar]
    by (cases "lr_blockers (readiness_of ar) = []") (simp_all split: if_splits)
  moreover have "if lr_blockers (readiness_of ar) = []
       then lr_score (readiness_of ar) = (if ar_status ar = Attention then 92 else 100) else True"
    using score_without_blockers [of ar] by simp
  ultimately show ?thesis using dims readiness_of_simps(8) by simp
qed

lemma short_streak_blocks:
  assumes "\<And>q t. ar_quality ar = Some (q, t) \<Longrightarrow> tr_stable_streak t < 20"
  shows "Stable_streak_too_short \<in> set (lr_blockers (readiness_of ar))"
  using assms
  by (cases "ar_quality ar")
    (auto simp: readiness_of_simps quality_deductions_def dimension_blockers_def map_filter_simps)

text \<open>C8. Live readiness can never be reached.  The readiness asks for a stable streak of twenty,
  the track record it reads looks at twelve proposals, so every evaluation, in whatever state the
  pool, the account and the events are, is blocked by the streak and asks for a longer history.\<close>

theorem live_readiness_unreachable:
  "Stable_streak_too_short \<in> set (lr_blockers (build_live_readiness env pool px st))
   \<and> lr_status (build_live_readiness env pool px st) \<noteq> Ready_candidate
   \<and> Accumulate_longer_quality_history \<in> set (lr_next_actions (build_live_readiness env pool px st))
   \<and> lr_quality (build_live_readiness env pool px st) \<le> 22"
proof -
  let ?ar = "build_acceptance_report env pool px st"
  have short: "tr_stable_streak t < 20" if "ar_quality ?ar = Some (q, t)" for q t
    using that le_less_trans [OF stable_streak_le, of 20]
    by (auto simp: build_acceptance_report_def Let_def)
  have blocked: "Stable_streak_too_short \<in> set (lr_blockers (readiness_of ?ar))"
    by (rule short_streak_blocks) (rule short)
  have "lr_quality (readiness_of ?ar) \<le> 22"
    using short by (cases "ar_quality ?ar") (auto simp: readiness_of_simps quality_deductions_def dimension_score_def)
  moreover have "lr_status (readiness_of ?ar) \<noteq> Ready_candidate"
    using blocked by (auto simp: readiness_of_simps(7))
  moreover have "Accumulate_longer_quality_history \<in> set (lr_next_actions (readiness_of ?ar))"
    using blocked by (simp add: readiness_of_simps(9) readiness_actions_def Let_def)
  ultimately show ?thesis using blocked by (simp add: build_live_readiness_def)
qed

text \<open>The acceptance of the paper account: it is accepted exactly when no check fails and
  provisional exactly when it is only too young; the operational score lies between 0 and 1; and
  the fill-rate check cannot fail, because every order the service stores is filled.\<close>

theorem operational_acceptance_contract:
  "case build_operational_acceptance proposal latest nav (order_statuses orders) degraded scope now of oa \<Rightarrow>
     (oa_status oa = Accepted) = (oa_failed_checks oa = [])
     \<and> (oa_status oa = Provisional) = (set (oa_failed_checks oa) = {Minimum_live_days})
     \<and> Fill_rate_ok \<notin> set (oa_failed_checks oa)
     \<and> (Minimum_live_days \<in> set (oa_failed_checks oa))
         = (oa_live_days oa < gp_acceptance_min_days (market_governance_profile scope))
     \<and> (Drawdown_within_acceptance \<in> set (oa_failed_checks oa))
         = (paper_nav_drawdown nav \<ge> gp_acceptance_max_drawdown (market_governance_profile scope))
     \<and> (Macro_pipeline_is_ready \<in> set (oa_failed_checks oa)) = degraded
     \<and> oa_operational_score oa \<in> {0..1} \<and> oa_fill_rate oa \<in> {None, Some 1}"
proof -
  let ?g = "market_governance_profile scope"
  let ?f = "order_fill_rate (order_statuses orders)"
  let ?failed = "acceptance_failures ?g (live_days proposal now) ?f (paper_nav_drawdown nav) degraded"
  have "distinct ?failed" by (simp add: acceptance_failures_def)
  then have young: "(set ?failed = {Minimum_live_days}) = (?failed = [Minimum_live_days])"
    by (cases ?failed) (auto dest: subset_singletonD)
  have fill: "?f = None \<or> ?f = Some 1" using filled_orders_rate [of orders] by simp
  have checks: "Fill_rate_ok \<notin> set ?failed"
    "(Minimum_live_days \<in> set ?failed) = (live_days proposal now < gp_acceptance_min_days ?g)"
    "(Drawdown_within_acceptance \<in> set ?failed) = (paper_nav_drawdown nav \<ge> gp_acceptance_max_drawdown ?g)"
    "(Macro_pipeline_is_ready \<in> set ?failed) = degraded"
    using fill profile_fill_rate [of scope] unfolding acceptance_failures_set by auto
  have "py_round 1 3 = 1" using py_round_of_int [of 1 3] by simp
  then have "map_option (\<lambda>f. py_round f 3) ?f \<in> {None, Some 1}" using fill by auto
  then show ?thesis
    using young checks operational_score_range
    by (simp add: build_operational_acceptance_def Let_def acceptance_status_def)
qed

section \<open>History and change\<close>

definition blocker_name :: "blocker \<Rightarrow> string" where
  "blocker_name b = (case b of
     Quality_trend_weakening \<Rightarrow> ''quality_trend_weakening''
   | Oos_validation_not_passed \<Rightarrow> ''oos_validation_not_passed''
   | Not_consistently_replaceable \<Rightarrow> ''not_consistently_replaceable''
   | Stable_streak_too_short \<Rightarrow> ''stable_streak_too_short''
   | Replaceable_ratio_below_threshold \<Rightarrow> ''replaceable_ratio_below_threshold''
   | Paper_acceptance_not_accepted \<Rightarrow> ''paper_acceptance_not_accepted''
   | Paper_live_days_below_threshold \<Rightarrow> ''paper_live_days_below_threshold''
   | Rollback_seen_in_30d \<Rightarrow> ''rollback_seen_in_30d''
   | Too_many_pause_events \<Rightarrow> ''too_many_pause_events''
   | Operational_score_below_threshold \<Rightarrow> ''operational_score_below_threshold''
   | Macro_pipeline_degraded \<Rightarrow> ''macro_pipeline_degraded''
   | Macro_health_history_too_weak \<Rightarrow> ''macro_health_history_too_weak''
   | Too_many_fallback_events \<Rightarrow> ''too_many_fallback_events''
   | Governance_phase_missing \<Rightarrow> ''governance_phase_missing''
   | Governance_next_step_missing \<Rightarrow> ''governance_next_step_missing''
   | No_active_strategy \<Rightarrow> ''no_active_strategy'')"

text \<open>A row of the audit table that a sync wrote for an evaluation.\<close>

record readiness_entry =
  rn_id :: nat
  rn_status :: readiness_status
  rn_score :: int
  rn_approved_for_live :: bool
  rn_blockers :: "string list"
  rn_created_at :: datetime

definition readiness_entry_of :: "nat \<Rightarrow> datetime \<Rightarrow> live_readiness \<Rightarrow> readiness_entry" where
  "readiness_entry_of i now lr =
     \<lparr>rn_id = i, rn_status = lr_status lr, rn_score = lr_score lr,
      rn_approved_for_live = lr_approved_for_live lr,
      rn_blockers = map blocker_name (lr_blockers lr), rn_created_at = now\<rparr>"

definition build_live_readiness_history :: "nat \<Rightarrow> readiness_entry list \<Rightarrow> readiness_entry list" where
  "build_live_readiness_history limit rows =
     take limit (sort_desc (\<lambda>r. (rn_created_at r, rn_id r)) rows)"

datatype readiness_trend = Improved | Weakened | Unchanged

record readiness_change =
  rc_trend :: readiness_trend
  rc_score_delta :: real
  rc_added_blockers :: "string list"
  rc_cleared_blockers :: "string list"
  rc_linked_changes :: "string list"

definition payload_or :: "audit \<Rightarrow> string \<Rightarrow> string \<Rightarrow> string" where
  "payload_or a k d = (case au_payload a k of None \<Rightarrow> d | Some v \<Rightarrow> v)"

definition linked_kinds :: "string list" where
  "linked_kinds = [''universe_selection_changed'', ''llm_provider_switched'', ''provider_cohort_started'',
     ''provider_comparison_window_closed'', ''macro_provider_degraded'', ''macro_provider_recovered'',
     ''proposal_created'', ''risk_decision_recorded'']"

definition linked_change :: "audit \<Rightarrow> string" where
  "linked_change a =
     (let kind = au_event_type a; i = au_entity_id a in
      if kind = ''universe_selection_changed'' then ''Universe shifted to '' @ payload_or a ''selected_symbol'' i @ ''.''
      else if kind = ''llm_provider_switched'' then ''LLM provider switched from ''
        @ payload_or a ''old_provider'' ''unknown'' @ '' to '' @ payload_or a ''new_provider'' i @ ''.''
      else if kind = ''provider_cohort_started'' then ''Started a new provider cohort on ''
        @ payload_or a ''cohort_provider'' i @ ''.''
      else if kind = ''provider_comparison_window_closed'' then
        ''Closed the previous provider comparison window for '' @ payload_or a ''provider'' i @ ''.''
      else if kind = ''macro_provider_degraded'' then ''Macro pipeline degraded and entered fallback handling.''
      else if kind = ''macro_provider_recovered'' then ''Macro pipeline recovered to a healthier provider state.''
      else if kind = ''proposal_created'' then ''A new proposal was created: '' @ i @ ''.''
      else ''A new risk decision was recorded for '' @ i @ ''.'')"

text \<open>The audit rows between the two evaluations, newest first (of one time, the
  later row first), ten at most; their sentences without repetitions, four at most.\<close>

definition linked_changes :: "datetime \<Rightarrow> datetime \<Rightarrow> audit list \<Rightarrow> string list" where
  "linked_changes previous latest audits =
     take 4 (dedupe (map linked_change (take 10 (sort_desc au_created_at
       (rev (filter (\<lambda>a. au_created_at a > previous \<and> au_created_at a \<le> latest
          \<and> au_event_type a \<in> set linked_kinds) audits))))))"

definition sorted_difference :: "string list \<Rightarrow> string list \<Rightarrow> string list" where
  "sorted_difference xs ys = sort (remdups (filter (\<lambda>x. x \<notin> set ys) xs))"

definition readiness_change_of :: "audit list \<Rightarrow> readiness_entry \<Rightarrow> readiness_entry \<Rightarrow> readiness_change" where
  "readiness_change_of audits latest previous =
     (let delta = of_int (rn_score latest) - of_int (rn_score previous) :: real
      in \<lparr>rc_trend = (if delta > 0 then Improved else if delta < 0 then Weakened else Unchanged),
          rc_score_delta = py_round delta 1,
          rc_added_blockers = sorted_difference (rn_blockers latest) (rn_blockers previous),
          rc_cleared_blockers = sorted_difference (rn_blockers previous) (rn_blockers latest),
          rc_linked_changes = linked_changes (rn_created_at previous) (rn_created_at latest) audits\<rparr>)"

definition build_live_readiness_change ::
  "audit list \<Rightarrow> readiness_entry list \<Rightarrow> readiness_entry list \<Rightarrow> readiness_change option" where
  "build_live_readiness_change audits rows given =
     (case (if given = [] then build_live_readiness_history 8 rows else given) of
        latest # previous # _ \<Rightarrow> Some (readiness_change_of audits latest previous)
      | _ \<Rightarrow> None)"

lemma set_sorted_difference [simp]: "set (sorted_difference xs ys) = set xs - set ys"
  by (auto simp: sorted_difference_def)

lemma sorted_difference_sorted: "sorted (sorted_difference xs ys) \<and> distinct (sorted_difference xs ys)"
  by (simp add: sorted_difference_def)

lemma blocker_name_inject [simp]: "blocker_name a = blocker_name b \<longleftrightarrow> a = b"
  by (cases a; cases b) (simp_all add: blocker_name_def)

text \<open>The change between two evaluations is exact: what is cleared from the blockers of the
  earlier one and added to the rest are the blockers of the later one; the lists are sorted
  without repetitions, the trend is the sign of the difference, and at most four different
  events are linked.\<close>

theorem readiness_change_contract:
  "set (rn_blockers latest) =
     (set (rn_blockers previous) - set (rc_cleared_blockers (readiness_change_of audits latest previous)))
     \<union> set (rc_added_blockers (readiness_change_of audits latest previous))
   \<and> set (rc_added_blockers (readiness_change_of audits latest previous))
       \<inter> set (rc_cleared_blockers (readiness_change_of audits latest previous)) = {}
   \<and> sorted (rc_added_blockers (readiness_change_of audits latest previous))
   \<and> rc_score_delta (readiness_change_of audits latest previous) = of_int (rn_score latest - rn_score previous)
   \<and> (rc_trend (readiness_change_of audits latest previous) = Improved) = (rn_score previous < rn_score latest)
   \<and> (rc_trend (readiness_change_of audits latest previous) = Weakened) = (rn_score latest < rn_score previous)
   \<and> length (rc_linked_changes (readiness_change_of audits latest previous)) \<le> 4
   \<and> distinct (rc_linked_changes (readiness_change_of audits latest previous))"
proof -
  have delta: "py_round (of_int (rn_score latest) - of_int (rn_score previous)) 1 = of_int (rn_score latest - rn_score previous)"
    using py_round_of_int [of "rn_score latest - rn_score previous" 1] by simp
  show ?thesis
    unfolding readiness_change_of_def Let_def readiness_change.simps delta
    by (auto simp: linked_changes_def sorted_difference_sorted)
qed

end
