(* ===== verification/HK_Universe.thy ===== *)
theory HK_Universe
  imports Governance Pandas_Series Symbols Settings "HOL-Library.AList" "HOL-Library.Product_Lexorder"
    "HOL-Library.Char_ord" "HOL-Library.List_Lexorder"
begin

text \<open>
  The choice of Hong Kong candidates in \<open>data/hk_universe.py\<close>: the filter of listed companies,
  the first score of a quote, the score from its history, the memory of failed history requests
  and the ranking.  The frames that the services deliver, already read through \<open>_to_float\<close>
  (\<open>None\<close> for a missing column or an unreadable number), and the history of a symbol are
  parameters.
\<close>

section \<open>Tags\<close>

datatype reason_tag
  = Very_high_liquidity | High_liquidity | Tradable_liquidity | Positive_momentum
  | Negative_momentum | Controlled_range | Volatile_range | Penny_stock_penalty
  | Institutional_price_band | Trend_persistence | Trend_decay | Stable_trend
  | High_short_term_volatility | Overextended_short_term | Crowded_trend | Resilient_drawdown_profile
  | Elevated_drawdown_profile | Historical_drawdown_risk | History_confirmed | History_gap_penalty
  | Recent_history_source_failure

definition tag_sentence :: "reason_tag \<Rightarrow> string" where
  "tag_sentence t = (case t of
     Very_high_liquidity \<Rightarrow> ''Very high turnover supports entry and exit capacity.''
   | High_liquidity \<Rightarrow> ''High turnover supports stable execution.''
   | Tradable_liquidity \<Rightarrow> ''Turnover is sufficient for tradable size.''
   | Positive_momentum \<Rightarrow> ''Recent positive price action supports near-term strength.''
   | Negative_momentum \<Rightarrow> ''Recent weakness increases reversal or breakdown risk.''
   | Controlled_range \<Rightarrow> ''Intraday range is controlled rather than disorderly.''
   | Volatile_range \<Rightarrow> ''Intraday range is wide and raises execution risk.''
   | Penny_stock_penalty \<Rightarrow> ''Sub-1 HKD price weakens price quality.''
   | Institutional_price_band \<Rightarrow> ''Price band is consistent with institutional trading preference.''
   | Trend_persistence \<Rightarrow> ''Multi-week price trend remains intact across recent windows.''
   | Trend_decay \<Rightarrow> ''Recent and medium-term trend both weaken the setup.''
   | Stable_trend \<Rightarrow> ''Short-term volatility remains stable enough for cleaner execution.''
   | High_short_term_volatility \<Rightarrow> ''Short-term volatility is elevated and can destabilize entries.''
   | Overextended_short_term \<Rightarrow> ''Recent run-up is overextended and can invite sharp mean reversion.''
   | Crowded_trend \<Rightarrow> ''Crowded medium-term trend can reverse violently after momentum exhaustion.''
   | Resilient_drawdown_profile \<Rightarrow> ''Recent historical drawdown stayed contained and improves governance fit.''
   | Elevated_drawdown_profile \<Rightarrow> ''Historical drawdown is elevated and weakens paper-admission odds.''
   | Historical_drawdown_risk \<Rightarrow> ''Historical drawdown is too deep and often fails current risk gates.''
   | History_confirmed \<Rightarrow> ''Recent multi-week history is available and supports ranking confidence.''
   | History_gap_penalty \<Rightarrow> ''Limited recent history reduces ranking confidence for this symbol.''
   | Recent_history_source_failure \<Rightarrow> [])"

definition preferred_tags :: "reason_tag list" where
  "preferred_tags =
     [Very_high_liquidity, High_liquidity, Tradable_liquidity, Positive_momentum,
      Controlled_range, Institutional_price_band, Trend_persistence, Stable_trend,
      History_confirmed, Negative_momentum, Trend_decay, High_short_term_volatility,
      Overextended_short_term, Crowded_trend, Resilient_drawdown_profile, Elevated_drawdown_profile,
      Historical_drawdown_risk, History_gap_penalty, Volatile_range, Penny_stock_penalty]"

definition join_words :: "string list \<Rightarrow> string" where
  "join_words ws = (case ws of [] \<Rightarrow> [] | w # vs \<Rightarrow> w @ concat (map (\<lambda>v. '' '' @ v) vs))"

definition selection_reason :: "reason_tag list \<Rightarrow> string" where
  "selection_reason tags =
     (let selected = take 3 (map tag_sentence (filter (\<lambda>t. t \<in> set tags) preferred_tags))
      in if selected = [] then
           ''Selected as the best available HK candidate after liquidity and stability screening.''
         else join_words selected)"

definition reason_tags :: "real \<Rightarrow> real \<Rightarrow> real option \<Rightarrow> real \<Rightarrow> reason_tag list" where
  "reason_tags turnover change amplitude price =
     (if turnover \<ge> 3000 then [Very_high_liquidity] else if turnover \<ge> 1000 then [High_liquidity]
      else if turnover \<ge> 400 then [Tradable_liquidity] else [])
     @ (if change \<ge> 1.5 then [Positive_momentum] else if change \<le> -1.5 then [Negative_momentum] else [])
     @ (case amplitude of None \<Rightarrow> []
        | Some a \<Rightarrow> if a \<le> 4 then [Controlled_range] else if a \<ge> 10 then [Volatile_range] else [])
     @ (if price < 1 then [Penny_stock_penalty] else if price \<ge> 10 then [Institutional_price_band] else [])"

section \<open>Listed companies\<close>

text \<open>Chinese terms are their UTF-8 bytes.\<close>

definition utf8 :: "nat list \<Rightarrow> string" where
  "utf8 = map char_of"

definition accepted_boards :: "string list" where
  "accepted_boards = [utf8 [228, 184, 187, 230, 157, 191], utf8 [229, 136, 155, 228, 184, 154, 230, 157, 191]]"

definition exclusion_terms :: "string list" where
  "exclusion_terms = [''ETF'', ''ETP'', ''REIT'', ''TRUST'', ''FUND'', ''INDEX'', ''BOND'',
     utf8 [230, 157, 160, 230, 157, 134], utf8 [229, 143, 141, 229, 144, 145], utf8 [229, 159, 186, 233, 135, 145],
     utf8 [230, 136, 191, 230, 137, 152], utf8 [228, 191, 161, 230, 137, 152], utf8 [229, 128, 186],
     utf8 [232, 180, 167, 229, 184, 129], utf8 [230, 156, 159, 232, 180, 167], utf8 [231, 137, 155, 231, 134, 138]]"

definition is_ordinary_hk_equity :: "string \<Rightarrow> string option \<Rightarrow> string option \<Rightarrow> bool" where
  "is_ordinary_hk_equity name fullname market =
     (let resolved = py_strip (case market of None \<Rightarrow> [] | Some m \<Rightarrow> m);
          combined = py_upper (name @ '' '' @ (case fullname of None \<Rightarrow> [] | Some f \<Rightarrow> f))
      in (resolved = [] \<or> resolved \<in> set accepted_boards)
         \<and> \<not> list_ex (\<lambda>t. contains t combined) exclusion_terms)"

record listing =
  li_ts_code :: string
  li_list_status :: string
  li_name :: string
  li_fullname :: string
  li_market :: string
  li_list_date :: "string option"

record quote =
  qt_code :: string
  qt_name :: string
  qt_price :: "real option"
  qt_pct :: "real option"
  qt_amount :: "real option"
  qt_amplitude :: "real option"
  qt_trade_unit :: "real option"

definition or_none :: "string \<Rightarrow> string option" where
  "or_none s = (if s = [] then None else Some s)"

definition listed :: "int \<Rightarrow> string \<Rightarrow> listing \<Rightarrow> bool" where
  "listed min_list_days cutoff l \<longleftrightarrow>
     py_upper (li_list_status l) = ''L''
     \<and> is_ordinary_hk_equity (py_strip (li_name l)) (or_none (py_strip (li_fullname l))) (or_none (py_strip (li_market l)))
     \<and> (min_list_days \<le> 0 \<or>
        (case li_list_date l of None \<Rightarrow> True
         | Some d \<Rightarrow> length d = 8 \<and> py_isdigit d \<and> d \<le> cutoff))"

text \<open>\<open>drop_duplicates(keep="last")\<close> on the code.\<close>

fun keep_last :: "quote list \<Rightarrow> quote list" where
  "keep_last [] = []"
| "keep_last (q # qs) = (if qt_code q \<in> set (map qt_code qs) then keep_last qs else q # keep_last qs)"

definition clean_code :: "string \<Rightarrow> string" where
  "clean_code s = py_strip (py_upper s)"

text \<open>The quotes of the ten prefixes (a request that raises is skipped) joined with the
  listings of the same code; \<open>cutoff\<close> is the latest accepted listing date.\<close>

definition fetch_minshare_market_frame ::
  "int \<Rightarrow> string \<Rightarrow> listing list \<Rightarrow> quote list option list \<Rightarrow> quote list" where
  "fetch_minshare_market_frame min_list_days cutoff basics frames =
     (let companies = filter (listed min_list_days cutoff) basics;
          quotes = keep_last (map (\<lambda>q. q\<lparr>qt_code := clean_code (qt_code q)\<rparr>)
             (concat (List.map_filter (\<lambda>f. f) frames)))
      in concat (map (\<lambda>q. map (\<lambda>_. q) (filter (\<lambda>l. clean_code (li_ts_code l) = qt_code q) companies)) quotes))"

section \<open>The first score of a quote\<close>

definition bounded :: "real \<Rightarrow> real \<Rightarrow> real \<Rightarrow> real" where
  "bounded lower upper x = max lower (min upper x)"

record candidate =
  cd_symbol :: string
  cd_name :: string
  cd_latest_price :: real
  cd_change_pct :: real
  cd_amplitude_pct :: "real option"
  cd_turnover_millions :: real
  cd_lot_cost :: real
  cd_affordability_ratio :: real
  cd_score :: real
  cd_factor_scores :: "string \<rightharpoonup> real"
  cd_reason_tags :: "reason_tag list"
  cd_selection_reason :: string
  cd_source :: string
  cd_history_available :: "bool option"
  cd_drawdown_flagged :: bool
  cd_recent_history_failure :: "bool option"
  cd_return_20d :: "real option"
  cd_return_60d :: "real option"
  cd_volatility_20d :: "fl option"
  cd_drawdown_120d :: "fl option"
  cd_drawdown_250d :: "fl option"
  cd_rank :: "nat option"

record universe_limits =
  ul_min_turnover :: real
  ul_capital :: real
  ul_max_lot_cost_ratio :: real

definition or_zero :: "real option \<Rightarrow> real" where
  "or_zero x = (case x of None \<Rightarrow> 0 | Some v \<Rightarrow> v)"

definition trade_unit :: "quote \<Rightarrow> int" where
  "trade_unit q = (let u = or_zero (qt_trade_unit q) in py_int (if u = 0 then 100 else u))"

definition liquidity_score :: "universe_limits \<Rightarrow> real \<Rightarrow> real" where
  "liquidity_score ul turnover =
     bounded 10 55 (20 + log 10 (max (turnover / max (ul_min_turnover ul) 1) 1) * 22)"

definition momentum_score :: "real \<Rightarrow> real" where
  "momentum_score change = bounded (-12) 18 (change * 3)"

definition stability_score :: "real option \<Rightarrow> real" where
  "stability_score amplitude =
     (case amplitude of None \<Rightarrow> 12 | Some a \<Rightarrow> bounded 0 14 (14 - max (a - 3) 0 * 1.8))"

definition price_quality_score :: "real \<Rightarrow> real" where
  "price_quality_score price = bounded 0 10 (if price \<ge> 1 then 10 else price * 10)"

definition raw_code :: "string \<Rightarrow> string" where
  "raw_code s = (let c = py_strip s in if ends_with ''.HK'' (py_upper c) then take (length c - 3) c else c)"

definition quote_candidate :: "universe_limits \<Rightarrow> string \<Rightarrow> quote \<Rightarrow> string \<Rightarrow> real \<Rightarrow> candidate" where
  "quote_candidate ul source q symbol price =
     (let change = or_zero (qt_pct q);
          amplitude = qt_amplitude q;
          turnover = py_round (or_zero (qt_amount q) / 1000000) 2;
          lot_cost = py_round (of_int (trade_unit q) * price) 2;
          ls = liquidity_score ul turnover; ms = momentum_score change;
          ss = stability_score amplitude; ps = price_quality_score price;
          amp2 = map_option (\<lambda>a. py_round a 2) amplitude;
          tags = reason_tags turnover (py_round change 2) amp2 price;
          name = py_strip (qt_name q)
      in \<lparr>cd_symbol = symbol, cd_name = (if name = [] then symbol else name),
          cd_latest_price = py_round price 4, cd_change_pct = py_round change 2, cd_amplitude_pct = amp2,
          cd_turnover_millions = turnover, cd_lot_cost = lot_cost,
          cd_affordability_ratio = py_round (lot_cost / max (ul_capital ul) 1) 4,
          cd_score = py_round (ls + ms + ss + ps) 2,
          cd_factor_scores = [''liquidity'' \<mapsto> py_round ls 2, ''momentum'' \<mapsto> py_round ms 2,
             ''stability'' \<mapsto> py_round ss 2, ''price_quality'' \<mapsto> py_round ps 2],
          cd_reason_tags = tags, cd_selection_reason = selection_reason tags, cd_source = source,
          cd_history_available = None, cd_drawdown_flagged = False, cd_recent_history_failure = None,
          cd_return_20d = None, cd_return_60d = None, cd_volatility_20d = None,
          cd_drawdown_120d = None, cd_drawdown_250d = None, cd_rank = None\<rparr>)"

text \<open>One row: skipped for its code, its price, its turnover or the cost of a lot.\<close>

definition screen_quote :: "universe_limits \<Rightarrow> string \<Rightarrow> quote \<Rightarrow> candidate option" where
  "screen_quote ul source q =
     (let raw = raw_code (qt_code q);
          turnover = py_round (or_zero (qt_amount q) / 1000000) 2
      in if \<not> py_isdigit raw then None
         else case qt_price q of None \<Rightarrow> None
           | Some price \<Rightarrow>
               let lot_cost = py_round (of_int (trade_unit q) * price) 2 in
               if price \<le> 0 then None
               else if turnover < ul_min_turnover ul then None
               else if lot_cost > ul_capital ul \<or> lot_cost / max (ul_capital ul) 1 > ul_max_lot_cost_ratio ul then None
               else Some (quote_candidate ul source q (normalize_hk_symbol (raw @ ''.HK'')) price))"

section \<open>The score from the history\<close>

text \<open>What a request for the history returns: nothing or an exception, a frame without closing
  prices, or its readable closing prices.\<close>

datatype history = No_history | No_close | Closes "real list"

text \<open>\<open>_bounded\<close> of a number that may be infinite or missing, as Python's \<open>max\<close> and \<open>min\<close>
  evaluate it.\<close>

definition bounded_fl :: "real \<Rightarrow> real \<Rightarrow> fl \<Rightarrow> real" where
  "bounded_fl lower upper x = fin_val (py_max (Fin lower) (py_min (Fin upper) x))"

definition last_n :: "nat \<Rightarrow> 'a list \<Rightarrow> 'a list" where
  "last_n n xs = drop (length xs - n) xs"

definition total_return :: "nat \<Rightarrow> real list \<Rightarrow> real option res" where
  "total_return n closes =
     (if length closes < Suc n then Inr None
      else rbind (py_div (last closes) (closes ! (length closes - Suc n)))
             (\<lambda>r. Inr (Some ((r - 1) * 100))))"

definition std_series :: "series \<Rightarrow> fl" where
  "std_series xs = (if list_all is_fin xs then std_fl (map fin_val xs) else NaN)"

definition volatility_20d :: "real list \<Rightarrow> fl option" where
  "volatility_20d closes =
     (let returns = filter (\<lambda>x. \<not> isna x) (pct_change (fins closes))
      in if length returns \<ge> 20 then Some (fl_mul (std_series (last_n 20 returns)) (Fin 100)) else None)"

definition close_drawdowns :: "real list \<Rightarrow> series" where
  "close_drawdowns closes =
     map2 (\<lambda>c p. fl_sub (fl_div c p) (Fin 1)) (fins closes) (fl_cummax (fins closes))"

definition worst_drawdown :: "nat \<Rightarrow> nat \<Rightarrow> real list \<Rightarrow> fl option" where
  "worst_drawdown window needed closes =
     (if length closes \<ge> needed
      then Some (fl_mul (fl_min_skipna (last_n window (close_drawdowns closes))) (Fin (-100))) else None)"

definition trend_part :: "real option \<Rightarrow> real option \<Rightarrow> real \<times> reason_tag list" where
  "trend_part r20 r60 =
     (let (base, tags) = (case (r20, r60) of
            (Some a, Some b) \<Rightarrow> if a > 0 \<and> b > 0 then (8, [Trend_persistence])
               else if a < 0 \<and> b < 0 then (-6, [Trend_decay]) else (0, [])
          | _ \<Rightarrow> (0, []))
      in (base + (case r20 of None \<Rightarrow> 0 | Some a \<Rightarrow> bounded (-8) 10 (a * 0.45))
            + (case r60 of None \<Rightarrow> 0 | Some b \<Rightarrow> bounded (-6) 8 (b * 0.2)), tags))"

definition volatility_part :: "fl option \<Rightarrow> real \<times> reason_tag list" where
  "volatility_part vol =
     (case vol of None \<Rightarrow> (0, [])
      | Some v \<Rightarrow>
          let (base, tags) = (if fl_le v (Fin 1.6) then (5, [Stable_trend])
                else if fl_le (Fin 4.5) v then (-14, [High_short_term_volatility]) else (0, []))
          in (base + bounded_fl (-4) 4 (fl_sub (Fin 3.8) v), tags))"

definition crowding_part :: "real option \<Rightarrow> real option \<Rightarrow> real \<times> reason_tag list" where
  "crowding_part r20 r60 =
     (let (a, ta) = (case r20 of Some r \<Rightarrow> if r \<ge> 25 then (- bounded 6 16 ((r - 25) * 0.35), [Overextended_short_term])
                else (0, []) | None \<Rightarrow> (0, []));
          (b, tb) = (case r60 of Some r \<Rightarrow> if r \<ge> 55 then (- bounded 4 12 ((r - 55) * 0.18), [Crowded_trend])
                else (0, []) | None \<Rightarrow> (0, []))
      in (a + b, ta @ tb))"

definition drawdown_part :: "fl option \<Rightarrow> real \<times> reason_tag list \<times> bool" where
  "drawdown_part dd =
     (case dd of None \<Rightarrow> (0, [], False)
      | Some d \<Rightarrow>
          if fl_le d (Fin 12) then (8, [Resilient_drawdown_profile], False)
          else if fl_le (Fin 22) d then
            (- bounded_fl 14 24 (fl_mul (fl_sub d (Fin 22)) (Fin 0.9)), [Historical_drawdown_risk], True)
          else if fl_le (Fin 16) d then
            (- bounded_fl 8 16 (fl_mul (fl_sub d (Fin 16)) (Fin 1.5)), [Elevated_drawdown_profile], False)
          else (0, [], False))"

definition fl_round :: "fl \<Rightarrow> nat \<Rightarrow> fl" where
  "fl_round x n = (case x of Fin a \<Rightarrow> Fin (py_round a n) | _ \<Rightarrow> x)"

definition history_gap :: "real \<Rightarrow> candidate \<Rightarrow> candidate" where
  "history_gap penalty c = c\<lparr>cd_history_available := Some False,
     cd_factor_scores := (cd_factor_scores c)(''history_quality'' \<mapsto> - penalty),
     cd_reason_tags := dedupe (cd_reason_tags c @ [History_gap_penalty]),
     cd_score := py_round (cd_score c - penalty) 2\<rparr>"

definition with_history :: "real list \<Rightarrow> real option \<Rightarrow> real option \<Rightarrow> candidate \<Rightarrow> candidate" where
  "with_history closes r20 r60 c =
     (let vol = volatility_20d closes;
          dd120 = worst_drawdown 120 60 closes;
          dd250 = worst_drawdown 250 120 closes;
          (ts, tt) = trend_part r20 r60;
          (vs, vt) = volatility_part vol;
          (cs, ct) = crowding_part r20 r60;
          (ds, dt, flagged) = drawdown_part (case dd250 of None \<Rightarrow> dd120 | Some d \<Rightarrow> Some d)
      in c\<lparr>cd_history_available := Some True, cd_drawdown_flagged := flagged,
           cd_factor_scores := (cd_factor_scores c)(''history_quality'' \<mapsto> 6,
              ''trend_persistence'' \<mapsto> py_round ts 2, ''volatility_regime'' \<mapsto> py_round vs 2,
              ''crowding_penalty'' \<mapsto> py_round cs 2, ''drawdown_profile'' \<mapsto> py_round ds 2),
           cd_return_20d := map_option (\<lambda>r. py_round r 2) r20,
           cd_return_60d := map_option (\<lambda>r. py_round r 2) r60,
           cd_volatility_20d := map_option (\<lambda>v. fl_round v 2) vol,
           cd_drawdown_120d := map_option (\<lambda>v. fl_round v 2) dd120,
           cd_drawdown_250d := map_option (\<lambda>v. fl_round v 2) dd250,
           cd_reason_tags := dedupe (cd_reason_tags c @ tt @ vt @ ct @ dt @ [History_confirmed]),
           cd_score := py_round (cd_score c + ts + vs + cs + ds) 2\<rparr>)"

definition apply_history_signals :: "history \<Rightarrow> candidate \<Rightarrow> candidate res" where
  "apply_history_signals h c =
     (case h of
        Closes closes \<Rightarrow>
          if length closes < 25 then Inr (history_gap 8 c)
          else rbind (total_return 20 closes) (\<lambda>r20. rbind (total_return 60 closes) (\<lambda>r60.
                 Inr (with_history closes r20 r60 c)))
      | _ \<Rightarrow> Inr (history_gap 10 c))"

section \<open>The memory of failed requests\<close>

type_synonym failure_memory = "(string \<times> datetime) list"

definition failure_cutoff :: "datetime \<Rightarrow> datetime" where
  "failure_cutoff now = now - 12 * 3600"

definition prune_history_failure_memory :: "datetime \<Rightarrow> failure_memory \<Rightarrow> failure_memory" where
  "prune_history_failure_memory now mem = filter (\<lambda>(_, t). t \<ge> failure_cutoff now) mem"

definition has_recent_history_failure :: "datetime \<Rightarrow> failure_memory \<Rightarrow> string \<Rightarrow> bool" where
  "has_recent_history_failure now mem symbol =
     (case map_of mem symbol of None \<Rightarrow> False | Some t \<Rightarrow> t \<ge> failure_cutoff now)"

definition save_history_failure_memory :: "failure_memory \<Rightarrow> failure_memory" where
  "save_history_failure_memory mem = take 512 (sort_desc snd mem)"

section \<open>Enrichment\<close>

definition with_reason :: "candidate \<Rightarrow> candidate" where
  "with_reason c = c\<lparr>cd_selection_reason := selection_reason (cd_reason_tags c)\<rparr>"

definition skip_recent_failure :: "candidate \<Rightarrow> candidate" where
  "skip_recent_failure c = with_reason (c\<lparr>cd_recent_history_failure := Some True,
     cd_factor_scores := (cd_factor_scores c)(''history_fetch_penalty'' \<mapsto> -12),
     cd_reason_tags := dedupe (cd_reason_tags c @ [History_gap_penalty, Recent_history_source_failure]),
     cd_score := py_round (cd_score c - 12) 2\<rparr>)"

text \<open>One candidate of the loop: the candidate and the memory, with a flag that says whether
  the memory has to be written.\<close>

definition enrich_one ::
  "datetime \<Rightarrow> (string \<Rightarrow> history) \<Rightarrow> failure_memory \<times> bool \<Rightarrow> candidate \<Rightarrow> (candidate \<times> failure_memory \<times> bool) res" where
  "enrich_one now fetch st c =
     (let (mem, dirty) = st; symbol = cd_symbol c in
      if has_recent_history_failure now mem symbol then Inr (skip_recent_failure c, mem, dirty)
      else
        let h = fetch symbol;
            failed = (h = No_history);
            st' = (if failed then (AList.update symbol now mem, True)
                   else if map_of mem symbol \<noteq> None then (AList.delete symbol mem, True)
                   else (mem, dirty))
        in rbind (apply_history_signals h (c\<lparr>cd_recent_history_failure := Some failed\<rparr>))
             (\<lambda>c'. Inr (with_reason c', st')))"

fun enrich_all ::
  "datetime \<Rightarrow> (string \<Rightarrow> history) \<Rightarrow> failure_memory \<times> bool \<Rightarrow> candidate list
    \<Rightarrow> (candidate list \<times> failure_memory \<times> bool) res" where
  "enrich_all now fetch st [] = Inr ([], st)"
| "enrich_all now fetch st (c # cs) =
     rbind (enrich_one now fetch st c) (\<lambda>(c', st').
       rbind (enrich_all now fetch st' cs) (\<lambda>(cs', st''). Inr (c' # cs', st'')))"

definition enrich_limit :: "int \<Rightarrow> nat \<Rightarrow> nat" where
  "enrich_limit batch n = min (nat (max (max 1 batch * 3) 8)) (min 12 n)"

section \<open>The ranking\<close>

definition available :: "candidate \<Rightarrow> bool" where
  "available c \<longleftrightarrow> cd_history_available c = Some True"

definition recently_failed :: "candidate \<Rightarrow> bool" where
  "recently_failed c \<longleftrightarrow> cd_recent_history_failure c = Some True"

definition by_quality :: "candidate list \<Rightarrow> candidate list" where
  "by_quality = sort_desc (\<lambda>c. (available c, \<not> cd_drawdown_flagged c, cd_score c, cd_turnover_millions c))"

definition history_confirmed :: "candidate list \<Rightarrow> candidate list" where
  "history_confirmed cs = filter (\<lambda>c. available c \<and> \<not> cd_drawdown_flagged c) cs"

definition history_flagged :: "candidate list \<Rightarrow> candidate list" where
  "history_flagged cs = filter (\<lambda>c. available c \<and> cd_drawdown_flagged c) cs"

definition fallback_pool :: "candidate list \<Rightarrow> candidate list" where
  "fallback_pool cs = filter (\<lambda>c. \<not> available c \<and> \<not> recently_failed c) cs"

definition recent_failure_pool :: "candidate list \<Rightarrow> candidate list" where
  "recent_failure_pool cs = filter (\<lambda>c. \<not> available c \<and> recently_failed c) cs"

definition upto :: "int \<Rightarrow> 'a list \<Rightarrow> 'a list" where
  "upto n xs = take (nat n) xs"

definition ranked_candidates :: "int \<Rightarrow> candidate list \<Rightarrow> candidate list" where
  "ranked_candidates top_n cs =
     (let n = max 1 top_n;
          confirmed = upto n (history_confirmed cs);
          flagged = upto (max 0 (top_n - int (length confirmed))) (history_flagged cs);
          fallback = upto (max 0 (top_n - int (length confirmed) - int (length flagged))) (fallback_pool cs);
          failures = upto (max 0 top_n) (recent_failure_pool cs)
      in upto n (confirmed @ flagged @ fallback @ failures))"

definition number_ranks :: "candidate list \<Rightarrow> candidate list" where
  "number_ranks cs = map (\<lambda>(i, c). c\<lparr>cd_rank := Some i\<rparr>) (enumerate 1 cs)"

section \<open>The selection\<close>

text \<open>A source gives its rows, or nothing when it fails, when its frame is empty or (second
  flag) has no column for code or name.\<close>

record universe_sources =
  us_minshare :: "quote list res"
  us_akshare :: "quote list"
  us_resilient :: "quote list"
  us_has_columns :: "string \<Rightarrow> bool"

definition chosen_frame :: "universe_sources \<Rightarrow> (string \<times> quote list) res" where
  "chosen_frame us =
     (case us_minshare us of
        Inr (q # qs) \<Rightarrow> Inr (''minshare_rt'', q # qs)
      | r \<Rightarrow>
          if us_akshare us \<noteq> [] then Inr (''akshare'', us_akshare us)
          else if us_resilient us \<noteq> [] then Inr (''resilient_fallback'', us_resilient us)
          else (case r of Inl _ \<Rightarrow> Inl RuntimeError | Inr _ \<Rightarrow> Inr (''resilient_fallback'', [])))"

definition screened :: "universe_limits \<Rightarrow> string \<Rightarrow> quote list \<Rightarrow> candidate list" where
  "screened ul source qs =
     sort_desc (\<lambda>c. (cd_score c, cd_turnover_millions c)) (List.map_filter (screen_quote ul source) qs)"

record universe_env =
  ue_limits :: universe_limits
  ue_top_n :: int
  ue_batch :: int
  ue_now :: datetime
  ue_history :: "string \<Rightarrow> history"

definition fetch_hk_universe_candidates ::
  "universe_env \<Rightarrow> universe_sources \<Rightarrow> failure_memory \<Rightarrow> (candidate list \<times> failure_memory) res" where
  "fetch_hk_universe_candidates env us stored =
     rbind (chosen_frame us) (\<lambda>(source, qs).
       if \<not> us_has_columns us source then Inr ([], stored)
       else
         let cs = screened (ue_limits env) source qs;
             limit = enrich_limit (ue_batch env) (length cs);
             mem = prune_history_failure_memory (ue_now env) stored
         in rbind (enrich_all (ue_now env) (ue_history env) (mem, False) (take limit cs)) (\<lambda>(rich, mem', dirty).
              Inr (number_ranks (ranked_candidates (ue_top_n env) (by_quality (rich @ drop limit cs))),
                   if dirty then save_history_failure_memory (prune_history_failure_memory (ue_now env) mem')
                   else stored)))"

section \<open>The first score is bounded\<close>

lemma bounded_range: "lower \<le> upper \<Longrightarrow> lower \<le> bounded lower upper x \<and> bounded lower upper x \<le> upper"
  by (simp add: bounded_def)

lemma bounded_fl_range:
  assumes "lower \<le> upper" shows "lower \<le> bounded_fl lower upper x \<and> bounded_fl lower upper x \<le> upper"
  using assms by (cases x) (auto simp: bounded_fl_def py_max_def py_min_def)

lemma score_parts_range:
  "10 \<le> liquidity_score ul t \<and> liquidity_score ul t \<le> 55"
  "-12 \<le> momentum_score t \<and> momentum_score t \<le> 18"
  "0 \<le> stability_score a \<and> stability_score a \<le> 14"
  "0 \<le> price_quality_score t \<and> price_quality_score t \<le> 10"
proof -
  show "10 \<le> liquidity_score ul t \<and> liquidity_score ul t \<le> 55"
    unfolding liquidity_score_def by (rule bounded_range) simp
  show "-12 \<le> momentum_score t \<and> momentum_score t \<le> 18"
    unfolding momentum_score_def by (rule bounded_range) simp
  show "0 \<le> stability_score a \<and> stability_score a \<le> 14"
    unfolding stability_score_def by (cases a) (simp_all add: bounded_def)
  show "0 \<le> price_quality_score t \<and> price_quality_score t \<le> 10"
    unfolding price_quality_score_def by (rule bounded_range) simp
qed

lemma first_score_range:
  "-2 \<le> cd_score (quote_candidate ul source q symbol price)"
  "cd_score (quote_candidate ul source q symbol price) \<le> 97"
proof -
  define x where "x = liquidity_score ul (py_round (or_zero (qt_amount q) / 1000000) 2)
      + momentum_score (or_zero (qt_pct q)) + stability_score (qt_amplitude q) + price_quality_score price"
  have eq: "cd_score (quote_candidate ul source q symbol price) = py_round x 2"
    by (simp add: quote_candidate_def Let_def x_def)
  have "of_int (-2) \<le> x" "x \<le> of_int 97"
    unfolding x_def using score_parts_range(1) [of ul "py_round (or_zero (qt_amount q) / 1000000) 2"]
      score_parts_range(2) [of "or_zero (qt_pct q)"] score_parts_range(3) [of "qt_amplitude q"]
      score_parts_range(4) [of price] unfolding of_int_minus of_int_numeral by linarith+
  then have "of_int (-2) \<le> py_round x 2" "py_round x 2 \<le> of_int 97"
    by (blast intro: py_round_ge_of_int py_round_le_of_int)+
  then show "-2 \<le> cd_score (quote_candidate ul source q symbol price)"
    "cd_score (quote_candidate ul source q symbol price) \<le> 97" unfolding eq by simp_all
qed

lemma history_parts_range:
  "-20 \<le> fst (trend_part r20 r60) \<and> fst (trend_part r20 r60) \<le> 26"
  "-18 \<le> fst (volatility_part vol) \<and> fst (volatility_part vol) \<le> 9"
  "-28 \<le> fst (crowding_part r20 r60) \<and> fst (crowding_part r20 r60) \<le> 0"
  "-24 \<le> fst (drawdown_part dd) \<and> fst (drawdown_part dd) \<le> 8"
proof -
  have b: "-8 \<le> bounded (-8) 10 x \<and> bounded (-8) 10 x \<le> 10" "-6 \<le> bounded (-6) 8 x \<and> bounded (-6) 8 x \<le> 8"
    "6 \<le> bounded 6 16 x \<and> bounded 6 16 x \<le> 16" "4 \<le> bounded 4 12 x \<and> bounded 4 12 x \<le> 12"
    for x by (rule bounded_range; simp)+
  have f: "-4 \<le> bounded_fl (-4) 4 y \<and> bounded_fl (-4) 4 y \<le> 4" "14 \<le> bounded_fl 14 24 y \<and> bounded_fl 14 24 y \<le> 24"
    "8 \<le> bounded_fl 8 16 y \<and> bounded_fl 8 16 y \<le> 16" for y by (rule bounded_fl_range; simp)+
  show "-20 \<le> fst (trend_part r20 r60) \<and> fst (trend_part r20 r60) \<le> 26"
    using b(1) [of "the r20 * 0.45"] b(2) [of "the r60 * 0.2"]
    by (cases r20; cases r60) (auto simp: trend_part_def Let_def)
  show "-18 \<le> fst (volatility_part vol) \<and> fst (volatility_part vol) \<le> 9"
    using f(1) [of "fl_sub (Fin 3.8) (the vol)"] by (cases vol) (auto simp: volatility_part_def Let_def)
  show "-28 \<le> fst (crowding_part r20 r60) \<and> fst (crowding_part r20 r60) \<le> 0"
    using b(3) [of "(the r20 - 25) * 0.35"] b(4) [of "(the r60 - 55) * 0.18"]
    by (cases r20; cases r60) (auto simp: crowding_part_def Let_def)
  show "-24 \<le> fst (drawdown_part dd) \<and> fst (drawdown_part dd) \<le> 8"
    using f(2) [of "fl_mul (fl_sub (the dd) (Fin 22)) (Fin 0.9)"] f(3) [of "fl_mul (fl_sub (the dd) (Fin 16)) (Fin 1.5)"]
    by (cases dd) (auto simp: drawdown_part_def)
qed

section \<open>What is ranked\<close>

lemma nat_minus_int: "nat (max 0 (i - int k)) = nat i - k"
  by linarith

lemma take_four_groups:
  "take n (take n a @ take (n - length (take n a)) b
      @ take (n - length (take n a) - length (take (n - length (take n a)) b)) c @ take n d)
   = take n (a @ b @ c @ d)"
  by (cases "n \<le> length a"; cases "n - length a \<le> length b"; cases "n - length a - length b \<le> length c") auto

lemma ranking_is_a_prefix_eq:
  assumes "1 \<le> top_n"
  shows "ranked_candidates top_n cs =
    take (nat top_n) (history_confirmed cs @ history_flagged cs @ fallback_pool cs @ recent_failure_pool cs)"
proof -
  have "max 1 top_n = top_n" "nat (max 0 top_n) = nat top_n" using assms by simp_all
  moreover have "top_n - int j - int k = top_n - int (j + k)" for j k by simp
  ultimately show ?thesis
    unfolding ranked_candidates_def Let_def upto_def
    by (simp only: nat_minus_int take_four_groups diff_diff_left [symmetric])
qed

text \<open>C24. The four slices of the ranking, each cut to what the ones before it leave, are one prefix
  of the four groups in order: candidates with a sound history, then those whose history
  shows a deep drawdown, then those without a history, last those whose request just failed.\<close>

theorem ranking_is_a_prefix:
  assumes "1 \<le> top_n"
  shows "ranked_candidates top_n cs =
    take (nat top_n) (history_confirmed cs @ history_flagged cs @ fallback_pool cs @ recent_failure_pool cs)"
  using assms by (rule ranking_is_a_prefix_eq)

lemma ranking_is_a_prefix_witness:
  "ranked_candidates 3 [] = take (nat 3)
     (history_confirmed [] @ history_flagged [] @ fallback_pool [] @ recent_failure_pool [])"
  by (rule ranking_is_a_prefix) simp

definition tradable :: "universe_limits \<Rightarrow> candidate \<Rightarrow> bool" where
  "tradable ul c \<longleftrightarrow> cd_turnover_millions c \<ge> ul_min_turnover ul \<and> cd_lot_cost c \<le> ul_capital ul
     \<and> cd_lot_cost c \<le> ul_max_lot_cost_ratio ul * max (ul_capital ul) 1"

lemma screen_quote_tradable:
  assumes "screen_quote ul source q = Some c" shows "tradable ul c"
proof -
  have pos: "0 < max (ul_capital ul) 1" by simp
  from assms obtain price symbol where c: "c = quote_candidate ul source q symbol price"
    and "\<not> py_round (or_zero (qt_amount q) / 1000000) 2 < ul_min_turnover ul"
      "\<not> py_round (of_int (trade_unit q) * price) 2 > ul_capital ul"
      "\<not> py_round (of_int (trade_unit q) * price) 2 / max (ul_capital ul) 1 > ul_max_lot_cost_ratio ul"
    by (auto simp: screen_quote_def Let_def split: if_splits option.splits)
  then show ?thesis
    by (simp add: tradable_def quote_candidate_def Let_def not_less pos_divide_le_eq [OF pos])
qed

lemma tradable_updates [simp]:
  "tradable ul (history_gap x c) = tradable ul c"
  "tradable ul (with_reason c) = tradable ul c"
  "tradable ul (skip_recent_failure c) = tradable ul c"
  "tradable ul (c\<lparr>cd_recent_history_failure := f\<rparr>) = tradable ul c"
  by (simp_all add: tradable_def history_gap_def with_reason_def skip_recent_failure_def)

lemma with_history_tradable [simp]: "tradable ul (with_history closes r20 r60 c) = tradable ul c"
  by (simp add: tradable_def with_history_def split_def Let_def)

lemma apply_history_tradable: "apply_history_signals h c = Inr c' \<Longrightarrow> tradable ul c' = tradable ul c"
  by (cases h) (auto simp: apply_history_signals_def rbind_eq_Inr_iff split: if_splits)

lemma enrich_one_tradable:
  assumes "enrich_one now fetch (mem, dirty) c = Inr (c', st')"
  shows "tradable ul c' = tradable ul c"
proof (cases "has_recent_history_failure now mem (cd_symbol c)")
  case True
  with assms show ?thesis by (auto simp: enrich_one_def)
next
  case False
  with assms obtain c1 where
    "apply_history_signals (fetch (cd_symbol c)) (c\<lparr>cd_recent_history_failure := Some (fetch (cd_symbol c) = No_history)\<rparr>) = Inr c1"
    "c' = with_reason c1"
    by (auto simp: enrich_one_def Let_def rbind_eq_Inr_iff)
  then show ?thesis using apply_history_tradable [of _ _ c1 ul] by simp
qed

lemma enrich_all_tradable:
  assumes "enrich_all now fetch st cs = Inr (cs', st')"
  shows "list_all (tradable ul) cs' = list_all (tradable ul) cs"
  using assms
proof (induction cs arbitrary: st cs' st')
  case (Cons c cs)
  then obtain c1 st1 cs1 where "enrich_one now fetch st c = Inr (c1, st1)"
    "enrich_all now fetch st1 cs = Inr (cs1, st')" "cs' = c1 # cs1"
    by (auto simp: rbind_eq_Inr_iff)
  then show ?case using Cons.IH enrich_one_tradable [of now fetch "fst st" "snd st" c c1 st1 ul] by simp
qed simp

lemma set_upto: "x \<in> set (upto n xs) \<Longrightarrow> x \<in> set xs"
  by (auto simp: upto_def dest: in_set_takeD)

lemma length_upto: "length (upto n xs) \<le> nat n"
  by (simp add: upto_def)

lemma ranked_candidates_subset: "set (ranked_candidates top_n cs) \<subseteq> set cs"
  unfolding ranked_candidates_def Let_def history_confirmed_def history_flagged_def
    fallback_pool_def recent_failure_pool_def
  by (rule subsetI, drule set_upto) (auto dest!: set_upto)

lemma length_ranked_candidates: "int (length (ranked_candidates top_n cs)) \<le> max 1 top_n"
proof -
  have "length (ranked_candidates top_n cs) \<le> nat (max 1 top_n)"
    unfolding ranked_candidates_def Let_def by (rule length_upto)
  then show ?thesis by linarith
qed

lemma number_ranks_simps:
  "map cd_rank (number_ranks cs) = map Some [1..<Suc (length cs)]"
  "list_all (tradable ul) (number_ranks cs) = list_all (tradable ul) cs"
  "length (number_ranks cs) = length cs"
proof -
  have "map cd_rank (number_ranks cs) = map Some (map fst (enumerate 1 cs))"
    unfolding number_ranks_def map_map by (rule map_cong) auto
  then show "map cd_rank (number_ranks cs) = map Some [1..<Suc (length cs)]"
    by (simp only: map_fst_enumerate plus_1_eq_Suc)
  have "list_all (tradable ul) (map (\<lambda>(i, c). c\<lparr>cd_rank := Some i\<rparr>) (enumerate n cs)) = list_all (tradable ul) cs" for n
    by (induction cs arbitrary: n) (simp_all add: tradable_def)
  then show "list_all (tradable ul) (number_ranks cs) = list_all (tradable ul) cs" by (simp add: number_ranks_def)
qed (simp add: number_ranks_def)

text \<open>C23. Whatever the sources deliver, the candidates that are returned pass the screens: enough
  turnover, one lot within the capital and within its share of it; they are at most as many as
  asked for and numbered from one.\<close>

theorem universe_candidates_contract:
  assumes "fetch_hk_universe_candidates env us stored = Inr (cs, mem)"
  shows "list_all (tradable (ue_limits env)) cs
    \<and> map cd_rank cs = map Some [1..<Suc (length cs)]
    \<and> int (length cs) \<le> max 1 (ue_top_n env)"
proof -
  from assms obtain source qs where frame: "chosen_frame us = Inr (source, qs)"
    by (auto simp: fetch_hk_universe_candidates_def rbind_eq_Inr_iff)
  show ?thesis
  proof (cases "us_has_columns us source")
    case False
    then show ?thesis using assms by (simp add: fetch_hk_universe_candidates_def frame)
  next
    case True
    let ?cs = "screened (ue_limits env) source qs"
    let ?limit = "enrich_limit (ue_batch env) (length ?cs)"
    from assms True obtain rich st where rich: "enrich_all (ue_now env) (ue_history env)
        (prune_history_failure_memory (ue_now env) stored, False) (take ?limit ?cs) = Inr (rich, st)"
      and cs: "cs = number_ranks (ranked_candidates (ue_top_n env) (by_quality (rich @ drop ?limit ?cs)))"
      by (auto simp: fetch_hk_universe_candidates_def frame Let_def rbind_eq_Inr_iff)
    have "list_all (tradable (ue_limits env)) ?cs"
      by (auto simp: screened_def list_all_iff List.map_filter_def intro: screen_quote_tradable)
    then have "list_all (tradable (ue_limits env)) (rich @ drop ?limit ?cs)"
      using enrich_all_tradable [OF rich] by (auto simp: list_all_iff dest: in_set_takeD in_set_dropD)
    then have "list_all (tradable (ue_limits env)) (ranked_candidates (ue_top_n env) (by_quality (rich @ drop ?limit ?cs)))"
      using ranked_candidates_subset by (fastforce simp: list_all_iff by_quality_def)
    then show ?thesis
      unfolding cs by (simp add: number_ranks_simps length_ranked_candidates del: upt_Suc)
  qed
qed

text \<open>The branch that forgets a failure after a request succeeds is never taken: the memory is
  pruned before the loop, so a symbol that is still in it is not requested again until its twelve
  hours are over, and the memory only grows.\<close>

definition all_recent :: "datetime \<Rightarrow> failure_memory \<Rightarrow> bool" where
  "all_recent now mem \<longleftrightarrow> list_all (\<lambda>(_, t). t \<ge> failure_cutoff now) mem"

lemma prune_all_recent: "all_recent now (prune_history_failure_memory now mem)"
  by (auto simp: all_recent_def prune_history_failure_memory_def list_all_iff)

lemma recent_member:
  assumes "all_recent now mem" "map_of mem symbol = Some t"
  shows "has_recent_history_failure now mem symbol"
  using assms map_of_SomeD [OF assms(2)] by (auto simp: all_recent_def has_recent_history_failure_def list_all_iff)

lemma update_all_recent: "all_recent now mem \<Longrightarrow> all_recent now (AList.update symbol now mem)"
  by (induction mem) (auto simp: all_recent_def failure_cutoff_def)

lemma map_of_update_keeps: "map_of mem k = Some t \<Longrightarrow> map_of (AList.update j v mem) k \<noteq> None"
  by (simp add: update_conv' fun_upd_apply)

lemma enrich_one_memory:
  assumes "all_recent now mem" "enrich_one now fetch (mem, dirty) c = Inr (c', mem', dirty')"
  shows "all_recent now mem' \<and> (\<forall>k. map_of mem k \<noteq> None \<longrightarrow> map_of mem' k \<noteq> None)"
proof (cases "has_recent_history_failure now mem (cd_symbol c)")
  case True
  then show ?thesis using assms by (auto simp: enrich_one_def)
next
  case False
  then have "map_of mem (cd_symbol c) = None" using recent_member [OF assms(1)] by (cases "map_of mem (cd_symbol c)") auto
  with False assms(2) have "mem' = mem \<or> mem' = AList.update (cd_symbol c) now mem"
    by (auto simp: enrich_one_def Let_def rbind_eq_Inr_iff split: if_splits)
  then show ?thesis
  proof
    assume "mem' = mem"
    then show ?thesis using assms(1) by simp
  next
    assume "mem' = AList.update (cd_symbol c) now mem"
    then show ?thesis using update_all_recent [OF assms(1)] map_of_update_keeps [of mem] by auto
  qed
qed

lemma enrich_all_memory:
  assumes "all_recent now mem" "enrich_all now fetch (mem, dirty) cs = Inr (cs', mem', dirty')"
  shows "map_of mem k \<noteq> None \<Longrightarrow> map_of mem' k \<noteq> None"
  using assms
proof (induction cs arbitrary: mem dirty cs')
  case (Cons c cs)
  then obtain c1 mem1 dirty1 cs1 where one: "enrich_one now fetch (mem, dirty) c = Inr (c1, mem1, dirty1)"
    and rest: "enrich_all now fetch (mem1, dirty1) cs = Inr (cs1, mem', dirty')"
    by (auto simp: rbind_eq_Inr_iff)
  from enrich_one_memory [OF Cons.prems(2) one] Cons.prems(1) Cons.IH [OF _ _ rest] show ?case by blast
qed simp

theorem failures_are_never_forgotten:
  assumes "enrich_all now fetch (prune_history_failure_memory now stored, False) cs = Inr (cs', mem', dirty')"
    and "has_recent_history_failure now (prune_history_failure_memory now stored) symbol"
  shows "symbol \<in> fst ` set mem'"
proof -
  have "map_of (prune_history_failure_memory now stored) symbol \<noteq> None"
    using assms(2) by (auto simp: has_recent_history_failure_def split: option.splits)
  then have "map_of mem' symbol \<noteq> None"
    by (rule enrich_all_memory [OF prune_all_recent assms(1)])
  then show ?thesis by (auto simp: map_of_eq_None_iff)
qed

section \<open>An example\<close>

definition sample_quote :: quote where
  "sample_quote = \<lparr>qt_code = ''700'', qt_name = ''Tencent'', qt_price = Some 300, qt_pct = Some 1,
     qt_amount = Some 200000000, qt_amplitude = Some 2, qt_trade_unit = None\<rparr>"

definition sample_universe :: universe_env where
  "sample_universe = \<lparr>ue_limits = \<lparr>ul_min_turnover = 200, ul_capital = 200000, ul_max_lot_cost_ratio = 1 / 4\<rparr>,
     ue_top_n = 20, ue_batch = 5, ue_now = 100000, ue_history = (\<lambda>_. No_history)\<rparr>"

definition sample_sources :: universe_sources where
  "sample_sources = \<lparr>us_minshare = Inl ValueError, us_akshare = [sample_quote], us_resilient = [],
     us_has_columns = (\<lambda>_. True)\<rparr>"

lemma py_round_int_eq: "x = of_int k \<Longrightarrow> py_round x n = x"
  by (simp add: py_round_of_int)

lemma sample_screened:
  "screen_quote (ue_limits sample_universe) ''akshare'' sample_quote
     = Some (quote_candidate (ue_limits sample_universe) ''akshare'' sample_quote ''0700.HK'' 300)"
proof -
  have "py_round (200000000 / 1000000) 2 = 200" "py_round 30000 2 = (30000 :: real)"
    using py_round_of_int [of 200 2] py_round_of_int [of 30000 2] by simp_all
  moreover have "raw_code ''700'' = ''700''" "py_isdigit ''700''" "normalize_hk_symbol ''700.HK'' = ''0700.HK''"
    by code_simp+
  moreover have "py_int 100 = 100" by (simp add: py_int_def)
  ultimately show ?thesis
    by (simp add: screen_quote_def sample_quote_def sample_universe_def Let_def or_zero_def trade_unit_def)
qed

lemma sample_selection:
  "\<exists>c mem. fetch_hk_universe_candidates sample_universe sample_sources [] = Inr ([c], mem) \<and> cd_symbol c = ''0700.HK''"
proof -
  define c where "c = quote_candidate (ue_limits sample_universe) ''akshare'' sample_quote ''0700.HK'' 300"
  have symbol: "cd_symbol c = ''0700.HK''" by (simp add: c_def quote_candidate_def Let_def)
  have frame: "chosen_frame sample_sources = Inr (''akshare'', [sample_quote])"
    by (simp add: chosen_frame_def sample_sources_def)
  have screened: "screened (ue_limits sample_universe) ''akshare'' [sample_quote] = [c]"
    by (simp add: screened_def sample_screened map_filter_simps c_def [symmetric] sort_desc_def)
  define c1 where "c1 = with_reason (history_gap 10 (c\<lparr>cd_recent_history_failure := Some True\<rparr>))"
  have c1: "\<not> available c1" "recently_failed c1" "cd_symbol c1 = ''0700.HK''"
    by (simp_all add: c1_def with_reason_def history_gap_def available_def recently_failed_def symbol)
  have rich: "enrich_all (ue_now sample_universe) (ue_history sample_universe) ([], False) [c]
      = Inr ([c1], [(''0700.HK'', 100000)], True)"
    by (simp add: enrich_one_def has_recent_history_failure_def sample_universe_def apply_history_signals_def
        Let_def symbol c1_def)
  have env: "enrich_limit (ue_batch sample_universe) (length [c]) = 1" "ue_top_n sample_universe = 20"
    "us_has_columns sample_sources ''akshare''"
    by (simp_all add: enrich_limit_def sample_universe_def sample_sources_def)
  have ranked: "ranked_candidates 20 (by_quality [c1]) = [c1]"
    by (simp add: ranking_is_a_prefix_eq by_quality_def sort_desc_def history_confirmed_def history_flagged_def
        fallback_pool_def recent_failure_pool_def c1)
  have "fetch_hk_universe_candidates sample_universe sample_sources []
      = Inr (number_ranks [c1], save_history_failure_memory (prune_history_failure_memory 100000 [(''0700.HK'', 100000)]))"
    unfolding fetch_hk_universe_candidates_def frame rbind_Inr prod.case screened Let_def env
    using rich ranked env(3) by (simp add: prune_history_failure_memory_def sample_universe_def)
  then show ?thesis by (simp add: number_ranks_def c1)
qed

lemma universe_candidates_contract_witness:
  "\<exists>c mem. fetch_hk_universe_candidates sample_universe sample_sources [] = Inr ([c], mem)
     \<and> tradable (ue_limits sample_universe) c \<and> cd_rank c = Some 1"
  using sample_selection universe_candidates_contract by fastforce

lemma failures_are_never_forgotten_witness:
  "\<exists>cs mem dirty. enrich_all 0 (\<lambda>_. Closes []) (prune_history_failure_memory 0 [(''0700.HK'', 0)], False)
       [quote_candidate (ue_limits sample_universe) ''akshare'' sample_quote ''0700.HK'' 300] = Inr (cs, mem, dirty)
     \<and> ''0700.HK'' \<in> fst ` set mem"
proof -
  let ?c = "quote_candidate (ue_limits sample_universe) ''akshare'' sample_quote ''0700.HK'' 300"
  have recent: "has_recent_history_failure 0 (prune_history_failure_memory 0 [(''0700.HK'', 0)]) ''0700.HK''"
    by (simp add: has_recent_history_failure_def prune_history_failure_memory_def failure_cutoff_def)
  have symbol: "cd_symbol ?c = ''0700.HK''" by (simp add: quote_candidate_def Let_def)
  have run: "enrich_all 0 (\<lambda>_. Closes []) (prune_history_failure_memory 0 [(''0700.HK'', 0)], False) [?c]
      = Inr ([skip_recent_failure ?c], prune_history_failure_memory 0 [(''0700.HK'', 0)], False)"
    using recent by (simp add: enrich_one_def symbol Let_def)
  from failures_are_never_forgotten [OF run recent] run show ?thesis by blast
qed

end
