(* ===== verification/Provider_Cohorts.thy ===== *)
theory Provider_Cohorts imports LLM_Gateway Quality_Track Event_Stream begin

text \<open>
  The comparison of language-model providers in \<open>api/services.py\<close>: the change of the provider with
  its audit rows, the windows during which a provider was in force (its cohorts), the figures of
  the proposals of a cohort, and the summary, the history and the long-horizon figures made of
  them.  The texts of a time (\<open>isoformat\<close>) and of a status message are parameters; the summary
  sentence is left out.
\<close>

section \<open>Changing the provider\<close>

record provider_texts =
  tx_iso :: "datetime \<Rightarrow> string"
  tx_message :: "llm_message \<Rightarrow> string"

definition code_name :: "llm_code \<Rightarrow> string" where
  "code_name c =
     (case c of Ready \<Rightarrow> ''ready'' | Mock_code \<Rightarrow> ''mock'' | Missing_key \<Rightarrow> ''missing_key''
      | Auth_error \<Rightarrow> ''auth_error'' | Rate_limited \<Rightarrow> ''rate_limited'' | Network_error \<Rightarrow> ''network_error''
      | Provider_error \<Rightarrow> ''provider_error'' | Parse_error \<Rightarrow> ''parse_error'')"

definition current_provider :: "llm_config \<Rightarrow> llm_runtime \<Rightarrow> string" where
  "current_provider cfg rt = provider_name (ls_provider (get_status cfg (Some rt)))"

definition switch_succeeded :: "llm_status \<Rightarrow> bool" where
  "switch_succeeded st \<longleftrightarrow> \<not> (ls_provider st = MiniMax \<and> ls_code st = Missing_key)"

text \<open>The four rows of a change; a flag is stored as its text.\<close>

definition switch_payload :: "provider_texts \<Rightarrow> string \<Rightarrow> llm_status \<Rightarrow> string \<rightharpoonup> string" where
  "switch_payload tx old st =
     [''old_provider'' \<mapsto> old, ''new_provider'' \<mapsto> provider_name (ls_provider st),
      ''status'' \<mapsto> code_name (ls_code st), ''message'' \<mapsto> tx_message tx (ls_message st),
      ''success'' \<mapsto> (if switch_succeeded st then ''True'' else ''False'')]"

definition switch_audit :: "datetime \<Rightarrow> string \<Rightarrow> string \<Rightarrow> (string \<rightharpoonup> string) \<Rightarrow> audit" where
  "switch_audit now kind entity payload =
     \<lparr>au_event_type = kind, au_entity_type = ''llm_gateway'', au_entity_id = entity,
      au_payload = payload, au_created_at = now\<rparr>"

definition switch_audits :: "provider_texts \<Rightarrow> datetime \<Rightarrow> string \<Rightarrow> llm_status \<Rightarrow> audit list" where
  "switch_audits tx now old st =
     (let new = provider_name (ls_provider st); payload = switch_payload tx old st in
      [switch_audit now ''llm_provider_changed'' new payload,
       switch_audit now ''llm_provider_switched'' new payload,
       switch_audit now ''provider_cohort_started'' new
         (payload(''cohort_provider'' \<mapsto> new, ''cohort_started_at'' \<mapsto> tx_iso tx now)),
       switch_audit now ''provider_comparison_window_closed'' old
         [''provider'' \<mapsto> old, ''next_provider'' \<mapsto> new, ''window_closed_at'' \<mapsto> tx_iso tx now,
          ''reason'' \<mapsto> ''provider_switched'']])"

definition set_runtime_llm_provider ::
  "provider_texts \<Rightarrow> llm_config \<Rightarrow> datetime \<Rightarrow> string \<Rightarrow> llm_runtime \<times> audit list
     \<Rightarrow> (llm_status \<times> bool) res \<times> llm_runtime \<times> audit list" where
  "set_runtime_llm_provider tx cfg now provider = (\<lambda>(rt, audits).
     (let old = provider_name (get_provider cfg (Some rt)) in
      case set_provider cfg provider rt of
        (None, rt') \<Rightarrow> (Inl ValueError, rt', audits)
      | (Some st, rt') \<Rightarrow> (Inr (st, switch_succeeded st), rt', audits @ switch_audits tx now old st)))"

section \<open>Cohorts\<close>

record cohort =
  co_provider :: string
  co_started_at :: datetime
  co_closed_at :: "datetime option"

text \<open>\<open>payload.get(a) or payload.get(b) or d\<close>: an empty text is false.\<close>

definition text_or :: "string option \<Rightarrow> string \<Rightarrow> string" where
  "text_or v d = (case v of None \<Rightarrow> d | Some s \<Rightarrow> if s = [] then d else s)"

definition cohort_name :: "audit \<Rightarrow> string" where
  "cohort_name a =
     text_or (au_payload a ''cohort_provider'') (text_or (au_payload a ''new_provider'') (au_entity_id a))"

fun cohorts_of :: "audit list \<Rightarrow> cohort list" where
  "cohorts_of [] = []"
| "cohorts_of (a # rest) =
     \<lparr>co_provider = cohort_name a, co_started_at = au_created_at a,
      co_closed_at = (case rest of [] \<Rightarrow> None | b # _ \<Rightarrow> Some (au_created_at b))\<rparr> # cohorts_of rest"

definition cohort_audits :: "datetime \<Rightarrow> audit list \<Rightarrow> audit list" where
  "cohort_audits since audits =
     sort_key au_created_at
       (filter (\<lambda>a. au_event_type a = ''provider_cohort_started'' \<and> au_created_at a \<ge> since) audits)"

definition open_cohort :: "string \<Rightarrow> datetime \<Rightarrow> cohort" where
  "open_cohort provider since = \<lparr>co_provider = provider, co_started_at = since, co_closed_at = None\<rparr>"

definition with_current :: "string \<Rightarrow> datetime \<Rightarrow> cohort list \<Rightarrow> cohort list" where
  "with_current current since cs =
     (if cs = [] then [open_cohort current since]
      else if co_provider (last cs) \<noteq> current then cs @ [open_cohort current since]
      else cs)"

definition last_three :: "'a list \<Rightarrow> 'a list" where
  "last_three xs = drop (length xs - 3) xs"

definition provider_cohort_windows :: "string \<Rightarrow> datetime \<Rightarrow> int \<Rightarrow> audit list \<Rightarrow> cohort list" where
  "provider_cohort_windows current now days audits =
     (let since = plus_days now (- days)
      in last_three (with_current current since (cohorts_of (cohort_audits since audits))))"

section \<open>The figures of a cohort\<close>

record cohort_metrics =
  cx_provider :: string
  cx_cohort_started_at :: "datetime option"
  cx_cohort_closed_at :: "datetime option"
  cx_proposal_count :: nat
  cx_real_proposal_count :: nat
  cx_fallback_count :: nat
  cx_fallback_rate :: real
  cx_promoted_count :: nat
  cx_promotion_rate :: real
  cx_avg_final_score :: "real option"
  cx_promoted_symbols :: "(string \<times> nat) list"

definition in_cohort :: "datetime option \<Rightarrow> datetime option \<Rightarrow> proposal \<Rightarrow> bool" where
  "in_cohort started until p \<longleftrightarrow>
     (case started of None \<Rightarrow> True | Some t \<Rightarrow> t \<le> pr_created_at p)
     \<and> (case until of None \<Rightarrow> True | Some t \<Rightarrow> pr_created_at p < t)"

definition cohort_proposals :: "datetime option \<Rightarrow> datetime option \<Rightarrow> pool \<Rightarrow> proposal list" where
  "cohort_proposals started until pool = sort_key pr_created_at (filter (in_cohort started until) pool)"

definition of_source :: "string \<Rightarrow> proposal list \<Rightarrow> proposal list" where
  "of_source s = filter (\<lambda>p. pr_source_kind p = s)"

definition fallback_of :: "string \<Rightarrow> proposal list \<Rightarrow> proposal list" where
  "fallback_of provider ps = (if provider = ''mock'' then [] else of_source ''mock'' ps)"

definition promoted_of :: "proposal list \<Rightarrow> proposal list" where
  "promoted_of = filter (\<lambda>p. pr_promoted_at p \<noteq> None \<or> pr_status p = ACTIVE)"

text \<open>Counting in the order of the first occurrence, as a Python dictionary does.\<close>

definition counter :: "'a list \<Rightarrow> ('a \<times> nat) list" where
  "counter xs = map (\<lambda>x. (x, count_of ((=) x) xs)) (dedupe xs)"

definition cohort_rate :: "nat \<Rightarrow> nat \<Rightarrow> real" where
  "cohort_rate k n = (if n = 0 then 0 else py_round (of_nat k / of_nat n) 3)"

definition metrics_of :: "string \<Rightarrow> datetime option \<Rightarrow> datetime option \<Rightarrow> proposal list \<Rightarrow> cohort_metrics" where
  "metrics_of provider started until ps =
     (let genuine = of_source provider ps; fallback = fallback_of provider ps;
          all = length genuine + length fallback; promoted = promoted_of genuine
      in \<lparr>cx_provider = provider, cx_cohort_started_at = started, cx_cohort_closed_at = until,
          cx_proposal_count = all, cx_real_proposal_count = length genuine,
          cx_fallback_count = length fallback, cx_fallback_rate = cohort_rate (length fallback) all,
          cx_promoted_count = length promoted, cx_promotion_rate = cohort_rate (length promoted) (length genuine),
          cx_avg_final_score = (if genuine = [] then None else Some (py_round (mean (map pr_final_score genuine)) 1)),
          cx_promoted_symbols = counter (map pr_symbol promoted)\<rparr>)"

definition build_provider_cohort_metrics ::
  "string \<Rightarrow> datetime option \<Rightarrow> datetime option \<Rightarrow> pool \<Rightarrow> cohort_metrics" where
  "build_provider_cohort_metrics provider started until pool =
     metrics_of provider started until (cohort_proposals started until pool)"

definition metrics_of_cohort :: "pool \<Rightarrow> cohort \<Rightarrow> cohort_metrics" where
  "metrics_of_cohort pool c =
     build_provider_cohort_metrics (co_provider c) (Some (co_started_at c)) (co_closed_at c) pool"

section \<open>Summary and history\<close>

datatype migration_note = Fallback_in_cohort | Thin_cohort | No_prior_cohort

record migration =
  mg_window_days :: int
  mg_current_provider :: string
  mg_previous_provider :: "string option"
  mg_switch_detected :: bool
  mg_notes :: "migration_note list"
  mg_current :: cohort_metrics
  mg_previous :: "cohort_metrics option"
  mg_delta_score :: "real option"
  mg_delta_promotion :: "real option"
  mg_delta_fallback :: "real option"

definition current_window :: "string \<Rightarrow> cohort list \<Rightarrow> cohort" where
  "current_window current cs =
     (case find (\<lambda>c. co_provider c = current) (rev cs) of Some c \<Rightarrow> c | None \<Rightarrow> last cs)"

definition previous_window :: "string \<Rightarrow> cohort list \<Rightarrow> cohort option" where
  "previous_window current cs = find (\<lambda>c. co_provider c \<noteq> current) (rev (butlast cs))"

definition migration_notes :: "cohort_metrics \<Rightarrow> cohort_metrics option \<Rightarrow> migration_note list" where
  "migration_notes cur prev =
     (if cx_fallback_rate cur > 0 then [Fallback_in_cohort] else [])
     @ (if cx_real_proposal_count cur < 3 then [Thin_cohort] else [])
     @ (if prev = None then [No_prior_cohort] else [])"

definition score_delta :: "cohort_metrics \<Rightarrow> cohort_metrics option \<Rightarrow> real option" where
  "score_delta cur prev =
     (case prev of None \<Rightarrow> None
      | Some p \<Rightarrow> (case (cx_avg_final_score cur, cx_avg_final_score p) of
            (Some a, Some b) \<Rightarrow> Some (py_round (a - b) 1) | _ \<Rightarrow> None))"

definition rate_delta :: "(cohort_metrics \<Rightarrow> real) \<Rightarrow> cohort_metrics \<Rightarrow> cohort_metrics option \<Rightarrow> real option" where
  "rate_delta f cur prev = map_option (\<lambda>p. py_round (f cur - f p) 3) prev"

definition build_provider_migration_summary :: "string \<Rightarrow> datetime \<Rightarrow> int \<Rightarrow> audit list \<Rightarrow> pool \<Rightarrow> migration" where
  "build_provider_migration_summary current now days audits pool =
     (let cs = provider_cohort_windows current now days audits;
          cur = metrics_of_cohort pool (current_window current cs);
          prev = map_option (metrics_of_cohort pool) (previous_window current cs)
      in \<lparr>mg_window_days = days, mg_current_provider = current,
          mg_previous_provider = map_option cx_provider prev, mg_switch_detected = (prev \<noteq> None),
          mg_notes = migration_notes cur prev, mg_current = cur, mg_previous = prev,
          mg_delta_score = score_delta cur prev,
          mg_delta_promotion = rate_delta cx_promotion_rate cur prev,
          mg_delta_fallback = rate_delta cx_fallback_rate cur prev\<rparr>)"

record cohort_entry =
  ce_metrics :: cohort_metrics
  ce_label :: string
  ce_is_current :: bool

definition cohort_label :: "provider_texts \<Rightarrow> string \<Rightarrow> datetime \<Rightarrow> string" where
  "cohort_label tx provider started =
     (if tx_iso tx started = [] then provider
      else provider @ '' @ '' @ take 5 (drop 5 (tx_iso tx started)))"

definition cohort_entry_of :: "provider_texts \<Rightarrow> string \<Rightarrow> pool \<Rightarrow> cohort \<Rightarrow> cohort_entry" where
  "cohort_entry_of tx current pool c =
     \<lparr>ce_metrics = metrics_of_cohort pool c, ce_label = cohort_label tx (co_provider c) (co_started_at c),
      ce_is_current = (co_provider c = current \<and> co_closed_at c = None)\<rparr>"

definition build_provider_migration_history ::
  "provider_texts \<Rightarrow> string \<Rightarrow> datetime \<Rightarrow> int \<Rightarrow> audit list \<Rightarrow> pool \<Rightarrow> cohort_entry list" where
  "build_provider_migration_history tx current now days audits pool =
     map (cohort_entry_of tx current pool) (provider_cohort_windows current now days audits)"

section \<open>Long-horizon figures\<close>

record provider_stats =
  ph_window_days :: int
  ph_current_provider :: string
  ph_avg_final_score :: "real option"
  ph_promotion_rate :: real
  ph_fallback_rate :: real
  ph_real_proposal_count :: nat
  ph_cohort_count :: nat
  ph_fallback_rate_delta :: "real option"
  ph_promotion_rate_delta :: "real option"

definition build_provider_long_horizon_stats ::
  "provider_texts \<Rightarrow> string \<Rightarrow> datetime \<Rightarrow> int \<Rightarrow> audit list \<Rightarrow> pool \<Rightarrow> provider_stats" where
  "build_provider_long_horizon_stats tx current now days audits pool =
     (let m = build_provider_migration_summary current now days audits pool; cur = mg_current m
      in \<lparr>ph_window_days = days, ph_current_provider = mg_current_provider m,
          ph_avg_final_score = cx_avg_final_score cur, ph_promotion_rate = cx_promotion_rate cur,
          ph_fallback_rate = cx_fallback_rate cur, ph_real_proposal_count = cx_real_proposal_count cur,
          ph_cohort_count = length (build_provider_migration_history tx current now (max days 90) audits pool),
          ph_fallback_rate_delta = mg_delta_fallback m, ph_promotion_rate_delta = mg_delta_promotion m\<rparr>)"

section \<open>The windows\<close>

lemma base_status_provider [simp]: "ls_provider (base_status cfg p) = p"
  by (cases p) (simp_all add: base_status_def)

lemma current_provider_eq: "current_provider cfg rt = provider_name (get_provider cfg (Some rt))"
  unfolding current_provider_def get_status_def Let_def
  by (simp split: option.split)

lemma cohorts_of_Nil_iff [simp]: "cohorts_of rows = [] \<longleftrightarrow> rows = []"
  by (cases rows) simp_all

lemma last_cohort_open: "rows \<noteq> [] \<Longrightarrow> co_closed_at (last (cohorts_of rows)) = None"
  by (induction rows rule: cohorts_of.induct) auto

lemma cohorts_of_starts: "map co_started_at (cohorts_of rows) = map au_created_at rows"
  by (induction rows) simp_all

lemma cohort_audits_sorted: "sorted (map au_created_at (cohort_audits since audits))"
  by (simp add: cohort_audits_def)

lemma cohort_audits_recent: "a \<in> set (cohort_audits since audits) \<Longrightarrow> since \<le> au_created_at a"
  by (simp add: cohort_audits_def)

lemma cohorts_recent:
  "c \<in> set (cohorts_of (cohort_audits since audits)) \<Longrightarrow> since \<le> co_started_at c"
  using cohort_audits_recent [of _ since audits] cohorts_of_starts [of "cohort_audits since audits"]
  by (metis (no_types, lifting) image_eqI image_iff list.set_map)

lemma last_with_current:
  "with_current current since cs \<noteq> []"
  "co_provider (last (with_current current since cs)) = current"
  by (auto simp: with_current_def open_cohort_def)

lemma last_three_simps [simp]:
  "xs \<noteq> [] \<Longrightarrow> last_three xs \<noteq> []" "xs \<noteq> [] \<Longrightarrow> last (last_three xs) = last xs"
  "length (last_three xs) \<le> 3"
  by (cases xs; simp add: last_three_def)+

lemma set_last_three: "set (last_three xs) \<subseteq> set xs"
  by (simp add: last_three_def set_drop_subset)

lemma current_window_last:
  assumes "cs \<noteq> []" "co_provider (last cs) = current"
  shows "current_window current cs = last cs"
  using assms by (cases cs rule: rev_cases) (simp_all add: current_window_def)

lemma last_open_with_current:
  "co_closed_at (last (with_current current since (cohorts_of rows))) = None"
  by (cases "rows = []") (simp_all add: with_current_def open_cohort_def last_cohort_open)

text \<open>There are between one and three windows, none starting before the comparison window.  The
  last one is open and is that of the provider in force, and it is the one the summary compares;
  the one it is compared with belongs to another provider.\<close>

theorem provider_cohorts_contract:
  "1 \<le> length (provider_cohort_windows current now days audits)
   \<and> length (provider_cohort_windows current now days audits) \<le> 3
   \<and> list_all (\<lambda>c. plus_days now (- days) \<le> co_started_at c) (provider_cohort_windows current now days audits)
   \<and> co_provider (last (provider_cohort_windows current now days audits)) = current
   \<and> co_closed_at (last (provider_cohort_windows current now days audits)) = None
   \<and> mg_current (build_provider_migration_summary current now days audits pool)
       = metrics_of_cohort pool (last (provider_cohort_windows current now days audits))
   \<and> mg_previous_provider (build_provider_migration_summary current now days audits pool) \<noteq> Some current"
proof -
  let ?since = "plus_days now (- days)"
  let ?cs = "with_current current ?since (cohorts_of (cohort_audits ?since audits))"
  let ?ws = "provider_cohort_windows current now days audits"
  have ws: "?ws = last_three ?cs" by (simp add: provider_cohort_windows_def Let_def)
  then have last: "?ws \<noteq> []" "last ?ws = last ?cs" "length ?ws \<le> 3" "co_provider (last ?ws) = current"
    by (simp_all add: last_with_current)
  have "c \<in> set ?cs \<Longrightarrow> ?since \<le> co_started_at c" for c
    using cohorts_recent by (fastforce simp: with_current_def open_cohort_def split: if_splits)
  then have "list_all (\<lambda>c. ?since \<le> co_started_at c) ?ws"
    using set_last_three [of ?cs] by (auto simp: ws list_all_iff)
  moreover have "mg_previous_provider (build_provider_migration_summary current now days audits pool) \<noteq> Some current"
    by (auto simp: build_provider_migration_summary_def Let_def previous_window_def metrics_of_cohort_def
        build_provider_cohort_metrics_def metrics_of_def dest: find_SomeD)
  moreover have "mg_current (build_provider_migration_summary current now days audits pool)
      = metrics_of_cohort pool (last ?ws)"
    using current_window_last [OF last(1,4)] by (simp add: build_provider_migration_summary_def Let_def)
  ultimately show ?thesis
    using last last_open_with_current [of current ?since "cohort_audits ?since audits"]
    by (simp add: Suc_le_eq)
qed

text \<open>How often a proposal is counted.\<close>

definition covers :: "proposal \<Rightarrow> cohort \<Rightarrow> bool" where
  "covers p c = in_cohort (Some (co_started_at c)) (co_closed_at c) p"

lemma count_of_append: "count_of P (xs @ ys) = count_of P xs + count_of P ys"
  by (simp add: count_of_def)

lemma covers_chain:
  assumes "sorted (map au_created_at rows)"
  shows "count_of (covers p) (cohorts_of rows)
    = (if rows \<noteq> [] \<and> au_created_at (hd rows) \<le> pr_created_at p then 1 else 0)"
  using assms
  by (induction rows rule: cohorts_of.induct)
     (auto simp: count_of_def covers_def in_cohort_def split: list.splits)

lemma drop_cohorts_of: "drop n (cohorts_of rows) = cohorts_of (drop n rows)"
  by (induction rows arbitrary: n) (simp_all add: drop_Cons split: nat.split)

lemma sorted_drop_created: "sorted (map au_created_at rows) \<Longrightarrow> sorted (map au_created_at (drop n rows))"
  by (metis drop_map sorted_wrt_drop)

definition stale_record :: "string \<Rightarrow> audit list \<Rightarrow> bool" where
  "stale_record current rows \<longleftrightarrow> rows = [] \<or> co_provider (last (cohorts_of rows)) \<noteq> current"

definition shown_rows :: "string \<Rightarrow> audit list \<Rightarrow> audit list" where
  "shown_rows current rows = drop (length rows - (if stale_record current rows then 2 else 3)) rows"

lemma length_cohorts_of [simp]: "length (cohorts_of rows) = length rows"
  by (induction rows) simp_all

lemma windows_shown:
  "last_three (with_current current since (cohorts_of rows))
     = cohorts_of (shown_rows current rows)
       @ (if stale_record current rows then [open_cohort current since] else [])"
  by (cases "rows = []")
     (auto simp: with_current_def stale_record_def shown_rows_def last_three_def drop_cohorts_of
        numeral_3_eq_3 numeral_2_eq_2 Suc_diff_le)

text \<open>A proposal made since the first window shown is counted in exactly one cohort while the
  last recorded change named the provider in force; otherwise the window of the provider in force
  is drawn over the whole comparison window, and every proposal of the recorded cohorts is counted
  a second time.\<close>

theorem cohorts_partition_proposals:
  "count_of (covers p) (provider_cohort_windows current now days audits) =
     (let since = plus_days now (- days); rows = cohort_audits since audits; shown = shown_rows current rows
      in (if shown \<noteq> [] \<and> au_created_at (hd shown) \<le> pr_created_at p then 1 else 0)
         + (if stale_record current rows \<and> since \<le> pr_created_at p then 1 else 0))"
  unfolding provider_cohort_windows_def Let_def windows_shown count_of_append
  by (subst covers_chain)
     (auto simp: shown_rows_def sorted_drop_created cohort_audits_sorted,
      auto simp: count_of_def covers_def in_cohort_def open_cohort_def)

section \<open>The figures\<close>

lemma count_of_eq: "count_of ((=) x) xs = count_list xs x"
  by (induction xs) (simp_all add: count_of_def)

lemma sum_counter [simp]: "sum_list (map snd (counter xs)) = length xs"
proof -
  have "sum_list (map snd (counter xs)) = sum_list (map (count_list xs) (dedupe xs))"
    by (simp add: counter_def comp_def count_of_eq)
  also have "\<dots> = sum (count_list xs) (set xs)"
    by (simp add: sum_list_distinct_conv_sum_set)
  also have "\<dots> = length xs" by (rule sum_count_set) simp_all
  finally show ?thesis .
qed

lemma counter_keys: "map fst (counter xs) = dedupe xs"
  by (simp add: counter_def comp_def)

lemma cohort_rate_range: "k \<le> n \<Longrightarrow> 0 \<le> cohort_rate k n \<and> cohort_rate k n \<le> 1"
  using py_round_nonneg [of "real k / real n" 3] py_round_le_of_int [of "real k / real n" 1 3]
  by (simp add: cohort_rate_def)

lemma length_of_sources: "s \<noteq> t \<Longrightarrow> length (of_source s ps) + length (of_source t ps) \<le> length ps"
  by (induction ps) (auto simp: of_source_def)

lemma length_promoted_of [simp]: "length (promoted_of ps) \<le> length ps"
  by (simp add: promoted_of_def)

lemma counted_proposals: "length (of_source provider ps) + length (fallback_of provider ps) \<le> length ps"
  using length_of_sources [of provider "''mock''" ps] by (auto simp: fallback_of_def of_source_def)

text \<open>The figures of a cohort add up: genuine and fallback proposals make its count, the
  promoted ones are genuine and are spread over the symbols without loss, and both rates are
  shares.  The mock provider has no fallback.\<close>

theorem cohort_metrics_contract:
  "cx_real_proposal_count (metrics_of provider started until ps) + cx_fallback_count (metrics_of provider started until ps)
     = cx_proposal_count (metrics_of provider started until ps)
   \<and> cx_proposal_count (metrics_of provider started until ps) \<le> length ps
   \<and> cx_promoted_count (metrics_of provider started until ps) \<le> cx_real_proposal_count (metrics_of provider started until ps)
   \<and> sum_list (map snd (cx_promoted_symbols (metrics_of provider started until ps)))
       = cx_promoted_count (metrics_of provider started until ps)
   \<and> distinct (map fst (cx_promoted_symbols (metrics_of provider started until ps)))
   \<and> 0 \<le> cx_fallback_rate (metrics_of provider started until ps) \<and> cx_fallback_rate (metrics_of provider started until ps) \<le> 1
   \<and> 0 \<le> cx_promotion_rate (metrics_of provider started until ps) \<and> cx_promotion_rate (metrics_of provider started until ps) \<le> 1
   \<and> cx_fallback_rate (metrics_of ''mock'' started until ps) = 0"
  using cohort_rate_range [of "length (fallback_of provider ps)"
      "length (of_source provider ps) + length (fallback_of provider ps)"]
    cohort_rate_range [of "length (promoted_of (of_source provider ps))" "length (of_source provider ps)"]
    counted_proposals [of provider ps]
  by (simp add: metrics_of_def Let_def counter_keys fallback_of_def [of "''mock''"] cohort_rate_def [of 0])

section \<open>A switch without a key\<close>

lemma switch_without_key:
  assumes "lc_api_key cfg = []" "parse_provider name = Some MiniMax"
  shows "set_runtime_llm_provider tx cfg now name (rt, audits)
    = (Inr (base_status cfg MiniMax, False), rt,
       audits @ switch_audits tx now (current_provider cfg rt) (base_status cfg MiniMax))"
  using assms
  by (simp add: set_runtime_llm_provider_def set_provider_def base_status_def current_provider_eq
      switch_succeeded_def)

lemma switch_cohort_rows:
  "filter (\<lambda>a. au_event_type a = ''provider_cohort_started'' \<and> au_created_at a \<ge> since) (switch_audits tx now old st)
     = (if since \<le> now then [switch_audit now ''provider_cohort_started'' (provider_name (ls_provider st))
         ((switch_payload tx old st)(''cohort_provider'' \<mapsto> provider_name (ls_provider st),
            ''cohort_started_at'' \<mapsto> tx_iso tx now))] else [])"
  by (simp add: switch_audits_def switch_audit_def Let_def)

lemma cohort_rows_after_switch:
  assumes "list_all (\<lambda>a. au_created_at a \<le> now) audits" "since \<le> now"
  shows "\<exists>row. cohort_audits since (audits @ switch_audits tx now old st) = cohort_audits since audits @ [row]
    \<and> au_created_at row = now \<and> cohort_name row = provider_name (ls_provider st)"
proof -
  let ?row = "switch_audit now ''provider_cohort_started'' (provider_name (ls_provider st))
         ((switch_payload tx old st)(''cohort_provider'' \<mapsto> provider_name (ls_provider st),
            ''cohort_started_at'' \<mapsto> tx_iso tx now))"
  have "cohort_audits since (audits @ switch_audits tx now old st) = cohort_audits since audits @ [?row]"
    unfolding cohort_audits_def filter_append switch_cohort_rows using assms
    by (subst if_P, simp, subst sort_key_append_max) (auto simp: list_all_iff switch_audit_def)
  moreover have "au_created_at ?row = now" "cohort_name ?row = provider_name (ls_provider st)"
    by (cases "ls_provider st"; simp add: switch_audit_def cohort_name_def text_or_def provider_name_def)+
  ultimately show ?thesis by blast
qed

lemma last_cohorts_append: "last (cohorts_of (rows @ [r])) = open_cohort (cohort_name r) (au_created_at r)"
  by (induction rows rule: cohorts_of.induct) (simp_all add: open_cohort_def)

lemma covered_twice:
  assumes "stale_record current rows" "rows = before @ [r]" "since \<le> pr_created_at p" "au_created_at r \<le> pr_created_at p"
    "sorted (map au_created_at rows)"
  shows "count_of (covers p) (last_three (with_current current since (cohorts_of rows))) = 2"
proof -
  have "shown_rows current rows \<noteq> []" using assms(2) by (simp add: shown_rows_def)
  moreover have "au_created_at (hd (shown_rows current rows)) \<le> pr_created_at p"
    using assms(2,4,5) calculation set_drop_subset [of _ rows] hd_in_set [of "shown_rows current rows"]
    by (fastforce simp: shown_rows_def sorted_append)
  moreover have "sorted (map au_created_at (shown_rows current rows))"
    unfolding shown_rows_def by (rule sorted_drop_created) (rule assms(5))
  moreover have "count_of (covers p) [open_cohort current since] = 1"
    using assms(3) by (simp add: count_of_def covers_def in_cohort_def open_cohort_def)
  ultimately show ?thesis
    unfolding windows_shown count_of_append using assms(1) by (simp add: covers_chain)
qed

text \<open>A change to the provider that has no key fails and leaves the provider and its stored state
  as they were; its audit rows are written all the same.  While the other provider stays in force,
  a proposal made afterwards is therefore counted in two cohorts, one of them that of the provider
  that was never in force.\<close>

theorem failed_switch_is_recorded:
  assumes "lc_api_key cfg = []" "parse_provider name = Some MiniMax"
    and "get_provider cfg (Some rt) = MockProvider"
    and "list_all (\<lambda>a. au_created_at a \<le> now) audits"
    and "plus_days later (- days) \<le> now" "now \<le> pr_created_at p"
  shows "fst (set_runtime_llm_provider tx cfg now name (rt, audits)) = Inr (base_status cfg MiniMax, False)
    \<and> fst (snd (set_runtime_llm_provider tx cfg now name (rt, audits))) = rt
    \<and> length (snd (snd (set_runtime_llm_provider tx cfg now name (rt, audits)))) = length audits + 4
    \<and> count_of (covers p) (provider_cohort_windows (current_provider cfg rt) later days
        (snd (snd (set_runtime_llm_provider tx cfg now name (rt, audits))))) = 2"
proof -
  let ?audits = "audits @ switch_audits tx now (current_provider cfg rt) (base_status cfg MiniMax)"
  let ?since = "plus_days later (- days)"
  obtain row where row: "cohort_audits ?since ?audits = cohort_audits ?since audits @ [row]"
      "au_created_at row = now" "cohort_name row = ''minimax''"
    using cohort_rows_after_switch [OF assms(4,5)] by (force simp: provider_name_def)
  have "stale_record (current_provider cfg rt) (cohort_audits ?since ?audits)"
    using assms(3) row by (simp add: stale_record_def last_cohorts_append open_cohort_def
        current_provider_eq provider_name_def)
  then have "count_of (covers p) (provider_cohort_windows (current_provider cfg rt) later days ?audits) = 2"
    unfolding provider_cohort_windows_def Let_def
    by (rule covered_twice [OF _ row(1) _ _ cohort_audits_sorted]) (use assms(5,6) row(2) in auto)
  then show ?thesis
    using switch_without_key [OF assms(1,2), of tx now rt audits] by (simp add: switch_audits_def Let_def)
qed

theorem failed_switch_is_recorded_witness:
  "count_of (covers (sample_proposal ''p'' CANDIDATE 5))
     (provider_cohort_windows ''mock'' 7 30
        (snd (snd (set_runtime_llm_provider \<lparr>tx_iso = \<lambda>_. [], tx_message = \<lambda>_. []\<rparr>
           (sample_config\<lparr>lc_api_key := [], lc_provider := ''mock''\<rparr>) 3 ''MiniMax''
           (\<lparr>lr_provider = None, lr_status = None\<rparr>, []))))) = 2"
proof -
  let ?cfg = "sample_config\<lparr>lc_api_key := [], lc_provider := ''mock''\<rparr>"
  let ?rt = "\<lparr>lr_provider = None, lr_status = None\<rparr>"
  have rt: "get_provider ?cfg (Some ?rt) = MockProvider" by code_simp
  have "current_provider ?cfg ?rt = ''mock''" by code_simp
  moreover have "parse_provider ''MiniMax'' = Some MiniMax" by code_simp
  ultimately show ?thesis
    using failed_switch_is_recorded [of ?cfg "''MiniMax''" ?rt 3 "[]" 7 30 "sample_proposal ''p'' CANDIDATE 5"
        "\<lparr>tx_iso = \<lambda>_. [], tx_message = \<lambda>_. []\<rparr>"] rt
    by (simp add: plus_days_def)
qed

end
