(* ===== verification/Long_Horizon.thy ===== *)
theory Long_Horizon imports Watchdog Live_Readiness Provider_Cohorts begin

text \<open>
  The histories and long-horizon figures of \<open>api/services.py\<close>: the syncs as their audit rows
  record them, the checks of the watchdog as the service reads them back, the paper slots with
  their figures, and the figures over the last runs, evaluations and slots.  Sentences are left out.
\<close>

section \<open>The history of the syncs\<close>

text \<open>The audit row of a sync carries the status as it is shown when the row is written.\<close>

record sync_audit =
  sa_failed :: bool
  sa_created_at :: datetime
  sa_state :: string
  sa_trigger :: "string option"
  sa_duration_ms :: "int option"
  sa_stage_durations :: "(string \<times> int) list"
  sa_stage :: "string option"
  sa_degraded :: bool

definition sync_audit_of :: "bool \<Rightarrow> datetime \<Rightarrow> string \<Rightarrow> shown_state \<Rightarrow> pipeline_status \<Rightarrow> sync_audit" where
  "sync_audit_of failed created trigger shown p =
     \<lparr>sa_failed = failed, sa_created_at = created, sa_state = shown_name shown, sa_trigger = Some trigger,
      sa_duration_ms = st_last_duration_ms p, sa_stage_durations = st_stage_durations p,
      sa_stage = st_stage p, sa_degraded = st_degraded p\<rparr>"

text \<open>The last row of a completed and of a failed sync; \<open>read\<close> is the clock when the status is read
  back, which is later than the time the completion is dated with.\<close>

definition completed_sync_audit ::
  "int \<Rightarrow> datetime \<Rightarrow> datetime \<Rightarrow> datetime \<Rightarrow> string \<Rightarrow> bool \<Rightarrow> batch_info \<Rightarrow> pipeline_status option \<Rightarrow> sync_audit" where
  "completed_sync_audit configured started snapshot read trigger degraded batch prev =
     (let p = sync_completed configured started snapshot trigger degraded batch prev
      in sync_audit_of False snapshot trigger (fst (get_pipeline_runtime_status configured read (Some p))) p)"

definition failed_sync_audit ::
  "int \<Rightarrow> datetime \<Rightarrow> datetime \<Rightarrow> datetime \<Rightarrow> string \<Rightarrow> pipeline_status option \<Rightarrow> sync_audit" where
  "failed_sync_audit configured started failed_at read trigger prev =
     (let p = sync_failed configured started failed_at trigger prev
      in sync_audit_of True failed_at trigger (fst (get_pipeline_runtime_status configured read (Some p))) p)"

record sync_entry =
  hy_created_at :: datetime
  hy_state :: string
  hy_trigger :: "string option"
  hy_total_duration_ms :: "int option"
  hy_stage_durations :: "(string \<times> int) list"
  hy_current_stage :: "string option"
  hy_degraded :: bool

definition sync_entry_of :: "sync_audit \<Rightarrow> sync_entry" where
  "sync_entry_of a =
     \<lparr>hy_created_at = sa_created_at a, hy_state = (if sa_failed a then ''failed'' else sa_state a),
      hy_trigger = sa_trigger a, hy_total_duration_ms = sa_duration_ms a,
      hy_stage_durations = sa_stage_durations a, hy_current_stage = sa_stage a, hy_degraded = sa_degraded a\<rparr>"

definition build_runtime_sync_history :: "nat \<Rightarrow> sync_audit list \<Rightarrow> sync_entry list" where
  "build_runtime_sync_history limit audits =
     map sync_entry_of (take limit (sort_desc sa_created_at (rev audits)))"

section \<open>The history of the watchdog\<close>

definition build_runtime_watchdog_history :: "nat \<Rightarrow> watchdog_state \<Rightarrow> watchdog_snapshot list" where
  "build_runtime_watchdog_history limit wd = rev (last_entries (max 1 limit) (wd_history wd))"

section \<open>Figures over the last runs\<close>

record runtime_stats =
  rs_window_days :: nat
  rs_total_sync_runs :: nat
  rs_success_rate :: real
  rs_avg_duration_ms :: "real option"
  rs_degraded_runs :: nat
  rs_failed_runs :: nat
  rs_stalled_runs :: nat
  rs_watchdog_issue_count :: nat
  rs_watchdog_restart_count :: nat

definition runtime_stats_of :: "nat \<Rightarrow> sync_entry list \<Rightarrow> watchdog_snapshot list \<Rightarrow> runtime_stats" where
  "runtime_stats_of days recent checks =
     (let durations = List.map_filter hy_total_duration_ms recent
      in \<lparr>rs_window_days = days, rs_total_sync_runs = length recent,
          rs_success_rate = cohort_rate (count_of (\<lambda>h. hy_state h \<noteq> ''failed'') recent) (length recent),
          rs_avg_duration_ms =
            (if durations = [] then None else Some (py_round (mean (map of_int durations)) 1)),
          rs_degraded_runs = count_of hy_degraded recent,
          rs_failed_runs = count_of (\<lambda>h. hy_state h = ''failed'') recent,
          rs_stalled_runs = count_of (\<lambda>h. hy_state h = ''stalled'') recent,
          rs_watchdog_issue_count = count_of (\<lambda>w. ws_issues w \<noteq> []) checks,
          rs_watchdog_restart_count = count_of ws_restart_attempted checks\<rparr>)"

definition build_runtime_long_horizon_stats :: "nat \<Rightarrow> sync_audit list \<Rightarrow> watchdog_state \<Rightarrow> runtime_stats" where
  "build_runtime_long_horizon_stats days audits wd =
     runtime_stats_of days
       (take (max 8 days) (build_runtime_sync_history (max 30 (days * 4)) audits))
       (build_runtime_watchdog_history (max 24 (days * 3)) wd)"

section \<open>Figures over the last evaluations\<close>

definition most_common :: "nat \<Rightarrow> ('a \<times> nat) list \<Rightarrow> 'a list" where
  "most_common n c = map fst (take n (sort_desc snd c))"

record readiness_stats =
  rd_window_days :: nat
  rd_latest_score :: "int option"
  rd_avg_score :: "real option"
  rd_best_score :: "int option"
  rd_score_change :: "real option"
  rd_dominant_blockers :: "string list"
  rd_status_counts :: "(readiness_status \<times> nat) list"

definition readiness_stats_of :: "nat \<Rightarrow> readiness_entry list \<Rightarrow> readiness_stats" where
  "readiness_stats_of days history =
     (if history = [] then
        \<lparr>rd_window_days = days, rd_latest_score = None, rd_avg_score = None, rd_best_score = None,
         rd_score_change = None, rd_dominant_blockers = [], rd_status_counts = []\<rparr>
      else
        \<lparr>rd_window_days = days, rd_latest_score = Some (rn_score (hd history)),
         rd_avg_score = Some (py_round (mean (map (\<lambda>h. of_int (rn_score h)) history)) 1),
         rd_best_score = Some (Max (set (map rn_score history))),
         rd_score_change = Some (of_int (rn_score (hd history)) - of_int (rn_score (last history))),
         rd_dominant_blockers = most_common 4 (counter (concat (map rn_blockers history))),
         rd_status_counts = counter (map rn_status history)\<rparr>)"

definition build_readiness_long_horizon_stats :: "nat \<Rightarrow> readiness_entry list \<Rightarrow> readiness_stats" where
  "build_readiness_long_horizon_stats days rows =
     readiness_stats_of days (build_live_readiness_history (max 12 days) rows)"

section \<open>The paper slots\<close>

record slot_metrics =
  pm_slot_id :: slot_id
  pm_slot_kind :: slot_kind
  pm_rank :: "nat option"
  pm_status :: slot_status
  pm_proposal_id :: "string option"
  pm_proposal :: "proposal option"
  pm_latest_execution :: "execution option"
  pm_total_equity :: "real option"
  pm_position_count :: nat
  pm_latest_nav_change :: "real option"
  pm_live_days :: nat
  pm_fill_rate :: "real option"
  pm_drawdown :: "real option"
  pm_incident_count_30d :: nat
  pm_equity_change_from_start :: "real option"

definition proposal_of_slot :: "pool \<Rightarrow> slot \<Rightarrow> proposal option" where
  "proposal_of_slot pool s =
     (case sl_proposal_id s of None \<Rightarrow> None | Some i \<Rightarrow> find (\<lambda>p. pr_id p = i) pool)"

definition latest_nav_change :: "real list \<Rightarrow> real option" where
  "latest_nav_change navs = (case navs of a # b # _ \<Rightarrow> Some (py_round (a - b) 2) | _ \<Rightarrow> None)"

definition equity_change_from_start :: "real list \<Rightarrow> real option" where
  "equity_change_from_start navs = (if navs = [] then None else Some (py_round (hd navs - last navs) 2))"

definition slot_equities :: "nat \<Rightarrow> slot_id \<Rightarrow> paper_store \<Rightarrow> real list" where
  "slot_equities limit s px = map nr_total_equity (fetch_nav limit s px)"

definition paper_slot_metrics :: "pool \<Rightarrow> paper_store \<Rightarrow> slot \<Rightarrow> slot_metrics" where
  "paper_slot_metrics pool px s =
     (let i = sl_slot_id s; navs = slot_equities 120 i px;
          statuses = order_statuses (fetch_orders 120 i px); prop = proposal_of_slot pool s
      in \<lparr>pm_slot_id = i, pm_slot_kind = sl_slot_kind s, pm_rank = sl_rank s, pm_status = sl_status s,
          pm_proposal_id = sl_proposal_id s, pm_proposal = prop,
          pm_latest_execution = (case prop of None \<Rightarrow> None | Some p \<Rightarrow> latest_paper_execution (pr_id p) i px),
          pm_total_equity = (if navs = [] then None else Some (hd navs)),
          pm_position_count = count_of (\<lambda>r. ps_quantity r > 0) (fetch_positions 120 i px),
          pm_latest_nav_change = latest_nav_change navs, pm_live_days = length navs,
          pm_fill_rate = map_option (\<lambda>f. py_round f 3) (order_fill_rate statuses),
          pm_drawdown = (if navs = [] then None else Some (paper_nav_drawdown navs)),
          pm_incident_count_30d = 0, pm_equity_change_from_start = equity_change_from_start navs\<rparr>)"

text \<open>\<open>item.get('proposal_id')\<close>: an empty identifier counts as none.\<close>

definition holds_proposal :: "slot_metrics \<Rightarrow> bool" where
  "holds_proposal m \<longleftrightarrow> (case pm_proposal_id m of None \<Rightarrow> False | Some i \<Rightarrow> i \<noteq> [])"

record paper_pool_view =
  pv_slots :: "slot_metrics list"
  pv_slot_count :: nat
  pv_occupied_slot_count :: nat
  pv_challenger_count :: nat
  pv_strongest_slot_id :: "slot_id option"
  pv_strongest_proposal_id :: "string option"
  pv_score_delta :: "real option"

definition proposal_score :: "proposal option \<Rightarrow> real" where
  "proposal_score p = (case p of None \<Rightarrow> 0 | Some q \<Rightarrow> pr_final_score q)"

definition paper_pool_view_of :: "slot_metrics list \<Rightarrow> paper_pool_view" where
  "paper_pool_view_of slots =
     (let primary = find (\<lambda>m. pm_slot_id m = Primary_slot) slots;
          challengers = filter (\<lambda>m. pm_slot_id m \<noteq> Primary_slot) slots;
          strongest = find holds_proposal challengers
      in \<lparr>pv_slots = slots, pv_slot_count = length slots,
          pv_occupied_slot_count = count_of holds_proposal slots,
          pv_challenger_count = count_of holds_proposal challengers,
          pv_strongest_slot_id = map_option pm_slot_id strongest,
          pv_strongest_proposal_id = (case strongest of None \<Rightarrow> None | Some m \<Rightarrow> pm_proposal_id m),
          pv_score_delta =
            (case (strongest, primary) of
               (Some m, Some q) \<Rightarrow> Some (py_round (proposal_score (pm_proposal m) - proposal_score (pm_proposal q)) 1)
             | _ \<Rightarrow> None)\<rparr>)"

definition build_paper_pool ::
  "governance_settings \<Rightarrow> datetime \<Rightarrow> pool \<Rightarrow> paper_store \<Rightarrow> slot_table \<Rightarrow> slot_table \<times> paper_pool_view" where
  "build_paper_pool gs now pool px tab =
     (let (tab', slots) = list_paper_slots gs (get_active_strategy pool) now tab
      in (tab', paper_pool_view_of (map (paper_slot_metrics pool px) slots)))"

section \<open>Figures over the slots\<close>

record paper_stats =
  pt_window_days :: nat
  pt_slot_count :: nat
  pt_occupied_slot_count :: nat
  pt_challenger_count :: nat
  pt_total_execution_count :: nat
  pt_executed_count :: nat
  pt_skipped_count :: nat
  pt_fill_rate :: "real option"
  pt_max_drawdown :: "real option"
  pt_aggregate_equity_change :: "real option"
  pt_incident_count :: nat

definition stats_limit :: "nat \<Rightarrow> nat" where
  "stats_limit days = max 30 (days * 8)"

definition equity_changes :: "real list list \<Rightarrow> real list" where
  "equity_changes navs = map (\<lambda>ns. last ns - hd ns) (filter (\<lambda>ns. ns \<noteq> []) navs)"

definition paper_stats_of :: "nat \<Rightarrow> paper_store \<Rightarrow> slot_metrics list \<Rightarrow> paper_stats" where
  "paper_stats_of days px slots =
     (let occupied = filter holds_proposal slots;
          statuses = concat (map (\<lambda>m. order_statuses (fetch_orders (stats_limit days) (pm_slot_id m) px)) occupied);
          filled = count_of (\<lambda>s. py_lower s = ''filled'') statuses;
          navs = map (\<lambda>m. slot_equities (stats_limit days) (pm_slot_id m) px) occupied;
          drawdowns = map paper_nav_drawdown (filter (\<lambda>ns. ns \<noteq> []) navs);
          changes = equity_changes navs
      in \<lparr>pt_window_days = days, pt_slot_count = length slots, pt_occupied_slot_count = length occupied,
          pt_challenger_count = length occupied - 1, pt_total_execution_count = length statuses,
          pt_executed_count = filled, pt_skipped_count = count_of (\<lambda>s. py_lower s = ''skipped'') statuses,
          pt_fill_rate =
            (if statuses = [] then None else Some (py_round (of_nat filled / of_nat (length statuses)) 3)),
          pt_max_drawdown = (if drawdowns = [] then None else Some (py_round (Max (set drawdowns)) 4)),
          pt_aggregate_equity_change = (if changes = [] then None else Some (py_round (sum_list changes) 2)),
          pt_incident_count = sum_list (map pm_incident_count_30d occupied)\<rparr>)"

definition build_paper_long_horizon_stats ::
  "nat \<Rightarrow> governance_settings \<Rightarrow> datetime \<Rightarrow> pool \<Rightarrow> paper_store \<Rightarrow> slot_table \<Rightarrow> paper_stats" where
  "build_paper_long_horizon_stats days gs now pool px tab =
     paper_stats_of days px (pv_slots (snd (build_paper_pool gs now pool px tab)))"

section \<open>The runs\<close>

lemma completed_audit_simps:
  "\<not> sa_failed (completed_sync_audit configured started snapshot read trigger degraded batch prev)"
  "sa_degraded (completed_sync_audit configured started snapshot read trigger degraded batch prev) = degraded"
  by (simp_all add: completed_sync_audit_def sync_audit_of_def Let_def status_defs)

lemma failed_audit_simps:
  "sa_failed (failed_sync_audit configured started failed_at read trigger prev)"
  "sa_degraded (failed_sync_audit configured started failed_at read trigger prev)"
  by (simp_all add: failed_sync_audit_def sync_audit_of_def Let_def status_defs)

lemma completed_audit_state:
  "sa_state (completed_sync_audit configured started snapshot read trigger degraded batch prev)
     = (if degraded then ''degraded'' else if read > snapshot + 60 * max 5 configured then ''stalled'' else ''scheduled'')"
  by (simp add: completed_sync_audit_def sync_audit_of_def Let_def status_defs get_pipeline_runtime_status_def
      is_stalled_def plus_minutes_def interval_minutes_def shown_name_def mult.commute)

text \<open>The rows that syncs write.\<close>

inductive sync_row :: "int \<Rightarrow> sync_audit \<Rightarrow> bool" for configured where
  Completed_row: "sync_row configured (completed_sync_audit configured started snapshot read trigger degraded batch prev)"
| Failed_row: "sync_row configured (failed_sync_audit configured started failed_at read trigger prev)"

lemma sync_row_entry:
  assumes "sync_row configured a"
  shows "hy_state (sync_entry_of a) = ''failed'' \<longrightarrow> hy_degraded (sync_entry_of a)"
    and "hy_state (sync_entry_of a) = ''stalled'' \<longrightarrow> \<not> hy_degraded (sync_entry_of a)"
  using assms by (cases; simp add: sync_entry_of_def completed_audit_simps failed_audit_simps completed_audit_state)+

lemma sync_history_rows:
  "h \<in> set (build_runtime_sync_history limit audits) \<Longrightarrow> \<exists>a\<in>set audits. h = sync_entry_of a"
  unfolding build_runtime_sync_history_def by (auto dest!: in_set_takeD)

lemma count_of_add_le:
  assumes "\<And>x. x \<in> set xs \<Longrightarrow> P x \<Longrightarrow> \<not> Q x"
  shows "count_of P xs + count_of Q xs \<le> length xs"
  using count_of_mono [of xs P "\<lambda>x. \<not> Q x"] length_filter_split [of Q xs] assms
  by (simp add: count_of_def)

lemma count_of_not: "count_of (\<lambda>x. \<not> P x) xs = length xs - count_of P xs"
  using length_filter_split [of P xs] by (simp add: count_of_def)

lemma recent_runs:
  assumes "list_all (sync_row configured) audits"
    and "h \<in> set (take n (build_runtime_sync_history limit audits))"
  shows "(hy_state h = ''failed'' \<longrightarrow> hy_degraded h) \<and> (hy_state h = ''stalled'' \<longrightarrow> \<not> hy_degraded h)"
  using assms sync_history_rows [OF in_set_takeD [OF assms(2)]] sync_row_entry
  by (auto simp: list_all_iff)

text \<open>What the figures of the last runs count, when the rows are those that syncs wrote: at most
  so many runs as the window has days (eight at least), whatever their dates; every failed run is
  also a degraded one, a stalled one is neither, and only failed runs lower the success rate.\<close>

theorem runtime_stats_contract:
  assumes "list_all (sync_row configured) audits"
  shows "rs_total_sync_runs (build_runtime_long_horizon_stats days audits wd) \<le> max 8 days
    \<and> rs_success_rate (build_runtime_long_horizon_stats days audits wd)
        = cohort_rate (rs_total_sync_runs (build_runtime_long_horizon_stats days audits wd)
              - rs_failed_runs (build_runtime_long_horizon_stats days audits wd))
            (rs_total_sync_runs (build_runtime_long_horizon_stats days audits wd))
    \<and> rs_failed_runs (build_runtime_long_horizon_stats days audits wd)
        \<le> rs_degraded_runs (build_runtime_long_horizon_stats days audits wd)
    \<and> rs_stalled_runs (build_runtime_long_horizon_stats days audits wd)
        + rs_degraded_runs (build_runtime_long_horizon_stats days audits wd)
        \<le> rs_total_sync_runs (build_runtime_long_horizon_stats days audits wd)"
proof -
  let ?recent = "take (max 8 days) (build_runtime_sync_history (max 30 (days * 4)) audits)"
  have "count_of (\<lambda>h. hy_state h = ''failed'') ?recent \<le> count_of hy_degraded ?recent"
    by (rule count_of_mono) (use recent_runs [OF assms(1)] in blast)
  moreover have "count_of (\<lambda>h. hy_state h = ''stalled'') ?recent + count_of hy_degraded ?recent \<le> length ?recent"
    by (rule count_of_add_le) (use recent_runs [OF assms(1)] in blast)
  ultimately show ?thesis
    by (simp add: build_runtime_long_horizon_stats_def runtime_stats_of_def Let_def count_of_not)
qed

theorem runtime_stats_contract_witness:
  "rs_stalled_runs (build_runtime_long_horizon_stats 30
      [failed_sync_audit 5 0 9 10 ''scheduler'' None] \<lparr>wd_latest = None, wd_history = []\<rparr>) = 0"
proof -
  let ?audits = "[failed_sync_audit 5 0 9 10 ''scheduler'' None]"
  let ?wd = "\<lparr>wd_latest = None, wd_history = []\<rparr>"
  have rows: "list_all (sync_row 5) ?audits" by (simp add: Failed_row)
  have "rs_total_sync_runs (build_runtime_long_horizon_stats 30 ?audits ?wd) = 1"
    "rs_degraded_runs (build_runtime_long_horizon_stats 30 ?audits ?wd) = 1"
    by (simp_all add: build_runtime_long_horizon_stats_def runtime_stats_of_def Let_def
        build_runtime_sync_history_def sync_entry_of_def failed_audit_simps count_of_def sort_desc_def)
  then show ?thesis using runtime_stats_contract [OF rows, of 30 ?wd] by simp
qed

text \<open>A completed sync is recorded as stalled, and counted as a success, when the rest of its work
  after the market snapshot took longer than the interval: the next run is due one interval
  after the snapshot, and the status is read when all is done.\<close>

theorem slow_sync_counts_as_stalled_success:
  "sa_state (completed_sync_audit configured started snapshot read trigger False batch prev)
     = (if read > snapshot + 60 * max 5 configured then ''stalled'' else ''scheduled'')
   \<and> rs_stalled_runs (build_runtime_long_horizon_stats days
       [completed_sync_audit configured started snapshot read trigger False batch prev] wd)
     = (if read > snapshot + 60 * max 5 configured then 1 else 0)
   \<and> rs_success_rate (build_runtime_long_horizon_stats days
       [completed_sync_audit configured started snapshot read trigger False batch prev] wd) = 1"
  using py_round_of_int [of 1 3]
  by (simp add: completed_audit_state build_runtime_long_horizon_stats_def runtime_stats_of_def Let_def
      build_runtime_sync_history_def sync_entry_of_def completed_audit_simps count_of_def cohort_rate_def sort_desc_def)

section \<open>The watchdog read back\<close>

lemma length_last_entries: "length (last_entries n xs) = min n (length xs)"
  by (simp add: last_entries_def min_def)

text \<open>The service reads back what the watchdog stored: the newest check first, at most as many as
  asked for, and no check that was not made.\<close>

theorem watchdog_history_contract:
  "hd (build_runtime_watchdog_history limit (snd (run_watchdog now h c log_lines works wd)))
     = fst (run_watchdog now h c log_lines works wd)
   \<and> length (build_runtime_watchdog_history limit (snd (run_watchdog now h c log_lines works wd))) \<le> max 1 limit
   \<and> set (build_runtime_watchdog_history limit (snd (run_watchdog now h c log_lines works wd)))
       \<subseteq> insert (fst (run_watchdog now h c log_lines works wd)) (set (wd_history wd))"
proof -
  let ?snap = "check now h c log_lines works"
  let ?hist = "last_entries 72 (wd_history wd @ [?snap])"
  have sub: "set (last_entries n xs) \<subseteq> set xs" for n and xs :: "watchdog_snapshot list"
    by (simp add: last_entries_def set_drop_subset)
  have last: "last (last_entries n xs) = last xs \<and> last_entries n xs \<noteq> []" if "xs \<noteq> []" "0 < n"
    for n and xs :: "watchdog_snapshot list"
    using that by (cases xs) (simp_all add: last_entries_def)
  have "last (last_entries (max 1 limit) ?hist) = ?snap" "last_entries (max 1 limit) ?hist \<noteq> []"
    using last [of "wd_history wd @ [?snap]" 72] last [of ?hist "max 1 limit"] by simp_all
  moreover have "set (last_entries (max 1 limit) ?hist) \<subseteq> insert ?snap (set (wd_history wd))"
    using sub [of "max 1 limit" ?hist] sub [of 72 "wd_history wd @ [?snap]"] by auto
  ultimately show ?thesis
    by (simp add: build_runtime_watchdog_history_def run_watchdog_def Let_def hd_rev length_last_entries)
qed

section \<open>The evaluations\<close>

lemma counter_distinct: "distinct (map fst (counter xs))"
  by (simp add: counter_keys)

lemma counter_value: "(x, n) \<in> set (counter xs) \<longleftrightarrow> x \<in> set xs \<and> n = count_of ((=) x) xs"
  by (auto simp: counter_def)

lemma most_common_props:
  "length (most_common n (counter xs)) \<le> n" "distinct (most_common n (counter xs))"
  "set (most_common n (counter xs)) \<subseteq> set xs"
proof -
  have "distinct (map fst (sort_desc snd (counter xs)))"
    using counter_distinct [of xs] by (simp add: sort_desc_def rev_map [symmetric] distinct_map)
  then show "distinct (most_common n (counter xs))"
    unfolding most_common_def take_map [symmetric] by (rule distinct_take)
  show "length (most_common n (counter xs)) \<le> n" by (simp add: most_common_def)
  show "set (most_common n (counter xs)) \<subseteq> set xs"
    using set_take_subset [of n "sort_desc snd (counter xs)"] by (auto simp: most_common_def counter_value)
qed

lemma most_common_dominates:
  assumes "x \<in> set (most_common n (counter xs))" "y \<notin> set (most_common n (counter xs))"
  shows "count_of ((=) y) xs \<le> count_of ((=) x) xs"
proof (cases "y \<in> set xs")
  case True
  then have "(y, count_of ((=) y) xs) \<in> set (sort_desc snd (counter xs))" by (simp add: counter_value)
  moreover have "(y, count_of ((=) y) xs) \<notin> set (take n (sort_desc snd (counter xs)))"
    using assms(2) by (force simp: most_common_def)
  ultimately have "(y, count_of ((=) y) xs) \<in> set (drop n (sort_desc snd (counter xs)))"
    by (metis Un_iff append_take_drop_id set_append)
  moreover obtain k where k: "(x, k) \<in> set (take n (sort_desc snd (counter xs)))"
    using assms(1) by (auto simp: most_common_def)
  moreover from k have "k = count_of ((=) x) xs"
    using set_take_subset [of n "sort_desc snd (counter xs)"] by (auto simp: counter_value)
  ultimately show ?thesis using sort_desc_take_ge [of "(x, k)" n snd "counter xs"] by fastforce
next
  case False
  then have "filter ((=) y) xs = []" by (auto simp: filter_empty_conv)
  then show ?thesis by (simp add: count_of_def)
qed

text \<open>The figures of the last evaluations: the best score is at least the latest and at least the
  average, up to its rounding; the change is measured against the oldest evaluation looked at.
  At most four blockers are named, each once and each a blocker of those evaluations, and none
  that is left out occurred more often.\<close>

theorem readiness_stats_contract:
  assumes "history \<noteq> []"
  shows "rd_latest_score (readiness_stats_of days history) \<le> rd_best_score (readiness_stats_of days history)
    \<and> rd_avg_score (readiness_stats_of days history) \<le> map_option of_int (rd_best_score (readiness_stats_of days history))
    \<and> rd_score_change (readiness_stats_of days history) = Some (of_int (rn_score (hd history) - rn_score (last history)))
    \<and> length (rd_dominant_blockers (readiness_stats_of days history)) \<le> 4
    \<and> distinct (rd_dominant_blockers (readiness_stats_of days history))
    \<and> set (rd_dominant_blockers (readiness_stats_of days history)) \<subseteq> set (concat (map rn_blockers history))
    \<and> (b \<in> set (rd_dominant_blockers (readiness_stats_of days history))
        \<longrightarrow> b' \<notin> set (rd_dominant_blockers (readiness_stats_of days history))
        \<longrightarrow> count_of ((=) b') (concat (map rn_blockers history)) \<le> count_of ((=) b) (concat (map rn_blockers history)))
    \<and> sum_list (map snd (rd_status_counts (readiness_stats_of days history))) = length history"
proof -
  let ?scores = "map rn_score history"
  have max: "Max (set (map of_int ?scores)) = (of_int (Max (set ?scores)) :: real)"
    using assms mono_Max_commute [of real_of_int "set ?scores"] by (simp add: mono_def image_image)
  have "mean (map of_int ?scores) \<le> Max (set (map of_int ?scores))"
    by (rule mean_le_Max) (use assms in simp)
  then have "mean (map (\<lambda>h. of_int (rn_score h)) history) \<le> of_int (Max (set ?scores))"
    unfolding max by (simp add: comp_def)
  then have "py_round (mean (map (\<lambda>h. of_int (rn_score h)) history)) 1 \<le> of_int (Max (set ?scores))"
    by (rule py_round_le_of_int)
  moreover have "rn_score (hd history) \<le> Max (set ?scores)" using assms by simp
  ultimately show ?thesis
    using assms most_common_props [of 4 "concat (map rn_blockers history)"]
      most_common_dominates [of b 4 "concat (map rn_blockers history)" b']
    by (simp add: readiness_stats_of_def)
qed

theorem readiness_stats_contract_witness:
  "rd_score_change (readiness_stats_of 30
     [\<lparr>rn_id = 2, rn_status = Not_ready, rn_score = 70, rn_approved_for_live = False, rn_blockers = [''x''], rn_created_at = 9\<rparr>,
      \<lparr>rn_id = 1, rn_status = Not_ready, rn_score = 60, rn_approved_for_live = False, rn_blockers = [], rn_created_at = 1\<rparr>])
   = Some 10"
  using readiness_stats_contract [where days = 30 and history =
     "[\<lparr>rn_id = 2, rn_status = Not_ready, rn_score = 70, rn_approved_for_live = False, rn_blockers = [''x''], rn_created_at = 9\<rparr>,
      \<lparr>rn_id = 1, rn_status = Not_ready, rn_score = 60, rn_approved_for_live = False, rn_blockers = [], rn_created_at = 1\<rparr>]"]
  by simp

section \<open>The paper pool\<close>

text \<open>A slot is stored under its identifier.\<close>

definition keyed :: "slot_table \<Rightarrow> bool" where
  "keyed tab \<longleftrightarrow> (\<forall>i s. tab i = Some s \<longrightarrow> sl_slot_id s = i)"

lemma seed_one_keyed:
  "keyed t \<Longrightarrow> keyed (case t i of None \<Rightarrow> t(i \<mapsto> seed_slot active now i) | Some _ \<Rightarrow> t)"
  by (cases "t i") (simp_all add: keyed_def seed_slot_def)

lemma seed_fold_keyed:
  "keyed t \<Longrightarrow> keyed (fold (\<lambda>i t. case t i of None \<Rightarrow> t(i \<mapsto> seed_slot active now i) | Some _ \<Rightarrow> t) ids t)"
proof (induction ids arbitrary: t)
  case (Cons i ids)
  show ?case using Cons.IH [OF seed_one_keyed [OF Cons.prems]] by (simp only: fold_simps)
qed simp

lemma seed_slots_keyed: "keyed tab \<Longrightarrow> keyed (seed_slots gs active now tab)"
  unfolding seed_slots_def by (rule seed_fold_keyed)

lemma listed_slots:
  "snd (list_paper_slots gs active now tab) = map (\<lambda>i. the (seed_slots gs active now tab i)) (paper_slot_ids gs)"
  unfolding list_paper_slots_def Let_def snd_conv
  by (rule map_filter_some) (use seed_slots_dom in blast)

lemma listed_slot_ids:
  assumes "keyed tab"
  shows "map sl_slot_id (snd (list_paper_slots gs active now tab)) = paper_slot_ids gs"
proof -
  have "sl_slot_id (the (seed_slots gs active now tab i)) = i" if "i \<in> set (paper_slot_ids gs)" for i
    using seed_slots_keyed [OF assms, of gs active now] seed_slots_dom [OF that, of active now tab]
    by (auto simp: keyed_def)
  then show ?thesis by (simp add: listed_slots map_idI)
qed

lemma seed_slots_again: "seed_slots gs active' now' (seed_slots gs active now tab) = seed_slots gs active now tab"
  by (rule seed_slots_id) (use seed_slots_dom in blast)

lemma paper_slot_metrics_id [simp]: "pm_slot_id (paper_slot_metrics pool px s) = sl_slot_id s"
  by (simp add: paper_slot_metrics_def Let_def)

lemma challengers_are_rest:
  assumes "map pm_slot_id ms = paper_slot_ids gs"
  shows "filter (\<lambda>m. pm_slot_id m \<noteq> Primary_slot) ms = tl ms" "ms \<noteq> []" "pm_slot_id (hd ms) = Primary_slot"
proof -
  obtain m rest where ms: "ms = m # rest" "pm_slot_id m = Primary_slot" "map pm_slot_id rest = candidate_paper_slot_ids gs"
    using assms by (cases ms) (auto simp: paper_slot_ids_def)
  then have "Primary_slot \<notin> set (map pm_slot_id rest)" by (auto simp: candidate_paper_slot_ids_def)
  then have "filter (\<lambda>m. pm_slot_id m \<noteq> Primary_slot) rest = rest" by (force simp: filter_id_conv)
  with ms show "filter (\<lambda>m. pm_slot_id m \<noteq> Primary_slot) ms = tl ms" "ms \<noteq> []" "pm_slot_id (hd ms) = Primary_slot"
    by simp_all
qed

lemma built_slots:
  "pv_slots (snd (build_paper_pool gs now pool px tab))
     = map (paper_slot_metrics pool px) (snd (list_paper_slots gs (get_active_strategy pool) now tab))"
  by (simp add: build_paper_pool_def paper_pool_view_of_def Let_def split_def)

lemma built_pool:
  "snd (build_paper_pool gs now pool px tab) = paper_pool_view_of (pv_slots (snd (build_paper_pool gs now pool px tab)))"
  by (simp add: build_paper_pool_def paper_pool_view_of_def Let_def split_def)

lemma view_counts:
  "pv_slot_count (paper_pool_view_of ms) = length ms"
  "pv_occupied_slot_count (paper_pool_view_of ms) = count_of holds_proposal ms"
  "pv_challenger_count (paper_pool_view_of ms)
     = count_of holds_proposal (filter (\<lambda>m. pm_slot_id m \<noteq> Primary_slot) ms)"
  by (simp_all add: paper_pool_view_of_def Let_def)

text \<open>The view of the paper pool lists the configured slots in their order, the primary one first,
  creates the missing ones and nothing else, and so shows the same slots when built again; its
  challengers are the occupied slots behind the first, at most one less than the slots.\<close>

theorem paper_pool_contract:
  assumes "keyed tab"
  shows "map pm_slot_id (pv_slots (snd (build_paper_pool gs now pool px tab))) = paper_slot_ids gs
    \<and> pv_slot_count (snd (build_paper_pool gs now pool px tab)) = paper_slot_count gs
    \<and> pv_challenger_count (snd (build_paper_pool gs now pool px tab)) < paper_slot_count gs
    \<and> pv_occupied_slot_count (snd (build_paper_pool gs now pool px tab))
        = pv_challenger_count (snd (build_paper_pool gs now pool px tab))
          + (if holds_proposal (hd (pv_slots (snd (build_paper_pool gs now pool px tab)))) then 1 else 0)
    \<and> keyed (fst (build_paper_pool gs now pool px tab))
    \<and> snd (build_paper_pool gs later pool px (fst (build_paper_pool gs now pool px tab)))
        = snd (build_paper_pool gs now pool px tab)"
proof -
  let ?v = "snd (build_paper_pool gs now pool px tab)"
  let ?ms = "pv_slots ?v"
  have ids: "map pm_slot_id ?ms = paper_slot_ids gs"
    using listed_slot_ids [OF assms] by (simp add: built_slots comp_def)
  have rest: "filter (\<lambda>m. pm_slot_id m \<noteq> Primary_slot) ?ms = tl ?ms" "?ms \<noteq> []"
    using challengers_are_rest [OF ids] by simp_all
  have len: "length ?ms = paper_slot_count gs"
    using ids by (metis length_map length_slot_ids)
  have counts: "pv_slot_count ?v = length ?ms" "pv_challenger_count ?v = count_of holds_proposal (tl ?ms)"
    "pv_occupied_slot_count ?v = count_of holds_proposal ?ms"
    using arg_cong [OF built_pool, of pv_slot_count] arg_cong [OF built_pool, of pv_challenger_count]
      arg_cong [OF built_pool, of pv_occupied_slot_count] unfolding view_counts rest(1) [symmetric] by metis+
  have tab: "fst (build_paper_pool gs now pool px tab) = seed_slots gs (get_active_strategy pool) now tab"
    by (simp add: build_paper_pool_def list_paper_slots_def Let_def split_def)
  have again: "snd (build_paper_pool gs later pool px (fst (build_paper_pool gs now pool px tab))) = ?v"
    unfolding tab by (simp add: build_paper_pool_def list_paper_slots_def Let_def split_def seed_slots_again)
  have "count_of holds_proposal (tl ?ms) < length ?ms"
    using count_of_le [of holds_proposal "tl ?ms"] rest(2) by (cases ?ms) simp_all
  moreover have "count_of holds_proposal ?ms
      = count_of holds_proposal (tl ?ms) + (if holds_proposal (hd ?ms) then 1 else 0)"
    using rest(2) by (cases ?ms) (simp_all add: count_of_def)
  ultimately show ?thesis
    using ids len counts again seed_slots_keyed [OF assms] by (simp add: tab)
qed

theorem paper_pool_contract_witness:
  "pv_slot_count (snd (build_paper_pool governance_default 0 []
      \<lparr>px_nav = [], px_orders = [], px_positions = [], px_executions = [], px_initialized = [], px_bootstrapped = []\<rparr>
      Map.empty)) = paper_slot_count governance_default"
  using paper_pool_contract [of Map.empty governance_default 0 "[]"
      "\<lparr>px_nav = [], px_orders = [], px_positions = [], px_executions = [], px_initialized = [], px_bootstrapped = []\<rparr>"]
  by (simp add: keyed_def)

section \<open>The sign of the equity change\<close>

lemma round_even_minus: "round_even (- x) = - round_even x"
proof (cases "x = of_int \<lfloor>x\<rfloor>")
  case True
  then show ?thesis by (metis of_int_minus round_even_of_int)
next
  case False
  then have "\<lfloor>- x\<rfloor> = - \<lfloor>x\<rfloor> - 1" by linarith
  then show ?thesis by (auto simp: round_even_def Let_def)
qed

lemma py_round_minus: "py_round (- x) n = - py_round x n"
  by (simp add: py_round_def round_even_minus)

lemma sum_equity_changes:
  "sum_list (equity_changes navs) = - sum_list (map (\<lambda>ns. hd ns - last ns) (filter (\<lambda>ns. ns \<noteq> []) navs))"
  unfolding equity_changes_def by (induction navs) auto

lemma fetch_nav_all:
  "length (filter (\<lambda>r. nr_slot r = i) (px_nav px)) \<le> n \<Longrightarrow> slot_equities n i px
     = map nr_total_equity (sort_desc nr_date (rev (filter (\<lambda>r. nr_slot r = i) (px_nav px))))"
  by (simp add: slot_equities_def fetch_nav_def)

text \<open>The rows of a slot come newest first.  The figure of a slot subtracts the oldest equity from
  the newest, the figure over all slots the newest from the oldest: with one occupied slot whose
  rows are all read, the second is the negative of the first.  The incidents are a constant
  zero, and so are the skipped orders, since a skipped cycle writes no order.\<close>

theorem aggregate_equity_change_is_inverted:
  assumes "filter holds_proposal slots = [paper_slot_metrics pool px s]"
    and "length (filter (\<lambda>r. nr_slot r = sl_slot_id s) (px_nav px)) \<le> 30"
  shows "pt_aggregate_equity_change (paper_stats_of days px slots)
      = map_option uminus (pm_equity_change_from_start (paper_slot_metrics pool px s))
    \<and> pt_incident_count (paper_stats_of days px slots) = 0
    \<and> pt_skipped_count (paper_stats_of days px slots) = 0
    \<and> pt_fill_rate (paper_stats_of days px slots) \<in> {None, Some 1}"
proof -
  let ?navs = "slot_equities 120 (sl_slot_id s) px"
  have rows: "slot_equities (stats_limit days) (sl_slot_id s) px = ?navs"
    using assms(2) by (simp add: fetch_nav_all stats_limit_def)
  have slot: "pm_equity_change_from_start (paper_slot_metrics pool px s) = equity_change_from_start ?navs"
    "pm_incident_count_30d (paper_slot_metrics pool px s) = 0"
    by (simp_all add: paper_slot_metrics_def Let_def)
  have "pt_aggregate_equity_change (paper_stats_of days px slots)
      = map_option uminus (equity_change_from_start ?navs)"
    using py_round_minus [of "hd ?navs - last ?navs" 2]
    by (simp add: paper_stats_of_def Let_def assms(1) rows equity_changes_def equity_change_from_start_def)
  moreover have "py_lower ''filled'' = ''filled''" by code_simp
  then have "count_of (\<lambda>s. py_lower s = ''skipped'') (order_statuses os) = 0"
    "count_of (\<lambda>s. py_lower s = ''filled'') (order_statuses os) = length (order_statuses os)" for os
    by (induction os) (simp_all add: count_of_def order_statuses_def)
  ultimately show ?thesis
    using py_round_of_int [of 1 3] by (simp add: paper_stats_of_def Let_def assms(1) slot)
qed

definition gained_ten :: paper_store where
  "gained_ten = \<lparr>px_nav =
       [\<lparr>nr_date = 1, nr_slot = Primary_slot, nr_proposal = ''p'', nr_cash = 100, nr_position_value = 0, nr_total_equity = 100\<rparr>,
        \<lparr>nr_date = 2, nr_slot = Primary_slot, nr_proposal = ''p'', nr_cash = 110, nr_position_value = 0, nr_total_equity = 110\<rparr>],
     px_orders = [], px_positions = [], px_executions = [], px_initialized = [], px_bootstrapped = []\<rparr>"

definition held_slot :: slot where
  "held_slot = \<lparr>sl_slot_id = Primary_slot, sl_slot_kind = Primary_kind, sl_proposal_id = Some ''p'', sl_status = Running,
     sl_rank = Some 1, sl_assigned_at = None, sl_updated_at = 0, sl_last_executed_at = None,
     sl_entry_reason = Paper_pool_seed\<rparr>"

theorem aggregate_equity_change_is_inverted_witness:
  "pm_equity_change_from_start (paper_slot_metrics [] gained_ten held_slot) = Some 10
   \<and> pt_aggregate_equity_change (paper_stats_of 30 gained_ten [paper_slot_metrics [] gained_ten held_slot]) = Some (- 10)"
proof -
  let ?m = "paper_slot_metrics [] gained_ten held_slot"
  have navs: "slot_equities 120 Primary_slot gained_ten = [110, 100]"
    by (simp add: slot_equities_def fetch_nav_def gained_ten_def sort_desc_def)
  then have gain: "pm_equity_change_from_start ?m = Some 10"
    using py_round_of_int [of 10 2]
    by (simp add: paper_slot_metrics_def Let_def held_slot_def equity_change_from_start_def)
  have "filter holds_proposal [?m] = [?m]"
    by (simp add: holds_proposal_def paper_slot_metrics_def Let_def held_slot_def)
  then show ?thesis
    using gain aggregate_equity_change_is_inverted [of "[?m]" "[]" gained_ten held_slot 30]
    by (simp add: gained_ten_def)
qed

end
