(* ===== verification/Knowledge_Suggestions.thy ===== *)
theory Knowledge_Suggestions imports Long_Horizon begin

text \<open>
  The knowledge base of \<open>api/services.py\<close>: the seeded external sources and entries, the observations
  that proposals, backtests and paper cycles leave, and the suggestions a sync derives from them;
  with it the long-horizon figures as a whole.  The tables are lists in order of insertion, and a
  query without an order returns the rows in it; the session does not flush before a query, so a
  query does not see what was added since the last flush.  Hashes, the text of a time and the
  texts that are not ASCII are parameters; the rationale of a suggestion is left out.
\<close>

section \<open>The external knowledge\<close>

record knowledge_source =
  ku_source_id :: string
  ku_source_name :: string
  ku_source_kind :: string
  ku_publisher :: string
  ku_url :: string
  ku_license_note :: string
  ku_trust_tier :: string

record knowledge_payload =
  kp_family_key :: string
  kp_preferred :: "string list"
  kp_discouraged :: "string list"
  kp_indicators :: "string list"
  kp_failure_modes :: "string list"
  kp_parameter_priors :: "(string \<times> real \<times> real) list"
  kp_risk_flags :: "string list"
  kp_source_refs :: "string list"

record knowledge_seed =
  ke_entry_id :: string
  ke_source_id :: string
  ke_family_keys :: "string list"
  ke_market_scope :: string
  ke_content_type :: string
  ke_excerpt_ref :: string
  ke_payload :: knowledge_payload

definition external_knowledge_sources :: "knowledge_source list" where
  "external_knowledge_sources =
     [\<lparr>ku_source_id = ''quantconnect_lean'', ku_source_name = ''QuantConnect LEAN'', ku_source_kind = ''documentation'', ku_publisher = ''QuantConnect'',
       ku_url = ''https://www.quantconnect.com/docs/v2/writing-algorithms/key-concepts/algorithm-engine'',
       ku_license_note = ''Reference documentation, summarized into structured methodology notes.'', ku_trust_tier = ''whitelist''\<rparr>,
      \<lparr>ku_source_id = ''quantstart_qstrader'', ku_source_name = ''QSTrader / QuantStart'', ku_source_kind = ''framework_docs'', ku_publisher = ''QuantStart'',
       ku_url = ''https://www.quantstart.com/qstrader'',
       ku_license_note = ''Framework overview and methodology summaries only.'', ku_trust_tier = ''whitelist''\<rparr>,
      \<lparr>ku_source_id = ''backtrader_docs'', ku_source_name = ''Backtrader'', ku_source_kind = ''documentation'', ku_publisher = ''Backtrader'',
       ku_url = ''https://www.backtrader.com/docu/'',
       ku_license_note = ''Official documentation references summarized into structured fields.'', ku_trust_tier = ''whitelist''\<rparr>,
      \<lparr>ku_source_id = ''quantlib_docs'', ku_source_name = ''QuantLib'', ku_source_kind = ''documentation'', ku_publisher = ''QuantLib'',
       ku_url = ''https://www.quantlib.org/docs.shtml'',
       ku_license_note = ''Official documentation references summarized into structured fields.'', ku_trust_tier = ''whitelist''\<rparr>,
      \<lparr>ku_source_id = ''awesome_systematic_trading'', ku_source_name = ''awesome-systematic-trading'', ku_source_kind = ''index'', ku_publisher = ''Community Index'',
       ku_url = ''https://github.com/paperswithbacktest/awesome-systematic-trading'',
       ku_license_note = ''Index only; not used as direct gate evidence.'', ku_trust_tier = ''index_only''\<rparr>]"

definition ext_trend_following_v1 :: knowledge_seed where
  "ext_trend_following_v1 =
     \<lparr>ke_entry_id = ''ext_trend_following_v1'', ke_source_id = ''quantconnect_lean'', ke_family_keys = [''trend_following''],
      ke_market_scope = ''HK'', ke_content_type = ''methodology'', ke_excerpt_ref = ''lean-trend-methodology'',
      ke_payload = \<lparr>kp_family_key = ''trend_following'',
        kp_preferred = [''bullish'', ''persistent_trend''],
        kp_discouraged = [''range_bound''],
        kp_indicators = [''SMA'', ''EMA'', ''MACD''],
        kp_failure_modes = [''sideways_whipsaw'', ''late_trend_entry''],
        kp_parameter_priors = [(''short_window'', 5, 20), (''long_window'', 20, 90)],
        kp_risk_flags = [''range_market_whipsaw''], kp_source_refs = [''quantconnect_lean'']\<rparr>\<rparr>"

definition ext_mean_reversion_v1 :: knowledge_seed where
  "ext_mean_reversion_v1 =
     \<lparr>ke_entry_id = ''ext_mean_reversion_v1'', ke_source_id = ''quantstart_qstrader'', ke_family_keys = [''mean_reversion''],
      ke_market_scope = ''HK'', ke_content_type = ''methodology'', ke_excerpt_ref = ''qstrader-mean-reversion-methodology'',
      ke_payload = \<lparr>kp_family_key = ''mean_reversion'',
        kp_preferred = [''range_bound'', ''volatility_compression''],
        kp_discouraged = [''strong_trend'', ''breakout_expansion''],
        kp_indicators = [''RSI'', ''Bollinger''],
        kp_failure_modes = [''falling_knife'', ''trend_dominance''],
        kp_parameter_priors = [(''oversold'', 15, 35)],
        kp_risk_flags = [''trend_fade_risk''], kp_source_refs = [''quantstart_qstrader'']\<rparr>\<rparr>"

definition ext_breakout_v1 :: knowledge_seed where
  "ext_breakout_v1 =
     \<lparr>ke_entry_id = ''ext_breakout_v1'', ke_source_id = ''backtrader_docs'', ke_family_keys = [''breakout'', ''volatility_filter''],
      ke_market_scope = ''HK'', ke_content_type = ''methodology'', ke_excerpt_ref = ''backtrader-breakout-methodology'',
      ke_payload = \<lparr>kp_family_key = ''breakout'',
        kp_preferred = [''breakout_expansion'', ''orderly_expansion''],
        kp_discouraged = [''low_conviction'', ''range_bound''],
        kp_indicators = [''Donchian'', ''ATR''],
        kp_failure_modes = [''false_breakout'', ''post_breakout_reversal''],
        kp_parameter_priors = [(''channel_window'', 15, 55)],
        kp_risk_flags = [''false_breakout_risk''], kp_source_refs = [''backtrader_docs'']\<rparr>\<rparr>"

definition ext_momentum_filter_v1 :: knowledge_seed where
  "ext_momentum_filter_v1 =
     \<lparr>ke_entry_id = ''ext_momentum_filter_v1'', ke_source_id = ''quantconnect_lean'', ke_family_keys = [''momentum_filter''],
      ke_market_scope = ''HK'', ke_content_type = ''methodology'', ke_excerpt_ref = ''lean-momentum-filter-methodology'',
      ke_payload = \<lparr>kp_family_key = ''momentum_filter'',
        kp_preferred = [''persistent_trend'', ''leadership_concentration''],
        kp_discouraged = [''sharp_reversal'', ''range_bound''],
        kp_indicators = [''MACD'', ''ROC'', ''RSI''],
        kp_failure_modes = [''late_confirmation'', ''momentum_exhaustion''],
        kp_parameter_priors = [(''fast_period'', 8, 18), (''slow_period'', 20, 45)],
        kp_risk_flags = [''late_entry'', ''exhaustion_chase''], kp_source_refs = [''quantconnect_lean'']\<rparr>\<rparr>"

definition ext_volatility_filter_v1 :: knowledge_seed where
  "ext_volatility_filter_v1 =
     \<lparr>ke_entry_id = ''ext_volatility_filter_v1'', ke_source_id = ''backtrader_docs'', ke_family_keys = [''volatility_filter''],
      ke_market_scope = ''HK'', ke_content_type = ''methodology'', ke_excerpt_ref = ''backtrader-volatility-filter-methodology'',
      ke_payload = \<lparr>kp_family_key = ''volatility_filter'',
        kp_preferred = [''volatility_compression'', ''orderly_expansion''],
        kp_discouraged = [''chaotic_volatility'', ''event_shock''],
        kp_indicators = [''ATR'', ''volatility'', ''drawdown''],
        kp_failure_modes = [''volatility_spike'', ''filter_too_strict'', ''filter_too_loose''],
        kp_parameter_priors = [(''atr_window'', 8, 24), (''atr_k'', 1, 3)],
        kp_risk_flags = [''filter_overfit'', ''missed_moves''], kp_source_refs = [''backtrader_docs'']\<rparr>\<rparr>"

definition ext_hk_execution_v1 :: knowledge_seed where
  "ext_hk_execution_v1 =
     \<lparr>ke_entry_id = ''ext_hk_execution_v1'', ke_source_id = ''quantstart_qstrader'', ke_family_keys = [''trend_following'', ''mean_reversion'', ''volatility_filter''],
      ke_market_scope = ''HK'', ke_content_type = ''market_note'', ke_excerpt_ref = ''qstrader-hk-execution-note'',
      ke_payload = \<lparr>kp_family_key = ''trend_following'',
        kp_preferred = [''orderly_expansion'', ''low_conviction'', ''range_bound''],
        kp_discouraged = [''chaotic_volatility''],
        kp_indicators = [''volatility'', ''drawdown'', ''SMA''],
        kp_failure_modes = [''overtrading'', ''micro_signal_noise''],
        kp_parameter_priors = [(''long_window'', 25, 80)],
        kp_risk_flags = [''turnover_drag''], kp_source_refs = [''quantstart_qstrader'']\<rparr>\<rparr>"

definition external_knowledge_entries :: "knowledge_seed list" where
  "external_knowledge_entries =
     [ext_trend_following_v1, ext_mean_reversion_v1, ext_breakout_v1, ext_momentum_filter_v1, ext_volatility_filter_v1, ext_hk_execution_v1]"

section \<open>The tables\<close>

record source_row =
  so_source :: knowledge_source
  so_enabled :: bool
  so_reviewed_at :: datetime

record entry_row =
  en_seed :: knowledge_seed
  en_status :: string
  en_created_at :: datetime

record observation =
  ob_id :: string
  ob_proposal_id :: string
  ob_symbol :: string
  ob_market_scope :: string
  ob_origin :: string
  ob_source_kind :: string
  ob_provider_status :: string
  ob_family_key :: string
  ob_fit :: string
  ob_novelty :: string
  ob_created_at :: datetime

datatype suggestion_type = Failure_mode_strengthened | Novelty_expectation_refined
  | Preferred_conditions_adjustment

datatype suggestion_status = Proposed | Review_ready | Adopted_candidate

datatype suggested_value =
    Internal_value string nat nat nat
  | External_value string string "string list" "string list" "string list"

datatype evidence_counts = Internal_counts nat nat nat | External_entries nat

record suggestion =
  kg_id :: string
  kg_family_key :: string
  kg_market_scope :: string
  kg_origin :: string
  kg_type :: suggestion_type
  kg_value :: suggested_value
  kg_confidence :: real
  kg_evidence :: evidence_counts
  kg_source_ids :: "string list"
  kg_status :: suggestion_status
  kg_created_at :: datetime
  kg_updated_at :: datetime

record kb =
  kb_sources :: "source_row list"
  kb_entries :: "entry_row list"
  kb_observations :: "observation list"
  kb_suggestions :: "suggestion list"
  kb_audits :: "audit list"

record kb_env =
  kv_hash :: "string list \<Rightarrow> string"
  kv_iso :: "datetime \<Rightarrow> string"
  kv_text :: "string \<Rightarrow> string"

definition system_audit :: "string \<Rightarrow> string \<Rightarrow> string \<Rightarrow> (string \<rightharpoonup> string) \<Rightarrow> datetime \<Rightarrow> audit" where
  "system_audit kind entity_type entity payload now =
     \<lparr>au_event_type = kind, au_entity_type = entity_type, au_entity_id = entity,
      au_payload = payload, au_created_at = now\<rparr>"

section \<open>Seeding\<close>

definition seed_external_knowledge :: "datetime \<Rightarrow> kb \<Rightarrow> kb" where
  "seed_external_knowledge now kb =
     kb\<lparr>kb_sources := kb_sources kb @
          map (\<lambda>s. \<lparr>so_source = s, so_enabled = True, so_reviewed_at = now\<rparr>)
            (filter (\<lambda>s. ku_source_id s \<notin> set (map (ku_source_id \<circ> so_source) (kb_sources kb)))
               external_knowledge_sources),
        kb_entries := kb_entries kb @
          map (\<lambda>e. \<lparr>en_seed = e, en_status = ''proposed'', en_created_at = now\<rparr>)
            (filter (\<lambda>e. ke_entry_id e \<notin> set (map (ke_entry_id \<circ> en_seed) (kb_entries kb)))
               external_knowledge_entries)\<rparr>"

definition external_knowledge_for_market :: "string \<Rightarrow> kb \<Rightarrow> knowledge_seed list" where
  "external_knowledge_for_market market kb =
     map en_seed (sort_key en_created_at
       (filter (\<lambda>e. ke_market_scope (en_seed e) = market \<and> en_status e = ''proposed'') (kb_entries kb)))"

section \<open>Observations\<close>

definition observation_id :: "kb_env \<Rightarrow> string \<Rightarrow> string \<Rightarrow> datetime \<Rightarrow> string \<Rightarrow> string" where
  "observation_id env pid kind now family =
     ''knowledge-observation-'' @ kv_hash env [pid, kind, family, kv_iso env now]"

definition observation_of ::
  "kb_env \<Rightarrow> proposal \<Rightarrow> string \<Rightarrow> string \<Rightarrow> string \<Rightarrow> datetime \<Rightarrow> string \<Rightarrow> observation" where
  "observation_of env p kind fit novelty now family =
     \<lparr>ob_id = observation_id env (pr_id p) kind now family, ob_proposal_id = pr_id p, ob_symbol = pr_symbol p,
      ob_market_scope = pr_market_scope p, ob_origin = ''internal'', ob_source_kind = kind,
      ob_provider_status = pr_provider_status p, ob_family_key = family, ob_fit = fit, ob_novelty = novelty,
      ob_created_at = now\<rparr>"

definition observation_audit :: "observation \<Rightarrow> audit" where
  "observation_audit ob =
     system_audit ''knowledge_observation_recorded'' ''knowledge_observation'' (ob_id ob)
       [''proposal_id'' \<mapsto> ob_proposal_id ob, ''symbol'' \<mapsto> ob_symbol ob,
        ''family_key'' \<mapsto> ob_family_key ob, ''source_kind'' \<mapsto> ob_source_kind ob] (ob_created_at ob)"

text \<open>The row is looked for among those already flushed; the identifiers are unique in the table, so
  the flush that follows raises when two rows of one call share theirs.\<close>

definition new_observations ::
  "kb_env \<Rightarrow> proposal \<Rightarrow> string list \<Rightarrow> string \<Rightarrow> string \<Rightarrow> string \<Rightarrow> datetime \<Rightarrow> kb \<Rightarrow> observation list" where
  "new_observations env p families kind fit novelty now kb =
     (if pr_provider_status p = ''mock'' then []
      else filter (\<lambda>ob. ob_id ob \<notin> set (map ob_id (kb_observations kb)))
             (map (observation_of env p kind fit novelty now) (nonblank families)))"

definition record_knowledge_observation ::
  "kb_env \<Rightarrow> proposal \<Rightarrow> string list \<Rightarrow> string \<Rightarrow> string \<Rightarrow> string \<Rightarrow> datetime \<Rightarrow> kb \<Rightarrow> kb res" where
  "record_knowledge_observation env p families kind fit novelty now kb =
     (let new = new_observations env p families kind fit novelty now kb
      in if distinct (map ob_id new)
         then Inr (kb\<lparr>kb_observations := kb_observations kb @ new,
                      kb_audits := kb_audits kb @ map observation_audit new\<rparr>)
         else Inl IntegrityError)"

section \<open>Suggestions from observations\<close>

definition relevant_observations :: "string \<Rightarrow> kb \<Rightarrow> observation list" where
  "relevant_observations market kb =
     filter (\<lambda>ob. ob_market_scope ob = market \<and> ob_origin ob = ''internal'' \<and> ob_provider_status ob \<noteq> ''mock'')
       (kb_observations kb)"

record tally =
  ty_proposal :: nat
  ty_backtest :: nat
  ty_paper :: nat
  ty_fragile :: nat
  ty_low_novelty :: nat

definition tally_of :: "observation list \<Rightarrow> tally" where
  "tally_of obs =
     \<lparr>ty_proposal = count_of (\<lambda>ob. ob_source_kind ob = ''proposal'') obs,
      ty_backtest = count_of (\<lambda>ob. ob_source_kind ob = ''backtest'') obs,
      ty_paper = count_of (\<lambda>ob. ob_source_kind ob = ''paper'') obs,
      ty_fragile = count_of (\<lambda>ob. ob_fit ob \<in> {''fragile'', ''mismatch''}) obs,
      ty_low_novelty = count_of (\<lambda>ob. ob_novelty ob = ''low'') obs\<rparr>"

definition internal_type :: "tally \<Rightarrow> suggestion_type" where
  "internal_type t =
     (if ty_fragile t \<ge> max 2 (ty_proposal t div 2) then Failure_mode_strengthened
      else Novelty_expectation_refined)"

definition internal_confidence :: "tally \<Rightarrow> real" where
  "internal_confidence t =
     py_round (min 0.95 (0.45 + of_nat (ty_proposal t) * 0.05 + of_nat (ty_paper t) * 0.03
       + of_nat (ty_backtest t) * 0.02)) 2"

definition internal_status :: "tally \<Rightarrow> suggestion_status" where
  "internal_status t =
     (if ty_proposal t \<ge> 8 \<and> ty_paper t \<ge> 3 \<and> internal_confidence t \<ge> 0.75 then Adopted_candidate
      else if ty_proposal t \<ge> 5 \<or> ty_paper t \<ge> 2 then Review_ready else Proposed)"

definition type_name :: "suggestion_type \<Rightarrow> string" where
  "type_name t =
     (case t of Failure_mode_strengthened \<Rightarrow> ''failure_mode_strengthened''
      | Novelty_expectation_refined \<Rightarrow> ''novelty_expectation_refined''
      | Preferred_conditions_adjustment \<Rightarrow> ''preferred_market_conditions_adjustment'')"

type_synonym suggestion_key = "string \<times> string \<times> suggestion_type"

definition suggestion_key :: "suggestion \<Rightarrow> suggestion_key" where
  "suggestion_key s = (kg_origin s, kg_family_key s, kg_type s)"

text \<open>The dictionary of the stored suggestions of a market: of several rows with a key, the last.\<close>

fun last_position :: "('a \<Rightarrow> bool) \<Rightarrow> 'a list \<Rightarrow> nat option" where
  "last_position P [] = None"
| "last_position P (x # xs) =
     (case last_position P xs of Some i \<Rightarrow> Some (Suc i) | None \<Rightarrow> if P x then Some 0 else None)"

definition existing_row :: "string \<Rightarrow> suggestion list \<Rightarrow> suggestion_key \<Rightarrow> nat option" where
  "existing_row market rows key =
     last_position (\<lambda>s. kg_market_scope s = market \<and> suggestion_key s = key) rows"

definition put_suggestion :: "nat option \<Rightarrow> suggestion \<Rightarrow> (suggestion \<Rightarrow> suggestion) \<Rightarrow> suggestion list \<Rightarrow> suggestion list" where
  "put_suggestion row new upd rows =
     (case row of None \<Rightarrow> rows @ [new] | Some i \<Rightarrow> rows[i := upd (rows ! i)])"

definition suggestion_audit :: "suggestion \<Rightarrow> (string \<rightharpoonup> string) \<Rightarrow> datetime \<Rightarrow> audit" where
  "suggestion_audit s extra now =
     system_audit ''knowledge_suggestion_generated'' ''knowledge_suggestion'' (kg_id s)
       ([''origin'' \<mapsto> kg_origin s, ''family_key'' \<mapsto> kg_family_key s, ''suggestion_type'' \<mapsto> type_name (kg_type s)]
          ++ extra) now"

definition internal_suggestion :: "kb_env \<Rightarrow> string \<Rightarrow> datetime \<Rightarrow> string \<Rightarrow> tally \<Rightarrow> suggestion" where
  "internal_suggestion env market now family t =
     \<lparr>kg_id = ''knowledge-suggestion-'' @ kv_hash env [market, family, type_name (internal_type t), ''internal''],
      kg_family_key = family, kg_market_scope = market, kg_origin = ''internal'', kg_type = internal_type t,
      kg_value = Internal_value family (ty_proposal t) (ty_fragile t) (ty_low_novelty t),
      kg_confidence = internal_confidence t,
      kg_evidence = Internal_counts (ty_proposal t) (ty_backtest t) (ty_paper t), kg_source_ids = [],
      kg_status = internal_status t, kg_created_at = now, kg_updated_at = now\<rparr>"

definition update_internal :: "datetime \<Rightarrow> string \<Rightarrow> tally \<Rightarrow> suggestion \<Rightarrow> suggestion" where
  "update_internal now family t s =
     s\<lparr>kg_value := Internal_value family (ty_proposal t) (ty_fragile t) (ty_low_novelty t),
       kg_confidence := internal_confidence t,
       kg_evidence := Internal_counts (ty_proposal t) (ty_backtest t) (ty_paper t),
       kg_status := internal_status t, kg_updated_at := now\<rparr>"

definition internal_step ::
  "kb_env \<Rightarrow> string \<Rightarrow> datetime \<Rightarrow> (suggestion_key \<Rightarrow> nat option) \<Rightarrow> observation list \<Rightarrow> string
     \<Rightarrow> suggestion list \<times> audit list \<Rightarrow> suggestion list \<times> audit list" where
  "internal_step env market now existing obs family st =
     (let t = tally_of (filter (\<lambda>ob. ob_family_key ob = family) obs);
          row = existing (''internal'', family, internal_type t);
          new = internal_suggestion env market now family t
      in if ty_proposal t < 3 then st
         else (put_suggestion row new (update_internal now family t) (fst st),
               if row = None then snd st @ [suggestion_audit new Map.empty now] else snd st))"

section \<open>Suggestions from external entries\<close>

definition external_value :: "kb_env \<Rightarrow> knowledge_seed \<Rightarrow> string \<Rightarrow> suggested_value" where
  "external_value env e family =
     External_value family (kv_text env (ke_entry_id e)) (kp_preferred (ke_payload e))
       (kp_discouraged (ke_payload e))
       (if kp_source_refs (ke_payload e) = [] then [ke_source_id e] else kp_source_refs (ke_payload e))"

definition external_suggestion :: "kb_env \<Rightarrow> string \<Rightarrow> datetime \<Rightarrow> entry_row \<Rightarrow> string \<Rightarrow> suggestion" where
  "external_suggestion env market now e family =
     \<lparr>kg_id = ''knowledge-suggestion-'' @ kv_hash env [market, family, ke_entry_id (en_seed e), ''external''],
      kg_family_key = family, kg_market_scope = market, kg_origin = ''external'',
      kg_type = Preferred_conditions_adjustment, kg_value = external_value env (en_seed e) family,
      kg_confidence = 0.68, kg_evidence = External_entries 1, kg_source_ids = [ke_source_id (en_seed e)],
      kg_status = (if en_status e = ''adopted_candidate'' then Adopted_candidate else Review_ready),
      kg_created_at = now, kg_updated_at = now\<rparr>"

definition update_external :: "kb_env \<Rightarrow> datetime \<Rightarrow> entry_row \<Rightarrow> string \<Rightarrow> suggestion \<Rightarrow> suggestion" where
  "update_external env now e family s =
     s\<lparr>kg_value := external_value env (en_seed e) family,
       kg_confidence := max (kg_confidence s) 0.68,
       kg_source_ids := sorted_list_of_set (set (kg_source_ids s @ [ke_source_id (en_seed e)])),
       kg_status := (if en_status e = ''adopted_candidate'' then Adopted_candidate else Review_ready),
       kg_updated_at := now\<rparr>"

definition external_step ::
  "kb_env \<Rightarrow> string \<Rightarrow> datetime \<Rightarrow> (suggestion_key \<Rightarrow> nat option) \<Rightarrow> entry_row \<times> string
     \<Rightarrow> suggestion list \<times> audit list \<Rightarrow> suggestion list \<times> audit list" where
  "external_step env market now existing = (\<lambda>(e, family) st.
     (let row = existing (''external'', family, Preferred_conditions_adjustment);
          new = external_suggestion env market now e family
      in (put_suggestion row new (update_external env now e family) (fst st),
          if row = None
          then snd st @ [suggestion_audit new [''linked_source_ids'' \<mapsto> ke_source_id (en_seed e)] now]
          else snd st)))"

definition entry_families :: "entry_row list \<Rightarrow> (entry_row \<times> string) list" where
  "entry_families es = concat (map (\<lambda>e. map (Pair e) (ke_family_keys (en_seed e))) es)"

definition proposed_entries :: "string \<Rightarrow> kb \<Rightarrow> entry_row list" where
  "proposed_entries market kb =
     filter (\<lambda>e. ke_market_scope (en_seed e) = market \<and> en_status e = ''proposed'') (kb_entries kb)"

section \<open>A refresh\<close>

definition refreshed :: "kb_env \<Rightarrow> string \<Rightarrow> datetime \<Rightarrow> kb \<Rightarrow> suggestion list \<times> audit list" where
  "refreshed env market now kb =
     (let obs = relevant_observations market kb;
          existing = existing_row market (kb_suggestions kb);
          st = fold (internal_step env market now existing obs) (dedupe (map ob_family_key obs))
                 (kb_suggestions kb, kb_audits kb)
      in fold (external_step env market now existing) (entry_families (proposed_entries market kb)) st)"

text \<open>The identifiers of the suggestions are unique; the flush raises on a repetition.\<close>

definition refresh_knowledge_suggestions :: "kb_env \<Rightarrow> string \<Rightarrow> datetime \<Rightarrow> kb \<Rightarrow> kb res" where
  "refresh_knowledge_suggestions env market now kb =
     (let seeded = seed_external_knowledge now kb;
          (rows, audits) = refreshed env market now seeded
      in if distinct (map kg_id rows) then Inr (seeded\<lparr>kb_suggestions := rows, kb_audits := audits\<rparr>)
         else Inl IntegrityError)"

section \<open>Reading\<close>

definition list_knowledge_sources :: "kb \<Rightarrow> source_row list" where
  "list_knowledge_sources kb = sort_key (ku_source_name \<circ> so_source) (kb_sources kb)"

definition list_knowledge_suggestions :: "nat \<Rightarrow> kb \<Rightarrow> suggestion list" where
  "list_knowledge_suggestions limit kb =
     take limit (sort_desc (\<lambda>s. (kg_updated_at s, kg_created_at s)) (kb_suggestions kb))"

definition get_knowledge_suggestion :: "string \<Rightarrow> kb \<Rightarrow> suggestion option" where
  "get_knowledge_suggestion i kb = find (\<lambda>s. kg_id s = i) (kb_suggestions kb)"

section \<open>Long-horizon figures\<close>

definition status_name :: "suggestion_status \<Rightarrow> string" where
  "status_name s =
     (case s of Proposed \<Rightarrow> ''proposed'' | Review_ready \<Rightarrow> ''review_ready'' | Adopted_candidate \<Rightarrow> ''adopted_candidate'')"

record knowledge_stats =
  ks_source_count :: nat
  ks_external_entry_count :: nat
  ks_status_counts :: "(string \<times> nat) list"
  ks_review_ready_count :: nat
  ks_adopted_candidate_count :: nat
  ks_top_families :: "string list"

definition counter_get :: "('a \<times> nat) list \<Rightarrow> 'a \<Rightarrow> nat" where
  "counter_get c x = (case map_of c x of None \<Rightarrow> 0 | Some n \<Rightarrow> n)"

definition build_knowledge_phase2_stats :: "kb \<Rightarrow> knowledge_stats" where
  "build_knowledge_phase2_stats kb =
     (let statuses = counter (map (status_name \<circ> kg_status) (kb_suggestions kb));
          families = counter (map kg_family_key (kb_suggestions kb))
      in \<lparr>ks_source_count = length (kb_sources kb), ks_external_entry_count = length (kb_entries kb),
          ks_status_counts = statuses, ks_review_ready_count = counter_get statuses ''review_ready'',
          ks_adopted_candidate_count = counter_get statuses ''adopted_candidate'',
          ks_top_families = most_common 5 families\<rparr>)"

record long_horizon_env =
  lh_texts :: provider_texts
  lh_now :: datetime
  lh_llm :: "llm_config \<times> llm_runtime"
  lh_settings :: governance_settings

record long_horizon_data =
  ld_syncs :: "sync_audit list"
  ld_watchdog :: watchdog_state
  ld_readiness :: "readiness_entry list"
  ld_audits :: "audit list"
  ld_pool :: pool
  ld_paper :: paper_store
  ld_slots :: slot_table
  ld_kb :: kb

definition build_long_horizon_stats ::
  "long_horizon_env \<Rightarrow> long_horizon_data
     \<Rightarrow> runtime_stats \<times> readiness_stats \<times> provider_stats \<times> paper_stats \<times> knowledge_stats" where
  "build_long_horizon_stats env d =
     (build_runtime_long_horizon_stats 30 (ld_syncs d) (ld_watchdog d),
      build_readiness_long_horizon_stats 30 (ld_readiness d),
      build_provider_long_horizon_stats (lh_texts env) (current_provider (fst (lh_llm env)) (snd (lh_llm env)))
        (lh_now env) 30 (ld_audits d) (ld_pool d),
      build_paper_long_horizon_stats 30 (lh_settings env) (lh_now env) (ld_pool d) (ld_paper d) (ld_slots d),
      build_knowledge_phase2_stats (ld_kb d))"

section \<open>The stage of a suggestion\<close>

lemma confidence_bounds:
  assumes "x \<le> 0.45 + of_nat (ty_proposal t) * 0.05 + of_nat (ty_paper t) * 0.03 + of_nat (ty_backtest t) * 0.02"
    and "x * 100 = of_int k" "x \<le> 0.95"
  shows "x \<le> internal_confidence t" "internal_confidence t \<le> 0.95"
proof -
  let ?c = "min 0.95 (0.45 + of_nat (ty_proposal t) * 0.05 + of_nat (ty_paper t) * 0.03 + of_nat (ty_backtest t) * 0.02) :: real"
  have "py_round x 2 = x" "py_round 0.95 2 = (0.95 :: real)"
    using py_round_exact [of x 2 k] py_round_exact [of "0.95" 2 95] assms(2) by simp_all
  moreover have "py_round x 2 \<le> py_round ?c 2" "py_round ?c 2 \<le> py_round 0.95 2"
    using assms(1,3) by (simp_all only: py_round_mono min.bounded_iff min.cobounded1)
  ultimately show "x \<le> internal_confidence t" "internal_confidence t \<le> 0.95"
    unfolding internal_confidence_def by linarith+
qed

text \<open>From three proposals on the confidence lies between 0.6 and 0.95.  The stages are those of the
  counts alone: with eight proposals and three paper cycles the confidence is past its own bound
  of 0.75 already, which therefore decides nothing.\<close>

theorem suggestion_stage_contract:
  assumes "3 \<le> ty_proposal t"
  shows "0.6 \<le> internal_confidence t \<and> internal_confidence t \<le> 0.95
    \<and> (internal_status t = Adopted_candidate \<longleftrightarrow> 8 \<le> ty_proposal t \<and> 3 \<le> ty_paper t)
    \<and> (internal_status t = Proposed \<longleftrightarrow> ty_proposal t < 5 \<and> ty_paper t < 2)"
proof -
  have "0.75 \<le> internal_confidence t" if "8 \<le> ty_proposal t" "3 \<le> ty_paper t"
  proof -
    have "8 \<le> real (ty_proposal t)" "0 \<le> real (ty_paper t)" "0 \<le> real (ty_backtest t)" using that by simp_all
    then show ?thesis by (intro confidence_bounds(1) [of _ _ 75]) simp_all
  qed
  moreover have "3 \<le> real (ty_proposal t)" "0 \<le> real (ty_paper t)" "0 \<le> real (ty_backtest t)" using assms by simp_all
  then have "0.6 \<le> internal_confidence t" "internal_confidence t \<le> 0.95"
    using confidence_bounds [of "0.6" t 60] by simp_all
  ultimately show ?thesis by (auto simp: internal_status_def)
qed

theorem suggestion_stage_contract_witness:
  "internal_status \<lparr>ty_proposal = 8, ty_backtest = 8, ty_paper = 3, ty_fragile = 0, ty_low_novelty = 0\<rparr> = Adopted_candidate"
  using suggestion_stage_contract
    [of "\<lparr>ty_proposal = 8, ty_backtest = 8, ty_paper = 3, ty_fragile = 0, ty_low_novelty = 0\<rparr>"] by simp

text \<open>The observations of one family: each proposal leaves one of itself and one of its backtest with
  the same assessment, and each paper cycle leaves one more.\<close>

definition family_observations ::
  "kb_env \<Rightarrow> string \<Rightarrow> (proposal \<times> string \<times> string \<times> datetime) list
     \<Rightarrow> (proposal \<times> string \<times> string \<times> datetime) list \<Rightarrow> observation list" where
  "family_observations env family proposals cycles =
     concat (map (\<lambda>(p, fit, nov, t). [observation_of env p ''proposal'' fit nov t family,
                                       observation_of env p ''backtest'' fit nov t family]) proposals)
     @ map (\<lambda>(p, fit, nov, t). observation_of env p ''paper'' fit nov t family) cycles"

definition weak_fits :: "(proposal \<times> string \<times> string \<times> datetime) list \<Rightarrow> nat" where
  "weak_fits rows = count_of (\<lambda>(_, fit, _). fit \<in> {''fragile'', ''mismatch''}) rows"

lemma tally_family:
  "ty_proposal (tally_of (family_observations env family proposals cycles)) = length proposals"
  "ty_backtest (tally_of (family_observations env family proposals cycles)) = length proposals"
  "ty_paper (tally_of (family_observations env family proposals cycles)) = length cycles"
  "ty_fragile (tally_of (family_observations env family proposals cycles)) = 2 * weak_fits proposals + weak_fits cycles"
proof -
  have kinds: "count_of (\<lambda>ob. ob_source_kind ob = k)
      (concat (map (\<lambda>(p, fit, nov, t). [observation_of env p ''proposal'' fit nov t family,
                                         observation_of env p ''backtest'' fit nov t family]) proposals))
      = (if k = ''proposal'' then length proposals else 0) + (if k = ''backtest'' then length proposals else 0)" for k
    by (induction proposals) (auto simp: count_of_def observation_of_def split: prod.split)
  have papers: "count_of (\<lambda>ob. ob_source_kind ob = k)
      (map (\<lambda>(p, fit, nov, t). observation_of env p ''paper'' fit nov t family) cycles)
      = (if k = ''paper'' then length cycles else 0)" for k
    by (induction cycles) (auto simp: count_of_def observation_of_def split: prod.split)
  have "count_of (\<lambda>ob. ob_fit ob \<in> {''fragile'', ''mismatch''})
      (concat (map (\<lambda>(p, fit, nov, t). [observation_of env p ''proposal'' fit nov t family,
                                         observation_of env p ''backtest'' fit nov t family]) proposals))
      = 2 * weak_fits proposals"
    by (induction proposals) (auto simp: count_of_def weak_fits_def observation_of_def split: prod.split)
  moreover have "count_of (\<lambda>ob. ob_fit ob \<in> {''fragile'', ''mismatch''})
      (map (\<lambda>(p, fit, nov, t). observation_of env p ''paper'' fit nov t family) cycles) = weak_fits cycles"
    by (induction cycles) (auto simp: count_of_def weak_fits_def observation_of_def split: prod.split)
  ultimately show "ty_fragile (tally_of (family_observations env family proposals cycles))
      = 2 * weak_fits proposals + weak_fits cycles"
    by (simp add: tally_of_def family_observations_def count_of_append)
  show "ty_proposal (tally_of (family_observations env family proposals cycles)) = length proposals"
    "ty_backtest (tally_of (family_observations env family proposals cycles)) = length proposals"
    "ty_paper (tally_of (family_observations env family proposals cycles)) = length cycles"
    by (simp_all add: tally_of_def family_observations_def count_of_append kinds papers)
qed

text \<open>A weak proposal is counted twice, and once more with every paper cycle, against half the number
  of proposals: a quarter of weak proposals is enough to call the family fragile, a single one
  among up to five, and two cycles of one weak strategy do it without any other.\<close>

theorem weak_proposals_count_twice:
  "internal_type (tally_of (family_observations env family proposals cycles)) = Failure_mode_strengthened
     \<longleftrightarrow> max 2 (length proposals div 2) \<le> 2 * weak_fits proposals + weak_fits cycles"
  by (simp add: internal_type_def tally_family)

section \<open>Refreshing again\<close>

text \<open>A refresh as a list of jobs on the stored rows.\<close>

type_synonym job = "suggestion \<times> (suggestion \<Rightarrow> suggestion)"

definition internal_jobs :: "kb_env \<Rightarrow> string \<Rightarrow> datetime \<Rightarrow> observation list \<Rightarrow> job list" where
  "internal_jobs env market now obs =
     map (\<lambda>(f, t). (internal_suggestion env market now f t, update_internal now f t))
       (filter (\<lambda>(f, t). 3 \<le> ty_proposal t)
         (map (\<lambda>f. (f, tally_of (filter (\<lambda>ob. ob_family_key ob = f) obs))) (dedupe (map ob_family_key obs))))"

definition external_jobs :: "kb_env \<Rightarrow> string \<Rightarrow> datetime \<Rightarrow> entry_row list \<Rightarrow> job list" where
  "external_jobs env market now es =
     map (\<lambda>(e, f). (external_suggestion env market now e f, update_external env now e f)) (entry_families es)"

definition refresh_jobs :: "kb_env \<Rightarrow> string \<Rightarrow> datetime \<Rightarrow> kb \<Rightarrow> job list" where
  "refresh_jobs env market now kb =
     internal_jobs env market now (relevant_observations market kb)
     @ external_jobs env market now (proposed_entries market kb)"

definition run_job :: "(suggestion_key \<Rightarrow> nat option) \<Rightarrow> job \<Rightarrow> suggestion list \<Rightarrow> suggestion list" where
  "run_job existing = (\<lambda>(new, upd). put_suggestion (existing (suggestion_key new)) new upd)"

lemma key_internal [simp]: "suggestion_key (internal_suggestion env market now f t) = (''internal'', f, internal_type t)"
  by (simp add: suggestion_key_def internal_suggestion_def)

lemma key_external [simp]:
  "suggestion_key (external_suggestion env market now e f) = (''external'', f, Preferred_conditions_adjustment)"
  by (simp add: suggestion_key_def external_suggestion_def)

lemma fst_internal_steps:
  "fst (fold (internal_step env market now existing obs) fs st)
     = fold (run_job existing)
         (map (\<lambda>(f, t). (internal_suggestion env market now f t, update_internal now f t))
           (filter (\<lambda>(f, t). 3 \<le> ty_proposal t)
             (map (\<lambda>f. (f, tally_of (filter (\<lambda>ob. ob_family_key ob = f) obs))) fs))) (fst st)"
  by (induction fs arbitrary: st) (simp_all add: internal_step_def run_job_def Let_def)

lemma fst_external_steps:
  "fst (fold (external_step env market now existing) efs st)
     = fold (run_job existing)
         (map (\<lambda>(e, f). (external_suggestion env market now e f, update_external env now e f)) efs) (fst st)"
  by (induction efs arbitrary: st) (simp_all add: external_step_def run_job_def Let_def split_def)

lemma fst_refreshed:
  "fst (refreshed env market now kb)
     = fold (run_job (existing_row market (kb_suggestions kb))) (refresh_jobs env market now kb) (kb_suggestions kb)"
  by (simp add: refreshed_def Let_def fst_internal_steps fst_external_steps refresh_jobs_def
      internal_jobs_def external_jobs_def)

lemma snd_internal_steps:
  "(\<And>f. f \<in> set fs \<Longrightarrow> 3 \<le> ty_proposal (tally_of (filter (\<lambda>ob. ob_family_key ob = f) obs))
      \<Longrightarrow> existing (''internal'', f, internal_type (tally_of (filter (\<lambda>ob. ob_family_key ob = f) obs))) \<noteq> None)
   \<Longrightarrow> snd (fold (internal_step env market now existing obs) fs st) = snd st"
proof (induction fs arbitrary: st)
  case (Cons f fs)
  have "snd (internal_step env market now existing obs f st) = snd st"
    using Cons.prems [of f]
    by (cases "3 \<le> ty_proposal (tally_of (filter (\<lambda>ob. ob_family_key ob = f) obs))")
       (auto simp: internal_step_def Let_def)
  moreover have "snd (fold (internal_step env market now existing obs) fs (internal_step env market now existing obs f st))
      = snd (internal_step env market now existing obs f st)"
    by (rule Cons.IH) (rule Cons.prems, auto)
  ultimately show ?case by simp
qed simp

lemma snd_external_steps:
  "(\<And>e f. (e, f) \<in> set efs \<Longrightarrow> existing (''external'', f, Preferred_conditions_adjustment) \<noteq> None)
   \<Longrightarrow> snd (fold (external_step env market now existing) efs st) = snd st"
proof (induction efs arbitrary: st)
  case (Cons a efs)
  obtain e f where a: "a = (e, f)" by force
  have "snd (external_step env market now existing a st) = snd st"
    using Cons.prems [of e f] by (auto simp: external_step_def Let_def a)
  moreover have "snd (fold (external_step env market now existing) efs (external_step env market now existing a st))
      = snd (external_step env market now existing a st)"
    by (rule Cons.IH) (rule Cons.prems, auto)
  ultimately show ?case by simp
qed simp

text \<open>What identifies a row is never changed.\<close>

definition row_meta :: "suggestion \<Rightarrow> string \<times> string \<times> suggestion_key" where
  "row_meta s = (kg_id s, kg_market_scope s, suggestion_key s)"

definition keeps_meta :: "job \<Rightarrow> bool" where
  "keeps_meta j \<longleftrightarrow> (\<forall>s. row_meta (snd j s) = row_meta s)"

lemma refresh_jobs_keep_meta: "j \<in> set (refresh_jobs env market now kb) \<Longrightarrow> keeps_meta j"
  by (auto simp: refresh_jobs_def internal_jobs_def external_jobs_def keeps_meta_def row_meta_def
      suggestion_key_def update_internal_def update_external_def)

lemma refresh_jobs_market: "j \<in> set (refresh_jobs env market now kb) \<Longrightarrow> kg_market_scope (fst j) = market"
  by (auto simp: refresh_jobs_def internal_jobs_def external_jobs_def internal_suggestion_def external_suggestion_def)

lemma last_position_None: "last_position P xs = None \<longleftrightarrow> (\<forall>x\<in>set xs. \<not> P x)"
  by (induction xs) (auto split: option.split)

lemma last_position_less: "last_position P xs = Some i \<Longrightarrow> i < length xs"
  by (induction xs arbitrary: i) (auto split: option.splits if_splits)

lemma existing_row_iff:
  "existing_row market rows k \<noteq> None \<longleftrightarrow> (market, k) \<in> set (map (snd \<circ> row_meta) rows)"
  by (auto simp: existing_row_def last_position_None row_meta_def)

lemma run_jobs_meta:
  assumes "\<And>j. j \<in> set jobs \<Longrightarrow> keeps_meta j" "\<And>k i. existing k = Some i \<Longrightarrow> i < length rows"
  shows "map row_meta (fold (run_job existing) jobs rows)
    = map row_meta rows @ map (row_meta \<circ> fst) (filter (\<lambda>j. existing (suggestion_key (fst j)) = None) jobs)"
  using assms
proof (induction jobs arbitrary: rows)
  case (Cons j jobs)
  obtain new upd where j: "j = (new, upd)" by force
  show ?case
  proof (cases "existing (suggestion_key new)")
    case None
    have "map row_meta (fold (run_job existing) jobs (rows @ [new]))
        = map row_meta (rows @ [new])
          @ map (row_meta \<circ> fst) (filter (\<lambda>j. existing (suggestion_key (fst j)) = None) jobs)"
      by (rule Cons.IH) (use Cons.prems in \<open>auto simp: less_Suc_eq\<close>)
    with None show ?thesis by (simp add: j run_job_def put_suggestion_def)
  next
    case (Some i)
    then have i: "i < length rows" by (rule Cons.prems(2))
    have meta: "row_meta (upd (rows ! i)) = row_meta (rows ! i)"
      using Cons.prems(1) [of j] by (simp add: j keeps_meta_def)
    have "map row_meta (fold (run_job existing) jobs (rows[i := upd (rows ! i)]))
        = map row_meta (rows[i := upd (rows ! i)])
          @ map (row_meta \<circ> fst) (filter (\<lambda>j. existing (suggestion_key (fst j)) = None) jobs)"
      by (rule Cons.IH) (use Cons.prems in auto)
    also have "map row_meta (rows[i := upd (rows ! i)]) = map row_meta rows"
      using i meta by (simp add: map_update list_update_same_conv)
    finally show ?thesis using Some by (simp add: j run_job_def put_suggestion_def)
  qed
qed simp

lemma refreshed_meta:
  "map row_meta (fst (refreshed env market now kb))
     = map row_meta (kb_suggestions kb)
       @ map (row_meta \<circ> fst)
           (filter (\<lambda>j. existing_row market (kb_suggestions kb) (suggestion_key (fst j)) = None)
              (refresh_jobs env market now kb))"
  unfolding fst_refreshed
  by (rule run_jobs_meta) (use refresh_jobs_keep_meta last_position_less in \<open>auto simp: existing_row_def\<close>)

lemma refresh_jobs_keys:
  assumes "kb_observations kb' = kb_observations kb" "kb_entries kb' = kb_entries kb"
  shows "map (suggestion_key \<circ> fst) (refresh_jobs env market later kb')
    = map (suggestion_key \<circ> fst) (refresh_jobs env market now kb)"
  using assms
  by (simp add: refresh_jobs_def internal_jobs_def external_jobs_def relevant_observations_def proposed_entries_def
      comp_def split_def)

lemma known_after_refresh:
  assumes "kb_observations kb' = kb_observations kb" "kb_entries kb' = kb_entries kb"
    "kb_suggestions kb' = fst (refreshed env market now kb)"
    "j \<in> set (refresh_jobs env market later kb')"
  shows "existing_row market (kb_suggestions kb') (suggestion_key (fst j)) \<noteq> None"
proof -
  let ?k = "suggestion_key (fst j)"
  have "?k \<in> set (map (suggestion_key \<circ> fst) (refresh_jobs env market now kb))"
    unfolding refresh_jobs_keys [OF assms(1,2), of env market later now, symmetric] using assms(4) by force
  then obtain j' where j': "j' \<in> set (refresh_jobs env market now kb)" "suggestion_key (fst j') = ?k" by auto
  have snds: "set (map (snd \<circ> row_meta) xs) = snd ` set (map row_meta xs)" for xs
    by (simp add: image_comp)
  show ?thesis
  proof (cases "existing_row market (kb_suggestions kb) ?k = None")
    case True
    then have "row_meta (fst j') \<in> set (map row_meta (kb_suggestions kb'))"
      using j' by (auto simp: assms(3) refreshed_meta)
    then show ?thesis
      unfolding existing_row_iff snds using refresh_jobs_market [OF j'(1)] j'(2)
      by (force simp: row_meta_def)
  next
    case False
    then have "(market, ?k) \<in> snd ` set (map row_meta (kb_suggestions kb))"
      unfolding existing_row_iff snds .
    then show ?thesis unfolding existing_row_iff snds assms(3) refreshed_meta by auto
  qed
qed

lemma seeded_again: "seed_external_knowledge later (seed_external_knowledge now kb) = seed_external_knowledge now kb"
proof -
  have add: "filter (\<lambda>x. f x \<notin> set (map (f \<circ> g) (ys @ map h (filter (\<lambda>x. f x \<notin> set (map (f \<circ> g) ys)) xs)))) xs = []"
    if "\<And>x. g (h x) = x" for f :: "'a \<Rightarrow> string" and g :: "'b \<Rightarrow> 'a" and h xs ys
    using that by (auto simp: filter_empty_conv comp_def)
  show ?thesis
    unfolding seed_external_knowledge_def
    using add [of so_source "\<lambda>s. \<lparr>so_source = s, so_enabled = True, so_reviewed_at = now\<rparr>" ku_source_id
        "kb_sources kb" external_knowledge_sources]
      add [of en_seed "\<lambda>e. \<lparr>en_seed = e, en_status = ''proposed'', en_created_at = now\<rparr>" ke_entry_id
        "kb_entries kb" external_knowledge_entries]
    by simp
qed

lemma seeded_simps [simp]:
  "kb_observations (seed_external_knowledge now kb) = kb_observations kb"
  "kb_suggestions (seed_external_knowledge now kb) = kb_suggestions kb"
  "kb_audits (seed_external_knowledge now kb) = kb_audits kb"
  by (simp_all add: seed_external_knowledge_def)

lemma refresh_eq:
  "refresh_knowledge_suggestions env market now kb = Inr kb1 \<longleftrightarrow>
     distinct (map kg_id (fst (refreshed env market now (seed_external_knowledge now kb))))
     \<and> kb1 = (seed_external_knowledge now kb)
         \<lparr>kb_suggestions := fst (refreshed env market now (seed_external_knowledge now kb)),
          kb_audits := snd (refreshed env market now (seed_external_knowledge now kb))\<rparr>"
  by (auto simp: refresh_knowledge_suggestions_def Let_def split_def)

lemma seed_commutes:
  "seed_external_knowledge later (kb\<lparr>kb_suggestions := rows, kb_audits := audits\<rparr>)
     = (seed_external_knowledge later kb)\<lparr>kb_suggestions := rows, kb_audits := audits\<rparr>"
  by (simp add: seed_external_knowledge_def)

lemma job_keys_known:
  assumes "\<And>j. j \<in> set (refresh_jobs env market later kb) \<Longrightarrow>
      existing_row market (kb_suggestions kb) (suggestion_key (fst j)) \<noteq> None"
  shows "snd (refreshed env market later kb) = kb_audits kb"
proof -
  let ?obs = "relevant_observations market kb"
  let ?ex = "existing_row market (kb_suggestions kb)"
  have internal: "?ex (''internal'', f, internal_type (tally_of (filter (\<lambda>ob. ob_family_key ob = f) ?obs))) \<noteq> None"
    if "f \<in> set (dedupe (map ob_family_key ?obs))" "3 \<le> ty_proposal (tally_of (filter (\<lambda>ob. ob_family_key ob = f) ?obs))" for f
    using assms [of "(internal_suggestion env market later f (tally_of (filter (\<lambda>ob. ob_family_key ob = f) ?obs)),
        update_internal later f (tally_of (filter (\<lambda>ob. ob_family_key ob = f) ?obs)))"] that
    by (force simp: refresh_jobs_def internal_jobs_def)
  have external: "?ex (''external'', f, Preferred_conditions_adjustment) \<noteq> None"
    if "(e, f) \<in> set (entry_families (proposed_entries market kb))" for e f
    using assms [of "(external_suggestion env market later e f, update_external env later e f)"] that
    by (force simp: refresh_jobs_def external_jobs_def)
  show ?thesis
    unfolding refreshed_def Let_def
    by (subst snd_external_steps, rule external, assumption)
       (subst snd_internal_steps, rule internal, simp_all)
qed

text \<open>C38. A refresh without new observations adds nothing to what the refresh before it left: the
  suggestions keep their identity and their number, and nothing is audited; it succeeds whenever
  that one did.\<close>

theorem refresh_again_adds_nothing:
  assumes "refresh_knowledge_suggestions env market now kb = Inr kb1"
  shows "\<exists>kb2. refresh_knowledge_suggestions env market later kb1 = Inr kb2
    \<and> map row_meta (kb_suggestions kb2) = map row_meta (kb_suggestions kb1)
    \<and> kb_audits kb2 = kb_audits kb1 \<and> kb_entries kb2 = kb_entries kb1 \<and> kb_sources kb2 = kb_sources kb1"
proof -
  let ?s = "seed_external_knowledge now kb"
  have kb1: "kb1 = ?s\<lparr>kb_suggestions := fst (refreshed env market now ?s), kb_audits := snd (refreshed env market now ?s)\<rparr>"
    and dis: "distinct (map kg_id (kb_suggestions kb1))"
    using assms by (auto simp: refresh_eq)
  have seed: "seed_external_knowledge later kb1 = kb1"
    unfolding kb1 seed_commutes seeded_again ..
  have known: "existing_row market (kb_suggestions kb1) (suggestion_key (fst j)) \<noteq> None"
    if "j \<in> set (refresh_jobs env market later kb1)" for j
    by (rule known_after_refresh [of kb1 ?s env market now j later]) (use that in \<open>simp_all add: kb1\<close>)
  have meta: "map row_meta (fst (refreshed env market later kb1)) = map row_meta (kb_suggestions kb1)"
    unfolding refreshed_meta using known by (simp add: filter_empty_conv)
  have "map fst (map row_meta xs) = map kg_id xs" for xs by (simp add: row_meta_def comp_def)
  then have "distinct (map kg_id (fst (refreshed env market later kb1)))"
    using dis meta by metis
  then have "refresh_knowledge_suggestions env market later kb1
      = Inr (kb1\<lparr>kb_suggestions := fst (refreshed env market later kb1), kb_audits := snd (refreshed env market later kb1)\<rparr>)"
    unfolding refresh_eq seed by simp
  then show ?thesis using meta job_keys_known [OF known] by simp
qed

section \<open>Several entries for one family\<close>

definition empty_kb :: kb where
  "empty_kb = \<lparr>kb_sources = [], kb_entries = [], kb_observations = [], kb_suggestions = [], kb_audits = []\<rparr>"

definition first_refresh :: "kb_env \<Rightarrow> datetime \<Rightarrow> kb" where
  "first_refresh env now =
     (seed_external_knowledge now empty_kb)
       \<lparr>kb_suggestions := fst (refreshed env ''HK'' now (seed_external_knowledge now empty_kb))\<rparr>"

definition seeded_entry :: "datetime \<Rightarrow> knowledge_seed \<Rightarrow> entry_row" where
  "seeded_entry now e = \<lparr>en_seed = e, en_status = ''proposed'', en_created_at = now\<rparr>"

lemma seeded_entry_simps [simp]: "en_seed (seeded_entry now e) = e" "en_status (seeded_entry now e) = ''proposed''"
  by (simp_all add: seeded_entry_def)

definition seeded_pairs :: "datetime \<Rightarrow> (entry_row \<times> string) list" where
  "seeded_pairs now =
     [(seeded_entry now ext_trend_following_v1, ''trend_following''),
      (seeded_entry now ext_mean_reversion_v1, ''mean_reversion''),
      (seeded_entry now ext_breakout_v1, ''breakout''),
      (seeded_entry now ext_breakout_v1, ''volatility_filter''),
      (seeded_entry now ext_momentum_filter_v1, ''momentum_filter''),
      (seeded_entry now ext_volatility_filter_v1, ''volatility_filter''),
      (seeded_entry now ext_hk_execution_v1, ''trend_following''),
      (seeded_entry now ext_hk_execution_v1, ''mean_reversion''),
      (seeded_entry now ext_hk_execution_v1, ''volatility_filter'')]"

lemma entry_simps [simp]:
  "ke_market_scope ext_trend_following_v1 = ''HK''" "ke_market_scope ext_mean_reversion_v1 = ''HK''"
  "ke_market_scope ext_breakout_v1 = ''HK''" "ke_market_scope ext_momentum_filter_v1 = ''HK''"
  "ke_market_scope ext_volatility_filter_v1 = ''HK''" "ke_market_scope ext_hk_execution_v1 = ''HK''"
  "ke_family_keys ext_trend_following_v1 = [''trend_following'']"
  "ke_family_keys ext_mean_reversion_v1 = [''mean_reversion'']"
  "ke_family_keys ext_breakout_v1 = [''breakout'', ''volatility_filter'']"
  "ke_family_keys ext_momentum_filter_v1 = [''momentum_filter'']"
  "ke_family_keys ext_volatility_filter_v1 = [''volatility_filter'']"
  "ke_family_keys ext_hk_execution_v1 = [''trend_following'', ''mean_reversion'', ''volatility_filter'']"
  by (simp_all add: ext_trend_following_v1_def ext_mean_reversion_v1_def ext_breakout_v1_def
      ext_momentum_filter_v1_def ext_volatility_filter_v1_def ext_hk_execution_v1_def)

lemma seeded_families: "entry_families (proposed_entries ''HK'' (seed_external_knowledge now empty_kb)) = seeded_pairs now"
  by (simp add: entry_families_def proposed_entries_def seed_external_knowledge_def empty_kb_def
      external_knowledge_entries_def seeded_pairs_def seeded_entry_def [symmetric] comp_def)

lemma fold_all_new: "fold (run_job (\<lambda>_. None)) jobs rows = rows @ map fst jobs"
  by (induction jobs arbitrary: rows) (simp_all add: run_job_def put_suggestion_def split_def)

lemma empty_existing: "existing_row market [] = (\<lambda>_. None)"
  by (simp add: existing_row_def fun_eq_iff)

lemma seeded_jobs:
  "refresh_jobs env ''HK'' t (first_refresh env now) =
     map (\<lambda>(e, f). (external_suggestion env ''HK'' t e f, update_external env t e f)) (seeded_pairs now)"
  "refresh_jobs env ''HK'' t (seed_external_knowledge now empty_kb) =
     map (\<lambda>(e, f). (external_suggestion env ''HK'' t e f, update_external env t e f)) (seeded_pairs now)"
proof -
  have "proposed_entries ''HK'' (kb\<lparr>kb_suggestions := rows\<rparr>) = proposed_entries ''HK'' kb"
    "relevant_observations ''HK'' (kb\<lparr>kb_suggestions := rows\<rparr>) = relevant_observations ''HK'' kb" for kb rows
    by (simp_all add: proposed_entries_def relevant_observations_def)
  moreover have "relevant_observations ''HK'' (seed_external_knowledge now empty_kb) = []"
    by (simp add: relevant_observations_def empty_kb_def)
  ultimately show
    "refresh_jobs env ''HK'' t (first_refresh env now) =
       map (\<lambda>(e, f). (external_suggestion env ''HK'' t e f, update_external env t e f)) (seeded_pairs now)"
    "refresh_jobs env ''HK'' t (seed_external_knowledge now empty_kb) =
       map (\<lambda>(e, f). (external_suggestion env ''HK'' t e f, update_external env t e f)) (seeded_pairs now)"
    by (simp_all add: refresh_jobs_def first_refresh_def external_jobs_def internal_jobs_def seeded_families
        dedupe_def)
qed

lemma first_suggestions:
  "kb_suggestions (first_refresh env now) = map (\<lambda>(e, f). external_suggestion env ''HK'' now e f) (seeded_pairs now)"
proof -
  have "kb_suggestions (seed_external_knowledge now empty_kb) = []" by (simp add: empty_kb_def)
  then show ?thesis
    by (simp add: first_refresh_def fst_refreshed empty_existing fold_all_new seeded_jobs comp_def split_def)
qed

lemma external_row_simps [simp]:
  "kg_family_key (external_suggestion env m now e f) = f" "kg_updated_at (external_suggestion env m now e f) = now"
  "kg_market_scope (external_suggestion env m now e f) = m"
  "kg_family_key (update_external env now e f s) = kg_family_key s"
  "kg_updated_at (update_external env now e f s) = now"
  "kg_value (update_external env now e f s) = external_value env (en_seed e) f"
  by (simp_all add: external_suggestion_def update_external_def)

lemma later_existing:
  "existing_row ''HK'' (kb_suggestions (first_refresh env now)) (''external'', f, Preferred_conditions_adjustment) =
     (if f = ''volatility_filter'' then Some 8 else if f = ''mean_reversion'' then Some 7
      else if f = ''trend_following'' then Some 6 else if f = ''momentum_filter'' then Some 4
      else if f = ''breakout'' then Some 2 else None)"
  by (simp add: existing_row_def first_suggestions seeded_pairs_def)

text \<open>The seeded entries name some families more than once.  The first refresh adds a suggestion for
  every entry and family, nine for five families; from then on only the last row of a family is
  updated, the four others keep their first state for good, and of several entries for a family
  the last one overwrites what the others say: the execution note replaces the conditions of three
  families.\<close>

theorem external_suggestions_are_duplicated:
  "map kg_family_key (kb_suggestions (first_refresh env now))
     = [''trend_following'', ''mean_reversion'', ''breakout'', ''volatility_filter'', ''momentum_filter'',
        ''volatility_filter'', ''trend_following'', ''mean_reversion'', ''volatility_filter'']
   \<and> map kg_family_key (fst (refreshed env ''HK'' later (first_refresh env now)))
       = map kg_family_key (kb_suggestions (first_refresh env now))
   \<and> map kg_updated_at (fst (refreshed env ''HK'' later (first_refresh env now)))
       = [now, now, later, now, later, now, later, later, later]
   \<and> map kg_value (drop 6 (fst (refreshed env ''HK'' later (first_refresh env now))))
       = map (external_value env ext_hk_execution_v1) [''trend_following'', ''mean_reversion'', ''volatility_filter'']"
proof -
  let ?new = "\<lambda>e f. external_suggestion env ''HK'' now (seeded_entry now e) f"
  let ?upd = "\<lambda>e f. update_external env later (seeded_entry now e) f"
  have rows: "fst (refreshed env ''HK'' later (first_refresh env now)) =
     [?new ext_trend_following_v1 ''trend_following'', ?new ext_mean_reversion_v1 ''mean_reversion'',
      ?upd ext_breakout_v1 ''breakout'' (?new ext_breakout_v1 ''breakout''),
      ?new ext_breakout_v1 ''volatility_filter'',
      ?upd ext_momentum_filter_v1 ''momentum_filter'' (?new ext_momentum_filter_v1 ''momentum_filter''),
      ?new ext_volatility_filter_v1 ''volatility_filter'',
      ?upd ext_hk_execution_v1 ''trend_following''
        (?upd ext_trend_following_v1 ''trend_following'' (?new ext_hk_execution_v1 ''trend_following'')),
      ?upd ext_hk_execution_v1 ''mean_reversion''
        (?upd ext_mean_reversion_v1 ''mean_reversion'' (?new ext_hk_execution_v1 ''mean_reversion'')),
      ?upd ext_hk_execution_v1 ''volatility_filter''
        (?upd ext_volatility_filter_v1 ''volatility_filter''
          (?upd ext_breakout_v1 ''volatility_filter'' (?new ext_hk_execution_v1 ''volatility_filter'')))]"
    unfolding fst_refreshed seeded_jobs
    by (simp add: seeded_pairs_def run_job_def later_existing put_suggestion_def)
       (simp add: first_suggestions seeded_pairs_def)
  show ?thesis unfolding rows first_suggestions by (simp add: seeded_pairs_def)
qed

definition plain_env :: kb_env where
  "plain_env = \<lparr>kv_hash = concat, kv_iso = (\<lambda>_. []), kv_text = (\<lambda>s. s)\<rparr>"

lemma entry_ids [simp]:
  "ke_entry_id ext_trend_following_v1 = ''ext_trend_following_v1''"
  "ke_entry_id ext_mean_reversion_v1 = ''ext_mean_reversion_v1''"
  "ke_entry_id ext_breakout_v1 = ''ext_breakout_v1''"
  "ke_entry_id ext_momentum_filter_v1 = ''ext_momentum_filter_v1''"
  "ke_entry_id ext_volatility_filter_v1 = ''ext_volatility_filter_v1''"
  "ke_entry_id ext_hk_execution_v1 = ''ext_hk_execution_v1''"
  by (simp_all add: ext_trend_following_v1_def ext_mean_reversion_v1_def ext_breakout_v1_def
      ext_momentum_filter_v1_def ext_volatility_filter_v1_def ext_hk_execution_v1_def)

lemma first_ids: "distinct (map kg_id (kb_suggestions (first_refresh plain_env 1)))"
  unfolding first_suggestions
  by (simp add: seeded_pairs_def external_suggestion_def plain_env_def)

theorem refresh_again_adds_nothing_witness:
  "\<exists>kb1 kb2. refresh_knowledge_suggestions plain_env ''HK'' 1 empty_kb = Inr kb1
    \<and> refresh_knowledge_suggestions plain_env ''HK'' 2 kb1 = Inr kb2 \<and> length (kb_suggestions kb2) = 9"
proof -
  let ?s = "seed_external_knowledge 1 empty_kb"
  let ?kb1 = "?s\<lparr>kb_suggestions := fst (refreshed plain_env ''HK'' 1 ?s), kb_audits := snd (refreshed plain_env ''HK'' 1 ?s)\<rparr>"
  have sug: "kb_suggestions ?kb1 = kb_suggestions (first_refresh plain_env 1)"
    by (simp add: first_refresh_def)
  then have ok: "refresh_knowledge_suggestions plain_env ''HK'' 1 empty_kb = Inr ?kb1"
    using first_ids by (simp add: refresh_eq)
  obtain kb2 where kb2: "refresh_knowledge_suggestions plain_env ''HK'' 2 ?kb1 = Inr kb2"
      "map row_meta (kb_suggestions kb2) = map row_meta (kb_suggestions ?kb1)"
    using refresh_again_adds_nothing [OF ok, of 2] by blast
  have "length (kb_suggestions (first_refresh plain_env 1)) = 9" by (simp add: first_suggestions seeded_pairs_def)
  then have "length (kb_suggestions kb2) = 9" using kb2(2) sug by (metis length_map)
  then show ?thesis using ok kb2(1) by blast
qed

section \<open>Recording observations\<close>

lemma observation_of_simps [simp]:
  "ob_id (observation_of env p kind fit novelty now f) = observation_id env (pr_id p) kind now f"
  "ob_family_key (observation_of env p kind fit novelty now f) = f"
  "ob_source_kind (observation_of env p kind fit novelty now f) = kind"
  by (simp_all add: observation_of_def)

lemma filter_again: "filter (\<lambda>x. f x \<notin> set (map f (ys @ filter (\<lambda>x. f x \<notin> set (map f ys)) xs))) xs = []"
  by (auto simp: filter_empty_conv)

text \<open>Recording an observation succeeds when the hash tells the families apart; it keeps the
  identifiers unique, adds one row and one audit for each new family, never one for a proposal of
  the mock provider, and recording the same again changes nothing.\<close>

theorem observation_contract:
  assumes "distinct (map (observation_id env (pr_id p) kind now) (nonblank families))"
    and "distinct (map ob_id (kb_observations kb))"
  shows "\<exists>kb'. record_knowledge_observation env p families kind fit novelty now kb = Inr kb'
    \<and> distinct (map ob_id (kb_observations kb'))
    \<and> length (kb_audits kb') + length (kb_observations kb) = length (kb_audits kb) + length (kb_observations kb')
    \<and> length (kb_observations kb') \<le> length (kb_observations kb) + length (nonblank families)
    \<and> (pr_provider_status p = ''mock'' \<longrightarrow> kb_observations kb' = kb_observations kb)
    \<and> record_knowledge_observation env p families kind fit novelty now kb' = Inr kb'"
proof -
  let ?new = "new_observations env p families kind fit novelty now kb"
  let ?kb = "kb\<lparr>kb_observations := kb_observations kb @ ?new, kb_audits := kb_audits kb @ map observation_audit ?new\<rparr>"
  have ids: "map ob_id (map (observation_of env p kind fit novelty now) (nonblank families))
      = map (observation_id env (pr_id p) kind now) (nonblank families)"
    by simp
  have new: "distinct (map ob_id ?new)" "set (map ob_id ?new) \<inter> set (map ob_id (kb_observations kb)) = {}"
    using assms(1) unfolding ids [symmetric] new_observations_def by (auto simp: distinct_map_filter)
  have again: "new_observations env p families kind fit novelty now ?kb = []"
    using filter_again [of ob_id "kb_observations kb" "map (observation_of env p kind fit novelty now) (nonblank families)"]
    by (simp add: new_observations_def)
  have "length ?new \<le> length (nonblank families)"
    by (simp add: new_observations_def le_trans [OF length_filter_le])
  moreover have "record_knowledge_observation env p families kind fit novelty now kb = Inr ?kb"
    by (simp only: record_knowledge_observation_def Let_def new(1) if_True)
  moreover have "record_knowledge_observation env p families kind fit novelty now ?kb = Inr ?kb"
    by (simp add: record_knowledge_observation_def again)
  moreover have "distinct (map ob_id (kb_observations ?kb))"
    using new assms(2) by (simp add: Int_commute)
  moreover have "pr_provider_status p = ''mock'' \<longrightarrow> ?new = []" by (simp add: new_observations_def)
  ultimately show ?thesis by (intro exI [of _ ?kb]) simp
qed

theorem observation_contract_witness:
  "is_ok (record_knowledge_observation plain_env (sample_proposal ''p'' CANDIDATE 0) [''a'', ''b''] ''proposal''
     ''fragile'' ''low'' 3 empty_kb)"
proof -
  have "nonblank [''a'', ''b''] = [''a'', ''b'']" by code_simp
  then have "distinct (map (observation_id plain_env (pr_id (sample_proposal ''p'' CANDIDATE 0)) ''proposal'' 3) (nonblank [''a'', ''b'']))"
    by (simp add: observation_id_def plain_env_def)
  from observation_contract [OF this, of empty_kb "''fragile''" "''low''"] show ?thesis
    by (auto simp: empty_kb_def is_ok_def)
qed

end
