(* ===== verification/Universe_Selection.thy ===== *)
theory Universe_Selection imports HK_Universe Event_Stream Market_Profile begin

text \<open>
  The selection of the research universe in \<open>api/services.py\<close>: the configured anchor, the stored
  selection and how it is served, a refresh with its fallback and its audit rows, and the snapshot
  of one research symbol.  A candidate is the entry of the payload, with nothing for a null; the
  texts of the reason tags and of a time are parameters, and so is the outcome of the request for
  candidates, which \<open>fetch_hk_universe_candidates\<close> gives.
\<close>

section \<open>Candidates and selections\<close>

record research_candidate =
  uc_rank :: "nat option"
  uc_symbol :: string
  uc_name :: string
  uc_latest_price :: "real option"
  uc_change_pct :: "real option"
  uc_amplitude_pct :: "real option"
  uc_turnover_millions :: "real option"
  uc_score :: "real option"
  uc_reason_tags :: "string list"
  uc_selection_reason :: string
  uc_source :: string
  uc_history_available :: "bool option"

record selection =
  us_mode :: string
  us_market_scope :: string
  us_selected_symbol :: string
  us_source :: string
  us_generated_at :: datetime
  us_selection_reason :: string
  us_top_factors :: "string list"
  us_candidate_count :: nat
  us_top_n_limit :: int
  us_min_turnover_millions :: "real option"
  us_account_capital_hkd :: real
  us_max_lot_cost_ratio :: real
  us_benchmark_symbol :: string
  us_benchmark_gap :: "real option"
  us_benchmark_candidate :: "research_candidate option"
  us_candidates :: "research_candidate list"
  us_research_symbols :: "string list option"
  us_error :: "py_error option"

record universe_config =
  uf_universe :: universe_settings
  uf_portfolio :: portfolio_settings

section \<open>The configured anchor\<close>

definition market_scope_name :: "market \<Rightarrow> string" where
  "market_scope_name m = (case m of HK \<Rightarrow> ''HK'' | CN \<Rightarrow> ''CN'' | US \<Rightarrow> ''US'')"

definition static_event_scope :: "universe_config \<Rightarrow> (string \<times> string) res" where
  "static_event_scope cf =
     (let raw = (case pf_symbols (uf_portfolio cf) of [] \<Rightarrow> ''2800.HK'' | s # _ \<Rightarrow> s);
          m = detect_market raw
      in rbind (normalize_symbol raw (Some m)) (\<lambda>symbol. Inr (symbol, market_scope_name m)))"

definition anchor_reason :: string where
  "anchor_reason = ''Configured benchmark symbol retained because dynamic universe selection is disabled.''"

definition anchor_candidate :: "string \<Rightarrow> research_candidate" where
  "anchor_candidate symbol =
     \<lparr>uc_rank = Some 1, uc_symbol = symbol, uc_name = symbol, uc_latest_price = None, uc_change_pct = None,
      uc_amplitude_pct = None, uc_turnover_millions = None, uc_score = None,
      uc_reason_tags = [''static_anchor''], uc_selection_reason = anchor_reason, uc_source = ''static'',
      uc_history_available = None\<rparr>"

definition static_selection_of :: "universe_config \<Rightarrow> datetime \<Rightarrow> string \<Rightarrow> string \<Rightarrow> selection" where
  "static_selection_of cf now symbol scope =
     (let benchmark = mp_benchmark_symbol (get_market_profile scope)
      in \<lparr>us_mode = un_mode (uf_universe cf), us_market_scope = scope, us_selected_symbol = symbol,
          us_source = ''static'', us_generated_at = now,
          us_selection_reason = ''Static universe mode keeps the configured benchmark symbol as the research anchor.'',
          us_top_factors = [''static_anchor''], us_candidate_count = 1, us_top_n_limit = 1,
          us_min_turnover_millions = None,
          us_account_capital_hkd = of_int (pf_default_capital (uf_portfolio cf)),
          us_max_lot_cost_ratio = un_max_lot_cost_ratio (uf_universe cf), us_benchmark_symbol = benchmark,
          us_benchmark_gap = (if symbol = benchmark then Some 0 else None),
          us_benchmark_candidate = Some (anchor_candidate symbol), us_candidates = [anchor_candidate symbol],
          us_research_symbols = None, us_error = None\<rparr>)"

definition static_universe_selection :: "universe_config \<Rightarrow> datetime \<Rightarrow> selection res" where
  "static_universe_selection cf now =
     rbind (static_event_scope cf) (\<lambda>(symbol, scope). Inr (static_selection_of cf now symbol scope))"

section \<open>Serving the stored selection\<close>

definition batch_size :: "universe_config \<Rightarrow> nat" where
  "batch_size cf = nat (max 1 (un_research_batch_size (uf_universe cf)))"

definition research_symbols_of :: "universe_config \<Rightarrow> research_candidate list \<Rightarrow> string list" where
  "research_symbols_of cf cs = filter (\<lambda>s. py_strip s \<noteq> []) (map uc_symbol (take (batch_size cf) cs))"

definition candidate_of :: "string \<Rightarrow> research_candidate list \<Rightarrow> research_candidate option" where
  "candidate_of symbol cs = find (\<lambda>c. uc_symbol c = symbol) cs"

definition selected_candidate :: "selection \<Rightarrow> research_candidate option" where
  "selected_candidate s =
     (case candidate_of (us_selected_symbol s) (us_candidates s) of
        Some c \<Rightarrow> Some c
      | None \<Rightarrow> (case us_candidates s of [] \<Rightarrow> None | c # _ \<Rightarrow> Some c))"

definition score_gap :: "research_candidate option \<Rightarrow> research_candidate option \<Rightarrow> real option" where
  "score_gap selected benchmark =
     (case (Option.bind selected uc_score, Option.bind benchmark uc_score) of
        (Some a, Some b) \<Rightarrow> Some (py_round (a - b) 2) | _ \<Rightarrow> None)"

definition served :: "universe_config \<Rightarrow> selection \<Rightarrow> selection" where
  "served cf s =
     s\<lparr>us_research_symbols := (case us_research_symbols s of
           Some xs \<Rightarrow> Some xs | None \<Rightarrow> Some (research_symbols_of cf (us_candidates s))),
       us_benchmark_gap := (case us_benchmark_gap s of
           Some g \<Rightarrow> Some g
         | None \<Rightarrow> score_gap (selected_candidate s)
             (candidate_of (mp_benchmark_symbol (get_market_profile ''HK'')) (us_candidates s)))\<rparr>"

definition serviceable :: "selection \<Rightarrow> bool" where
  "serviceable s \<longleftrightarrow>
     us_selected_symbol s \<noteq> [] \<and> us_selection_reason s \<noteq> [] \<and> us_top_factors s \<noteq> []
     \<and> (case selected_candidate s of None \<Rightarrow> False
        | Some c \<Rightarrow> uc_selection_reason c \<noteq> [] \<and> uc_rank c \<noteq> None)"

section \<open>A refresh\<close>

definition dynamic_selection :: "universe_config \<Rightarrow> datetime \<Rightarrow> research_candidate \<Rightarrow> research_candidate list \<Rightarrow> selection" where
  "dynamic_selection cf now c cs =
     (let benchmark = mp_benchmark_symbol (get_market_profile ''HK''); bc = candidate_of benchmark (c # cs)
      in \<lparr>us_mode = un_mode (uf_universe cf), us_market_scope = ''HK'', us_selected_symbol = uc_symbol c,
          us_source = (if uc_source c = [] then ''dynamic_hk'' else uc_source c), us_generated_at = now,
          us_selection_reason = (if uc_selection_reason c = []
             then ''Selected as the strongest current HK candidate.'' else uc_selection_reason c),
          us_top_factors = take 4 (uc_reason_tags c), us_candidate_count = length (c # cs),
          us_top_n_limit = un_top_n (uf_universe cf),
          us_min_turnover_millions = Some (un_min_turnover_millions (uf_universe cf)),
          us_account_capital_hkd = of_int (pf_default_capital (uf_portfolio cf)),
          us_max_lot_cost_ratio = un_max_lot_cost_ratio (uf_universe cf), us_benchmark_symbol = benchmark,
          us_benchmark_gap = score_gap (Some c) bc, us_benchmark_candidate = bc, us_candidates = c # cs,
          us_research_symbols = Some (research_symbols_of cf (c # cs)), us_error = None\<rparr>)"

definition fallback_selection :: "selection \<Rightarrow> datetime \<Rightarrow> py_error option \<Rightarrow> selection" where
  "fallback_selection st now err =
     st\<lparr>us_source := ''dynamic_fallback_static'', us_generated_at := now, us_error := err\<rparr>"

definition selection_audit :: "string \<Rightarrow> datetime \<Rightarrow> string option \<Rightarrow> selection \<Rightarrow> audit" where
  "selection_audit kind now previous s =
     \<lparr>au_event_type = kind, au_entity_type = ''universe_selection'', au_entity_id = ''hk_dynamic'',
      au_payload = [''selected_symbol'' \<mapsto> us_selected_symbol s, ''source'' \<mapsto> ''akshare'',
          ''selection_reason'' \<mapsto> us_selection_reason s]
        ++ (case previous of None \<Rightarrow> Map.empty | Some p \<Rightarrow> [''previous_symbol'' \<mapsto> p]),
      au_created_at = now\<rparr>"

definition selection_audits :: "datetime \<Rightarrow> string option \<Rightarrow> selection \<Rightarrow> audit list" where
  "selection_audits now previous s =
     selection_audit ''universe_selection_evaluated'' now previous s
     # (if previous \<noteq> Some (us_selected_symbol s)
        then [selection_audit ''universe_selection_changed'' now previous s] else [])"

definition previous_symbol :: "selection option \<Rightarrow> string option" where
  "previous_symbol stored =
     (case stored of None \<Rightarrow> None | Some s \<Rightarrow> if us_selected_symbol s = [] then None else Some (us_selected_symbol s))"

type_synonym universe_state = "selection option \<times> audit list"

text \<open>The result is the selection that is returned; the fallback asks for the static selection first,
  which may raise.\<close>

definition refresh_universe ::
  "universe_config \<Rightarrow> datetime \<Rightarrow> research_candidate list res \<Rightarrow> universe_state \<Rightarrow> (selection \<times> universe_state) res" where
  "refresh_universe cf now outcome st =
     (case outcome of
        Inr (c # cs) \<Rightarrow>
          (let s = dynamic_selection cf now c cs
           in Inr (s, Some s, snd st @ selection_audits now (previous_symbol (fst st)) s))
      | _ \<Rightarrow>
          rbind (static_universe_selection cf now) (\<lambda>fixed.
            let s = fallback_selection fixed now (case outcome of Inl e \<Rightarrow> Some e | Inr _ \<Rightarrow> None)
            in Inr (s, Some s, snd st)))"

definition get_universe_selection ::
  "universe_config \<Rightarrow> bool \<Rightarrow> datetime \<Rightarrow> research_candidate list res \<Rightarrow> universe_state \<Rightarrow> (selection \<times> universe_state) res" where
  "get_universe_selection cf refresh now outcome st =
     (if un_mode (uf_universe cf) \<noteq> ''dynamic_hk'' then
        rbind (static_universe_selection cf now) (\<lambda>s.
          Inr (s\<lparr>us_research_symbols := Some [us_selected_symbol s]\<rparr>, st))
      else
        (case fst st of
           Some s \<Rightarrow> if \<not> refresh \<and> serviceable s then Inr (served cf s, st)
                      else refresh_universe cf now outcome st
         | None \<Rightarrow> refresh_universe cf now outcome st))"

text \<open>The call of the candidates' request from the settings, and the entries of the payload.\<close>

definition universe_env_of :: "universe_config \<Rightarrow> datetime \<Rightarrow> (string \<Rightarrow> history) \<Rightarrow> universe_env" where
  "universe_env_of cf now hist =
     \<lparr>ue_limits = \<lparr>ul_min_turnover = un_min_turnover_millions (uf_universe cf),
        ul_capital = of_int (pf_default_capital (uf_portfolio cf)),
        ul_max_lot_cost_ratio = un_max_lot_cost_ratio (uf_universe cf)\<rparr>,
      ue_top_n = max 1 (un_top_n (uf_universe cf)), ue_batch = un_research_batch_size (uf_universe cf),
      ue_now = now, ue_history = hist\<rparr>"

definition payload_candidate :: "(reason_tag \<Rightarrow> string) \<Rightarrow> candidate \<Rightarrow> research_candidate" where
  "payload_candidate tag c =
     \<lparr>uc_rank = cd_rank c, uc_symbol = cd_symbol c, uc_name = cd_name c, uc_latest_price = Some (cd_latest_price c),
      uc_change_pct = Some (cd_change_pct c), uc_amplitude_pct = cd_amplitude_pct c,
      uc_turnover_millions = Some (cd_turnover_millions c), uc_score = Some (cd_score c),
      uc_reason_tags = map tag (cd_reason_tags c), uc_selection_reason = cd_selection_reason c,
      uc_source = cd_source c, uc_history_available = cd_history_available c\<rparr>"

definition refreshed_universe ::
  "universe_config \<Rightarrow> (reason_tag \<Rightarrow> string) \<Rightarrow> datetime \<Rightarrow> (string \<Rightarrow> history) \<Rightarrow> universe_sources
     \<Rightarrow> failure_memory \<Rightarrow> universe_state \<Rightarrow> (selection \<times> universe_state) res \<times> failure_memory" where
  "refreshed_universe cf tag now hist src mem st =
     (case fetch_hk_universe_candidates (universe_env_of cf now hist) src mem of
        Inl e \<Rightarrow> (get_universe_selection cf True now (Inl e) st, mem)
      | Inr (cs, mem') \<Rightarrow> (get_universe_selection cf True now (Inr (map (payload_candidate tag) cs)) st, mem'))"

section \<open>Scope and snapshot\<close>

definition event_scope :: "universe_config \<Rightarrow> selection \<Rightarrow> (string \<times> string) res" where
  "event_scope cf s =
     rbind (if us_selected_symbol s = [] then map_sum id fst (static_event_scope cf) else Inr (us_selected_symbol s)) (\<lambda>symbol.
       Inr (symbol, if us_market_scope s = [] then ''HK'' else us_market_scope s))"

record research_snapshot =
  rs_symbol :: string
  rs_hash :: string
  rs_selection :: selection

definition snapshot_for_symbol ::
  "(string list \<Rightarrow> string) \<Rightarrow> research_snapshot \<Rightarrow> string \<Rightarrow> research_candidate option \<Rightarrow> research_snapshot" where
  "snapshot_for_symbol hash base symbol c =
     base\<lparr>rs_symbol := symbol, rs_hash := hash [rs_hash base, symbol],
       rs_selection := (case c of
           None \<Rightarrow> (rs_selection base)\<lparr>us_selected_symbol := symbol\<rparr>
         | Some k \<Rightarrow> (rs_selection base)\<lparr>us_selected_symbol := symbol,
             us_selection_reason := (if uc_selection_reason k = [] then us_selection_reason (rs_selection base)
                else uc_selection_reason k),
             us_top_factors := take 4 (uc_reason_tags k)\<rparr>)\<rparr>"

section \<open>What a selection promises\<close>

definition payload_tradable :: "universe_config \<Rightarrow> research_candidate \<Rightarrow> bool" where
  "payload_tradable cf c \<longleftrightarrow>
     (case uc_turnover_millions c of None \<Rightarrow> False
      | Some t \<Rightarrow> un_min_turnover_millions (uf_universe cf) \<le> t)"

lemma payload_simps [simp]:
  "uc_symbol (payload_candidate tag c) = cd_symbol c" "uc_rank (payload_candidate tag c) = cd_rank c"
  "uc_turnover_millions (payload_candidate tag c) = Some (cd_turnover_millions c)"
  by (simp_all add: payload_candidate_def)

lemma batch_size_pos: "0 < batch_size cf"
  by (simp add: batch_size_def less_max_iff_disj)

lemma length_research_symbols: "length (research_symbols_of cf cs) \<le> batch_size cf"
  unfolding research_symbols_of_def
  by (rule order_trans [OF length_filter_le]) simp

lemma universe_env_simps [simp]:
  "ue_top_n (universe_env_of cf now hist) = max 1 (un_top_n (uf_universe cf))"
  "ul_min_turnover (ue_limits (universe_env_of cf now hist)) = un_min_turnover_millions (uf_universe cf)"
  by (simp_all add: universe_env_of_def)

lemma selection_audits_simps:
  "hd (selection_audits now p s) = selection_audit ''universe_selection_evaluated'' now p s"
  "length (selection_audits now p s) = (if p \<noteq> Some (us_selected_symbol s) then 2 else 1)"
  by (simp_all add: selection_audits_def)

text \<open>A refresh that finds candidates selects the first of them and stores what it returns: at most as
  many candidates as configured, ranked from one, each with the required turnover; at most one
  batch of research symbols; and one audit row, or two when the selected symbol is not the one
  stored before.\<close>

theorem universe_refresh_contract:
  assumes "un_mode (uf_universe cf) = ''dynamic_hk''"
    and "fetch_hk_universe_candidates (universe_env_of cf now hist) src mem = Inr (c # cs, mem')"
  shows "\<exists>s. refreshed_universe cf tag now hist src mem st
        = (Inr (s, Some s, snd st @ selection_audits now (previous_symbol (fst st)) s), mem')
    \<and> us_selected_symbol s = cd_symbol c \<and> us_market_scope s = ''HK''
    \<and> list_all (payload_tradable cf) (us_candidates s)
    \<and> map uc_rank (us_candidates s) = map Some [1..<Suc (us_candidate_count s)]
    \<and> int (us_candidate_count s) \<le> max 1 (un_top_n (uf_universe cf))
    \<and> (case us_research_symbols s of None \<Rightarrow> False | Some xs \<Rightarrow> length xs \<le> batch_size cf)
    \<and> length (selection_audits now (previous_symbol (fst st)) s)
        = (if previous_symbol (fst st) = Some (cd_symbol c) then 1 else 2)"
proof -
  let ?cs = "map (payload_candidate tag) (c # cs)"
  let ?s = "dynamic_selection cf now (payload_candidate tag c) (map (payload_candidate tag) cs)"
  have fields: "us_candidates ?s = ?cs" "us_candidate_count ?s = length (c # cs)"
    "us_selected_symbol ?s = cd_symbol c" "us_market_scope ?s = ''HK''"
    "us_research_symbols ?s = Some (research_symbols_of cf ?cs)"
    by (simp_all add: dynamic_selection_def Let_def)
  have all: "list_all (tradable (ue_limits (universe_env_of cf now hist))) (c # cs)"
    and ranks: "map cd_rank (c # cs) = map Some [1..<Suc (length (c # cs))]"
    and len: "int (length (c # cs)) \<le> max 1 (un_top_n (uf_universe cf))"
    using universe_candidates_contract [OF assms(2)] by (simp_all only: universe_env_simps max.left_idem)
  have "refreshed_universe cf tag now hist src mem st
      = (Inr (?s, Some ?s, snd st @ selection_audits now (previous_symbol (fst st)) ?s), mem')"
    using assms
    by (cases "fst st") (simp_all add: refreshed_universe_def get_universe_selection_def refresh_universe_def Let_def)
  moreover have "list_all (payload_tradable cf) (us_candidates ?s)"
    unfolding fields using all by (simp add: payload_tradable_def tradable_def list_all_iff)
  moreover have "map uc_rank (us_candidates ?s) = map Some [1..<Suc (us_candidate_count ?s)]"
    unfolding fields ranks [symmetric] by simp
  ultimately show ?thesis
    using len length_research_symbols [of cf ?cs]
    by (intro exI [of _ ?s]) (simp add: fields selection_audits_simps eq_commute)
qed

section \<open>A refresh that fails\<close>

definition no_candidates :: "research_candidate list res \<Rightarrow> bool" where
  "no_candidates outcome = (case outcome of Inr (c # cs) \<Rightarrow> False | _ \<Rightarrow> True)"

lemma refresh_without_candidates:
  assumes "no_candidates outcome" "static_event_scope cf = Inr (symbol, scope)"
  shows "refresh_universe cf now outcome st =
    (let s = fallback_selection (static_selection_of cf now symbol scope) now
                (case outcome of Inl e \<Rightarrow> Some e | Inr _ \<Rightarrow> None)
     in Inr (s, Some s, snd st))"
  using assms
  by (cases outcome)
     (auto simp: no_candidates_def refresh_universe_def static_universe_selection_def Let_def split: list.splits)

lemma fallback_serviceable:
  assumes "symbol \<noteq> []"
  shows "serviceable (fallback_selection (static_selection_of cf now symbol scope) now err)"
  using assms
  by (simp add: serviceable_def fallback_selection_def static_selection_of_def selected_candidate_def
      candidate_of_def anchor_candidate_def anchor_reason_def Let_def)

lemma fallback_fields:
  "us_selected_symbol (fallback_selection (static_selection_of cf now symbol scope) now err) = symbol"
  "us_candidates (fallback_selection (static_selection_of cf now symbol scope) now err) = [anchor_candidate symbol]"
  "us_research_symbols (fallback_selection (static_selection_of cf now symbol scope) now err) = None"
  "us_research_symbols (served cf s) = Some (case us_research_symbols s of Some xs \<Rightarrow> xs
     | None \<Rightarrow> research_symbols_of cf (us_candidates s))"
  "us_selected_symbol (served cf s) = us_selected_symbol s"
  by (simp_all add: fallback_selection_def static_selection_of_def served_def Let_def split: option.split)

text \<open>A refresh without candidates replaces the stored selection by the configured anchor, without an
  audit row and, in what it returns, without research symbols.  From then on every read is served
  from it, whatever a request would give, until a refresh succeeds; and when that one selects the
  symbol that had been selected before the failure, a change is recorded all the same.\<close>

theorem failed_refresh_is_sticky:
  assumes "un_mode (uf_universe cf) = ''dynamic_hk''"
    and "static_event_scope cf = Inr (symbol, scope)" "py_strip symbol \<noteq> []" "no_candidates outcome"
    and "uc_symbol c \<noteq> symbol"
  shows "\<exists>s. get_universe_selection cf True now outcome st = Inr (s, Some s, snd st)
    \<and> us_selected_symbol s = symbol \<and> us_research_symbols s = None
    \<and> get_universe_selection cf False later any_outcome (Some s, snd st) = Inr (served cf s, Some s, snd st)
    \<and> us_research_symbols (served cf s) = Some [symbol]
    \<and> map au_event_type (snd (snd (the (case get_universe_selection cf True later (Inr (c # cs)) (Some s, [])
          of Inr r \<Rightarrow> Some r | Inl _ \<Rightarrow> None))))
        = [''universe_selection_evaluated'', ''universe_selection_changed'']"
proof -
  let ?s = "fallback_selection (static_selection_of cf now symbol scope) now (case outcome of Inl e \<Rightarrow> Some e | Inr _ \<Rightarrow> None)"
  have symbol: "symbol \<noteq> []" using assms(3) by (auto simp: py_strip_def)
  have first: "get_universe_selection cf True now outcome st = Inr (?s, Some ?s, snd st)"
    using refresh_without_candidates [OF assms(4,2), of now st] assms(1)
    by (cases "fst st") (simp_all add: get_universe_selection_def Let_def)
  have read: "get_universe_selection cf False later any_outcome (Some ?s, snd st) = Inr (served cf ?s, Some ?s, snd st)"
    using fallback_serviceable [OF symbol] assms(1) by (simp add: get_universe_selection_def)
  have "us_research_symbols (served cf ?s) = Some [symbol]"
    using assms(3) batch_size_pos [of cf]
    by (simp add: fallback_fields research_symbols_of_def anchor_candidate_def take_Cons')
  moreover have "previous_symbol (Some ?s) = Some symbol"
    using symbol by (simp add: previous_symbol_def fallback_fields)
  then have "map au_event_type (snd (snd (the (case get_universe_selection cf True later (Inr (c # cs)) (Some ?s, [])
          of Inr r \<Rightarrow> Some r | Inl _ \<Rightarrow> None))))
      = [''universe_selection_evaluated'', ''universe_selection_changed'']"
    using assms(1,5)
    by (simp add: get_universe_selection_def refresh_universe_def Let_def selection_audits_def selection_audit_def
        dynamic_selection_def)
  ultimately show ?thesis using first read by (intro exI [of _ ?s]) (simp add: fallback_fields)
qed

text \<open>A configuration and a candidate.\<close>

definition config_default :: universe_config where
  "config_default = \<lparr>uf_universe = universe_default, uf_portfolio = portfolio_default\<rparr>"

lemma default_scope: "static_event_scope config_default = Inr (''2800.HK'', ''HK'')"
  by code_simp

theorem failed_refresh_is_sticky_witness:
  "\<exists>s. get_universe_selection config_default True 1 (Inl RuntimeError) (None, []) = Inr (s, Some s, [])
    \<and> us_selected_symbol s = ''2800.HK''
    \<and> get_universe_selection config_default False 2 (Inr [anchor_candidate ''0700.HK'']) (Some s, [])
        = Inr (served config_default s, Some s, [])"
proof -
  have "un_mode (uf_universe config_default) = ''dynamic_hk''" "py_strip ''2800.HK'' \<noteq> []" by code_simp+
  moreover have "uc_symbol (anchor_candidate ''0700.HK'') \<noteq> ''2800.HK''" by (simp add: anchor_candidate_def)
  ultimately show ?thesis
    using failed_refresh_is_sticky [of config_default "''2800.HK''" "''HK''" "Inl RuntimeError"
        "anchor_candidate ''0700.HK''" 1 "(None, [])" 2 "Inr [anchor_candidate ''0700.HK'']"] default_scope
    by (fastforce simp: no_candidates_def)
qed

theorem universe_refresh_contract_witness:
  "\<exists>s st mem. refreshed_universe (config_default\<lparr>uf_portfolio := portfolio_default\<lparr>pf_default_capital := 200000\<rparr>\<rparr>)
        (\<lambda>_. []) 100000 (\<lambda>_. No_history) sample_sources [] (None, []) = (Inr (s, st), mem)
    \<and> us_selected_symbol s = ''0700.HK'' \<and> length (snd st) = 2"
proof -
  let ?cf = "config_default\<lparr>uf_portfolio := portfolio_default\<lparr>pf_default_capital := 200000\<rparr>\<rparr>"
  have env: "universe_env_of ?cf 100000 (\<lambda>_. No_history) = sample_universe"
    by (simp add: universe_env_of_def sample_universe_def config_default_def universe_default_def portfolio_default_def)
  have mode: "un_mode (uf_universe ?cf) = ''dynamic_hk''"
    by (simp add: config_default_def universe_default_def)
  obtain c mem where fetch: "fetch_hk_universe_candidates (universe_env_of ?cf 100000 (\<lambda>_. No_history)) sample_sources []
      = Inr ([c], mem)" "cd_symbol c = ''0700.HK''"
    using sample_selection unfolding env by blast
  have "length (selection_audits 100000 (previous_symbol None) s) = (if previous_symbol None = Some (cd_symbol c) then 1 else 2)
      \<Longrightarrow> length (selection_audits 100000 (previous_symbol None) s) = 2" for s
    by (simp add: previous_symbol_def)
  then show ?thesis
    using universe_refresh_contract [OF mode fetch(1), of "\<lambda>_. []" "(None, [])"] fetch(2) by fastforce
qed

end
