(* ===== verification/Research_Priority.thy ===== *)
theory Research_Priority imports Universe_Selection Quality_Track begin

text \<open>
  The order in which \<open>api/services.py\<close> takes up the candidates of the universe: what recent
  proposals say of a symbol, the short backtests of a mean-reversion strategy, and the sort by
  both.  The outcome of a backtest is a parameter (\<open>Vector_Backtest\<close> models the engine); its
  review is that of \<open>Review_Gate\<close>.
\<close>

section \<open>What recent proposals say\<close>

text \<open>\<open>model_dump\<close> of a backtest result: its numeric fields by name.\<close>

definition result_dump :: "backtest_result \<Rightarrow> string \<rightharpoonup> real" where
  "result_dump r =
     [''cagr'' \<mapsto> cagr r, ''max_drawdown'' \<mapsto> max_drawdown r, ''sharpe'' \<mapsto> sharpe r,
      ''annual_turnover'' \<mapsto> annual_turnover r, ''data_years'' \<mapsto> data_years r]
     ++ (case param_sensitivity r of None \<Rightarrow> Map.empty | Some x \<Rightarrow> [''param_sensitivity'' \<mapsto> x])"

definition gate_metrics :: "backtest_gate \<Rightarrow> string \<rightharpoonup> real" where
  "gate_metrics g = (case bg_metrics g of None \<Rightarrow> Map.empty | Some r \<Rightarrow> result_dump r)"

definition utility_adjustment :: "real \<Rightarrow> real" where
  "utility_adjustment u =
     max (- 12) (min 6 (u * 2.5))
     + (if u \<le> - 4 then - 4 else if u \<le> - 2 then - 2 else if u \<ge> 2 then 1.5 else 0)"

definition candidate_evidence_adjustment :: "string list \<Rightarrow> proposal \<Rightarrow> real" where
  "candidate_evidence_adjustment preferred p =
     (let q = pr_quality p; g = qr_backtest_gate q; k = qr_knowledge q; families = nonblank (ka_families k)
      in if preferred \<noteq> [] \<and> set families \<inter> set preferred = {} then - 1.5
         else (case gate_metrics g ''utility_score'' of None \<Rightarrow> 0 | Some u \<Rightarrow> utility_adjustment u)
            + (if bg_hard_gates_failed g \<noteq> [] then - 4 else 0)
            + (if ka_fit k = Mismatch then - 3 else if ka_fit k = Fragile then - 1.5 else 0))"

section \<open>The short backtests\<close>

record trial =
  tl_z_window :: int
  tl_entry_threshold :: real
  tl_exit_threshold :: real
  tl_use_short :: bool

definition trial_params :: "trial list" where
  "trial_params =
     [\<lparr>tl_z_window = 24, tl_entry_threshold = 1.5, tl_exit_threshold = 0.3, tl_use_short = False\<rparr>,
      \<lparr>tl_z_window = 24, tl_entry_threshold = 1.7, tl_exit_threshold = 0.4, tl_use_short = False\<rparr>,
      \<lparr>tl_z_window = 28, tl_entry_threshold = 1.6, tl_exit_threshold = 0.4, tl_use_short = False\<rparr>,
      \<lparr>tl_z_window = 36, tl_entry_threshold = 1.7, tl_exit_threshold = 0.3, tl_use_short = False\<rparr>]"

text \<open>The failed gates of the result that stands for no trial at all are the text
  \<open>prescreen_no_result\<close>, written as nothing.\<close>

record prescreen =
  pn_utility_score :: real
  pn_score :: real
  pn_verdict :: verdict
  pn_requires_human_approve :: bool
  pn_hard_gates_failed :: "hard_fail option list"
  pn_params :: "trial option"
  pn_metrics :: "(string \<times> real) list"

definition review_utility :: "review_output \<Rightarrow> real" where
  "review_utility rv = (case ro_utility_score rv of None \<Rightarrow> 0 | Some u \<Rightarrow> u)"

definition trial_score :: "review_output \<Rightarrow> real" where
  "trial_score rv =
     review_utility rv + (if ro_hard_gates_failed rv \<noteq> [] then - 6 else 0)
     + (if ro_verdict rv = REVISE then - 1 else 0) + (if ro_requires_human_approve rv then - 0.5 else 0)"

definition prescreen_of :: "trial \<Rightarrow> backtest_result \<Rightarrow> review_output \<Rightarrow> prescreen" where
  "prescreen_of t r rv =
     \<lparr>pn_utility_score = review_utility rv, pn_score = py_round (trial_score rv) 2, pn_verdict = ro_verdict rv,
      pn_requires_human_approve = ro_requires_human_approve rv,
      pn_hard_gates_failed = map Some (ro_hard_gates_failed rv), pn_params = Some t,
      pn_metrics = [(''cagr'', py_round (cagr r) 4), (''sharpe'', py_round (sharpe r) 4),
        (''max_drawdown'', py_round (max_drawdown r) 4), (''annual_turnover'', py_round (annual_turnover r) 4),
        (''data_years'', py_round (data_years r) 2)]\<rparr>"

definition no_prescreen :: prescreen where
  "no_prescreen = \<lparr>pn_utility_score = - 999, pn_score = - 999, pn_verdict = NO_GO,
     pn_requires_human_approve = False, pn_hard_gates_failed = [None], pn_params = None, pn_metrics = []\<rparr>"

text \<open>The loop over the trials keeps the first of the best; no score has been seen at the start.\<close>

fun best_trial ::
  "(trial \<Rightarrow> (backtest_result \<times> review_output) res) \<Rightarrow> trial list \<Rightarrow> (real \<times> prescreen) option
     \<Rightarrow> (real \<times> prescreen) option res" where
  "best_trial run [] best = Inr best"
| "best_trial run (t # ts) best =
     rbind (run t) (\<lambda>(r, rv).
       best_trial run ts
         (if (case best of None \<Rightarrow> True | Some (s, _) \<Rightarrow> s < trial_score rv)
          then Some (trial_score rv, prescreen_of t r rv) else best))"

record review_settings =
  rw_hard :: hard_gates_settings
  rw_yellow :: yellow_flags_settings

definition reviewed_run ::
  "review_settings \<Rightarrow> (trial \<Rightarrow> backtest_result res) \<Rightarrow> trial \<Rightarrow> (backtest_result \<times> review_output) res" where
  "reviewed_run rw run t = rbind (run t) (\<lambda>r. Inr (r, risk_gate_review (rw_hard rw) (rw_yellow rw) r))"

definition light_mean_reversion_prescreen ::
  "review_settings \<Rightarrow> (trial \<Rightarrow> backtest_result res) \<Rightarrow> prescreen res" where
  "light_mean_reversion_prescreen rw run =
     rbind (best_trial (reviewed_run rw run) trial_params None) (\<lambda>best.
       Inr (case best of None \<Rightarrow> no_prescreen | Some (_, p) \<Rightarrow> p))"

definition prescreen_guided_params ::
  "review_settings \<Rightarrow> (trial \<Rightarrow> backtest_result res) \<Rightarrow> trial option" where
  "prescreen_guided_params rw run =
     (case light_mean_reversion_prescreen rw run of
        Inl _ \<Rightarrow> None
      | Inr p \<Rightarrow>
          (case pn_params p of
             None \<Rightarrow> None
           | Some t \<Rightarrow> if (if pn_utility_score p = 0 then - 999 else pn_utility_score p) < 0 then None else Some t))"

section \<open>Candidates with their adjustments\<close>

record prioritized =
  pc_candidate :: research_candidate
  pc_prescreen :: "prescreen res option"
  pc_prescreen_adjustment :: "real option"
  pc_evidence_adjustment :: "real option"
  pc_priority_score :: "real option"
  pc_research_rank :: "nat option"

definition plain_candidate :: "research_candidate \<Rightarrow> prioritized" where
  "plain_candidate c = \<lparr>pc_candidate = c, pc_prescreen = None, pc_prescreen_adjustment = None,
     pc_evidence_adjustment = None, pc_priority_score = None, pc_research_rank = None\<rparr>"

definition prescreen_adjustment :: "prescreen res \<Rightarrow> real" where
  "prescreen_adjustment p =
     (case p of Inl _ \<Rightarrow> - 1 | Inr s \<Rightarrow> py_round (max (- 10) (min 6 (pn_score s * 1.5))) 2)"

definition prescreened :: "(string \<Rightarrow> prescreen res) \<Rightarrow> research_candidate \<Rightarrow> prioritized" where
  "prescreened screen c =
     (let symbol = py_strip (uc_symbol c)
      in if uc_history_available c = Some False \<or> symbol = [] then plain_candidate c
         else (plain_candidate c)\<lparr>pc_prescreen := Some (screen symbol),
                pc_prescreen_adjustment := Some (prescreen_adjustment (screen symbol))\<rparr>)"

definition preferred_now :: "snapshot \<Rightarrow> string list" where
  "preferred_now s =
     fst (effective_knowledge_preferences (sn_market_profile s) (current_market_conditions s))"

definition apply_light_prescreen ::
  "nat \<Rightarrow> (string \<Rightarrow> prescreen res) \<Rightarrow> snapshot \<Rightarrow> research_candidate list \<Rightarrow> prioritized list" where
  "apply_light_prescreen batch screen s cs =
     (let count = max (batch * 2) 4
      in if \<not> is_strong_ranging_context (current_market_conditions s)
           \<or> ''mean_reversion'' \<notin> set (preferred_now s)
         then map plain_candidate cs
         else map (prescreened screen) (take count cs) @ map plain_candidate (drop count cs))"

section \<open>The order\<close>

definition recent_for_symbols :: "datetime \<Rightarrow> string list \<Rightarrow> pool \<Rightarrow> proposal list" where
  "recent_for_symbols now symbols pool =
     sort_desc pr_created_at
       (filter (\<lambda>p. pr_symbol p \<in> set symbols \<and> pr_source_kind p = ''minimax''
          \<and> pr_created_at p \<ge> plus_days now (- 7)) pool)"

definition evidence_adjustment :: "string list \<Rightarrow> proposal list \<Rightarrow> real" where
  "evidence_adjustment preferred ps =
     (let adjustments = map (candidate_evidence_adjustment preferred) (take 6 ps)
      in if adjustments = [] then 0
         else py_round (mean adjustments) 2
            + (if length adjustments \<ge> 2 \<and> Max (set adjustments) < 0 then - 2 else 0))"

definition with_priority :: "string list \<Rightarrow> proposal list \<Rightarrow> prioritized \<Rightarrow> prioritized" where
  "with_priority preferred recent c =
     (let symbol = py_strip (uc_symbol (pc_candidate c));
          evidence = (if symbol = [] then 0
             else evidence_adjustment preferred (filter (\<lambda>p. pr_symbol p = symbol) recent))
      in c\<lparr>pc_evidence_adjustment := Some (py_round evidence 2),
           pc_priority_score := Some (py_round (or_zero (uc_score (pc_candidate c)) + evidence
              + or_zero (pc_prescreen_adjustment c)) 2)\<rparr>)"

definition priority_key :: "prioritized \<Rightarrow> real \<times> real \<times> real" where
  "priority_key c = (or_zero (pc_priority_score c), or_zero (uc_score (pc_candidate c)),
     or_zero (uc_turnover_millions (pc_candidate c)))"

definition number_research_ranks :: "prioritized list \<Rightarrow> prioritized list" where
  "number_research_ranks cs = map (\<lambda>(i, c). c\<lparr>pc_research_rank := Some i\<rparr>) (enumerate 1 cs)"

definition reprioritize_research_candidates ::
  "nat \<Rightarrow> (string \<Rightarrow> prescreen res) \<Rightarrow> snapshot \<Rightarrow> datetime \<Rightarrow> pool \<Rightarrow> research_candidate list \<Rightarrow> prioritized list" where
  "reprioritize_research_candidates batch screen s now pool cs =
     (let symbols = filter (\<lambda>x. py_strip x \<noteq> []) (map uc_symbol cs)
      in if symbols = [] then map plain_candidate cs
         else number_research_ranks (sort_desc priority_key
           (map (with_priority (preferred_now s) (recent_for_symbols now symbols pool))
              (apply_light_prescreen batch screen s cs))))"

text \<open>The symbols a sync researches.\<close>

definition batch_symbols :: "nat \<Rightarrow> string \<Rightarrow> prioritized list \<Rightarrow> string list" where
  "batch_symbols batch anchor cs =
     (let symbols = filter (\<lambda>x. py_strip x \<noteq> []) (map (uc_symbol \<circ> pc_candidate) (take batch cs))
      in if symbols = [] then [anchor] else symbols)"

section \<open>Evidence only lowers\<close>

lemma no_utility_in_metrics [simp]: "gate_metrics g ''utility_score'' = None"
  by (simp add: gate_metrics_def result_dump_def split: option.split)

lemma adjustment_cases:
  "candidate_evidence_adjustment preferred p \<in> {0, - 1.5, - 3, - 4, - 5.5, - 7}"
  by (simp add: candidate_evidence_adjustment_def Let_def)

lemma adjustment_range:
  "- 7 \<le> candidate_evidence_adjustment preferred p" "candidate_evidence_adjustment preferred p \<le> 0"
  using adjustment_cases [of preferred p] by auto

lemma mean_range:
  assumes "xs \<noteq> []" "\<And>x. x \<in> set xs \<Longrightarrow> lo \<le> x \<and> x \<le> hi"
  shows "lo \<le> mean xs \<and> mean xs \<le> hi"
proof -
  have "of_nat (length xs) * lo \<le> sum_list xs \<and> sum_list xs \<le> of_nat (length xs) * hi"
    using assms(2)
  proof (induction xs)
    case (Cons x xs)
    then have "of_nat (length xs) * lo \<le> sum_list xs \<and> sum_list xs \<le> of_nat (length xs) * hi" "lo \<le> x \<and> x \<le> hi"
      by simp_all
    then show ?case by (simp add: algebra_simps)
  qed simp
  moreover have "0 < real (length xs)" using assms(1) by simp
  ultimately show ?thesis by (simp add: mean_def field_simps)
qed

lemma evidence_adjustment_range: "- 9 \<le> evidence_adjustment preferred ps \<and> evidence_adjustment preferred ps \<le> 0"
proof (cases "ps = []")
  case False
  let ?xs = "map (candidate_evidence_adjustment preferred) (take 6 ps)"
  have "- 7 \<le> mean ?xs \<and> mean ?xs \<le> 0"
    by (rule mean_range) (use False adjustment_range in auto)
  then have "- 7 \<le> py_round (mean ?xs) 2 \<and> py_round (mean ?xs) 2 \<le> 0"
    using py_round_ge_of_int [of "- 7" "mean ?xs" 2] py_round_le_of_int [of "mean ?xs" 0 2] by simp
  then show ?thesis using False by (simp add: evidence_adjustment_def Let_def)
qed (simp add: evidence_adjustment_def)

text \<open>The utility of a backtest is in its review, not among its metrics, where the adjustment looks for
  it: so a proposal can only lower its symbol, by at most seven points, and recent proposals
  together by at most nine, however good their backtests were.\<close>

theorem evidence_never_raises_a_candidate:
  "gate_metrics g ''utility_score'' = None
   \<and> candidate_evidence_adjustment preferred p \<in> {0, - 1.5, - 3, - 4, - 5.5, - 7}
   \<and> - 9 \<le> evidence_adjustment preferred ps \<and> evidence_adjustment preferred ps \<le> 0"
  using adjustment_cases evidence_adjustment_range by simp

section \<open>The best trial\<close>

lemma best_trial_ok:
  assumes "\<And>t. t \<in> set ts \<Longrightarrow> run t = Inr (f t)"
  shows "\<exists>best'. best_trial run ts best = Inr best'
    \<and> (\<forall>s p. best' = Some (s, p) \<longrightarrow>
        (best = Some (s, p) \<or> (\<exists>t\<in>set ts. p = prescreen_of t (fst (f t)) (snd (f t)) \<and> s = trial_score (snd (f t))))
        \<and> (\<forall>t\<in>set ts. trial_score (snd (f t)) \<le> s)
        \<and> (\<forall>s' p'. best = Some (s', p') \<longrightarrow> s' \<le> s))
    \<and> (best' = None \<longleftrightarrow> ts = [] \<and> best = None)"
  using assms
proof (induction ts arbitrary: best)
  case (Cons t ts)
  obtain r rv where f: "f t = (r, rv)" by force
  let ?next = "if (case best of None \<Rightarrow> True | Some (s, _) \<Rightarrow> s < trial_score rv)
          then Some (trial_score rv, prescreen_of t r rv) else best"
  have step: "best_trial run (t # ts) best = best_trial run ts ?next"
    using Cons.prems [of t] f by simp
  obtain best' where ih: "best_trial run ts ?next = Inr best'"
    "\<And>s p. best' = Some (s, p) \<Longrightarrow>
        (?next = Some (s, p) \<or> (\<exists>t\<in>set ts. p = prescreen_of t (fst (f t)) (snd (f t)) \<and> s = trial_score (snd (f t))))
        \<and> (\<forall>t\<in>set ts. trial_score (snd (f t)) \<le> s)
        \<and> (\<forall>s' p'. ?next = Some (s', p') \<longrightarrow> s' \<le> s)"
    "best' = None \<longleftrightarrow> ts = [] \<and> ?next = None"
    using Cons.IH [of ?next] Cons.prems by auto
  have "best' \<noteq> None" using ih(3) by (auto split: option.splits if_splits)
  moreover have "(best = Some (s, p) \<or> (\<exists>t\<in>set (t # ts). p = prescreen_of t (fst (f t)) (snd (f t)) \<and> s = trial_score (snd (f t))))
      \<and> (\<forall>t\<in>set (t # ts). trial_score (snd (f t)) \<le> s) \<and> (\<forall>s' p'. best = Some (s', p') \<longrightarrow> s' \<le> s)"
    if "best' = Some (s, p)" for s p
    using ih(2) [OF that] f by (cases best) (auto split: if_splits)
  ultimately show ?case unfolding step ih(1) by blast
qed auto

text \<open>When the trials all end, the short backtest is that of the best one, and there always is one; one
  trial that raises loses the others.\<close>

theorem light_prescreen_contract:
  assumes "\<And>t. t \<in> set trial_params \<Longrightarrow> run t = Inr (result t)"
  shows "\<exists>t. t \<in> set trial_params
    \<and> light_mean_reversion_prescreen rw run
        = Inr (prescreen_of t (result t) (risk_gate_review (rw_hard rw) (rw_yellow rw) (result t)))
    \<and> list_all (\<lambda>u. trial_score (risk_gate_review (rw_hard rw) (rw_yellow rw) (result u))
          \<le> trial_score (risk_gate_review (rw_hard rw) (rw_yellow rw) (result t))) trial_params"
proof -
  let ?f = "\<lambda>t. (result t, risk_gate_review (rw_hard rw) (rw_yellow rw) (result t))"
  have run: "reviewed_run rw run t = Inr (?f t)" if "t \<in> set trial_params" for t
    using assms [OF that] by (simp add: reviewed_run_def)
  from best_trial_ok [of trial_params "reviewed_run rw run" ?f None, OF run] obtain best where
    best: "best_trial (reviewed_run rw run) trial_params None = Inr best"
    "\<And>s p. best = Some (s, p) \<Longrightarrow>
        (\<exists>t\<in>set trial_params. p = prescreen_of t (result t) (risk_gate_review (rw_hard rw) (rw_yellow rw) (result t))
          \<and> s = trial_score (risk_gate_review (rw_hard rw) (rw_yellow rw) (result t)))
        \<and> (\<forall>t\<in>set trial_params. trial_score (risk_gate_review (rw_hard rw) (rw_yellow rw) (result t)) \<le> s)"
    and "best \<noteq> None"
    by (auto simp: trial_params_def)
  then obtain s p where sp: "best = Some (s, p)" by auto
  with best(2) [OF sp] best(1) show ?thesis
    by (auto simp: light_mean_reversion_prescreen_def list_all_iff)
qed

text \<open>A trial that fails a hard gate scores minus six, whatever it earned; an admissible one that earns
  less than minus five scores lower and loses to it.  No parameters are taken from a failed trial,
  nor from one whose utility is exactly zero.\<close>

theorem hard_failure_outranks_poor_trial:
  "(hard_fails (rw_hard rw) r \<noteq> [] \<longrightarrow>
      trial_score (risk_gate_review (rw_hard rw) (rw_yellow rw) r) = - 6)
   \<and> (hard_fails (rw_hard rw) r' = [] \<longrightarrow> utility_score r' < - 5 \<longrightarrow>
      trial_score (risk_gate_review (rw_hard rw) (rw_yellow rw) r') < - 6)
   \<and> (light_mean_reversion_prescreen rw run = Inr p \<longrightarrow> pn_utility_score p = 0 \<longrightarrow>
      prescreen_guided_params rw run = None)"
  by (auto simp: risk_gate_review_def Let_def trial_score_def review_utility_def prescreen_guided_params_def
      split: option.split)

section \<open>The order\<close>

lemma plain_candidate_simps [simp]:
  "pc_candidate (plain_candidate c) = c" "pc_prescreen_adjustment (plain_candidate c) = None"
  by (simp_all add: plain_candidate_def)

lemma prescreened_simps [simp]: "pc_candidate (prescreened screen c) = c"
  by (simp add: prescreened_def Let_def)

lemma with_priority_simps [simp]:
  "pc_candidate (with_priority preferred recent c) = pc_candidate c"
  "pc_prescreen_adjustment (with_priority preferred recent c) = pc_prescreen_adjustment c"
  by (simp_all add: with_priority_def Let_def)

lemma map_pc_apply: "map pc_candidate (apply_light_prescreen batch screen s cs) = cs"
  by (simp add: apply_light_prescreen_def Let_def comp_def)

lemma map_enumerate_value: "map (\<lambda>(i, c). f c) (enumerate n xs) = map f xs"
  by (induction xs arbitrary: n) simp_all

lemma map_enumerate_index: "map (\<lambda>(i, c). g i) (enumerate n xs) = map g [n..<n + length xs]"
  by (induction xs arbitrary: n) (simp_all add: upt_rec)

lemma number_ranks_candidate [simp]: "map pc_candidate (number_research_ranks cs) = map pc_candidate cs"
  using map_enumerate_value [of pc_candidate 1 cs] by (simp add: number_research_ranks_def comp_def split_def)

lemma number_ranks_ranks: "map pc_research_rank (number_research_ranks cs) = map Some [1..<Suc (length cs)]"
  using map_enumerate_index [of Some 1 cs] by (simp add: number_research_ranks_def comp_def split_def)

lemma number_ranks_key [simp]: "map priority_key (number_research_ranks cs) = map priority_key cs"
  using map_enumerate_value [of priority_key 1 cs]
  by (simp add: number_research_ranks_def comp_def split_def priority_key_def)

lemma prescreen_adjustment_range: "- 10 \<le> prescreen_adjustment p \<and> prescreen_adjustment p \<le> 6"
proof (cases p)
  case (Inr s)
  let ?x = "max (- 10) (min 6 (pn_score s * 1.5)) :: real"
  have "- 10 \<le> ?x \<and> ?x \<le> 6" by simp
  then show ?thesis
    using py_round_ge_of_int [of "- 10" ?x 2] py_round_le_of_int [of ?x 6 2] Inr
    by (simp add: prescreen_adjustment_def)
qed (simp add: prescreen_adjustment_def)

lemma apply_adjustment_range:
  "c \<in> set (apply_light_prescreen batch screen s cs) \<Longrightarrow>
     - 10 \<le> or_zero (pc_prescreen_adjustment c) \<and> or_zero (pc_prescreen_adjustment c) \<le> 6"
  using prescreen_adjustment_range
  by (auto simp: apply_light_prescreen_def Let_def prescreened_def or_zero_def split: if_splits)

lemma priority_range:
  assumes "- 10 \<le> or_zero (pc_prescreen_adjustment c) \<and> or_zero (pc_prescreen_adjustment c) \<le> 6"
  shows "or_zero (uc_score (pc_candidate c)) - 19.01 \<le> or_zero (pc_priority_score (with_priority preferred recent c))
    \<and> or_zero (pc_priority_score (with_priority preferred recent c)) \<le> or_zero (uc_score (pc_candidate c)) + 6.01"
proof -
  let ?symbol = "py_strip (uc_symbol (pc_candidate c))"
  let ?e = "if ?symbol = [] then 0 else evidence_adjustment preferred (filter (\<lambda>p. pr_symbol p = ?symbol) recent)"
  have "- 9 \<le> ?e \<and> ?e \<le> 0" using evidence_adjustment_range by simp
  then show ?thesis
    using assms py_round_error [of "or_zero (uc_score (pc_candidate c)) + ?e + or_zero (pc_prescreen_adjustment c)"]
    unfolding with_priority_def Let_def or_zero_def [of "Some _"] abs_le_iff
    by (simp add: or_zero_def [of "Some _"])
qed

definition bounded_priority :: "prioritized \<Rightarrow> bool" where
  "bounded_priority c \<longleftrightarrow>
     or_zero (uc_score (pc_candidate c)) - 19.01 \<le> or_zero (pc_priority_score c)
     \<and> or_zero (pc_priority_score c) \<le> or_zero (uc_score (pc_candidate c)) + 6.01"

lemma bounded_priority_numbered: "list_all bounded_priority (number_research_ranks cs) = list_all bounded_priority cs"
proof -
  have "map bounded_priority (number_research_ranks cs) = map bounded_priority cs"
    using map_enumerate_value [of bounded_priority 1 cs]
    by (simp add: number_research_ranks_def comp_def split_def bounded_priority_def)
  then show ?thesis by (metis list_all_length length_map nth_map)
qed

lemma sorted_by_key: "sorted_wrt (\<lambda>x y. y \<le> x) (map priority_key (number_research_ranks (sort_desc priority_key cs)))"
  using sorted_sort_desc [of priority_key cs] by (simp add: sorted_wrt_map)

text \<open>The order loses no candidate and adds none, numbers them from one, and is descending in the priority,
  then the score, then the turnover; the priority is at most six points above the score and nineteen
  below it, up to rounding.\<close>

theorem research_order_contract:
  assumes "\<exists>c\<in>set cs. py_strip (uc_symbol c) \<noteq> []"
  shows "mset (map pc_candidate (reprioritize_research_candidates batch screen s now pool cs)) = mset cs
    \<and> map pc_research_rank (reprioritize_research_candidates batch screen s now pool cs) = map Some [1..<Suc (length cs)]
    \<and> sorted_wrt (\<lambda>x y. y \<le> x) (map priority_key (reprioritize_research_candidates batch screen s now pool cs))
    \<and> list_all bounded_priority (reprioritize_research_candidates batch screen s now pool cs)"
proof -
  let ?symbols = "filter (\<lambda>x. py_strip x \<noteq> []) (map uc_symbol cs)"
  let ?ps = "map (with_priority (preferred_now s) (recent_for_symbols now ?symbols pool)) (apply_light_prescreen batch screen s cs)"
  have some: "?symbols \<noteq> []" using assms by (auto simp: filter_empty_conv)
  have eq: "reprioritize_research_candidates batch screen s now pool cs = number_research_ranks (sort_desc priority_key ?ps)"
    using some unfolding reprioritize_research_candidates_def Let_def by (simp only: if_False)
  have pc: "map pc_candidate ?ps = cs"
    using map_pc_apply [of batch screen s cs] by (simp add: comp_def)
  have "mset (map pc_candidate (sort_desc priority_key ?ps)) = mset (map pc_candidate ?ps)"
    by (simp only: mset_map mset_sort_desc)
  then have same: "mset (map pc_candidate (sort_desc priority_key ?ps)) = mset cs" unfolding pc .
  have len: "length (sort_desc priority_key ?ps) = length cs" using pc by (metis length_map length_sort_desc)
  have "list_all bounded_priority ?ps"
    using priority_range apply_adjustment_range by (auto simp: list_all_iff bounded_priority_def)
  then have "list_all bounded_priority (sort_desc priority_key ?ps)" by (simp only: list_all_iff set_sort_desc)
  then show ?thesis
    unfolding eq bounded_priority_numbered number_ranks_candidate number_ranks_ranks len
    using same sorted_by_key by blast
qed

text \<open>Without recent proposals and outside a strong ranging market the order is that of the score and
  the turnover alone: the ranking of the universe, which puts candidates with a confirmed history
  before the others, is undone.\<close>

lemma no_evidence: "with_priority preferred [] (plain_candidate c)
   = (plain_candidate c)\<lparr>pc_evidence_adjustment := Some 0, pc_priority_score := Some (py_round (or_zero (uc_score c)) 2)\<rparr>"
  by (simp add: with_priority_def Let_def evidence_adjustment_def or_zero_def [of None])

definition score_key :: "research_candidate \<Rightarrow> real \<times> real \<times> real" where
  "score_key c = (py_round (or_zero (uc_score c)) 2, or_zero (uc_score c), or_zero (uc_turnover_millions c))"

lemma insort_key_map: "map f (insort_key (g \<circ> f) x xs) = insort_key g (f x) (map f xs)"
  by (induction xs) simp_all

lemma sort_key_map: "map f (sort_key (g \<circ> f) xs) = sort_key g (map f xs)"
  by (induction xs) (simp_all add: insort_key_map del: comp_apply)

lemma sort_desc_map: "map f (sort_desc (g \<circ> f) xs) = sort_desc g (map f xs)"
  unfolding sort_desc_def rev_map [symmetric] sort_key_map by (simp add: rev_map)

lemma insort_key_agree: "f x = g x \<Longrightarrow> (\<And>y. y \<in> set xs \<Longrightarrow> f y = g y) \<Longrightarrow> insort_key f x xs = insort_key g x xs"
  by (induction xs) simp_all

lemma sort_key_agree: "(\<And>x. x \<in> set xs \<Longrightarrow> f x = g x) \<Longrightarrow> sort_key f xs = sort_key g xs"
proof (induction xs)
  case (Cons x xs)
  have "insort_key f x (sort_key g xs) = insort_key g x (sort_key g xs)"
    by (rule insort_key_agree) (use Cons.prems in auto)
  then show ?case using Cons by simp
qed simp

lemma sort_desc_cong: "(\<And>x. x \<in> set xs \<Longrightarrow> f x = g x) \<Longrightarrow> sort_desc f xs = sort_desc g xs"
  using sort_key_agree [of "rev xs" f g] by (simp add: sort_desc_def)

theorem research_order_without_evidence:
  assumes "\<exists>c\<in>set cs. py_strip (uc_symbol c) \<noteq> []"
    and "\<not> is_strong_ranging_context (current_market_conditions s)"
    and "\<not> (\<exists>p\<in>set pool. pr_source_kind p = ''minimax'' \<and> plus_days now (- 7) \<le> pr_created_at p)"
  shows "map pc_candidate (reprioritize_research_candidates batch screen s now pool cs) = sort_desc score_key cs"
proof -
  let ?f = "\<lambda>c. (plain_candidate c)\<lparr>pc_evidence_adjustment := Some 0, pc_priority_score := Some (py_round (or_zero (uc_score c)) 2)\<rparr>"
  have some: "filter (\<lambda>x. py_strip x \<noteq> []) (map uc_symbol cs) \<noteq> []" using assms(1) by (auto simp: filter_empty_conv)
  have none: "recent_for_symbols now symbols pool = []" for symbols
    using assms(3) by (auto simp: recent_for_symbols_def filter_empty_conv sort_desc_def)
  have "reprioritize_research_candidates batch screen s now pool cs = number_research_ranks (sort_desc priority_key (map ?f cs))"
    using some assms(2)
    by (simp add: reprioritize_research_candidates_def Let_def none apply_light_prescreen_def no_evidence comp_def)
  moreover have "sort_desc priority_key (map ?f cs) = sort_desc (score_key \<circ> pc_candidate) (map ?f cs)"
    by (rule sort_desc_cong) (auto simp: priority_key_def score_key_def or_zero_def)
  moreover have "map pc_candidate (map ?f cs) = cs" by (simp add: comp_def)
  ultimately show ?thesis by (simp only: number_ranks_candidate sort_desc_map)
qed

section \<open>Examples\<close>

definition default_review :: review_settings where
  "default_review = \<lparr>rw_hard = hard_gates_default, rw_yellow = yellow_flags_default\<rparr>"

theorem light_prescreen_contract_witness:
  "\<exists>t. t \<in> set trial_params \<and> light_mean_reversion_prescreen default_review (\<lambda>_. Inr sample_result)
     = Inr (prescreen_of t sample_result
         (risk_gate_review (rw_hard default_review) (rw_yellow default_review) sample_result))"
  using light_prescreen_contract [of "\<lambda>_. Inr sample_result" "\<lambda>_. sample_result" default_review] by blast

theorem hard_failure_outranks_poor_trial_witness:
  "trial_score (risk_gate_review hard_gates_default yellow_flags_default (sample_result\<lparr>max_drawdown := 1\<rparr>)) = - 6"
proof -
  have "hard_fails (rw_hard default_review) (sample_result\<lparr>max_drawdown := 1\<rparr>) \<noteq> []"
    by (simp add: hard_fails_Nil_iff default_review_def hard_gates_default_def)
  then show ?thesis
    using hard_failure_outranks_poor_trial [where rw = default_review and r = "sample_result\<lparr>max_drawdown := 1\<rparr>"]
    by (simp add: default_review_def)
qed

definition trending_snapshot :: snapshot where
  "trending_snapshot = \<lparr>sn_symbol = ''2800.HK'', sn_market_scope = ''HK'', sn_market_profile = hk_profile,
     sn_regime = ''TRENDING_UP'', sn_volatility = Some 0.02, sn_trend_strength = Some 0.2\<rparr>"

definition two_candidates :: "research_candidate list" where
  "two_candidates = [(anchor_candidate ''0001.HK'')\<lparr>uc_score := Some 50\<rparr>, (anchor_candidate ''0002.HK'')\<lparr>uc_score := Some 60\<rparr>]"

lemma two_candidates_named: "\<exists>c\<in>set two_candidates. py_strip (uc_symbol c) \<noteq> []"
proof -
  have "py_strip ''0001.HK'' \<noteq> []" by code_simp
  then show ?thesis by (simp add: two_candidates_def anchor_candidate_def)
qed

theorem research_order_contract_witness:
  "map pc_research_rank (reprioritize_research_candidates 5 (\<lambda>_. Inl RuntimeError) trending_snapshot 0 [] two_candidates)
     = [Some 1, Some 2]"
  using research_order_contract [OF two_candidates_named, of 5 "\<lambda>_. Inl RuntimeError" trending_snapshot 0 "[]"]
  by (simp add: two_candidates_def upt_rec)

theorem research_order_without_evidence_witness:
  "map (uc_symbol \<circ> pc_candidate)
      (reprioritize_research_candidates 5 (\<lambda>_. Inl RuntimeError) trending_snapshot 0 [] two_candidates)
     = [''0002.HK'', ''0001.HK'']"
proof -
  have "current_market_conditions trending_snapshot
      = [''bullish'', ''trending_up'', ''persistent_trend'', ''volatility_compression'', ''trend_resumption'']"
    by code_simp
  then have "\<not> is_strong_ranging_context (current_market_conditions trending_snapshot)"
    by (simp add: is_strong_ranging_context_def nonblank_def)
  then have "map pc_candidate
      (reprioritize_research_candidates 5 (\<lambda>_. Inl RuntimeError) trending_snapshot 0 [] two_candidates)
    = sort_desc score_key two_candidates"
    by (intro research_order_without_evidence two_candidates_named) simp_all
  moreover have "map uc_symbol (sort_desc score_key two_candidates) = [''0002.HK'', ''0001.HK'']"
    using py_round_of_int [of 50 2] py_round_of_int [of 60 2]
    by (simp add: two_candidates_def sort_desc_def score_key_def or_zero_def anchor_candidate_def)
  ultimately show ?thesis by (metis map_map)
qed

end
