(* ===== verification/Payload_Repair.thy ===== *)
theory Payload_Repair imports Py_String "HOL-Library.Sublist" begin

text \<open>
  \<open>llm.py\<close>: how the text of an answer becomes a JSON value.  Fences are removed, and a text
  that does not parse is tried again with its trailing commas removed, cut down to its first
  balanced object or list, and with the quotes inside its strings escaped.  The parser
  \<open>json.loads\<close> is an argument, a function from a text to a value or nothing: what is shown holds for any
  parser.  The last section prints JSON values and shows what the steps do to such texts.
\<close>

section \<open>JSON values\<close>

text \<open>\<open>json.loads\<close> accepts \<open>Infinity\<close>, \<open>-Infinity\<close> and \<open>NaN\<close>, and reads a float literal that is too large as
  an infinity; an integer literal has any size.\<close>

datatype json = JNull | JBool bool | JNum real | JInfinity | JMinusInfinity | JNaN | JStr string | JList "json list"
  | JObj "(string \<times> json) list"

definition quote :: char where "quote = CHR 0x22"
definition backslash :: char where "backslash = CHR 0x5C"

lemma special_chars [simp]:
  "quote \<noteq> backslash" "backslash \<noteq> quote"
  "quote \<noteq> CHR ''{''" "quote \<noteq> CHR ''[''" "quote \<noteq> CHR ''}''" "quote \<noteq> CHR '']''" "quote \<noteq> CHR '',''"
  "quote \<noteq> CHR '':''" "CHR ''{'' \<noteq> quote" "CHR ''['' \<noteq> quote" "CHR ''}'' \<noteq> quote" "CHR '']'' \<noteq> quote"
  "CHR '','' \<noteq> quote" "CHR '':'' \<noteq> quote" "CHR '' '' \<noteq> quote"
  by (simp_all add: quote_def backslash_def)

section \<open>The first balanced object or list\<close>

definition is_opening :: "char \<Rightarrow> bool" where
  "is_opening c \<longleftrightarrow> c = CHR ''{'' \<or> c = CHR ''[''"

definition closing_of :: "char \<Rightarrow> char" where
  "closing_of c = (if c = CHR ''{'' then CHR ''}'' else CHR '']'')"

text \<open>The second loop of \<open>_extract_balanced_json\<close>, which collects the text it has passed.\<close>

fun balanced_scan :: "char \<Rightarrow> char \<Rightarrow> bool \<Rightarrow> bool \<Rightarrow> int \<Rightarrow> string \<Rightarrow> string option" where
  "balanced_scan opening closing in_string escaped depth [] = None"
| "balanced_scan opening closing in_string escaped depth (c # cs) =
     (if in_string then
        map_option ((#) c)
          (if escaped then balanced_scan opening closing True False depth cs
           else if c = backslash then balanced_scan opening closing True True depth cs
           else balanced_scan opening closing (c \<noteq> quote) False depth cs)
      else if c = quote then map_option ((#) c) (balanced_scan opening closing True escaped depth cs)
      else if c = opening then map_option ((#) c) (balanced_scan opening closing False escaped (depth + 1) cs)
      else if c = closing then
        (if depth - 1 = 0 then Some [c]
         else map_option ((#) c) (balanced_scan opening closing False escaped (depth - 1) cs))
      else map_option ((#) c) (balanced_scan opening closing False escaped depth cs))"

definition extract_balanced_json :: "string \<Rightarrow> string option" where
  "extract_balanced_json text =
     (case dropWhile (\<lambda>c. \<not> is_opening c) text of
        [] \<Rightarrow> None
      | c # cs \<Rightarrow> balanced_scan c (closing_of c) False False 0 (c # cs))"

section \<open>Quotes inside strings\<close>

definition next_significant_char :: "string \<Rightarrow> char option" where
  "next_significant_char text = (case dropWhile is_space text of [] \<Rightarrow> None | c # _ \<Rightarrow> Some c)"

definition ends_string :: "string \<Rightarrow> bool" where
  "ends_string text \<longleftrightarrow>
     (case next_significant_char text of None \<Rightarrow> True
      | Some c \<Rightarrow> c \<in> set [CHR '','', CHR ''}'', CHR '']'', CHR '':''])"

fun repair_quotes :: "bool \<Rightarrow> bool \<Rightarrow> string \<Rightarrow> string" where
  "repair_quotes in_string escaped [] = []"
| "repair_quotes in_string escaped (c # cs) =
     (if \<not> in_string then
        (if c = quote then c # repair_quotes True False cs else c # repair_quotes False escaped cs)
      else if escaped then c # repair_quotes True False cs
      else if c = backslash then c # repair_quotes True True cs
      else if c = quote then
        (if ends_string cs then c # repair_quotes False escaped cs
         else backslash # quote # repair_quotes True escaped cs)
      else c # repair_quotes True escaped cs)"

definition repair_unescaped_inner_quotes :: "string \<Rightarrow> string" where
  "repair_unescaped_inner_quotes text = repair_quotes False False text"

section \<open>Trailing commas, fences and the candidates\<close>

text \<open>\<open>re.sub(r",(\s*[}\]])", r"\1", text)\<close>: a comma goes when a closing bracket is the next thing
  after white space.\<close>

fun drop_trailing_commas :: "string \<Rightarrow> string" where
  "drop_trailing_commas [] = []"
| "drop_trailing_commas (c # cs) =
     (if c = CHR '','' \<and> next_significant_char cs \<in> {Some (CHR ''}''), Some (CHR '']'')}
      then drop_trailing_commas cs else c # drop_trailing_commas cs)"

text \<open>\<open>text.split(sep, 1)\<close> at the first occurrence of a separator of several characters: the text
  before it, and the text after it when it occurs.\<close>

fun cut_at :: "string \<Rightarrow> string \<Rightarrow> string \<times> string option" where
  "cut_at sep [] = ([], None)"
| "cut_at sep (c # cs) =
     (if starts_with sep (c # cs) then ([], Some (drop (length sep) (c # cs)))
      else (let (before, after) = cut_at sep cs in (c # before, after)))"

definition after_fence :: "string \<Rightarrow> string \<Rightarrow> string" where
  "after_fence sep text = (case snd (cut_at sep text) of None \<Rightarrow> [] | Some rest \<Rightarrow> fst (cut_at ''```'' rest))"

definition unfenced :: "string \<Rightarrow> string" where
  "unfenced text =
     (let payload = py_strip text in
      py_strip (if contains ''```json'' payload then after_fence ''```json'' payload
                else if contains ''```'' payload then after_fence ''```'' payload
                else payload))"

definition candidates_of :: "string \<Rightarrow> string list" where
  "candidates_of payload =
     [payload, drop_trailing_commas payload]
     @ (case extract_balanced_json payload of
          None \<Rightarrow> []
        | Some extracted \<Rightarrow>
            (let repaired = repair_unescaped_inner_quotes extracted
             in [extracted, drop_trailing_commas extracted, repaired, drop_trailing_commas repaired]))"

fun first_parsed :: "(string \<Rightarrow> 'j option) \<Rightarrow> string list \<Rightarrow> 'j option" where
  "first_parsed loads [] = None"
| "first_parsed loads (t # ts) = (case loads t of Some j \<Rightarrow> Some j | None \<Rightarrow> first_parsed loads ts)"

text \<open>The value of the answer, or nothing when the \<open>JSONDecodeError\<close> of the first attempt is
  raised again.\<close>

definition parse_json_payload :: "(string \<Rightarrow> 'j option) \<Rightarrow> string \<Rightarrow> 'j option" where
  "parse_json_payload loads text =
     (let payload = unfenced text in
      case loads payload of Some j \<Rightarrow> Some j | None \<Rightarrow> first_parsed loads (candidates_of payload))"

section \<open>Lemmas on the scan\<close>

text \<open>One character either ends the scan or hands it on in a state that does not depend on what
  follows.\<close>

lemma scan_step_cases:
  obtains "c = cl" "\<And>cs. balanced_scan op cl i e d (c # cs) = Some [c]"
  | i' e' d' where "\<And>cs. balanced_scan op cl i e d (c # cs) = map_option ((#) c) (balanced_scan op cl i' e' d' cs)"
proof -
  consider "i" "e" | "i" "\<not> e" "c = backslash" | "i" "\<not> e" "c \<noteq> backslash" | "\<not> i" "c = quote"
    | "\<not> i" "c \<noteq> quote" "c = op" | "\<not> i" "c \<noteq> quote" "c \<noteq> op" "c = cl" "d - 1 = 0"
    | "\<not> i" "c \<noteq> quote" "c \<noteq> op" "c = cl" "d - 1 \<noteq> 0" | "\<not> i" "c \<noteq> quote" "c \<noteq> op" "c \<noteq> cl"
    by blast
  then show thesis
    by cases (rule that; simp)+
qed

declare balanced_scan.simps(2) [simp del]

lemma scan_prefix:
  "balanced_scan op cl i e d t = Some s \<Longrightarrow> s \<noteq> [] \<and> s = take (length s) t \<and> last s = cl"
proof (induction t arbitrary: i e d s)
  case (Cons c cs)
  show ?case
  proof (cases rule: scan_step_cases [where c = c and cl = cl and op = op and i = i and e = e and d = d])
    case 1
    then have "s = [c]" using Cons.prems by auto
    then show ?thesis using 1 by simp
  next
    case (2 i' e' d')
    then obtain s' where "s = c # s'" "balanced_scan op cl i' e' d' cs = Some s'"
      using Cons.prems by auto
    then show ?thesis using Cons.IH by simp
  qed
qed simp

lemma scan_append:
  "balanced_scan op cl i e d t = Some s \<Longrightarrow> balanced_scan op cl i e d (t @ x) = Some s"
proof (induction t arbitrary: i e d s)
  case (Cons c cs)
  show ?case
  proof (cases rule: scan_step_cases [where c = c and cl = cl and op = op and i = i and e = e and d = d])
    case 1
    then show ?thesis using Cons.prems by simp
  next
    case (2 i' e' d')
    then obtain s' where "s = c # s'" "balanced_scan op cl i' e' d' cs = Some s'"
      using Cons.prems by auto
    then show ?thesis using Cons.IH 2 by simp
  qed
qed simp

lemma scan_cut:
  "balanced_scan op cl i e d (s @ v) = Some s \<Longrightarrow> balanced_scan op cl i e d s = Some s"
proof (induction s arbitrary: i e d)
  case Nil
  then show ?case using scan_prefix by blast
next
  case (Cons c s)
  show ?case
  proof (cases rule: scan_step_cases [where c = c and cl = cl and op = op and i = i and e = e and d = d])
    case 1
    then show ?thesis using Cons.prems by simp
  next
    case (2 i' e' d')
    then have "balanced_scan op cl i' e' d' (s @ v) = Some s"
      using Cons.prems by simp
    then show ?thesis using Cons.IH 2 by simp
  qed
qed

lemma scan_own_result:
  assumes "balanced_scan op cl i e d t = Some s"
  shows "balanced_scan op cl i e d s = Some s"
proof -
  have "t = s @ drop (length s) t"
    using scan_prefix [OF assms] append_take_drop_id [of "length s" t] by simp
  with assms show ?thesis using scan_cut [of op cl i e d s "drop (length s) t"] by simp
qed

lemma dropWhile_opening: "list_all (\<lambda>c. \<not> is_opening c) u \<Longrightarrow> dropWhile (\<lambda>c. \<not> is_opening c) (u @ t) = dropWhile (\<lambda>c. \<not> is_opening c) t"
  by (induction u) auto

lemma extract_opening:
  "is_opening c \<Longrightarrow> extract_balanced_json (c # cs) = balanced_scan c (closing_of c) False False 0 (c # cs)"
  by (simp add: extract_balanced_json_def)

lemma extract_skip: "list_all (\<lambda>c. \<not> is_opening c) u \<Longrightarrow> extract_balanced_json (u @ t) = extract_balanced_json t"
  by (simp add: extract_balanced_json_def dropWhile_opening)

lemma extract_split:
  assumes "extract_balanced_json text = Some s"
  obtains u c cs v where "text = u @ (c # cs) @ v" "s = c # cs" "list_all (\<lambda>c. \<not> is_opening c) u" "is_opening c"
    "last s = closing_of c" "balanced_scan c (closing_of c) False False 0 s = Some s"
proof -
  define u where "u = takeWhile (\<lambda>c. \<not> is_opening c) text"
  have u: "list_all (\<lambda>c. \<not> is_opening c) u" "text = u @ dropWhile (\<lambda>c. \<not> is_opening c) text"
    unfolding u_def list_all_iff using set_takeWhileD [where P = "\<lambda>c. \<not> is_opening c" and xs = "text"]
    by blast simp
  obtain c cs where c: "dropWhile (\<lambda>c. \<not> is_opening c) text = c # cs"
    and scan: "balanced_scan c (closing_of c) False False 0 (c # cs) = Some s"
    using assms by (auto simp: extract_balanced_json_def split: list.splits)
  have op: "is_opening c"
    using hd_dropWhile [of "\<lambda>c. \<not> is_opening c" "text"] c by fastforce
  obtain cs' where cs': "s = c # cs'" and last: "last s = closing_of c"
    using scan_prefix [OF scan] by (cases s) auto
  obtain v where v: "c # cs = s @ v"
    using scan_prefix [OF scan] append_take_drop_id [of "length s" "c # cs"] by metis
  have "text = u @ (c # cs') @ v" using u(2) c v cs' by simp
  from that [OF this cs' u(1) op last scan_own_result [OF scan]] show thesis .
qed

text \<open>What is cut out of an answer is a contiguous part of it that starts at its first bracket and
  ends with the bracket that matches, whatever comes after it; cutting it again changes nothing,
  and so does prose around it that has no opening bracket.\<close>

theorem extraction_contract:
  "case extract_balanced_json text of None \<Rightarrow> True
   | Some s \<Rightarrow>
       s \<noteq> [] \<and> is_opening (hd s) \<and> last s = closing_of (hd s)
       \<and> (\<exists>u v. text = u @ s @ v \<and> list_all (\<lambda>c. \<not> is_opening c) u)
       \<and> (if list_all (\<lambda>c. \<not> is_opening c) before then extract_balanced_json (before @ s @ after) = Some s else True)"
proof (cases "extract_balanced_json text")
  case (Some s)
  obtain u c cs v where "text = u @ (c # cs) @ v" and s: "s = c # cs" and u: "list_all (\<lambda>c. \<not> is_opening c) u"
    and op: "is_opening c" and last: "last s = closing_of c"
    and scan: "balanced_scan c (closing_of c) False False 0 s = Some s"
    by (rule extract_split [OF Some])
  moreover have "extract_balanced_json (s @ after) = Some s"
    using scan_append [OF scan, of after] by (simp add: s extract_opening op)
  ultimately show ?thesis
    unfolding Some by (auto simp: extract_skip)
qed simp

section \<open>Lemmas on the repair\<close>

fun well_quoted :: "bool \<Rightarrow> bool \<Rightarrow> string \<Rightarrow> bool" where
  "well_quoted in_string escaped [] = True"
| "well_quoted in_string escaped (c # cs) =
     (if \<not> in_string then well_quoted (c = quote) (if c = quote then False else escaped) cs
      else if escaped then well_quoted True False cs
      else if c = backslash then well_quoted True True cs
      else if c = quote then ends_string cs \<and> well_quoted False escaped cs
      else well_quoted True escaped cs)"

lemma space_not_special: "is_space c \<Longrightarrow> c \<noteq> quote"
  by (auto simp: is_space_def quote_def)

lemma next_after_repair: "next_significant_char (repair_quotes False e cs) = next_significant_char cs"
  by (induction cs) (auto simp: next_significant_char_def space_not_special)

lemma ends_after_repair [simp]: "ends_string (repair_quotes False e cs) = ends_string cs"
  by (simp add: ends_string_def next_after_repair)

lemma repair_well_quoted: "well_quoted i e (repair_quotes i e t)"
  by (induction i e t rule: repair_quotes.induct) (auto simp del: ends_string_def)

lemma repair_id: "well_quoted i e t \<Longrightarrow> repair_quotes i e t = t"
  by (induction i e t rule: repair_quotes.induct) (auto split: if_splits)

lemma repair_subseq: "subseq t (repair_quotes i e t)"
  by (induction i e t rule: repair_quotes.induct) auto

text \<open>The repair only adds characters: the answer is a subsequence of the repaired text.  It
  changes nothing exactly when every quote that ends a string is followed by a separator, its own
  result has that form, and so a second repair changes nothing.\<close>

theorem repair_contract:
  "subseq text (repair_unescaped_inner_quotes text)
   \<and> well_quoted False False (repair_unescaped_inner_quotes text)
   \<and> (repair_unescaped_inner_quotes text = text) = well_quoted False False text
   \<and> repair_unescaped_inner_quotes (repair_unescaped_inner_quotes text) = repair_unescaped_inner_quotes text"
  using repair_subseq [where t = "text" and i = False and e = False] repair_well_quoted [where t = "text" and i = False and e = False]
    repair_id [where t = "text" and i = False and e = False] repair_id [OF repair_well_quoted [where t = "text" and i = False and e = False]]
  by (auto simp: repair_unescaped_inner_quotes_def)

section \<open>Printed values\<close>

text \<open>The text of a value as \<open>json.dumps\<close> writes it, up to the escapes of control characters; how a
  number is printed is an argument.\<close>

definition escape_string :: "string \<Rightarrow> string" where
  "escape_string t = concat (map (\<lambda>c. if c = quote \<or> c = backslash then [backslash, c] else [c]) t)"

definition quoted :: "string \<Rightarrow> string" where
  "quoted t = quote # escape_string t @ [quote]"

fun comma_tail :: "string list \<Rightarrow> string" where
  "comma_tail [] = []"
| "comma_tail (q # qs) = '', '' @ q @ comma_tail qs"

definition comma_separated :: "string list \<Rightarrow> string" where
  "comma_separated ps = (case ps of [] \<Rightarrow> [] | p # qs \<Rightarrow> p @ comma_tail qs)"

fun render :: "(real \<Rightarrow> string) \<Rightarrow> json \<Rightarrow> string" where
  "render show_num JNull = ''null''"
| "render show_num (JBool b) = (if b then ''true'' else ''false'')"
| "render show_num (JNum x) = show_num x"
| "render show_num JInfinity = ''Infinity''"
| "render show_num JMinusInfinity = ''-Infinity''"
| "render show_num JNaN = ''NaN''"
| "render show_num (JStr t) = quoted t"
| "render show_num (JList js) = ''['' @ comma_separated (map (render show_num) js) @ '']''"
| "render show_num (JObj kvs) =
     ''{'' @ comma_separated (map (\<lambda>(k, j). quoted k @ '': '' @ render show_num j) kvs) @ ''}''"

definition plain :: "string \<Rightarrow> bool" where
  "plain t \<longleftrightarrow> list_all (\<lambda>c. c \<notin> set [quote, CHR ''{'', CHR ''}'', CHR ''['', CHR '']'']) t"

text \<open>A piece of text that the scan passes over, and one that the repair leaves alone in front of
  what may end a string.\<close>

definition prefixed :: "string \<Rightarrow> string option \<Rightarrow> string option" where
  "prefixed t m = (case m of None \<Rightarrow> None | Some s \<Rightarrow> Some (t @ s))"

lemma prefixed_simps [simp]:
  "prefixed [] m = m" "prefixed s (prefixed t m) = prefixed (s @ t) m"
  "map_option ((#) c) m = prefixed [c] m"
  by (simp_all add: prefixed_def split: option.split)

definition skipped :: "char \<Rightarrow> char \<Rightarrow> string \<Rightarrow> bool" where
  "skipped op cl t \<longleftrightarrow> (\<forall>d r. d \<ge> 1 \<longrightarrow>
     balanced_scan op cl False False d (t @ r) = prefixed t (balanced_scan op cl False False d r))"

definition kept :: "string \<Rightarrow> bool" where
  "kept t \<longleftrightarrow> (\<forall>r. ends_string r \<longrightarrow> well_quoted False False (t @ r) = well_quoted False False r)"

definition bracket_pair :: "char \<Rightarrow> char \<Rightarrow> bool" where
  "bracket_pair op cl \<longleftrightarrow> is_opening op \<and> cl = closing_of op"

lemma bracket_pair_cases:
  "bracket_pair op cl \<Longrightarrow> (op = CHR ''{'' \<and> cl = CHR ''}'') \<or> (op = CHR ''['' \<and> cl = CHR '']'')"
  by (auto simp: bracket_pair_def is_opening_def closing_of_def)

lemma skipped_append: "skipped op cl s \<Longrightarrow> skipped op cl t \<Longrightarrow> skipped op cl (s @ t)"
  by (simp add: skipped_def)

lemma skipped_Nil [simp]: "skipped op cl []"
  by (simp add: skipped_def)

lemma skipped_char: "c \<noteq> quote \<Longrightarrow> c \<noteq> op \<Longrightarrow> c \<noteq> cl \<Longrightarrow> skipped op cl [c]"
  by (simp add: skipped_def balanced_scan.simps(2))

lemma skipped_plain: "bracket_pair op cl \<Longrightarrow> plain t \<Longrightarrow> skipped op cl t"
proof (induction t)
  case (Cons c t)
  then have "skipped op cl [c]"
    by (intro skipped_char) (auto simp: plain_def dest: bracket_pair_cases)
  moreover have "skipped op cl t" using Cons by (simp add: plain_def)
  ultimately show ?case using skipped_append [of op cl "[c]" t] by simp
qed simp

lemma scan_escaped:
  "balanced_scan op cl True False d (escape_string t @ quote # r)
   = prefixed (escape_string t @ [quote]) (balanced_scan op cl False False d r)"
  by (induction t) (auto simp: escape_string_def balanced_scan.simps(2))

lemma skipped_quoted: "skipped op cl (quoted t)"
  by (auto simp: skipped_def quoted_def balanced_scan.simps(2) scan_escaped)

lemma skipped_comma_separated:
  assumes "bracket_pair op cl" "\<And>p. p \<in> set ps \<Longrightarrow> skipped op cl p"
  shows "skipped op cl (comma_separated ps)"
proof -
  have comma: "skipped op cl '', ''"
    by (rule skipped_plain [OF assms(1)]) (simp add: plain_def quote_def)
  have "skipped op cl (comma_tail qs)" if "\<forall>q\<in>set qs. skipped op cl q" for qs
    using that
  proof (induction qs)
    case (Cons q qs)
    then show ?case
      using skipped_append [OF comma skipped_append [of op cl q "comma_tail qs"]] by simp
  qed simp
  then show ?thesis
    using assms(2) by (auto simp: comma_separated_def intro: skipped_append split: list.splits)
qed

lemma skippedD: "skipped op cl t \<Longrightarrow> d \<ge> 1 \<Longrightarrow>
    balanced_scan op cl False False d (t @ r) = prefixed t (balanced_scan op cl False False d r)"
  by (simp add: skipped_def)

lemma skipped_bracketed:
  assumes "bracket_pair op cl" "bracket_pair ob cb" "skipped op cl t"
  shows "skipped op cl (ob # t @ [cb])"
proof -
  have "balanced_scan op cl False False d ((ob # t @ [cb]) @ r)
      = prefixed (ob # t @ [cb]) (balanced_scan op cl False False d r)" if "d \<ge> 1" for d r
    using that assms(3) bracket_pair_cases [OF assms(1)] bracket_pair_cases [OF assms(2)]
    by (auto simp: skipped_def balanced_scan.simps(2))
  then show ?thesis by (simp add: skipped_def)
qed

lemma skipped_render:
  assumes "bracket_pair op cl" "\<And>x. plain (show_num x)"
  shows "skipped op cl (render show_num j)"
proof (induction j)
  case (JList js)
  have "skipped op cl (''['' @ comma_separated (map (render show_num) js) @ '']'')"
    using skipped_bracketed [OF assms(1), of "CHR ''[''" "CHR '']''"] JList
      skipped_comma_separated [OF assms(1), of "map (render show_num) js"]
    by (auto simp: bracket_pair_def is_opening_def closing_of_def)
  then show ?case by simp
next
  case (JObj kvs)
  have colon: "skipped op cl '': ''"
    by (rule skipped_plain [OF assms(1)]) (simp add: plain_def quote_def)
  have "skipped op cl (quoted k @ '': '' @ render show_num j)" if "(k, j) \<in> set kvs" for k j
    using that JObj by (intro skipped_append skipped_quoted colon) fastforce
  then have "skipped op cl (comma_separated (map (\<lambda>(k, j). quoted k @ '': '' @ render show_num j) kvs))"
    by (intro skipped_comma_separated [OF assms(1)]) auto
  then show ?case
    using skipped_bracketed [OF assms(1), of "CHR ''{''" "CHR ''}''"]
    by (auto simp: bracket_pair_def is_opening_def closing_of_def)
qed (auto intro!: skipped_plain [OF assms(1)] skipped_quoted simp: assms(2), simp_all add: plain_def quote_def)

lemma well_quoted_plain: "list_all (\<lambda>c. c \<noteq> quote) t \<Longrightarrow> well_quoted False False (t @ r) = well_quoted False False r"
  by (induction t) auto

lemma well_quoted_quoted: "well_quoted False False (quoted t @ r) \<longleftrightarrow> ends_string r \<and> well_quoted False False r"
proof -
  have "well_quoted True False (escape_string t @ quote # r) \<longleftrightarrow> ends_string r \<and> well_quoted False False r"
    by (induction t) (auto simp: escape_string_def)
  then show ?thesis by (simp add: quoted_def)
qed

lemma ends_string_char [simp]:
  "ends_string (c # r) \<longleftrightarrow> (if is_space c then ends_string r else c \<in> set [CHR '','', CHR ''}'', CHR '']'', CHR '':''])"
  by (simp add: ends_string_def next_significant_char_def)

lemma not_space [simp]: "\<not> is_space (CHR '','')" "\<not> is_space (CHR '':'')" "\<not> is_space (CHR ''}'')" "\<not> is_space (CHR '']'')"
  by (simp_all add: is_space_def)

lemma keptD: "kept t \<Longrightarrow> ends_string r \<Longrightarrow> well_quoted False False (t @ r) = well_quoted False False r"
  by (simp add: kept_def)

lemma kept_plain: "list_all (\<lambda>c. c \<noteq> quote) t \<Longrightarrow> kept t"
  by (simp add: kept_def well_quoted_plain)

lemma kept_tail:
  assumes "\<forall>q\<in>set qs. kept q" "ends_string r"
  shows "ends_string (comma_tail qs @ r)
    \<and> well_quoted False False (comma_tail qs @ r) = well_quoted False False r"
  using assms(1)
proof (induction qs)
  case (Cons q qs)
  then show ?case
    using keptD [of q "comma_tail qs @ r"] well_quoted_plain [of "'', ''"] by simp
qed (simp add: assms(2))

lemma kept_comma_separated:
  assumes "\<And>p. p \<in> set ps \<Longrightarrow> kept p"
  shows "kept (comma_separated ps)"
proof (cases ps)
  case (Cons p qs)
  then have "kept p" "\<forall>q\<in>set qs. kept q" using assms by simp_all
  then show ?thesis
    using kept_tail [of qs] keptD [of p] by (simp add: Cons comma_separated_def kept_def [of "p @ t" for t])
qed (simp add: comma_separated_def kept_def)

lemma kept_render:
  assumes "\<And>x. plain (show_num x)"
  shows "kept (render show_num j)"
proof (induction j)
  case (JNum x)
  have "list_all (\<lambda>c. c \<noteq> quote) (show_num x)"
    using assms [of x] unfolding plain_def by (rule list.pred_mono_strong) simp
  then show ?case by (simp add: kept_plain)
next
  case (JStr t)
  show ?case by (simp add: kept_def well_quoted_quoted)
next
  case (JList js)
  then have "kept (comma_separated (map (render show_num) js))"
    by (intro kept_comma_separated) auto
  then show ?case by (simp add: kept_def)
next
  case (JObj kvs)
  have "kept (quoted k @ '': '' @ render show_num j)" if "(k, j) \<in> set kvs" for k j
    using that JObj keptD [of "render show_num j"] by (fastforce simp: kept_def well_quoted_quoted)
  then have "kept (comma_separated (map (\<lambda>(k, j). quoted k @ '': '' @ render show_num j) kvs))"
    by (intro kept_comma_separated) auto
  then show ?case by (simp add: kept_def)
qed (auto intro!: kept_plain simp: quote_def)

lemma repair_render:
  assumes "\<And>x. plain (show_num x)"
  shows "repair_unescaped_inner_quotes (render show_num j) = render show_num j"
proof -
  have "well_quoted False False (render show_num j)"
    using keptD [OF kept_render [where show_num = show_num and j = j], of "[]"] assms
    by (simp add: ends_string_def next_significant_char_def)
  then show ?thesis by (simp add: repair_unescaped_inner_quotes_def repair_id)
qed

definition container :: "json \<Rightarrow> bool" where
  "container j \<longleftrightarrow> (case j of JList _ \<Rightarrow> True | JObj _ \<Rightarrow> True | _ \<Rightarrow> False)"

lemma render_container:
  assumes "container j" "\<And>x. plain (show_num x)"
  obtains op cl t where "bracket_pair op cl" "render show_num j = op # t @ [cl]"
    "balanced_scan op cl False False 0 (render show_num j) = Some (render show_num j)"
proof -
  obtain op cl t where p: "bracket_pair op cl" and r: "render show_num j = op # t @ [cl]"
    and t: "skipped op cl t"
  proof (cases j)
    case (JList js)
    have b: "bracket_pair (CHR ''['') (CHR '']'')" by (simp add: bracket_pair_def is_opening_def closing_of_def)
    show thesis
      by (rule that [OF b, of "comma_separated (map (render show_num) js)"])
        (auto simp: JList intro!: skipped_comma_separated [OF b] skipped_render [OF b] assms(2))
  next
    case (JObj kvs)
    have b: "bracket_pair (CHR ''{'') (CHR ''}'')" by (simp add: bracket_pair_def is_opening_def closing_of_def)
    have colon: "skipped (CHR ''{'') (CHR ''}'') '': ''"
      by (rule skipped_plain [OF b]) (simp add: plain_def quote_def)
    show thesis
      by (rule that [OF b, of "comma_separated (map (\<lambda>(k, j). quoted k @ '': '' @ render show_num j) kvs)"])
        (auto simp: JObj split_def simp del: append.simps
          intro!: skipped_comma_separated [OF b] skipped_append skipped_quoted colon skipped_render [OF b] assms(2))
  qed (use assms(1) in \<open>simp_all add: container_def\<close>)
  have "balanced_scan op cl False False 0 (op # t @ [cl]) = Some (op # t @ [cl])"
    using bracket_pair_cases [OF p] skippedD [OF t, of 1 "[cl]"]
    by (auto simp: balanced_scan.simps(2) prefixed_def)
  with that [OF p r] r show thesis by simp
qed

lemma extract_render:
  assumes "container j" "\<And>x. plain (show_num x)" "list_all (\<lambda>c. \<not> is_opening c) before"
  shows "extract_balanced_json (before @ render show_num j @ after) = Some (render show_num j)"
proof -
  obtain op cl t where "bracket_pair op cl" "render show_num j = op # t @ [cl]"
    "balanced_scan op cl False False 0 (render show_num j) = Some (render show_num j)"
    by (rule render_container [OF assms(1,2)])
  then show ?thesis
    using scan_append [of op cl False False 0 "render show_num j" "render show_num j" "after"]
    by (simp add: extract_skip [OF assms(3)] extract_opening bracket_pair_def)
qed

text \<open>C39. A printed object or list is recovered whole from an answer that surrounds it with prose,
  whatever its strings contain, as long as the prose before it has no bracket; the repair leaves
  it as it is.  Cut off anywhere before its end, as by a limit on tokens, it yields nothing.\<close>

theorem wrapped_value_is_recovered:
  assumes "\<forall>x. plain (show_num x)" and "container j" and "list_all (\<lambda>c. \<not> is_opening c) before"
  shows "extract_balanced_json (before @ render show_num j @ after) = Some (render show_num j)
    \<and> repair_unescaped_inner_quotes (render show_num j) = render show_num j
    \<and> (if n < length (render show_num j)
       then extract_balanced_json (before @ take n (render show_num j)) = None else True)"
proof -
  have num: "\<And>x. plain (show_num x)" using assms(1) by blast
  obtain op cl t where p: "bracket_pair op cl" and r: "render show_num j = op # t @ [cl]"
    and scan: "balanced_scan op cl False False 0 (render show_num j) = Some (render show_num j)"
    by (rule render_container [OF assms(2) num])
  have op: "is_opening op" "cl = closing_of op" using p by (simp_all add: bracket_pair_def)
  have part: "extract_balanced_json (take n (render show_num j)) = None" if n: "n < length (render show_num j)"
  proof (rule ccontr)
    assume "\<not> ?thesis"
    then obtain s where s: "extract_balanced_json (take n (render show_num j)) = Some s" by auto
    then obtain m where m: "n = Suc m" by (cases n) (simp_all add: extract_balanced_json_def)
    then have sc: "balanced_scan op cl False False 0 (take n (render show_num j)) = Some s"
      using s op by (simp add: r extract_opening)
    then have "balanced_scan op cl False False 0 (render show_num j) = Some s"
      using scan_append [OF sc, of "drop n (render show_num j)"] by simp
    then have "s = render show_num j" using scan by simp
    then have "length (render show_num j) \<le> n"
      using scan_prefix [OF sc] by (metis length_take min.absorb_iff2 min.commute nat_le_linear)
    then show False using n by simp
  qed
  show ?thesis
    using extract_render [OF assms(2) num assms(3)] part repair_render [OF num]
    by (simp add: extract_skip [OF assms(3)])
qed

definition sample_answer :: json where
  "sample_answer = JObj [(''a'', JStr [CHR ''{'', quote, CHR '']'']), (''b'', JList [JNum 1, JNull])]"

theorem wrapped_value_is_recovered_witness:
  "extract_balanced_json (''Sure: '' @ render (\<lambda>x. ''1'') sample_answer @ '' {'')
     = Some (render (\<lambda>x. ''1'') sample_answer)
   \<and> extract_balanced_json (''Sure: '' @ take 12 (render (\<lambda>x. ''1'') sample_answer)) = None"
proof -
  have "container sample_answer" "\<forall>x :: real. plain ((\<lambda>x. ''1'') x)" "list_all (\<lambda>c. \<not> is_opening c) ''Sure: ''"
    "12 < length (render (\<lambda>x. ''1'') sample_answer)"
    by (simp_all add: container_def sample_answer_def plain_def quote_def is_opening_def quoted_def escape_string_def
        comma_separated_def)
  then show ?thesis
    using wrapped_value_is_recovered [of "\<lambda>x. ''1''" sample_answer "''Sure: ''" "'' {''" 12] by metis
qed

section \<open>The parsed value\<close>

lemma first_parsed_cases:
  "case first_parsed loads ts of None \<Rightarrow> list_all (\<lambda>t. loads t = None) ts
   | Some j \<Rightarrow> \<exists>us t vs. ts = us @ t # vs \<and> loads t = Some j \<and> list_all (\<lambda>u. loads u = None) us"
proof (induction ts)
  case (Cons t ts)
  show ?case
  proof (cases "loads t")
    case None
    show ?thesis
    proof (cases "first_parsed loads ts")
      case (Some j)
      then obtain us t' vs where "ts = us @ t' # vs" "loads t' = Some j" "list_all (\<lambda>u. loads u = None) us"
        using Cons.IH by auto
      then have "t # ts = (t # us) @ t' # vs \<and> loads t' = Some j \<and> list_all (\<lambda>u. loads u = None) (t # us)"
        using None by simp
      moreover have e: "first_parsed loads (t # ts) = Some j" using None Some by simp
      ultimately show ?thesis unfolding e option.case by blast
    qed (use None Cons.IH in simp)
  next
    case (Some j)
    then have "t # ts = [] @ t # ts \<and> loads t = Some j \<and> list_all (\<lambda>u. loads u = None) []" by simp
    moreover have e: "first_parsed loads (t # ts) = Some j" using Some by simp
    ultimately show ?thesis unfolding e option.case by blast
  qed
qed simp

lemma first_parsed_hd: "first_parsed loads (t # ts) = (case loads t of Some j \<Rightarrow> Some j | None \<Rightarrow> first_parsed loads (t # ts))"
  by (simp split: option.split)

text \<open>The error is raised exactly when none of the candidates parses; otherwise the value is that
  of the first candidate that does, and the first candidate is the answer without its fence.\<close>

theorem parse_contract:
  "case parse_json_payload loads text of
     None \<Rightarrow> list_all (\<lambda>t. loads t = None) (candidates_of (unfenced text))
   | Some j \<Rightarrow> \<exists>us t vs. candidates_of (unfenced text) = us @ t # vs \<and> loads t = Some j
       \<and> list_all (\<lambda>u. loads u = None) us"
proof -
  have "parse_json_payload loads text = first_parsed loads (candidates_of (unfenced text))"
    by (simp add: parse_json_payload_def candidates_of_def split: option.split)
  then show ?thesis using first_parsed_cases [of loads "candidates_of (unfenced text)"] by simp
qed

text \<open>An answer that parses is never repaired, and an object in the middle of prose gives the value
  that the parser gives to the object alone.\<close>

theorem prose_does_not_change_the_value:
  assumes "\<forall>x. plain (show_num x)" and "container j" and "list_all (\<lambda>c. \<not> is_opening c) before"
    and "unfenced answer = before @ render show_num j @ after"
    and "loads (render show_num j) = Some v"
    and "loads (unfenced answer) = None" and "loads (drop_trailing_commas (unfenced answer)) = None"
  shows "parse_json_payload loads answer = Some v"
proof -
  have num: "\<And>x. plain (show_num x)" using assms(1) by blast
  show ?thesis
    using extract_render [OF assms(2) num assms(3), where after = "after"] assms(4-7)
    by (simp add: parse_json_payload_def candidates_of_def repair_render [OF num] Let_def)
qed

text \<open>The removal of trailing commas does not know about strings.\<close>

lemma comma_in_string_is_lost:
  "drop_trailing_commas (render (\<lambda>x. ''1'') (JList [JStr ''a, ]'']))  = render (\<lambda>x. ''1'') (JList [JStr ''a ]''])"
  by code_simp

text \<open>A bracket in the prose before the object hides it.\<close>

lemma bracket_in_prose_hides_the_object:
  "extract_balanced_json (''[note] '' @ render (\<lambda>x. ''1'') (JObj [(''a'', JNum 1)])) = Some ''[note]''"
  by code_simp

definition brace_parser :: "string \<Rightarrow> nat option" where
  "brace_parser t = (if t = ''[1]'' then Some 1 else None)"

theorem prose_does_not_change_the_value_witness:
  "parse_json_payload brace_parser ''Sure: [1] ok.'' = Some 1"
proof -
  have t: "unfenced ''Sure: [1] ok.'' = ''Sure: [1] ok.''" by code_simp
  have "render (\<lambda>x. ''1'') (JList [JNum 1]) = ''[1]''" by (simp add: comma_separated_def)
  then show ?thesis
    using prose_does_not_change_the_value [of "\<lambda>x. ''1''" "JList [JNum 1]" "''Sure: ''" "''Sure: [1] ok.''" "'' ok.''"
        brace_parser 1]
    by (simp add: t plain_def quote_def container_def is_opening_def brace_parser_def)
qed

end
