(* ===== verification/LLM_Stages.thy ===== *)
theory LLM_Stages imports Payload_Repair LLM_Gateway Proposal_Pool Research_Priority Event_Stream begin

text \<open>
  The stages of \<open>api/services.py\<close> that ask the language model: the market analyst and how its view
  enters the market snapshot, the strategy agent with the normalisation of what it answers and
  its fallback, the research debate, the risk judgment and the strategy description that is
  backtested.  An answer is an arbitrary \<open>json\<close> value: everything the code checks about it, and
  everything it does not, is in the definitions.  The prompts have no effect on the model, since
  the answers to them are arguments, except where building one raises; \<open>str\<close> of a value that is not
  a text and the reading of a number from a text are arguments too.  A number of an answer is an
  integer of any size or a float, which may be infinite or not a number.  A text is its UTF-8
  bytes, so a cut at a number of characters is exact for ASCII.
\<close>

section \<open>Reading an answer\<close>

record text_env =
  te_show :: "json \<Rightarrow> string"
  te_read_float :: "string \<Rightarrow> fl option"
  te_read_int :: "string \<Rightarrow> int option"

definition py_str :: "text_env \<Rightarrow> json \<Rightarrow> string" where
  "py_str te j = (case j of JStr s \<Rightarrow> s | JNull \<Rightarrow> ''None'' | JBool b \<Rightarrow> (if b then ''True'' else ''False'')
     | _ \<Rightarrow> te_show te j)"

definition truthy :: "json \<Rightarrow> bool" where
  "truthy j = (case j of JNull \<Rightarrow> False | JBool b \<Rightarrow> b | JNum x \<Rightarrow> x \<noteq> 0 | JStr s \<Rightarrow> s \<noteq> []
     | JList js \<Rightarrow> js \<noteq> [] | JObj kvs \<Rightarrow> kvs \<noteq> [] | _ \<Rightarrow> True)"

text \<open>\<open>float(j)\<close> and iteration over a value.  An integer that rounds beyond the largest float overflows.\<close>

definition too_large :: "real \<Rightarrow> bool" where
  "too_large x \<longleftrightarrow> \<bar>x\<bar> \<ge> 2 ^ 1024 - 2 ^ 970"

definition py_float :: "text_env \<Rightarrow> json \<Rightarrow> fl res" where
  "py_float te j = (case j of JNum x \<Rightarrow> if too_large x then Inl OverflowError else Inr (Fin x)
     | JInfinity \<Rightarrow> Inr PInf | JMinusInfinity \<Rightarrow> Inr NInf | JNaN \<Rightarrow> Inr NaN
     | JBool b \<Rightarrow> Inr (Fin (if b then 1 else 0))
     | JStr s \<Rightarrow> (case te_read_float te s of None \<Rightarrow> Inl ValueError | Some x \<Rightarrow> Inr x)
     | _ \<Rightarrow> Inl TypeError)"

definition items_of :: "json \<Rightarrow> json list res" where
  "items_of j = (case j of JList js \<Rightarrow> Inr js | JStr s \<Rightarrow> Inr (map (\<lambda>c. JStr [c]) s)
     | JObj kvs \<Rightarrow> Inr (map (JStr \<circ> fst) kvs) | _ \<Rightarrow> Inl TypeError)"

definition fields_of :: "json \<Rightarrow> (string \<times> json) list" where
  "fields_of j = (case j of JObj kvs \<Rightarrow> kvs | _ \<Rightarrow> [])"

text \<open>\<open>str(d.get(k) or default)\<close> and \<open>str(d.get(k, default))\<close>.\<close>

definition text_or :: "text_env \<Rightarrow> (string \<times> json) list \<Rightarrow> string \<Rightarrow> string \<Rightarrow> string" where
  "text_or te kvs k d = (case map_of kvs k of None \<Rightarrow> d | Some j \<Rightarrow> if truthy j then py_str te j else d)"

definition text_get :: "text_env \<Rightarrow> (string \<times> json) list \<Rightarrow> string \<Rightarrow> string \<Rightarrow> string" where
  "text_get te kvs k d = (case map_of kvs k of None \<Rightarrow> d | Some j \<Rightarrow> py_str te j)"

text \<open>The texts of a list that are not blank, at most \<open>n\<close>; a value that is not a list counts as none.\<close>

definition list_texts :: "text_env \<Rightarrow> (string \<times> json) list \<Rightarrow> string \<Rightarrow> nat \<Rightarrow> string list" where
  "list_texts te kvs k n = (case map_of kvs k of Some (JList js) \<Rightarrow> take n (nonblank (map (py_str te) js)) | _ \<Rightarrow> [])"

section \<open>The schema hints and the versions of the prompts\<close>

definition MARKET_ANALYST_PROMPT_VERSION :: string where "MARKET_ANALYST_PROMPT_VERSION = ''market_analyst.v1''"
definition STRATEGY_AGENT_PROMPT_VERSION :: string where "STRATEGY_AGENT_PROMPT_VERSION = ''strategy_agent.v1''"
definition RESEARCH_DEBATE_PROMPT_VERSION :: string where "RESEARCH_DEBATE_PROMPT_VERSION = ''research_debate.v1''"
definition RISK_MANAGER_LLM_PROMPT_VERSION :: string where
  "RISK_MANAGER_LLM_PROMPT_VERSION = ''risk_manager_llm.v1''"

definition MARKET_ANALYST_SCHEMA_HINT :: json where
  "MARKET_ANALYST_SCHEMA_HINT = JObj [(''summary'', JStr []), (''event_bias'', JStr ''neutral''),
     (''watchpoints'', JList []), (''confidence_adjustment'', JNum 0)]"

definition STRATEGY_AGENT_SCHEMA_HINT :: json where
  "STRATEGY_AGENT_SCHEMA_HINT = JObj [(''proposals'', JList [])]"

definition RESEARCH_DEBATE_SCHEMA_HINT :: json where
  "RESEARCH_DEBATE_SCHEMA_HINT = JObj [(''stance_for'', JList []), (''stance_against'', JList []),
     (''synthesis'', JStr [])]"

definition RISK_MANAGER_LLM_SCHEMA_HINT :: json where
  "RISK_MANAGER_LLM_SCHEMA_HINT = JObj [(''llm_score'', JNum 70), (''llm_explanation'', JStr [])]"

definition status_text :: "llm_code \<Rightarrow> string" where
  "status_text c = (case c of Ready \<Rightarrow> ''ready'' | Mock_code \<Rightarrow> ''mock'' | Missing_key \<Rightarrow> ''missing_key''
     | Auth_error \<Rightarrow> ''auth_error'' | Rate_limited \<Rightarrow> ''rate_limited'' | Network_error \<Rightarrow> ''network_error''
     | Provider_error \<Rightarrow> ''provider_error'' | Parse_error \<Rightarrow> ''parse_error'')"

text \<open>\<open>_record_llm_stage\<close>: the audit row of a stage; the message of the status and the hashes are left out.\<close>

definition record_llm_stage :: "string \<Rightarrow> string \<Rightarrow> llm_status \<Rightarrow> (string \<times> string) list \<Rightarrow> datetime \<Rightarrow> audit" where
  "record_llm_stage stage version st extra now =
     \<lparr>au_event_type = (if ls_using_mock_fallback st then ''llm_fallback_triggered'' else ''llm_stage_completed''),
      au_entity_type = ''llm_stage'', au_entity_id = stage,
      au_payload = map_of [(''stage'', stage), (''prompt_version'', version),
          (''provider'', provider_name (ls_provider st)), (''model'', ls_model st),
          (''status'', status_text (ls_code st)),
          (''using_mock_fallback'', if ls_using_mock_fallback st then ''True'' else ''False'')] ++ map_of extra,
      au_created_at = now\<rparr>"

section \<open>The market analyst\<close>

record analyst_state =
  an_summary :: string
  an_event_bias :: string
  an_watchpoints :: "string list"
  an_confidence_adjustment :: real
  an_prompt_version :: string
  an_source_kind :: string
  an_provider_status :: string
  an_provider_model :: string
  an_provider_message :: llm_message
  an_market_snapshot_hash :: string
  an_event_digest_hash :: string

text \<open>The market snapshot as far as the analyst sees and changes it; the last five fields are in the
  price context.\<close>

record market_view =
  mv_regime :: string
  mv_confidence :: real
  mv_summary :: string
  mv_market_snapshot_hash :: string
  mv_event_digest_hash :: string
  mv_market_analyst :: "analyst_state option"
  mv_watchpoints :: "string list option"
  mv_event_bias :: "string option"
  mv_analyst_prompt_version :: "string option"
  mv_analyst_provider_status :: "string option"

definition merge_market_snapshot :: "market_view \<Rightarrow> analyst_state option \<Rightarrow> market_view" where
  "merge_market_snapshot base st =
     (case st of
        None \<Rightarrow> base
      | Some a \<Rightarrow>
          if an_market_snapshot_hash a = mv_market_snapshot_hash base then
            (let summary = py_strip (an_summary a); event_bias = py_strip (an_event_bias a) in
             base\<lparr>mv_summary := (if summary \<noteq> [] then summary else mv_summary base),
               mv_watchpoints := (if an_watchpoints a \<noteq> [] then Some (take 4 (an_watchpoints a)) else mv_watchpoints base),
               mv_event_bias := (if event_bias \<noteq> [] then Some event_bias else mv_event_bias base),
               mv_analyst_prompt_version := Some (if an_prompt_version a \<noteq> [] then an_prompt_version a
                  else MARKET_ANALYST_PROMPT_VERSION),
               mv_analyst_provider_status := Some (if an_provider_status a \<noteq> [] then an_provider_status a else ''mock''),
               mv_market_analyst := Some a\<rparr>)
          else base)"

record stage_env =
  sv_text :: text_env
  sv_llm :: llm_config
  sv_now :: datetime

text \<open>The status of the gateway is stored even when the answer cannot be read and an error is raised.\<close>

definition run_market_analyst ::
  "stage_env \<Rightarrow> (nat \<Rightarrow> json attempt) \<Rightarrow> market_view \<Rightarrow> llm_runtime option
     \<Rightarrow> (analyst_state \<times> audit) res \<times> llm_runtime option" where
  "run_market_analyst sv answers base rt =
     (let (reply, rt') = invoke_json (sv_llm sv) answers MARKET_ANALYST_SCHEMA_HINT rt;
          raw = fields_of (in_payload reply);
          te = sv_text sv;
          adjustment = (case map_of raw ''confidence_adjustment'' of None \<Rightarrow> Inr (Fin 0)
             | Some j \<Rightarrow> if truthy j then py_float te j else Inr (Fin 0))
      in (rbind adjustment (\<lambda>x. Inr (
            \<lparr>an_summary = py_strip (text_or te raw ''summary'' (mv_summary base)),
             an_event_bias = take 32 (py_strip (text_or te raw ''event_bias'' ''neutral'')),
             an_watchpoints = list_texts te raw ''watchpoints'' 4,
             an_confidence_adjustment = py_clamp (- 0.15) 0.15 x,
             an_prompt_version = MARKET_ANALYST_PROMPT_VERSION,
             an_source_kind = provider_name (in_source_kind reply),
             an_provider_status = status_text (ls_code (in_status reply)),
             an_provider_model = ls_model (in_status reply),
             an_provider_message = ls_message (in_status reply),
             an_market_snapshot_hash = mv_market_snapshot_hash base,
             an_event_digest_hash = mv_event_digest_hash base\<rparr>,
            record_llm_stage ''market_analyst'' MARKET_ANALYST_PROMPT_VERSION (in_status reply)
              [(''source_kind'', provider_name (in_source_kind reply))] (sv_now sv))), rt'))"

section \<open>Blueprints with what the stages add to them\<close>

record debate =
  db_for :: "string list"
  db_against :: "string list"
  db_synthesis :: string

record staged =
  sg_blueprint :: blueprint
  sg_dropped_params :: "string list"
  sg_provider_model :: string
  sg_provider_message :: llm_message
  sg_debate_report :: "debate option"
  sg_llm_score :: "real option"
  sg_llm_explanation :: "string option"
  sg_prompt_versions :: "(string \<times> string) list"

definition all_prompt_versions :: "(string \<times> string) list" where
  "all_prompt_versions = [(''strategy_agent'', STRATEGY_AGENT_PROMPT_VERSION),
     (''research_debate'', RESEARCH_DEBATE_PROMPT_VERSION), (''risk_manager_llm'', RISK_MANAGER_LLM_PROMPT_VERSION)]"

definition signal_reef :: "llm_status \<Rightarrow> staged" where
  "signal_reef st =
     \<lparr>sg_blueprint = \<lparr>bp_title = ''Signal Reef'', bp_base_strategy = ''ma_cross'',
        bp_thesis = ''Use trend persistence plus macro stability to keep a single active exposure with low turnover.'',
        bp_knowledge_families_used = [''trend_following''],
        bp_baseline_delta_summary =
          map char_of [229 :: nat, 156, 168, 229, 157, 135, 231, 186, 191, 232, 182, 139, 229, 138,
         191, 229, 159, 186, 231, 186, 191, 228, 184, 138, 229, 188, 186, 229, 140, 150,
         229, 174, 143, 232, 167, 130, 231, 168, 179, 229, 174, 154, 230, 128, 167, 232,
         191, 135, 230, 187, 164, 239, 188, 140, 229, 177, 158, 228, 186, 142, 230, 184,
         169, 229, 146, 140, 231, 154, 132, 232, 182, 139, 229, 138, 191, 229, 143, 152,
         228, 189, 147, 227, 128, 130],
        bp_novelty_claim =
          map char_of [232 :: nat, 189, 187, 229, 186, 166, 229, 136, 155, 230, 150, 176, 239, 188,
         154, 232, 182, 139, 229, 138, 191, 229, 159, 186, 231, 186, 191, 32, 43, 32, 229,
         174, 143, 232, 167, 130, 231, 168, 179, 229, 174, 154, 230, 128, 167, 232, 191,
         135, 230, 187, 164, 227, 128, 130],
        bp_features_used = [''SMA'', ''EMA'', ''volatility'', ''macro_summary''],
        bp_params = [(''short_window'', PNum 12), (''long_window'', PNum 34)],
        bp_source_kind = ''mock'', bp_provider_status = status_text (ls_code st)\<rparr>,
      sg_dropped_params = [], sg_provider_model = ls_model st, sg_provider_message = ls_message st,
      sg_debate_report = Some
        \<lparr>db_for = [''Macro pulse supports disciplined exposure.'',
           ''Low turnover fits the current regime backdrop.''],
         db_against = [''ETF leadership may still rotate quickly.'',
           ''Trend strength is not decisive yet.''],
         db_synthesis = ''Admissible as a monitored trend candidate when macro pressure stays stable.''\<rparr>,
      sg_llm_score = Some 77,
      sg_llm_explanation = Some
        ''Macro conditions are supportive but not euphoric, which fits a low-churn trend thesis.'',
      sg_prompt_versions = all_prompt_versions\<rparr>"

definition harbor_drift :: "llm_status \<Rightarrow> staged" where
  "harbor_drift st =
     \<lparr>sg_blueprint = \<lparr>bp_title = ''Harbor Drift'', bp_base_strategy = ''channel_breakout'',
        bp_thesis = ''Watch for volatility compression and breakout only when macro drift stays contained.'',
        bp_knowledge_families_used = [''breakout'', ''volatility_filter''],
        bp_baseline_delta_summary =
          map char_of [229 :: nat, 156, 168, 233, 128, 154, 233, 129, 147, 231, 170, 129, 231, 160,
         180, 228, 184, 138, 229, 188, 186, 232, 176, 131, 230, 179, 162, 229, 138, 168,
         229, 142, 139, 231, 188, 169, 229, 146, 140, 229, 174, 143, 232, 167, 130, 229,
         185, 179, 231, 168, 179, 231, 186, 166, 230, 157, 159, 239, 188, 140, 229, 177,
         158, 228, 186, 142, 231, 170, 129, 231, 160, 180, 232, 191, 135, 230, 187, 164,
         229, 143, 152, 228, 189, 147, 227, 128, 130],
        bp_novelty_claim =
          map char_of [228 :: nat, 184, 173, 231, 173, 137, 229, 136, 155, 230, 150, 176, 239, 188,
         154, 231, 170, 129, 231, 160, 180, 229, 159, 186, 231, 186, 191, 32, 43, 32, 230,
         179, 162, 229, 138, 168, 231, 142, 135, 232, 191, 135, 230, 187, 164, 227, 128,
         130],
        bp_features_used = [''Donchian'', ''ATR'', ''volatility'', ''macro_summary''],
        bp_params = [(''lookback'', PNum 20)],
        bp_source_kind = ''mock'', bp_provider_status = status_text (ls_code st)\<rparr>,
      sg_dropped_params = [], sg_provider_model = ls_model st, sg_provider_message = ls_message st,
      sg_debate_report = Some
        \<lparr>db_for = [''Breakout logic is aligned with contained macro drift.'',
           ''ATR keeps entries disciplined.''],
         db_against = [''Regime confidence is not decisive.'',
           ''False breakouts remain possible in a ranging tape.''],
         db_synthesis = ''Good challenge candidate, but not strong enough to auto-promote without more evidence.''\<rparr>,
      sg_llm_score = Some 78,
      sg_llm_explanation = Some
        ''The event backdrop supports a challenge run, but the regime evidence is not decisive enough yet.'',
      sg_prompt_versions = all_prompt_versions\<rparr>"

definition tide_counter :: "llm_status \<Rightarrow> staged" where
  "tide_counter st =
     \<lparr>sg_blueprint = \<lparr>bp_title = ''Tide Counter'', bp_base_strategy = ''mean_reversion'',
        bp_thesis = ''Fade short over-extension if macro pressure eases and realized volatility compresses.'',
        bp_knowledge_families_used = [''mean_reversion'', ''momentum_filter''],
        bp_baseline_delta_summary =
          map char_of [229 :: nat, 156, 168, 229, 157, 135, 229, 128, 188, 229, 155, 158, 229, 189,
         146, 228, 184, 138, 229, 138, 160, 229, 133, 165, 229, 174, 143, 232, 167, 130,
         231, 188, 147, 229, 146, 140, 229, 146, 140, 230, 179, 162, 229, 138, 168, 230,
         148, 182, 231, 188, 169, 229, 137, 141, 230, 143, 144, 239, 188, 140, 229, 177,
         158, 228, 186, 142, 229, 143, 141, 232, 189, 172, 232, 191, 135, 230, 187, 164,
         229, 143, 152, 228, 189, 147, 227, 128, 130],
        bp_novelty_claim =
          map char_of [232 :: nat, 189, 187, 229, 186, 166, 229, 136, 155, 230, 150, 176, 239, 188,
         154, 229, 157, 135, 229, 128, 188, 229, 155, 158, 229, 189, 146, 229, 159, 186,
         231, 186, 191, 32, 43, 32, 231, 142, 175, 229, 162, 131, 232, 191, 135, 230, 187,
         164, 227, 128, 130],
        bp_features_used = [''Bollinger'', ''RSI'', ''volatility'', ''macro_summary''],
        bp_params = [(''window'', PNum 20), (''rsi_threshold'', PNum 30)],
        bp_source_kind = ''mock'', bp_provider_status = status_text (ls_code st)\<rparr>,
      sg_dropped_params = [], sg_provider_model = ls_model st, sg_provider_message = ls_message st,
      sg_debate_report = Some
        \<lparr>db_for = [''Volatility compression can support mean reversion entries.'',
           ''Macro pressure is easing from recent highs.''],
         db_against = [''Trend strength may still dominate reversion setups.'',
           ''Execution noise can erase the edge quickly.''],
         db_synthesis = ''Coherent idea, but still too fragile for paper promotion.''\<rparr>,
      sg_llm_score = Some 70,
      sg_llm_explanation = Some
        ''The idea is coherent, but the evidence pack is still too fragile for paper promotion.'',
      sg_prompt_versions = all_prompt_versions\<rparr>"


definition fallback_proposal_blueprints :: "llm_status \<Rightarrow> staged list" where
  "fallback_proposal_blueprints st = [signal_reef st, harbor_drift st, tide_counter st]"

section \<open>Structures offered to the strategy agent\<close>

text \<open>The hints and the risk notes of a template are Chinese prose and are left out.\<close>

record proposal_template =
  pt_template_id :: string
  pt_base_strategy :: string
  pt_families :: "string list"
  pt_fit_when :: "string list"

definition proposal_templates_for_market_context :: "string list \<Rightarrow> string list \<Rightarrow> proposal_template list" where
  "proposal_templates_for_market_context conditions preferred =
     (let trend = ''trend_following'' \<in> set preferred in
      take 4 (
       [\<lparr>pt_template_id = ''fundamental_growth_template'', pt_base_strategy = ''novel_composite'',
         pt_families = [''fundamental_growth'', ''regime_filter''],
         pt_fit_when = [''bullish'', ''orderly_expansion'', ''persistent_trend'']\<rparr>,
        \<lparr>pt_template_id = ''regime_filtered_rotation_template'', pt_base_strategy = ''novel_composite'',
         pt_families = [''cross_sectional_ranking'', ''regime_filter'', ''portfolio_construction_overlay''],
         pt_fit_when = [''leadership_concentration'', ''orderly_expansion'', ''persistent_trend'']\<rparr>,
        \<lparr>pt_template_id = ''defensive_portfolio_overlay_template'',
         pt_base_strategy = (if trend then ''ma_cross'' else ''novel_composite''),
         pt_families = (if trend then [''trend_following'', ''portfolio_construction_overlay'']
           else [''portfolio_construction_overlay'', ''regime_filter'']),
         pt_fit_when = [''orderly_expansion'', ''range_bound'']\<rparr>]
       @ (if list_ex (\<lambda>c. c \<in> set [''range_bound'', ''low_conviction'']) conditions then
           [\<lparr>pt_template_id = ''defensive_mean_reversion_filter_template'', pt_base_strategy = ''mean_reversion'',
             pt_families = [''mean_reversion'', ''volatility_filter'', ''regime_filter''],
             pt_fit_when = [''range_bound'', ''low_conviction'', ''volatility_compression'']\<rparr>]
          else [])))"

section \<open>Normalisation of the proposals\<close>

definition allowed_strategies :: "string list" where
  "allowed_strategies = names create_default_registry @ [''novel_composite'']"

definition allowed_features :: "string list" where
  "allowed_features = [''SMA'', ''EMA'', ''RSI'', ''MACD'', ''ATR'', ''ADX'', ''Bollinger'', ''Donchian'', ''ROC'',
     ''Volume MA'', ''volatility'', ''drawdown'', ''macro_summary'']"

fun param_value :: "json \<Rightarrow> pval" where
  "param_value JNull = PNone"
| "param_value (JBool b) = PBool b"
| "param_value (JNum x) = PNum x"
| "param_value JInfinity = PInfinity"
| "param_value JMinusInfinity = PMinusInfinity"
| "param_value JNaN = PNaN"
| "param_value (JStr s) = PStr s"
| "param_value (JList js) = PList (map param_value js)"
| "param_value (JObj kvs) = PDict (map (\<lambda>(k, j). (k, param_value j)) kvs)"

definition proposal_params :: "(string \<times> json) list \<Rightarrow> params" where
  "proposal_params kvs =
     (case map_of kvs ''params'' of Some (JObj ps) \<Rightarrow> map (\<lambda>(k, j). (k, param_value j)) ps | _ \<Rightarrow> [])"

definition proposal_features :: "text_env \<Rightarrow> (string \<times> json) list \<Rightarrow> string list res" where
  "proposal_features te kvs =
     rbind (case map_of kvs ''features_used'' of None \<Rightarrow> Inr [] | Some j \<Rightarrow> items_of j) (\<lambda>js.
       let fs = take 6 (filter (\<lambda>f. f \<in> set allowed_features) (map (py_str te) js))
       in Inr (if fs = [] then [''volatility'', ''macro_summary''] else fs))"

definition proposal_families :: "text_env \<Rightarrow> (string \<times> json) list \<Rightarrow> string list res" where
  "proposal_families te kvs =
     rbind (case map_of kvs ''knowledge_families_used'' of None \<Rightarrow> Inr []
            | Some j \<Rightarrow> if truthy j then items_of j else Inr [])
       (\<lambda>js. Inr (dedupe (nonblank (map (py_str te) js))))"

definition proposal_base :: "text_env \<Rightarrow> (string \<times> json) list \<Rightarrow> string" where
  "proposal_base te kvs = text_get te kvs ''base_strategy'' ''ma_cross''"

definition proposal_title :: "text_env \<Rightarrow> nat \<Rightarrow> (string \<times> json) list \<Rightarrow> string" where
  "proposal_title te index kvs =
     take 80 (py_strip (text_get te kvs ''title'' (''LLM Proposal '' @ py_str_nat (index + 1))))"

definition proposal_thesis :: "text_env \<Rightarrow> (string \<times> json) list \<Rightarrow> string" where
  "proposal_thesis te kvs = py_strip (text_get te kvs ''thesis'' [])"

text \<open>The parameters that are kept, and the families of the proposal or else of its baseline.\<close>

definition kept_params :: "string \<Rightarrow> params \<Rightarrow> params res" where
  "kept_params base ps = (if base \<noteq> ''novel_composite'' then sanitize_strategy_params create_default_registry base ps
     else Inr ps)"

definition resolved_families :: "string \<Rightarrow> string list \<Rightarrow> string list res" where
  "resolved_families base stated =
     (if stated = [] \<and> base \<noteq> ''novel_composite''
      then rbind (registry_get create_default_registry base) (\<lambda>d. Inr (sd_knowledge_families d))
      else Inr stated)"

definition normalized_blueprint ::
  "text_env \<Rightarrow> llm_status \<Rightarrow> string \<Rightarrow> nat \<Rightarrow> (string \<times> json) list \<Rightarrow> string list \<Rightarrow> params \<Rightarrow> string list \<Rightarrow> staged" where
  "normalized_blueprint te st source index kvs features sanitized families =
     \<lparr>sg_blueprint = \<lparr>bp_title = proposal_title te index kvs, bp_base_strategy = proposal_base te kvs,
        bp_thesis = proposal_thesis te kvs, bp_knowledge_families_used = families,
        bp_baseline_delta_summary = take 240 (py_strip (text_get te kvs ''baseline_delta_summary'' [])),
        bp_novelty_claim = take 240 (py_strip (text_get te kvs ''novelty_claim'' [])),
        bp_features_used = features, bp_params = sanitized, bp_source_kind = source,
        bp_provider_status = status_text (ls_code st)\<rparr>,
      sg_dropped_params = (if proposal_base te kvs \<noteq> ''novel_composite''
         then sort (filter (\<lambda>k. k \<notin> set (map fst sanitized)) (map fst (proposal_params kvs))) else []),
      sg_provider_model = ls_model st, sg_provider_message = ls_message st,
      sg_debate_report = None, sg_llm_score = None, sg_llm_explanation = None,
      sg_prompt_versions = [(''strategy_agent'', STRATEGY_AGENT_PROMPT_VERSION)]\<rparr>"

text \<open>One proposal: nothing when it is passed over, an error when a field cannot be iterated.\<close>

definition normalize_proposal :: "text_env \<Rightarrow> llm_status \<Rightarrow> string \<Rightarrow> nat \<Rightarrow> json \<Rightarrow> staged option res" where
  "normalize_proposal te st source index proposal =
     (case proposal of
        JObj kvs \<Rightarrow>
          (let base = proposal_base te kvs in
           if base \<notin> set allowed_strategies then Inr None
           else if proposal_title te index kvs = [] \<or> proposal_thesis te kvs = [] then Inr None
           else
             rbind (proposal_features te kvs) (\<lambda>features.
             rbind (kept_params base (proposal_params kvs)) (\<lambda>sanitized.
             rbind (proposal_families te kvs) (\<lambda>stated.
             rbind (resolved_families base stated) (\<lambda>families.
               if base = ''novel_composite'' \<and> families = [] then Inr None
               else Inr (Some (normalized_blueprint te st source index kvs features sanitized families)))))))
      | _ \<Rightarrow> Inr None)"

fun normalize_from :: "text_env \<Rightarrow> llm_status \<Rightarrow> string \<Rightarrow> nat \<Rightarrow> json list \<Rightarrow> staged list res" where
  "normalize_from te st source index [] = Inr []"
| "normalize_from te st source index (p # ps) =
     rbind (normalize_proposal te st source index p) (\<lambda>b.
     rbind (normalize_from te st source (Suc index) ps) (\<lambda>bs.
       Inr (case b of None \<Rightarrow> bs | Some x \<Rightarrow> x # bs)))"

definition normalize_strategy_agent_blueprints ::
  "text_env \<Rightarrow> json \<Rightarrow> llm_status \<Rightarrow> string \<Rightarrow> staged list res" where
  "normalize_strategy_agent_blueprints te payload st source =
     (case payload of
        JObj kvs \<Rightarrow>
          (case map_of kvs ''proposals'' of
             None \<Rightarrow> Inr []
           | Some (JList ps) \<Rightarrow> normalize_from te st source 0 (take 2 ps)
           | Some _ \<Rightarrow> Inr [])
      | _ \<Rightarrow> Inl AttributeError)"

section \<open>Mean reversion in a strong range\<close>

definition pval_truthy :: "pval \<Rightarrow> bool" where
  "pval_truthy v = (case v of PNum x \<Rightarrow> x \<noteq> 0 | PBool b \<Rightarrow> b | PStr s \<Rightarrow> s \<noteq> [] | PNone \<Rightarrow> False
     | PList vs \<Rightarrow> vs \<noteq> [] | PDict kvs \<Rightarrow> kvs \<noteq> [] | _ \<Rightarrow> True)"

text \<open>\<open>int(params.get(k, d) or d)\<close> and \<open>float(params.get(k, d) or d)\<close>.\<close>

definition param_int :: "text_env \<Rightarrow> params \<Rightarrow> string \<Rightarrow> int \<Rightarrow> int res" where
  "param_int te ps k d =
     (case map_of ps k of
        None \<Rightarrow> Inr d
      | Some v \<Rightarrow> if \<not> pval_truthy v then Inr d
          else (case v of PNum x \<Rightarrow> Inr (py_int x) | PBool b \<Rightarrow> Inr 1
                | PInfinity \<Rightarrow> Inl OverflowError | PMinusInfinity \<Rightarrow> Inl OverflowError | PNaN \<Rightarrow> Inl ValueError
                | PStr s \<Rightarrow> (case te_read_int te s of None \<Rightarrow> Inl ValueError | Some n \<Rightarrow> Inr n)
                | _ \<Rightarrow> Inl TypeError))"

definition param_float :: "text_env \<Rightarrow> params \<Rightarrow> string \<Rightarrow> real \<Rightarrow> fl res" where
  "param_float te ps k d =
     (case map_of ps k of
        None \<Rightarrow> Inr (Fin d)
      | Some v \<Rightarrow> if \<not> pval_truthy v then Inr (Fin d)
          else (case v of PNum x \<Rightarrow> if too_large x then Inl OverflowError else Inr (Fin x) | PBool b \<Rightarrow> Inr (Fin 1)
                | PInfinity \<Rightarrow> Inr PInf | PMinusInfinity \<Rightarrow> Inr NInf | PNaN \<Rightarrow> Inr NaN
                | PStr s \<Rightarrow> (case te_read_float te s of None \<Rightarrow> Inl ValueError | Some x \<Rightarrow> Inr x)
                | _ \<Rightarrow> Inl TypeError))"

definition stabilize_one :: "text_env \<Rightarrow> trial option \<Rightarrow> staged \<Rightarrow> staged res" where
  "stabilize_one te guided b =
     (let ps = bp_params (sg_blueprint b) in
      if bp_base_strategy (sg_blueprint b) = ''mean_reversion'' then
        (let default_z = (case guided of None \<Rightarrow> 24 | Some t \<Rightarrow> tl_z_window t);
             default_entry = (case guided of None \<Rightarrow> 1.7 | Some t \<Rightarrow> tl_entry_threshold t);
             default_exit = (case guided of None \<Rightarrow> 0.4 | Some t \<Rightarrow> tl_exit_threshold t)
         in rbind (param_int te ps ''z_window'' default_z) (\<lambda>z.
            rbind (param_float te ps ''entry_threshold'' default_entry) (\<lambda>entry.
            rbind (param_float te ps ''exit_threshold'' default_exit) (\<lambda>exit.
              let z' = max 24 (min 28 (if guided = None then z else default_z));
                  entry' = py_round (py_clamp 1.6 1.8 (if guided = None then entry else Fin default_entry)) 2;
                  exit' = py_round (py_clamp 0.2 0.6 (if guided = None then exit else Fin default_exit)) 2;
                  ps' = AList.update ''use_short'' (PBool False)
                          (AList.update ''exit_threshold'' (PNum exit')
                            (AList.update ''entry_threshold'' (PNum entry')
                              (AList.update ''z_window'' (PNum (of_int z')) ps)))
              in Inr (b\<lparr>sg_blueprint := (sg_blueprint b)\<lparr>bp_params := ps'\<rparr>\<rparr>)))))
      else Inr b)"

fun stabilize_all :: "text_env \<Rightarrow> trial option \<Rightarrow> staged list \<Rightarrow> staged list res" where
  "stabilize_all te guided [] = Inr []"
| "stabilize_all te guided (b # bs) =
     rbind (stabilize_one te guided b) (\<lambda>x. rbind (stabilize_all te guided bs) (\<lambda>xs. Inr (x # xs)))"

definition stabilize_blueprints_for_market_context ::
  "text_env \<Rightarrow> string list \<Rightarrow> trial option \<Rightarrow> staged list \<Rightarrow> staged list res" where
  "stabilize_blueprints_for_market_context te conditions guided bs =
     (if \<not> is_strong_ranging_context conditions then Inr bs else stabilize_all te guided bs)"

section \<open>The strategy agent\<close>

definition prioritize_staged :: "staged list \<Rightarrow> snapshot \<Rightarrow> string list \<Rightarrow> string list \<Rightarrow> staged list" where
  "prioritize_staged bs s preferred discouraged =
     (if length bs \<le> 1 then bs
      else sort_key (\<lambda>b. blueprint_market_fit_rank (sg_blueprint b) s preferred discouraged) bs)"

text \<open>The baselines that go into the prompt: the rows of the table of strategy snapshots whose
  strategies support the market.  A row with a name that is not in the registry raises.\<close>

fun agent_baselines :: "string list \<Rightarrow> string \<Rightarrow> strategy_definition list res" where
  "agent_baselines [] scope = Inr []"
| "agent_baselines (n # ns) scope =
     rbind (registry_get create_default_registry n) (\<lambda>d.
     rbind (agent_baselines ns scope) (\<lambda>ds.
       Inr (if scope \<in> set (sd_supported_markets d) then d # ds else ds)))"

text \<open>The blueprints, the audit row, which is missing when the prompt could not be built, and the status.\<close>

definition run_strategy_agent ::
  "stage_env \<Rightarrow> (nat \<Rightarrow> json attempt) \<Rightarrow> string list \<Rightarrow> trial option \<Rightarrow> snapshot \<Rightarrow> llm_runtime option
     \<Rightarrow> staged list res \<times> audit option \<times> llm_runtime option" where
  "run_strategy_agent sv answers snapshot_names guided s rt =
     (case agent_baselines snapshot_names (sn_market_scope s) of
        Inl e \<Rightarrow> (Inl e, None, rt)
      | Inr _ \<Rightarrow>
     (let (reply, rt') = invoke_json (sv_llm sv) answers STRATEGY_AGENT_SCHEMA_HINT rt;
          conditions = current_market_conditions s;
          (preferred, discouraged) = effective_knowledge_preferences (sn_market_profile s) conditions;
          te = sv_text sv;
          source = provider_name (in_source_kind reply)
      in (rbind (normalize_strategy_agent_blueprints te (in_payload reply) (in_status reply) source) (\<lambda>bs.
          rbind (stabilize_blueprints_for_market_context te conditions guided bs) (\<lambda>bs'.
            let ordered = prioritize_staged bs' s preferred discouraged
            in Inr (if ordered \<noteq> [] then ordered else fallback_proposal_blueprints (in_status reply)))),
          Some (record_llm_stage ''strategy_agent'' STRATEGY_AGENT_PROMPT_VERSION (in_status reply)
            [(''source_kind'', source)] (sv_now sv)),
          rt')))"

section \<open>The description that is backtested\<close>

record strategy_dsl =
  ds_thesis :: string
  ds_required_regime :: string
  ds_event_digest_hash :: string
  ds_market_scope :: string
  ds_entry_rules :: "params list"
  ds_exit_rules :: "params list"
  ds_risk_rules :: "params list"
  ds_execution_constraints :: "string list"
  ds_position_sizing :: params
  ds_min_holding_days :: int
  ds_cooldown_days :: int
  ds_features_used :: "string list"
  ds_params :: params

text \<open>\<open>{'base_strategy': base, 'symbol': symbol, **params}\<close>: what the blueprint says comes last.\<close>

definition dsl_params :: "string \<Rightarrow> string \<Rightarrow> params \<Rightarrow> params" where
  "dsl_params base symbol ps =
     AList.updates (map fst ps) (map snd ps) [(''base_strategy'', PStr base), (''symbol'', PStr symbol)]"

definition strategy_dsl_of :: "blueprint \<Rightarrow> snapshot \<Rightarrow> string \<Rightarrow> string \<Rightarrow> strategy_dsl" where
  "strategy_dsl_of b s digest_hash scope =
     \<lparr>ds_thesis = bp_thesis b, ds_required_regime = sn_regime s, ds_event_digest_hash = digest_hash,
      ds_market_scope = scope,
      ds_entry_rules = [[(''indicator'', PStr ''SMA''), (''operator'', PStr ''cross_above''), (''lhs'', PNum 10), (''rhs'', PNum 30)],
        [(''indicator'', PStr ''volatility''), (''operator'', PStr ''lte''), (''value'', PNum 0.035)]],
      ds_exit_rules = [[(''indicator'', PStr ''drawdown''), (''operator'', PStr ''gte''), (''value'', PNum 0.06)],
        [(''indicator'', PStr ''EMA''), (''operator'', PStr ''cross_below''), (''lhs'', PNum 8), (''rhs'', PNum 21)]],
      ds_risk_rules = [[(''rule'', PStr ''long_only''), (''value'', PBool True)],
        [(''rule'', PStr ''no_leverage''), (''value'', PBool True)],
        [(''rule'', PStr ''daily_rebalance_only''), (''value'', PBool True)]],
      ds_execution_constraints = mp_execution_constraints (sn_market_profile s),
      ds_position_sizing = [(''mode'', PStr ''fixed_fraction''), (''value'', PNum 0.18)],
      ds_min_holding_days = 8,
      ds_cooldown_days = gp_cooldown_days (market_governance_profile scope),
      ds_features_used = bp_features_used b,
      ds_params = dsl_params (bp_base_strategy b) (sn_symbol s) (bp_params b)\<rparr>"

section \<open>The research debate\<close>

definition fallback_debate_report :: "staged \<Rightarrow> string \<Rightarrow> debate" where
  "fallback_debate_report b pulse =
     (case sg_debate_report b of
        Some r \<Rightarrow> r
      | None \<Rightarrow>
          \<lparr>db_for = [''Macro pulse supports disciplined exposure: '' @ pulse,
             ''Single active strategy keeps execution risk bounded.''],
           db_against = [''Macro conditions can still reverse quickly and invalidate the thesis.'',
             ''Execution noise remains non-zero and should be watched for rollback.''],
           db_synthesis = bp_title (sg_blueprint b) @
             '' is admissible as a monitored candidate when macro conditions are summarized rather than traded directly.''\<rparr>)"

definition version_of :: "staged \<Rightarrow> string \<Rightarrow> string \<Rightarrow> string" where
  "version_of b stage d = (case map_of (sg_prompt_versions b) stage of None \<Rightarrow> d | Some v \<Rightarrow> v)"

text \<open>The report with its prompt version, the audit row of the call and the status of the gateway.\<close>

definition run_research_debate ::
  "stage_env \<Rightarrow> (nat \<Rightarrow> json attempt) \<Rightarrow> staged \<Rightarrow> string \<Rightarrow> llm_runtime option
     \<Rightarrow> (debate \<times> string) \<times> audit list \<times> llm_runtime option" where
  "run_research_debate sv answers b pulse rt =
     (if bp_source_kind (sg_blueprint b) = ''mock'' then
        ((fallback_debate_report b pulse, version_of b ''research_debate'' RESEARCH_DEBATE_PROMPT_VERSION), [], rt)
      else
        (let (reply, rt') = invoke_json (sv_llm sv) answers RESEARCH_DEBATE_SCHEMA_HINT rt;
             raw = fields_of (in_payload reply);
             te = sv_text sv;
             report = \<lparr>db_for = list_texts te raw ''stance_for'' 3, db_against = list_texts te raw ''stance_against'' 3,
                       db_synthesis = py_strip (text_or te raw ''synthesis'' [])\<rparr>
         in ((if db_for report = [] \<or> db_against report = [] \<or> db_synthesis report = []
              then fallback_debate_report b pulse else report, RESEARCH_DEBATE_PROMPT_VERSION),
             [record_llm_stage ''research_debate'' RESEARCH_DEBATE_PROMPT_VERSION (in_status reply)
                [(''proposal_title'', bp_title (sg_blueprint b))] (sv_now sv)],
             rt')))"

section \<open>The risk judgment\<close>

record risk_opinion =
  jd_llm_score :: real
  jd_llm_explanation :: string
  jd_prompt_version :: string

definition fallback_risk_judgment :: "staged \<Rightarrow> risk_opinion" where
  "fallback_risk_judgment b =
     \<lparr>jd_llm_score = (case sg_llm_score b of None \<Rightarrow> 72 | Some x \<Rightarrow> x),
      jd_llm_explanation = (case sg_llm_explanation b of
          None \<Rightarrow> ''Mock fallback kept the prior contextual ranking.'' | Some t \<Rightarrow> t),
      jd_prompt_version = version_of b ''risk_manager_llm'' RISK_MANAGER_LLM_PROMPT_VERSION\<rparr>"

text \<open>Of the errors of \<open>float\<close> only \<open>TypeError\<close> and \<open>ValueError\<close> are caught.\<close>

definition answered_score :: "text_env \<Rightarrow> (string \<times> json) list \<Rightarrow> fl res" where
  "answered_score te raw =
     (case map_of raw ''llm_score'' of None \<Rightarrow> Inr (Fin 72)
      | Some j \<Rightarrow> (case py_float te j of
            Inl e \<Rightarrow> if e \<in> {TypeError, ValueError} then Inr (Fin 72) else Inl e
          | Inr x \<Rightarrow> Inr x))"

definition answered_explanation :: "text_env \<Rightarrow> (string \<times> json) list \<Rightarrow> string" where
  "answered_explanation te raw = py_strip (text_or te raw ''llm_explanation'' [])"

text \<open>The judgment with the prompt versions of the evidence, the audit row and the status.\<close>

definition run_risk_judgment ::
  "stage_env \<Rightarrow> (nat \<Rightarrow> json attempt) \<Rightarrow> staged \<Rightarrow> string \<Rightarrow> snapshot \<Rightarrow> llm_runtime option
     \<Rightarrow> (risk_opinion \<times> (string \<times> string) list) res \<times> audit list \<times> llm_runtime option" where
  "run_risk_judgment sv answers b debate_version s rt =
     (let penalty = knowledge_penalty_score (assess_knowledge (sg_blueprint b) s) in
      if bp_source_kind (sg_blueprint b) = ''mock'' then
        (let j = fallback_risk_judgment b
         in (Inr (j\<lparr>jd_llm_score := max 50 (jd_llm_score j - penalty)\<rparr>, sg_prompt_versions b), [], rt))
      else
        (let (reply, rt') = invoke_json (sv_llm sv) answers RISK_MANAGER_LLM_SCHEMA_HINT rt;
             raw = fields_of (in_payload reply);
             te = sv_text sv;
             explanation = answered_explanation te raw
         in (rbind (answered_score te raw) (\<lambda>score.
               let j = (if explanation = []
                    then (fallback_risk_judgment b)\<lparr>jd_prompt_version := RISK_MANAGER_LLM_PROMPT_VERSION\<rparr>
                    else \<lparr>jd_llm_score = py_clamp 50 95 (fl_sub score (Fin penalty)),
                          jd_llm_explanation = explanation, jd_prompt_version = RISK_MANAGER_LLM_PROMPT_VERSION\<rparr>)
               in Inr (j, AList.updates [''research_debate'', ''risk_manager_llm''] [debate_version, jd_prompt_version j]
                     (sg_prompt_versions b))),
             [record_llm_stage ''risk_manager_llm'' RISK_MANAGER_LLM_PROMPT_VERSION (in_status reply)
                [(''proposal_title'', bp_title (sg_blueprint b))] (sv_now sv)],
             rt')))"

end
