(* ===== verification/Stage_Properties.thy ===== *)
theory Stage_Properties imports LLM_Stages begin

text \<open>
  What the language-model stages guarantee whatever the model answers: the form of the blueprints
  and that each can be built, the errors an answer can raise, the fallbacks of a silent gateway,
  the scores of the risk judgment, and the view merged into the snapshot.
\<close>

section \<open>Baselines are registered strategies\<close>

lemma baseline_names: "set allowed_strategies =
    insert ''novel_composite'' (set (map (registry_key \<circ> sd_name) iter_builtin_strategy_plugins))"
proof -
  have "set (names create_default_registry) = set (map fst create_default_registry)"
    by (simp only: names_def set_sort)
  then show ?thesis
    unfolding allowed_strategies_def set_append builtin_keys
    by (simp only: default_names list.set Un_insert_right Un_empty_right)
qed

lemma baseline_definition:
  assumes "base \<in> set allowed_strategies" "base \<noteq> ''novel_composite''"
  obtains d where "d \<in> set iter_builtin_strategy_plugins" "registry_key base = registry_key (sd_name d)"
    "base = registry_key (sd_name d)"
proof -
  have "list_all (\<lambda>k. registry_key k = k) [''ma_cross'', ''rsi'', ''macd'', ''mean_reversion'', ''channel_breakout'']"
    by code_simp
  then have same: "list_all (\<lambda>k. registry_key k = k) (map (registry_key \<circ> sd_name) iter_builtin_strategy_plugins)"
    unfolding builtin_keys .
  obtain d where d: "d \<in> set iter_builtin_strategy_plugins" "base = registry_key (sd_name d)"
    using assms unfolding baseline_names by auto
  have "registry_key (registry_key (sd_name d)) = registry_key (sd_name d)"
    using same d(1) by (simp add: list_all_iff)
  with that d show thesis by simp
qed

lemma baseline_families:
  "list_all (\<lambda>d. sd_knowledge_families d \<noteq> [] \<and> distinct (sd_knowledge_families d)) iter_builtin_strategy_plugins"
  by code_simp

lemma reserved_keys: "k \<in> set [''base_strategy'', ''symbol''] \<Longrightarrow> k \<notin> set (init_params c)"
  by (cases c) (auto simp: init_params_def)

lemma sanitized_baseline:
  assumes "base \<in> set allowed_strategies" "base \<noteq> ''novel_composite''"
  obtains c where "sanitize_strategy_params create_default_registry base ps
      = Inr (filter (\<lambda>(k, _). k \<in> set (init_params c)) ps)"
    "\<exists>d\<in>set iter_builtin_strategy_plugins. registry_get create_default_registry base = Inr (stored_definition d)"
proof -
  obtain d where d: "d \<in> set iter_builtin_strategy_plugins" "registry_key base = registry_key (sd_name d)"
    by (rule baseline_definition [OF assms])
  obtain c where c: "or_else (sd_stream_cls d) (sd_vectorized_cls d) = Some c"
    by (rule builtin_class [OF d(1)])
  have "sanitize_strategy_params create_default_registry base ps = Inr (filter (\<lambda>(k, _). k \<in> set (init_params c)) ps)"
    by (simp add: sanitize_strategy_params_def default_registry_get [OF d] c)
  with that d(1) default_registry_get [OF d] show thesis by blast
qed

section \<open>The form of a blueprint\<close>

definition free_of_reserved :: "params \<Rightarrow> bool" where
  "free_of_reserved ps \<longleftrightarrow> ''base_strategy'' \<notin> set (map fst ps) \<and> ''symbol'' \<notin> set (map fst ps)"

definition well_formed_blueprint :: "blueprint \<Rightarrow> bool" where
  "well_formed_blueprint b \<longleftrightarrow>
     bp_title b \<noteq> [] \<and> length (bp_title b) \<le> 80 \<and> bp_thesis b \<noteq> []
     \<and> bp_base_strategy b \<in> set allowed_strategies
     \<and> bp_knowledge_families_used b \<noteq> [] \<and> distinct (bp_knowledge_families_used b)
     \<and> bp_features_used b \<noteq> [] \<and> length (bp_features_used b) \<le> 6
     \<and> set (bp_features_used b) \<subseteq> set allowed_features
     \<and> (bp_base_strategy b = ''novel_composite'' \<or> free_of_reserved (bp_params b))"

lemma default_features_allowed: "set [''volatility'', ''macro_summary''] \<subseteq> set allowed_features"
  unfolding allowed_features_def by (simp only: list.set) blast

lemma features_form:
  assumes "proposal_features te kvs = Inr fs"
  shows "fs \<noteq> [] \<and> length fs \<le> 6 \<and> set fs \<subseteq> set allowed_features"
proof -
  obtain js where "fs = (let xs = take 6 (filter (\<lambda>f. f \<in> set allowed_features) js)
      in if xs = [] then [''volatility'', ''macro_summary''] else xs)"
    using assms by (auto simp: proposal_features_def rbind_eq_Inr_iff)
  then show ?thesis
    using default_features_allowed by (auto simp: Let_def split: if_splits dest: in_set_takeD)
qed

lemma families_form: "proposal_families te kvs = Inr fs \<Longrightarrow> distinct fs"
  by (auto simp: proposal_families_def rbind_eq_Inr_iff)

lemma kept_params_form:
  assumes "kept_params base ps = Inr qs" "base \<in> set allowed_strategies"
  shows "base = ''novel_composite'' \<or> free_of_reserved qs"
proof (cases "base = ''novel_composite''")
  case False
  obtain c where "sanitize_strategy_params create_default_registry base ps
      = Inr (filter (\<lambda>(k, _). k \<in> set (init_params c)) ps)"
    by (rule sanitized_baseline [OF assms(2) False])
  then have "qs = filter (\<lambda>(k, _). k \<in> set (init_params c)) ps"
    using assms(1) False by (simp add: kept_params_def)
  then show ?thesis using reserved_keys by (auto simp: free_of_reserved_def)
qed simp

lemma resolved_families_form:
  assumes "resolved_families base stated = Inr families" "base \<in> set allowed_strategies" "distinct stated"
  shows "distinct families \<and> (base = ''novel_composite'' \<or> families \<noteq> [])"
proof (cases "stated = [] \<and> base \<noteq> ''novel_composite''")
  case True
  then obtain d where "d \<in> set iter_builtin_strategy_plugins"
    "registry_get create_default_registry base = Inr (stored_definition d)"
    using sanitized_baseline [OF assms(2)] by blast
  then show ?thesis using assms(1) True baseline_families by (auto simp: resolved_families_def list_all_iff)
next
  case False
  then show ?thesis using assms by (auto simp: resolved_families_def)
qed

lemma normalized_form:
  assumes "normalize_proposal te st source i p = Inr (Some b)"
  shows "well_formed_blueprint (sg_blueprint b) \<and> bp_source_kind (sg_blueprint b) = source
    \<and> sg_llm_score b = None \<and> sg_debate_report b = None"
proof -
  obtain kvs where p: "p = JObj kvs"
    using assms by (cases p) (simp_all add: normalize_proposal_def)
  let ?base = "proposal_base te kvs"
  have ok: "?base \<in> set allowed_strategies" "proposal_title te i kvs \<noteq> []" "proposal_thesis te kvs \<noteq> []"
    using assms by (auto simp: p normalize_proposal_def Let_def split: if_splits)
  then obtain fs qs stated families where
    fs: "proposal_features te kvs = Inr fs" and qs: "kept_params ?base (proposal_params kvs) = Inr qs"
    and stated: "proposal_families te kvs = Inr stated" and families: "resolved_families ?base stated = Inr families"
    and some: "\<not> (?base = ''novel_composite'' \<and> families = [])"
    and b: "b = normalized_blueprint te st source i kvs fs qs families"
    using assms by (auto simp: p normalize_proposal_def Let_def rbind_eq_Inr_iff split: if_splits)
  show ?thesis
    using ok some features_form [OF fs] kept_params_form [OF qs ok(1)]
      resolved_families_form [OF families ok(1) families_form [OF stated]]
    by (auto simp: b well_formed_blueprint_def normalized_blueprint_def proposal_title_def)
qed

lemma normalize_from_form:
  "normalize_from te st source i ps = Inr bs \<Longrightarrow>
     length bs \<le> length ps \<and> list_all (\<lambda>b. well_formed_blueprint (sg_blueprint b)
       \<and> bp_source_kind (sg_blueprint b) = source \<and> sg_llm_score b = None \<and> sg_debate_report b = None) bs"
proof (induction ps arbitrary: i bs)
  case (Cons p ps)
  then obtain b bs' where b: "normalize_proposal te st source i p = Inr b"
    "normalize_from te st source (Suc i) ps = Inr bs'" "bs = (case b of None \<Rightarrow> bs' | Some x \<Rightarrow> x # bs')"
    by (auto simp: rbind_eq_Inr_iff)
  show ?case using Cons.IH [OF b(2)] b(3) normalized_form [of te st source i p] b(1) by (cases b) auto
qed simp

section \<open>Every such blueprint can be built\<close>

definition buildable :: "blueprint \<Rightarrow> string \<Rightarrow> bool" where
  "buildable b symbol \<longleftrightarrow> is_ok (strategy_adapter_from_spec create_default_registry (bp_title b)
     (dsl_params (bp_base_strategy b) symbol (bp_params b)))"

lemma dsl_params_reserved:
  assumes "free_of_reserved ps"
  shows "map_of (dsl_params base symbol ps) ''base_strategy'' = Some (PStr base)"
    "map_of (dsl_params base symbol ps) ''symbol'' = Some (PStr symbol)"
  using assms by (simp_all add: dsl_params_def free_of_reserved_def updates_conv' map_upds_apply_nontin)

lemma well_formed_buildable:
  assumes "well_formed_blueprint b" "bp_base_strategy b \<noteq> ''novel_composite''"
  shows "buildable b symbol"
proof -
  have base: "bp_base_strategy b \<in> set allowed_strategies" and free: "free_of_reserved (bp_params b)"
    using assms by (simp_all add: well_formed_blueprint_def)
  obtain d where d: "d \<in> set iter_builtin_strategy_plugins"
    "registry_key (bp_base_strategy b) = registry_key (sd_name d)" "bp_base_strategy b = registry_key (sd_name d)"
    by (rule baseline_definition [OF base assms(2)])
  have "[] \<notin> set (map (registry_key \<circ> sd_name) iter_builtin_strategy_plugins)"
    unfolding builtin_keys by simp
  then have "bp_base_strategy b \<noteq> []" using d(1,3) by force
  then have "base_strategy_from_spec (bp_title b) (dsl_params (bp_base_strategy b) symbol (bp_params b)) = bp_base_strategy b"
    by (simp add: base_strategy_from_spec_def dsl_params_reserved [OF free])
  then obtain c qs where "strategy_adapter_from_spec create_default_registry (bp_title b)
      (dsl_params (bp_base_strategy b) symbol (bp_params b)) = Inr (registry_key (sd_name d), c, qs)"
    using d(2) adapter_known [OF d(1)] by metis
  then show ?thesis by (simp add: buildable_def)
qed

section \<open>The errors of the normalisation\<close>

definition iterable :: "json option \<Rightarrow> bool" where
  "iterable m \<longleftrightarrow> (case m of None \<Rightarrow> True | Some j \<Rightarrow> is_ok (items_of j))"

definition readable_proposal :: "json \<Rightarrow> bool" where
  "readable_proposal j \<longleftrightarrow>
     iterable (map_of (fields_of j) ''features_used'')
     \<and> (iterable (map_of (fields_of j) ''knowledge_families_used'')
        \<or> map_of (fields_of j) ''knowledge_families_used'' = Some JNull)"

definition is_object :: "json \<Rightarrow> bool" where
  "is_object j \<longleftrightarrow> (case j of JObj _ \<Rightarrow> True | _ \<Rightarrow> False)"

definition readable_answer :: "json \<Rightarrow> bool" where
  "readable_answer j \<longleftrightarrow> is_object j
     \<and> (case map_of (fields_of j) ''proposals'' of Some (JList ps) \<Rightarrow> list_all readable_proposal (take 2 ps) | _ \<Rightarrow> True)"

lemma items_of_error: "items_of j = Inl e \<Longrightarrow> e = TypeError"
  by (cases j) (simp_all add: items_of_def)

lemma features_outcome:
  "case proposal_features te kvs of Inl e \<Rightarrow> e = TypeError \<and> \<not> iterable (map_of kvs ''features_used'') | Inr _ \<Rightarrow> True"
  by (auto simp: proposal_features_def iterable_def rbind_def Let_def dest: items_of_error split: option.splits sum.splits)

lemma families_outcome:
  "case proposal_families te kvs of Inl e \<Rightarrow> e = TypeError \<and> \<not> iterable (map_of kvs ''knowledge_families_used'')
       \<and> map_of kvs ''knowledge_families_used'' \<noteq> Some JNull | Inr _ \<Rightarrow> True"
  by (auto simp: proposal_families_def iterable_def truthy_def rbind_def dest: items_of_error
      split: option.splits sum.splits if_splits)

lemma kept_params_ok:
  assumes "base \<in> set allowed_strategies"
  shows "kept_params base ps \<noteq> Inl e"
proof (cases "base = ''novel_composite''")
  case False
  obtain c where "sanitize_strategy_params create_default_registry base ps
      = Inr (filter (\<lambda>(k, _). k \<in> set (init_params c)) ps)"
    by (rule sanitized_baseline [OF assms False])
  then show ?thesis by (simp add: kept_params_def)
qed (simp add: kept_params_def)

lemma resolved_families_ok:
  assumes "base \<in> set allowed_strategies"
  shows "resolved_families base stated \<noteq> Inl e"
proof (cases "base = ''novel_composite''")
  case False
  obtain d where "registry_get create_default_registry base = Inr (stored_definition d)"
    using sanitized_baseline [OF assms False] by blast
  then show ?thesis by (simp add: resolved_families_def)
qed (simp add: resolved_families_def)

lemma normalize_proposal_outcome:
  "case normalize_proposal te st source i p of Inl e \<Rightarrow> e = TypeError \<and> \<not> readable_proposal p | Inr _ \<Rightarrow> True"
proof (cases "normalize_proposal te st source i p")
  case (Inl e)
  then obtain kvs where p: "p = JObj kvs" by (cases p) (simp_all add: normalize_proposal_def)
  have base: "proposal_base te kvs \<in> set allowed_strategies"
    using Inl by (auto simp: p normalize_proposal_def Let_def split: if_splits)
  have "proposal_features te kvs = Inl e \<or> proposal_families te kvs = Inl e"
    using Inl kept_params_ok [OF base] resolved_families_ok [OF base]
    by (cases "proposal_features te kvs"; cases "proposal_families te kvs")
      (auto simp: p normalize_proposal_def Let_def rbind_def split: if_splits sum.splits)
  then show ?thesis
    using features_outcome [where te = te and kvs = kvs] families_outcome [where te = te and kvs = kvs]
    unfolding Inl by (auto simp: p readable_proposal_def fields_of_def)
qed simp

lemma normalize_from_outcome:
  "case normalize_from te st source i ps of Inl e \<Rightarrow> e = TypeError \<and> \<not> list_all readable_proposal ps | Inr _ \<Rightarrow> True"
proof (induction ps arbitrary: i)
  case (Cons p ps)
  show ?case
    using Cons.IH [of "Suc i"] normalize_proposal_outcome [where te = te and st = st and source = source and i = i and p = p]
    by (cases "normalize_proposal te st source i p"; cases "normalize_from te st source (Suc i) ps") auto
qed simp

text \<open>Whatever the model answers, the normalisation yields at most two blueprints, and each has a
  title, a thesis, one to six of the known features, families without repetition and a baseline
  of the registry or the label for a composite; the strategy of every baseline can be built from
  the description the backtest gets, on any symbol.  It fails only on an answer that is no object
  or on a field that cannot be iterated, and never on an answer whose fields are lists.\<close>

theorem normalization_contract:
  "(case normalize_strategy_agent_blueprints te payload st source of
      Inl e \<Rightarrow> (e = AttributeError \<and> \<not> is_object payload \<or> e = TypeError \<and> is_object payload) \<and> \<not> readable_answer payload
    | Inr bs \<Rightarrow> is_object payload \<and> length bs \<le> 2
        \<and> list_all (\<lambda>b. well_formed_blueprint (sg_blueprint b) \<and> bp_source_kind (sg_blueprint b) = source
             \<and> (bp_base_strategy (sg_blueprint b) = ''novel_composite'' \<or> buildable (sg_blueprint b) symbol)) bs)
   \<and> (if readable_answer payload then is_ok (normalize_strategy_agent_blueprints te payload st source) else True)"
proof (cases "\<exists>kvs ps. payload = JObj kvs \<and> map_of kvs ''proposals'' = Some (JList ps)")
  case True
  then obtain kvs ps where p: "payload = JObj kvs" "map_of kvs ''proposals'' = Some (JList ps)" by blast
  have e: "normalize_strategy_agent_blueprints te payload st source = normalize_from te st source 0 (take 2 ps)"
    by (simp add: p normalize_strategy_agent_blueprints_def)
  show ?thesis
  proof (cases "normalize_from te st source 0 (take 2 ps)")
    case (Inl err)
    then show ?thesis using normalize_from_outcome [where te = te and st = st and source = source and i = 0 and ps = "take 2 ps"]
      unfolding e by (simp add: p is_object_def readable_answer_def fields_of_def)
  next
    case (Inr bs)
    then show ?thesis using normalize_from_form [OF Inr] well_formed_buildable
      unfolding e by (auto simp: p is_object_def list_all_iff)
  qed
next
  case False
  then show ?thesis
    by (cases payload) (auto simp: normalize_strategy_agent_blueprints_def is_object_def readable_answer_def fields_of_def
        split: option.splits json.splits)
qed

text \<open>A composite is not protected that way: its parameters are not filtered, so they may name the
  strategy and the symbol that the backtest then uses.\<close>

lemma composite_params_choose_the_strategy:
  "map_of (dsl_params ''novel_composite'' ''2800.HK'' [(''base_strategy'', PStr ''rsi''), (''symbol'', PStr ''0700.HK'')])
     ''base_strategy'' = Some (PStr ''rsi'')"
  "map_of (dsl_params ''novel_composite'' ''2800.HK'' [(''base_strategy'', PStr ''rsi''), (''symbol'', PStr ''0700.HK'')])
     ''symbol'' = Some (PStr ''0700.HK'')"
  by (simp_all add: dsl_params_def)

section \<open>Stabilised blueprints\<close>

definition stabilized_keys :: "string list" where
  "stabilized_keys = [''z_window'', ''entry_threshold'', ''exit_threshold'', ''use_short'']"

definition within_bands :: "params \<Rightarrow> bool" where
  "within_bands ps \<longleftrightarrow>
     (\<exists>z. map_of ps ''z_window'' = Some (PNum (of_int z)) \<and> 24 \<le> z \<and> z \<le> (28 :: int))
     \<and> (\<exists>x. map_of ps ''entry_threshold'' = Some (PNum x) \<and> 1.6 \<le> x \<and> x \<le> 1.8)
     \<and> (\<exists>x. map_of ps ''exit_threshold'' = Some (PNum x) \<and> 0.2 \<le> x \<and> x \<le> 0.6)
     \<and> map_of ps ''use_short'' = Some (PBool False)"

lemma py_round_band:
  assumes "lo * 100 = of_int a" "hi * 100 = of_int b" "lo \<le> x" "x \<le> hi"
  shows "lo \<le> py_round x 2 \<and> py_round x 2 \<le> hi"
  using py_round_mono [OF assms(3), of 2] py_round_mono [OF assms(4), of 2]
    py_round_exact [of lo 2 a] py_round_exact [of hi 2 b] assms(1,2) by simp

lemma py_round_clamped:
  "1.6 \<le> py_round (py_clamp 1.6 1.8 x) 2 \<and> py_round (py_clamp 1.6 1.8 x) 2 \<le> 1.8"
  "0.2 \<le> py_round (py_clamp 0.2 0.6 x) 2 \<and> py_round (py_clamp 0.2 0.6 x) 2 \<le> 0.6"
  using py_round_band [of "1.6" 160 "1.8" 180 "py_clamp 1.6 1.8 x"] py_clamp_bounds [of "1.6" "1.8" x]
    py_round_band [of "0.2" 20 "0.6" 60 "py_clamp 0.2 0.6 x"] py_clamp_bounds [of "0.2" "0.6" x] by simp_all

lemma keys_distinct:
  "''z_window'' \<noteq> ''entry_threshold''" "''z_window'' \<noteq> ''exit_threshold''" "''z_window'' \<noteq> ''use_short''"
  "''entry_threshold'' \<noteq> ''exit_threshold''" "''entry_threshold'' \<noteq> ''use_short''"
  "''exit_threshold'' \<noteq> ''use_short''"
  by simp_all

lemma stabilize_one_cases:
  assumes "stabilize_one te guided b = Inr b'"
  shows "if bp_base_strategy (sg_blueprint b) = ''mean_reversion''
    then (\<exists>ps. b' = b\<lparr>sg_blueprint := (sg_blueprint b)\<lparr>bp_params := ps\<rparr>\<rparr> \<and> within_bands ps
           \<and> set (map fst ps) = set (map fst (bp_params (sg_blueprint b))) \<union> set stabilized_keys
           \<and> (\<forall>k. k \<notin> set stabilized_keys \<longrightarrow> map_of ps k = map_of (bp_params (sg_blueprint b)) k))
    else b' = b"
proof (cases "bp_base_strategy (sg_blueprint b) = ''mean_reversion''")
  case True
  define ps where "ps = bp_params (sg_blueprint b)"
  obtain z x y where b': "b' = b\<lparr>sg_blueprint := (sg_blueprint b)\<lparr>bp_params :=
      AList.update ''use_short'' (PBool False)
        (AList.update ''exit_threshold'' (PNum (py_round (py_clamp 0.2 0.6 y) 2))
          (AList.update ''entry_threshold'' (PNum (py_round (py_clamp 1.6 1.8 x) 2))
            (AList.update ''z_window'' (PNum (of_int (max 24 (min 28 z)))) ps)))\<rparr>\<rparr>"
    using assms True unfolding stabilize_one_def Let_def rbind_eq_Inr_iff ps_def by (auto simp: rbind_eq_Inr_iff)
  let ?qs = "AList.update ''use_short'' (PBool False)
        (AList.update ''exit_threshold'' (PNum (py_round (py_clamp 0.2 0.6 y) 2))
          (AList.update ''entry_threshold'' (PNum (py_round (py_clamp 1.6 1.8 x) 2))
            (AList.update ''z_window'' (PNum (of_int (max 24 (min 28 z)))) ps)))"
  have "within_bands ?qs"
    unfolding within_bands_def update_conv'
    using py_round_clamped [of x] py_round_clamped [of y]
    by (simp add: keys_distinct)
  moreover have "set (map fst ?qs) = set (map fst ps) \<union> set stabilized_keys"
    unfolding stabilized_keys_def by (simp only: set_map dom_update list.set) blast
  moreover have "map_of ?qs k = map_of ps k" if "k \<notin> set stabilized_keys" for k
    using that by (simp add: update_conv' stabilized_keys_def)
  ultimately show ?thesis using True b' by (auto simp: ps_def)
next
  case False
  then show ?thesis using assms by (simp add: stabilize_one_def Let_def)
qed

text \<open>The values of which no integer and no float can be made, and that do not count as missing.\<close>

definition bad_int :: "text_env \<Rightarrow> pval \<Rightarrow> bool" where
  "bad_int te v \<longleftrightarrow> (case v of PStr t \<Rightarrow> t \<noteq> [] \<and> te_read_int te t = None | PList vs \<Rightarrow> vs \<noteq> [] | PDict kvs \<Rightarrow> kvs \<noteq> []
     | PNum _ \<Rightarrow> False | PBool _ \<Rightarrow> False | PNone \<Rightarrow> False | _ \<Rightarrow> True)"

definition bad_float :: "text_env \<Rightarrow> pval \<Rightarrow> bool" where
  "bad_float te v \<longleftrightarrow> (case v of PStr t \<Rightarrow> t \<noteq> [] \<and> te_read_float te t = None | PList vs \<Rightarrow> vs \<noteq> [] | PDict kvs \<Rightarrow> kvs \<noteq> []
     | PNum x \<Rightarrow> too_large x | _ \<Rightarrow> False)"

definition has_value :: "(pval \<Rightarrow> bool) \<Rightarrow> params \<Rightarrow> string \<Rightarrow> bool" where
  "has_value P ps k \<longleftrightarrow> (\<exists>v. map_of ps k = Some v \<and> P v)"

lemma param_errors:
  "param_int te ps k n = Inl e \<Longrightarrow> e \<in> {ValueError, TypeError, OverflowError} \<and> has_value (bad_int te) ps k"
  "param_float te ps k x = Inl e \<Longrightarrow> e \<in> {ValueError, TypeError, OverflowError} \<and> has_value (bad_float te) ps k"
  by (auto simp: param_int_def param_float_def has_value_def bad_int_def bad_float_def pval_truthy_def
      split: if_splits option.splits pval.splits)

lemma rbind_eq_Inl: "rbind m f = Inl e \<Longrightarrow> m = Inl e \<or> (\<exists>x. m = Inr x \<and> f x = Inl e)"
  by (cases m) simp_all

definition unconvertible :: "text_env \<Rightarrow> blueprint \<Rightarrow> bool" where
  "unconvertible te b \<longleftrightarrow> bp_base_strategy b = ''mean_reversion''
     \<and> (has_value (bad_int te) (bp_params b) ''z_window'' \<or> has_value (bad_float te) (bp_params b) ''entry_threshold''
        \<or> has_value (bad_float te) (bp_params b) ''exit_threshold'')"

lemma stabilize_one_error:
  assumes "stabilize_one te guided b = Inl e"
  shows "e \<in> {ValueError, TypeError, OverflowError} \<and> unconvertible te (sg_blueprint b)"
proof -
  let ?ps = "bp_params (sg_blueprint b)"
  have base: "bp_base_strategy (sg_blueprint b) = ''mean_reversion''"
    using assms by (auto simp: stabilize_one_def Let_def split: if_splits)
  obtain n x y where "param_int te ?ps ''z_window'' n = Inl e \<or> param_float te ?ps ''entry_threshold'' x = Inl e
      \<or> param_float te ?ps ''exit_threshold'' y = Inl e"
    using assms unfolding stabilize_one_def Let_def if_P [OF base]
    by (auto dest!: rbind_eq_Inl simp del: update.simps)
  then show ?thesis using param_errors base unfolding unconvertible_def by blast
qed

lemma stabilized_keys_free: "''base_strategy'' \<notin> set stabilized_keys" "''symbol'' \<notin> set stabilized_keys"
  by (simp_all add: stabilized_keys_def)

lemma stabilize_one_well_formed:
  assumes "stabilize_one te guided b = Inr b'" "well_formed_blueprint (sg_blueprint b)"
  shows "well_formed_blueprint (sg_blueprint b') \<and> bp_source_kind (sg_blueprint b') = bp_source_kind (sg_blueprint b)"
proof (cases "bp_base_strategy (sg_blueprint b) = ''mean_reversion''")
  case True
  then obtain ps where b': "b' = b\<lparr>sg_blueprint := (sg_blueprint b)\<lparr>bp_params := ps\<rparr>\<rparr>"
    and keys: "set (map fst ps) = set (map fst (bp_params (sg_blueprint b))) \<union> set stabilized_keys"
    using stabilize_one_cases [OF assms(1)] by auto
  have "free_of_reserved (bp_params (sg_blueprint b))"
    using assms(2) True by (simp add: well_formed_blueprint_def)
  then have "free_of_reserved ps" using stabilized_keys_free unfolding free_of_reserved_def keys by simp
  then show ?thesis using assms(2) by (simp add: b' well_formed_blueprint_def)
next
  case False
  then show ?thesis using stabilize_one_cases [OF assms(1)] assms(2) by simp
qed

lemma stabilize_all_Inr:
  "stabilize_all te guided bs = Inr bs' \<Longrightarrow> list_all2 (\<lambda>b b'. stabilize_one te guided b = Inr b') bs bs'"
  by (induction bs arbitrary: bs') (auto simp: rbind_eq_Inr_iff)

lemma stabilize_all_Inl:
  "stabilize_all te guided bs = Inl e \<Longrightarrow>
     e \<in> {ValueError, TypeError, OverflowError} \<and> (\<exists>b\<in>set bs. unconvertible te (sg_blueprint b))"
proof (induction bs)
  case (Cons b bs)
  then show ?case using stabilize_one_error [of te guided b]
    by (cases "stabilize_one te guided b"; cases "stabilize_all te guided bs") auto
qed simp

definition stabilized_as :: "staged \<Rightarrow> staged \<Rightarrow> bool" where
  "stabilized_as b b' \<longleftrightarrow>
     b'\<lparr>sg_blueprint := sg_blueprint b\<rparr> = b
     \<and> (sg_blueprint b')\<lparr>bp_params := bp_params (sg_blueprint b)\<rparr> = sg_blueprint b
     \<and> (if bp_base_strategy (sg_blueprint b) = ''mean_reversion'' then within_bands (bp_params (sg_blueprint b')) else b' = b)"

lemma stabilize_one_as: "stabilize_one te guided b = Inr b' \<Longrightarrow> stabilized_as b b'"
  using stabilize_one_cases [of te guided b b'] by (auto simp: stabilized_as_def split: if_splits)

text \<open>Outside a strong range the blueprints are left alone.  In a strong range every mean reversion
  gets a window of 24 to 28 days, an entry between 1.6 and 1.8 and an exit between 0.2 and 0.6
  and never shorts, whatever the model and the short backtests propose; no other strategy and no
  other field changes, and the only error is a parameter of which no number can be made.\<close>

theorem stabilization_contract:
  "case stabilize_blueprints_for_market_context te conditions guided bs of
     Inl e \<Rightarrow> e \<in> {ValueError, TypeError, OverflowError} \<and> is_strong_ranging_context conditions
         \<and> (\<exists>b\<in>set bs. unconvertible te (sg_blueprint b))
   | Inr bs' \<Rightarrow> (if is_strong_ranging_context conditions then list_all2 stabilized_as bs bs' else bs' = bs)"
proof (cases "is_strong_ranging_context conditions")
  case True
  then have e: "stabilize_blueprints_for_market_context te conditions guided bs = stabilize_all te guided bs"
    by (simp add: stabilize_blueprints_for_market_context_def)
  show ?thesis
  proof (cases "stabilize_all te guided bs")
    case (Inl err)
    then show ?thesis unfolding e using stabilize_all_Inl [OF Inl] True by simp
  next
    case (Inr bs')
    have "list_all2 stabilized_as bs bs'"
      using stabilize_all_Inr [OF Inr] by (rule list_all2_mono) (rule stabilize_one_as)
    then show ?thesis unfolding e Inr using True by simp
  qed
qed (simp add: stabilize_blueprints_for_market_context_def)

section \<open>The strategy agent\<close>

lemma set_prioritize_staged [simp]: "set (prioritize_staged bs s p d) = set bs"
  by (simp add: prioritize_staged_def)

lemma length_prioritize_staged [simp]: "length (prioritize_staged bs s p d) = length bs"
  by (simp add: prioritize_staged_def)

lemma if_negated: "(if \<not> P then x else y) = (if P then y else x)"
  by simp

lemma prioritize_staged_empty: "prioritize_staged bs s p d = [] \<longleftrightarrow> bs = []"
  by (simp add: prioritize_staged_def)

lemma prioritize_staged_blueprints:
  "map sg_blueprint (prioritize_staged bs s p d) = prioritize_blueprints_for_market (map sg_blueprint bs) s p d"
  using sort_key_map [of sg_blueprint "\<lambda>b. blueprint_market_fit_rank b s p d" bs]
  by (simp add: prioritize_staged_def prioritize_blueprints_for_market_def comp_def)

lemma signal_reef_simps [simp]:
  "bp_title (sg_blueprint (signal_reef st)) = ''Signal Reef''" "bp_base_strategy (sg_blueprint (signal_reef st)) = ''ma_cross''"
  "bp_source_kind (sg_blueprint (signal_reef st)) = ''mock''"
  "bp_knowledge_families_used (sg_blueprint (signal_reef st)) = [''trend_following'']"
  "bp_features_used (sg_blueprint (signal_reef st)) = [''SMA'', ''EMA'', ''volatility'', ''macro_summary'']"
  "bp_params (sg_blueprint (signal_reef st)) = [(''short_window'', PNum 12), (''long_window'', PNum 34)]"
  "sg_llm_score (signal_reef st) = Some 77" "bp_thesis (sg_blueprint (signal_reef st)) \<noteq> []"
  "\<exists>r. sg_debate_report (signal_reef st) = Some r" "sg_prompt_versions (signal_reef st) = all_prompt_versions"
  by (simp_all only: signal_reef_def staged.simps blueprint.simps) simp_all

lemma harbor_drift_simps [simp]:
  "bp_title (sg_blueprint (harbor_drift st)) = ''Harbor Drift''" "bp_base_strategy (sg_blueprint (harbor_drift st)) = ''channel_breakout''"
  "bp_source_kind (sg_blueprint (harbor_drift st)) = ''mock''"
  "bp_knowledge_families_used (sg_blueprint (harbor_drift st)) = [''breakout'', ''volatility_filter'']"
  "bp_features_used (sg_blueprint (harbor_drift st)) = [''Donchian'', ''ATR'', ''volatility'', ''macro_summary'']"
  "bp_params (sg_blueprint (harbor_drift st)) = [(''lookback'', PNum 20)]"
  "sg_llm_score (harbor_drift st) = Some 78" "bp_thesis (sg_blueprint (harbor_drift st)) \<noteq> []"
  "\<exists>r. sg_debate_report (harbor_drift st) = Some r" "sg_prompt_versions (harbor_drift st) = all_prompt_versions"
  by (simp_all only: harbor_drift_def staged.simps blueprint.simps) simp_all

lemma tide_counter_simps [simp]:
  "bp_title (sg_blueprint (tide_counter st)) = ''Tide Counter''" "bp_base_strategy (sg_blueprint (tide_counter st)) = ''mean_reversion''"
  "bp_source_kind (sg_blueprint (tide_counter st)) = ''mock''"
  "bp_knowledge_families_used (sg_blueprint (tide_counter st)) = [''mean_reversion'', ''momentum_filter'']"
  "bp_features_used (sg_blueprint (tide_counter st)) = [''Bollinger'', ''RSI'', ''volatility'', ''macro_summary'']"
  "bp_params (sg_blueprint (tide_counter st)) = [(''window'', PNum 20), (''rsi_threshold'', PNum 30)]"
  "sg_llm_score (tide_counter st) = Some 70" "bp_thesis (sg_blueprint (tide_counter st)) \<noteq> []"
  "\<exists>r. sg_debate_report (tide_counter st) = Some r" "sg_prompt_versions (tide_counter st) = all_prompt_versions"
  by (simp_all only: tide_counter_def staged.simps blueprint.simps) simp_all

lemma baselines_allowed:
  "''ma_cross'' \<in> set allowed_strategies" "''channel_breakout'' \<in> set allowed_strategies"
  "''mean_reversion'' \<in> set allowed_strategies"
  unfolding baseline_names builtin_keys by simp_all

lemma fallback_well_formed:
  assumes "b \<in> set (fallback_proposal_blueprints st)"
  shows "well_formed_blueprint (sg_blueprint b) \<and> bp_source_kind (sg_blueprint b) = ''mock''
    \<and> bp_base_strategy (sg_blueprint b) \<noteq> ''novel_composite''"
proof -
  have "well_formed_blueprint (sg_blueprint (signal_reef st))"
    by (simp add: well_formed_blueprint_def baselines_allowed free_of_reserved_def) (simp add: allowed_features_def)
  moreover have "well_formed_blueprint (sg_blueprint (harbor_drift st))"
    by (simp add: well_formed_blueprint_def baselines_allowed free_of_reserved_def) (simp add: allowed_features_def)
  moreover have "well_formed_blueprint (sg_blueprint (tide_counter st))"
    by (simp add: well_formed_blueprint_def baselines_allowed free_of_reserved_def) (simp add: allowed_features_def)
  ultimately show ?thesis using assms by (auto simp: fallback_proposal_blueprints_def)
qed

lemma fallback_length: "length (fallback_proposal_blueprints st) = 3"
  by (simp add: fallback_proposal_blueprints_def)

lemma plugin_sanitized:
  assumes "d \<in> set iter_builtin_strategy_plugins" "or_else (sd_stream_cls d) (sd_vectorized_cls d) = Some c"
  shows "sanitize_strategy_params create_default_registry (sd_name d) ps = Inr (filter (\<lambda>(k, _). k \<in> set (init_params c)) ps)"
  using default_registry_get [OF assms(1), of "sd_name d"] assms(2)
  by (simp add: sanitize_strategy_params_def stored_definition_def)

lemma mean_reversion_sanitized:
  "sanitize_strategy_params create_default_registry ''mean_reversion'' ps
     = Inr (filter (\<lambda>(k, _). k \<in> set (init_params MeanReversionStrategy)) ps)"
  using plugin_sanitized [of mean_reversion_plugin MeanReversionStrategy ps]
  by (simp add: iter_builtin_strategy_plugins_def mean_reversion_plugin_def or_else_def)

lemma channel_breakout_sanitized:
  "sanitize_strategy_params create_default_registry ''channel_breakout'' ps
     = Inr (filter (\<lambda>(k, _). k \<in> set (init_params ChannelBreakoutStrategy)) ps)"
  using plugin_sanitized [of channel_breakout_plugin ChannelBreakoutStrategy ps]
  by (simp add: iter_builtin_strategy_plugins_def channel_breakout_plugin_def or_else_def)

text \<open>Two of the three fallback blueprints carry parameters that their strategies do not accept, so
  they run with the defaults.\<close>

lemma fallback_params_are_dropped:
  "sanitize_strategy_params create_default_registry ''channel_breakout'' [(''lookback'', PNum 20)] = Inr []"
  "sanitize_strategy_params create_default_registry ''mean_reversion'' [(''window'', PNum 20), (''rsi_threshold'', PNum 30)]
     = Inr []"
  unfolding mean_reversion_sanitized channel_breakout_sanitized by (simp_all add: init_params_def)

lemma normalize_ok:
  assumes "normalize_strategy_agent_blueprints te payload st source = Inr bs"
  shows "length bs \<le> 2 \<and> list_all (\<lambda>b. well_formed_blueprint (sg_blueprint b) \<and> bp_source_kind (sg_blueprint b) = source) bs"
proof (cases "\<exists>i ps. length ps \<le> 2 \<and> normalize_from te st source i ps = Inr bs")
  case True
  then obtain i ps where ps: "length ps \<le> 2" "normalize_from te st source i ps = Inr bs" by blast
  show ?thesis using normalize_from_form [OF ps(2)] ps(1) by (auto simp: list_all_iff)
next
  case False
  have "bs = []"
    using assms False [simplified, rule_format, of "take 2 ps" 0 for ps]
    by (auto simp: normalize_strategy_agent_blueprints_def split: json.splits option.splits)
  then show ?thesis by simp
qed

lemma normalize_errors:
  assumes "normalize_strategy_agent_blueprints te payload st source = Inl e"
  shows "e \<in> {AttributeError, TypeError}"
proof (cases "\<exists>ps. normalize_from te st source 0 (take 2 ps) = Inl e")
  case True
  then obtain ps where "normalize_from te st source 0 (take 2 ps) = Inl e" by blast
  then show ?thesis
    using normalize_from_outcome [where te = te and st = st and source = source and i = 0 and ps = "take 2 ps"] by simp
next
  case False
  then show ?thesis
    using assms by (auto simp: normalize_strategy_agent_blueprints_def split: json.splits option.splits)
qed

lemma stabilize_ok:
  assumes "stabilize_blueprints_for_market_context te conditions guided bs = Inr bs'"
    and "list_all (\<lambda>b. well_formed_blueprint (sg_blueprint b) \<and> bp_source_kind (sg_blueprint b) = source) bs"
  shows "length bs' = length bs
    \<and> list_all (\<lambda>b. well_formed_blueprint (sg_blueprint b) \<and> bp_source_kind (sg_blueprint b) = source) bs'"
proof (cases "is_strong_ranging_context conditions")
  case True
  then have all: "list_all2 (\<lambda>b b'. stabilize_one te guided b = Inr b') bs bs'"
    using stabilize_all_Inr assms(1) by (simp add: stabilize_blueprints_for_market_context_def)
  then have "list_all (\<lambda>b. well_formed_blueprint (sg_blueprint b) \<and> bp_source_kind (sg_blueprint b) = source) bs'"
    using assms(2)
  proof (induction rule: list_all2_induct)
    case (Cons x xs y ys)
    then show ?case using stabilize_one_well_formed [OF Cons.hyps(1)] by simp
  qed simp
  then show ?thesis using list_all2_lengthD [OF all] by simp
next
  case False
  then show ?thesis using assms by (simp add: stabilize_blueprints_for_market_context_def)
qed

text \<open>Where the parameters of a mean reversion come from.\<close>

lemma map_of_kept: "k \<in> S \<Longrightarrow> map_of (filter (\<lambda>(k, _). k \<in> S) ps) k = map_of ps k"
  by (induction ps) auto

text \<open>The same for the answer: a value of \<open>params\<close> that cannot be converted, in a proposal that asks for
  mean reversion, and the proposals that are looked at.\<close>

definition unreadable_int :: "text_env \<Rightarrow> json option \<Rightarrow> bool" where
  "unreadable_int te m \<longleftrightarrow> (case m of Some (JStr t) \<Rightarrow> t \<noteq> [] \<and> te_read_int te t = None
     | Some (JList js) \<Rightarrow> js \<noteq> [] | Some (JObj kvs) \<Rightarrow> kvs \<noteq> []
     | Some JInfinity \<Rightarrow> True | Some JMinusInfinity \<Rightarrow> True | Some JNaN \<Rightarrow> True | _ \<Rightarrow> False)"

definition unreadable_float :: "text_env \<Rightarrow> json option \<Rightarrow> bool" where
  "unreadable_float te m \<longleftrightarrow> (case m of Some (JStr t) \<Rightarrow> t \<noteq> [] \<and> te_read_float te t = None
     | Some (JList js) \<Rightarrow> js \<noteq> [] | Some (JObj kvs) \<Rightarrow> kvs \<noteq> [] | Some (JNum x) \<Rightarrow> too_large x | _ \<Rightarrow> False)"

definition unreadable_parameters :: "text_env \<Rightarrow> json \<Rightarrow> bool" where
  "unreadable_parameters te p \<longleftrightarrow>
     (let ps = (case map_of (fields_of p) ''params'' of None \<Rightarrow> [] | Some j \<Rightarrow> fields_of j) in
      text_get te (fields_of p) ''base_strategy'' ''ma_cross'' = ''mean_reversion''
      \<and> (unreadable_int te (map_of ps ''z_window'') \<or> unreadable_float te (map_of ps ''entry_threshold'')
         \<or> unreadable_float te (map_of ps ''exit_threshold'')))"

definition proposals_of :: "json \<Rightarrow> json list" where
  "proposals_of payload = (case map_of (fields_of payload) ''proposals'' of Some (JList ps) \<Rightarrow> take 2 ps | _ \<Rightarrow> [])"

lemma bad_values:
  shows bad_int_value: "bad_int te (param_value j) = unreadable_int te (Some j)"
    and bad_float_value: "bad_float te (param_value j) = unreadable_float te (Some j)"
proof -
  show "bad_int te (param_value j) = unreadable_int te (Some j)"
    by (cases j) (simp_all add: bad_int_def unreadable_int_def)
  show "bad_float te (param_value j) = unreadable_float te (Some j)"
    by (cases j) (simp_all add: bad_float_def unreadable_float_def)
qed

lemma proposal_params_lookup:
  "map_of (proposal_params kvs) k =
     map_option param_value (map_of (case map_of kvs ''params'' of None \<Rightarrow> [] | Some j \<Rightarrow> fields_of j) k)"
  by (auto simp: proposal_params_def fields_of_def map_of_map split: option.split json.split)

lemma unconvertible_from:
  assumes "normalize_proposal te st source i p = Inr (Some b)" "unconvertible te (sg_blueprint b)"
  shows "unreadable_parameters te p"
proof -
  obtain kvs where p: "p = JObj kvs"
    using assms(1) by (cases p) (simp_all add: normalize_proposal_def)
  obtain fs qs families where qs: "kept_params (proposal_base te kvs) (proposal_params kvs) = Inr qs"
    and b: "b = normalized_blueprint te st source i kvs fs qs families"
    using assms(1) by (auto simp: p normalize_proposal_def Let_def rbind_eq_Inr_iff split: if_splits)
  have base: "proposal_base te kvs = ''mean_reversion''" and params: "bp_params (sg_blueprint b) = qs"
    using assms(2) by (simp_all add: b normalized_blueprint_def unconvertible_def)
  have kept: "qs = filter (\<lambda>(k, _). k \<in> set (init_params MeanReversionStrategy)) (proposal_params kvs)"
    using qs unfolding base by (simp add: kept_params_def mean_reversion_sanitized)
  have key: "k \<in> set (init_params MeanReversionStrategy)"
    if "k \<in> {''z_window'', ''entry_threshold'', ''exit_threshold''}" for k
    using that by (auto simp: init_params_def)
  have look: "map_of qs k = map_of (proposal_params kvs) k"
    if "k \<in> {''z_window'', ''entry_threshold'', ''exit_threshold''}" for k
    unfolding kept by (rule map_of_kept) (rule key [OF that])
  have "has_value P qs k \<Longrightarrow> k \<in> {''z_window'', ''entry_threshold'', ''exit_threshold''} \<Longrightarrow>
      \<exists>j. map_of (case map_of kvs ''params'' of None \<Rightarrow> [] | Some j \<Rightarrow> fields_of j) k = Some j \<and> P (param_value j)" for P k
    unfolding has_value_def using look [of k] proposal_params_lookup [of kvs k] by auto
  from this [of "bad_int te" "''z_window''"] this [of "bad_float te" "''entry_threshold''"]
    this [of "bad_float te" "''exit_threshold''"]
  show ?thesis
    using assms(2) base unfolding unconvertible_def params unreadable_parameters_def p bad_values proposal_base_def
    by (auto simp: fields_of_def Let_def)
qed

lemma normalize_from_origin:
  "normalize_from te st source i ps = Inr bs \<Longrightarrow> b \<in> set bs \<Longrightarrow>
     \<exists>p\<in>set ps. \<exists>k. normalize_proposal te st source k p = Inr (Some b)"
proof (induction ps arbitrary: i bs)
  case (Cons p ps)
  obtain b1 bs1 where n: "normalize_proposal te st source i p = Inr b1" "normalize_from te st source (Suc i) ps = Inr bs1"
    "bs = (case b1 of None \<Rightarrow> bs1 | Some x \<Rightarrow> x # bs1)"
    using Cons.prems(1) by (auto simp: rbind_eq_Inr_iff)
  then show ?case using Cons.IH [OF n(2)] Cons.prems(2) by (cases b1) auto
qed simp

lemma unconvertible_answer:
  assumes "normalize_strategy_agent_blueprints te payload st source = Inr bs"
    and "\<exists>b\<in>set bs. unconvertible te (sg_blueprint b)"
  shows "list_ex (unreadable_parameters te) (proposals_of payload)"
proof -
  obtain b where b: "b \<in> set bs" "unconvertible te (sg_blueprint b)" using assms(2) by blast
  have "normalize_from te st source 0 (proposals_of payload) = Inr bs"
    using assms(1) b(1)
    by (auto simp: normalize_strategy_agent_blueprints_def proposals_of_def fields_of_def split: json.splits option.splits)
  from normalize_from_origin [OF this b(1)] unconvertible_from [OF _ b(2)]
  show ?thesis unfolding list_ex_iff by blast
qed

text \<open>A row of the table of snapshots that the registry does not know.\<close>

definition unknown_snapshot :: "string list \<Rightarrow> bool" where
  "unknown_snapshot snapshot_names \<longleftrightarrow> (\<exists>n\<in>set snapshot_names. \<not> is_ok (registry_get create_default_registry n))"

lemma agent_baselines_outcome:
  "case agent_baselines snapshot_names scope of Inl e \<Rightarrow> e = ValueError \<and> unknown_snapshot snapshot_names
   | Inr _ \<Rightarrow> \<not> unknown_snapshot snapshot_names"
proof (induction snapshot_names)
  case (Cons n ns)
  have "registry_get create_default_registry n = Inl e \<Longrightarrow> e = ValueError" for e
    by (auto simp: registry_get_def split: option.splits)
  with Cons.IH show ?case
    by (cases "registry_get create_default_registry n"; cases "agent_baselines ns scope")
      (auto simp: unknown_snapshot_def)
qed (simp add: unknown_snapshot_def)

definition unreadable_answer :: "json \<Rightarrow> bool" where
  "unreadable_answer payload \<longleftrightarrow> \<not> readable_answer payload"

lemma normalize_unreadable:
  assumes "normalize_strategy_agent_blueprints te payload st source = Inl e"
  shows "unreadable_answer payload"
proof (cases "is_object payload \<and> proposals_of payload \<noteq> []")
  case True
  then obtain kvs ps where p: "payload = JObj kvs" "map_of kvs ''proposals'' = Some (JList ps)"
    by (auto simp: is_object_def proposals_of_def fields_of_def split: json.splits option.splits)
  then have "normalize_from te st source 0 (take 2 ps) = Inl e"
    using assms by (simp add: normalize_strategy_agent_blueprints_def)
  with normalize_from_outcome [where te = te and st = st and source = source and i = 0 and ps = "take 2 ps"] p
  show ?thesis by (simp add: unreadable_answer_def readable_answer_def fields_of_def)
next
  case False
  then show ?thesis using assms
    by (auto simp: unreadable_answer_def readable_answer_def is_object_def normalize_strategy_agent_blueprints_def
        proposals_of_def fields_of_def split: json.splits option.splits)
qed

text \<open>What the agent does with an answer, and where an error comes from.\<close>

lemma run_strategy_agent_cases:
  fixes sv answers guided s rt
  defines "reply \<equiv> fst (invoke_json (sv_llm sv) answers STRATEGY_AGENT_SCHEMA_HINT rt)"
  shows "(\<exists>e. fst (run_strategy_agent sv answers snapshot_names guided s rt) = Inl e
      \<and> (e = ValueError \<and> unknown_snapshot snapshot_names
         \<or> normalize_strategy_agent_blueprints (sv_text sv) (in_payload reply) (in_status reply)
            (provider_name (in_source_kind reply)) = Inl e
         \<or> e \<in> {ValueError, TypeError, OverflowError} \<and> is_strong_ranging_context (current_market_conditions s)
            \<and> list_ex (unreadable_parameters (sv_text sv)) (proposals_of (in_payload reply))))
    \<or> (\<exists>bs bs'. \<not> unknown_snapshot snapshot_names
        \<and> normalize_strategy_agent_blueprints (sv_text sv) (in_payload reply) (in_status reply)
            (provider_name (in_source_kind reply)) = Inr bs
        \<and> stabilize_blueprints_for_market_context (sv_text sv) (current_market_conditions s) guided bs = Inr bs'
        \<and> fst (run_strategy_agent sv answers snapshot_names guided s rt) =
            Inr (if bs' = [] then fallback_proposal_blueprints (in_status reply)
                 else prioritize_staged bs' s
                   (fst (effective_knowledge_preferences (sn_market_profile s) (current_market_conditions s)))
                   (snd (effective_knowledge_preferences (sn_market_profile s) (current_market_conditions s)))))"
proof (cases "agent_baselines snapshot_names (sn_market_scope s)")
  case (Inl e)
  then show ?thesis
    using agent_baselines_outcome [of snapshot_names "sn_market_scope s"] by (simp add: run_strategy_agent_def)
next
  case (Inr ds)
  have known: "\<not> unknown_snapshot snapshot_names"
    using agent_baselines_outcome [of snapshot_names "sn_market_scope s"] by (simp add: Inr)
  let ?n = "normalize_strategy_agent_blueprints (sv_text sv) (in_payload reply) (in_status reply)
    (provider_name (in_source_kind reply))"
  have run: "fst (run_strategy_agent sv answers snapshot_names guided s rt) =
      rbind ?n (\<lambda>bs. rbind (stabilize_blueprints_for_market_context (sv_text sv) (current_market_conditions s) guided bs)
        (\<lambda>bs'. Inr (if bs' = [] then fallback_proposal_blueprints (in_status reply)
                 else prioritize_staged bs' s
                   (fst (effective_knowledge_preferences (sn_market_profile s) (current_market_conditions s)))
                   (snd (effective_knowledge_preferences (sn_market_profile s) (current_market_conditions s))))))"
    unfolding run_strategy_agent_def reply_def Let_def split_def Inr sum.case fst_conv prioritize_staged_empty if_negated
    by (rule refl)
  show ?thesis
  proof (cases ?n)
    case (Inl e)
    then show ?thesis unfolding run by simp
  next
    case n: (Inr bs)
    show ?thesis
    proof (cases "stabilize_blueprints_for_market_context (sv_text sv) (current_market_conditions s) guided bs")
      case (Inl e)
      have "e \<in> {ValueError, TypeError, OverflowError}" "is_strong_ranging_context (current_market_conditions s)"
        "\<exists>b\<in>set bs. unconvertible (sv_text sv) (sg_blueprint b)"
        using Inl stabilize_all_Inl [of "sv_text sv" guided bs e]
        by (auto simp: stabilize_blueprints_for_market_context_def split: if_splits)
      then show ?thesis unfolding run n rbind_Inr Inl rbind_Inl using unconvertible_answer [OF n] by blast
    next
      case (Inr bs')
      then show ?thesis unfolding run n using known by simp
    qed
  qed
qed

text \<open>C7. The strategy agent always proposes something: when it does not fail it returns one to three
  blueprints of the right form, every one of them either a composite or a strategy that can be
  built, all from the provider that answered or else exactly the three of the fallback.  It fails
  only for one of three reasons: a row of the table of strategy snapshots names a strategy that the
  registry does not know; the answer is no object, or has a field of the wrong kind in one of the
  first two proposals; or, in a strong range, one of these two asks for mean reversion and gives it
  a window that cannot be made an integer or a threshold that cannot be made a float.  So a readable
  answer with readable parameters never makes it fail.\<close>

theorem strategy_agent_contract:
  "let reply = fst (invoke_json (sv_llm sv) answers STRATEGY_AGENT_SCHEMA_HINT rt) in
   case fst (run_strategy_agent sv answers snapshot_names guided s rt) of
     Inl e \<Rightarrow> e = ValueError \<and> unknown_snapshot snapshot_names
       \<or> e \<in> {AttributeError, TypeError} \<and> unreadable_answer (in_payload reply)
       \<or> e \<in> {ValueError, TypeError, OverflowError} \<and> is_strong_ranging_context (current_market_conditions s)
          \<and> list_ex (unreadable_parameters (sv_text sv)) (proposals_of (in_payload reply))
   | Inr bs \<Rightarrow> bs \<noteq> [] \<and> length bs \<le> 3
       \<and> list_all (\<lambda>b. well_formed_blueprint (sg_blueprint b)
            \<and> (bp_base_strategy (sg_blueprint b) = ''novel_composite'' \<or> buildable (sg_blueprint b) symbol)) bs
       \<and> (bs = fallback_proposal_blueprints (in_status reply)
          \<or> list_all (\<lambda>b. bp_source_kind (sg_blueprint b) = provider_name (in_source_kind reply)) bs)"
proof -
  define reply where "reply = fst (invoke_json (sv_llm sv) answers STRATEGY_AGENT_SCHEMA_HINT rt)"
  note cases = run_strategy_agent_cases [where sv = sv and answers = answers and rt = rt and guided = guided and s = s
      and snapshot_names = snapshot_names, folded reply_def]
  from cases show ?thesis
  proof (elim disjE exE conjE)
    fix e
    assume run: "fst (run_strategy_agent sv answers snapshot_names guided s rt) = Inl e"
      and e: "normalize_strategy_agent_blueprints (sv_text sv) (in_payload reply) (in_status reply)
              (provider_name (in_source_kind reply)) = Inl e"
    show ?thesis unfolding Let_def reply_def [symmetric] run using normalize_errors [OF e] normalize_unreadable [OF e] by simp
  next
    fix bs bs'
    assume n: "normalize_strategy_agent_blueprints (sv_text sv) (in_payload reply) (in_status reply)
              (provider_name (in_source_kind reply)) = Inr bs"
      and st: "stabilize_blueprints_for_market_context (sv_text sv) (current_market_conditions s) guided bs = Inr bs'"
      and run: "fst (run_strategy_agent sv answers snapshot_names guided s rt) =
            Inr (if bs' = [] then fallback_proposal_blueprints (in_status reply)
                 else prioritize_staged bs' s
                   (fst (effective_knowledge_preferences (sn_market_profile s) (current_market_conditions s)))
                   (snd (effective_knowledge_preferences (sn_market_profile s) (current_market_conditions s))))"
    show ?thesis
    proof (cases "bs' = []")
      case True
      then show ?thesis unfolding Let_def reply_def [symmetric] run
        using fallback_well_formed [of _ "in_status reply"] well_formed_buildable fallback_length [of "in_status reply"]
        by (auto simp: list_all_iff)
    next
      case False
      have "length bs' \<le> 2" and "list_all (\<lambda>b. well_formed_blueprint (sg_blueprint b)
          \<and> bp_source_kind (sg_blueprint b) = provider_name (in_source_kind reply)) bs'"
        using normalize_ok [OF n] stabilize_ok [OF st] by auto
      then show ?thesis unfolding Let_def reply_def [symmetric] run
        using False well_formed_buildable prioritize_staged_empty by (auto simp: list_all_iff)
    qed
  qed (simp_all add: Let_def flip: reply_def)
qed

section \<open>A silent gateway\<close>

text \<open>No answer comes: the mock is in force, the key is missing, or every attempt fails.\<close>

definition silent :: "llm_config \<Rightarrow> (nat \<Rightarrow> 'p attempt) \<Rightarrow> llm_runtime option \<Rightarrow> bool" where
  "silent cfg answers rt \<longleftrightarrow> get_provider cfg rt = MockProvider \<or> ls_code (base_status cfg (get_provider cfg rt)) \<noteq> Ready
     \<or> list_all (\<lambda>k. \<not> answered (answers k)) [0..<Suc (nat (max 0 (lc_retry_attempts cfg)))]"

lemma silent_reply:
  assumes "silent cfg answers rt"
  shows "in_payload (fst (invoke_json cfg answers hint rt)) = hint
    \<and> in_source_kind (fst (invoke_json cfg answers hint rt)) = MockProvider"
proof -
  let ?n = "nat (max 0 (lc_retry_attempts cfg))"
  consider "get_provider cfg rt = MockProvider" | "get_provider cfg rt \<noteq> MockProvider"
      "ls_code (base_status cfg (get_provider cfg rt)) \<noteq> Ready"
    | "get_provider cfg rt \<noteq> MockProvider" "ls_code (base_status cfg (get_provider cfg rt)) = Ready"
      "list_all (\<lambda>k. \<not> answered (answers k)) [0..<Suc ?n]"
    using assms by (auto simp: silent_def)
  then show ?thesis
  proof cases
    case 3
    obtain j where j: "stops_at answers 0 ?n j" and
      loop: "fst (attempt_loop (max 0 (lc_retry_backoff cfg)) answers 0 ?n) = loop_end (answers j) j"
      using attempt_loop_stops [of answers 0 ?n "max 0 (lc_retry_backoff cfg)"] by (metis fst_conv)
    have "j < Suc ?n" using j by (simp add: stops_at_def)
    then have "\<not> answered (answers j)" using 3(3) by (simp add: list_all_iff del: upt_Suc)
    then obtain c m w where "attempt_loop (max 0 (lc_retry_backoff cfg)) answers 0 ?n = (Inl (c, m), w)"
      using loop loop_end_cases [of "answers j" j] by (metis prod.collapse)
    then show ?thesis using 3 by (simp add: invoke_json_def fallback_invocation_def Let_def)
  qed (simp_all add: invoke_json_def fallback_invocation_def Let_def)
qed

lemma hint_normalizes: "normalize_strategy_agent_blueprints te STRATEGY_AGENT_SCHEMA_HINT st source = Inr []"
  by (simp add: normalize_strategy_agent_blueprints_def STRATEGY_AGENT_SCHEMA_HINT_def)

lemma stabilize_Nil [simp]: "stabilize_blueprints_for_market_context te conditions guided [] = Inr []"
  by (simp add: stabilize_blueprints_for_market_context_def)

definition settled :: "stage_env \<Rightarrow> staged \<Rightarrow> string \<Rightarrow> string \<Rightarrow> snapshot \<Rightarrow> (nat \<Rightarrow> json attempt) \<Rightarrow> llm_runtime option \<Rightarrow> bool" where
  "settled sv b pulse version s answers rt \<longleftrightarrow>
     snd (run_research_debate sv answers b pulse rt) = ([], rt)
     \<and> Some (fst (fst (run_research_debate sv answers b pulse rt))) = sg_debate_report b
     \<and> snd (run_risk_judgment sv answers b version s rt) = ([], rt)
     \<and> (case fst (run_risk_judgment sv answers b version s rt) of Inl _ \<Rightarrow> False
        | Inr (j, _) \<Rightarrow> 50 \<le> jd_llm_score j \<and> jd_llm_score j \<le> 78)"

lemma penalty_nonneg: "0 \<le> knowledge_penalty_score a"
  by (simp add: knowledge_penalty_score_def Let_def)

lemma fallback_settled:
  assumes "b \<in> set (fallback_proposal_blueprints st)"
  shows "settled sv b pulse version s answers rt"
proof -
  have mock: "bp_source_kind (sg_blueprint b) = ''mock''"
    using assms by (auto simp: fallback_proposal_blueprints_def)
  have "\<exists>r. sg_debate_report b = Some r"
    using assms by (auto simp: fallback_proposal_blueprints_def)
  moreover have "\<exists>x. sg_llm_score b = Some x \<and> x \<le> 78"
    using assms by (auto simp: fallback_proposal_blueprints_def)
  ultimately show ?thesis
    using mock penalty_nonneg [of "assess_knowledge (sg_blueprint b) s"]
    by (auto simp: settled_def run_research_debate_def run_risk_judgment_def fallback_debate_report_def
        fallback_risk_judgment_def Let_def)
qed

text \<open>C40. When the gateway is silent the system keeps going on its own: the strategy agent returns the
  three fallback blueprints, in their order, marked as mock, and the later stages settle each of
  them from what it carries, without a call to the gateway, without an audit row and without a
  change of its status, with a score between 50 and 78.  Only a row of the table of strategy
  snapshots with a name that is not registered keeps the agent from it, before it asks the gateway.\<close>

theorem silent_gateway_contract:
  assumes "silent (sv_llm sv) answers rt"
  shows "\<exists>st. fst (run_strategy_agent sv answers snapshot_names guided s rt) =
        (if unknown_snapshot snapshot_names then Inl ValueError else Inr (fallback_proposal_blueprints st))
    \<and> list_all (\<lambda>b. bp_source_kind (sg_blueprint b) = ''mock'' \<and> buildable (sg_blueprint b) symbol
          \<and> settled sv b pulse version s later rt') (fallback_proposal_blueprints st)"
proof -
  let ?reply = "fst (invoke_json (sv_llm sv) answers STRATEGY_AGENT_SCHEMA_HINT rt)"
  have hint: "in_payload ?reply = STRATEGY_AGENT_SCHEMA_HINT"
    using silent_reply [OF assms] by blast
  have "fst (run_strategy_agent sv answers snapshot_names guided s rt) =
      (if unknown_snapshot snapshot_names then Inl ValueError else Inr (fallback_proposal_blueprints (in_status ?reply)))"
    using agent_baselines_outcome [of snapshot_names "sn_market_scope s"]
    by (cases "agent_baselines snapshot_names (sn_market_scope s)")
      (simp_all add: hint hint_normalizes run_strategy_agent_def split_def Let_def prioritize_staged_def)
  moreover have "list_all (\<lambda>b. bp_source_kind (sg_blueprint b) = ''mock'' \<and> buildable (sg_blueprint b) symbol
      \<and> settled sv b pulse version s later rt') (fallback_proposal_blueprints (in_status ?reply))"
    using fallback_well_formed fallback_settled well_formed_buildable by (auto simp: list_all_iff)
  ultimately show ?thesis by blast
qed

definition sample_text :: text_env where
  "sample_text = \<lparr>te_show = (\<lambda>_. ''?''), te_read_float = (\<lambda>_. None), te_read_int = (\<lambda>_. None)\<rparr>"

definition sample_llm :: llm_config where
  "sample_llm = \<lparr>lc_provider = ''minimax'', lc_model = ''m'', lc_retry_attempts = 1, lc_retry_backoff = 1, lc_api_key = ''k''\<rparr>"

definition sample_stage :: stage_env where
  "sample_stage = \<lparr>sv_text = sample_text, sv_llm = sample_llm, sv_now = 0\<rparr>"

theorem silent_gateway_contract_witness:
  "\<exists>st. fst (run_strategy_agent sample_stage (\<lambda>_. Http_error 503) [''ma_cross'', ''rsi''] None
        \<lparr>sn_symbol = ''2800.HK'', sn_market_scope = ''HK'', sn_market_profile = hk_profile, sn_regime = ''RANGING'',
         sn_volatility = None, sn_trend_strength = None\<rparr> None) = Inr (fallback_proposal_blueprints st)"
proof -
  have "silent (sv_llm sample_stage) (\<lambda>_. Http_error 503 :: json attempt) None"
    by (simp add: silent_def answered_def sample_stage_def sample_llm_def list_all_iff)
  moreover have "\<not> unknown_snapshot [''ma_cross'', ''rsi'']"
  proof -
    have "list_all (\<lambda>n. is_ok (registry_get create_default_registry n)) [''ma_cross'', ''rsi'']" by code_simp
    then show ?thesis by (simp add: unknown_snapshot_def)
  qed
  ultimately show ?thesis
    using silent_gateway_contract [where sv = sample_stage and answers = "\<lambda>_. Http_error 503" and rt = None
        and snapshot_names = "[''ma_cross'', ''rsi'']" and guided = None
        and s = "\<lparr>sn_symbol = ''2800.HK'', sn_market_scope = ''HK'', sn_market_profile = hk_profile,
          sn_regime = ''RANGING'', sn_volatility = None, sn_trend_strength = None\<rparr>"]
    by (simp only: if_False) blast
qed

section \<open>The debate\<close>

text \<open>Every report has a case for, a case against and a conclusion; a stored report is used as it is,
  an answer only when it has all three, and otherwise the generated one.  The gateway is asked once for
  a blueprint of a model and never for one of the mock.\<close>

definition complete_debate :: "debate \<Rightarrow> bool" where
  "complete_debate r \<longleftrightarrow> db_for r \<noteq> [] \<and> db_against r \<noteq> [] \<and> db_synthesis r \<noteq> []"

theorem debate_contract:
  "let (out, audits, rt') = run_research_debate sv answers b pulse rt;
       raw = fields_of (in_payload (fst (invoke_json (sv_llm sv) answers RESEARCH_DEBATE_SCHEMA_HINT rt)));
       given = \<lparr>db_for = list_texts (sv_text sv) raw ''stance_for'' 3,
                db_against = list_texts (sv_text sv) raw ''stance_against'' 3,
                db_synthesis = py_strip (text_or (sv_text sv) raw ''synthesis'' [])\<rparr>
   in (case sg_debate_report b of None \<Rightarrow> complete_debate (fst out)
       | Some r \<Rightarrow> complete_debate (fst out) \<or> fst out = r)
      \<and> (if bp_source_kind (sg_blueprint b) = ''mock'' then audits = [] \<and> rt' = rt
         else length audits = 1 \<and> snd out = RESEARCH_DEBATE_PROMPT_VERSION
           \<and> fst out = (if complete_debate given then given else fallback_debate_report b pulse))"
proof -
  have "case sg_debate_report b of None \<Rightarrow> complete_debate (fallback_debate_report b pulse)
      | Some r \<Rightarrow> fallback_debate_report b pulse = r"
    by (simp add: fallback_debate_report_def complete_debate_def split: option.split)
  then show ?thesis
    by (auto simp: run_research_debate_def complete_debate_def Let_def split_def split: option.splits)
qed

section \<open>The risk judgment\<close>

text \<open>The answer as the pool sees it: a score when there is an explanation.\<close>

definition usable_answer :: "stage_env \<Rightarrow> json \<Rightarrow> fl option" where
  "usable_answer sv payload =
     (if answered_explanation (sv_text sv) (fields_of payload) = [] then None
      else (case answered_score (sv_text sv) (fields_of payload) of Inl _ \<Rightarrow> None | Inr x \<Rightarrow> Some x))"

text \<open>The score that the pool computes for a draft is the one of this stage, when it does not fail.\<close>

lemma judgment_is_pool_score:
  assumes "fst (run_risk_judgment sv answers b version s rt) = Inr (j, versions)"
  shows "jd_llm_score j =
     judged_llm_score (sg_blueprint b) (case sg_llm_score b of None \<Rightarrow> 72 | Some x \<Rightarrow> x)
       (usable_answer sv (in_payload (fst (invoke_json (sv_llm sv) answers RISK_MANAGER_LLM_SCHEMA_HINT rt))))
       (assess_knowledge (sg_blueprint b) s)"
  using assms
  by (auto simp: run_risk_judgment_def judged_llm_score_def usable_answer_def fallback_risk_judgment_def
      Let_def split_def rbind_eq_Inr_iff split: option.split if_splits)

text \<open>An integer score beyond the floats ends the stage with an error that nothing catches, and a score
  that is not a number counts as the best one.\<close>

lemma huge_score_raises:
  "fst (run_risk_judgment sv answers b version s rt) = Inl e \<Longrightarrow> e = OverflowError"
  by (auto simp: run_risk_judgment_def answered_score_def py_float_def Let_def split_def rbind_def
      split: if_splits option.splits json.splits sum.splits)

lemma nan_score_is_the_best:
  "judged_llm_score b fallback (Some NaN) a = (if bp_source_kind b = ''mock'' then max 50 (fallback - knowledge_penalty_score a) else 95)"
  by (simp add: judged_llm_score_def fl_sub_def)

text \<open>The penalty is lost where the model says nothing: a failed call, or an empty explanation, gives
  the blueprint of a model 72 whatever its assessment.\<close>

lemma silent_judgment_drops_penalty:
  assumes "silent (sv_llm sv) answers rt" "bp_source_kind (sg_blueprint b) \<noteq> ''mock''" "sg_llm_score b = None"
  shows "\<exists>j vs. fst (run_risk_judgment sv answers b version s rt) = Inr (j, vs) \<and> jd_llm_score j = 72"
proof -
  have "in_payload (fst (invoke_json (sv_llm sv) answers RISK_MANAGER_LLM_SCHEMA_HINT rt)) = RISK_MANAGER_LLM_SCHEMA_HINT"
    using silent_reply [OF assms(1)] by blast
  then show ?thesis using assms(2,3)
    by (simp add: run_risk_judgment_def fallback_risk_judgment_def Let_def split_def RISK_MANAGER_LLM_SCHEMA_HINT_def
        fields_of_def answered_explanation_def text_or_def truthy_def py_strip_def answered_score_def py_float_def
        too_large_def)
qed

section \<open>The analyst's view\<close>

text \<open>The part of the snapshot that no analyst changes.\<close>

definition view_frame :: "market_view \<Rightarrow> string \<times> real \<times> string \<times> string" where
  "view_frame v = (mv_regime v, mv_confidence v, mv_market_snapshot_hash v, mv_event_digest_hash v)"

lemma merge_frame [simp]: "view_frame (merge_market_snapshot base st) = view_frame base"
  by (simp add: merge_market_snapshot_def view_frame_def Let_def split: option.split)

text \<open>A view is merged only into the snapshot it was made from.  The merge never touches the regime
  and the confidence, keeps the summary when the view has none, takes at most four watchpoints, and
  merging the same view twice is merging it once.\<close>

theorem merge_contract:
  "view_frame (merge_market_snapshot base st) = view_frame base
   \<and> merge_market_snapshot (merge_market_snapshot base st) st = merge_market_snapshot base st
   \<and> (case st of None \<Rightarrow> merge_market_snapshot base st = base
      | Some a \<Rightarrow>
          if an_market_snapshot_hash a \<noteq> mv_market_snapshot_hash base then merge_market_snapshot base st = base
          else mv_market_analyst (merge_market_snapshot base st) = Some a
            \<and> mv_summary (merge_market_snapshot base st) =
                (if py_strip (an_summary a) = [] then mv_summary base else py_strip (an_summary a))
            \<and> (if an_watchpoints a = [] then mv_watchpoints (merge_market_snapshot base st) = mv_watchpoints base
               else (\<exists>ws. mv_watchpoints (merge_market_snapshot base st) = Some ws \<and> length ws \<le> 4 \<and> ws \<noteq> [])))"
proof (cases st)
  case (Some a)
  show ?thesis
    unfolding Some by (simp add: merge_market_snapshot_def view_frame_def Let_def)
qed (simp add: merge_market_snapshot_def)

definition bad_adjustment :: "text_env \<Rightarrow> json \<Rightarrow> py_error \<Rightarrow> bool" where
  "bad_adjustment te payload e \<longleftrightarrow>
     (case map_of (fields_of payload) ''confidence_adjustment'' of None \<Rightarrow> False
      | Some j \<Rightarrow> truthy j \<and> py_float te j = Inl e)"

text \<open>The analyst fails exactly when no float can be made of the adjustment of the answer, and then with
  the error of the conversion, which nothing catches.  Otherwise its view has at most four
  watchpoints and an adjustment of at most 0.15, it belongs to the snapshot it was asked about, so that
  merging it takes effect, and a gateway that is silent gives a view that leaves the summary as it is.\<close>

theorem market_analyst_contract:
  "let payload = in_payload (fst (invoke_json (sv_llm sv) answers MARKET_ANALYST_SCHEMA_HINT rt)) in
   case fst (run_market_analyst sv answers base rt) of
     Inl e \<Rightarrow> bad_adjustment (sv_text sv) payload e
   | Inr (a, au) \<Rightarrow>
       (\<forall>e. \<not> bad_adjustment (sv_text sv) payload e)
       \<and> \<bar>an_confidence_adjustment a\<bar> \<le> 0.15 \<and> length (an_watchpoints a) \<le> 4 \<and> length (an_event_bias a) \<le> 32
       \<and> mv_market_analyst (merge_market_snapshot base (Some a)) = Some a
       \<and> (if silent (sv_llm sv) answers rt then an_summary a = py_strip (mv_summary base) \<and> an_watchpoints a = []
           \<and> an_confidence_adjustment a = 0 else True)"
proof -
  let ?reply = "fst (invoke_json (sv_llm sv) answers MARKET_ANALYST_SCHEMA_HINT rt)"
  let ?raw = "fields_of (in_payload ?reply)"
  let ?te = "sv_text sv"
  define adj where "adj = (case map_of ?raw ''confidence_adjustment'' of None \<Rightarrow> Inr (Fin 0)
      | Some j \<Rightarrow> if truthy j then py_float ?te j else Inr (Fin 0))"
  have bad: "bad_adjustment ?te (in_payload ?reply) e \<longleftrightarrow> adj = Inl e" for e
    by (simp add: bad_adjustment_def adj_def split: option.split)
  have run: "fst (run_market_analyst sv answers base rt) = rbind adj (\<lambda>x. Inr (
            \<lparr>an_summary = py_strip (text_or ?te ?raw ''summary'' (mv_summary base)),
             an_event_bias = take 32 (py_strip (text_or ?te ?raw ''event_bias'' ''neutral'')),
             an_watchpoints = list_texts ?te ?raw ''watchpoints'' 4,
             an_confidence_adjustment = py_clamp (- 0.15) 0.15 x,
             an_prompt_version = MARKET_ANALYST_PROMPT_VERSION,
             an_source_kind = provider_name (in_source_kind ?reply),
             an_provider_status = status_text (ls_code (in_status ?reply)),
             an_provider_model = ls_model (in_status ?reply),
             an_provider_message = ls_message (in_status ?reply),
             an_market_snapshot_hash = mv_market_snapshot_hash base,
             an_event_digest_hash = mv_event_digest_hash base\<rparr>,
            record_llm_stage ''market_analyst'' MARKET_ANALYST_PROMPT_VERSION (in_status ?reply)
              [(''source_kind'', provider_name (in_source_kind ?reply))] (sv_now sv)))"
    by (simp only: run_market_analyst_def adj_def Let_def split_def fst_conv)
  show ?thesis
  proof (cases adj)
    case (Inl e)
    then show ?thesis unfolding run Let_def bad by simp
  next
    case (Inr x)
    have few: "length (list_texts ?te ?raw ''watchpoints'' 4) \<le> 4"
      by (simp add: list_texts_def split: option.split json.split)
    have quiet: "text_or ?te ?raw ''summary'' (mv_summary base) = mv_summary base
        \<and> list_texts ?te ?raw ''watchpoints'' 4 = [] \<and> x = Fin 0" if "silent (sv_llm sv) answers rt"
    proof -
      have "in_payload ?reply = MARKET_ANALYST_SCHEMA_HINT" using silent_reply [OF that] by blast
      then show ?thesis using Inr
        by (simp add: adj_def fields_of_def MARKET_ANALYST_SCHEMA_HINT_def text_or_def list_texts_def truthy_def nonblank_def)
    qed
    have small: "\<bar>py_clamp (- 0.15) 0.15 x\<bar> \<le> 0.15"
      using py_clamp_bounds [of "- 0.15" "0.15" x] by (intro abs_leI) simp_all
    show ?thesis
      unfolding run Let_def bad Inr
      using few quiet small by (simp add: merge_market_snapshot_def Let_def)
  qed
qed

end
