(* ===== verification/Spec2Isabelle.thy ===== *)
theory Spec2Isabelle
  imports Risk_Manager Enhanced_Risk Review_Gate Streaming_Strategies Vector_Strategies
    Vector_Backtest Backtester Symbols Walk_Forward Market_Profile Strategy_Knowledge
    Strategy_Registry Market_Regime Knowledge_Gate Governance Evidence Proposal_Pool
    Pool_Properties Paper_Pool Paper_Execution Paper_Properties Market_Cache Source_Manager
    LLM_Gateway Runtime_Status Watchdog Agent_Sync Optimizer
    Regime_Detector Macro_Events Event_Stream Quality_Track Live_Readiness HK_Universe
    Provider_Cohorts Long_Horizon Knowledge_Suggestions Universe_Selection Research_Priority
    Payload_Repair LLM_Stages Stage_Properties
begin

text \<open>
  A verification development of OpenHamster, a system that lets a language model propose
  trading strategies, backtests and judges them, and trades the accepted ones on paper.  The
  theories follow the Python packages under \<open>src/src/openhamster\<close>.

  \<^bold>\<open>How a proposal travels.\<close>  The services build a market snapshot (a regime vote over the
  equity of the paper account and the events of the day), ask for blueprints, order and filter
  them by what is known of strategy families, score each one, backtest its strategy, collect
  its evidence and decide: promote, keep or reject.  The promoted proposal is the active one; the
  paper slots hold it and the best candidates, and each slot runs an execution cycle on its
  latest prices.  A health check pauses or rolls back an active strategy that draws down, a
  recovery brings one back, and pruning bounds the pool.

  \<^bold>\<open>Foundations.\<close>
  \<^item> \<open>Prelude\<close>: Python's rounding, sorting and division, errors as the left of a sum, lists.
  \<^item> \<open>Pandas_Series\<close>: series with missing values and the rolling operations the strategies use.
  \<^item> \<open>Py_String\<close>, \<open>Symbols\<close> (\<open>data/symbols.py\<close>): ASCII text, market detection, the exact normal form of
    every market, and the spelling with five digits that keeps a form of its own.
  \<^item> \<open>Dates\<close>: the calendar arithmetic of the walk-forward windows.
  \<^item> \<open>Settings\<close> (\<open>config/settings.py\<close>): the settings classes that are read, with their defaults.

  \<^bold>\<open>Strategies and backtests.\<close>
  \<^item> \<open>Signals\<close>, \<open>Strategy_Base\<close>, \<open>Streaming_Strategies\<close> (\<open>strategy/base_strategy.py\<close>, \<open>ma_cross_strategy.py\<close>,
    \<open>rsi_strategy.py\<close>, \<open>macd_strategy.py\<close>) and \<open>Vector_Strategies\<close> (\<open>mean_reversion.py\<close>,
    \<open>channel_breakout.py\<close>): the signal functions, their warm-up, their causality, their ranges and
    closed forms, and the parameters that have no effect.
  \<^item> \<open>Vector_Backtest\<close> (\<open>backtest/backtest_engine.py\<close>): loading, costs, returns, metrics and the validated
    result; no look-ahead, admissible results, and which runs raise.
  \<^item> \<open>Backtester\<close> (\<open>backtest/backtester.py\<close>): the bar loop; the ledger it keeps.
  \<^item> \<open>Walk_Forward\<close> (\<open>backtest/walk_forward.py\<close>): the rolling windows; they tile the range, and the loop ends
    exactly when the step is positive.
  \<^item> \<open>Optimizer\<close> (\<open>backtest/optimizer.py\<close>): the two grid searches over the bar-loop backtester; they agree on
    the moving averages, and the vectorised strategies never run in them.
  \<^item> \<open>Regime_Detector\<close> (\<open>strategy/regime.py\<close>): directional index and slope; causality, and the silent slope.
  \<^item> \<open>Review_Gate\<close> (\<open>risk/reviewer.py\<close>), \<open>Risk_Manager\<close>, \<open>Enhanced_Risk\<close> (\<open>risk/\<close>): verdicts and the
    signal-by-signal risk rules with their state.

  \<^bold>\<open>Knowledge.\<close>
  \<^item> \<open>Market_Profile\<close> (\<open>market_profile.py\<close>), \<open>Strategy_Knowledge\<close> (\<open>strategy/knowledge.py\<close>): tables.
  \<^item> \<open>Strategy_Registry\<close> (\<open>strategy/plugins.py\<close>, \<open>strategy/factory.py\<close>): the store of plug-ins, an
    interpretation of a keyed-store interface, and the construction of a strategy from a proposal.
  \<^item> \<open>Market_Regime\<close> (\<open>market_regime.py\<close>): the vote and its invariance under the unit of price.
  \<^item> \<open>Knowledge_Gate\<close> (\<open>api/services.py\<close>): preferences in force, the assessment of a blueprint, the ranks.

  \<^bold>\<open>Governance and the pool\<close> (\<open>api/services.py\<close>, \<open>api/models.py\<close>).
  \<^item> \<open>Governance\<close>: the backtest gate, scores, cooldown, the decision and its report; the reasons the
    report lists are exactly the reasons of the decision.
  \<^item> \<open>Evidence\<close>: the evidence pack, the bottom line and the quality report.
  \<^item> \<open>Proposal_Pool\<close>: the proposal rows and all operations on them; \<open>Pool_Properties\<close>: their invariant
    by rule induction over the pool's steps, pruning, pausing and recovery.
  \<^item> \<open>Paper_Pool\<close>: the slots and their assignment, slot by slot; no candidate of a batch is eligible for one.

  \<^bold>\<open>The paper account\<close> (\<open>api/services.py\<close>).
  \<^item> \<open>Paper_Execution\<close>: the tables of a slot and the operations on them; \<open>Paper_Properties\<close>: the
    invariant of the tables, isolation of slots, the refinement of a two-field ledger, the law of
    value, and the ways money appears.

  \<^bold>\<open>Data and operation.\<close>
  \<^item> \<open>Market_Cache\<close> (\<open>data/cache.py\<close>): the table of bars as an interpretation of a price-store interface, and
    fetching through it; what it returns is the market, up to the days the tolerated gaps skip.
  \<^item> \<open>Source_Manager\<close> (\<open>data/source_manager.py\<close>): providers in their order, fallback, latest quotes; the
    refinement of the market holds for the whole manager.
  \<^item> \<open>HK_Universe\<close> (\<open>data/hk_universe.py\<close>): the screens, scores and the ranking of Hong Kong candidates, and
    the memory of failed requests; every candidate that is returned is tradable.
  \<^item> \<open>Universe_Selection\<close> (\<open>api/services.py\<close>): the refresh of the universe and the choice of the research
    symbols from it; what a failed refresh leaves behind.
  \<^item> \<open>Research_Priority\<close> (\<open>api/services.py\<close>): the order in which blueprints are tried on the research
    symbols; evidence lowers a candidate and never raises it.
  \<^item> \<open>Knowledge_Suggestions\<close> (\<open>api/services.py\<close>): the observations of proposals, the suggestions made from
    them and their stages; a second refresh adds no row of its own.
  \<^item> \<open>Macro_Events\<close> (\<open>events/providers.py\<close>): the sentiment of a reading, the series and the provider chain.
  \<^item> \<open>Event_Stream\<close> (\<open>api/services.py\<close>): the macro status, one sync of the events with its fallback, the daily
    digests; the invariant of the stream over any run, and the outage that renews its own context.
  \<^item> \<open>LLM_Gateway\<close> (\<open>llm_gateway.py\<close>): provider, status, and the call with retries and fallback.
  \<^item> \<open>Payload_Repair\<close> (\<open>llm.py\<close>): from the text of an answer to a JSON value; what the extraction and the repair
    keep, and that a printed value is recovered from prose around it.
  \<^item> \<open>LLM_Stages\<close> (\<open>api/services.py\<close>, \<open>prompts/\<close>): the market analyst, the strategy agent, the debate and the
    risk judgment over arbitrary answers; \<open>Stage_Properties\<close>: the form of every blueprint they let
    through, the causes of every error, the fallbacks, and the scores of the risk judgment.
  \<^item> \<open>Runtime_Status\<close> (\<open>api/services.py\<close>, \<open>runtime/scheduler.py\<close>): the pipeline status as a step relation, its
    invariant by rule induction, the count of failures over a sequence of syncs.
  \<^item> \<open>Watchdog\<close> (\<open>watchdog/local_watchdog.py\<close>): one check; its restarts over the status it is shown.

  \<^bold>\<open>One sync.\<close>
  \<^item> \<open>Agent_Sync\<close> (\<open>sync_agent_state\<close> in \<open>api/services.py\<close>): the operations on the pool, the slots and the account
    composed in the order of the code.  A sync that completes is a run of the pool's and the account's
    steps, so their invariants hold after it; so is one that fails, except between a promotion and
    the archival of the strategy it replaces, where an error leaves two active rows.  A slot runs the
    proposal its row was loaded with, which is the previous one when the assignment changes it.

  \<^bold>\<open>Reports.\<close>
  \<^item> \<open>Quality_Track\<close> (\<open>api/services.py\<close>): the track record of a proposal and the ranking of the pool.
  \<^item> \<open>Live_Readiness\<close> (\<open>api/services.py\<close>): acceptance of the paper account, live readiness, its history and
    its change; the readiness reads the track record, whose streak is too short for it.
  \<^item> \<open>Provider_Cohorts\<close> (\<open>api/services.py\<close>): the switch of the model provider and the cohorts of proposals
    between two switches; the cohorts partition the proposals.
  \<^item> \<open>Long_Horizon\<close> (\<open>api/services.py\<close>): the statistics over the syncs, the watchdog, the readiness and the
    paper account; ranges, and the counts they get wrong.

  \<^bold>\<open>Conventions.\<close>  Floating-point numbers are reals (a missing value is its own constructor in
  \<open>Pandas_Series\<close>), Python integers are \<open>int\<close>, a time is a number of seconds since an epoch that
  starts on a Monday, and the day of a time is its quotient by 86400.  Errors are the left side
  of a sum with the exception as a value, or the value \<open>None\<close>.  Loops are structural recursions or folds; the walk-forward
  loop takes fuel, \<open>wf_room\<close> bounds the iterations a positive step needs and a step of zero is
  shown to exhaust every fuel.

  \<^bold>\<open>Parameters.\<close>  Prices, quotes and the data provider, the answers of the language model, the
  outcome of a backtest where the services call it, the optimiser of a walk-forward run and the
  identifiers of new rows are arguments of the definitions that use them.

  \<^bold>\<open>Not modelled.\<close>  The network clients of \<open>data/\<close>, \<open>events/\<close> and \<open>llm.py\<close>, the HTTP layer of \<open>api/app.py\<close>,
  the pydantic response shapes, the SQL of the persistence layer (its tables appear as lists of
  records) and log messages; the texts of the prompts; the list queries and the job queue of the
  services.  Three failures of the database or of an object are left out: two proposals with the
  same title in one answer (a duplicate \<open>run_id\<close>) and two seeds with the same identifier in one sync of
  the events fail at a flush or commit, and the engine's field \<open>data_provider\<close>, which loading sets, is
  not part of its record.  The round trip of \<open>Payload_Repair\<close> is about the extraction; the split at a
  code fence before it is a definition of its own.
\<close>

end
